(* ===== verification/Prelude.thy ===== *)
theory Prelude
  imports Main
begin

text \<open>
  Shared vocabulary of the development.

  Every effectful Go function is modelled by a function on an explicit state,
  \<^verbatim>\<open>'s \<Rightarrow> 'a \<times> 's\<close>.  A Go result \<^verbatim>\<open>error\<close> is an option (\<^verbatim>\<open>None\<close> is Go's \<^verbatim>\<open>nil\<close>), a
  Go result pair \<^verbatim>\<open>(value, error)\<close> of which the caller uses one half only is a sum with
  the error on the left.

  The theory holds the named collections the component proofs draw on, the notion of a
  function preserving a predicate on states, and lemmas on lists, options and strings used
  by more than one component.
\<close>

named_theorems result_defs "constructors of the operation results"
named_theorems kube_lifts "liftings of the client calls to the state of an adapter"
named_theorems trace_simps "the calls recorded by the tracing clients"
named_theorems frame_simps "parts of the state an operation leaves alone"

type_synonym ('s, 'a) effect = "'s \<Rightarrow> 'a \<times> 's"

subsection \<open>Functions that keep a predicate\<close>

definition keeps :: "('s \<Rightarrow> bool) \<Rightarrow> ('s, 'a) effect \<Rightarrow> bool" where
  "keeps P f \<longleftrightarrow> (\<forall>s. P s \<longrightarrow> P (snd (f s)))"

lemma keepsI [intro]: "(\<And>s. P s \<Longrightarrow> P (snd (f s))) \<Longrightarrow> keeps P f"
  by (simp add: keeps_def)

lemma keepsD: "keeps P f \<Longrightarrow> P s \<Longrightarrow> P (snd (f s))"
  by (simp add: keeps_def)

lemma keeps_resultD: "keeps P f \<Longrightarrow> P s \<Longrightarrow> f s = (r, s') \<Longrightarrow> P s'"
  by (metis keepsD snd_conv)

subsection \<open>Slices\<close>

text \<open>
  A Go slice that the code compares with \<^verbatim>\<open>nil\<close> is an option; reading it (a range loop, an
  append, its length) treats \<^verbatim>\<open>nil\<close> as the empty slice.
\<close>

definition elems :: "'a list option \<Rightarrow> 'a list" where
  "elems xs = (case xs of None \<Rightarrow> [] | Some ys \<Rightarrow> ys)"

lemma elems_simps [simp]: "elems None = []" "elems (Some xs) = xs"
  by (simp_all add: elems_def)

lemma filter_neq_idem: "x \<notin> set xs \<Longrightarrow> filter (\<lambda>y. y \<noteq> x) xs = xs"
  by (induction xs) auto

lemma in_set_remove1_distinct: "distinct xs \<Longrightarrow> set (remove1 x xs) = set xs - {x}"
  by (rule set_remove1_eq)

lemma option_neq_None_iff: "x \<noteq> None \<longleftrightarrow> (\<exists>y. x = Some y)"
  by auto

end
