(* ===== verification/GoStd.thy ===== *)
theory GoStd
  imports Prelude "HOL-Library.Word"
begin

unbundle bit_operations_syntax

text \<open>
  The parts of Go's standard library the operator calls: prefix, suffix and substring tests
  of \<^verbatim>\<open>strings\<close>, decimal and hexadecimal formatting of \<^verbatim>\<open>fmt\<close>, \<^verbatim>\<open>base64.StdEncoding\<close>'s
  decoder and \<^verbatim>\<open>crypto/sha256\<close>.  A Go string is a sequence of bytes, here a list of
  \<^verbatim>\<open>char\<close> (a \<^verbatim>\<open>char\<close> of HOL is a byte).
\<close>

subsection \<open>strings\<close>

definition HasPrefix :: "string \<Rightarrow> string \<Rightarrow> bool" where
  "HasPrefix s p \<longleftrightarrow> take (length p) s = p"

definition HasSuffix :: "string \<Rightarrow> string \<Rightarrow> bool" where
  "HasSuffix s p \<longleftrightarrow> length p \<le> length s \<and> drop (length s - length p) s = p"

fun StrContains :: "string \<Rightarrow> string \<Rightarrow> bool" where
  "StrContains [] p \<longleftrightarrow> p = []"
| "StrContains (c # s) p \<longleftrightarrow> HasPrefix (c # s) p \<or> StrContains s p"

definition TrimSuffix :: "string \<Rightarrow> string \<Rightarrow> string" where
  "TrimSuffix s p = (if HasSuffix s p then take (length s - length p) s else s)"

lemma HasPrefix_append [simp]: "HasPrefix (p @ s) p"
  by (simp add: HasPrefix_def)

lemma HasPrefix_iff: "HasPrefix s p \<longleftrightarrow> (\<exists>t. s = p @ t)"
proof
  assume "HasPrefix s p"
  then have "s = p @ drop (length p) s"
    by (metis HasPrefix_def append_take_drop_id)
  then show "\<exists>t. s = p @ t" by blast
next
  assume "\<exists>t. s = p @ t"
  then show "HasPrefix s p" by auto
qed

lemma HasPrefix_Cons [simp]:
  "HasPrefix (c # s) (d # p) \<longleftrightarrow> c = d \<and> HasPrefix s p"
  "HasPrefix s []"
  "\<not> HasPrefix [] (d # p)"
  by (auto simp: HasPrefix_def)

lemma StrContains_iff: "StrContains s p \<longleftrightarrow> (\<exists>u v. s = u @ p @ v)"
proof (induction s)
  case Nil
  then show ?case by simp
next
  case (Cons c s)
  show ?case
  proof
    assume "StrContains (c # s) p"
    then consider "HasPrefix (c # s) p" | "StrContains s p" by auto
    then show "\<exists>u v. c # s = u @ p @ v"
    proof cases
      case 1
      then obtain v where "c # s = [] @ p @ v" by (auto simp: HasPrefix_iff)
      then show ?thesis by blast
    next
      case 2
      with Cons.IH obtain u v where "c # s = (c # u) @ p @ v" by auto
      then show ?thesis by blast
    qed
  next
    assume "\<exists>u v. c # s = u @ p @ v"
    then obtain u v where uv: "c # s = u @ p @ v" by blast
    show "StrContains (c # s) p"
    proof (cases u)
      case Nil
      with uv have "HasPrefix (c # s) p" by (auto simp: HasPrefix_iff)
      then show ?thesis by simp
    next
      case (Cons d u')
      with uv have "s = u' @ p @ v" by simp
      with Cons.IH show ?thesis by auto
    qed
  qed
qed

lemma StrContains_append [simp]: "StrContains s p \<Longrightarrow> StrContains (u @ s @ v) p"
  by (metis StrContains_iff append.assoc)

lemma TrimSuffix_id: "\<not> HasSuffix s p \<Longrightarrow> TrimSuffix s p = s"
  by (simp add: TrimSuffix_def)

lemma TrimSuffix_append [simp]: "TrimSuffix (s @ p) p = s"
  by (simp add: TrimSuffix_def HasSuffix_def)

subsection \<open>fmt\<close>

text \<open>\<^verbatim>\<open>%d\<close> and \<^verbatim>\<open>%v\<close> of an integer that is not negative.\<close>

definition digit_char :: "nat \<Rightarrow> char" where
  "digit_char n = ''0123456789abcdef'' ! n"

fun show_nat :: "nat \<Rightarrow> string" where
  "show_nat n = (if n < 10 then [digit_char n] else show_nat (n div 10) @ [digit_char (n mod 10)])"

declare show_nat.simps [simp del]

text \<open>\<^verbatim>\<open>%x\<close> of a byte slice: two lower-case hexadecimal digits for each byte.\<close>

definition hex_byte :: "8 word \<Rightarrow> string" where
  "hex_byte b = [digit_char (unat b div 16), digit_char (unat b mod 16)]"

definition hex_bytes :: "8 word list \<Rightarrow> string" where
  "hex_bytes bs = concat (map hex_byte bs)"

definition hex_digits :: "char set" where
  "hex_digits = set ''0123456789abcdef''"

lemma digit_char_hex: "n < 16 \<Longrightarrow> digit_char n \<in> hex_digits"
  unfolding digit_char_def hex_digits_def by (rule nth_mem) simp

lemma length_hex_bytes [simp]: "length (hex_bytes bs) = 2 * length bs"
  by (induction bs) (simp_all add: hex_bytes_def hex_byte_def)

lemma set_hex_bytes: "set (hex_bytes bs) \<subseteq> hex_digits"
proof -
  have "set (hex_byte b) \<subseteq> hex_digits" for b
  proof -
    have "unat b < 2 ^ 8" using unsigned_less [of b, where ?'a = nat] by simp
    then have "unat b div 16 < 16" "unat b mod 16 < 16" by auto
    then show ?thesis by (simp add: hex_byte_def digit_char_hex)
  qed
  then show ?thesis by (auto simp: hex_bytes_def)
qed

subsection \<open>encoding/base64\<close>

text \<open>
  \<^verbatim>\<open>base64.StdEncoding.DecodeString\<close>: carriage returns and newlines are skipped, a quantum of
  four characters gives three bytes, the last quantum may be padded, bytes after the padding
  are an error.  The error is \<^verbatim>\<open>CorruptInputError\<close>, the offset of the offending byte.  The
  decoder keeps the offset \<^verbatim>\<open>si\<close> and the values \<^verbatim>\<open>ds\<close> of the quantum read so far.
\<close>

definition b64_alphabet :: string where
  "b64_alphabet = ''ABCDEFGHIJKLMNOPQRSTUVWXYZabcdefghijklmnopqrstuvwxyz0123456789+/''"

fun index_of :: "'a \<Rightarrow> 'a list \<Rightarrow> nat option" where
  "index_of x [] = None"
| "index_of x (y # ys) = (if x = y then Some 0 else map_option Suc (index_of x ys))"

definition b64_newline :: "char \<Rightarrow> bool" where
  "b64_newline c \<longleftrightarrow> c = CHR 0x0A \<or> c = CHR 0x0D"

definition b64_bytes :: "nat list \<Rightarrow> string" where
  "b64_bytes ds =
     (let q = ds @ replicate (4 - length ds) 0;
          val = q ! 0 * 2 ^ 18 + q ! 1 * 2 ^ 12 + q ! 2 * 2 ^ 6 + q ! 3
      in take (length ds - 1)
           [char_of (val div 2 ^ 16 mod 256), char_of (val div 2 ^ 8 mod 256), char_of (val mod 256)])"

fun b64_skip :: "nat \<Rightarrow> string \<Rightarrow> nat \<times> string" where
  "b64_skip si [] = (si, [])"
| "b64_skip si (c # cs) = (if b64_newline c then b64_skip (Suc si) cs else (si, c # cs))"

definition b64_end :: "nat \<Rightarrow> nat list \<Rightarrow> string \<Rightarrow> nat + string" where
  "b64_end si ds cs =
     (case b64_skip si cs of
        (si', []) \<Rightarrow> Inr (b64_bytes ds)
      | (si', _ # _) \<Rightarrow> Inl si')"

definition b64_padding :: "nat \<Rightarrow> nat list \<Rightarrow> string \<Rightarrow> nat + string" where
  "b64_padding si ds cs =
     (if length ds < 2 then Inl (si - 1)
      else if length ds = 2 then
        (case b64_skip si cs of
           (si', []) \<Rightarrow> Inl si'
         | (si', c # cs') \<Rightarrow> if c \<noteq> CHR ''='' then Inl (si' - 1) else b64_end (Suc si') ds cs')
      else b64_end si ds cs)"

fun b64_decode_from :: "nat \<Rightarrow> nat list \<Rightarrow> string \<Rightarrow> nat + string" where
  "b64_decode_from si ds [] = (if ds = [] then Inr [] else Inl (si - length ds))"
| "b64_decode_from si ds (c # cs) =
     (case index_of c b64_alphabet of
        Some v \<Rightarrow>
          if length ds < 3 then b64_decode_from (Suc si) (ds @ [v]) cs
          else map_sum id (\<lambda>out. b64_bytes (ds @ [v]) @ out) (b64_decode_from (Suc si) [] cs)
      | None \<Rightarrow>
          if b64_newline c then b64_decode_from (Suc si) ds cs
          else if c \<noteq> CHR ''='' then Inl si
          else b64_padding (Suc si) ds cs)"

definition b64_DecodeString :: "string \<Rightarrow> nat + string" where
  "b64_DecodeString s = b64_decode_from 0 [] s"

subsection \<open>crypto/sha256\<close>

text \<open>
  SHA-256 as FIPS 180-4 defines it, over 32-bit words: the message is padded to a multiple of
  64 bytes, each block is expanded to a schedule of 64 words and folded into the eight words
  of the digest.
\<close>

type_synonym u8 = "8 word"
type_synonym u32 = "32 word"

text \<open>
  The constants are the first 32 bits of the fractional parts of the cube roots of the first 64
  primes and of the square roots of the first eight; \<^verbatim>\<open>root_from k b n r\<close> is the \<^verbatim>\<open>k\<close>-th root of \<^verbatim>\<open>n\<close>,
  rounded down, found bit by bit from \<^verbatim>\<open>r\<close> with \<^verbatim>\<open>b\<close> bits left.  The roots have less than 36 bits.
\<close>

fun root_from :: "nat \<Rightarrow> nat \<Rightarrow> nat \<Rightarrow> nat \<Rightarrow> nat" where
  "root_from k 0 n r = r"
| "root_from k (Suc b) n r = root_from k b n (if (r + 2 ^ b) ^ k \<le> n then r + 2 ^ b else r)"

definition root_fraction :: "nat \<Rightarrow> nat \<Rightarrow> u32" where
  "root_fraction k p = word_of_nat (root_from k 36 (p * 2 ^ (32 * k)) 0)"

definition sha_primes :: "nat list" where
  "sha_primes = filter (\<lambda>n. 2 \<le> n \<and> list_all (\<lambda>d. n mod d \<noteq> 0) [2..<n]) [0..<312]"

definition sha_K :: "u32 list" where "sha_K = map (root_fraction 3) sha_primes"

definition sha_init :: "u32 list" where
  "sha_init = map (root_fraction 2) [2, 3, 5, 7, 11, 13, 17, 19]"

definition big_endian :: "nat \<Rightarrow> nat \<Rightarrow> u8 list" where
  "big_endian k n = map (\<lambda>i. word_of_nat (n div 256 ^ (k - 1 - i))) [0..<k]"

definition sha_pad :: "u8 list \<Rightarrow> u8 list" where
  "sha_pad bs =
     bs @ [0x80] @ replicate ((119 - length bs mod 64) mod 64) 0 @ big_endian 8 (8 * length bs)"

definition sha_word :: "u8 list \<Rightarrow> u32" where
  "sha_word bs = foldl (\<lambda>w b. push_bit 8 w OR ucast b) 0 bs"

fun chunks :: "nat \<Rightarrow> 'a list \<Rightarrow> 'a list list" where
  "chunks n xs = (if n = 0 \<or> xs = [] then [] else take n xs # chunks n (drop n xs))"

declare chunks.simps [simp del]

definition rotr :: "nat \<Rightarrow> u32 \<Rightarrow> u32" where
  "rotr n x = word_rotr n x"

definition sha_extend :: "u32 list \<Rightarrow> u32 list" where
  "sha_extend ws =
     (let n = length ws;
          w15 = ws ! (n - 15); w2 = ws ! (n - 2);
          s0 = rotr 7 w15 XOR rotr 18 w15 XOR drop_bit 3 w15;
          s1 = rotr 17 w2 XOR rotr 19 w2 XOR drop_bit 10 w2
      in ws @ [ws ! (n - 16) + s0 + ws ! (n - 7) + s1])"

definition sha_schedule :: "u8 list \<Rightarrow> u32 list" where
  "sha_schedule block = (sha_extend ^^ 48) (map sha_word (chunks 4 block))"

fun sha_round :: "u32 list \<Rightarrow> u32 \<times> u32 \<Rightarrow> u32 list" where
  "sha_round [a, b, c, d, e, f, g, h] (k, w) =
     (let s1 = rotr 6 e XOR rotr 11 e XOR rotr 25 e;
          ch = (e AND f) XOR (NOT e AND g);
          t1 = h + s1 + ch + k + w;
          s0 = rotr 2 a XOR rotr 13 a XOR rotr 22 a;
          maj = (a AND b) XOR (a AND c) XOR (b AND c);
          t2 = s0 + maj
      in [t1 + t2, a, b, c, d + t1, e, f, g])"
| "sha_round hs _ = hs"

definition sha_block :: "u32 list \<Rightarrow> u8 list \<Rightarrow> u32 list" where
  "sha_block hs block = map2 (+) hs (foldl sha_round hs (zip sha_K (sha_schedule block)))"

definition sha256 :: "u8 list \<Rightarrow> u8 list" where
  "sha256 bs =
     concat (map (\<lambda>w. big_endian 4 (unat w)) (foldl sha_block sha_init (chunks 64 (sha_pad bs))))"

definition bytes_of_string :: "string \<Rightarrow> u8 list" where
  "bytes_of_string s = map (\<lambda>c. word_of_nat (of_char c)) s"

text \<open>Go's \<^verbatim>\<open>Sum\<close> always yields 32 bytes: the fold keeps the eight words of the digest.\<close>

lemma length_big_endian [simp]: "length (big_endian k n) = k"
  by (simp add: big_endian_def)

lemma length_sha_round [simp]: "length (sha_round hs kw) = length hs"
  by (cases "(hs, kw)" rule: sha_round.cases) (simp_all add: Let_def)

lemma length_fold_sha_round [simp]: "length (foldl sha_round hs kws) = length hs"
  by (induction kws arbitrary: hs) simp_all

lemma length_sha_block [simp]: "length (sha_block hs block) = length hs"
  by (simp add: sha_block_def)

lemma length_fold_sha_block [simp]: "length (foldl sha_block hs blocks) = length hs"
  by (induction blocks arbitrary: hs) simp_all

lemma length_sha256 [simp]: "length (sha256 bs) = 32"
proof -
  have "length (concat (map (\<lambda>w. big_endian 4 (unat w)) ws)) = 4 * length ws" for ws :: "u32 list"
    by (induction ws) simp_all
  then show ?thesis by (simp add: sha256_def sha_init_def)
qed

end
