(* ===== verification/OpErrors.thy ===== *)
theory OpErrors
  imports GoStd
begin

text \<open>
  Errors: the package \<^verbatim>\<open>pkg/util/errors\<close> and the error values of the client libraries that the
  operator inspects.

  A sentinel is a package-level variable and is compared by identity, so two sentinels with
  the same text are different errors.  \<^verbatim>\<open>GoogleAPIError\<close> is a \<^verbatim>\<open>*googleapi.Error\<close> (its code and
  the text its \<^verbatim>\<open>Error\<close> method gives), \<^verbatim>\<open>KubeStatusError\<close> an error of the API machinery (its
  reason and its text), \<^verbatim>\<open>PlainError\<close> any error known by its text alone (\<^verbatim>\<open>fmt.Errorf\<close> with
  \<^verbatim>\<open>%v\<close>, errors of other libraries), \<^verbatim>\<open>WrappedError\<close> what \<^verbatim>\<open>fmt.Errorf\<close> makes of \<^verbatim>\<open>%w\<close>.
\<close>

datatype sentinel =
    ErrRegionNotSupported
  | ErrNotGCPCluster
  | ErrNotManagedCluster
  | ErrClusterInstalled
  | ErrMissingProjectID
  | ErrMissingRegion
  | ErrInactiveProject
  | ErrUnexpectedLifecycleState
  | ErrProjectRefCCSSecretRefNamespaceMismatch
  | ErrCCSSecretRefNamespaceMismatch
  | ErrGCPCredentialSecretNamespaceMismatch

datatype kube_reason = NotFound | AlreadyExists | Conflict | OtherReason string

datatype err =
    Sentinel sentinel
  | GoogleAPIError int string
  | KubeStatusError kube_reason string
  | PlainError string
  | WrappedError string err

fun sentinel_text :: "sentinel \<Rightarrow> string" where
  "sentinel_text ErrRegionNotSupported = ''RegionNotSupported''"
| "sentinel_text ErrNotGCPCluster = ''NotGCPCluster''"
| "sentinel_text ErrNotManagedCluster = ''NotManagedCluster''"
| "sentinel_text ErrClusterInstalled = ''ClusterInstalled''"
| "sentinel_text ErrMissingProjectID = ''MissingProjectID''"
| "sentinel_text ErrMissingRegion = ''MissingRegion''"
| "sentinel_text ErrInactiveProject = ''InactiveProject''"
| "sentinel_text ErrUnexpectedLifecycleState = ''UnexpectedLifecycleState''"
| "sentinel_text ErrProjectRefCCSSecretRefNamespaceMismatch =
     ''ccsSecretRef.namespace must match the ProjectClaim namespace''"
| "sentinel_text ErrCCSSecretRefNamespaceMismatch =
     ''ccsSecretRef.namespace must match the ProjectClaim namespace''"
| "sentinel_text ErrGCPCredentialSecretNamespaceMismatch =
     ''gcpCredentialSecret.namespace must match the ProjectClaim namespace''"

text \<open>The method \<^verbatim>\<open>Error\<close> of an error value.\<close>

fun error_text :: "err \<Rightarrow> string" where
  "error_text (Sentinel s) = sentinel_text s"
| "error_text (GoogleAPIError code txt) = txt"
| "error_text (KubeStatusError reason txt) = txt"
| "error_text (PlainError txt) = txt"
| "error_text (WrappedError prefix e) = prefix @ error_text e"

text \<open>\<^verbatim>\<open>fmt.Errorf\<close> with a text and \<^verbatim>\<open>%v\<close> of an error: only the text survives.\<close>

definition Errorf_v :: "string \<Rightarrow> err \<Rightarrow> err" where
  "Errorf_v prefix e = PlainError (prefix @ error_text e)"

text \<open>The function \<^verbatim>\<open>IsNotFound\<close> of the API machinery looks through wrapped errors.\<close>

fun IsNotFound :: "err \<Rightarrow> bool" where
  "IsNotFound (KubeStatusError reason txt) \<longleftrightarrow> reason = NotFound"
| "IsNotFound (WrappedError prefix e) \<longleftrightarrow> IsNotFound e"
| "IsNotFound (Sentinel s) \<longleftrightarrow> False"
| "IsNotFound (GoogleAPIError code txt) \<longleftrightarrow> False"
| "IsNotFound (PlainError txt) \<longleftrightarrow> False"

text \<open>
  The type assertion \<^verbatim>\<open>err.(*googleapi.Error)\<close> with a test of the code: it does not look
  through wrapped errors.
\<close>

fun google_code :: "err \<Rightarrow> int option" where
  "google_code (GoogleAPIError code txt) = Some code"
| "google_code (Sentinel s) = None"
| "google_code (KubeStatusError reason txt) = None"
| "google_code (PlainError txt) = None"
| "google_code (WrappedError prefix e) = None"

definition StatusForbidden :: int where "StatusForbidden = 403"
definition StatusConflict :: int where "StatusConflict = 409"

subsection \<open>Wrap\<close>

text \<open>
  \<^verbatim>\<open>getCallerInfo\<close> asks the Go runtime for the frame of the caller of \<^verbatim>\<open>Wrap\<close>; the answer (none,
  or a file, a line and a function name) is an argument here.  A call site passes its own
  position, with the path relative to the repository.
\<close>

datatype caller = Caller string nat string

fun getCallerInfo :: "caller option \<Rightarrow> string \<times> nat \<times> string" where
  "getCallerInfo None = (''?'', 0, ''?'')"
| "getCallerInfo (Some (Caller file line fn)) = (file, line, fn)"

definition wrap_prefix :: "caller option \<Rightarrow> string \<Rightarrow> string" where
  "wrap_prefix c message =
     (case getCallerInfo c of
        (f, l, fn) \<Rightarrow>
          ''file: '' @ f @ '' '' @ [CHR 0x0A] @ ''Line: '' @ show_nat l @ '' '' @ [CHR 0x0A] @
          ''Caller: '' @ fn @ '' '' @ [CHR 0x0A] @ ''Message: '' @ message @ '' '' @ [CHR 0x0A])"

definition Wrap :: "caller option \<Rightarrow> err option \<Rightarrow> string \<Rightarrow> err option" where
  "Wrap c e message =
     (case e of None \<Rightarrow> None | Some e' \<Rightarrow> Some (WrappedError (wrap_prefix c message) e'))"

text \<open>\<^verbatim>\<open>Wrap\<close> of an error known not to be nil.\<close>

definition wrapped :: "caller option \<Rightarrow> err \<Rightarrow> string \<Rightarrow> err" where
  "wrapped c e message = WrappedError (wrap_prefix c message) e"

lemma Wrap_simps [simp]:
  "Wrap c None message = None"
  "Wrap c (Some e) message = Some (wrapped c e message)"
  by (simp_all add: Wrap_def wrapped_def)

lemma IsNotFound_wrapped [simp]: "IsNotFound (wrapped c e message) = IsNotFound e"
  by (simp add: wrapped_def)

lemma google_code_wrapped [simp]: "google_code (wrapped c e message) = None"
  by (simp add: wrapped_def)

lemma wrapped_neq_Sentinel [simp]: "wrapped c e message \<noteq> Sentinel s"
  by (simp add: wrapped_def)

lemma wrapped_text: "error_text (wrapped c e message) = wrap_prefix c message @ error_text e"
  by (simp add: wrapped_def)

text \<open>A wrapped error's text begins with the file, so no test of a prefix of the original sees it.\<close>

lemma wrapped_text_prefix: "\<exists>t. error_text (wrapped c e message) = ''file: '' @ t"
  by (cases "getCallerInfo c") (auto simp: wrapped_text wrap_prefix_def)

end
