(* ===== verification/ApiTypes.thy ===== *)
theory ApiTypes
  imports OpErrors
begin

text \<open>
  The custom resources of \<^verbatim>\<open>api/v1alpha1\<close> (ProjectClaim, ProjectReference, their conditions and
  constants, \<^verbatim>\<open>Validate\<close>) and the Kubernetes objects the operator handles besides them
  (Secret, ConfigMap).  A record has the fields of its Go struct; the type metadata of the
  custom resources, which the code never reads, is left out.  A time is the number of
  nanoseconds since Go's zero time, a duration a number of nanoseconds.
\<close>

subsection \<open>common_types.go\<close>

record LegalEntity =
  le_Name :: string
  le_ID :: string

record NamespacedName =
  nn_Namespace :: string
  nn_Name :: string

type_synonym time = int
type_synonym duration = int

definition Second :: duration where "Second = 1000000000"
definition Minute :: duration where "Minute = 60 * Second"

record Condition =
  c_Type :: string
  c_Status :: string
  c_LastProbeTime :: time
  c_LastTransitionTime :: time
  c_Reason :: string
  c_Message :: string

definition ConditionReady :: string where "ConditionReady = ''Ready''"
definition ConditionPending :: string where "ConditionPending = ''Pending''"
definition ConditionVerification :: string where "ConditionVerification = ''Verification''"
definition ConditionError :: string where "ConditionError = ''Error''"
definition ConditionInvalid :: string where "ConditionInvalid = ''Invalid''"
definition ConditionComputeApiReady :: string where "ConditionComputeApiReady = ''ComputeApiReady''"

text \<open>The values of the type \<^verbatim>\<open>ConditionStatus\<close> of the core API that the code uses.\<close>

definition ConditionTrue :: string where "ConditionTrue = ''True''"
definition ConditionFalse :: string where "ConditionFalse = ''False''"

lemma condition_type_distinct [simp]:
  "ConditionError \<noteq> ConditionInvalid" "ConditionInvalid \<noteq> ConditionError"
  "ConditionError \<noteq> ConditionComputeApiReady" "ConditionComputeApiReady \<noteq> ConditionError"
  "ConditionInvalid \<noteq> ConditionComputeApiReady" "ConditionComputeApiReady \<noteq> ConditionInvalid"
  "ConditionTrue \<noteq> ConditionFalse" "ConditionFalse \<noteq> ConditionTrue"
  by (simp_all add: ConditionError_def ConditionInvalid_def ConditionComputeApiReady_def
      ConditionTrue_def ConditionFalse_def)

subsection \<open>Object metadata\<close>

record ObjectMeta =
  om_Name :: string
  om_Namespace :: string
  om_Annotations :: "string \<rightharpoonup> string"
  om_Finalizers :: "string list"
  om_DeletionTimestamp :: "time option"
  om_ResourceVersion :: string

subsection \<open>projectclaim_types.go\<close>

record ProjectClaimSpec =
  pcs_LegalEntity :: LegalEntity
  pcs_GCPCredentialSecret :: NamespacedName
  pcs_Region :: string
  pcs_GCPProjectID :: string
  pcs_ProjectReferenceCRLink :: NamespacedName
  pcs_AvailabilityZones :: "string list"
  pcs_CCS :: bool
  pcs_CCSSecretRef :: NamespacedName
  pcs_CCSProjectID :: string
  pcs_SharedVPCAccess :: bool

definition ClaimStatusPending :: string where "ClaimStatusPending = ''Pending''"
definition ClaimStatusPendingProject :: string where "ClaimStatusPendingProject = ''PendingProject''"
definition ClaimStatusReady :: string where "ClaimStatusReady = ''Ready''"
definition ClaimStatusError :: string where "ClaimStatusError = ''Error''"
definition ClaimStatusVerification :: string where "ClaimStatusVerification = ''Verification''"

lemma claim_status_distinct [simp]:
  "ClaimStatusPending \<noteq> ClaimStatusPendingProject" "ClaimStatusPendingProject \<noteq> ClaimStatusPending"
  "ClaimStatusPending \<noteq> ClaimStatusReady" "ClaimStatusReady \<noteq> ClaimStatusPending"
  "ClaimStatusPending \<noteq> ClaimStatusError" "ClaimStatusError \<noteq> ClaimStatusPending"
  "ClaimStatusPendingProject \<noteq> ClaimStatusReady" "ClaimStatusReady \<noteq> ClaimStatusPendingProject"
  "ClaimStatusPendingProject \<noteq> ClaimStatusError" "ClaimStatusError \<noteq> ClaimStatusPendingProject"
  "ClaimStatusReady \<noteq> ClaimStatusError" "ClaimStatusError \<noteq> ClaimStatusReady"
  "ClaimStatusPending \<noteq> ''''" "ClaimStatusPendingProject \<noteq> ''''"
  "ClaimStatusReady \<noteq> ''''" "ClaimStatusError \<noteq> ''''"
  "'''' \<noteq> ClaimStatusPending" "'''' \<noteq> ClaimStatusPendingProject"
  "'''' \<noteq> ClaimStatusReady" "'''' \<noteq> ClaimStatusError"
  by (simp_all add: ClaimStatusPending_def ClaimStatusPendingProject_def ClaimStatusReady_def
      ClaimStatusError_def)

record ProjectClaimStatus =
  pct_Conditions :: "Condition list option"
  pct_State :: string

record ProjectClaim =
  pc_Meta :: ObjectMeta
  pc_Spec :: ProjectClaimSpec
  pc_Status :: ProjectClaimStatus

abbreviation "pc_Name c \<equiv> om_Name (pc_Meta c)"
abbreviation "pc_Namespace c \<equiv> om_Namespace (pc_Meta c)"
abbreviation "pc_State c \<equiv> pct_State (pc_Status c)"
abbreviation "pc_Conditions c \<equiv> pct_Conditions (pc_Status c)"

definition set_claim_state :: "string \<Rightarrow> ProjectClaim \<Rightarrow> ProjectClaim" where
  "set_claim_state st c = c\<lparr>pc_Status := (pc_Status c)\<lparr>pct_State := st\<rparr>\<rparr>"

definition set_claim_conditions :: "Condition list option \<Rightarrow> ProjectClaim \<Rightarrow> ProjectClaim" where
  "set_claim_conditions cs c = c\<lparr>pc_Status := (pc_Status c)\<lparr>pct_Conditions := cs\<rparr>\<rparr>"

lemma claim_setters [simp]:
  "pc_State (set_claim_state st c) = st"
  "pc_Conditions (set_claim_state st c) = pc_Conditions c"
  "pc_Meta (set_claim_state st c) = pc_Meta c"
  "pc_Spec (set_claim_state st c) = pc_Spec c"
  "pc_State (set_claim_conditions cs c) = pc_State c"
  "pc_Conditions (set_claim_conditions cs c) = cs"
  "pc_Meta (set_claim_conditions cs c) = pc_Meta c"
  "pc_Spec (set_claim_conditions cs c) = pc_Spec c"
  by (simp_all add: set_claim_state_def set_claim_conditions_def)

text \<open>\<^verbatim>\<open>(*ProjectClaim).Validate\<close>: \<^verbatim>\<open>None\<close> is nil.\<close>

definition ProjectClaim_Validate :: "ProjectClaim \<Rightarrow> err option" where
  "ProjectClaim_Validate p =
     (let ns = pc_Namespace p; spec = pc_Spec p in
      if pcs_CCS spec \<and> nn_Namespace (pcs_CCSSecretRef spec) \<noteq> ''''
           \<and> nn_Namespace (pcs_CCSSecretRef spec) \<noteq> ns
      then Some (Sentinel ErrCCSSecretRefNamespaceMismatch)
      else if nn_Namespace (pcs_GCPCredentialSecret spec) \<noteq> ''''
           \<and> nn_Namespace (pcs_GCPCredentialSecret spec) \<noteq> ns
      then Some (Sentinel ErrGCPCredentialSecretNamespaceMismatch)
      else None)"

subsection \<open>projectreference_types.go\<close>

record ProjectReferenceSpec =
  prs_GCPProjectID :: string
  prs_ProjectClaimCRLink :: NamespacedName
  prs_LegalEntity :: LegalEntity
  prs_CCS :: bool
  prs_CCSSecretRef :: NamespacedName
  prs_ServiceAccountName :: string
  prs_SharedVPCAccess :: bool

definition ProjectReferenceNamespace :: string where
  "ProjectReferenceNamespace = ''gcp-project-operator''"

definition ProjectReferenceStatusCreating :: string where "ProjectReferenceStatusCreating = ''Creating''"
definition ProjectReferenceStatusReady :: string where "ProjectReferenceStatusReady = ''Ready''"
definition ProjectReferenceStatusError :: string where "ProjectReferenceStatusError = ''Error''"
definition ProjectReferenceStatusVerification :: string where
  "ProjectReferenceStatusVerification = ''Verification''"

lemma reference_status_distinct [simp]:
  "ProjectReferenceStatusCreating \<noteq> ProjectReferenceStatusReady"
  "ProjectReferenceStatusReady \<noteq> ProjectReferenceStatusCreating"
  "ProjectReferenceStatusCreating \<noteq> ProjectReferenceStatusError"
  "ProjectReferenceStatusError \<noteq> ProjectReferenceStatusCreating"
  "ProjectReferenceStatusReady \<noteq> ProjectReferenceStatusError"
  "ProjectReferenceStatusError \<noteq> ProjectReferenceStatusReady"
  "ProjectReferenceStatusCreating \<noteq> ''''" "ProjectReferenceStatusReady \<noteq> ''''"
  "ProjectReferenceStatusError \<noteq> ''''"
  "'''' \<noteq> ProjectReferenceStatusCreating" "'''' \<noteq> ProjectReferenceStatusReady"
  "'''' \<noteq> ProjectReferenceStatusError"
  by (simp_all add: ProjectReferenceStatusCreating_def ProjectReferenceStatusReady_def
      ProjectReferenceStatusError_def)

record ProjectReferenceStatus =
  prt_Conditions :: "Condition list option"
  prt_State :: string

record ProjectReference =
  pr_Meta :: ObjectMeta
  pr_Spec :: ProjectReferenceSpec
  pr_Status :: ProjectReferenceStatus

abbreviation "pr_Name c \<equiv> om_Name (pr_Meta c)"
abbreviation "pr_Namespace c \<equiv> om_Namespace (pr_Meta c)"
abbreviation "pr_State c \<equiv> prt_State (pr_Status c)"
abbreviation "pr_Conditions c \<equiv> prt_Conditions (pr_Status c)"

definition set_reference_state :: "string \<Rightarrow> ProjectReference \<Rightarrow> ProjectReference" where
  "set_reference_state st r = r\<lparr>pr_Status := (pr_Status r)\<lparr>prt_State := st\<rparr>\<rparr>"

definition set_reference_conditions :: "Condition list option \<Rightarrow> ProjectReference \<Rightarrow> ProjectReference" where
  "set_reference_conditions cs r = r\<lparr>pr_Status := (pr_Status r)\<lparr>prt_Conditions := cs\<rparr>\<rparr>"

lemma reference_setters [simp]:
  "pr_State (set_reference_state st r) = st"
  "pr_Conditions (set_reference_state st r) = pr_Conditions r"
  "pr_Meta (set_reference_state st r) = pr_Meta r"
  "pr_Spec (set_reference_state st r) = pr_Spec r"
  "pr_State (set_reference_conditions cs r) = pr_State r"
  "pr_Conditions (set_reference_conditions cs r) = cs"
  "pr_Meta (set_reference_conditions cs r) = pr_Meta r"
  "pr_Spec (set_reference_conditions cs r) = pr_Spec r"
  by (simp_all add: set_reference_state_def set_reference_conditions_def)

text \<open>\<^verbatim>\<open>(*ProjectReference).Validate\<close>.\<close>

definition ProjectReference_Validate :: "ProjectReference \<Rightarrow> err option" where
  "ProjectReference_Validate p =
     (let spec = pr_Spec p; claimNS = nn_Namespace (prs_ProjectClaimCRLink spec) in
      if prs_CCS spec \<and> nn_Namespace (prs_CCSSecretRef spec) \<noteq> ''''
           \<and> nn_Namespace (prs_CCSSecretRef spec) \<noteq> claimNS
      then Some (Sentinel ErrProjectRefCCSSecretRefNamespaceMismatch)
      else None)"

subsection \<open>Secrets and config maps\<close>

record Secret =
  s_Kind :: string
  s_APIVersion :: string
  s_Meta :: ObjectMeta
  s_Type :: string
  s_Data :: "string \<rightharpoonup> string"

record ConfigMap =
  cm_Meta :: ObjectMeta
  cm_Data :: "string \<rightharpoonup> string"

text \<open>Zero values, and the metadata of an object the code creates with a name and a namespace.\<close>

definition new_meta :: "string \<Rightarrow> string \<Rightarrow> ObjectMeta" where
  "new_meta name ns = \<lparr>om_Name = name, om_Namespace = ns, om_Annotations = Map.empty,
     om_Finalizers = [], om_DeletionTimestamp = None, om_ResourceVersion = ''''\<rparr>"

lemma new_meta_simps [simp]:
  "om_Name (new_meta name ns) = name"
  "om_Namespace (new_meta name ns) = ns"
  "om_Annotations (new_meta name ns) = Map.empty"
  "om_Finalizers (new_meta name ns) = []"
  "om_DeletionTimestamp (new_meta name ns) = None"
  "om_ResourceVersion (new_meta name ns) = ''''"
  by (simp_all add: new_meta_def)

subsection \<open>What Validate promises\<close>

text \<open>
  The namespaces of secrets a claim may refer to: its own, or none.  \<^verbatim>\<open>Validate\<close> accepts a claim
  exactly when the references it checks stay there.
\<close>

definition own_namespace :: "string \<Rightarrow> NamespacedName \<Rightarrow> bool" where
  "own_namespace ns r \<longleftrightarrow> nn_Namespace r = '''' \<or> nn_Namespace r = ns"

lemma ProjectClaim_Validate_None:
  "ProjectClaim_Validate c = None \<longleftrightarrow>
     (pcs_CCS (pc_Spec c) \<longrightarrow> own_namespace (pc_Namespace c) (pcs_CCSSecretRef (pc_Spec c))) \<and>
     own_namespace (pc_Namespace c) (pcs_GCPCredentialSecret (pc_Spec c))"
  by (auto simp: ProjectClaim_Validate_def own_namespace_def Let_def)

lemma ProjectReference_Validate_None:
  "ProjectReference_Validate r = None \<longleftrightarrow>
     (prs_CCS (pr_Spec r) \<longrightarrow>
        own_namespace (nn_Namespace (prs_ProjectClaimCRLink (pr_Spec r))) (prs_CCSSecretRef (pr_Spec r)))"
  by (auto simp: ProjectReference_Validate_def own_namespace_def Let_def)

end
