(* ===== verification/OperationResult.thy ===== *)
theory OperationResult
  imports ApiTypes
begin

text \<open>
  \<^verbatim>\<open>pkg/util/reconclile_operation.go\<close>: the outcome of one reconcile operation, and the loop over
  operations that the two \<^verbatim>\<open>ReconcileHandler\<close>s share.
\<close>

record OperationResult =
  RequeueDelay :: duration
  RequeueRequest :: bool
  CancelRequest :: bool

type_synonym outcome = "OperationResult \<times> err option"

definition RequeueOrCancel :: "OperationResult \<Rightarrow> bool" where
  "RequeueOrCancel r \<longleftrightarrow> RequeueRequest r \<or> CancelRequest r"

definition ContinueOperationResult :: OperationResult where
  "ContinueOperationResult = \<lparr>RequeueDelay = 0, RequeueRequest = False, CancelRequest = False\<rparr>"

definition StopOperationResult :: OperationResult where
  "StopOperationResult = \<lparr>RequeueDelay = 0, RequeueRequest = False, CancelRequest = True\<rparr>"

definition StopProcessing :: outcome where
  "StopProcessing = (StopOperationResult, None)"

definition Requeue :: outcome where
  "Requeue = (\<lparr>RequeueDelay = 0, RequeueRequest = True, CancelRequest = False\<rparr>, None)"

definition RequeueWithError :: "err option \<Rightarrow> outcome" where
  "RequeueWithError errIn = (\<lparr>RequeueDelay = 0, RequeueRequest = True, CancelRequest = False\<rparr>, errIn)"

definition RequeueOnErrorOrStop :: "err option \<Rightarrow> outcome" where
  "RequeueOnErrorOrStop errIn = (\<lparr>RequeueDelay = 0, RequeueRequest = False, CancelRequest = True\<rparr>, errIn)"

definition RequeueOnErrorOrContinue :: "err option \<Rightarrow> outcome" where
  "RequeueOnErrorOrContinue errIn =
     (\<lparr>RequeueDelay = 0, RequeueRequest = False, CancelRequest = False\<rparr>, errIn)"

definition RequeueAfter :: "duration \<Rightarrow> err option \<Rightarrow> outcome" where
  "RequeueAfter delay errIn =
     (\<lparr>RequeueDelay = delay, RequeueRequest = True, CancelRequest = False\<rparr>, errIn)"

definition ContinueProcessing :: outcome where
  "ContinueProcessing = (ContinueOperationResult, None)"

lemmas outcome_defs [result_defs] =
  StopOperationResult_def ContinueOperationResult_def StopProcessing_def Requeue_def
  RequeueWithError_def RequeueOnErrorOrStop_def RequeueOnErrorOrContinue_def RequeueAfter_def
  ContinueProcessing_def RequeueOrCancel_def

text \<open>An outcome lets the loop go on when it has no error and asks neither to requeue nor to stop.\<close>

definition goes_on :: "outcome \<Rightarrow> bool" where
  "goes_on r \<longleftrightarrow> snd r = None \<and> \<not> RequeueOrCancel (fst r)"

lemma goes_on_simps [simp]:
  "goes_on ContinueProcessing"
  "\<not> goes_on StopProcessing"
  "\<not> goes_on Requeue"
  "\<not> goes_on (RequeueWithError e)"
  "\<not> goes_on (RequeueOnErrorOrStop e)"
  "\<not> goes_on (RequeueAfter d e)"
  "goes_on (RequeueOnErrorOrContinue e) \<longleftrightarrow> e = None"
  by (simp_all add: goes_on_def result_defs)

lemma outcome_parts [simp]:
  "snd ContinueProcessing = None" "snd StopProcessing = None" "snd Requeue = None"
  "snd (RequeueWithError e) = e" "snd (RequeueOnErrorOrStop e) = e"
  "snd (RequeueOnErrorOrContinue e) = e" "snd (RequeueAfter d e) = e"
  "RequeueRequest (fst (RequeueWithError e))" "RequeueRequest (fst (RequeueAfter d e))"
  "RequeueRequest (fst Requeue)" "\<not> RequeueRequest (fst ContinueProcessing)"
  "\<not> RequeueRequest (fst StopProcessing)" "\<not> RequeueRequest (fst (RequeueOnErrorOrStop e))"
  "\<not> RequeueRequest (fst (RequeueOnErrorOrContinue e))"
  "RequeueDelay (fst (RequeueAfter d e)) = d" "RequeueDelay (fst (RequeueWithError e)) = 0"
  "RequeueDelay (fst Requeue) = 0"
  "CancelRequest (fst StopProcessing)" "CancelRequest (fst (RequeueOnErrorOrStop e))"
  "\<not> CancelRequest (fst ContinueProcessing)"
  "\<not> CancelRequest (fst (RequeueOnErrorOrContinue e))"
  by (simp_all add: result_defs)

subsection \<open>The loop of ReconcileHandler\<close>

text \<open>
  \<^verbatim>\<open>ctrl.Result\<close> of controller-runtime.  The work queue runs the request again when the error is
  not nil, when \<^verbatim>\<open>RequeueAfter\<close> is positive or when \<^verbatim>\<open>Requeue\<close> is set; otherwise the request is
  forgotten.
\<close>

record ctrl_Result =
  cr_Requeue :: bool
  cr_RequeueAfter :: duration

definition empty_Result :: ctrl_Result where
  "empty_Result = \<lparr>cr_Requeue = False, cr_RequeueAfter = 0\<rparr>"

definition runs_again :: "ctrl_Result \<times> err option \<Rightarrow> bool" where
  "runs_again r \<longleftrightarrow> snd r \<noteq> None \<or> 0 < cr_RequeueAfter (fst r) \<or> cr_Requeue (fst r)"

fun run_operations ::
  "('s, outcome) effect list \<Rightarrow> ('s, ctrl_Result \<times> err option) effect" where
  "run_operations [] s = ((empty_Result, None), s)"
| "run_operations (operation # operations) s =
     (case operation s of
        ((result, e), s') \<Rightarrow>
          if e \<noteq> None \<or> RequeueRequest result
          then ((\<lparr>cr_Requeue = False, cr_RequeueAfter = RequeueDelay result\<rparr>, e), s')
          else if CancelRequest result then ((empty_Result, None), s')
          else run_operations operations s')"

lemma run_operations_step:
  "goes_on (fst (operation s)) \<Longrightarrow>
     run_operations (operation # operations) s = run_operations operations (snd (operation s))"
  by (cases "operation s"; cases "fst (operation s)") (auto simp: goes_on_def RequeueOrCancel_def)

text \<open>The result of the loop when an operation ends it.\<close>

definition handler_result :: "outcome \<Rightarrow> ctrl_Result \<times> err option" where
  "handler_result r =
     (if snd r \<noteq> None \<or> RequeueRequest (fst r)
      then (\<lparr>cr_Requeue = False, cr_RequeueAfter = RequeueDelay (fst r)\<rparr>, snd r)
      else (empty_Result, None))"

lemma run_operations_exit:
  "\<not> goes_on (fst (operation s)) \<Longrightarrow>
     run_operations (operation # operations) s
       = (handler_result (fst (operation s)), snd (operation s))"
  by (cases "operation s"; cases "fst (operation s)")
    (auto simp: goes_on_def RequeueOrCancel_def handler_result_def)

lemma run_operations_Cons [simp]:
  "run_operations (operation # operations) s =
     (if goes_on (fst (operation s)) then run_operations operations (snd (operation s))
      else (handler_result (fst (operation s)), snd (operation s)))"
  by (cases "goes_on (fst (operation s))")
    (simp_all add: run_operations_step run_operations_exit del: run_operations.simps)

declare run_operations.simps(2) [simp del]

text \<open>
  The contract of a list of operations, by stages: in \<^verbatim>\<open>I i\<close> operation number \<^verbatim>\<open>i\<close> is about to run;
  whatever it does it ends in \<^verbatim>\<open>J\<close>, and if it goes on the next stage holds.  The loop then ends
  in \<^verbatim>\<open>J\<close>.
\<close>

locale staged_operations =
  fixes operations :: "('s, outcome) effect list"
    and I :: "nat \<Rightarrow> 's \<Rightarrow> bool"
    and J :: "'s \<Rightarrow> bool"
  assumes stage_ends: "i < length operations \<Longrightarrow> I i s \<Longrightarrow> J (snd ((operations ! i) s))"
    and stage_goes_on: "i < length operations \<Longrightarrow> I i s \<Longrightarrow> goes_on (fst ((operations ! i) s)) \<Longrightarrow>
      I (Suc i) (snd ((operations ! i) s))"
    and last_stage: "I (length operations) s \<Longrightarrow> J s"
begin

lemma rest_ends: "i \<le> length operations \<Longrightarrow> I i s \<Longrightarrow> J (snd (run_operations (drop i operations) s))"
proof (induction "length operations - i" arbitrary: i s)
  case 0
  then show ?case by (simp add: last_stage)
next
  case (Suc n)
  then have i: "i < length operations" by arith
  let ?op = "operations ! i"
  have "J (snd (run_operations (drop (Suc i) operations) (snd (?op s))))" if "goes_on (fst (?op s))"
    using Suc i stage_goes_on [OF i \<open>I i s\<close> that] by auto
  with stage_ends [OF i \<open>I i s\<close>] show ?case by (simp add: Cons_nth_drop_Suc [OF i, symmetric])
qed

lemma stages_end: "I 0 s \<Longrightarrow> J (snd (run_operations operations s))"
  using rest_ends [of 0 s] by simp

end

text \<open>One stage for all operations: while they go on they keep \<^verbatim>\<open>I\<close>.\<close>

locale reconcile_operations =
  fixes operations :: "('s, outcome) effect list"
    and I :: "'s \<Rightarrow> bool"
    and J :: "'s \<Rightarrow> bool"
  assumes operation_ends: "op \<in> set operations \<Longrightarrow> I s \<Longrightarrow> J (snd (op s))"
    and operation_goes_on:
      "op \<in> set operations \<Longrightarrow> I s \<Longrightarrow> goes_on (fst (op s)) \<Longrightarrow> I (snd (op s))"
    and all_go_on: "I s \<Longrightarrow> J s"

sublocale reconcile_operations \<subseteq> one_stage: staged_operations operations "\<lambda>i. I" J
  by unfold_locales (auto intro: operation_ends operation_goes_on all_go_on)

context reconcile_operations begin

lemma handler_ends: "I s \<Longrightarrow> J (snd (run_operations operations s))"
  by (rule one_stage.stages_end)

end

text \<open>Two lists in a row: the second runs from where the first went on.\<close>

fun operations_go_on :: "('s, outcome) effect list \<Rightarrow> 's \<Rightarrow> 's option" where
  "operations_go_on [] s = Some s"
| "operations_go_on (op # ops) s =
     (if goes_on (fst (op s)) then operations_go_on ops (snd (op s)) else None)"

lemma run_operations_append:
  "operations_go_on ops s = Some s' \<Longrightarrow> run_operations (ops @ ops') s = run_operations ops' s'"
  by (induction ops arbitrary: s) (auto split: if_splits)

lemma run_operations_append_exit:
  "operations_go_on ops s = None \<Longrightarrow> run_operations (ops @ ops') s = run_operations ops s"
  by (induction ops arbitrary: s) auto

end
