(* ===== verification/IamBinding.thy ===== *)
theory IamBinding
  imports ApiTypes "HOL-Library.AList" "HOL-Library.Multiset"
begin

text \<open>
  The pure helpers of \<^verbatim>\<open>pkg/util/util.go\<close>: membership and filtering of string slices, and the
  two functions that edit the bindings of an IAM policy.

  A policy is read through \<^verbatim>\<open>grants\<close>, the set of pairs of a role and a member it binds: adding
  is a union on it, removing a difference.  The order in which Go's range over a map visits
  the entries is not specified; it is an argument, of which only that it is a permutation is
  ever assumed.
\<close>

datatype IamMemberType = ServiceAccount | GoogleGroup

text \<open>\<^verbatim>\<open>cloudresourcemanager.Binding\<close> and \<^verbatim>\<open>Policy\<close>; a condition is known by its text only.\<close>

record Binding =
  b_Role :: string
  b_Members :: "string list"
  b_Condition :: "string option"

record Policy =
  pol_Bindings :: "Binding list"
  pol_Etag :: string
  pol_Version :: int

subsection \<open>Contains, Filter, InArray\<close>

fun Contains :: "string list \<Rightarrow> string \<Rightarrow> bool" where
  "Contains [] x \<longleftrightarrow> False"
| "Contains (item # items) x \<longleftrightarrow> (if item = x then True else Contains items x)"

fun Filter :: "string list \<Rightarrow> string \<Rightarrow> string list" where
  "Filter [] x = []"
| "Filter (item # items) x = (if item \<noteq> x then item # Filter items x else Filter items x)"

lemma Contains_iff [simp]: "Contains xs x \<longleftrightarrow> x \<in> set xs"
  by (induction xs) auto

lemma Filter_eq: "Filter xs x = filter (\<lambda>y. y \<noteq> x) xs"
  by (induction xs) auto

lemma set_Filter [simp]: "set (Filter xs x) = set xs - {x}"
  by (auto simp: Filter_eq)

lemma Filter_append_new [simp]: "x \<notin> set xs \<Longrightarrow> Filter (xs @ [x]) x = xs"
  by (simp add: Filter_eq filter_neq_idem)

text \<open>
  \<^verbatim>\<open>InArray\<close> on a slice of strings: the flag and the index of the first occurrence, -1 without
  one.  Its other argument kinds do not occur.
\<close>

fun InArray_from :: "int \<Rightarrow> string \<Rightarrow> string list \<Rightarrow> bool \<times> int" where
  "InArray_from i needle [] = (False, -1)"
| "InArray_from i needle (x # xs) = (if needle = x then (True, i) else InArray_from (i + 1) needle xs)"

definition InArray :: "string \<Rightarrow> string list \<Rightarrow> bool \<times> int" where
  "InArray needle haystack = InArray_from 0 needle haystack"

lemma fst_InArray_from [simp]: "fst (InArray_from i x xs) \<longleftrightarrow> x \<in> set xs"
  by (induction xs arbitrary: i) auto

lemma fst_InArray [simp]: "fst (InArray x xs) \<longleftrightarrow> x \<in> set xs"
  by (simp add: InArray_def)

lemma InArray_from_index:
  "InArray_from i x xs = (True, j) \<Longrightarrow> i \<le> j \<and> nat (j - i) < length xs \<and> xs ! nat (j - i) = x"
proof (induction xs arbitrary: i)
  case Nil
  then show ?case by simp
next
  case (Cons y ys)
  show ?case
  proof (cases "x = y")
    case True
    with Cons.prems show ?thesis by simp
  next
    case False
    with Cons.prems have "InArray_from (i + 1) x ys = (True, j)" by simp
    then have IH: "i + 1 \<le> j \<and> nat (j - (i + 1)) < length ys \<and> ys ! nat (j - (i + 1)) = x"
      by (rule Cons.IH)
    then have "nat (j - i) = Suc (nat (j - (i + 1)))" by linarith
    with IH show ?thesis by auto
  qed
qed

subsection \<open>Members and role maps\<close>

definition member_prefix :: "IamMemberType \<Rightarrow> string" where
  "member_prefix memberType = (if memberType = GoogleGroup then ''group:'' else ''serviceAccount:'')"

definition member_of :: "IamMemberType \<Rightarrow> string \<Rightarrow> string" where
  "member_of memberType email = member_prefix memberType @ email"

text \<open>
  The map built by \<^verbatim>\<open>rolebindingMap\<close>, as an association list whose keys are distinct.
\<close>

fun add_roles :: "string list \<Rightarrow> string \<Rightarrow> (string \<times> Binding) list \<Rightarrow> (string \<times> Binding) list" where
  "add_roles [] m rm = rm"
| "add_roles (role # roles) m rm =
     add_roles roles m
       (AList.update role \<lparr>b_Role = role, b_Members = [m], b_Condition = None\<rparr> rm)"

definition rolebindingMap ::
  "string list \<Rightarrow> string \<Rightarrow> IamMemberType \<Rightarrow> (string \<times> Binding) list" where
  "rolebindingMap roles m memberType = add_roles roles (member_of memberType m) []"

lemma add_roles_map_of:
  "map_of (add_roles roles m rm) r =
     (if r \<in> set roles then Some \<lparr>b_Role = r, b_Members = [m], b_Condition = None\<rparr> else map_of rm r)"
  by (induction roles arbitrary: rm) (auto simp: update_conv')

lemma add_roles_distinct: "distinct (map fst rm) \<Longrightarrow> distinct (map fst (add_roles roles m rm))"
  by (induction roles arbitrary: rm) (auto intro: distinct_update)

lemma rolebindingMap_map_of:
  "map_of (rolebindingMap roles m mt) r =
     (if r \<in> set roles then Some \<lparr>b_Role = r, b_Members = [member_of mt m], b_Condition = None\<rparr>
      else None)"
  by (simp add: rolebindingMap_def add_roles_map_of)

lemma rolebindingMap_distinct: "distinct (map fst (rolebindingMap roles m mt))"
  by (simp add: rolebindingMap_def add_roles_distinct)

subsection \<open>AddOrUpdateBinding\<close>

text \<open>The members of the required binding that the existing one lacks, in order.\<close>

fun missing_members :: "string list \<Rightarrow> string list \<Rightarrow> string list" where
  "missing_members [] existing = []"
| "missing_members (rMember # rMembers) existing =
     (if fst (InArray rMember existing) then missing_members rMembers existing
      else rMember # missing_members rMembers existing)"

text \<open>
  The loop over the existing bindings: what is appended to the result, what is left of the
  map of required bindings, and whether something was modified.
\<close>

fun merge_existing ::
  "Binding list \<Rightarrow> (string \<times> Binding) list \<Rightarrow> Binding list \<times> (string \<times> Binding) list \<times> bool" where
  "merge_existing [] requiredBindingMap = ([], requiredBindingMap, False)"
| "merge_existing (eBinding # eBindings) requiredBindingMap =
     (case map_of requiredBindingMap (b_Role eBinding) of
        None \<Rightarrow>
          (case merge_existing eBindings requiredBindingMap of
             (result, left, modified) \<Rightarrow>
               (\<lparr>b_Role = b_Role eBinding, b_Members = b_Members eBinding, b_Condition = None\<rparr> # result,
                left, modified))
      | Some rBinding \<Rightarrow>
          (let added = missing_members (b_Members rBinding) (b_Members eBinding) in
           case merge_existing eBindings (AList.delete (b_Role eBinding) requiredBindingMap) of
             (result, left, modified) \<Rightarrow>
               (\<lparr>b_Role = b_Role eBinding, b_Members = b_Members eBinding @ added, b_Condition = None\<rparr>
                  # result,
                left, added \<noteq> [] \<or> modified)))"

type_synonym map_order = "(string \<times> Binding) list \<Rightarrow> (string \<times> Binding) list"

definition AddOrUpdateBinding ::
  "map_order \<Rightarrow> Binding list \<Rightarrow> string list \<Rightarrow> string \<Rightarrow> IamMemberType \<Rightarrow> Binding list \<times> bool" where
  "AddOrUpdateBinding order existingBindings requiredBindings serviceAccount memberType =
     (case merge_existing existingBindings (rolebindingMap requiredBindings serviceAccount memberType) of
        (result, left, modified) \<Rightarrow>
          if left \<noteq> []
          then (result @ map (\<lambda>(k, b). \<lparr>b_Role = b_Role b, b_Members = b_Members b, b_Condition = None\<rparr>)
                  (order left), True)
          else (result, modified))"

text \<open>The order of Go's range over a map: every entry once.\<close>

definition is_map_order :: "map_order \<Rightarrow> bool" where
  "is_map_order order \<longleftrightarrow> (\<forall>m. mset (order m) = mset m)"

lemma is_map_orderD: "is_map_order order \<Longrightarrow> set (order m) = set m"
  by (metis is_map_order_def set_mset_mset)

lemma is_map_order_id: "is_map_order (\<lambda>m. m)"
  by (simp add: is_map_order_def)

subsection \<open>RemoveOrUpdateBinding\<close>

text \<open>Removing the first occurrence of a member from each binding that has it.\<close>

fun remove_member :: "string list \<Rightarrow> string \<Rightarrow> string list \<times> bool" where
  "remove_member [] m = ([], False)"
| "remove_member (v # vs) m =
     (if v = m then (vs, True)
      else case remove_member vs m of (vs', modified) \<Rightarrow> (v # vs', modified))"

fun RemoveOrUpdateBinding_loop :: "Binding list \<Rightarrow> string \<Rightarrow> Binding list \<times> bool" where
  "RemoveOrUpdateBinding_loop [] m = ([], False)"
| "RemoveOrUpdateBinding_loop (binding # bindings) m =
     (case remove_member (b_Members binding) m of
        (newMembers, found) \<Rightarrow>
          (case RemoveOrUpdateBinding_loop bindings m of
             (bindings', modified) \<Rightarrow>
               (binding\<lparr>b_Members := newMembers\<rparr> # bindings', found \<or> modified)))"

definition RemoveOrUpdateBinding :: "Binding list \<Rightarrow> string \<Rightarrow> IamMemberType \<Rightarrow> Binding list \<times> bool" where
  "RemoveOrUpdateBinding existingBindings serviceAccountEmail memberType =
     RemoveOrUpdateBinding_loop existingBindings (member_of memberType serviceAccountEmail)"

lemma remove_member_eq [simp]: "remove_member vs m = (remove1 m vs, m \<in> set vs)"
  by (induction vs) auto

lemma RemoveOrUpdateBinding_loop_eq:
  "RemoveOrUpdateBinding_loop bs m =
     (map (\<lambda>b. b\<lparr>b_Members := remove1 m (b_Members b)\<rparr>) bs, \<exists>b\<in>set bs. m \<in> set (b_Members b))"
  by (induction bs) auto

subsection \<open>The grants of a policy\<close>

definition grants :: "Binding list \<Rightarrow> (string \<times> string) set" where
  "grants bs = (\<Union>b\<in>set bs. {b_Role b} \<times> set (b_Members b))"

definition role_grants :: "string list \<Rightarrow> string \<Rightarrow> (string \<times> string) set" where
  "role_grants roles m = set roles \<times> {m}"

lemma grants_simps [simp]:
  "grants [] = {}"
  "grants (b # bs) = {b_Role b} \<times> set (b_Members b) \<union> grants bs"
  "grants (bs @ cs) = grants bs \<union> grants cs"
  by (auto simp: grants_def)

lemma set_missing_members [simp]: "set (missing_members rs es) = set rs - set es"
  by (induction rs) auto

lemma missing_members_Nil_iff: "missing_members rs es = [] \<longleftrightarrow> set rs \<subseteq> set es"
  by (metis Diff_eq_empty_iff set_empty set_missing_members)

text \<open>The map of required bindings, entry by entry: each key is bound to the one new member.\<close>

definition role_map :: "string \<Rightarrow> (string \<times> Binding) list \<Rightarrow> bool" where
  "role_map m rm \<longleftrightarrow> distinct (map fst rm) \<and>
     (\<forall>(k, b)\<in>set rm. b = \<lparr>b_Role = k, b_Members = [m], b_Condition = None\<rparr>)"

definition role_keys :: "(string \<times> Binding) list \<Rightarrow> string set" where
  "role_keys rm = fst ` set rm"

definition map_grants :: "string \<Rightarrow> (string \<times> Binding) list \<Rightarrow> (string \<times> string) set" where
  "map_grants m rm = role_keys rm \<times> {m}"

lemma role_keys_Nil_iff [simp]: "role_keys [] = {}" "role_keys rm = {} \<longleftrightarrow> rm = []"
  by (simp_all add: role_keys_def)

lemma map_of_None_role_keys: "map_of rm k = None \<longleftrightarrow> k \<notin> role_keys rm"
  by (simp add: role_keys_def map_of_eq_None_iff)

lemma role_keys_delete: "role_keys (AList.delete k rm) = role_keys rm - {k}"
  by (auto simp: role_keys_def AList.delete_eq)

lemma role_map_rolebindingMap: "role_map (member_of mt m) (rolebindingMap roles m mt)"
proof -
  have "b = \<lparr>b_Role = k, b_Members = [member_of mt m], b_Condition = None\<rparr>"
    if "(k, b) \<in> set (rolebindingMap roles m mt)" for k b
    using that rolebindingMap_distinct [of roles m mt]
    by (auto simp: rolebindingMap_map_of dest!: map_of_is_SomeI split: if_splits)
  then show ?thesis by (auto simp: role_map_def rolebindingMap_distinct)
qed

lemma keys_rolebindingMap [simp]: "role_keys (rolebindingMap roles m mt) = set roles"
proof -
  have "role_keys (rolebindingMap roles m mt) = dom (map_of (rolebindingMap roles m mt))"
    by (simp add: role_keys_def dom_map_of_conv_image_fst)
  also have "\<dots> = set roles"
    by (auto simp: rolebindingMap_map_of split: if_splits)
  finally show ?thesis .
qed

lemma map_grants_rolebindingMap:
  "map_grants m' (rolebindingMap roles m mt) = role_grants roles m'"
  by (simp add: map_grants_def role_grants_def)

lemma role_map_delete: "role_map m rm \<Longrightarrow> role_map m (AList.delete k rm)"
  using distinct_delete [of rm k] by (auto simp: role_map_def AList.delete_eq)

lemma role_map_lookup:
  "role_map m rm \<Longrightarrow> map_of rm k = Some b \<Longrightarrow> b = \<lparr>b_Role = k, b_Members = [m], b_Condition = None\<rparr>"
  by (auto simp: role_map_def dest: map_of_SomeD)

lemma map_grants_delete:
  "map_of rm k = Some b \<Longrightarrow> map_grants m rm = insert (k, m) (map_grants m (AList.delete k rm))"
  using map_of_None_role_keys [of rm k] by (auto simp: map_grants_def role_keys_delete)

text \<open>
  The loop over the existing bindings moves grants from the map to the result and loses none;
  what it keeps of an existing binding is its role and its members, in place.
\<close>

definition strip :: "Binding \<Rightarrow> Binding" where
  "strip b = b\<lparr>b_Condition := None\<rparr>"

lemma strip_eq: "\<lparr>b_Role = b_Role b, b_Members = b_Members b, b_Condition = None\<rparr> = strip b"
  by (simp add: strip_def)

lemma grants_strip [simp]: "grants (map strip bs) = grants bs"
  by (induction bs) (simp_all add: strip_def)

definition added_members :: "(string \<times> Binding) list \<Rightarrow> Binding \<Rightarrow> string list" where
  "added_members rm b =
     (case map_of rm (b_Role b) of None \<Rightarrow> [] | Some r \<Rightarrow> missing_members (b_Members r) (b_Members b))"

definition extended :: "Binding \<Rightarrow> string list \<Rightarrow> Binding" where
  "extended b added = \<lparr>b_Role = b_Role b, b_Members = b_Members b @ added, b_Condition = None\<rparr>"

lemma extended_simps [simp]:
  "b_Role (extended b added) = b_Role b"
  "b_Members (extended b added) = b_Members b @ added"
  "b_Condition (extended b added) = None"
  "extended b [] = strip b"
  by (simp_all add: extended_def strip_def)

text \<open>One step of the loop, the two cases of the lookup taken together.\<close>

lemma merge_existing_ConsE:
  assumes "merge_existing (b # bs) rm = (result, left, modified)"
  obtains result' modified' where
    "merge_existing bs (AList.delete (b_Role b) rm) = (result', left, modified')"
    "result = extended b (added_members rm b) # result'"
    "modified \<longleftrightarrow> added_members rm b \<noteq> [] \<or> modified'"
proof (cases "map_of rm (b_Role b)")
  case None
  then have "AList.delete (b_Role b) rm = rm"
    by (metis delete_id map_of_eq_None_iff)
  with None assms that show thesis
    by (auto simp: added_members_def strip_eq split: prod.splits)
next
  case (Some r)
  with assms that show thesis
    by (auto simp: added_members_def extended_def Let_def split: prod.splits)
qed

lemma role_map_added:
  assumes "role_map m rm"
  shows "{b_Role b} \<times> set (added_members rm b) \<union> {b_Role b} \<times> set (b_Members b)
           \<union> map_grants m (AList.delete (b_Role b) rm)
         = {b_Role b} \<times> set (b_Members b) \<union> map_grants m rm"
proof (cases "map_of rm (b_Role b)")
  case None
  then have "AList.delete (b_Role b) rm = rm"
    by (metis delete_id map_of_eq_None_iff)
  with None show ?thesis by (simp add: added_members_def)
next
  case (Some r)
  with role_map_lookup [OF assms Some] map_grants_delete [OF Some, of m] show ?thesis
    by (auto simp: added_members_def)
qed

lemma merge_existing_role_map:
  "role_map m rm \<Longrightarrow> merge_existing bs rm = (result, left, modified) \<Longrightarrow> role_map m left"
proof (induction bs arbitrary: rm result modified)
  case (Cons b bs)
  from Cons.prems(2) show ?case
    by (rule merge_existing_ConsE) (blast intro: Cons.IH role_map_delete [OF Cons.prems(1)])
qed simp

lemma merge_existing_grants:
  "role_map m rm \<Longrightarrow> merge_existing bs rm = (result, left, modified) \<Longrightarrow>
     grants result \<union> map_grants m left = grants bs \<union> map_grants m rm"
proof (induction bs arbitrary: rm result modified)
  case (Cons b bs)
  from Cons.prems(2) obtain result' modified' where
    IH: "merge_existing bs (AList.delete (b_Role b) rm) = (result', left, modified')"
    and res: "result = extended b (added_members rm b) # result'"
    by (rule merge_existing_ConsE)
  from Cons.IH [OF role_map_delete [OF Cons.prems(1)] IH] role_map_added [OF Cons.prems(1), of b] res
  show ?case by (simp add: Sigma_Un_distrib2) blast
qed simp

lemma merge_existing_unmodified:
  "merge_existing bs rm = (result, left, modified) \<Longrightarrow> \<not> modified \<Longrightarrow> result = map strip bs"
proof (induction bs arbitrary: rm result modified)
  case (Cons b bs)
  from Cons.prems(1) show ?case
    by (rule merge_existing_ConsE) (use Cons.prems(2) Cons.IH in auto)
qed simp

lemma merge_existing_left:
  "merge_existing bs rm = (result, left, modified) \<Longrightarrow> role_keys left \<subseteq> role_keys rm"
proof (induction bs arbitrary: rm result modified)
  case (Cons b bs)
  from Cons.prems(1) show ?case
    by (rule merge_existing_ConsE) (use Cons.IH in \<open>fastforce simp: role_keys_delete\<close>)
qed simp

lemma merge_existing_roles:
  "merge_existing bs rm = (result, left, modified) \<Longrightarrow> map b_Role result = map b_Role bs"
proof (induction bs arbitrary: rm result modified)
  case (Cons b bs)
  from Cons.prems(1) show ?case by (rule merge_existing_ConsE) (auto dest: Cons.IH)
qed simp

lemma merge_existing_conditions:
  "merge_existing bs rm = (result, left, modified) \<Longrightarrow> \<forall>b\<in>set result. b_Condition b = None"
proof (induction bs arbitrary: rm result modified)
  case (Cons b bs)
  from Cons.prems(1) show ?case by (rule merge_existing_ConsE) (auto dest: Cons.IH)
qed simp

text \<open>What the loop over the leftover entries appends.\<close>

definition entry_binding :: "string \<times> Binding \<Rightarrow> Binding" where
  "entry_binding e = \<lparr>b_Role = b_Role (snd e), b_Members = b_Members (snd e), b_Condition = None\<rparr>"

lemma entry_binding_eq:
  "map (\<lambda>(k, b). \<lparr>b_Role = b_Role b, b_Members = b_Members b, b_Condition = None\<rparr>) es
     = map entry_binding es"
  by (auto simp: entry_binding_def)

lemma grants_entries:
  "\<forall>(k, b)\<in>set es. b = \<lparr>b_Role = k, b_Members = [m], b_Condition = None\<rparr> \<Longrightarrow>
     grants (map entry_binding es) = role_keys es \<times> {m}"
  by (induction es) (auto simp: entry_binding_def role_keys_def)

lemma grants_role_map:
  assumes "role_map m rm" and "set rm' = set rm"
  shows "grants (map entry_binding rm') = map_grants m rm"
proof -
  have "grants (map entry_binding rm') = role_keys rm' \<times> {m}"
    by (rule grants_entries) (use assms in \<open>simp add: role_map_def\<close>)
  with assms show ?thesis by (simp add: map_grants_def role_keys_def)
qed

subsection \<open>What AddOrUpdateBinding promises\<close>

text \<open>On grants, adding is a union.\<close>

lemma AddOrUpdateBinding_grants:
  assumes "is_map_order order"
  shows "grants (fst (AddOrUpdateBinding order bs roles email mt)) =
           grants bs \<union> role_grants roles (member_of mt email)"
proof -
  obtain result left modified where
    m: "merge_existing bs (rolebindingMap roles email mt) = (result, left, modified)"
    by (metis prod_cases3)
  note rm = role_map_rolebindingMap [of mt email roles]
  from merge_existing_grants [OF rm m] map_grants_rolebindingMap
  have eq: "grants result \<union> map_grants (member_of mt email) left
      = grants bs \<union> role_grants roles (member_of mt email)" by simp
  show ?thesis
  proof (cases "left = []")
    case True
    with eq m show ?thesis by (simp add: AddOrUpdateBinding_def map_grants_def)
  next
    case False
    with m eq grants_role_map [OF merge_existing_role_map [OF rm m] is_map_orderD [OF assms]]
    show ?thesis by (simp add: AddOrUpdateBinding_def entry_binding_eq)
  qed
qed

text \<open>When nothing is reported as modified, nothing was missing and nothing changed but conditions.\<close>

lemma AddOrUpdateBinding_unmodified:
  assumes "AddOrUpdateBinding order bs roles email mt = (result, False)"
  shows "result = map strip bs" and "role_grants roles (member_of mt email) \<subseteq> grants bs"
proof -
  obtain left where m: "merge_existing bs (rolebindingMap roles email mt) = (result, left, False)"
    and "left = []"
    using assms by (auto simp: AddOrUpdateBinding_def split: prod.splits if_splits)
  then show res: "result = map strip bs" by (auto dest: merge_existing_unmodified)
  from merge_existing_grants [OF role_map_rolebindingMap m] map_grants_rolebindingMap res \<open>left = []\<close>
  show "role_grants roles (member_of mt email) \<subseteq> grants bs"
    by (auto simp: map_grants_def)
qed

text \<open>
  The flag, exactly.  Only the first binding of a role is looked at, so what decides is
  whether that one has the member.
\<close>

definition serves :: "string \<Rightarrow> Binding list \<Rightarrow> string \<Rightarrow> bool" where
  "serves m bs r \<longleftrightarrow>
     (case List.find (\<lambda>b. b_Role b = r) bs of None \<Rightarrow> False | Some b \<Rightarrow> m \<in> set (b_Members b))"

lemma serves_simps [simp]:
  "\<not> serves m [] r"
  "serves m (b # bs) r \<longleftrightarrow> (if b_Role b = r then m \<in> set (b_Members b) else serves m bs r)"
  by (simp_all add: serves_def)

lemma serves_append:
  "serves m (bs @ cs) r \<longleftrightarrow>
     (if r \<in> b_Role ` set bs then serves m bs r else serves m cs r)"
  by (induction bs) auto

lemma serves_grants: "serves m bs r \<Longrightarrow> (r, m) \<in> grants bs"
  by (induction bs) (auto split: if_splits)

lemma added_members_Nil_iff:
  assumes "role_map m rm"
  shows "added_members rm b = [] \<longleftrightarrow> (b_Role b \<in> role_keys rm \<longrightarrow> m \<in> set (b_Members b))"
proof (cases "map_of rm (b_Role b)")
  case None
  then show ?thesis using map_of_None_role_keys [of rm "b_Role b"] by (simp add: added_members_def)
next
  case (Some r)
  then have "b_Role b \<in> role_keys rm" using map_of_None_role_keys [of rm "b_Role b"] by simp
  with Some role_map_lookup [OF assms Some] show ?thesis
    by (simp add: added_members_def missing_members_Nil_iff)
qed

lemma merge_existing_flag:
  "role_map m rm \<Longrightarrow> merge_existing bs rm = (result, left, modified) \<Longrightarrow>
     (modified \<or> left \<noteq> []) \<longleftrightarrow> (\<exists>k\<in>role_keys rm. \<not> serves m bs k)"
proof (induction bs arbitrary: rm result modified)
  case Nil
  then show ?case by (cases rm) (auto simp: role_keys_def)
next
  case (Cons b bs)
  from Cons.prems(2) obtain result' modified' where
    step: "merge_existing bs (AList.delete (b_Role b) rm) = (result', left, modified')"
    and md: "modified \<longleftrightarrow> added_members rm b \<noteq> [] \<or> modified'"
    by (rule merge_existing_ConsE)
  have IH: "(modified' \<or> left \<noteq> []) \<longleftrightarrow>
      (\<exists>k\<in>role_keys rm - {b_Role b}. \<not> serves m bs k)"
    using Cons.IH [OF role_map_delete [OF Cons.prems(1)] step] by (simp add: role_keys_delete)
  have "(\<exists>k\<in>role_keys rm. \<not> serves m (b # bs) k) \<longleftrightarrow>
      (b_Role b \<in> role_keys rm \<and> m \<notin> set (b_Members b)) \<or>
      (\<exists>k\<in>role_keys rm - {b_Role b}. \<not> serves m bs k)"
    by auto
  with IH md added_members_Nil_iff [OF Cons.prems(1), of b] show ?case by blast
qed

lemma merge_existing_served:
  "role_map m rm \<Longrightarrow> merge_existing bs rm = (result, left, modified) \<Longrightarrow> k \<in> role_keys rm \<Longrightarrow>
     (if k \<in> b_Role ` set bs then k \<notin> role_keys left \<and> serves m result k else k \<in> role_keys left)"
proof (induction bs arbitrary: rm result modified)
  case Nil
  then show ?case by simp
next
  case (Cons b bs)
  from Cons.prems(2) obtain result' modified' where
    step: "merge_existing bs (AList.delete (b_Role b) rm) = (result', left, modified')"
    and res: "result = extended b (added_members rm b) # result'"
    by (rule merge_existing_ConsE)
  show ?case
  proof (cases "k = b_Role b")
    case True
    have "role_keys left \<subseteq> role_keys (AList.delete (b_Role b) rm)"
      using step by (rule merge_existing_left)
    moreover have "m \<in> set (b_Members b) \<union> set (added_members rm b)"
      using role_map_added [OF Cons.prems(1), of b] Cons.prems(3) True
      by (auto simp: map_grants_def role_keys_delete)
    ultimately show ?thesis using True res by (auto simp: role_keys_delete)
  next
    case False
    with Cons.prems(3) have "k \<in> role_keys (AList.delete (b_Role b) rm)" by (simp add: role_keys_delete)
    from Cons.IH [OF role_map_delete [OF Cons.prems(1)] step this] False res
    show ?thesis by (auto split: if_splits)
  qed
qed

text \<open>The flag says whether some required role was not yet served.\<close>

lemma AddOrUpdateBinding_flag:
  "snd (AddOrUpdateBinding order bs roles email mt) \<longleftrightarrow>
     (\<exists>r\<in>set roles. \<not> serves (member_of mt email) bs r)"
proof -
  obtain result left modified where
    m: "merge_existing bs (rolebindingMap roles email mt) = (result, left, modified)"
    by (metis prod_cases3)
  have "(modified \<or> left \<noteq> []) \<longleftrightarrow> (\<exists>r\<in>set roles. \<not> serves (member_of mt email) bs r)"
    using merge_existing_flag [OF role_map_rolebindingMap m] by simp
  moreover have "snd (AddOrUpdateBinding order bs roles email mt) \<longleftrightarrow> modified \<or> left \<noteq> []"
    by (simp add: AddOrUpdateBinding_def m)
  ultimately show ?thesis by simp
qed

lemma serves_entries:
  assumes "role_map m rm" and "set es = set rm" and "k \<in> role_keys rm"
  shows "serves m (map entry_binding es) k"
proof -
  have "\<forall>(k, b)\<in>set es. b = \<lparr>b_Role = k, b_Members = [m], b_Condition = None\<rparr>"
    using assms by (simp add: role_map_def)
  then have "k \<in> role_keys es \<Longrightarrow> serves m (map entry_binding es) k"
    by (induction es) (auto simp: entry_binding_def role_keys_def)
  with assms show ?thesis by (simp add: role_keys_def)
qed

lemma AddOrUpdateBinding_serves:
  assumes "is_map_order order" and "r \<in> set roles"
  shows "serves (member_of mt email) (fst (AddOrUpdateBinding order bs roles email mt)) r"
proof -
  obtain result left modified where
    m: "merge_existing bs (rolebindingMap roles email mt) = (result, left, modified)"
    by (metis prod_cases3)
  note rm = role_map_rolebindingMap [of mt email roles]
  from merge_existing_served [OF rm m] assms(2)
  have k: "if r \<in> b_Role ` set bs then r \<notin> role_keys left \<and> serves (member_of mt email) result r
           else r \<in> role_keys left" by (simp add: keys_rolebindingMap)
  have roles: "b_Role ` set result = b_Role ` set bs"
    using merge_existing_roles [OF m] by (metis list.set_map)
  show ?thesis
  proof (cases "r \<in> b_Role ` set bs")
    case True
    with k m roles show ?thesis by (simp add: AddOrUpdateBinding_def serves_append)
  next
    case False
    have entry: "serves (member_of mt email) (map entry_binding es) r" if "set es = set left" for es
      by (rule serves_entries [OF merge_existing_role_map [OF rm m] that]) (use False k in simp)
    from False k have "left \<noteq> []" by auto
    with m roles False entry [OF is_map_orderD [OF assms(1)]] show ?thesis
      by (simp add: AddOrUpdateBinding_def serves_append entry_binding_eq)
  qed
qed

subsection \<open>What RemoveOrUpdateBinding promises\<close>

text \<open>
  A policy names a member at most once per binding (the service removes duplicates); then
  removing takes the member out of every role.
\<close>

definition members_distinct :: "Binding list \<Rightarrow> bool" where
  "members_distinct bs \<longleftrightarrow> (\<forall>b\<in>set bs. distinct (b_Members b))"

lemma RemoveOrUpdateBinding_grants:
  assumes "members_distinct bs"
  shows "grants (fst (RemoveOrUpdateBinding bs email mt)) = grants bs - UNIV \<times> {member_of mt email}"
  using assms unfolding RemoveOrUpdateBinding_def RemoveOrUpdateBinding_loop_eq members_distinct_def
  by (induction bs) auto

lemma RemoveOrUpdateBinding_flag:
  "snd (RemoveOrUpdateBinding bs email mt) \<longleftrightarrow> (\<exists>r. (r, member_of mt email) \<in> grants bs)"
  by (auto simp: RemoveOrUpdateBinding_def RemoveOrUpdateBinding_loop_eq grants_def)

lemma RemoveOrUpdateBinding_conditions:
  "map b_Condition (fst (RemoveOrUpdateBinding bs email mt)) = map b_Condition bs"
  by (simp add: RemoveOrUpdateBinding_def RemoveOrUpdateBinding_loop_eq comp_def)

text \<open>Adding, by contrast, rebuilds every binding without its condition.\<close>

lemma AddOrUpdateBinding_conditions:
  assumes "b \<in> set (fst (AddOrUpdateBinding order bs roles email mt))"
  shows "b_Condition b = None"
proof -
  obtain result left modified where
    m: "merge_existing bs (rolebindingMap roles email mt) = (result, left, modified)"
    by (metis prod_cases3)
  with assms merge_existing_conditions [OF m] show ?thesis
    by (auto simp: AddOrUpdateBinding_def split: if_splits)
qed

end
