(* ===== verification/Conditions.thy ===== *)
theory Conditions
  imports ApiTypes
begin

text \<open>
  \<^verbatim>\<open>pkg/condition/conditions.go\<close>.  A condition list is the slice of a status (nil or not); a
  pointer into it is an index.  \<^verbatim>\<open>metav1.Now\<close> is read once per call, by the caller of the
  model: its value is the first argument of \<^verbatim>\<open>SetCondition\<close>.

  The specification is a finite map from condition types to conditions: \<^verbatim>\<open>condition_view\<close> reads
  a list as such a map, and the locale \<^verbatim>\<open>condition_contract\<close> says what the three operations of
  the interface \<^verbatim>\<open>Conditions\<close> do to it.
\<close>

type_synonym conditions = "Condition list option"

definition new_condition :: "string \<Rightarrow> Condition" where
  "new_condition t = \<lparr>c_Type = t, c_Status = '''', c_LastProbeTime = 0, c_LastTransitionTime = 0,
     c_Reason = '''', c_Message = ''''\<rparr>"

fun condition_index :: "Condition list \<Rightarrow> string \<Rightarrow> nat option" where
  "condition_index [] t = None"
| "condition_index (c # cs) t = (if c_Type c = t then Some 0 else map_option Suc (condition_index cs t))"

definition FindCondition :: "conditions \<Rightarrow> string \<Rightarrow> conditions \<times> nat \<times> bool" where
  "FindCondition cs t =
     (case condition_index (elems cs) t of
        Some i \<Rightarrow> (cs, i, True)
      | None \<Rightarrow> (let cs' = elems cs @ [new_condition t] in (Some cs', length cs' - 1, False)))"

text \<open>The assignments of \<^verbatim>\<open>SetCondition\<close> through the pointer, in order.\<close>

definition assign_condition ::
  "time \<Rightarrow> string \<Rightarrow> string \<Rightarrow> string \<Rightarrow> string \<Rightarrow> Condition \<Rightarrow> Condition" where
  "assign_condition now conditionType status reason message c =
     (let c1 = (if message \<noteq> c_Message c \<or> status \<noteq> c_Status c \<or> reason \<noteq> c_Reason c
                   \<or> conditionType \<noteq> c_Type c
                then c\<lparr>c_LastTransitionTime := now\<rparr> else c);
          c2 = (if message \<noteq> '''' then c1\<lparr>c_Message := message\<rparr> else c1)
      in c2\<lparr>c_LastProbeTime := now, c_Reason := reason, c_Status := status\<rparr>)"

definition SetCondition ::
  "time \<Rightarrow> conditions \<Rightarrow> string \<Rightarrow> string \<Rightarrow> string \<Rightarrow> string \<Rightarrow> conditions" where
  "SetCondition now cs conditionType status reason message =
     (case FindCondition cs conditionType of
        (cs', i, found) \<Rightarrow>
          Some ((elems cs')[i := assign_condition now conditionType status reason message (elems cs' ! i)]))"

fun HasCondition_list :: "Condition list \<Rightarrow> string \<Rightarrow> bool" where
  "HasCondition_list [] t \<longleftrightarrow> False"
| "HasCondition_list (c # cs) t \<longleftrightarrow> (if c_Type c = t then True else HasCondition_list cs t)"

definition HasCondition :: "conditions \<Rightarrow> string \<Rightarrow> bool" where
  "HasCondition cs t = HasCondition_list (elems cs) t"

text \<open>The interface \<^verbatim>\<open>Conditions\<close> and its implementation \<^verbatim>\<open>ConditionManager\<close>.\<close>

record condition_manager =
  cm_SetCondition :: "time \<Rightarrow> conditions \<Rightarrow> string \<Rightarrow> string \<Rightarrow> string \<Rightarrow> string \<Rightarrow> conditions"
  cm_FindCondition :: "conditions \<Rightarrow> string \<Rightarrow> conditions \<times> nat \<times> bool"
  cm_HasCondition :: "conditions \<Rightarrow> string \<Rightarrow> bool"

definition NewConditionManager :: condition_manager where
  "NewConditionManager = \<lparr>cm_SetCondition = SetCondition, cm_FindCondition = FindCondition,
     cm_HasCondition = HasCondition\<rparr>"

subsection \<open>The specification\<close>

definition condition_view :: "conditions \<Rightarrow> string \<Rightarrow> Condition option" where
  "condition_view cs t = List.find (\<lambda>c. c_Type c = t) (elems cs)"

text \<open>One condition per type.\<close>

definition condition_types_distinct :: "conditions \<Rightarrow> bool" where
  "condition_types_distinct cs \<longleftrightarrow> distinct (map c_Type (elems cs))"

locale condition_contract =
  fixes M :: condition_manager
  assumes has: "cm_HasCondition M cs t \<longleftrightarrow> condition_view cs t \<noteq> None"
    and find_found: "condition_view cs t = Some c \<Longrightarrow>
          \<exists>i. cm_FindCondition M cs t = (cs, i, True) \<and> i < length (elems cs) \<and> elems cs ! i = c"
    and find_new: "condition_view cs t = None \<Longrightarrow>
          \<exists>cs' i. cm_FindCondition M cs t = (cs', i, False) \<and> i < length (elems cs') \<and>
             elems cs' ! i = new_condition t \<and>
             condition_view cs' = (condition_view cs)(t := Some (new_condition t))"
    and set_view: "condition_view (cm_SetCondition M now cs t status reason message) =
          (condition_view cs)(t := Some (assign_condition now t status reason message
             (case condition_view cs t of None \<Rightarrow> new_condition t | Some c \<Rightarrow> c)))"
    and set_not_nil: "cm_SetCondition M now cs t status reason message \<noteq> None"
    and set_distinct: "condition_types_distinct cs \<Longrightarrow>
          condition_types_distinct (cm_SetCondition M now cs t status reason message)"
begin

lemma set_has [simp]: "cm_HasCondition M (cm_SetCondition M now cs t status reason message) t"
  by (simp add: has set_view)

lemma set_other: "t' \<noteq> t \<Longrightarrow>
    condition_view (cm_SetCondition M now cs t status reason message) t' = condition_view cs t'"
  by (simp add: set_view)

lemma find_after_set:
  "\<exists>i. cm_FindCondition M (cm_SetCondition M now cs t status reason message) t
           = (cm_SetCondition M now cs t status reason message, i, True) \<and>
       c_Status (elems (cm_SetCondition M now cs t status reason message) ! i) = status \<and>
       c_Reason (elems (cm_SetCondition M now cs t status reason message) ! i) = reason"
proof -
  let ?cs = "cm_SetCondition M now cs t status reason message"
  let ?c = "assign_condition now t status reason message
             (case condition_view cs t of None \<Rightarrow> new_condition t | Some c \<Rightarrow> c)"
  have "condition_view ?cs t = Some ?c" by (simp add: set_view)
  from find_found [OF this] obtain i where
    "cm_FindCondition M ?cs t = (?cs, i, True)" "elems ?cs ! i = ?c" by blast
  then show ?thesis by (auto simp: assign_condition_def Let_def)
qed

end

subsection \<open>ConditionManager meets it\<close>

lemma condition_index_Some:
  "condition_index cs t = Some i \<Longrightarrow>
     i < length cs \<and> List.find (\<lambda>c. c_Type c = t) cs = Some (cs ! i) \<and> c_Type (cs ! i) = t"
  by (induction cs arbitrary: i) (auto split: if_splits)

lemma condition_index_None:
  "condition_index cs t = None \<longleftrightarrow> List.find (\<lambda>c. c_Type c = t) cs = None"
  by (induction cs) auto

lemma condition_index_None_types: "condition_index cs t = None \<longleftrightarrow> t \<notin> c_Type ` set cs"
  by (induction cs) auto

lemma HasCondition_view: "HasCondition cs t \<longleftrightarrow> condition_view cs t \<noteq> None"
proof -
  have "HasCondition_list xs t \<longleftrightarrow> List.find (\<lambda>c. c_Type c = t) xs \<noteq> None" for xs
    by (induction xs) auto
  then show ?thesis by (simp add: HasCondition_def condition_view_def)
qed

lemma FindCondition_found:
  "condition_view cs t = Some c \<Longrightarrow>
     \<exists>i. FindCondition cs t = (cs, i, True) \<and> i < length (elems cs) \<and> elems cs ! i = c"
  by (cases "condition_index (elems cs) t")
    (auto simp: condition_view_def FindCondition_def condition_index_None dest: condition_index_Some)

lemma find_append: "List.find P (xs @ ys) = (case List.find P xs of None \<Rightarrow> List.find P ys | Some x \<Rightarrow> Some x)"
  by (induction xs) auto

lemma assign_condition_type [simp]: "c_Type (assign_condition now t status reason message c) = c_Type c"
  by (simp add: assign_condition_def Let_def)

lemma find_update_index:
  "condition_index xs t = Some i \<Longrightarrow> c_Type y = t \<Longrightarrow>
     List.find (\<lambda>c. c_Type c = t') (xs[i := y]) =
       (if t' = t then Some y else List.find (\<lambda>c. c_Type c = t') xs)"
  by (induction xs arbitrary: i) (auto split: if_splits)

lemma condition_index_append_new:
  "condition_index xs t = None \<Longrightarrow> c_Type y = t \<Longrightarrow> condition_index (xs @ [y]) t = Some (length xs)"
  by (induction xs) (auto split: if_splits)

text \<open>What FindCondition points at, in both of its cases.\<close>

lemma FindCondition_points:
  assumes "FindCondition cs t = (cs', i, found)"
  shows "cs' \<noteq> None \<or> found" and "condition_index (elems cs') t = Some i"
    and "elems cs' ! i = (case condition_view cs t of None \<Rightarrow> new_condition t | Some c \<Rightarrow> c)"
    and "t' \<noteq> t \<Longrightarrow> condition_view cs' t' = condition_view cs t'"
    and "found \<longleftrightarrow> condition_view cs t \<noteq> None"
proof -
  have "cs' = cs \<and> condition_index (elems cs) t = Some i \<and> found \<or>
      condition_index (elems cs) t = None \<and> cs' = Some (elems cs @ [new_condition t]) \<and>
      i = length (elems cs) \<and> \<not> found"
    using assms by (auto simp: FindCondition_def Let_def split: option.splits)
  then show "cs' \<noteq> None \<or> found" "condition_index (elems cs') t = Some i"
    "elems cs' ! i = (case condition_view cs t of None \<Rightarrow> new_condition t | Some c \<Rightarrow> c)"
    "t' \<noteq> t \<Longrightarrow> condition_view cs' t' = condition_view cs t'"
    "found \<longleftrightarrow> condition_view cs t \<noteq> None"
    by (auto simp: condition_view_def condition_index_None find_append new_condition_def
        condition_index_append_new dest: condition_index_Some split: option.splits)
qed

lemma FindCondition_new:
  assumes "condition_view cs t = None"
  shows "\<exists>cs' i. FindCondition cs t = (cs', i, False) \<and> i < length (elems cs') \<and>
           elems cs' ! i = new_condition t \<and>
           condition_view cs' = (condition_view cs)(t := Some (new_condition t))"
proof -
  obtain cs' i found where f: "FindCondition cs t = (cs', i, found)" by (metis prod_cases3)
  note p = FindCondition_points [OF f]
  note i = condition_index_Some [OF p(2)]
  have "condition_view cs' = (condition_view cs)(t := Some (new_condition t))"
    using p(3,4) i assms by (auto simp: fun_eq_iff condition_view_def)
  with f p(3,5) i assms show ?thesis by auto
qed

lemma SetCondition_view:
  "condition_view (SetCondition now cs t status reason message) =
     (condition_view cs)(t := Some (assign_condition now t status reason message
        (case condition_view cs t of None \<Rightarrow> new_condition t | Some c \<Rightarrow> c)))"
proof (rule ext)
  fix t'
  obtain cs' i found where f: "FindCondition cs t = (cs', i, found)" by (metis prod_cases3)
  note p = FindCondition_points [OF f]
  from p(2) have "c_Type (elems cs' ! i) = t" by (blast dest: condition_index_Some)
  with find_update_index [OF p(2), of "assign_condition now t status reason message (elems cs' ! i)" t']
  show "condition_view (SetCondition now cs t status reason message) t' =
     ((condition_view cs)(t := Some (assign_condition now t status reason message
        (case condition_view cs t of None \<Rightarrow> new_condition t | Some c \<Rightarrow> c)))) t'"
    using p(3) p(4) [of t'] by (auto simp: SetCondition_def f condition_view_def)
qed

lemma FindCondition_distinct:
  "condition_types_distinct cs \<Longrightarrow> FindCondition cs t = (cs', i, found) \<Longrightarrow> condition_types_distinct cs'"
  by (auto simp: FindCondition_def condition_types_distinct_def condition_index_None_types Let_def
      new_condition_def split: option.splits)

lemma SetCondition_distinct:
  assumes "condition_types_distinct cs"
  shows "condition_types_distinct (SetCondition now cs t status reason message)"
proof -
  obtain cs' i found where f: "FindCondition cs t = (cs', i, found)" by (metis prod_cases3)
  have "i < length (elems cs')"
    using FindCondition_points(2) [OF f] by (blast dest: condition_index_Some)
  then have "map c_Type ((elems cs')[i := assign_condition now t status reason message (elems cs' ! i)])
      = map c_Type (elems cs')"
    by (simp add: map_update list_update_same_conv)
  with FindCondition_distinct [OF assms f] show ?thesis
    by (simp add: SetCondition_def f condition_types_distinct_def)
qed

interpretation conds: condition_contract NewConditionManager
  by unfold_locales
    (simp_all add: NewConditionManager_def HasCondition_view FindCondition_found FindCondition_new
      SetCondition_view SetCondition_distinct,
     simp add: SetCondition_def split: prod.splits)

subsection \<open>When the transition time moves\<close>

text \<open>
  The time of the last transition moves exactly when one of message, status and reason is
  given a value other than the recorded one.  As an empty message is compared but never
  recorded, a condition with a message that is set again with an empty one moves it on every
  call, whatever was set before.
\<close>

lemma assign_condition_transition:
  "c_Type c = t \<Longrightarrow>
     c_LastTransitionTime (assign_condition now t status reason message c) =
       (if message = c_Message c \<and> status = c_Status c \<and> reason = c_Reason c
        then c_LastTransitionTime c else now)"
  by (simp add: assign_condition_def Let_def)

lemma assign_condition_fields:
  "c_Status (assign_condition now t status reason message c) = status"
  "c_Reason (assign_condition now t status reason message c) = reason"
  "c_LastProbeTime (assign_condition now t status reason message c) = now"
  "c_Message (assign_condition now t status reason message c) =
     (if message = '''' then c_Message c else message)"
  by (simp_all add: assign_condition_def Let_def)

end
