(* ===== verification/KubeClient.thy ===== *)
theory KubeClient
  imports OperationResult IamBinding Conditions
begin

text \<open>
  The outside world as the operator sees it, over an arbitrary type \<^verbatim>\<open>'w\<close> of worlds.

  \<^item> \<^verbatim>\<open>'w kube_client\<close>: the operations of controller-runtime's \<^verbatim>\<open>client.Client\<close> the code uses,
    one per kind of object.  Each may fail with any error and may change the world; \<^verbatim>\<open>Create\<close>,
    \<^verbatim>\<open>Update\<close> and \<^verbatim>\<open>Status().Update\<close> also overwrite the object they are given with the server's
    answer, so they return it.
  \<^item> \<^verbatim>\<open>'w environment\<close>: the clock, sleeping, the iteration order of maps, random identifiers,
    the back-off timer and the YAML decoder.

  Nothing is assumed about these operations in the definitions.  On top of them, the helpers
  of \<^verbatim>\<open>pkg/util/util.go\<close> that read secrets and \<^verbatim>\<open>pkg/configmap/configmap.go\<close>.
\<close>

record OperatorConfigMap =
  oc_BillingAccount :: string
  oc_ParentFolderID :: string
  oc_CCSConsoleAccess :: "string list"
  oc_CCSReadOnlyConsoleAccess :: "string list"
  oc_DisabledRegions :: "string list"

record 'w kube_client =
  k_GetProjectClaim :: "NamespacedName \<Rightarrow> 'w \<Rightarrow> (err + ProjectClaim) \<times> 'w"
  k_GetProjectReference :: "NamespacedName \<Rightarrow> 'w \<Rightarrow> (err + ProjectReference) \<times> 'w"
  k_GetSecret :: "NamespacedName \<Rightarrow> 'w \<Rightarrow> (err + Secret) \<times> 'w"
  k_GetConfigMap :: "NamespacedName \<Rightarrow> 'w \<Rightarrow> (err + ConfigMap) \<times> 'w"
  k_CreateProjectReference :: "ProjectReference \<Rightarrow> 'w \<Rightarrow> (err option \<times> ProjectReference) \<times> 'w"
  k_CreateSecret :: "Secret \<Rightarrow> 'w \<Rightarrow> (err option \<times> Secret) \<times> 'w"
  k_UpdateProjectClaim :: "ProjectClaim \<Rightarrow> 'w \<Rightarrow> (err option \<times> ProjectClaim) \<times> 'w"
  k_UpdateProjectReference :: "ProjectReference \<Rightarrow> 'w \<Rightarrow> (err option \<times> ProjectReference) \<times> 'w"
  k_UpdateSecret :: "Secret \<Rightarrow> 'w \<Rightarrow> (err option \<times> Secret) \<times> 'w"
  k_StatusUpdateProjectClaim :: "ProjectClaim \<Rightarrow> 'w \<Rightarrow> (err option \<times> ProjectClaim) \<times> 'w"
  k_StatusUpdateProjectReference :: "ProjectReference \<Rightarrow> 'w \<Rightarrow> (err option \<times> ProjectReference) \<times> 'w"
  k_DeleteProjectReference :: "ProjectReference \<Rightarrow> 'w \<Rightarrow> err option \<times> 'w"
  k_DeleteSecret :: "Secret \<Rightarrow> 'w \<Rightarrow> err option \<times> 'w"

record 'w environment =
  env_Now :: "'w \<Rightarrow> time \<times> 'w"
  env_Sleep :: "duration \<Rightarrow> 'w \<Rightarrow> 'w"
  env_MapOrder :: "'w \<Rightarrow> map_order \<times> 'w"
  env_NewUUID :: "'w \<Rightarrow> string \<times> 'w"
  env_RandString :: "nat \<Rightarrow> 'w \<Rightarrow> string \<times> 'w"
  env_NextBackOff :: "'w \<Rightarrow> duration \<times> 'w"
  env_YamlUnmarshal :: "string \<Rightarrow> err + OperatorConfigMap"

definition namespaced :: "string \<Rightarrow> string \<Rightarrow> NamespacedName" where
  "namespaced ns name = \<lparr>nn_Namespace = ns, nn_Name = name\<rparr>"

lemma namespaced_simps [simp]:
  "nn_Namespace (namespaced ns name) = ns" "nn_Name (namespaced ns name) = name"
  by (simp_all add: namespaced_def)

lemma namespaced_eta [simp]: "namespaced (nn_Namespace x) (nn_Name x) = x"
  by (simp add: namespaced_def)

definition meta_key :: "ObjectMeta \<Rightarrow> NamespacedName" where
  "meta_key m = namespaced (om_Namespace m) (om_Name m)"

subsection \<open>Secrets (pkg/util/util.go)\<close>

definition SecretExists :: "'w kube_client \<Rightarrow> string \<Rightarrow> string \<Rightarrow> 'w \<Rightarrow> bool \<times> 'w" where
  "SecretExists kubeClient secretName ns w =
     (case k_GetSecret kubeClient (namespaced ns secretName) w of
        (Inl e, w') \<Rightarrow> (False, w')
      | (Inr s, w') \<Rightarrow> (True, w'))"

definition GetSecret :: "'w kube_client \<Rightarrow> string \<Rightarrow> string \<Rightarrow> 'w \<Rightarrow> (err + Secret) \<times> 'w" where
  "GetSecret kubeClient secretName ns w =
     (case k_GetSecret kubeClient (namespaced ns secretName) w of
        (Inl e, w') \<Rightarrow> (Inl e, w')
      | (Inr s, w') \<Rightarrow> (Inr s, w'))"

definition NewGCPSecretCR :: "string \<Rightarrow> NamespacedName \<Rightarrow> Secret" where
  "NewGCPSecretCR creds nn =
     \<lparr>s_Kind = ''Secret'', s_APIVersion = ''v1'', s_Meta = new_meta (nn_Name nn) (nn_Namespace nn),
      s_Type = ''Opaque'', s_Data = [''osServiceAccount.json'' \<mapsto> creds]\<rparr>"

definition GetGCPCredentialsFromSecret ::
  "'w kube_client \<Rightarrow> string \<Rightarrow> string \<Rightarrow> 'w \<Rightarrow> (err + string) \<times> 'w" where
  "GetGCPCredentialsFromSecret kubeClient ns name w =
     (case k_GetSecret kubeClient (namespaced ns name) w of
        (Inl e, w') \<Rightarrow> (Inl (Errorf_v ''GetGCPCredentialsFromSecret.Get '' e), w')
      | (Inr secret, w') \<Rightarrow>
          (case s_Data secret ''osServiceAccount.json'' of
             Some json \<Rightarrow> (Inr json, w')
           | None \<Rightarrow>
               (case s_Data secret ''key.json'' of
                  Some json \<Rightarrow> (Inr json, w')
                | None \<Rightarrow>
                    (Inl (PlainError (''GCP credentials secret '' @ name @ '' did not contain key ''
                       @ ''{osServiceAccount,key}.json'')), w'))))"

text \<open>The secret the operator writes is one it can read its credentials from.\<close>

lemma GetGCPCredentials_NewGCPSecretCR:
  "k_GetSecret K (namespaced ns name) w = (Inr (NewGCPSecretCR creds nn), w') \<Longrightarrow>
     GetGCPCredentialsFromSecret K ns name w = (Inr creds, w')"
  by (simp add: GetGCPCredentialsFromSecret_def NewGCPSecretCR_def)

subsection \<open>The operator's configuration (pkg/configmap/configmap.go)\<close>

definition OperatorConfigMapName :: string where "OperatorConfigMapName = ''gcp-project-operator''"
definition OperatorConfigMapNamespace :: string where
  "OperatorConfigMapNamespace = ''gcp-project-operator''"
definition OperatorConfigMapKey :: string where "OperatorConfigMapKey = ''config.yaml''"

definition ValidateOperatorConfigMap :: "OperatorConfigMap \<Rightarrow> err option" where
  "ValidateOperatorConfigMap configmap =
     (if oc_BillingAccount configmap = '''' then Some (PlainError ''missing configmap key: billingAccount'')
      else if oc_ParentFolderID configmap = ''''
      then Some (PlainError ''missing configmap key: parentFolderID'')
      else None)"

definition GetOperatorConfigMap ::
  "'w environment \<Rightarrow> 'w kube_client \<Rightarrow> 'w \<Rightarrow> (err + OperatorConfigMap) \<times> 'w" where
  "GetOperatorConfigMap env kubeClient w =
     (case k_GetConfigMap kubeClient (namespaced OperatorConfigMapNamespace OperatorConfigMapName) w of
        (Inl e, w') \<Rightarrow> (Inl (Errorf_v ''unable to get configmap: '' e), w')
      | (Inr configmap, w') \<Rightarrow>
          (case cm_Data configmap OperatorConfigMapKey of
             None \<Rightarrow> (Inl (PlainError (''unable to get config from key '' @ OperatorConfigMapKey)), w')
           | Some data \<Rightarrow>
               (case env_YamlUnmarshal env data of
                  Inl e \<Rightarrow> (Inl e, w')
                | Inr operatorConfigMap \<Rightarrow> (Inr operatorConfigMap, w'))))"

lemma ValidateOperatorConfigMap_None:
  "ValidateOperatorConfigMap c = None \<longleftrightarrow> oc_BillingAccount c \<noteq> '''' \<and> oc_ParentFolderID c \<noteq> ''''"
  by (simp add: ValidateOperatorConfigMap_def)

end
