(* ===== verification/GcpClient.thy ===== *)
theory GcpClient
  imports KubeClient
begin

text \<open>
  \<^verbatim>\<open>pkg/gcpclient/client.go\<close>: the operator's own client for Google Cloud.

  \<^verbatim>\<open>'w google_sdk\<close> is the Google API library below it, one operation per request the code makes;
  \<^verbatim>\<open>'w gcp_client\<close> is the interface \<^verbatim>\<open>Client\<close> the adapters use; \<^verbatim>\<open>NewClient\<close> builds the second from
  the first.  A list request answers with one page.
\<close>

datatype google_creds = GoogleCreds string

datatype google_service = CloudResourceManager | Iam | ServiceUsage | CloudBilling | Compute

record Zone =
  z_Name :: string
  z_Region :: string

record GcpProject =
  p_ProjectId :: string
  p_Name :: string
  p_LifecycleState :: string
  p_Labels :: "string \<rightharpoonup> string"
  p_ParentId :: string
  p_ParentType :: string

record ListProjectsResponse =
  lp_Projects :: "GcpProject list"
  lp_NextPageToken :: string

record GcpServiceAccount =
  sa_Email :: string
  sa_Name :: string

record GcpServiceAccountKey =
  key_Name :: string
  key_PrivateKeyData :: string

record GcpService =
  svc_State :: string
  svc_ConfigName :: string

record ListServicesResponse =
  ls_Services :: "GcpService list"
  ls_NextPageToken :: string

record ProjectBillingInfo =
  bi_BillingAccountName :: string
  bi_BillingEnabled :: bool

record 'w google_sdk =
  sdk_CredentialsFromJSON :: "string \<Rightarrow> string \<Rightarrow> 'w \<Rightarrow> (err + google_creds) \<times> 'w"
  sdk_NewService :: "google_service \<Rightarrow> google_creds \<Rightarrow> 'w \<Rightarrow> err option \<times> 'w"
  sdk_ZonesPages :: "google_creds \<Rightarrow> string \<Rightarrow> 'w \<Rightarrow> (Zone list list \<times> err option) \<times> 'w"
  sdk_ProjectsList :: "google_creds \<Rightarrow> 'w \<Rightarrow> (err + ListProjectsResponse) \<times> 'w"
  sdk_ProjectsGet :: "google_creds \<Rightarrow> string \<Rightarrow> 'w \<Rightarrow> (err + GcpProject) \<times> 'w"
  sdk_ProjectsUpdate :: "google_creds \<Rightarrow> string \<Rightarrow> GcpProject \<Rightarrow> 'w \<Rightarrow> err option \<times> 'w"
  sdk_ProjectsCreate :: "google_creds \<Rightarrow> GcpProject \<Rightarrow> 'w \<Rightarrow> err option \<times> 'w"
  sdk_ProjectsDelete :: "google_creds \<Rightarrow> string \<Rightarrow> 'w \<Rightarrow> err option \<times> 'w"
  sdk_ServiceAccountsGet :: "google_creds \<Rightarrow> string \<Rightarrow> 'w \<Rightarrow> (err + GcpServiceAccount) \<times> 'w"
  sdk_ServiceAccountsCreate ::
    "google_creds \<Rightarrow> string \<Rightarrow> string \<Rightarrow> string \<Rightarrow> 'w \<Rightarrow> (err + GcpServiceAccount) \<times> 'w"
  sdk_ServiceAccountsDelete :: "google_creds \<Rightarrow> string \<Rightarrow> 'w \<Rightarrow> err option \<times> 'w"
  sdk_KeysCreate :: "google_creds \<Rightarrow> string \<Rightarrow> 'w \<Rightarrow> (err + GcpServiceAccountKey) \<times> 'w"
  sdk_KeysGet :: "google_creds \<Rightarrow> string \<Rightarrow> 'w \<Rightarrow> err option \<times> 'w"
  sdk_KeysList :: "google_creds \<Rightarrow> string \<Rightarrow> 'w \<Rightarrow> (err + GcpServiceAccountKey list) \<times> 'w"
  sdk_KeysDelete :: "google_creds \<Rightarrow> string \<Rightarrow> 'w \<Rightarrow> err option \<times> 'w"
  sdk_GetIamPolicy :: "google_creds \<Rightarrow> string \<Rightarrow> 'w \<Rightarrow> (err + Policy) \<times> 'w"
  sdk_SetIamPolicy :: "google_creds \<Rightarrow> string \<Rightarrow> Policy \<Rightarrow> 'w \<Rightarrow> (err + Policy) \<times> 'w"
  sdk_ServicesList :: "google_creds \<Rightarrow> string \<Rightarrow> 'w \<Rightarrow> (err + ListServicesResponse) \<times> 'w"
  sdk_ServicesEnable :: "google_creds \<Rightarrow> string \<Rightarrow> 'w \<Rightarrow> err option \<times> 'w"
  sdk_GetBillingInfo :: "google_creds \<Rightarrow> string \<Rightarrow> 'w \<Rightarrow> (err + ProjectBillingInfo) \<times> 'w"
  sdk_UpdateBillingInfo :: "google_creds \<Rightarrow> string \<Rightarrow> ProjectBillingInfo \<Rightarrow> 'w \<Rightarrow> err option \<times> 'w"

text \<open>The interface \<^verbatim>\<open>Client\<close>.\<close>

record 'w gcp_client =
  g_GetServiceAccount :: "string \<Rightarrow> 'w \<Rightarrow> (err + GcpServiceAccount) \<times> 'w"
  g_CreateServiceAccount :: "string \<Rightarrow> string \<Rightarrow> 'w \<Rightarrow> (err + GcpServiceAccount) \<times> 'w"
  g_DeleteServiceAccount :: "string \<Rightarrow> 'w \<Rightarrow> err option \<times> 'w"
  g_CreateServiceAccountKey :: "string \<Rightarrow> 'w \<Rightarrow> (err + GcpServiceAccountKey) \<times> 'w"
  g_DeleteServiceAccountKeys :: "string \<Rightarrow> 'w \<Rightarrow> err option \<times> 'w"
  g_GetIamPolicy :: "string \<Rightarrow> 'w \<Rightarrow> (err + Policy) \<times> 'w"
  g_SetIamPolicy :: "Policy \<Rightarrow> 'w \<Rightarrow> (err + Policy) \<times> 'w"
  g_ListProjects :: "'w \<Rightarrow> (err + GcpProject list) \<times> 'w"
  g_CreateProject :: "string \<Rightarrow> string \<Rightarrow> 'w \<Rightarrow> err option \<times> 'w"
  g_CreateProjectLabels :: "GcpProject \<Rightarrow> (string \<rightharpoonup> string) \<Rightarrow> 'w \<Rightarrow> err option \<times> 'w"
  g_DeleteProject :: "string \<Rightarrow> 'w \<Rightarrow> err option \<times> 'w"
  g_GetProject :: "string \<Rightarrow> 'w \<Rightarrow> (err + GcpProject) \<times> 'w"
  g_EnableAPI :: "string \<Rightarrow> string \<Rightarrow> 'w \<Rightarrow> err option \<times> 'w"
  g_ListAPIs :: "string \<Rightarrow> 'w \<Rightarrow> (err + string list) \<times> 'w"
  g_CreateCloudBillingAccount :: "string \<Rightarrow> string \<Rightarrow> 'w \<Rightarrow> err option \<times> 'w"
  g_ListAvailabilityZones :: "string \<Rightarrow> string \<Rightarrow> 'w \<Rightarrow> (err + string list) \<times> 'w"

record gcpClient =
  gc_projectName :: string
  gc_creds :: google_creds

definition gcpAPIRetriesCount :: nat where "gcpAPIRetriesCount = 3"

subsection \<open>Compute and resource manager\<close>

text \<open>The closure given to \<^verbatim>\<open>Pages\<close>, run on each page in turn.\<close>

definition zones_of_page :: "string \<Rightarrow> Zone list \<Rightarrow> string list" where
  "zones_of_page region page = map z_Name (filter (\<lambda>zone. StrContains (z_Region zone) region) page)"

definition ListAvailabilityZones ::
  "'w google_sdk \<Rightarrow> gcpClient \<Rightarrow> string \<Rightarrow> string \<Rightarrow> 'w \<Rightarrow> (err + string list) \<times> 'w" where
  "ListAvailabilityZones sdk c projectID region w =
     (case sdk_ZonesPages sdk (gc_creds c) projectID w of
        ((pages, e), w') \<Rightarrow>
          (case e of
             Some e' \<Rightarrow> (Inl e', w')
           | None \<Rightarrow> (Inr (concat (map (zones_of_page region) pages)), w')))"

definition ListProjects :: "'w google_sdk \<Rightarrow> gcpClient \<Rightarrow> 'w \<Rightarrow> (err + GcpProject list) \<times> 'w" where
  "ListProjects sdk c w =
     (case sdk_ProjectsList sdk (gc_creds c) w of
        (Inl e, w') \<Rightarrow> (Inl e, w')
      | (Inr resp, w') \<Rightarrow> (Inr (lp_Projects resp), w'))"

definition GetProject :: "'w google_sdk \<Rightarrow> gcpClient \<Rightarrow> string \<Rightarrow> 'w \<Rightarrow> (err + GcpProject) \<times> 'w" where
  "GetProject sdk c projectID w =
     (case sdk_ProjectsGet sdk (gc_creds c) projectID w of
        (Inl e, w') \<Rightarrow> (Inl e, w')
      | (Inr project, w') \<Rightarrow> (Inr project, w'))"

definition CreateProjectLabels ::
  "'w environment \<Rightarrow> 'w google_sdk \<Rightarrow> gcpClient \<Rightarrow> GcpProject \<Rightarrow> (string \<rightharpoonup> string) \<Rightarrow> 'w
     \<Rightarrow> err option \<times> 'w" where
  "CreateProjectLabels env sdk c project labels w =
     (let project' = project\<lparr>p_Labels := labels\<rparr> in
      case sdk_ProjectsUpdate sdk (gc_creds c) (p_ProjectId project') project' w of
        (Some e, w') \<Rightarrow> (Some (Errorf_v ''gcpclient.CreateProject.Projects.Update '' e), w')
      | (None, w') \<Rightarrow> (None, env_Sleep env (3 * Second) w'))"

definition CreateProject ::
  "'w environment \<Rightarrow> 'w google_sdk \<Rightarrow> gcpClient \<Rightarrow> string \<Rightarrow> string \<Rightarrow> 'w \<Rightarrow> err option \<times> 'w" where
  "CreateProject env sdk c parentFolderID claimName w =
     (let project = \<lparr>p_ProjectId = gc_projectName c, p_Name = gc_projectName c, p_LifecycleState = '''',
            p_Labels = [''claim_name'' \<mapsto> claimName], p_ParentId = parentFolderID, p_ParentType = ''folder''\<rparr>
      in case sdk_ProjectsCreate sdk (gc_creds c) project w of
           (Some e, w') \<Rightarrow>
             if google_code e = Some StatusConflict then (None, w')
             else (Some (Errorf_v ''gcpclient.CreateProject.Projects.Create '' e), w')
         | (None, w') \<Rightarrow> (None, env_Sleep env (3 * Second) w'))"

text \<open>The argument is ignored: what is deleted is the project the client was built for.\<close>

definition DeleteProject :: "'w google_sdk \<Rightarrow> gcpClient \<Rightarrow> string \<Rightarrow> 'w \<Rightarrow> err option \<times> 'w" where
  "DeleteProject sdk c parentFolder w =
     (case sdk_ProjectsDelete sdk (gc_creds c) (gc_projectName c) w of
        (Some e, w') \<Rightarrow> (Some (Errorf_v ''gcpclient.DeleteProject.Projects.Delete '' e), w')
      | (None, w') \<Rightarrow> (None, w'))"

definition GetIamPolicy :: "'w google_sdk \<Rightarrow> gcpClient \<Rightarrow> string \<Rightarrow> 'w \<Rightarrow> (err + Policy) \<times> 'w" where
  "GetIamPolicy sdk c projectName w =
     (case sdk_GetIamPolicy sdk (gc_creds c) projectName w of
        (Inl e, w') \<Rightarrow> (Inl (Errorf_v ''gcpclient.GetIamPolicy.Projects.ServiceAccounts.GetIamPolicy '' e), w')
      | (Inr policy, w') \<Rightarrow> (Inr policy, w'))"

definition SetIamPolicy :: "'w google_sdk \<Rightarrow> gcpClient \<Rightarrow> Policy \<Rightarrow> 'w \<Rightarrow> (err + Policy) \<times> 'w" where
  "SetIamPolicy sdk c policy w =
     (case sdk_SetIamPolicy sdk (gc_creds c) (gc_projectName c) policy w of
        (Inl e, w') \<Rightarrow> (Inl e, w')
      | (Inr policy', w') \<Rightarrow> (Inr policy', w'))"

subsection \<open>Service accounts and their keys\<close>

definition service_account_resource :: "gcpClient \<Rightarrow> string \<Rightarrow> string" where
  "service_account_resource c email =
     ''projects/'' @ gc_projectName c @ ''/serviceAccounts/'' @ email"

definition GetServiceAccount ::
  "'w google_sdk \<Rightarrow> gcpClient \<Rightarrow> string \<Rightarrow> 'w \<Rightarrow> (err + GcpServiceAccount) \<times> 'w" where
  "GetServiceAccount sdk c accountName w =
     (let resource = service_account_resource c
            (accountName @ ''@'' @ gc_projectName c @ ''.iam.gserviceaccount.com'')
      in case sdk_ServiceAccountsGet sdk (gc_creds c) resource w of
           (Inl e, w') \<Rightarrow> (Inl e, w')
         | (Inr sa, w') \<Rightarrow> (Inr sa, w'))"

definition CreateServiceAccount ::
  "'w google_sdk \<Rightarrow> gcpClient \<Rightarrow> string \<Rightarrow> string \<Rightarrow> 'w \<Rightarrow> (err + GcpServiceAccount) \<times> 'w" where
  "CreateServiceAccount sdk c name displayName w =
     (case sdk_ServiceAccountsCreate sdk (gc_creds c) (''projects/'' @ gc_projectName c) name displayName w of
        (Inl e, w') \<Rightarrow> (Inl e, w')
      | (Inr sa, w') \<Rightarrow> (Inr sa, w'))"

definition DeleteServiceAccount :: "'w google_sdk \<Rightarrow> gcpClient \<Rightarrow> string \<Rightarrow> 'w \<Rightarrow> err option \<times> 'w" where
  "DeleteServiceAccount sdk c accountEmail w =
     (case sdk_ServiceAccountsDelete sdk (gc_creds c) (service_account_resource c accountEmail) w of
        (Some e, w') \<Rightarrow>
          (Some (Errorf_v ''gcpclient.DeleteServiceAccount.Projects.ServiceAccounts.Delete: '' e), w')
      | (None, w') \<Rightarrow> (None, w'))"

text \<open>
  The loop that waits for a new key: \<^verbatim>\<open>n\<close> attempts are left.  The last error is returned when
  all of them fail.
\<close>

fun await_key ::
  "'w environment \<Rightarrow> 'w google_sdk \<Rightarrow> gcpClient \<Rightarrow> GcpServiceAccountKey \<Rightarrow> nat \<Rightarrow> err option \<Rightarrow> 'w
     \<Rightarrow> err option \<times> 'w" where
  "await_key env sdk c key 0 lastErr w = (lastErr, w)"
| "await_key env sdk c key (Suc n) lastErr w =
     (case sdk_KeysGet sdk (gc_creds c) (key_Name key) w of
        (Some e, w1) \<Rightarrow>
          (case env_NextBackOff env w1 of
             (d, w2) \<Rightarrow> await_key env sdk c key n (Some e) (env_Sleep env d w2))
      | (None, w1) \<Rightarrow> (None, w1))"

definition CreateServiceAccountKey ::
  "'w environment \<Rightarrow> 'w google_sdk \<Rightarrow> gcpClient \<Rightarrow> string \<Rightarrow> 'w \<Rightarrow> (err + GcpServiceAccountKey) \<times> 'w" where
  "CreateServiceAccountKey env sdk c serviceAccountEmail w =
     (case sdk_KeysCreate sdk (gc_creds c) (service_account_resource c serviceAccountEmail) w of
        (Inl e, w') \<Rightarrow>
          (Inl (Errorf_v ''gcpclient.CreateServiceAccountKey.Projects.ServiceAccounts.Keys.Create: '' e), w')
      | (Inr key, w') \<Rightarrow>
          (case await_key env sdk c key 4 None w' of
             (Some e, w'') \<Rightarrow> (Inl e, w'')
           | (None, w'') \<Rightarrow> (Inr key, w'')))"

fun delete_keys ::
  "'w google_sdk \<Rightarrow> gcpClient \<Rightarrow> GcpServiceAccountKey list \<Rightarrow> 'w \<Rightarrow> 'w" where
  "delete_keys sdk c [] w = w"
| "delete_keys sdk c (key # keys) w =
     delete_keys sdk c keys (snd (sdk_KeysDelete sdk (gc_creds c) (key_Name key) w))"

definition DeleteServiceAccountKeys ::
  "'w google_sdk \<Rightarrow> gcpClient \<Rightarrow> string \<Rightarrow> 'w \<Rightarrow> err option \<times> 'w" where
  "DeleteServiceAccountKeys sdk c serviceAccountEmail w =
     (let resource = service_account_resource c serviceAccountEmail in
      case sdk_KeysList sdk (gc_creds c) resource w of
        (Inl e, w1) \<Rightarrow>
          (Some (Errorf_v ''gcpclient.DeleteServiceAccountKeys.Projects.ServiceAccounts.Keys.List: '' e), w1)
      | (Inr ks, w1) \<Rightarrow>
          if length ks \<le> 1 then (None, w1)
          else
            (case sdk_KeysList sdk (gc_creds c) resource (delete_keys sdk c ks w1) of
               (Inl e, w2) \<Rightarrow>
                 (Some (Errorf_v ''gcpclient.DeleteServiceAccountKeys.Projects.ServiceAccounts.Keys.List: '' e),
                  w2)
             | (Inr ks', w2) \<Rightarrow>
                 if 1 < length ks'
                 then (Some (Errorf_v ''gcpclient.DeleteServiceAccountKeys.Projects.ServiceAccounts.Keys.Delete: ''
                         (PlainError ''could not delete all keys'')), w2)
                 else (None, w2)))"

subsection \<open>Service usage\<close>

definition ListAPIs :: "'w google_sdk \<Rightarrow> gcpClient \<Rightarrow> string \<Rightarrow> 'w \<Rightarrow> (err + string list) \<times> 'w" where
  "ListAPIs sdk c projectID w =
     (case sdk_ServicesList sdk (gc_creds c) (''projects/'' @ projectID) w of
        (Inl e, w') \<Rightarrow> (Inl e, w')
      | (Inr response, w') \<Rightarrow>
          (Inr (map svc_ConfigName (filter (\<lambda>svc. svc_State svc = ''ENABLED'') (ls_Services response))), w'))"

text \<open>The retry loop of \<^verbatim>\<open>EnableAPI\<close>; \<^verbatim>\<open>retry\<close> is the counter before its increment.\<close>

function EnableAPI_loop ::
  "'w environment \<Rightarrow> 'w google_sdk \<Rightarrow> gcpClient \<Rightarrow> string \<Rightarrow> nat \<Rightarrow> 'w \<Rightarrow> err option \<times> 'w" where
  "EnableAPI_loop env sdk c fullAPIName retry w =
     (case sdk_ServicesEnable sdk (gc_creds c) fullAPIName (env_Sleep env Second w) of
        (Some e, w') \<Rightarrow>
          if google_code e = Some StatusForbidden \<and> Suc retry \<le> gcpAPIRetriesCount
          then EnableAPI_loop env sdk c fullAPIName (Suc retry) w'
          else (Some e, w')
      | (None, w') \<Rightarrow> (None, w'))"
  by pat_completeness auto
termination
  by (relation "measure (\<lambda>(env, sdk, c, fullAPIName, retry, w). gcpAPIRetriesCount - retry)") auto

declare EnableAPI_loop.simps [simp del]

definition EnableAPI ::
  "'w environment \<Rightarrow> 'w google_sdk \<Rightarrow> gcpClient \<Rightarrow> string \<Rightarrow> string \<Rightarrow> 'w \<Rightarrow> err option \<times> 'w" where
  "EnableAPI env sdk c projectID api w =
     EnableAPI_loop env sdk c (''projects/'' @ projectID @ ''/services/'' @ api) 0 w"

subsection \<open>Billing\<close>

definition CreateCloudBillingAccount ::
  "'w google_sdk \<Rightarrow> gcpClient \<Rightarrow> string \<Rightarrow> string \<Rightarrow> 'w \<Rightarrow> err option \<times> 'w" where
  "CreateCloudBillingAccount sdk c projectID billingAccountID w =
     (let project = ''projects/'' @ projectID;
          billingAccount = ''billingAccounts/'' @ TrimSuffix billingAccountID [CHR 0x0A];
          linked = (case sdk_GetBillingInfo sdk (gc_creds c) project w of
              (Inl e, w1) \<Rightarrow> (Inl e, w1)
            | (Inr info, w1) \<Rightarrow>
                if length (bi_BillingAccountName info) = 0
                then (let info' = info\<lparr>bi_BillingAccountName := billingAccount, bi_BillingEnabled := True\<rparr> in
                      case sdk_UpdateBillingInfo sdk (gc_creds c) project info' w1 of
                        (Some e, w2) \<Rightarrow> (Inl e, w2)
                      | (None, w2) \<Rightarrow> (Inr info', w2))
                else (Inr info, w1))
      in case linked of
           (Inl e, w2) \<Rightarrow> (Some e, w2)
         | (Inr info, w2) \<Rightarrow>
             if 0 < length (bi_BillingAccountName info) \<and> bi_BillingAccountName info \<noteq> billingAccount
             then
               (case sdk_UpdateBillingInfo sdk (gc_creds c) project
                       \<lparr>bi_BillingAccountName = '''', bi_BillingEnabled = False\<rparr> w2 of
                  (Some e, w3) \<Rightarrow> (Some e, w3)
                | (None, w3) \<Rightarrow>
                    sdk_UpdateBillingInfo sdk (gc_creds c) project
                      (info\<lparr>bi_BillingAccountName := billingAccount\<rparr>) w3)
             else (None, w2))"

subsection \<open>NewClient\<close>

definition client_of :: "'w environment \<Rightarrow> 'w google_sdk \<Rightarrow> gcpClient \<Rightarrow> 'w gcp_client" where
  "client_of env sdk c =
     \<lparr>g_GetServiceAccount = GetServiceAccount sdk c,
      g_CreateServiceAccount = CreateServiceAccount sdk c,
      g_DeleteServiceAccount = DeleteServiceAccount sdk c,
      g_CreateServiceAccountKey = CreateServiceAccountKey env sdk c,
      g_DeleteServiceAccountKeys = DeleteServiceAccountKeys sdk c,
      g_GetIamPolicy = GetIamPolicy sdk c,
      g_SetIamPolicy = SetIamPolicy sdk c,
      g_ListProjects = ListProjects sdk c,
      g_CreateProject = CreateProject env sdk c,
      g_CreateProjectLabels = CreateProjectLabels env sdk c,
      g_DeleteProject = DeleteProject sdk c,
      g_GetProject = GetProject sdk c,
      g_EnableAPI = EnableAPI env sdk c,
      g_ListAPIs = ListAPIs sdk c,
      g_CreateCloudBillingAccount = CreateCloudBillingAccount sdk c,
      g_ListAvailabilityZones = ListAvailabilityZones sdk c\<rparr>"

text \<open>The services are connected in the order of the code; the first failure ends the function.\<close>

fun connect_services ::
  "'w google_sdk \<Rightarrow> google_creds \<Rightarrow> (google_service \<times> string) list \<Rightarrow> 'w \<Rightarrow> err option \<times> 'w" where
  "connect_services sdk creds [] w = (None, w)"
| "connect_services sdk creds ((service, prefix) # services) w =
     (case sdk_NewService sdk service creds w of
        (Some e, w') \<Rightarrow> (Some (Errorf_v prefix e), w')
      | (None, w') \<Rightarrow> connect_services sdk creds services w')"

definition NewClient ::
  "'w environment \<Rightarrow> 'w google_sdk \<Rightarrow> string \<Rightarrow> string \<Rightarrow> 'w \<Rightarrow> (err + 'w gcp_client) \<times> 'w" where
  "NewClient env sdk projectName authJSON w =
     (case sdk_CredentialsFromJSON sdk authJSON ''https://www.googleapis.com/auth/cloud-platform'' w of
        (Inl e, w1) \<Rightarrow> (Inl (Errorf_v ''gcpclient.NewClient.google.CredentialsFromJSON '' e), w1)
      | (Inr creds, w1) \<Rightarrow>
          (case connect_services sdk creds
                  [(CloudResourceManager, ''gcpclient.NewClient.cloudresourcemanager.NewService ''),
                   (Iam, ''gcpclient.iam.NewService ''),
                   (ServiceUsage, ''gcpclient.serviceUsageClient.NewService ''),
                   (CloudBilling, ''gcpclient.cloudBillingClient.NewService ''),
                   (Compute, ''gcpclient.compute.NewService '')] w1 of
             (Some e, w2) \<Rightarrow> (Inl e, w2)
           | (None, w2) \<Rightarrow> (Inr (client_of env sdk \<lparr>gc_projectName = projectName, gc_creds = creds\<rparr>), w2)))"

end
