(* ===== verification/ReferenceAdapter.thy ===== *)
theory ReferenceAdapter
  imports GcpClient
begin

text \<open>
  \<^verbatim>\<open>controllers/projectreference/projectreference_adapter.go\<close>: the operations of the
  ProjectReference controller, which create, configure and delete a project in Google Cloud.

  As for the claims, the fields of the Go struct that are never reassigned form the record
  \<^verbatim>\<open>'w ReferenceAdapter\<close>; the claim and the reference its pointer fields refer to form, with the
  world, the state \<^verbatim>\<open>'w reference_state\<close>.
\<close>

record 'w ReferenceAdapter =
  ra_kubeClient :: "'w kube_client"
  ra_gcpClient :: "'w gcp_client"
  ra_conditionManager :: condition_manager
  ra_OperatorConfig :: OperatorConfigMap
  ra_env :: "'w environment"

record 'w reference_state =
  rs_claim :: ProjectClaim
  rs_reference :: ProjectReference
  rs_world :: 'w

definition osdServiceAccountNameDefault :: string where
  "osdServiceAccountNameDefault = ''osd-managed-admin''"
definition FinalizerName :: string where
  "FinalizerName = ''finalizer.gcp.managed.openshift.io''"

definition OSDRequiredAPIS :: "string list" where
  "OSDRequiredAPIS =
    [''serviceusage.googleapis.com'', ''cloudresourcemanager.googleapis.com'',
     ''storage-component.googleapis.com'', ''storage-api.googleapis.com'', ''dns.googleapis.com'',
     ''iam.googleapis.com'', ''compute.googleapis.com'', ''cloudapis.googleapis.com'',
     ''iamcredentials.googleapis.com'', ''servicemanagement.googleapis.com'',
     ''networksecurity.googleapis.com'', ''iap.googleapis.com'']"

definition OSDRequiredRoles :: "string list" where
  "OSDRequiredRoles =
    [''roles/compute.admin'', ''roles/dns.admin'', ''roles/iam.roleAdmin'', ''roles/iam.securityAdmin'',
     ''roles/iam.serviceAccountAdmin'', ''roles/iam.serviceAccountKeyAdmin'',
     ''roles/iam.serviceAccountUser'', ''roles/storage.admin'']"

definition OSDSREConsoleAccessRoles :: "string list" where
  "OSDSREConsoleAccessRoles =
    [''roles/compute.admin'', ''roles/editor'', ''roles/resourcemanager.projectIamAdmin'',
     ''roles/servicemanagement.quotaAdmin'', ''roles/iam.serviceAccountAdmin'',
     ''roles/serviceusage.serviceUsageAdmin'', ''roles/iam.roleAdmin'',
     ''roles/cloudsupport.techSupportEditor'', ''roles/iap.tunnelResourceAccessor'']"

definition OSDReadOnlyConsoleAccessRoles :: "string list" where
  "OSDReadOnlyConsoleAccessRoles = [''roles/viewer'']"

definition OSDSharedVPCRoles :: "string list" where
  "OSDSharedVPCRoles =
    [''roles/iam.securityReviewer'', ''roles/compute.loadBalancerAdmin'',
     ''roles/resourcemanager.tagUser'', ''roles/compute.networkAdmin'']"

definition reference_caller :: "nat \<Rightarrow> string \<Rightarrow> caller option" where
  "reference_caller line fn = Some (Caller ''controllers/projectreference/projectreference_adapter.go'' line
     (''github.com/openshift/gcp-project-operator/controllers/projectreference.'' @ fn))"

subsection \<open>Construction\<close>

definition getMatchingClaimLink ::
  "ProjectReference \<Rightarrow> 'w kube_client \<Rightarrow> 'w \<Rightarrow> (err + ProjectClaim) \<times> 'w" where
  "getMatchingClaimLink reference client w =
     (let link = prs_ProjectClaimCRLink (pr_Spec reference) in
      case k_GetProjectClaim client (namespaced (nn_Namespace link) (nn_Name link)) w of
        (Inl e, w') \<Rightarrow> (Inl e, w')
      | (Inr claim, w') \<Rightarrow> (Inr claim, w'))"

definition NewReferenceAdapter ::
  "ProjectReference \<Rightarrow> 'w kube_client \<Rightarrow> 'w gcp_client \<Rightarrow> condition_manager \<Rightarrow> OperatorConfigMap
     \<Rightarrow> 'w environment \<Rightarrow> 'w \<Rightarrow> (err + 'w ReferenceAdapter \<times> 'w reference_state) \<times> 'w" where
  "NewReferenceAdapter reference client gcp manager cm env w =
     (case getMatchingClaimLink reference client w of
        (Inl e, w') \<Rightarrow> (Inl e, w')
      | (Inr claim, w') \<Rightarrow>
          (Inr (\<lparr>ra_kubeClient = client, ra_gcpClient = gcp, ra_conditionManager = manager,
                 ra_OperatorConfig = cm, ra_env = env\<rparr>,
                \<lparr>rs_claim = claim, rs_reference = reference, rs_world = w'\<rparr>), w'))"

subsection \<open>Client calls on the adapter's objects\<close>

text \<open>A call that changes the world only.\<close>

definition on_world :: "('w, 'a) effect \<Rightarrow> ('w reference_state, 'a) effect" where
  "on_world f s = (case f (rs_world s) of (r, w) \<Rightarrow> (r, s\<lparr>rs_world := w\<rparr>))"

definition ref_update_claim :: "'w ReferenceAdapter \<Rightarrow> ('w reference_state, err option) effect" where
  "ref_update_claim r s =
     (case k_UpdateProjectClaim (ra_kubeClient r) (rs_claim s) (rs_world s) of
        ((e, obj), w) \<Rightarrow> (e, s\<lparr>rs_claim := obj, rs_world := w\<rparr>))"

definition ref_status_update_claim :: "'w ReferenceAdapter \<Rightarrow> ('w reference_state, err option) effect" where
  "ref_status_update_claim r s =
     (case k_StatusUpdateProjectClaim (ra_kubeClient r) (rs_claim s) (rs_world s) of
        ((e, obj), w) \<Rightarrow> (e, s\<lparr>rs_claim := obj, rs_world := w\<rparr>))"

definition ref_update :: "'w ReferenceAdapter \<Rightarrow> ('w reference_state, err option) effect" where
  "ref_update r s =
     (case k_UpdateProjectReference (ra_kubeClient r) (rs_reference s) (rs_world s) of
        ((e, obj), w) \<Rightarrow> (e, s\<lparr>rs_reference := obj, rs_world := w\<rparr>))"

definition ref_status_update :: "'w ReferenceAdapter \<Rightarrow> ('w reference_state, err option) effect" where
  "ref_status_update r s =
     (case k_StatusUpdateProjectReference (ra_kubeClient r) (rs_reference s) (rs_world s) of
        ((e, obj), w) \<Rightarrow> (e, s\<lparr>rs_reference := obj, rs_world := w\<rparr>))"

definition set_ref_state :: "string \<Rightarrow> 'w reference_state \<Rightarrow> 'w reference_state" where
  "set_ref_state st s = s\<lparr>rs_reference := set_reference_state st (rs_reference s)\<rparr>"

definition set_ref_spec ::
  "(ProjectReferenceSpec \<Rightarrow> ProjectReferenceSpec) \<Rightarrow> 'w reference_state \<Rightarrow> 'w reference_state" where
  "set_ref_spec f s = s\<lparr>rs_reference := (rs_reference s)\<lparr>pr_Spec := f (pr_Spec (rs_reference s))\<rparr>\<rparr>"

definition reference_StatusUpdate :: "'w ReferenceAdapter \<Rightarrow> ('w reference_state, err option) effect" where
  "reference_StatusUpdate r s =
     (case ref_status_update r s of
        (Some e, s') \<Rightarrow>
          (Wrap (reference_caller 869 ''(*ReferenceAdapter).StatusUpdate'') (Some e)
             (''failed to update ProjectReference status of '' @ pr_Name (rs_reference s')), s')
      | (None, s') \<Rightarrow> (None, s'))"

abbreviation "reference_project s \<equiv> prs_GCPProjectID (pr_Spec (rs_reference s))"
abbreviation "reference_account s \<equiv> prs_ServiceAccountName (pr_Spec (rs_reference s))"
abbreviation "reference_finalizers s \<equiv> om_Finalizers (pr_Meta (rs_reference s))"

subsection \<open>Errors of the services, by their text\<close>

definition matchesAlreadyExistsError :: "err \<Rightarrow> bool" where
  "matchesAlreadyExistsError e \<longleftrightarrow> HasPrefix (error_text e) ''googleapi: Error 409:''"

definition matchesNotFoundError :: "err \<Rightarrow> bool" where
  "matchesNotFoundError e \<longleftrightarrow>
     HasPrefix (error_text e) ''googleapi: Error 404:'' \<or>
     (StrContains (error_text e) ''400 Bad Request'' \<and>
      StrContains (error_text e) ''Invalid grant: account not found'')"

definition matchesComputeApiNotReadyError :: "err \<Rightarrow> bool" where
  "matchesComputeApiNotReadyError e \<longleftrightarrow>
     HasPrefix (error_text e)
       ''googleapi: Error 403: Compute Engine API has not been used in project'' \<or>
     HasPrefix (error_text e)
       ''googleapi: Error 403: Access Not Configured. Compute Engine API has not been used in project''"

subsection \<open>First steps: status, names, finalizer\<close>

definition EnsureProjectReferenceInitialized ::
  "'w ReferenceAdapter \<Rightarrow> ('w reference_state, outcome) effect" where
  "EnsureProjectReferenceInitialized r s =
     (if pr_Conditions (rs_reference s) = None
      then (case reference_StatusUpdate r
                   (s\<lparr>rs_reference := set_reference_conditions (Some []) (rs_reference s)\<rparr>) of
              (Some e, s') \<Rightarrow>
                (RequeueWithError (Wrap (reference_caller 744 ''EnsureProjectReferenceInitialized'') (Some e)
                   ''failed to initialize ProjectReference''), s')
            | (None, s') \<Rightarrow> (StopProcessing, s'))
      else (ContinueProcessing, s))"

definition VerifyProjectClaimPending :: "'w ReferenceAdapter \<Rightarrow> ('w reference_state, outcome) effect" where
  "VerifyProjectClaimPending r s =
     (if pc_State (rs_claim s) \<noteq> ClaimStatusPendingProject
      then (RequeueAfter (5 * Second) None, s)
      else (ContinueProcessing, s))"

definition EnsureProjectReferenceStatusCreating ::
  "'w ReferenceAdapter \<Rightarrow> ('w reference_state, outcome) effect" where
  "EnsureProjectReferenceStatusCreating r s =
     (if pr_State (rs_reference s) \<noteq> '''' then (ContinueProcessing, s)
      else
        (case ref_status_update r (set_ref_state ProjectReferenceStatusCreating s) of
           (Some e, s') \<Rightarrow>
             (RequeueWithError (Wrap (reference_caller 175 ''EnsureProjectReferenceStatusCreating'') (Some e)
                ''error updating ProjectReference status''), s')
         | (None, s') \<Rightarrow> (StopProcessing, s')))"

definition serviceAccountNameTemplate :: "string \<Rightarrow> string" where
  "serviceAccountNameTemplate suffix = osdServiceAccountNameDefault @ ''-'' @ suffix"

definition serviceNameAlreadyGenerated :: "ProjectReference \<Rightarrow> bool" where
  "serviceNameAlreadyGenerated reference \<longleftrightarrow>
     (let prefix = serviceAccountNameTemplate '''';
          serviceAccountName = prs_ServiceAccountName (pr_Spec reference)
      in HasPrefix serviceAccountName prefix \<and> length prefix < length serviceAccountName)"

definition serviceNameAlreadyFilled :: "ProjectReference \<Rightarrow> bool" where
  "serviceNameAlreadyFilled reference \<longleftrightarrow>
     prs_ServiceAccountName (pr_Spec reference) = osdServiceAccountNameDefault"

definition UpdateServiceAccountName :: "'w ReferenceAdapter \<Rightarrow> ('w reference_state, err option) effect" where
  "UpdateServiceAccountName r s =
     (case on_world (env_RandString (ra_env r) 8) s of
        (suffix, s1) \<Rightarrow>
          ref_update r (set_ref_spec (\<lambda>spec. spec\<lparr>prs_ServiceAccountName := serviceAccountNameTemplate suffix\<rparr>) s1))"

definition EnsureServiceAccountName :: "'w ReferenceAdapter \<Rightarrow> ('w reference_state, outcome) effect" where
  "EnsureServiceAccountName r s =
     (if serviceNameAlreadyGenerated (rs_reference s) \<or> serviceNameAlreadyFilled (rs_reference s)
      then (ContinueProcessing, s)
      else
        (case UpdateServiceAccountName r s of
           (Some e, s') \<Rightarrow>
             (RequeueWithError (Wrap (reference_caller 204 ''EnsureServiceAccountName'') (Some e)
                ''could not update ServiceAccountName in Project Reference CR''), s')
         | (None, s') \<Rightarrow> (StopProcessing, s')))"

definition project_id_of_uuid :: "string \<Rightarrow> string" where
  "project_id_of_uuid guid = ''o-'' @ take 8 (hex_bytes (sha256 (bytes_of_string guid)))"

text \<open>The error of \<^verbatim>\<open>hashing.Write\<close> is always nil (\<^verbatim>\<open>hash.Hash\<close> promises it).\<close>

definition GenerateProjectID :: "'w environment \<Rightarrow> 'w \<Rightarrow> (err + string) \<times> 'w" where
  "GenerateProjectID env w =
     (case env_NewUUID env w of (guid, w') \<Rightarrow> (Inr (project_id_of_uuid guid), w'))"

definition UpdateProjectID :: "'w ReferenceAdapter \<Rightarrow> ('w reference_state, err option) effect" where
  "UpdateProjectID r s =
     (case on_world (GenerateProjectID (ra_env r)) s of
        (Inl e, s1) \<Rightarrow> (Some e, s1)
      | (Inr projectID, s1) \<Rightarrow>
          ref_update r (set_ref_spec (\<lambda>spec. spec\<lparr>prs_GCPProjectID := projectID\<rparr>) s1))"

definition EnsureProjectID :: "'w ReferenceAdapter \<Rightarrow> ('w reference_state, outcome) effect" where
  "EnsureProjectID r s =
     (if reference_project s \<noteq> '''' then (ContinueProcessing, s)
      else
        (case UpdateProjectID r s of
           (Some e, s') \<Rightarrow>
             (RequeueWithError (Wrap (reference_caller 218 ''EnsureProjectID'') (Some e)
                ''could not update ProjectID in Project Reference CR''), s')
         | (None, s') \<Rightarrow> (StopProcessing, s')))"

definition set_ref_finalizers :: "string list \<Rightarrow> 'w reference_state \<Rightarrow> 'w reference_state" where
  "set_ref_finalizers fs s =
     s\<lparr>rs_reference := (rs_reference s)\<lparr>pr_Meta := (pr_Meta (rs_reference s))\<lparr>om_Finalizers := fs\<rparr>\<rparr>\<rparr>"

definition EnsureFinalizerAdded :: "'w ReferenceAdapter \<Rightarrow> ('w reference_state, outcome) effect" where
  "EnsureFinalizerAdded r s =
     (if \<not> Contains (reference_finalizers s) FinalizerName
      then (case ref_update r (set_ref_finalizers (reference_finalizers s @ [FinalizerName]) s) of
              (e, s') \<Rightarrow> (RequeueOnErrorOrStop e, s'))
      else (ContinueProcessing, s))"

definition EnsureFinalizerDeleted :: "'w ReferenceAdapter \<Rightarrow> ('w reference_state, err option) effect" where
  "EnsureFinalizerDeleted r s =
     (if Contains (reference_finalizers s) FinalizerName
      then ref_update r (set_ref_finalizers (Filter (reference_finalizers s) FinalizerName) s)
      else (None, s))"

definition EnsureStateReady :: "'w ReferenceAdapter \<Rightarrow> ('w reference_state, outcome) effect" where
  "EnsureStateReady r s =
     (if pr_State (rs_reference s) \<noteq> ProjectReferenceStatusReady
      then (case ref_status_update r (set_ref_state ProjectReferenceStatusReady s) of
              (e, s') \<Rightarrow> (RequeueOnErrorOrStop e, s'))
      else (ContinueProcessing, s))"

definition isCCS :: "'w reference_state \<Rightarrow> bool" where
  "isCCS s \<longleftrightarrow> prs_CCS (pr_Spec (rs_reference s))"

definition IsDeletionRequested :: "'w reference_state \<Rightarrow> bool" where
  "IsDeletionRequested s \<longleftrightarrow> om_DeletionTimestamp (pr_Meta (rs_reference s)) \<noteq> None"

subsection \<open>The project\<close>

definition convertProjectsToMap :: "GcpProject list \<Rightarrow> (string \<rightharpoonup> GcpProject)" where
  "convertProjectsToMap projects = foldl (\<lambda>m project. m(p_ProjectId project \<mapsto> project)) Map.empty projects"

definition getProject ::
  "'w ReferenceAdapter \<Rightarrow> string \<Rightarrow> ('w reference_state, err + GcpProject option) effect" where
  "getProject r projectId s =
     (case on_world (g_ListProjects (ra_gcpClient r)) s of
        (Inl e, s') \<Rightarrow> (Inl e, s')
      | (Inr projects, s') \<Rightarrow> (Inr (convertProjectsToMap projects projectId), s'))"

definition clearProjectID :: "'w ReferenceAdapter \<Rightarrow> ('w reference_state, err option) effect" where
  "clearProjectID r s = ref_update r (set_ref_spec (\<lambda>spec. spec\<lparr>prs_GCPProjectID := ''''\<rparr>) s)"

definition lifecycle_error :: "nat \<Rightarrow> string \<Rightarrow> GcpProject \<Rightarrow> err option" where
  "lifecycle_error line fn project =
     Wrap (reference_caller line fn) (Some (Sentinel ErrUnexpectedLifecycleState))
       (''unexpected lifecycleState for '' @ p_LifecycleState project)"

definition createProject :: "'w ReferenceAdapter \<Rightarrow> string \<Rightarrow> ('w reference_state, err option) effect" where
  "createProject r parentFolderID s =
     (case getProject r (reference_project s) s of
        (Inl e, s1) \<Rightarrow> (Some e, s1)
      | (Inr (Some project), s1) \<Rightarrow>
          if p_LifecycleState project = ''ACTIVE'' then (None, s1)
          else if p_LifecycleState project = ''DELETE_REQUESTED'' then (Some (Sentinel ErrInactiveProject), s1)
          else (lifecycle_error 517 ''(*ReferenceAdapter).createProject'' project, s1)
      | (Inr None, s1) \<Rightarrow>
          (case on_world (g_CreateProject (ra_gcpClient r) parentFolderID (pc_Name (rs_claim s1))) s1 of
             (Some creationFailed, s2) \<Rightarrow>
               (case clearProjectID r s2 of
                  (Some e, s3) \<Rightarrow>
                    (Wrap (reference_caller 528 ''(*ReferenceAdapter).createProject'') (Some creationFailed)
                       (''could not clear project ID: '' @ error_text e), s3)
                | (None, s3) \<Rightarrow>
                    (Wrap (reference_caller 531 ''(*ReferenceAdapter).createProject'') (Some creationFailed)
                       (''could not create project. Parent Folder ID: '' @ parentFolderID @
                        '', Requested Project ID: '' @ reference_project s3), s3))
           | (None, s2) \<Rightarrow> (None, s2)))"

definition deleteProject :: "'w ReferenceAdapter \<Rightarrow> ('w reference_state, err option) effect" where
  "deleteProject r s =
     (case getProject r (reference_project s) s of
        (Inl e, s1) \<Rightarrow> (Some e, s1)
      | (Inr None, s1) \<Rightarrow> (None, s1)
      | (Inr (Some project), s1) \<Rightarrow>
          if p_LifecycleState project = ''DELETE_REQUESTED'' then (None, s1)
          else if p_LifecycleState project = ''LIFECYCLE_STATE_UNSPECIFIED''
          then (lifecycle_error 464 ''(*ReferenceAdapter).deleteProject'' project, s1)
          else if p_LifecycleState project = ''ACTIVE''
          then on_world (g_DeleteProject (ra_gcpClient r) (p_ProjectId project)) s1
          else (Some (PlainError (''ProjectReference Controller is unable to understand the project.LifecycleState ''
                  @ p_LifecycleState project)), s1))"

definition billing_api :: string where "billing_api = ''cloudbilling.googleapis.com''"

text \<open>\<^verbatim>\<open>configureBillingAPI\<close> from the linking of the billing account on.\<close>

definition link_billing :: "'w ReferenceAdapter \<Rightarrow> ('w reference_state, err option) effect" where
  "link_billing r s =
     (case on_world (g_CreateCloudBillingAccount (ra_gcpClient r) (reference_project s)
                       (oc_BillingAccount (ra_OperatorConfig r))) s of
        (Some e, s') \<Rightarrow>
          (Wrap (reference_caller 566 ''(*ReferenceAdapter).configureBillingAPI'') (Some e)
             ''error creating CloudBilling'', s')
      | (None, s') \<Rightarrow> (None, s'))"

definition configureBillingAPI :: "'w ReferenceAdapter \<Rightarrow> ('w reference_state, err option) effect" where
  "configureBillingAPI r s =
     (case on_world (g_ListAPIs (ra_gcpClient r) (reference_project s)) s of
        (Inl e, s1) \<Rightarrow> (Some e, s1)
      | (Inr enabledAPIs, s1) \<Rightarrow>
          if \<not> Contains enabledAPIs billing_api
          then
            (case on_world (g_EnableAPI (ra_gcpClient r) (reference_project s1) billing_api) s1 of
               (Some e, s2) \<Rightarrow>
                 (Wrap (reference_caller 560 ''(*ReferenceAdapter).configureBillingAPI'') (Some e)
                    (''Error enabling cloudbilling.googleapis.com api for project '' @ reference_project s2), s2)
             | (None, s2) \<Rightarrow> link_billing r s2)
          else link_billing r s1)"

definition EnsureProjectCreated :: "'w ReferenceAdapter \<Rightarrow> ('w reference_state, outcome) effect" where
  "EnsureProjectCreated r s =
     (if isCCS s then (ContinueProcessing, s)
      else
        (case createProject r (oc_ParentFolderID (ra_OperatorConfig r)) s of
           (Some e, s1) \<Rightarrow>
             if e = Sentinel ErrInactiveProject
             then
               (case ref_status_update r (set_ref_state ProjectReferenceStatusError s1) of
                  (Some e', s2) \<Rightarrow>
                    (RequeueWithError (Wrap (reference_caller 235 ''EnsureProjectCreated'') (Some e')
                       ''error updating ProjectReference status''), s2)
                | (None, s2) \<Rightarrow> (StopProcessing, s2))
             else (RequeueWithError (Wrap (reference_caller 239 ''EnsureProjectCreated'') (Some e)
                     ''could not create project''), s1)
         | (None, s1) \<Rightarrow>
             (case configureBillingAPI r s1 of
                (Some e, s2) \<Rightarrow>
                  (RequeueWithError (Wrap (reference_caller 246 ''EnsureProjectCreated'') (Some e)
                     ''error configuring Billing APIS''), s2)
              | (None, s2) \<Rightarrow> (ContinueProcessing, s2))))"

subsection \<open>IAM policies\<close>

definition AddOrUpdateBindings ::
  "'w ReferenceAdapter \<Rightarrow> string \<Rightarrow> string list \<Rightarrow> IamMemberType
     \<Rightarrow> ('w reference_state, err + bool \<times> Policy) effect" where
  "AddOrUpdateBindings r serviceAccountEmail policies memberType s =
     (case on_world (g_GetIamPolicy (ra_gcpClient r) (reference_project s)) s of
        (Inl e, s1) \<Rightarrow> (Inl e, s1)
      | (Inr policy, s1) \<Rightarrow>
          (case on_world (env_MapOrder (ra_env r)) s1 of
             (order, s2) \<Rightarrow>
               (case AddOrUpdateBinding order (pol_Bindings policy) policies serviceAccountEmail memberType of
                  (newBindings, modified) \<Rightarrow>
                    (Inr (modified, policy\<lparr>pol_Bindings := newBindings\<rparr>), s2))))"

definition ref_sleep :: "'w ReferenceAdapter \<Rightarrow> duration \<Rightarrow> 'w reference_state \<Rightarrow> 'w reference_state" where
  "ref_sleep r d s = s\<lparr>rs_world := env_Sleep (ra_env r) d (rs_world s)\<rparr>"

function SetIAMPolicy_loop ::
  "'w ReferenceAdapter \<Rightarrow> string \<Rightarrow> string list \<Rightarrow> IamMemberType \<Rightarrow> nat
     \<Rightarrow> 'w reference_state \<Rightarrow> err option \<times> 'w reference_state" where
  "SetIAMPolicy_loop r serviceAccountEmail policies memberType retry s =
     (case AddOrUpdateBindings r serviceAccountEmail policies memberType s of
        (Inl e, s1) \<Rightarrow> (Some e, s1)
      | (Inr (modified, policy), s1) \<Rightarrow>
          if modified
          then
            (case on_world (g_SetIamPolicy (ra_gcpClient r) policy) s1 of
               (Inl e, s2) \<Rightarrow>
                 if google_code e = Some StatusConflict \<and> retry < 3
                 then SetIAMPolicy_loop r serviceAccountEmail policies memberType (Suc retry)
                        (ref_sleep r Second s2)
                 else (Some e, s2)
             | (Inr p, s2) \<Rightarrow> (None, s2))
          else (None, s1))"
  by pat_completeness auto
termination
  by (relation "measure (\<lambda>(r, email, policies, mt, retry, s). 3 - retry)") auto

declare SetIAMPolicy_loop.simps [simp del]

definition SetIAMPolicy ::
  "'w ReferenceAdapter \<Rightarrow> string \<Rightarrow> string list \<Rightarrow> IamMemberType
     \<Rightarrow> ('w reference_state, err option) effect" where
  "SetIAMPolicy r serviceAccountEmail policies memberType s =
     SetIAMPolicy_loop r serviceAccountEmail policies memberType 0 s"

function DeleteIAMPolicy_loop ::
  "'w ReferenceAdapter \<Rightarrow> string \<Rightarrow> IamMemberType \<Rightarrow> nat
     \<Rightarrow> 'w reference_state \<Rightarrow> err option \<times> 'w reference_state" where
  "DeleteIAMPolicy_loop r serviceAccountEmail memberType retry s =
     (case on_world (g_GetIamPolicy (ra_gcpClient r) (reference_project s)) s of
        (Inl e, s1) \<Rightarrow> (Some e, s1)
      | (Inr policies, s1) \<Rightarrow>
          (case RemoveOrUpdateBinding (pol_Bindings policies) serviceAccountEmail memberType of
             (newBindings, modified) \<Rightarrow>
               if \<not> modified then (None, s1)
               else
                 (case on_world (g_SetIamPolicy (ra_gcpClient r) (policies\<lparr>pol_Bindings := newBindings\<rparr>)) s1 of
                    (Inl e, s2) \<Rightarrow>
                      if google_code e = Some StatusConflict \<and> retry < 3
                      then DeleteIAMPolicy_loop r serviceAccountEmail memberType (Suc retry)
                             (ref_sleep r Second s2)
                      else (Some e, s2)
                  | (Inr p, s2) \<Rightarrow> (None, s2))))"
  by pat_completeness auto
termination
  by (relation "measure (\<lambda>(r, email, mt, retry, s). 3 - retry)") auto

declare DeleteIAMPolicy_loop.simps [simp del]

definition DeleteIAMPolicy ::
  "'w ReferenceAdapter \<Rightarrow> string \<Rightarrow> IamMemberType \<Rightarrow> ('w reference_state, err option) effect" where
  "DeleteIAMPolicy r serviceAccountEmail memberType s =
     DeleteIAMPolicy_loop r serviceAccountEmail memberType 0 s"

subsection \<open>Configuring the project\<close>

fun enable_missing_apis ::
  "'w ReferenceAdapter \<Rightarrow> string list \<Rightarrow> string list \<Rightarrow> ('w reference_state, err option) effect" where
  "enable_missing_apis r enabledAPIs [] s = (None, s)"
| "enable_missing_apis r enabledAPIs (api # apis) s =
     (if \<not> Contains enabledAPIs api
      then
        (case on_world (g_EnableAPI (ra_gcpClient r) (reference_project s) api) s of
           (Some e, s') \<Rightarrow>
             (Wrap (reference_caller 582 ''(*ReferenceAdapter).configureAPIS'') (Some e)
                (''error enabling '' @ api @ '' api for project '' @ reference_project s'), s')
         | (None, s') \<Rightarrow> enable_missing_apis r enabledAPIs apis s')
      else enable_missing_apis r enabledAPIs apis s)"

definition configureAPIS :: "'w ReferenceAdapter \<Rightarrow> ('w reference_state, err option) effect" where
  "configureAPIS r s =
     (case on_world (g_ListAPIs (ra_gcpClient r) (reference_project s)) s of
        (Inl e, s1) \<Rightarrow> (Some e, s1)
      | (Inr enabledAPIs, s1) \<Rightarrow> enable_missing_apis r enabledAPIs OSDRequiredAPIS s1)"

text \<open>\<^verbatim>\<open>configureServiceAccount\<close> once the account is there.\<close>

definition grant_account ::
  "'w ReferenceAdapter \<Rightarrow> string list \<Rightarrow> GcpServiceAccount \<Rightarrow> ('w reference_state, outcome) effect" where
  "grant_account r policies serviceAccount s =
     (case SetIAMPolicy r (sa_Email serviceAccount) policies ServiceAccount s of
        (Some e, s') \<Rightarrow>
          (RequeueWithError (Wrap (reference_caller 613 ''(*ReferenceAdapter).configureServiceAccount'') (Some e)
             (''could not update policy on project for '' @ reference_project s')), s')
      | (None, s') \<Rightarrow> (ContinueProcessing, s'))"

definition configureServiceAccount ::
  "'w ReferenceAdapter \<Rightarrow> string list \<Rightarrow> ('w reference_state, outcome) effect" where
  "configureServiceAccount r policies s =
     (let osdServiceAccountName = reference_account s in
      case on_world (g_GetServiceAccount (ra_gcpClient r) osdServiceAccountName) s of
        (Inr serviceAccount, s1) \<Rightarrow> grant_account r policies serviceAccount s1
      | (Inl e, s1) \<Rightarrow>
          (case on_world (g_CreateServiceAccount (ra_gcpClient r) osdServiceAccountName osdServiceAccountName) s1 of
             (Inl e', s2) \<Rightarrow>
               if matchesAlreadyExistsError e' then (RequeueAfter (30 * Second) None, s2)
               else (RequeueWithError (Wrap (reference_caller 605 ''(*ReferenceAdapter).configureServiceAccount'')
                       (Some e') (''could not create service account for '' @ osdServiceAccountName)), s2)
           | (Inr account, s2) \<Rightarrow> grant_account r policies account s2))"

definition corrupt_input :: "nat \<Rightarrow> err" where
  "corrupt_input n = PlainError (''illegal base64 data at input byte '' @ show_nat n)"

text \<open>\<^verbatim>\<open>createCredentials\<close> from the new key on.\<close>

definition store_key ::
  "'w ReferenceAdapter \<Rightarrow> GcpServiceAccountKey \<Rightarrow> ('w reference_state, outcome) effect" where
  "store_key r key s =
     (let ref = pcs_GCPCredentialSecret (pc_Spec (rs_claim s)) in
      case b64_DecodeString (key_PrivateKeyData key) of
        Inl n \<Rightarrow>
          (RequeueWithError (Wrap (reference_caller 643 ''(*ReferenceAdapter).createCredentials'')
             (Some (corrupt_input n)) ''could not decode secret''), s)
      | Inr privateKeyString \<Rightarrow>
          (case on_world (k_CreateSecret (ra_kubeClient r)
                  (NewGCPSecretCR privateKeyString (namespaced (nn_Namespace ref) (nn_Name ref)))) s of
             ((Some e, obj), s') \<Rightarrow>
               (RequeueWithError (Wrap (reference_caller 654 ''(*ReferenceAdapter).createCredentials'') (Some e)
                  (''could not create service account secret for '' @ nn_Name ref)), s')
           | ((None, obj), s') \<Rightarrow> (ContinueProcessing, s')))"

definition createCredentials :: "'w ReferenceAdapter \<Rightarrow> ('w reference_state, outcome) effect" where
  "createCredentials r s =
     (let ref = pcs_GCPCredentialSecret (pc_Spec (rs_claim s)) in
      case on_world (SecretExists (ra_kubeClient r) (nn_Name ref) (nn_Namespace ref)) s of
        (True, s1) \<Rightarrow> (ContinueProcessing, s1)
      | (False, s1) \<Rightarrow>
          (case on_world (g_GetServiceAccount (ra_gcpClient r) (reference_account s1)) s1 of
             (Inl e, s2) \<Rightarrow>
               if matchesNotFoundError e then (RequeueAfter (30 * Second) None, s2)
               else (RequeueWithError (Wrap (reference_caller 632 ''(*ReferenceAdapter).createCredentials'')
                       (Some e) ''could not get service account''), s2)
           | (Inr serviceAccount, s2) \<Rightarrow>
               (case on_world (g_CreateServiceAccountKey (ra_gcpClient r) (sa_Email serviceAccount)) s2 of
                  (Inl e, s3) \<Rightarrow>
                    (RequeueWithError (Wrap (reference_caller 637 ''(*ReferenceAdapter).createCredentials'')
                       (Some e) (''could not create service account key for '' @ sa_Email serviceAccount)), s3)
                | (Inr key, s3) \<Rightarrow> store_key r key s3)))"

text \<open>The loops over the e-mail addresses of the operator's configuration.\<close>

fun set_group_policies ::
  "'w ReferenceAdapter \<Rightarrow> string list \<Rightarrow> string list \<Rightarrow> ('w reference_state, err option) effect" where
  "set_group_policies r roles [] s = (None, s)"
| "set_group_policies r roles (email # emails) s =
     (case SetIAMPolicy r email roles GoogleGroup s of
        (Some e, s') \<Rightarrow> (Some e, s')
      | (None, s') \<Rightarrow> set_group_policies r roles emails s')"

definition configure_console_access :: "'w ReferenceAdapter \<Rightarrow> ('w reference_state, outcome) effect" where
  "configure_console_access r s =
     (case set_group_policies r OSDSREConsoleAccessRoles (oc_CCSConsoleAccess (ra_OperatorConfig r)) s of
        (Some e, s1) \<Rightarrow> (RequeueWithError (Some e), s1)
      | (None, s1) \<Rightarrow>
          (case set_group_policies r OSDReadOnlyConsoleAccessRoles
                  (oc_CCSReadOnlyConsoleAccess (ra_OperatorConfig r)) s1 of
             (Some e, s2) \<Rightarrow> (RequeueWithError (Some e), s2)
           | (None, s2) \<Rightarrow> (ContinueProcessing, s2)))"

definition required_roles :: "'w reference_state \<Rightarrow> string list" where
  "required_roles s =
     (if prs_SharedVPCAccess (pr_Spec (rs_reference s)) then OSDRequiredRoles @ OSDSharedVPCRoles
      else OSDRequiredRoles)"

definition EnsureProjectConfigured :: "'w ReferenceAdapter \<Rightarrow> ('w reference_state, outcome) effect" where
  "EnsureProjectConfigured r s =
     (case configureAPIS r s of
        (Some e, s1) \<Rightarrow>
          (RequeueWithError (Wrap (reference_caller 260 ''EnsureProjectConfigured'') (Some e)
             ''error configuring APIS''), s1)
      | (None, s1) \<Rightarrow>
          (case configureServiceAccount r (required_roles s1) s1 of
             ((result, e), s2) \<Rightarrow>
               if e \<noteq> None \<or> RequeueRequest result then ((result, e), s2)
               else
                 (case createCredentials r s2 of
                    ((result', e'), s3) \<Rightarrow>
                      if e' \<noteq> None \<or> RequeueRequest result' then ((result', e'), s3)
                      else if isCCS s3 then configure_console_access r s3
                      else (ContinueProcessing, s3))))"

subsection \<open>Cleaning up\<close>

definition deleteServiceAccount :: "'w ReferenceAdapter \<Rightarrow> ('w reference_state, err option) effect" where
  "deleteServiceAccount r s =
     (case on_world (g_GetServiceAccount (ra_gcpClient r) (reference_account s)) s of
        (Inl e, s1) \<Rightarrow>
          if matchesNotFoundError e then (None, s1)
          else (Wrap (reference_caller 485 ''(*ReferenceAdapter).deleteServiceAccount'') (Some e)
                  ''could not get the SA, something happened'', s1)
      | (Inr sa, s1) \<Rightarrow>
          (case DeleteIAMPolicy r (sa_Email sa) ServiceAccount s1 of
             (Some e, s2) \<Rightarrow>
               (Wrap (reference_caller 491 ''(*ReferenceAdapter).deleteServiceAccount'') (Some e)
                  ''could not delete the IAM policy, something happened'', s2)
           | (None, s2) \<Rightarrow>
               (case on_world (g_DeleteServiceAccount (ra_gcpClient r) (sa_Email sa)) s2 of
                  (Some e, s3) \<Rightarrow>
                    (Wrap (reference_caller 495 ''(*ReferenceAdapter).deleteServiceAccount'') (Some e)
                       ''could not delete the SA, something happened'', s3)
                | (None, s3) \<Rightarrow> (None, s3))))"

fun delete_group_policies ::
  "'w ReferenceAdapter \<Rightarrow> string list \<Rightarrow> ('w reference_state, err option) effect" where
  "delete_group_policies r [] s = (None, s)"
| "delete_group_policies r (email # emails) s =
     (case DeleteIAMPolicy r email GoogleGroup s of
        (Some e, s') \<Rightarrow> (Some e, s')
      | (None, s') \<Rightarrow> delete_group_policies r emails s')"

definition ensureCCSProjectCleanedUp :: "'w ReferenceAdapter \<Rightarrow> bool \<Rightarrow> ('w reference_state, err option) effect" where
  "ensureCCSProjectCleanedUp r is_ccs s =
     (if \<not> is_ccs then (None, s)
      else
        (case delete_group_policies r (oc_CCSConsoleAccess (ra_OperatorConfig r)) s of
           (Some e, s1) \<Rightarrow> (Some e, s1)
         | (None, s1) \<Rightarrow> delete_group_policies r (oc_CCSReadOnlyConsoleAccess (ra_OperatorConfig r)) s1))"

definition deleteCredentials :: "'w ReferenceAdapter \<Rightarrow> ('w reference_state, err option) effect" where
  "deleteCredentials r s =
     (let ref = pcs_GCPCredentialSecret (pc_Spec (rs_claim s)) in
      case on_world (SecretExists (ra_kubeClient r) (nn_Name ref) (nn_Namespace ref)) s of
        (False, s1) \<Rightarrow> (None, s1)
      | (True, s1) \<Rightarrow>
          (case on_world (GetSecret (ra_kubeClient r) (nn_Name ref) (nn_Namespace ref)) s1 of
             (Inl e, s2) \<Rightarrow>
               (Wrap (reference_caller 672 ''(*ReferenceAdapter).deleteCredentials'') (Some e)
                  (''could not get the service account secret for '' @ nn_Name ref), s2)
           | (Inr key, s2) \<Rightarrow>
               (case on_world (k_DeleteSecret (ra_kubeClient r) key) s2 of
                  (Some e, s3) \<Rightarrow>
                    (Wrap (reference_caller 678 ''(*ReferenceAdapter).deleteCredentials'') (Some e)
                       (''could not delete service account secret for '' @ nn_Name ref), s3)
                | (None, s3) \<Rightarrow> (None, s3))))"

text \<open>\<^verbatim>\<open>EnsureProjectCleanedUp\<close>: its steps in order; the first error ends it.\<close>

definition cleanup_project :: "'w ReferenceAdapter \<Rightarrow> ('w reference_state, err option) effect" where
  "cleanup_project r s = (if \<not> isCCS s then deleteProject r s else (None, s))"

definition EnsureProjectCleanedUp :: "'w ReferenceAdapter \<Rightarrow> ('w reference_state, err option) effect" where
  "EnsureProjectCleanedUp r s =
     (case deleteServiceAccount r s of
        (Some e, s1) \<Rightarrow> (Some e, s1)
      | (None, s1) \<Rightarrow>
          (case cleanup_project r s1 of
             (Some e, s2) \<Rightarrow> (Some e, s2)
           | (None, s2) \<Rightarrow>
               (case ensureCCSProjectCleanedUp r (isCCS s2) s2 of
                  (Some e, s3) \<Rightarrow> (Some e, s3)
                | (None, s3) \<Rightarrow>
                    (case deleteCredentials r s3 of
                       (Some e, s4) \<Rightarrow> (Some e, s4)
                     | (None, s4) \<Rightarrow> EnsureFinalizerDeleted r s4))))"

definition EnsureDeletionProcessed :: "'w ReferenceAdapter \<Rightarrow> ('w reference_state, outcome) effect" where
  "EnsureDeletionProcessed r s =
     (if IsDeletionRequested s
      then
        (case EnsureProjectCleanedUp r s of
           (Some e, s') \<Rightarrow> (RequeueAfter (5 * Second) (Some e), s')
         | (None, s') \<Rightarrow> (StopProcessing, s'))
      else (ContinueProcessing, s))"

end
