(* ===== verification/ReferenceController.thy ===== *)
theory ReferenceController
  imports ReferenceAdapter
begin

text \<open>
  The rest of \<^verbatim>\<open>projectreference_adapter.go\<close> (making the claim ready, conditions of the
  reference) and \<^verbatim>\<open>projectreference_controller.go\<close>: the list of operations and \<^verbatim>\<open>Reconcile\<close>.
\<close>

subsection \<open>Conditions of the reference\<close>

definition ref_set_condition ::
  "'w ReferenceAdapter \<Rightarrow> string \<Rightarrow> string \<Rightarrow> string \<Rightarrow> string \<Rightarrow> 'w reference_state \<Rightarrow> 'w reference_state" where
  "ref_set_condition r conditionType status reason message s =
     (case on_world (env_Now (ra_env r)) s of
        (now, s') \<Rightarrow>
          s'\<lparr>rs_reference := set_reference_conditions
               (cm_SetCondition (ra_conditionManager r) now (pr_Conditions (rs_reference s'))
                  conditionType status reason message) (rs_reference s')\<rparr>)"

definition SetProjectReferenceCondition ::
  "'w ReferenceAdapter \<Rightarrow> string \<Rightarrow> err option \<Rightarrow> ('w reference_state, err option) effect" where
  "SetProjectReferenceCondition r reason e s =
     (case e of
        Some e' \<Rightarrow>
          reference_StatusUpdate r (ref_set_condition r ConditionError ConditionTrue reason (error_text e') s)
      | None \<Rightarrow>
          if length (elems (pr_Conditions (rs_reference s))) \<noteq> 0
          then reference_StatusUpdate r
                 (ref_set_condition r ConditionError ConditionFalse (reason @ ''Resolved'') '''' s)
          else (None, s))"

subsection \<open>Availability zones\<close>

definition zones_not_ready ::
  "'w ReferenceAdapter \<Rightarrow> 'w reference_state \<Rightarrow> 'w reference_state" where
  "zones_not_ready r s = ref_set_condition r ConditionComputeApiReady ConditionFalse
     ''QueryAvailabilityZonesFailed'' ''ComputeAPI not yet ready, couldn't query availability zones'' s"

definition handleAvailabilityZonesError ::
  "'w ReferenceAdapter \<Rightarrow> err \<Rightarrow> ('w reference_state, outcome) effect" where
  "handleAvailabilityZonesError r e s =
     (if \<not> matchesComputeApiNotReadyError e then (RequeueWithError (Some e), s)
      else
        (case cm_FindCondition (ra_conditionManager r) (pr_Conditions (rs_reference s))
                ConditionComputeApiReady of
           (cs, i, found) \<Rightarrow>
             (let s1 = s\<lparr>rs_reference := set_reference_conditions cs (rs_reference s)\<rparr>;
                  apiCondition = elems cs ! i in
              case on_world (env_Now (ra_env r)) s1 of
                (now, s2) \<Rightarrow>
                  (let tenMinutesAgo = now - 10 * Minute in
                   if found \<and> c_LastTransitionTime apiCondition < tenMinutesAgo
                   then (case reference_StatusUpdate r (zones_not_ready r s2) of
                           (ignored, s3) \<Rightarrow> (RequeueWithError (Some e), s3))
                   else
                     (case reference_StatusUpdate r (zones_not_ready r s2) of
                        (Some statusUpdateErr, s3) \<Rightarrow> (RequeueWithError (Some statusUpdateErr), s3)
                      | (None, s3) \<Rightarrow> (RequeueAfter (30 * Second) None, s3))))))"

definition ensureClaimAvailabilityZonesSet :: "'w ReferenceAdapter \<Rightarrow> ('w reference_state, outcome) effect" where
  "ensureClaimAvailabilityZonesSet r s =
     (if 0 < length (pcs_AvailabilityZones (pc_Spec (rs_claim s))) then (ContinueProcessing, s)
      else
        (case on_world (g_ListAvailabilityZones (ra_gcpClient r) (reference_project s)
                          (pcs_Region (pc_Spec (rs_claim s)))) s of
           (Inl e, s1) \<Rightarrow> handleAvailabilityZonesError r e s1
         | (Inr zones, s1) \<Rightarrow>
             (let s2 = ref_set_condition r ConditionComputeApiReady ConditionTrue
                         ''QueryAvailabilityZonesSucceeded''
                         ''ComputeAPI ready, successfully queried availability zones'' s1 in
              case ref_update_claim r (s2\<lparr>rs_claim := (rs_claim s2)\<lparr>pc_Spec :=
                      (pc_Spec (rs_claim s2))\<lparr>pcs_AvailabilityZones := zones\<rparr>\<rparr>\<rparr>) of
                (Some e, s3) \<Rightarrow>
                  (RequeueWithError (Wrap (reference_caller 703
                     ''(*ReferenceAdapter).ensureClaimAvailabilityZonesSet'') (Some e)
                     ''error updating ProjectClaim spec''), s3)
              | (None, s3) \<Rightarrow> (Requeue, s3))))"

definition ensureClaimProjectIDSet :: "'w reference_state \<Rightarrow> bool \<times> 'w reference_state" where
  "ensureClaimProjectIDSet s =
     (if pcs_GCPProjectID (pc_Spec (rs_claim s)) = ''''
      then (True, s\<lparr>rs_claim := (rs_claim s)\<lparr>pc_Spec :=
              (pc_Spec (rs_claim s))\<lparr>pcs_GCPProjectID := reference_project s\<rparr>\<rparr>\<rparr>)
      else (False, s))"

text \<open>\<^verbatim>\<open>EnsureProjectClaimReady\<close> from the assignment of the claim's state on.\<close>

definition mark_claim_ready :: "'w ReferenceAdapter \<Rightarrow> ('w reference_state, outcome) effect" where
  "mark_claim_ready r s =
     (case ref_status_update_claim r (s\<lparr>rs_claim := set_claim_state ClaimStatusReady (rs_claim s)\<rparr>) of
        (Some e, s') \<Rightarrow>
          (RequeueWithError (Wrap (reference_caller 155 ''EnsureProjectClaimReady'') (Some e)
             ''error updating ProjectClaim status''), s')
      | (None, s') \<Rightarrow> (StopProcessing, s'))"

definition EnsureProjectClaimReady :: "'w ReferenceAdapter \<Rightarrow> ('w reference_state, outcome) effect" where
  "EnsureProjectClaimReady r s =
     (if pr_State (rs_reference s) \<noteq> ProjectReferenceStatusReady then (ContinueProcessing, s)
      else if pr_State (rs_reference s) = ProjectReferenceStatusReady
              \<and> pc_State (rs_claim s) = ClaimStatusReady
      then (StopProcessing, s)
      else
        (case ensureClaimAvailabilityZonesSet r s of
           ((res, e), s1) \<Rightarrow>
             if e \<noteq> None \<or> RequeueOrCancel res then ((res, e), s1)
             else
               (case ensureClaimProjectIDSet s1 of
                  (idModified, s2) \<Rightarrow>
                    if idModified
                    then
                      (case ref_update_claim r s2 of
                         (Some e', s3) \<Rightarrow>
                           (RequeueWithError (Wrap (reference_caller 150 ''EnsureProjectClaimReady'') (Some e')
                              ''error updating ProjectClaim spec''), s3)
                       | (None, s3) \<Rightarrow> mark_claim_ready r s3)
                    else mark_claim_ready r s2)))"

subsection \<open>ReconcileHandler\<close>

definition reference_operations :: "'w ReferenceAdapter \<Rightarrow> ('w reference_state, outcome) effect list" where
  "reference_operations r =
     [EnsureProjectReferenceInitialized r,
      EnsureDeletionProcessed r,
      EnsureProjectClaimReady r,
      VerifyProjectClaimPending r,
      EnsureProjectReferenceStatusCreating r,
      EnsureProjectID r,
      EnsureServiceAccountName r,
      EnsureFinalizerAdded r,
      EnsureProjectCreated r,
      EnsureProjectConfigured r,
      EnsureStateReady r]"

definition reference_ReconcileHandler ::
  "'w ReferenceAdapter \<Rightarrow> ('w reference_state, ctrl_Result \<times> err option) effect" where
  "reference_ReconcileHandler r s = run_operations (reference_operations r) s"

subsection \<open>Reconcile\<close>

definition operatorNamespace :: string where "operatorNamespace = ''gcp-project-operator''"
definition orgGcpSecretName :: string where "orgGcpSecretName = ''gcp-project-operator-credentials''"

definition controller_caller :: "nat \<Rightarrow> string \<Rightarrow> caller option" where
  "controller_caller line fn =
     Some (Caller ''controllers/projectreference/projectreference_controller.go'' line
       (''github.com/openshift/gcp-project-operator/controllers/projectreference.(*ProjectReferenceReconciler).''
          @ fn))"

record 'w ProjectReferenceReconciler =
  prr_Client :: "'w kube_client"
  prr_GcpClientBuilder :: "string \<Rightarrow> string \<Rightarrow> 'w \<Rightarrow> (err + 'w gcp_client) \<times> 'w"
  prr_env :: "'w environment"

definition credential_secret :: "ProjectReference \<Rightarrow> NamespacedName" where
  "credential_secret reference =
     (if prs_CCS (pr_Spec reference)
      then namespaced (nn_Namespace (prs_CCSSecretRef (pr_Spec reference)))
                      (nn_Name (prs_CCSSecretRef (pr_Spec reference)))
      else namespaced operatorNamespace orgGcpSecretName)"

definition getGcpClient ::
  "'w ProjectReferenceReconciler \<Rightarrow> ProjectReference \<Rightarrow> 'w \<Rightarrow> (err + 'w gcp_client) \<times> 'w" where
  "getGcpClient rec reference w =
     (let ns = nn_Namespace (credential_secret reference);
          name = nn_Name (credential_secret reference) in
      case GetGCPCredentialsFromSecret (prr_Client rec) ns name w of
        (Inl e, w1) \<Rightarrow>
          (Inl (wrapped (controller_caller 166 ''getGcpClient'') e
             (''could not get Creds from secret: '' @ name @ '', for namespace '' @ ns)), w1)
      | (Inr creds, w1) \<Rightarrow>
          (case prr_GcpClientBuilder rec (prs_GCPProjectID (pr_Spec reference)) creds w1 of
             (Inl e, w2) \<Rightarrow>
               (Inl (wrapped (controller_caller 173 ''getGcpClient'') e
                  (''could not get gcp client with secret: '' @ name @ '', for namespace '' @ ns)), w2)
           | (Inr gcp, w2) \<Rightarrow> (Inr gcp, w2)))"

definition getConfigMap :: "'w ProjectReferenceReconciler \<Rightarrow> 'w \<Rightarrow> (err + OperatorConfigMap) \<times> 'w" where
  "getConfigMap rec w =
     (case GetOperatorConfigMap (prr_env rec) (prr_Client rec) w of
        (Inl e, w1) \<Rightarrow>
          (Inl (wrapped (controller_caller 182 ''getConfigMap'') e ''could not find the OperatorConfigMap''), w1)
      | (Inr cm, w1) \<Rightarrow>
          (case ValidateOperatorConfigMap cm of
             Some e \<Rightarrow>
               (Inl (wrapped (controller_caller 186 ''getConfigMap'') e ''configmap didn't get filled properly''),
                w1)
           | None \<Rightarrow> (Inr cm, w1)))"

text \<open>\<^verbatim>\<open>Reconcile\<close> once the reference is known to be acceptable.\<close>

definition reconcile_reference ::
  "'w ProjectReferenceReconciler \<Rightarrow> ProjectReference \<Rightarrow> 'w \<Rightarrow> (ctrl_Result \<times> err option) \<times> 'w" where
  "reconcile_reference rec reference w =
     (case getGcpClient rec reference w of
        (Inl e, w1) \<Rightarrow> ((empty_Result, Some e), w1)
      | (Inr gcp, w1) \<Rightarrow>
          (case getConfigMap rec w1 of
             (Inl e, w2) \<Rightarrow> ((empty_Result, Some e), w2)
           | (Inr cm, w2) \<Rightarrow>
               (case NewReferenceAdapter reference (prr_Client rec) gcp NewConditionManager cm
                       (prr_env rec) w2 of
                  (Inl e, w3) \<Rightarrow>
                    ((empty_Result, Wrap (controller_caller 110 ''Reconcile'') (Some e)
                        ''could not create ReferenceAdapter''), w3)
                | (Inr (adapter, s), w3) \<Rightarrow>
                    (case reference_ReconcileHandler adapter s of
                       ((result, e), s1) \<Rightarrow>
                         (case SetProjectReferenceCondition adapter ''ReconcileError'' e s1 of
                            (ignored, s2) \<Rightarrow> ((result, e), rs_world s2))))))"

definition reference_Reconcile ::
  "'w ProjectReferenceReconciler \<Rightarrow> NamespacedName \<Rightarrow> 'w \<Rightarrow> (ctrl_Result \<times> err option) \<times> 'w" where
  "reference_Reconcile rec req w =
     (case k_GetProjectReference (prr_Client rec) req w of
        (Inl e, w1) \<Rightarrow>
          if IsNotFound e then ((empty_Result, None), w1) else ((empty_Result, Some e), w1)
      | (Inr reference, w1) \<Rightarrow>
          if om_DeletionTimestamp (pr_Meta reference) = None \<and> ProjectReference_Validate reference \<noteq> None
          then
            (if pr_State reference \<noteq> ProjectReferenceStatusError
             then
               (case k_StatusUpdateProjectReference (prr_Client rec)
                       (set_reference_state ProjectReferenceStatusError reference) w1 of
                  ((Some updateErr, obj), w2) \<Rightarrow> ((empty_Result, Some updateErr), w2)
                | ((None, obj), w2) \<Rightarrow> ((empty_Result, None), w2))
             else ((empty_Result, None), w1))
          else reconcile_reference rec reference w1)"

end
