(* ===== verification/ClaimAdapter.thy ===== *)
theory ClaimAdapter
  imports KubeClient
begin

text \<open>
  \<^verbatim>\<open>controllers/projectclaim/projectclaimadapter.go\<close>: the operations of the ProjectClaim
  controller.

  The fields of the Go struct that are never reassigned (client, condition manager, and the
  environment) form the record \<^verbatim>\<open>'w ProjectClaimAdapter\<close>; the two objects its pointer fields
  refer to are mutable and form, with the world, the state \<^verbatim>\<open>'w claim_state\<close>.  An operation
  takes the adapter and the state and returns its outcome and the new state.
\<close>

record 'w ProjectClaimAdapter =
  ca_client :: "'w kube_client"
  ca_conditionManager :: condition_manager
  ca_env :: "'w environment"

record 'w claim_state =
  projectClaim :: ProjectClaim
  projectReference :: ProjectReference
  claim_world :: 'w

type_synonym ObjectState = bool
definition ObjectModified :: ObjectState where "ObjectModified = True"
definition ObjectUnchanged :: ObjectState where "ObjectUnchanged = False"

definition ProjectClaimFinalizer :: string where
  "ProjectClaimFinalizer = ''finalizer.gcp.managed.openshift.io''"
definition CCSSecretFinalizer :: string where
  "CCSSecretFinalizer = ''finalizer.gcp.managed.openshift.io/ccs''"
definition RegionCheckFailed :: string where "RegionCheckFailed = ''RegionCheckFailed''"
definition FakeProjectClaim :: string where "FakeProjectClaim = ''managed.openshift.com/fake''"

text \<open>The position of a call of \<^verbatim>\<open>Wrap\<close> in this file.\<close>

definition claim_caller :: "nat \<Rightarrow> string \<Rightarrow> caller option" where
  "claim_caller line fn = Some (Caller ''controllers/projectclaim/projectclaimadapter.go'' line
     (''github.com/openshift/gcp-project-operator/controllers/projectclaim.(*ProjectClaimAdapter).'' @ fn))"

subsection \<open>Construction\<close>

definition newMatchingProjectReference :: "ProjectClaim \<Rightarrow> ProjectReference" where
  "newMatchingProjectReference c =
     (let spec = pc_Spec c;
          gcpProjectID = (if pcs_CCS spec then pcs_CCSProjectID spec else '''')
      in \<lparr>pr_Meta = new_meta (pc_Namespace c @ ''-'' @ pc_Name c) ProjectReferenceNamespace,
          pr_Spec = \<lparr>prs_GCPProjectID = gcpProjectID,
                     prs_ProjectClaimCRLink = namespaced (pc_Namespace c) (pc_Name c),
                     prs_LegalEntity = pcs_LegalEntity spec,
                     prs_CCS = pcs_CCS spec,
                     prs_CCSSecretRef = pcs_CCSSecretRef spec,
                     prs_ServiceAccountName = '''',
                     prs_SharedVPCAccess = pcs_SharedVPCAccess spec\<rparr>,
          pr_Status = \<lparr>prt_Conditions = None, prt_State = ''''\<rparr>\<rparr>)"

definition NewProjectClaimAdapter ::
  "ProjectClaim \<Rightarrow> 'w kube_client \<Rightarrow> condition_manager \<Rightarrow> 'w environment \<Rightarrow> 'w
     \<Rightarrow> 'w ProjectClaimAdapter \<times> 'w claim_state" where
  "NewProjectClaimAdapter claim client manager env w =
     (\<lparr>ca_client = client, ca_conditionManager = manager, ca_env = env\<rparr>,
      \<lparr>projectClaim = claim, projectReference = newMatchingProjectReference claim, claim_world = w\<rparr>)"

subsection \<open>Client calls on the adapter's objects\<close>

definition claim_update :: "'w ProjectClaimAdapter \<Rightarrow> ('w claim_state, err option) effect" where
  "claim_update c s =
     (case k_UpdateProjectClaim (ca_client c) (projectClaim s) (claim_world s) of
        ((e, obj), w) \<Rightarrow> (e, s\<lparr>projectClaim := obj, claim_world := w\<rparr>))"

definition claim_status_update :: "'w ProjectClaimAdapter \<Rightarrow> ('w claim_state, err option) effect" where
  "claim_status_update c s =
     (case k_StatusUpdateProjectClaim (ca_client c) (projectClaim s) (claim_world s) of
        ((e, obj), w) \<Rightarrow> (e, s\<lparr>projectClaim := obj, claim_world := w\<rparr>))"

definition claim_StatusUpdate :: "'w ProjectClaimAdapter \<Rightarrow> ('w claim_state, err option) effect" where
  "claim_StatusUpdate c s =
     (case claim_status_update c s of
        (Some e, s') \<Rightarrow>
          (Wrap (claim_caller 380 ''StatusUpdate'') (Some e)
             (''failed to update ProjectClaim state for '' @ pc_Name (projectClaim s')), s')
      | (None, s') \<Rightarrow> (None, s'))"

subsection \<open>The matching ProjectReference\<close>

definition ProjectReferenceExists :: "'w ProjectClaimAdapter \<Rightarrow> ('w claim_state, err + bool) effect" where
  "ProjectReferenceExists c s =
     (case k_GetProjectReference (ca_client c)
             (namespaced (pr_Namespace (projectReference s)) (pr_Name (projectReference s)))
             (claim_world s) of
        (Inl e, w) \<Rightarrow> (if IsNotFound e then Inr False else Inl e, s\<lparr>claim_world := w\<rparr>)
      | (Inr found, w) \<Rightarrow> (Inr True, s\<lparr>claim_world := w\<rparr>))"

definition EnsureProjectReferenceExists :: "'w ProjectClaimAdapter \<Rightarrow> ('w claim_state, outcome) effect" where
  "EnsureProjectReferenceExists c s =
     (case ProjectReferenceExists c s of
        (Inl e, s') \<Rightarrow> (RequeueWithError (Some e), s')
      | (Inr exists, s') \<Rightarrow>
          if \<not> exists
          then (case k_CreateProjectReference (ca_client c) (projectReference s') (claim_world s') of
                  ((e, obj), w) \<Rightarrow>
                    (RequeueOnErrorOrContinue e, s'\<lparr>projectReference := obj, claim_world := w\<rparr>))
          else (ContinueProcessing, s'))"

definition EnsureProjectReferenceLink :: "'w ProjectClaimAdapter \<Rightarrow> ('w claim_state, outcome) effect" where
  "EnsureProjectReferenceLink c s =
     (let expectedLink = namespaced (pr_Namespace (projectReference s)) (pr_Name (projectReference s));
          claim = projectClaim s in
      if pcs_ProjectReferenceCRLink (pc_Spec claim) = expectedLink then (ContinueProcessing, s)
      else
        (case claim_update c (s\<lparr>projectClaim :=
                claim\<lparr>pc_Spec := (pc_Spec claim)\<lparr>pcs_ProjectReferenceCRLink := expectedLink\<rparr>\<rparr>\<rparr>) of
           (Some e, s') \<Rightarrow> (RequeueWithError (Some e), s')
         | (None, s') \<Rightarrow> (StopProcessing, s')))"

subsection \<open>Validation, initialisation\<close>

definition EnsureProjectClaimValidated :: "'w ProjectClaimAdapter \<Rightarrow> ('w claim_state, outcome) effect" where
  "EnsureProjectClaimValidated c s =
     (case ProjectClaim_Validate (projectClaim s) of
        Some e \<Rightarrow>
          (case claim_StatusUpdate c (s\<lparr>projectClaim := set_claim_state ClaimStatusError (projectClaim s)\<rparr>) of
             (Some updateErr, s') \<Rightarrow> (RequeueWithError (Some updateErr), s')
           | (None, s') \<Rightarrow> (StopProcessing, s'))
      | None \<Rightarrow> (ContinueProcessing, s))"

definition EnsureProjectClaimInitialized :: "'w ProjectClaimAdapter \<Rightarrow> ('w claim_state, outcome) effect" where
  "EnsureProjectClaimInitialized c s =
     (if pc_Conditions (projectClaim s) = None
      then (case claim_status_update c
                   (s\<lparr>projectClaim := set_claim_conditions (Some []) (projectClaim s)\<rparr>) of
              (Some e, s') \<Rightarrow>
                (RequeueWithError (Wrap (claim_caller 201 ''EnsureProjectClaimInitialized'') (Some e)
                   ''failed to initialize projectclaim''), s')
            | (None, s') \<Rightarrow> (StopProcessing, s'))
      else (ContinueProcessing, s))"

subsection \<open>Finalizers\<close>

text \<open>
  \<^verbatim>\<open>addFinalizer\<close> and \<^verbatim>\<open>deleteFinalizer\<close> work on any object; \<^verbatim>\<open>meta.Accessor\<close>, which gives access
  to the metadata and always succeeds on the objects passed here, is the pair of functions
  that read and set the finalizers.
\<close>

record 'o object_accessor =
  obj_GetFinalizers :: "'o \<Rightarrow> string list"
  obj_SetFinalizers :: "string list \<Rightarrow> 'o \<Rightarrow> 'o"

definition claim_accessor :: "ProjectClaim object_accessor" where
  "claim_accessor = \<lparr>obj_GetFinalizers = (\<lambda>x. om_Finalizers (pc_Meta x)),
     obj_SetFinalizers = (\<lambda>fs x. x\<lparr>pc_Meta := (pc_Meta x)\<lparr>om_Finalizers := fs\<rparr>\<rparr>)\<rparr>"

definition secret_accessor :: "Secret object_accessor" where
  "secret_accessor = \<lparr>obj_GetFinalizers = (\<lambda>x. om_Finalizers (s_Meta x)),
     obj_SetFinalizers = (\<lambda>fs x. x\<lparr>s_Meta := (s_Meta x)\<lparr>om_Finalizers := fs\<rparr>\<rparr>)\<rparr>"

definition deleteFinalizer ::
  "'o object_accessor \<Rightarrow> ('o \<Rightarrow> 'w \<Rightarrow> (err option \<times> 'o) \<times> 'w) \<Rightarrow> 'o \<Rightarrow> string \<Rightarrow> 'w
     \<Rightarrow> (err option \<times> 'o) \<times> 'w" where
  "deleteFinalizer metadata update object finalizer w =
     (let finalizers = obj_GetFinalizers metadata object in
      if Contains finalizers finalizer
      then update (obj_SetFinalizers metadata (Filter finalizers finalizer) object) w
      else ((None, object), w))"

definition addFinalizer ::
  "'o object_accessor \<Rightarrow> ('o \<Rightarrow> 'w \<Rightarrow> (err option \<times> 'o) \<times> 'w) \<Rightarrow> 'o \<Rightarrow> string \<Rightarrow> 'w
     \<Rightarrow> (err option \<times> 'o) \<times> 'w" where
  "addFinalizer metadata update object finalizer w =
     (let finalizers = obj_GetFinalizers metadata object in
      if \<not> Contains finalizers finalizer
      then update (obj_SetFinalizers metadata (finalizers @ [finalizer]) object) w
      else ((None, object), w))"

definition getCCSSecret :: "'w ProjectClaimAdapter \<Rightarrow> ('w claim_state, err + Secret) effect" where
  "getCCSSecret c s =
     (case k_GetSecret (ca_client c)
             (namespaced (nn_Namespace (pcs_CCSSecretRef (pc_Spec (projectClaim s))))
                         (nn_Name (pcs_CCSSecretRef (pc_Spec (projectClaim s)))))
             (claim_world s) of
        (Inl e, w) \<Rightarrow> (Inl e, s\<lparr>claim_world := w\<rparr>)
      | (Inr secret, w) \<Rightarrow> (Inr secret, s\<lparr>claim_world := w\<rparr>))"

definition EnsureFinalizer :: "'w ProjectClaimAdapter \<Rightarrow> ('w claim_state, outcome) effect" where
  "EnsureFinalizer c s =
     (if \<not> Contains (om_Finalizers (pc_Meta (projectClaim s))) ProjectClaimFinalizer
      then (case addFinalizer claim_accessor (k_UpdateProjectClaim (ca_client c)) (projectClaim s)
                   ProjectClaimFinalizer (claim_world s) of
              ((e, obj), w) \<Rightarrow> (RequeueOnErrorOrStop e, s\<lparr>projectClaim := obj, claim_world := w\<rparr>))
      else (ContinueProcessing, s))"

definition EnsureCCSSecretFinalizer :: "'w ProjectClaimAdapter \<Rightarrow> ('w claim_state, outcome) effect" where
  "EnsureCCSSecretFinalizer c s =
     (if \<not> pcs_CCS (pc_Spec (projectClaim s)) then (ContinueProcessing, s)
      else
        (case getCCSSecret c s of
           (Inl e, s') \<Rightarrow>
             (RequeueWithError (Wrap (claim_caller 243 ''EnsureCCSSecretFinalizer'') (Some e)
                ''failed to set ccs secret finalizer''), s')
         | (Inr secret, s') \<Rightarrow>
             (case addFinalizer secret_accessor (k_UpdateSecret (ca_client c)) secret CCSSecretFinalizer
                     (claim_world s') of
                ((e, obj), w) \<Rightarrow> (RequeueOnErrorOrContinue e, s'\<lparr>claim_world := w\<rparr>))))"

definition EnsureProjectClaimFinalizerDeleted ::
  "'w ProjectClaimAdapter \<Rightarrow> ('w claim_state, err option) effect" where
  "EnsureProjectClaimFinalizerDeleted c s =
     (case deleteFinalizer claim_accessor (k_UpdateProjectClaim (ca_client c)) (projectClaim s)
             ProjectClaimFinalizer (claim_world s) of
        ((e, obj), w) \<Rightarrow> (e, s\<lparr>projectClaim := obj, claim_world := w\<rparr>))"

definition EnsureCCSSecretFinalizerDeleted ::
  "'w ProjectClaimAdapter \<Rightarrow> ('w claim_state, err option) effect" where
  "EnsureCCSSecretFinalizerDeleted c s =
     (if pcs_CCS (pc_Spec (projectClaim s))
      then
        (case getCCSSecret c s of
           (Inl e, s') \<Rightarrow> (if IsNotFound e then None else Some e, s')
         | (Inr secret, s') \<Rightarrow>
             (case deleteFinalizer secret_accessor (k_UpdateSecret (ca_client c)) secret
                     CCSSecretFinalizer (claim_world s') of
                ((e, obj), w) \<Rightarrow> (e, s'\<lparr>claim_world := w\<rparr>)))
      else (None, s))"

subsection \<open>Deletion\<close>

definition IsProjectClaimDeletion :: "'w claim_state \<Rightarrow> bool" where
  "IsProjectClaimDeletion s \<longleftrightarrow> om_DeletionTimestamp (pc_Meta (projectClaim s)) \<noteq> None"

definition IsProjectReferenceDeletion :: "'w claim_state \<Rightarrow> bool" where
  "IsProjectReferenceDeletion s \<longleftrightarrow> om_DeletionTimestamp (pr_Meta (projectReference s)) \<noteq> None"

text \<open>The part of \<^verbatim>\<open>FinalizeProjectClaim\<close> after the deletion of the ProjectReference was asked for.\<close>

definition finalize_without_reference ::
  "'w ProjectClaimAdapter \<Rightarrow> ('w claim_state, ObjectState \<times> err option) effect" where
  "finalize_without_reference c s =
     (case EnsureCCSSecretFinalizerDeleted c s of
        (Some e, s1) \<Rightarrow> ((ObjectUnchanged, Some e), s1)
      | (None, s1) \<Rightarrow>
          (case EnsureProjectClaimFinalizerDeleted c s1 of
             (Some e, s2) \<Rightarrow> ((ObjectUnchanged, Some e), s2)
           | (None, s2) \<Rightarrow> ((ObjectModified, None), s2)))"

definition FinalizeProjectClaim ::
  "'w ProjectClaimAdapter \<Rightarrow> ('w claim_state, ObjectState \<times> err option) effect" where
  "FinalizeProjectClaim c s =
     (case ProjectReferenceExists c s of
        (Inl e, s1) \<Rightarrow> ((ObjectUnchanged, Some e), s1)
      | (Inr exists, s1) \<Rightarrow>
          (let deletionRequested = IsProjectReferenceDeletion s1 in
           case (if exists \<and> \<not> deletionRequested
                 then (case k_DeleteProjectReference (ca_client c) (projectReference s1) (claim_world s1) of
                         (e, w) \<Rightarrow> (e, s1\<lparr>claim_world := w\<rparr>))
                 else (None, s1)) of
             (Some e, s2) \<Rightarrow> ((ObjectUnchanged, Some e), s2)
           | (None, s2) \<Rightarrow>
               if \<not> exists then finalize_without_reference c s2
               else ((ObjectUnchanged, None), s2)))"

definition EnsureProjectClaimDeletionProcessed ::
  "'w ProjectClaimAdapter \<Rightarrow> ('w claim_state, outcome) effect" where
  "EnsureProjectClaimDeletionProcessed c s =
     (if IsProjectClaimDeletion s
      then
        (case FinalizeProjectClaim c s of
           ((crState, e), s') \<Rightarrow>
             if crState = ObjectUnchanged \<or> e \<noteq> None then (RequeueAfter (5 * Second) e, s')
             else (StopProcessing, s'))
      else (ContinueProcessing, s))"

subsection \<open>The state of the claim\<close>

definition EnsureProjectClaimState ::
  "'w ProjectClaimAdapter \<Rightarrow> string \<Rightarrow> ('w claim_state, outcome) effect" where
  "EnsureProjectClaimState c state s =
     (let current = pc_State (projectClaim s) in
      if current = state then (ContinueProcessing, s)
      else if state = ClaimStatusPending \<and> current \<noteq> ClaimStatusError \<and> current \<noteq> ''''
      then (ContinueProcessing, s)
      else if state = ClaimStatusPendingProject \<and> current \<noteq> ClaimStatusPending
      then (ContinueProcessing, s)
      else
        (case claim_StatusUpdate c (s\<lparr>projectClaim := set_claim_state state (projectClaim s)\<rparr>) of
           (e, s') \<Rightarrow> (RequeueOnErrorOrStop e, s')))"

definition EnsureProjectClaimStatePending :: "'w ProjectClaimAdapter \<Rightarrow> ('w claim_state, outcome) effect" where
  "EnsureProjectClaimStatePending c s = EnsureProjectClaimState c ClaimStatusPending s"

definition EnsureProjectClaimStatePendingProject ::
  "'w ProjectClaimAdapter \<Rightarrow> ('w claim_state, outcome) effect" where
  "EnsureProjectClaimStatePendingProject c s = EnsureProjectClaimState c ClaimStatusPendingProject s"

subsection \<open>Conditions and the region check\<close>

text \<open>Setting a condition of the claim: the clock is read, then the manager called.\<close>

definition claim_set_condition ::
  "'w ProjectClaimAdapter \<Rightarrow> string \<Rightarrow> string \<Rightarrow> string \<Rightarrow> string \<Rightarrow> 'w claim_state \<Rightarrow> 'w claim_state" where
  "claim_set_condition c conditionType status reason message s =
     (case env_Now (ca_env c) (claim_world s) of
        (now, w) \<Rightarrow>
          s\<lparr>projectClaim := set_claim_conditions
              (cm_SetCondition (ca_conditionManager c) now (pc_Conditions (projectClaim s))
                 conditionType status reason message) (projectClaim s),
            claim_world := w\<rparr>)"

definition SetProjectClaimCondition ::
  "'w ProjectClaimAdapter \<Rightarrow> string \<Rightarrow> string \<Rightarrow> err option \<Rightarrow> ('w claim_state, outcome) effect" where
  "SetProjectClaimCondition c conditionType reason e s =
     (case e of
        Some e' \<Rightarrow>
          (case claim_StatusUpdate c
                  (claim_set_condition c conditionType ConditionTrue reason (error_text e') s) of
             (ue, s') \<Rightarrow> (RequeueOnErrorOrStop ue, s'))
      | None \<Rightarrow>
          if \<not> cm_HasCondition (ca_conditionManager c) (pc_Conditions (projectClaim s)) conditionType
          then (ContinueProcessing, s)
          else
            (case cm_FindCondition (ca_conditionManager c) (pc_Conditions (projectClaim s)) conditionType of
               (cs, i, found) \<Rightarrow>
                 (let reason' = reason @ ''Resolved'';
                      s1 = s\<lparr>projectClaim := set_claim_conditions cs (projectClaim s)\<rparr> in
                  if c_Reason (elems cs ! i) = reason' then (ContinueProcessing, s1)
                  else
                    (case claim_StatusUpdate c
                            (claim_set_condition c conditionType ConditionFalse reason' '''' s1) of
                       (ue, s') \<Rightarrow> (RequeueOnErrorOrStop ue, s')))))"

definition IsRegionSupported :: "'w ProjectClaimAdapter \<Rightarrow> ('w claim_state, bool \<times> err option) effect" where
  "IsRegionSupported c s =
     (if pcs_CCS (pc_Spec (projectClaim s)) then ((True, None), s)
      else
        (case GetOperatorConfigMap (ca_env c) (ca_client c) (claim_world s) of
           (Inl e, w) \<Rightarrow>
             ((True, Wrap (claim_caller 350 ''IsRegionSupported'') (Some e)
                ''could not find the OperatorConfigMap''), s\<lparr>claim_world := w\<rparr>)
         | (Inr operatorConfigMap, w) \<Rightarrow>
             if Contains (oc_DisabledRegions operatorConfigMap) (pcs_Region (pc_Spec (projectClaim s)))
             then ((False, None), s\<lparr>claim_world := w\<rparr>)
             else ((True, None), s\<lparr>claim_world := w\<rparr>)))"

definition EnsureRegionSupported :: "'w ProjectClaimAdapter \<Rightarrow> ('w claim_state, outcome) effect" where
  "EnsureRegionSupported c s =
     (case IsRegionSupported c s of
        ((supported, e), s1) \<Rightarrow>
          if e \<noteq> None then (RequeueWithError e, s1)
          else if \<not> supported
          then SetProjectClaimCondition c ConditionInvalid RegionCheckFailed
                 (Some (Sentinel ErrRegionNotSupported))
                 (s1\<lparr>projectClaim := set_claim_state ClaimStatusError (projectClaim s1)\<rparr>)
          else
            SetProjectClaimCondition c ConditionInvalid RegionCheckFailed None
              (if pc_State (projectClaim s1) = ClaimStatusError
               then s1\<lparr>projectClaim := set_claim_state ClaimStatusPending (projectClaim s1)\<rparr>
               else s1))"

end
