(* ===== verification/ClaimController.thy ===== *)
theory ClaimController
  imports ClaimAdapter
begin

text \<open>
  \<^verbatim>\<open>projectclaim_fake.go\<close> and \<^verbatim>\<open>projectclaim_controller.go\<close>: fake claims, the list of operations
  and \<^verbatim>\<open>Reconcile\<close> of the ProjectClaim controller.
\<close>

subsection \<open>Fake claims\<close>

definition fake_caller :: "nat \<Rightarrow> string \<Rightarrow> caller option" where
  "fake_caller line fn = Some (Caller ''controllers/projectclaim/projectclaim_fake.go'' line
     (''github.com/openshift/gcp-project-operator/controllers/projectclaim.(*ProjectClaimAdapter).'' @ fn))"

definition claim_credential_secret :: "ProjectClaim \<Rightarrow> NamespacedName" where
  "claim_credential_secret claim = pcs_GCPCredentialSecret (pc_Spec claim)"

definition corrupt_input_error :: "nat \<Rightarrow> err" where
  "corrupt_input_error n = PlainError (''illegal base64 data at input byte '' @ show_nat n)"

definition CreateFakeSecret :: "'w ProjectClaimAdapter \<Rightarrow> ('w claim_state, err option) effect" where
  "CreateFakeSecret c s =
     (let cred = claim_credential_secret (projectClaim s) in
      case SecretExists (ca_client c) (nn_Name cred) (nn_Namespace cred) (claim_world s) of
        (True, w) \<Rightarrow> (None, s\<lparr>claim_world := w\<rparr>)
      | (False, w) \<Rightarrow>
          (case b64_DecodeString ''SS1hbS1mYWtlLXBhc3M='' of
             Inl n \<Rightarrow> (Some (corrupt_input_error n), s\<lparr>claim_world := w\<rparr>)
           | Inr privateKeyString \<Rightarrow>
               (case k_CreateSecret (ca_client c)
                       (NewGCPSecretCR privateKeyString (namespaced (nn_Namespace cred) (nn_Name cred))) w of
                  ((e, obj), w') \<Rightarrow> (e, s\<lparr>claim_world := w'\<rparr>))))"

definition DeleteFakeSecret :: "'w ProjectClaimAdapter \<Rightarrow> ('w claim_state, err option) effect" where
  "DeleteFakeSecret c s =
     (let cred = claim_credential_secret (projectClaim s) in
      case k_GetSecret (ca_client c) (namespaced (nn_Namespace cred) (nn_Name cred)) (claim_world s) of
        (Inl e, w) \<Rightarrow> (Some e, s\<lparr>claim_world := w\<rparr>)
      | (Inr secret, w) \<Rightarrow>
          (case k_DeleteSecret (ca_client c) secret w of
             (e, w') \<Rightarrow> (e, s\<lparr>claim_world := w'\<rparr>)))"

definition fake_specs :: "ProjectClaim \<Rightarrow> ProjectClaim" where
  "fake_specs claim =
     claim\<lparr>pc_Spec := (pc_Spec claim)\<lparr>
       pcs_GCPProjectID := ''fakeProjectClaim'',
       pcs_GCPCredentialSecret := namespaced (pc_Namespace claim) (pc_Name claim),
       pcs_Region := ''fakeRegion'',
       pcs_AvailabilityZones := [''fake-az-a'', ''fake-az-b'', ''fake-az-c'']\<rparr>\<rparr>"

definition UpdateFakeProjectClaimSpecs ::
  "'w ProjectClaimAdapter \<Rightarrow> ('w claim_state, bool \<times> err option) effect" where
  "UpdateFakeProjectClaimSpecs c s =
     (if pcs_GCPProjectID (pc_Spec (projectClaim s)) \<noteq> ''fakeProjectClaim''
      then (case claim_update c (s\<lparr>projectClaim := fake_specs (projectClaim s)\<rparr>) of
              (Some e, s') \<Rightarrow> ((True, Some e), s')
            | (None, s') \<Rightarrow> ((False, None), s'))
      else ((True, None), s))"

definition UpdateFakeProjectClaimState ::
  "'w ProjectClaimAdapter \<Rightarrow> ('w claim_state, bool \<times> err option) effect" where
  "UpdateFakeProjectClaimState c s =
     (if pc_State (projectClaim s) \<noteq> ClaimStatusReady
      then (case claim_status_update c (s\<lparr>projectClaim :=
                   set_claim_state ClaimStatusReady (set_claim_conditions (Some []) (projectClaim s))\<rparr>) of
              (Some e, s') \<Rightarrow> ((True, Some e), s')
            | (None, s') \<Rightarrow> ((False, None), s'))
      else ((True, None), s))"

definition is_fake :: "ProjectClaim \<Rightarrow> bool" where
  "is_fake claim \<longleftrightarrow> om_Annotations (pc_Meta claim) FakeProjectClaim = Some ''true''"

text \<open>\<^verbatim>\<open>EnsureProjectClaimFakeProcessed\<close> from the test of the deletion timestamp on.\<close>

definition fake_deletion :: "'w ProjectClaimAdapter \<Rightarrow> ('w claim_state, outcome) effect" where
  "fake_deletion c s =
     (case DeleteFakeSecret c s of
        (Some e, s1) \<Rightarrow>
          (RequeueWithError (Wrap (fake_caller 94 ''EnsureProjectClaimFakeProcessed'') (Some e)
             (''Could not delete fake secret '' @ nn_Name (claim_credential_secret (projectClaim s1)))), s1)
      | (None, s1) \<Rightarrow>
          (case EnsureProjectClaimDeletionProcessed c s1 of
             ((r, Some e), s2) \<Rightarrow>
               (RequeueWithError (Wrap (fake_caller 97 ''EnsureProjectClaimFakeProcessed'') (Some e)
                  (''Could not delete project claim '' @ pc_Name (projectClaim s2))), s2)
           | ((r, None), s2) \<Rightarrow> (StopProcessing, s2)))"

definition fake_creation :: "'w ProjectClaimAdapter \<Rightarrow> ('w claim_state, outcome) effect" where
  "fake_creation c s =
     (case CreateFakeSecret c s of
        (Some e, s1) \<Rightarrow>
          (RequeueWithError (Wrap (fake_caller 110 ''EnsureProjectClaimFakeProcessed'') (Some e)
             (''Could not create fake secret '' @ nn_Name (claim_credential_secret (projectClaim s1)))), s1)
      | (None, s1) \<Rightarrow>
          (case UpdateFakeProjectClaimSpecs c s1 of
             ((unchanged, Some e), s2) \<Rightarrow>
               (RequeueWithError (Wrap (fake_caller 114 ''EnsureProjectClaimFakeProcessed'') (Some e)
                  (''Could not update project claim specs for '' @ pc_Name (projectClaim s2))), s2)
           | ((unchanged, None), s2) \<Rightarrow>
               if \<not> unchanged then (StopProcessing, s2)
               else
                 (case UpdateFakeProjectClaimState c s2 of
                    ((unchanged', Some e), s3) \<Rightarrow>
                      (RequeueWithError (Wrap (fake_caller 121 ''EnsureProjectClaimFakeProcessed'') (Some e)
                         (''Could not update project claim specs for '' @ pc_Name (projectClaim s3))), s3)
                  | ((unchanged', None), s3) \<Rightarrow> (StopProcessing, s3))))"

definition EnsureProjectClaimFakeProcessed ::
  "'w ProjectClaimAdapter \<Rightarrow> ('w claim_state, outcome) effect" where
  "EnsureProjectClaimFakeProcessed c s =
     (if \<not> is_fake (projectClaim s) then (ContinueProcessing, s)
      else
        (case EnsureFinalizer c s of
           ((r, Some e), s1) \<Rightarrow>
             (RequeueWithError (Wrap (fake_caller 89 ''EnsureProjectClaimFakeProcessed'') (Some e)
                (''Failed to add finalizer for '' @ pc_Name (projectClaim s1))), s1)
         | ((r, None), s1) \<Rightarrow>
             if om_DeletionTimestamp (pc_Meta (projectClaim s1)) \<noteq> None then fake_deletion c s1
             else
               (case ProjectClaim_Validate (projectClaim s1) of
                  Some e \<Rightarrow>
                    (case claim_StatusUpdate c
                            (s1\<lparr>projectClaim := set_claim_state ClaimStatusError (projectClaim s1)\<rparr>) of
                       (Some updateErr, s2) \<Rightarrow> (RequeueWithError (Some updateErr), s2)
                     | (None, s2) \<Rightarrow> (StopProcessing, s2))
                | None \<Rightarrow> fake_creation c s1)))"

subsection \<open>ReconcileHandler and Reconcile\<close>

definition claim_operations :: "'w ProjectClaimAdapter \<Rightarrow> ('w claim_state, outcome) effect list" where
  "claim_operations c =
     [EnsureProjectClaimFakeProcessed c,
      EnsureProjectClaimDeletionProcessed c,
      EnsureProjectClaimValidated c,
      EnsureProjectClaimInitialized c,
      EnsureRegionSupported c,
      EnsureProjectClaimStatePending c,
      EnsureProjectReferenceExists c,
      EnsureProjectReferenceLink c,
      EnsureFinalizer c,
      EnsureCCSSecretFinalizer c,
      EnsureProjectClaimStatePendingProject c]"

definition claim_ReconcileHandler ::
  "'w ProjectClaimAdapter \<Rightarrow> ('w claim_state, ctrl_Result \<times> err option) effect" where
  "claim_ReconcileHandler c s = run_operations (claim_operations c) s"

definition claim_Reconcile ::
  "'w kube_client \<Rightarrow> 'w environment \<Rightarrow> NamespacedName \<Rightarrow> 'w \<Rightarrow> (ctrl_Result \<times> err option) \<times> 'w" where
  "claim_Reconcile client env req w =
     (case k_GetProjectClaim client req w of
        (Inl e, w1) \<Rightarrow>
          if IsNotFound e then ((empty_Result, None), w1) else ((empty_Result, Some e), w1)
      | (Inr instance_, w1) \<Rightarrow>
          (case NewProjectClaimAdapter instance_ client NewConditionManager env w1 of
             (adapter, s) \<Rightarrow>
               (case claim_ReconcileHandler adapter s of
                  ((result, e), s1) \<Rightarrow>
                    (case SetProjectClaimCondition adapter ConditionError ''ReconcileError'' e s1 of
                       (ignored, s2) \<Rightarrow> ((result, e), claim_world s2)))))"

end
