(* ===== verification/Trace.thy ===== *)
theory Trace
  imports GcpClient
begin

text \<open>
  Clients that record their calls.  The definitions of the controllers are polymorphic in the
  world, so they run as they are over a world extended with a log; \<^verbatim>\<open>traced_kube\<close> and
  \<^verbatim>\<open>traced_gcp\<close> turn any pair of clients over \<^verbatim>\<open>'w\<close> into clients over \<^verbatim>\<open>'w \<times> log\<close> that behave
  the same and append each call, with the error it ended in, to the log.  A property of the
  log of a run, proved for arbitrary underlying clients, is a property of every run.
\<close>

datatype call =
    CallGetClaim NamespacedName
  | CallGetReference NamespacedName
  | CallGetSecret NamespacedName
  | CallGetConfigMap NamespacedName
  | CallCreateReference ProjectReference
  | CallCreateSecret Secret
  | CallUpdateClaim ProjectClaim
  | CallUpdateReference ProjectReference
  | CallUpdateSecret Secret
  | CallStatusClaim ProjectClaim
  | CallStatusReference ProjectReference
  | CallDeleteReference ProjectReference
  | CallDeleteSecret Secret
  | GcpGetServiceAccount string
  | GcpCreateServiceAccount string string
  | GcpDeleteServiceAccount string
  | GcpCreateServiceAccountKey string
  | GcpDeleteServiceAccountKeys string
  | GcpGetIamPolicy string
  | GcpSetIamPolicy Policy
  | GcpListProjects
  | GcpCreateProject string string
  | GcpCreateProjectLabels GcpProject "string \<rightharpoonup> string"
  | GcpDeleteProject string
  | GcpGetProject string
  | GcpEnableAPI string string
  | GcpListAPIs string
  | GcpCreateCloudBillingAccount string string
  | GcpListAvailabilityZones string string

type_synonym event = "call \<times> err option"
type_synonym 'w traced = "'w \<times> event list"

fun sum_err :: "err + 'a \<Rightarrow> err option" where
  "sum_err (Inl e) = Some e"
| "sum_err (Inr x) = None"

definition record_call :: "call \<Rightarrow> ('a \<Rightarrow> err option) \<Rightarrow> ('w, 'a) effect \<Rightarrow> ('w traced, 'a) effect" where
  "record_call c err_of f wl =
     (case f (fst wl) of (r, w') \<Rightarrow> (r, (w', snd wl @ [(c, err_of r)])))"

definition traced_kube :: "'w kube_client \<Rightarrow> 'w traced kube_client" where
  "traced_kube K =
     \<lparr>k_GetProjectClaim = (\<lambda>nn. record_call (CallGetClaim nn) sum_err (k_GetProjectClaim K nn)),
      k_GetProjectReference = (\<lambda>nn. record_call (CallGetReference nn) sum_err (k_GetProjectReference K nn)),
      k_GetSecret = (\<lambda>nn. record_call (CallGetSecret nn) sum_err (k_GetSecret K nn)),
      k_GetConfigMap = (\<lambda>nn. record_call (CallGetConfigMap nn) sum_err (k_GetConfigMap K nn)),
      k_CreateProjectReference =
        (\<lambda>obj. record_call (CallCreateReference obj) fst (k_CreateProjectReference K obj)),
      k_CreateSecret = (\<lambda>obj. record_call (CallCreateSecret obj) fst (k_CreateSecret K obj)),
      k_UpdateProjectClaim = (\<lambda>obj. record_call (CallUpdateClaim obj) fst (k_UpdateProjectClaim K obj)),
      k_UpdateProjectReference =
        (\<lambda>obj. record_call (CallUpdateReference obj) fst (k_UpdateProjectReference K obj)),
      k_UpdateSecret = (\<lambda>obj. record_call (CallUpdateSecret obj) fst (k_UpdateSecret K obj)),
      k_StatusUpdateProjectClaim =
        (\<lambda>obj. record_call (CallStatusClaim obj) fst (k_StatusUpdateProjectClaim K obj)),
      k_StatusUpdateProjectReference =
        (\<lambda>obj. record_call (CallStatusReference obj) fst (k_StatusUpdateProjectReference K obj)),
      k_DeleteProjectReference =
        (\<lambda>obj. record_call (CallDeleteReference obj) id (k_DeleteProjectReference K obj)),
      k_DeleteSecret = (\<lambda>obj. record_call (CallDeleteSecret obj) id (k_DeleteSecret K obj))\<rparr>"

definition traced_gcp :: "'w gcp_client \<Rightarrow> 'w traced gcp_client" where
  "traced_gcp G =
     \<lparr>g_GetServiceAccount = (\<lambda>n. record_call (GcpGetServiceAccount n) sum_err (g_GetServiceAccount G n)),
      g_CreateServiceAccount =
        (\<lambda>n d. record_call (GcpCreateServiceAccount n d) sum_err (g_CreateServiceAccount G n d)),
      g_DeleteServiceAccount = (\<lambda>e. record_call (GcpDeleteServiceAccount e) id (g_DeleteServiceAccount G e)),
      g_CreateServiceAccountKey =
        (\<lambda>e. record_call (GcpCreateServiceAccountKey e) sum_err (g_CreateServiceAccountKey G e)),
      g_DeleteServiceAccountKeys =
        (\<lambda>e. record_call (GcpDeleteServiceAccountKeys e) id (g_DeleteServiceAccountKeys G e)),
      g_GetIamPolicy = (\<lambda>p. record_call (GcpGetIamPolicy p) sum_err (g_GetIamPolicy G p)),
      g_SetIamPolicy = (\<lambda>p. record_call (GcpSetIamPolicy p) sum_err (g_SetIamPolicy G p)),
      g_ListProjects = record_call GcpListProjects sum_err (g_ListProjects G),
      g_CreateProject = (\<lambda>f n. record_call (GcpCreateProject f n) id (g_CreateProject G f n)),
      g_CreateProjectLabels =
        (\<lambda>p l. record_call (GcpCreateProjectLabels p l) id (g_CreateProjectLabels G p l)),
      g_DeleteProject = (\<lambda>p. record_call (GcpDeleteProject p) id (g_DeleteProject G p)),
      g_GetProject = (\<lambda>p. record_call (GcpGetProject p) sum_err (g_GetProject G p)),
      g_EnableAPI = (\<lambda>p a. record_call (GcpEnableAPI p a) id (g_EnableAPI G p a)),
      g_ListAPIs = (\<lambda>p. record_call (GcpListAPIs p) sum_err (g_ListAPIs G p)),
      g_CreateCloudBillingAccount =
        (\<lambda>p b. record_call (GcpCreateCloudBillingAccount p b) id (g_CreateCloudBillingAccount G p b)),
      g_ListAvailabilityZones =
        (\<lambda>p z. record_call (GcpListAvailabilityZones p z) sum_err (g_ListAvailabilityZones G p z))\<rparr>"

text \<open>An environment over the extended world; it leaves the log alone.\<close>

definition untraced :: "('w, 'a) effect \<Rightarrow> ('w \<times> 'l, 'a) effect" where
  "untraced f wl = (case f (fst wl) of (r, w') \<Rightarrow> (r, (w', snd wl)))"

definition traced_env :: "'w environment \<Rightarrow> ('w \<times> 'l) environment" where
  "traced_env env =
     \<lparr>env_Now = untraced (env_Now env),
      env_Sleep = (\<lambda>d wl. (env_Sleep env d (fst wl), snd wl)),
      env_MapOrder = untraced (env_MapOrder env),
      env_NewUUID = untraced (env_NewUUID env),
      env_RandString = (\<lambda>n. untraced (env_RandString env n)),
      env_NextBackOff = untraced (env_NextBackOff env),
      env_YamlUnmarshal = env_YamlUnmarshal env\<rparr>"

subsection \<open>What a run appended to the log\<close>

text \<open>
  \<^verbatim>\<open>emits P wl wl'\<close>: the log of \<^verbatim>\<open>wl'\<close> is the log of \<^verbatim>\<open>wl\<close> followed by events that satisfy
  \<^verbatim>\<open>P\<close>.
\<close>

definition emits :: "(event \<Rightarrow> bool) \<Rightarrow> 'w traced \<Rightarrow> 'w traced \<Rightarrow> bool" where
  "emits P wl wl' \<longleftrightarrow> (\<exists>evs. snd wl' = snd wl @ evs \<and> list_all P evs)"

lemma emits_refl [simp, intro]: "emits P wl wl"
  by (simp add: emits_def)

lemma emits_trans: "emits P wl wl' \<Longrightarrow> emits P wl' wl'' \<Longrightarrow> emits P wl wl''"
  by (fastforce simp: emits_def)

lemma emits_mono: "emits P wl wl' \<Longrightarrow> (\<And>ev. P ev \<Longrightarrow> Q ev) \<Longrightarrow> emits Q wl wl'"
  by (auto simp: emits_def list_all_iff)

lemma emits_new_events: "emits P (w, []) wl' \<Longrightarrow> ev \<in> set (snd wl') \<Longrightarrow> P ev"
  by (auto simp: emits_def list_all_iff)

lemma emits_untraced [simp]: "emits P wl (w, snd wl)" "emits P (w, l) (w', l)"
  by (simp_all add: emits_def)

lemma snd_untraced [simp]: "snd (snd (untraced f wl)) = snd wl"
  by (simp add: untraced_def split: prod.splits)

lemma record_call_emits: "record_call c err_of f wl = (r, wl') \<Longrightarrow> emits P wl wl' \<longleftrightarrow> P (c, err_of r)"
  by (auto simp: record_call_def emits_def split: prod.splits)

lemma record_call_log: "record_call c err_of f wl = (r, wl') \<Longrightarrow> snd wl' = snd wl @ [(c, err_of r)]"
  by (auto simp: record_call_def split: prod.splits)

lemma untraced_log: "untraced f wl = (r, wl') \<Longrightarrow> snd wl' = snd wl"
  by (auto simp: untraced_def split: prod.splits)

lemma traced_kube_sel [trace_simps]:
  "k_GetProjectClaim (traced_kube K) nn = record_call (CallGetClaim nn) sum_err (k_GetProjectClaim K nn)"
  "k_GetProjectReference (traced_kube K) nn =
     record_call (CallGetReference nn) sum_err (k_GetProjectReference K nn)"
  "k_GetSecret (traced_kube K) nn = record_call (CallGetSecret nn) sum_err (k_GetSecret K nn)"
  "k_GetConfigMap (traced_kube K) nn = record_call (CallGetConfigMap nn) sum_err (k_GetConfigMap K nn)"
  "k_CreateProjectReference (traced_kube K) r =
     record_call (CallCreateReference r) fst (k_CreateProjectReference K r)"
  "k_CreateSecret (traced_kube K) x = record_call (CallCreateSecret x) fst (k_CreateSecret K x)"
  "k_UpdateProjectClaim (traced_kube K) c = record_call (CallUpdateClaim c) fst (k_UpdateProjectClaim K c)"
  "k_UpdateProjectReference (traced_kube K) r =
     record_call (CallUpdateReference r) fst (k_UpdateProjectReference K r)"
  "k_UpdateSecret (traced_kube K) x = record_call (CallUpdateSecret x) fst (k_UpdateSecret K x)"
  "k_StatusUpdateProjectClaim (traced_kube K) c =
     record_call (CallStatusClaim c) fst (k_StatusUpdateProjectClaim K c)"
  "k_StatusUpdateProjectReference (traced_kube K) r =
     record_call (CallStatusReference r) fst (k_StatusUpdateProjectReference K r)"
  "k_DeleteProjectReference (traced_kube K) r =
     record_call (CallDeleteReference r) id (k_DeleteProjectReference K r)"
  "k_DeleteSecret (traced_kube K) x = record_call (CallDeleteSecret x) id (k_DeleteSecret K x)"
  by (simp_all add: traced_kube_def)

lemma traced_gcp_sel [trace_simps]:
  "g_GetServiceAccount (traced_gcp G) n =
     record_call (GcpGetServiceAccount n) sum_err (g_GetServiceAccount G n)"
  "g_CreateServiceAccount (traced_gcp G) n d =
     record_call (GcpCreateServiceAccount n d) sum_err (g_CreateServiceAccount G n d)"
  "g_DeleteServiceAccount (traced_gcp G) e =
     record_call (GcpDeleteServiceAccount e) id (g_DeleteServiceAccount G e)"
  "g_CreateServiceAccountKey (traced_gcp G) e =
     record_call (GcpCreateServiceAccountKey e) sum_err (g_CreateServiceAccountKey G e)"
  "g_DeleteServiceAccountKeys (traced_gcp G) e =
     record_call (GcpDeleteServiceAccountKeys e) id (g_DeleteServiceAccountKeys G e)"
  "g_GetIamPolicy (traced_gcp G) p = record_call (GcpGetIamPolicy p) sum_err (g_GetIamPolicy G p)"
  "g_SetIamPolicy (traced_gcp G) pol = record_call (GcpSetIamPolicy pol) sum_err (g_SetIamPolicy G pol)"
  "g_ListProjects (traced_gcp G) = record_call GcpListProjects sum_err (g_ListProjects G)"
  "g_CreateProject (traced_gcp G) f n = record_call (GcpCreateProject f n) id (g_CreateProject G f n)"
  "g_CreateProjectLabels (traced_gcp G) pj l =
     record_call (GcpCreateProjectLabels pj l) id (g_CreateProjectLabels G pj l)"
  "g_DeleteProject (traced_gcp G) p = record_call (GcpDeleteProject p) id (g_DeleteProject G p)"
  "g_GetProject (traced_gcp G) p = record_call (GcpGetProject p) sum_err (g_GetProject G p)"
  "g_EnableAPI (traced_gcp G) p a = record_call (GcpEnableAPI p a) id (g_EnableAPI G p a)"
  "g_ListAPIs (traced_gcp G) p = record_call (GcpListAPIs p) sum_err (g_ListAPIs G p)"
  "g_CreateCloudBillingAccount (traced_gcp G) p b =
     record_call (GcpCreateCloudBillingAccount p b) id (g_CreateCloudBillingAccount G p b)"
  "g_ListAvailabilityZones (traced_gcp G) p z =
     record_call (GcpListAvailabilityZones p z) sum_err (g_ListAvailabilityZones G p z)"
  by (simp_all add: traced_gcp_def)

lemma traced_env_sel [trace_simps]:
  "env_Now (traced_env env) = untraced (env_Now env)"
  "env_Sleep (traced_env env) d wl = (env_Sleep env d (fst wl), snd wl)"
  "env_MapOrder (traced_env env) = untraced (env_MapOrder env)"
  "env_NewUUID (traced_env env) = untraced (env_NewUUID env)"
  "env_RandString (traced_env env) n = untraced (env_RandString env n)"
  "env_NextBackOff (traced_env env) = untraced (env_NextBackOff env)"
  "env_YamlUnmarshal (traced_env env) = env_YamlUnmarshal env"
  by (simp_all add: traced_env_def)

text \<open>What the log of a call or of an environment step is, with no case on the result.\<close>

lemma snd_snd_record_call [simp]:
  "snd (snd (record_call c err_of f wl)) = snd wl @ [(c, err_of (fst (record_call c err_of f wl)))]"
  by (simp add: record_call_def split: prod.splits)

lemma emits_iff_suffix: "snd wl' = snd wl @ evs \<Longrightarrow> emits P wl wl' \<longleftrightarrow> list_all P evs"
  by (simp add: emits_def)

subsection \<open>Reading a log\<close>

text \<open>The secret a call is about, the claim it writes to, the status it writes.\<close>

fun secret_of :: "call \<Rightarrow> NamespacedName option" where
  "secret_of (CallGetSecret nn) = Some nn"
| "secret_of (CallCreateSecret x) = Some (meta_key (s_Meta x))"
| "secret_of (CallUpdateSecret x) = Some (meta_key (s_Meta x))"
| "secret_of (CallDeleteSecret x) = Some (meta_key (s_Meta x))"
| "secret_of _ = None"

fun claim_updated_by :: "call \<Rightarrow> ProjectClaim option" where
  "claim_updated_by (CallUpdateClaim x) = Some x"
| "claim_updated_by _ = None"

fun claim_status_of :: "call \<Rightarrow> ProjectClaim option" where
  "claim_status_of (CallStatusClaim x) = Some x"
| "claim_status_of _ = None"

fun reference_updated_by :: "call \<Rightarrow> ProjectReference option" where
  "reference_updated_by (CallUpdateReference x) = Some x"
| "reference_updated_by _ = None"

fun reference_status_of :: "call \<Rightarrow> ProjectReference option" where
  "reference_status_of (CallStatusReference x) = Some x"
| "reference_status_of _ = None"

definition selected :: "(call \<Rightarrow> 'a option) \<Rightarrow> event list \<Rightarrow> 'a list" where
  "selected f evs = List.map_filter (f \<circ> fst) evs"

lemma selected_simps [simp]:
  "selected f [] = []"
  "selected f ((call, e) # evs) = (case f call of None \<Rightarrow> selected f evs | Some x \<Rightarrow> x # selected f evs)"
  "selected f (evs @ evs') = selected f evs @ selected f evs'"
  by (simp_all add: selected_def List.map_filter_def split: option.splits)

lemma set_selected: "x \<in> set (selected f evs) \<longleftrightarrow> (\<exists>call e. (call, e) \<in> set evs \<and> f call = Some x)"
  by (force simp: selected_def List.map_filter_def)

lemma list_all_selected:
  "(\<And>call e x. (call, e) \<in> set evs \<Longrightarrow> f call = Some x \<Longrightarrow> P x) \<Longrightarrow> list_all P (selected f evs)"
  by (auto simp: list_all_iff set_selected)

abbreviation "secrets_touched \<equiv> selected secret_of"
abbreviation "claims_updated \<equiv> selected claim_updated_by"
abbreviation "claim_statuses_written \<equiv> selected claim_status_of"
abbreviation "references_updated \<equiv> selected reference_updated_by"
abbreviation "reference_statuses_written \<equiv> selected reference_status_of"

subsection \<open>What an API server promises about names\<close>

text \<open>
  An object is served and stored under its own name: a read answers with the object asked for,
  a write with the object written.
\<close>

definition serves_by_name :: "'w kube_client \<Rightarrow> bool" where
  "serves_by_name K \<longleftrightarrow>
     (\<forall>nn w x w'. k_GetSecret K nn w = (Inr x, w') \<longrightarrow> meta_key (s_Meta x) = nn) \<and>
     (\<forall>c w e x w'. k_UpdateProjectClaim K c w = ((e, x), w') \<longrightarrow>
        meta_key (pc_Meta x) = meta_key (pc_Meta c)) \<and>
     (\<forall>r w e x w'. k_CreateProjectReference K r w = ((e, x), w') \<longrightarrow>
        meta_key (pr_Meta x) = meta_key (pr_Meta r))"

lemma serves_by_nameD:
  assumes "serves_by_name K"
  shows "k_GetSecret K nn w = (Inr x, w') \<Longrightarrow> meta_key (s_Meta x) = nn"
    and "k_UpdateProjectClaim K c w = ((e, y), w') \<Longrightarrow> meta_key (pc_Meta y) = meta_key (pc_Meta c)"
    and "k_CreateProjectReference K r w = ((e, z), w') \<Longrightarrow> meta_key (pr_Meta z) = meta_key (pr_Meta r)"
  using assms unfolding serves_by_name_def by blast+

end
