(* ===== verification/Cluster.thy ===== *)
theory Cluster
  imports ReferenceController ClaimController Trace
begin

text \<open>
  A reference world: an API server and a Google Cloud kept in memory, as executable functions.

  The controllers are verified over arbitrary clients; this theory gives one client of each
  kind, with the behaviour their documentation promises, so that hypotheses on clients can be
  discharged and whole runs evaluated.  The API server checks the resource version on every
  write, keeps the status apart from the rest of an object, and removes an object when its
  deletion was requested and its last finalizer is gone.  Google Cloud answers with
  \<^verbatim>\<open>googleapi\<close> errors; every project has one policy, and \<^verbatim>\<open>setIamPolicy\<close> replaces it when the
  etag of the request is the current one.
\<close>

record cluster =
  cl_claims :: "NamespacedName \<rightharpoonup> ProjectClaim"
  cl_references :: "NamespacedName \<rightharpoonup> ProjectReference"
  cl_secrets :: "NamespacedName \<rightharpoonup> Secret"
  cl_configmaps :: "NamespacedName \<rightharpoonup> ConfigMap"
  cl_version :: nat
  cl_now :: time
  cl_projects :: "GcpProject list"
  cl_policies :: "string \<Rightarrow> Policy"
  cl_accounts :: "GcpServiceAccount list"
  cl_keys :: "(string \<times> GcpServiceAccountKey) list"
  cl_services :: "string list"
  cl_billing :: "string \<Rightarrow> string"

definition empty_policy :: Policy where
  "empty_policy = \<lparr>pol_Bindings = [], pol_Etag = ''0'', pol_Version = 1\<rparr>"

definition empty_cluster :: cluster where
  "empty_cluster = \<lparr>cl_claims = Map.empty, cl_references = Map.empty, cl_secrets = Map.empty,
     cl_configmaps = Map.empty, cl_version = 1, cl_now = 0, cl_projects = [],
     cl_policies = (\<lambda>p. empty_policy), cl_accounts = [], cl_keys = [], cl_services = [],
     cl_billing = (\<lambda>p. '''')\<rparr>"

subsection \<open>The API server\<close>

definition not_found :: err where "not_found = KubeStatusError NotFound ''not found''"
definition already_exists :: err where "already_exists = KubeStatusError AlreadyExists ''already exists''"
definition conflict :: err where "conflict = KubeStatusError Conflict ''the object has been modified''"

text \<open>An object lives under its key, which is what its metadata answers with.\<close>

definition keyed :: "NamespacedName \<Rightarrow> ObjectMeta \<Rightarrow> ObjectMeta" where
  "keyed nn md = md\<lparr>om_Name := nn_Name nn, om_Namespace := nn_Namespace nn\<rparr>"

definition api_get ::
  "('o \<Rightarrow> ObjectMeta) \<Rightarrow> (ObjectMeta \<Rightarrow> 'o \<Rightarrow> 'o) \<Rightarrow> (NamespacedName \<rightharpoonup> 'o) \<Rightarrow> NamespacedName
     \<Rightarrow> err + 'o" where
  "api_get meta set_meta m nn =
     (case m nn of None \<Rightarrow> Inl not_found | Some obj \<Rightarrow> Inr (set_meta (keyed nn (meta obj)) obj))"

text \<open>
  One write: \<^verbatim>\<open>meta\<close> and \<^verbatim>\<open>set_meta\<close> access the metadata, \<^verbatim>\<open>merge stored sent\<close> is the object to
  store.  The answer is the stored object with its new version.
\<close>

definition api_update ::
  "('o \<Rightarrow> ObjectMeta) \<Rightarrow> (ObjectMeta \<Rightarrow> 'o \<Rightarrow> 'o) \<Rightarrow> ('o \<Rightarrow> 'o \<Rightarrow> 'o) \<Rightarrow> nat \<Rightarrow> 'o
     \<Rightarrow> (NamespacedName \<rightharpoonup> 'o) \<Rightarrow> (err option \<times> 'o) \<times> (NamespacedName \<rightharpoonup> 'o)" where
  "api_update meta set_meta merge version obj m =
     (case m (meta_key (meta obj)) of
        None \<Rightarrow> ((Some not_found, obj), m)
      | Some stored \<Rightarrow>
          if om_ResourceVersion (meta obj) \<noteq> om_ResourceVersion (meta stored)
          then ((Some conflict, obj), m)
          else
            (let obj' = merge stored obj;
                 md = (keyed (meta_key (meta obj)) (meta obj'))\<lparr>om_ResourceVersion := show_nat version,
                        om_DeletionTimestamp := om_DeletionTimestamp (meta stored)\<rparr>;
                 obj'' = set_meta md obj' in
             if om_DeletionTimestamp md \<noteq> None \<and> om_Finalizers md = []
             then ((None, obj''), m(meta_key (meta obj) := None))
             else ((None, obj''), m(meta_key (meta obj) \<mapsto> obj''))))"

definition api_create ::
  "('o \<Rightarrow> ObjectMeta) \<Rightarrow> (ObjectMeta \<Rightarrow> 'o \<Rightarrow> 'o) \<Rightarrow> nat \<Rightarrow> 'o
     \<Rightarrow> (NamespacedName \<rightharpoonup> 'o) \<Rightarrow> (err option \<times> 'o) \<times> (NamespacedName \<rightharpoonup> 'o)" where
  "api_create meta set_meta version obj m =
     (if m (meta_key (meta obj)) \<noteq> None then ((Some already_exists, obj), m)
      else
        (let obj' = set_meta ((meta obj)\<lparr>om_ResourceVersion := show_nat version\<rparr>) obj in
         ((None, obj'), m(meta_key (meta obj) \<mapsto> obj'))))"

definition api_delete ::
  "('o \<Rightarrow> ObjectMeta) \<Rightarrow> (ObjectMeta \<Rightarrow> 'o \<Rightarrow> 'o) \<Rightarrow> nat \<Rightarrow> time \<Rightarrow> 'o
     \<Rightarrow> (NamespacedName \<rightharpoonup> 'o) \<Rightarrow> err option \<times> (NamespacedName \<rightharpoonup> 'o)" where
  "api_delete meta set_meta version now obj m =
     (case m (meta_key (meta obj)) of
        None \<Rightarrow> (Some not_found, m)
      | Some stored \<Rightarrow>
          if om_Finalizers (meta stored) = [] then (None, m(meta_key (meta obj) := None))
          else if om_DeletionTimestamp (meta stored) \<noteq> None then (None, m)
          else (None, m(meta_key (meta obj) \<mapsto>
                  set_meta ((meta stored)\<lparr>om_DeletionTimestamp := Some now,
                    om_ResourceVersion := show_nat version\<rparr>) stored)))"

definition set_pc_meta :: "ObjectMeta \<Rightarrow> ProjectClaim \<Rightarrow> ProjectClaim" where
  "set_pc_meta md c = c\<lparr>pc_Meta := md\<rparr>"
definition set_pr_meta :: "ObjectMeta \<Rightarrow> ProjectReference \<Rightarrow> ProjectReference" where
  "set_pr_meta md r = r\<lparr>pr_Meta := md\<rparr>"
definition set_s_meta :: "ObjectMeta \<Rightarrow> Secret \<Rightarrow> Secret" where
  "set_s_meta md x = x\<lparr>s_Meta := md\<rparr>"
definition set_cm_meta :: "ObjectMeta \<Rightarrow> ConfigMap \<Rightarrow> ConfigMap" where
  "set_cm_meta md x = x\<lparr>cm_Meta := md\<rparr>"

definition bump :: "cluster \<Rightarrow> cluster" where
  "bump w = w\<lparr>cl_version := Suc (cl_version w)\<rparr>"

definition with_claims where
  "with_claims f w = (case f (cl_claims w) of (r, m) \<Rightarrow> (r, bump w\<lparr>cl_claims := m\<rparr>))"
definition with_references where
  "with_references f w = (case f (cl_references w) of (r, m) \<Rightarrow> (r, bump w\<lparr>cl_references := m\<rparr>))"
definition with_secrets where
  "with_secrets f w = (case f (cl_secrets w) of (r, m) \<Rightarrow> (r, bump w\<lparr>cl_secrets := m\<rparr>))"

definition cluster_kube :: "cluster kube_client" where
  "cluster_kube =
     \<lparr>k_GetProjectClaim = (\<lambda>nn w. (api_get pc_Meta set_pc_meta (cl_claims w) nn, w)),
      k_GetProjectReference = (\<lambda>nn w. (api_get pr_Meta set_pr_meta (cl_references w) nn, w)),
      k_GetSecret = (\<lambda>nn w. (api_get s_Meta set_s_meta (cl_secrets w) nn, w)),
      k_GetConfigMap = (\<lambda>nn w. (api_get cm_Meta set_cm_meta (cl_configmaps w) nn, w)),
      k_CreateProjectReference =
        (\<lambda>obj w. with_references (api_create pr_Meta set_pr_meta (cl_version w) obj) w),
      k_CreateSecret = (\<lambda>obj w. with_secrets (api_create s_Meta set_s_meta (cl_version w) obj) w),
      k_UpdateProjectClaim = (\<lambda>obj w. with_claims (api_update pc_Meta set_pc_meta
         (\<lambda>stored sent. sent\<lparr>pc_Status := pc_Status stored\<rparr>) (cl_version w) obj) w),
      k_UpdateProjectReference = (\<lambda>obj w. with_references (api_update pr_Meta set_pr_meta
         (\<lambda>stored sent. sent\<lparr>pr_Status := pr_Status stored\<rparr>) (cl_version w) obj) w),
      k_UpdateSecret = (\<lambda>obj w. with_secrets (api_update s_Meta set_s_meta
         (\<lambda>stored sent. sent) (cl_version w) obj) w),
      k_StatusUpdateProjectClaim = (\<lambda>obj w. with_claims (api_update pc_Meta set_pc_meta
         (\<lambda>stored sent. stored\<lparr>pc_Status := pc_Status sent\<rparr>) (cl_version w) obj) w),
      k_StatusUpdateProjectReference = (\<lambda>obj w. with_references (api_update pr_Meta set_pr_meta
         (\<lambda>stored sent. stored\<lparr>pr_Status := pr_Status sent\<rparr>) (cl_version w) obj) w),
      k_DeleteProjectReference = (\<lambda>obj w. with_references
         (api_delete pr_Meta set_pr_meta (cl_version w) (cl_now w) obj) w),
      k_DeleteSecret = (\<lambda>obj w. with_secrets
         (api_delete s_Meta set_s_meta (cl_version w) (cl_now w) obj) w)\<rparr>"

subsection \<open>Google Cloud\<close>

definition google_not_found :: err where
  "google_not_found = GoogleAPIError 404 ''googleapi: Error 404: not found''"
definition google_conflict :: err where
  "google_conflict = GoogleAPIError 409 ''googleapi: Error 409: conflict''"

definition find_project :: "cluster \<Rightarrow> string \<Rightarrow> GcpProject option" where
  "find_project w p = List.find (\<lambda>x. p_ProjectId x = p) (cl_projects w)"

definition account_email :: "string \<Rightarrow> string \<Rightarrow> string" where
  "account_email p name = name @ ''@'' @ p @ ''.iam.gserviceaccount.com''"

definition account_resource :: "string \<Rightarrow> string \<Rightarrow> string" where
  "account_resource p email = ''projects/'' @ p @ ''/serviceAccounts/'' @ email"

text \<open>A policy is served with every member once per binding.\<close>

definition normal_policy :: "Policy \<Rightarrow> Policy" where
  "normal_policy p = p\<lparr>pol_Bindings := map (\<lambda>b. b\<lparr>b_Members := remdups (b_Members b)\<rparr>) (pol_Bindings p)\<rparr>"

definition get_policy :: "string \<Rightarrow> cluster \<Rightarrow> (err + Policy) \<times> cluster" where
  "get_policy p w = (Inr (normal_policy (cl_policies w p)), w)"

definition set_policy :: "string \<Rightarrow> Policy \<Rightarrow> cluster \<Rightarrow> (err + Policy) \<times> cluster" where
  "set_policy p policy w =
     (if pol_Etag policy \<noteq> pol_Etag (cl_policies w p) then (Inl google_conflict, w)
      else
        (let policy' = policy\<lparr>pol_Etag := show_nat (cl_version w)\<rparr> in
         (Inr policy', bump w\<lparr>cl_policies := (cl_policies w)(p := policy')\<rparr>)))"

definition cluster_sdk :: "cluster google_sdk" where
  "cluster_sdk =
     \<lparr>sdk_CredentialsFromJSON = (\<lambda>json scope w. (Inr (GoogleCreds json), w)),
      sdk_NewService = (\<lambda>service creds w. (None, w)),
      sdk_ZonesPages = (\<lambda>creds p w. (([[\<lparr>z_Name = ''us-east1-b'', z_Region = ''regions/us-east1''\<rparr>,
         \<lparr>z_Name = ''us-east4-a'', z_Region = ''regions/us-east4''\<rparr>],
         [\<lparr>z_Name = ''us-east1-c'', z_Region = ''regions/us-east1''\<rparr>]], None), w)),
      sdk_ProjectsList = (\<lambda>creds w. (Inr \<lparr>lp_Projects = cl_projects w, lp_NextPageToken = ''''\<rparr>, w)),
      sdk_ProjectsGet = (\<lambda>creds p w.
         (case find_project w p of None \<Rightarrow> Inl google_not_found | Some x \<Rightarrow> Inr x, w)),
      sdk_ProjectsUpdate = (\<lambda>creds p x w.
         (None, w\<lparr>cl_projects := map (\<lambda>y. if p_ProjectId y = p then x else y) (cl_projects w)\<rparr>)),
      sdk_ProjectsCreate = (\<lambda>creds x w.
         if find_project w (p_ProjectId x) \<noteq> None then (Some google_conflict, w)
         else (None, w\<lparr>cl_projects := cl_projects w @ [x\<lparr>p_LifecycleState := ''ACTIVE''\<rparr>]\<rparr>)),
      sdk_ProjectsDelete = (\<lambda>creds p w.
         if find_project w p = None then (Some google_not_found, w)
         else (None, w\<lparr>cl_projects := map (\<lambda>y. if p_ProjectId y = p
                 then y\<lparr>p_LifecycleState := ''DELETE_REQUESTED''\<rparr> else y) (cl_projects w)\<rparr>)),
      sdk_ServiceAccountsGet = (\<lambda>creds resource w.
         (case List.find (\<lambda>a. sa_Name a = resource) (cl_accounts w) of
            None \<Rightarrow> Inl google_not_found | Some a \<Rightarrow> Inr a, w)),
      sdk_ServiceAccountsCreate = (\<lambda>creds project name display w.
         let p = drop (length ''projects/'') project;
             a = \<lparr>sa_Email = account_email p name, sa_Name = account_resource p (account_email p name)\<rparr> in
         if a \<in> set (cl_accounts w) then (Inl google_conflict, w)
         else (Inr a, w\<lparr>cl_accounts := cl_accounts w @ [a]\<rparr>)),
      sdk_ServiceAccountsDelete = (\<lambda>creds resource w.
         if List.find (\<lambda>a. sa_Name a = resource) (cl_accounts w) = None then (Some google_not_found, w)
         else (None, w\<lparr>cl_accounts := filter (\<lambda>a. sa_Name a \<noteq> resource) (cl_accounts w)\<rparr>)),
      sdk_KeysCreate = (\<lambda>creds resource w.
         let key = \<lparr>key_Name = resource @ ''/keys/'' @ show_nat (cl_version w),
                    key_PrivateKeyData = ''SS1hbS1mYWtlLXBhc3M=''\<rparr> in
         (Inr key, bump w\<lparr>cl_keys := cl_keys w @ [(resource, key)]\<rparr>)),
      sdk_KeysGet = (\<lambda>creds name w.
         (if name \<in> (\<lambda>(a, k). key_Name k) ` set (cl_keys w) then None else Some google_not_found, w)),
      sdk_KeysList = (\<lambda>creds resource w.
         (Inr (map snd (filter (\<lambda>(a, k). a = resource) (cl_keys w))), w)),
      sdk_KeysDelete = (\<lambda>creds name w.
         (None, w\<lparr>cl_keys := filter (\<lambda>(a, k). key_Name k \<noteq> name) (cl_keys w)\<rparr>)),
      sdk_GetIamPolicy = (\<lambda>creds p w. get_policy p w),
      sdk_SetIamPolicy = (\<lambda>creds p policy w. set_policy p policy w),
      sdk_ServicesList = (\<lambda>creds project w.
         (Inr \<lparr>ls_Services = map (\<lambda>api. \<lparr>svc_State = ''ENABLED'',
                svc_ConfigName = drop (length (project @ ''/services/'')) api\<rparr>)
                (filter (\<lambda>api. HasPrefix api (project @ ''/services/'')) (cl_services w)),
              ls_NextPageToken = ''''\<rparr>, w)),
      sdk_ServicesEnable = (\<lambda>creds api w.
         (None, w\<lparr>cl_services := (if api \<in> set (cl_services w) then cl_services w
                                   else cl_services w @ [api])\<rparr>)),
      sdk_GetBillingInfo = (\<lambda>creds p w.
         (Inr \<lparr>bi_BillingAccountName = cl_billing w p, bi_BillingEnabled = cl_billing w p \<noteq> ''''\<rparr>, w)),
      sdk_UpdateBillingInfo = (\<lambda>creds p info w.
         (None, w\<lparr>cl_billing := (cl_billing w)(p := bi_BillingAccountName info)\<rparr>))\<rparr>"

text \<open>
  The environment: the clock advances by what is slept, a range over a map visits it in order
  of insertion, and identifiers come from the version counter.
\<close>

definition cluster_config :: OperatorConfigMap where
  "cluster_config = \<lparr>oc_BillingAccount = ''billing'', oc_ParentFolderID = ''folder'',
     oc_CCSConsoleAccess = [''sre''], oc_CCSReadOnlyConsoleAccess = [''viewers''],
     oc_DisabledRegions = [''us-west1'']\<rparr>"

definition cluster_env :: "cluster environment" where
  "cluster_env =
     \<lparr>env_Now = (\<lambda>w. (cl_now w, w)),
      env_Sleep = (\<lambda>d w. w\<lparr>cl_now := cl_now w + d\<rparr>),
      env_MapOrder = (\<lambda>w. (\<lambda>m. m, w)),
      env_NewUUID = (\<lambda>w. (''uuid-'' @ show_nat (cl_version w), bump w)),
      env_RandString = (\<lambda>n w. (replicate n CHR ''x'', bump w)),
      env_NextBackOff = (\<lambda>w. (Second, w)),
      env_YamlUnmarshal = (\<lambda>text. Inr cluster_config)\<rparr>"

definition cluster_reconciler :: "cluster ProjectReferenceReconciler" where
  "cluster_reconciler = \<lparr>prr_Client = cluster_kube, prr_GcpClientBuilder = NewClient cluster_env cluster_sdk,
     prr_env = cluster_env\<rparr>"

text \<open>One round: each controller handles its request once, with a second between them.\<close>

definition claim_round :: "NamespacedName \<Rightarrow> cluster \<Rightarrow> cluster" where
  "claim_round nn w = snd (claim_Reconcile cluster_kube cluster_env nn (env_Sleep cluster_env Second w))"

definition reference_round :: "NamespacedName \<Rightarrow> cluster \<Rightarrow> cluster" where
  "reference_round nn w = snd (reference_Reconcile cluster_reconciler nn (env_Sleep cluster_env Second w))"

fun cluster_rounds :: "nat \<Rightarrow> NamespacedName \<Rightarrow> NamespacedName \<Rightarrow> cluster \<Rightarrow> cluster" where
  "cluster_rounds 0 claim reference w = w"
| "cluster_rounds (Suc n) claim reference w =
     cluster_rounds n claim reference (reference_round reference (claim_round claim w))"

text \<open>A claim as a tenant creates it, in a cluster with the operator's secret and configuration.\<close>

definition sample_claim :: ProjectClaim where
  "sample_claim =
     \<lparr>pc_Meta = (new_meta ''web'' ''team'')\<lparr>om_ResourceVersion := ''1''\<rparr>,
      pc_Spec = \<lparr>pcs_LegalEntity = \<lparr>le_Name = ''legal'', le_ID = ''1''\<rparr>,
        pcs_GCPCredentialSecret = namespaced ''team'' ''gcp-secret'', pcs_Region = ''us-east1'',
        pcs_GCPProjectID = '''', pcs_ProjectReferenceCRLink = namespaced '''' '''',
        pcs_AvailabilityZones = [], pcs_CCS = False, pcs_CCSSecretRef = namespaced '''' '''',
        pcs_CCSProjectID = '''', pcs_SharedVPCAccess = False\<rparr>,
      pc_Status = \<lparr>pct_Conditions = None, pct_State = ''''\<rparr>\<rparr>"

definition sample_key :: NamespacedName where "sample_key = namespaced ''team'' ''web''"
definition sample_reference_key :: NamespacedName where
  "sample_reference_key = namespaced ''gcp-project-operator'' ''team-web''"

definition sample_cluster :: cluster where
  "sample_cluster = empty_cluster\<lparr>
     cl_claims := [sample_key \<mapsto> sample_claim],
     cl_secrets := [namespaced operatorNamespace orgGcpSecretName \<mapsto>
       NewGCPSecretCR ''operator credentials'' (namespaced operatorNamespace orgGcpSecretName)],
     cl_configmaps := [namespaced OperatorConfigMapNamespace OperatorConfigMapName \<mapsto>
       \<lparr>cm_Meta = new_meta OperatorConfigMapName OperatorConfigMapNamespace,
        cm_Data = [OperatorConfigMapKey \<mapsto> ''config'']\<rparr>]\<rparr>"

subsection \<open>The server keeps names\<close>

lemma keyed_meta_key [simp]: "meta_key (keyed nn md) = nn"
  by (simp add: keyed_def meta_key_def namespaced_def)

lemma set_meta_sel [simp]:
  "s_Meta (set_s_meta md x) = md" "pc_Meta (set_pc_meta md c) = md" "pr_Meta (set_pr_meta md r) = md"
  by (simp_all add: set_s_meta_def set_pc_meta_def set_pr_meta_def)

lemma meta_key_updates [simp]:
  "meta_key (md\<lparr>om_ResourceVersion := v\<rparr>) = meta_key md"
  "meta_key (md\<lparr>om_DeletionTimestamp := d\<rparr>) = meta_key md"
  "meta_key (md\<lparr>om_Finalizers := fs\<rparr>) = meta_key md"
  by (simp_all add: meta_key_def)

lemma cluster_serves_by_name: "serves_by_name cluster_kube"
  by (auto simp: serves_by_name_def cluster_kube_def api_get_def api_update_def api_create_def
      with_claims_def with_references_def Let_def split: option.splits if_splits)

end
