(* ===== verification/History.thy ===== *)
theory History
  imports Cluster
begin

text \<open>
  What a run saw and wrote of the two custom resources.  \<^verbatim>\<open>Trace\<close> records that a call was made and
  whether it failed; here the answers are kept, so that a run can be placed in the middle of what
  others do to the same objects: the recorded observations of a run are all that the API server
  and the other parties learn of it.  Calls for secrets, for the configuration, to Google Cloud and
  to the environment are not recorded.
\<close>

datatype observation =
    SawClaim NamespacedName "err + ProjectClaim"
  | SawReference NamespacedName "err + ProjectReference"
  | CreatedReference ProjectReference "err option \<times> ProjectReference"
  | DeletedReference ProjectReference "err option"
  | UpdatedClaim ProjectClaim "err option \<times> ProjectClaim"
  | UpdatedReference ProjectReference "err option \<times> ProjectReference"
  | WroteClaimStatus ProjectClaim "err option \<times> ProjectClaim"
  | WroteReferenceStatus ProjectReference "err option \<times> ProjectReference"

subsection \<open>Recording clients\<close>

definition observed :: "('a \<Rightarrow> observation) \<Rightarrow> ('w, 'a) effect \<Rightarrow> ('w \<times> observation list, 'a) effect" where
  "observed f g wl = (case g (fst wl) of (a, w') \<Rightarrow> (a, (w', snd wl @ [f a])))"

definition observing_kube :: "'w kube_client \<Rightarrow> ('w \<times> observation list) kube_client" where
  "observing_kube K =
     \<lparr>k_GetProjectClaim = (\<lambda>nn. observed (SawClaim nn) (k_GetProjectClaim K nn)),
      k_GetProjectReference = (\<lambda>nn. observed (SawReference nn) (k_GetProjectReference K nn)),
      k_GetSecret = (\<lambda>nn. untraced (k_GetSecret K nn)),
      k_GetConfigMap = (\<lambda>nn. untraced (k_GetConfigMap K nn)),
      k_CreateProjectReference = (\<lambda>x. observed (CreatedReference x) (k_CreateProjectReference K x)),
      k_CreateSecret = (\<lambda>x. untraced (k_CreateSecret K x)),
      k_UpdateProjectClaim = (\<lambda>x. observed (UpdatedClaim x) (k_UpdateProjectClaim K x)),
      k_UpdateProjectReference = (\<lambda>x. observed (UpdatedReference x) (k_UpdateProjectReference K x)),
      k_UpdateSecret = (\<lambda>x. untraced (k_UpdateSecret K x)),
      k_StatusUpdateProjectClaim = (\<lambda>x. observed (WroteClaimStatus x) (k_StatusUpdateProjectClaim K x)),
      k_StatusUpdateProjectReference =
        (\<lambda>x. observed (WroteReferenceStatus x) (k_StatusUpdateProjectReference K x)),
      k_DeleteProjectReference = (\<lambda>x. observed (DeletedReference x) (k_DeleteProjectReference K x)),
      k_DeleteSecret = (\<lambda>x. untraced (k_DeleteSecret K x))\<rparr>"

definition untraced_gcp :: "'w gcp_client \<Rightarrow> ('w \<times> 'l) gcp_client" where
  "untraced_gcp G =
     \<lparr>g_GetServiceAccount = (\<lambda>n. untraced (g_GetServiceAccount G n)),
      g_CreateServiceAccount = (\<lambda>n d. untraced (g_CreateServiceAccount G n d)),
      g_DeleteServiceAccount = (\<lambda>e. untraced (g_DeleteServiceAccount G e)),
      g_CreateServiceAccountKey = (\<lambda>e. untraced (g_CreateServiceAccountKey G e)),
      g_DeleteServiceAccountKeys = (\<lambda>e. untraced (g_DeleteServiceAccountKeys G e)),
      g_GetIamPolicy = (\<lambda>p. untraced (g_GetIamPolicy G p)),
      g_SetIamPolicy = (\<lambda>p. untraced (g_SetIamPolicy G p)),
      g_ListProjects = untraced (g_ListProjects G),
      g_CreateProject = (\<lambda>f n. untraced (g_CreateProject G f n)),
      g_CreateProjectLabels = (\<lambda>p l. untraced (g_CreateProjectLabels G p l)),
      g_DeleteProject = (\<lambda>p. untraced (g_DeleteProject G p)),
      g_GetProject = (\<lambda>p. untraced (g_GetProject G p)),
      g_EnableAPI = (\<lambda>p a. untraced (g_EnableAPI G p a)),
      g_ListAPIs = (\<lambda>p. untraced (g_ListAPIs G p)),
      g_CreateCloudBillingAccount = (\<lambda>p b. untraced (g_CreateCloudBillingAccount G p b)),
      g_ListAvailabilityZones = (\<lambda>p z. untraced (g_ListAvailabilityZones G p z))\<rparr>"

definition observing_reconciler ::
  "'w ProjectReferenceReconciler \<Rightarrow> ('w \<times> observation list) ProjectReferenceReconciler" where
  "observing_reconciler rec =
     \<lparr>prr_Client = observing_kube (prr_Client rec),
      prr_GcpClientBuilder = (\<lambda>project auth wl.
        (case prr_GcpClientBuilder rec project auth (fst wl) of
           (Inl e, w) \<Rightarrow> (Inl e, (w, snd wl))
         | (Inr gcp, w) \<Rightarrow> (Inr (untraced_gcp gcp), (w, snd wl)))),
      prr_env = traced_env (prr_env rec)\<rparr>"

lemma snd_snd_observed [simp]: "snd (snd (observed f g wl)) = snd wl @ [f (fst (observed f g wl))]"
  by (simp add: observed_def split: prod.splits)

text \<open>The observations of one whole \<^verbatim>\<open>Reconcile\<close>, of either controller, started in the world \<^verbatim>\<open>w\<close>.\<close>

definition claim_history :: "'w kube_client \<Rightarrow> 'w environment \<Rightarrow> NamespacedName \<Rightarrow> 'w \<Rightarrow> observation list" where
  "claim_history K env nn w = snd (snd (claim_Reconcile (observing_kube K) (traced_env env) nn (w, [])))"

definition reference_history ::
  "'w ProjectReferenceReconciler \<Rightarrow> NamespacedName \<Rightarrow> 'w \<Rightarrow> observation list" where
  "reference_history rec nn w = snd (snd (reference_Reconcile (observing_reconciler rec) nn (w, [])))"

subsection \<open>Clients whose observations can be read off the world\<close>

locale observed_client =
  fixes K :: "'w kube_client" and env :: "'w environment" and hist :: "'w \<Rightarrow> observation list"
  assumes saw_claim: "hist (snd (k_GetProjectClaim K nn w)) =
      hist w @ [SawClaim nn (fst (k_GetProjectClaim K nn w))]"
    and saw_reference: "hist (snd (k_GetProjectReference K nn w)) =
      hist w @ [SawReference nn (fst (k_GetProjectReference K nn w))]"
    and created_reference: "hist (snd (k_CreateProjectReference K r w)) =
      hist w @ [CreatedReference r (fst (k_CreateProjectReference K r w))]"
    and deleted_reference: "hist (snd (k_DeleteProjectReference K r w)) =
      hist w @ [DeletedReference r (fst (k_DeleteProjectReference K r w))]"
    and updated_claim: "hist (snd (k_UpdateProjectClaim K x w)) =
      hist w @ [UpdatedClaim x (fst (k_UpdateProjectClaim K x w))]"
    and updated_reference: "hist (snd (k_UpdateProjectReference K r w)) =
      hist w @ [UpdatedReference r (fst (k_UpdateProjectReference K r w))]"
    and wrote_claim: "hist (snd (k_StatusUpdateProjectClaim K x w)) =
      hist w @ [WroteClaimStatus x (fst (k_StatusUpdateProjectClaim K x w))]"
    and wrote_reference: "hist (snd (k_StatusUpdateProjectReference K r w)) =
      hist w @ [WroteReferenceStatus r (fst (k_StatusUpdateProjectReference K r w))]"
    and unseen [simp]:
      "hist (snd (k_GetSecret K nn w)) = hist w"
      "hist (snd (k_GetConfigMap K nn w)) = hist w"
      "hist (snd (k_CreateSecret K sec w)) = hist w"
      "hist (snd (k_UpdateSecret K sec w)) = hist w"
      "hist (snd (k_DeleteSecret K sec w)) = hist w"
    and unseen_env [simp]:
      "hist (snd (env_Now env w)) = hist w"
      "hist (env_Sleep env d w) = hist w"
      "hist (snd (env_MapOrder env w)) = hist w"
      "hist (snd (env_NewUUID env w)) = hist w"
      "hist (snd (env_RandString env n w)) = hist w"
      "hist (snd (env_NextBackOff env w)) = hist w"
begin

lemmas all_observed = saw_claim saw_reference created_reference deleted_reference updated_claim
  updated_reference wrote_claim wrote_reference

text \<open>The same facts for a call whose answer has been named.\<close>

lemma answers [dest]:
  "k_GetProjectClaim K nn w = (a, w') \<Longrightarrow> hist w' = hist w @ [SawClaim nn a]"
  "k_GetProjectReference K nn w = (b, w') \<Longrightarrow> hist w' = hist w @ [SawReference nn b]"
  "k_CreateProjectReference K r w = (c, w') \<Longrightarrow> hist w' = hist w @ [CreatedReference r c]"
  "k_DeleteProjectReference K r w = (e, w') \<Longrightarrow> hist w' = hist w @ [DeletedReference r e]"
  "k_UpdateProjectClaim K x w = (d, w') \<Longrightarrow> hist w' = hist w @ [UpdatedClaim x d]"
  "k_UpdateProjectReference K r w = (c, w') \<Longrightarrow> hist w' = hist w @ [UpdatedReference r c]"
  "k_StatusUpdateProjectClaim K x w = (d, w') \<Longrightarrow> hist w' = hist w @ [WroteClaimStatus x d]"
  "k_StatusUpdateProjectReference K r w = (c, w') \<Longrightarrow> hist w' = hist w @ [WroteReferenceStatus r c]"
  using all_observed by (metis fst_conv snd_conv)+

lemma unseen_answers [dest]:
  "k_GetSecret K nn w = (a, w') \<Longrightarrow> hist w' = hist w"
  "k_GetConfigMap K nn w = (b, w') \<Longrightarrow> hist w' = hist w"
  "k_CreateSecret K sec w = (c, w') \<Longrightarrow> hist w' = hist w"
  "k_UpdateSecret K sec w = (c, w') \<Longrightarrow> hist w' = hist w"
  "k_DeleteSecret K sec w = (e, w') \<Longrightarrow> hist w' = hist w"
  "env_Now env w = (t, w') \<Longrightarrow> hist w' = hist w"
  using unseen unseen_env by (metis snd_conv)+

end

locale observed_cloud = observed_client K env hist
  for K :: "'w kube_client" and env and hist +
  fixes G :: "'w gcp_client"
  assumes unseen_cloud [simp]:
    "hist (snd (g_GetServiceAccount G n w)) = hist w"
    "hist (snd (g_CreateServiceAccount G n d w)) = hist w"
    "hist (snd (g_DeleteServiceAccount G n w)) = hist w"
    "hist (snd (g_CreateServiceAccountKey G n w)) = hist w"
    "hist (snd (g_DeleteServiceAccountKeys G n w)) = hist w"
    "hist (snd (g_GetIamPolicy G n w)) = hist w"
    "hist (snd (g_SetIamPolicy G p w)) = hist w"
    "hist (snd (g_ListProjects G w)) = hist w"
    "hist (snd (g_CreateProject G n d w)) = hist w"
    "hist (snd (g_DeleteProject G n w)) = hist w"
    "hist (snd (g_EnableAPI G n d w)) = hist w"
    "hist (snd (g_ListAPIs G n w)) = hist w"
    "hist (snd (g_CreateCloudBillingAccount G n d w)) = hist w"
    "hist (snd (g_ListAvailabilityZones G n d w)) = hist w"

text \<open>The recording clients are such clients, whatever they record.\<close>

interpretation observing: observed_client "observing_kube K" "traced_env env" snd for K env
  by unfold_locales (simp_all add: observing_kube_def traced_env_def)

interpretation observing_cloud: observed_cloud "observing_kube K" "traced_env env" snd "untraced_gcp G" for K env G
  by unfold_locales (simp_all add: untraced_gcp_def)

subsection \<open>What an API server promises about its answers\<close>

text \<open>
  A read answers with the object asked for.  A write that succeeds answers with an object of the
  name written, an update of a claim with the finalizers written; a write that fails leaves the
  object it was given alone.
\<close>

definition answers_in_kind :: "('o \<Rightarrow> ObjectMeta) \<Rightarrow> ('o \<Rightarrow> 'w \<Rightarrow> (err option \<times> 'o) \<times> 'w) \<Rightarrow> bool" where
  "answers_in_kind meta write \<longleftrightarrow> (\<forall>x w e obj. fst (write x w) = (e, obj) \<longrightarrow>
     (if e = None then meta_key (meta obj) = meta_key (meta x) else obj = x))"

definition proper_answers :: "'w kube_client \<Rightarrow> bool" where
  "proper_answers K \<longleftrightarrow>
     (\<forall>nn w c. fst (k_GetProjectClaim K nn w) = Inr c \<longrightarrow> meta_key (pc_Meta c) = nn) \<and>
     (\<forall>nn w r. fst (k_GetProjectReference K nn w) = Inr r \<longrightarrow> meta_key (pr_Meta r) = nn) \<and>
     answers_in_kind pc_Meta (k_UpdateProjectClaim K) \<and>
     answers_in_kind pc_Meta (k_StatusUpdateProjectClaim K) \<and>
     answers_in_kind pr_Meta (k_UpdateProjectReference K) \<and>
     answers_in_kind pr_Meta (k_StatusUpdateProjectReference K) \<and>
     (\<forall>x w obj. fst (k_UpdateProjectClaim K x w) = (None, obj) \<longrightarrow>
        om_Finalizers (pc_Meta obj) = om_Finalizers (pc_Meta x))"

lemma answers_in_kindD:
  assumes "answers_in_kind meta write" and "write x w = ((e, obj), w')"
  shows "meta_key (meta obj) = meta_key (meta x)" and "e \<noteq> None \<Longrightarrow> obj = x"
  using assms unfolding answers_in_kind_def by (metis (full_types) fst_conv)+

lemma proper_answersD:
  assumes "proper_answers K"
  shows "k_GetProjectClaim K nn w = (Inr c, w') \<Longrightarrow> meta_key (pc_Meta c) = nn"
    and "k_GetProjectReference K nn w = (Inr r, w') \<Longrightarrow> meta_key (pr_Meta r) = nn"
    and "answers_in_kind pc_Meta (k_UpdateProjectClaim K)"
    and "answers_in_kind pc_Meta (k_StatusUpdateProjectClaim K)"
    and "answers_in_kind pr_Meta (k_UpdateProjectReference K)"
    and "answers_in_kind pr_Meta (k_StatusUpdateProjectReference K)"
    and "k_UpdateProjectClaim K x w = ((None, c), w') \<Longrightarrow> om_Finalizers (pc_Meta c) = om_Finalizers (pc_Meta x)"
  using assms unfolding proper_answers_def by (metis fst_conv)+

lemma fst_observed [simp]: "fst (observed f g wl) = fst (g (fst wl))"
  by (simp add: observed_def split: prod.splits)

lemma observing_proper: "proper_answers K \<Longrightarrow> proper_answers (observing_kube K)"
  by (simp add: proper_answers_def answers_in_kind_def observing_kube_def)

lemma keyed_fields [simp]:
  "om_Finalizers (keyed nn md) = om_Finalizers md"
  "om_DeletionTimestamp (keyed nn md) = om_DeletionTimestamp md"
  "om_ResourceVersion (keyed nn md) = om_ResourceVersion md"
  "om_Annotations (keyed nn md) = om_Annotations md"
  by (simp_all add: keyed_def)

lemma cluster_proper: "proper_answers cluster_kube"
  by (auto simp: proper_answers_def answers_in_kind_def cluster_kube_def api_get_def api_update_def
      with_claims_def with_references_def Let_def split: option.splits if_splits)

subsection \<open>Monitors\<close>

text \<open>
  A monitor reads observations one by one and gives up, with \<^verbatim>\<open>None\<close>, at the first one it does
  not allow.
\<close>

fun watch :: "('m \<Rightarrow> observation \<Rightarrow> 'm option) \<Rightarrow> 'm \<Rightarrow> observation list \<Rightarrow> 'm option" where
  "watch f m [] = Some m"
| "watch f m (ob # obs) = (case f m ob of None \<Rightarrow> None | Some m' \<Rightarrow> watch f m' obs)"

lemma watch_append:
  "watch f m (obs @ obs') = (case watch f m obs of None \<Rightarrow> None | Some m' \<Rightarrow> watch f m' obs')"
  by (induction obs arbitrary: m) (auto split: option.splits)

lemma watch_snoc [simp]:
  "watch f m (obs @ [ob]) = (case watch f m obs of None \<Rightarrow> None | Some m' \<Rightarrow> f m' ob)"
  by (auto simp: watch_append split: option.splits)

lemma watch_prefix: "watch f m (obs @ obs') \<noteq> None \<Longrightarrow> watch f m obs \<noteq> None"
  by (auto simp: watch_append split: option.splits)

end
