(* ===== verification/ClaimFacts.thy ===== *)
theory ClaimFacts
  imports ClaimController Trace Cluster
begin

text \<open>
  The ProjectClaim controller: what its operations do to the claim, which calls they make, and
  the properties of its reconciliation that follow.

  The lemmas named \<^verbatim>\<open>_calls\<close> bound the calls of an operation over recording clients: an operation
  emits only events that satisfy \<^verbatim>\<open>P\<close> if the events listed there do.  The lemmas named
  \<^verbatim>\<open>_goes_on\<close> say what is known, and what is unchanged, when an operation lets the handler go on.
\<close>

subsection \<open>Recording the calls of an adapter\<close>

definition traced_claim :: "'w ProjectClaimAdapter \<Rightarrow> 'w traced ProjectClaimAdapter" where
  "traced_claim c = \<lparr>ca_client = traced_kube (ca_client c), ca_conditionManager = ca_conditionManager c,
     ca_env = traced_env (ca_env c)\<rparr>"

lemma traced_claim_sel [simp]:
  "ca_client (traced_claim c) = traced_kube (ca_client c)"
  "ca_conditionManager (traced_claim c) = ca_conditionManager c"
  "ca_env (traced_claim c) = traced_env (ca_env c)"
  by (simp_all add: traced_claim_def)

definition claim_emits :: "(event \<Rightarrow> bool) \<Rightarrow> 'w traced claim_state \<Rightarrow> 'a \<times> 'w traced claim_state \<Rightarrow> bool" where
  "claim_emits P s x \<longleftrightarrow> emits P (claim_world s) (claim_world (snd x))"

lemma claim_emits_refl [simp]: "claim_emits P s (r, s)"
  by (simp add: claim_emits_def)

lemmas claim_trace_defs = claim_emits_def emits_def record_call_def untraced_def trace_simps

subsection \<open>Calls\<close>

lemma claim_StatusUpdate_calls:
  assumes "\<And>e. P (CallStatusClaim (projectClaim s), e)"
  shows "claim_emits P s (claim_StatusUpdate (traced_claim c) s)"
  using assms by (auto simp: claim_StatusUpdate_def claim_status_update_def claim_trace_defs
      split: prod.splits option.splits)

lemma ProjectReferenceExists_calls:
  assumes "\<And>e. P (CallGetReference (meta_key (pr_Meta (projectReference s))), e)"
  shows "claim_emits P s (ProjectReferenceExists (traced_claim c) s)"
  using assms by (auto simp: ProjectReferenceExists_def meta_key_def claim_trace_defs
      split: prod.splits sum.splits)

lemma EnsureProjectReferenceExists_calls:
  assumes "\<And>e. P (CallGetReference (meta_key (pr_Meta (projectReference s))), e)"
    and "\<And>e. P (CallCreateReference (projectReference s), e)"
  shows "claim_emits P s (EnsureProjectReferenceExists (traced_claim c) s)"
  using assms by (auto simp: EnsureProjectReferenceExists_def ProjectReferenceExists_def meta_key_def
      claim_trace_defs split: prod.splits sum.splits)

lemma EnsureProjectReferenceLink_calls:
  assumes "\<And>x e. pc_Meta x = pc_Meta (projectClaim s) \<Longrightarrow> P (CallUpdateClaim x, e)"
  shows "claim_emits P s (EnsureProjectReferenceLink (traced_claim c) s)"
  using assms by (auto simp: EnsureProjectReferenceLink_def claim_update_def Let_def claim_trace_defs
      split: prod.splits option.splits)

lemma EnsureProjectClaimValidated_calls:
  assumes "\<And>e. ProjectClaim_Validate (projectClaim s) \<noteq> None \<Longrightarrow>
             P (CallStatusClaim (set_claim_state ClaimStatusError (projectClaim s)), e)"
  shows "claim_emits P s (EnsureProjectClaimValidated (traced_claim c) s)"
  using assms by (auto simp: EnsureProjectClaimValidated_def claim_StatusUpdate_def
      claim_status_update_def claim_trace_defs split: prod.splits option.splits)

lemma EnsureProjectClaimInitialized_calls:
  assumes "\<And>e. P (CallStatusClaim (set_claim_conditions (Some []) (projectClaim s)), e)"
  shows "claim_emits P s (EnsureProjectClaimInitialized (traced_claim c) s)"
  using assms by (auto simp: EnsureProjectClaimInitialized_def
      claim_status_update_def claim_trace_defs split: prod.splits option.splits)

definition with_finalizer :: "ProjectClaim \<Rightarrow> ProjectClaim" where
  "with_finalizer c = c\<lparr>pc_Meta := (pc_Meta c)\<lparr>om_Finalizers :=
     om_Finalizers (pc_Meta c) @ [ProjectClaimFinalizer]\<rparr>\<rparr>"

lemma EnsureFinalizer_calls:
  assumes "\<And>e. P (CallUpdateClaim (with_finalizer (projectClaim s)), e)"
  shows "claim_emits P s (EnsureFinalizer (traced_claim c) s)"
  using assms by (auto simp: EnsureFinalizer_def addFinalizer_def claim_accessor_def with_finalizer_def
      Let_def claim_trace_defs split: prod.splits)

text \<open>The secret of a customer's project: read, and written back with or without a finalizer.\<close>

lemma getCCSSecret_calls:
  assumes "\<And>e. P (CallGetSecret (pcs_CCSSecretRef (pc_Spec (projectClaim s))), e)"
  shows "claim_emits P s (getCCSSecret (traced_claim c) s)"
  using assms by (auto simp: getCCSSecret_def claim_trace_defs split: prod.splits sum.splits)

lemma EnsureCCSSecretFinalizer_calls:
  assumes "\<And>e. pcs_CCS (pc_Spec (projectClaim s)) \<Longrightarrow>
             P (CallGetSecret (pcs_CCSSecretRef (pc_Spec (projectClaim s))), e)"
    and "\<And>x e stored w w'. pcs_CCS (pc_Spec (projectClaim s)) \<Longrightarrow>
             k_GetSecret (ca_client c) (pcs_CCSSecretRef (pc_Spec (projectClaim s))) w = (Inr stored, w') \<Longrightarrow>
             meta_key (s_Meta x) = meta_key (s_Meta stored) \<Longrightarrow> P (CallUpdateSecret x, e)"
  shows "claim_emits P s (EnsureCCSSecretFinalizer (traced_claim c) s)"
  using assms(1) by (auto simp: EnsureCCSSecretFinalizer_def getCCSSecret_def addFinalizer_def
      secret_accessor_def meta_key_def Let_def claim_trace_defs
      split: prod.splits sum.splits if_splits intro!: assms(2))

lemma EnsureCCSSecretFinalizerDeleted_calls:
  assumes "\<And>e. pcs_CCS (pc_Spec (projectClaim s)) \<Longrightarrow>
             P (CallGetSecret (pcs_CCSSecretRef (pc_Spec (projectClaim s))), e)"
    and "\<And>x e stored w w'. pcs_CCS (pc_Spec (projectClaim s)) \<Longrightarrow>
             k_GetSecret (ca_client c) (pcs_CCSSecretRef (pc_Spec (projectClaim s))) w = (Inr stored, w') \<Longrightarrow>
             meta_key (s_Meta x) = meta_key (s_Meta stored) \<Longrightarrow> P (CallUpdateSecret x, e)"
  shows "claim_emits P s (EnsureCCSSecretFinalizerDeleted (traced_claim c) s)"
  using assms(1) by (auto simp: EnsureCCSSecretFinalizerDeleted_def getCCSSecret_def deleteFinalizer_def
      secret_accessor_def meta_key_def Let_def claim_trace_defs
      split: prod.splits sum.splits if_splits intro!: assms(2))


lemma EnsureProjectClaimState_calls:
  assumes "\<And>e. pc_State (projectClaim s) \<noteq> state \<Longrightarrow>
             (state = ClaimStatusPending \<longrightarrow> pc_State (projectClaim s) \<in> {ClaimStatusError, ''''}) \<Longrightarrow>
             (state = ClaimStatusPendingProject \<longrightarrow> pc_State (projectClaim s) = ClaimStatusPending) \<Longrightarrow>
             P (CallStatusClaim (set_claim_state state (projectClaim s)), e)"
  shows "claim_emits P s (EnsureProjectClaimState (traced_claim c) state s)"
  using assms by (auto simp: EnsureProjectClaimState_def claim_StatusUpdate_def claim_status_update_def
      Let_def claim_trace_defs split: prod.splits option.splits)

text \<open>
  A status write of the region check: the state is kept, or it is Error (the region is
  disabled), or it was Error and is Pending.
\<close>

lemma SetProjectClaimCondition_calls:
  assumes "\<And>x e. pc_State x = pc_State (projectClaim s) \<Longrightarrow> pc_Meta x = pc_Meta (projectClaim s) \<Longrightarrow>
             pc_Spec x = pc_Spec (projectClaim s) \<Longrightarrow> P (CallStatusClaim x, e)"
  shows "claim_emits P s (SetProjectClaimCondition (traced_claim c) conditionType reason err s)"
  using assms by (auto simp: SetProjectClaimCondition_def claim_set_condition_def claim_StatusUpdate_def
      claim_status_update_def Let_def claim_trace_defs split: prod.splits option.splits)

definition region_states :: "string \<Rightarrow> string set" where
  "region_states st =
     {ClaimStatusError, if st = ClaimStatusError then ClaimStatusPending else st}"

lemma GetOperatorConfigMap_log:
  "snd (snd (GetOperatorConfigMap (traced_env env) (traced_kube K) wl)) =
     snd wl @ [(CallGetConfigMap (namespaced OperatorConfigMapNamespace OperatorConfigMapName),
       sum_err (fst (k_GetConfigMap K (namespaced OperatorConfigMapNamespace OperatorConfigMapName) (fst wl))))]"
  by (auto simp: GetOperatorConfigMap_def claim_trace_defs split: prod.splits sum.splits option.splits)

lemma IsRegionSupported_calls:
  assumes "\<And>nn e. P (CallGetConfigMap nn, e)"
  shows "claim_emits P s (IsRegionSupported (traced_claim c) s)"
proof -
  have "\<exists>evs. snd (claim_world (snd (IsRegionSupported (traced_claim c) s))) = snd (claim_world s) @ evs
      \<and> list_all P evs"
    using assms GetOperatorConfigMap_log [of "ca_env c" "ca_client c" "claim_world s"]
    by (auto simp: IsRegionSupported_def split: prod.splits sum.splits)
  then show ?thesis by (simp add: claim_emits_def emits_def)
qed

text \<open>Two operations in a row.\<close>

lemma claim_emits_bind:
  "claim_emits P s (r, s') \<Longrightarrow> claim_emits P s' x \<Longrightarrow> claim_emits P s x"
  by (auto simp: claim_emits_def intro: emits_trans)

lemma claim_emits_state: "claim_world s' = claim_world s \<Longrightarrow> claim_emits P s' x \<Longrightarrow> claim_emits P s x"
  by (simp add: claim_emits_def)

lemma IsRegionSupported_claim [simp]:
  "projectClaim (snd (IsRegionSupported c s)) = projectClaim s"
  "projectReference (snd (IsRegionSupported c s)) = projectReference s"
  by (auto simp: IsRegionSupported_def split: prod.splits sum.splits)

lemma EnsureRegionSupported_calls:
  assumes cm: "\<And>nn e. P (CallGetConfigMap nn, e)"
    and st: "\<And>x e. pc_State x \<in> region_states (pc_State (projectClaim s)) \<Longrightarrow>
       pc_Meta x = pc_Meta (projectClaim s) \<Longrightarrow> pc_Spec x = pc_Spec (projectClaim s) \<Longrightarrow>
       P (CallStatusClaim x, e)"
  shows "claim_emits P s (EnsureRegionSupported (traced_claim c) s)"
proof -
  obtain supported e s1 where i: "IsRegionSupported (traced_claim c) s = ((supported, e), s1)"
    by (metis prod.exhaust)
  have s1: "projectClaim s1 = projectClaim s"
    using IsRegionSupported_claim(1) [of "traced_claim c" s] i by simp
  have emits1: "claim_emits P s ((supported, e), s1)"
    using IsRegionSupported_calls [of P s c] cm i by simp
  have cond: "claim_emits P s1 (SetProjectClaimCondition (traced_claim c) t reason err
      (s1\<lparr>projectClaim := x\<rparr>))"
    if "pc_State x \<in> region_states (pc_State (projectClaim s))" "pc_Meta x = pc_Meta (projectClaim s)"
       "pc_Spec x = pc_Spec (projectClaim s)" for x t reason err
    by (rule claim_emits_state [where s' = "s1\<lparr>projectClaim := x\<rparr>"])
      (use that st in \<open>auto intro: SetProjectClaimCondition_calls\<close>)
  show ?thesis
    by (rule claim_emits_bind [OF emits1])
      (use cond [of "projectClaim s1"] in \<open>auto simp: EnsureRegionSupported_def i s1 region_states_def
         intro!: cond SetProjectClaimCondition_calls st\<close>)
qed


subsection \<open>Going on\<close>

text \<open>What is known after an operation that lets the handler go on, for any clients.\<close>

lemma EnsureProjectClaimFakeProcessed_goes_on:
  "goes_on (fst (EnsureProjectClaimFakeProcessed c s)) \<longleftrightarrow> \<not> is_fake (projectClaim s)"
  by (auto simp: EnsureProjectClaimFakeProcessed_def fake_deletion_def fake_creation_def
      split: prod.splits option.splits)

lemma EnsureProjectClaimFakeProcessed_real:
  "\<not> is_fake (projectClaim s) \<Longrightarrow> EnsureProjectClaimFakeProcessed c s = (ContinueProcessing, s)"
  by (simp add: EnsureProjectClaimFakeProcessed_def)

lemma EnsureProjectClaimDeletionProcessed_goes_on:
  "goes_on (fst (EnsureProjectClaimDeletionProcessed c s)) \<longleftrightarrow> \<not> IsProjectClaimDeletion s"
  by (auto simp: EnsureProjectClaimDeletionProcessed_def split: prod.splits)

lemma EnsureProjectClaimDeletionProcessed_alive:
  "\<not> IsProjectClaimDeletion s \<Longrightarrow> EnsureProjectClaimDeletionProcessed c s = (ContinueProcessing, s)"
  by (simp add: EnsureProjectClaimDeletionProcessed_def)

lemma EnsureProjectClaimValidated_goes_on:
  "goes_on (fst (EnsureProjectClaimValidated c s)) \<longleftrightarrow> ProjectClaim_Validate (projectClaim s) = None"
  by (auto simp: EnsureProjectClaimValidated_def split: prod.splits option.splits)

lemma EnsureProjectClaimValidated_valid:
  "ProjectClaim_Validate (projectClaim s) = None \<Longrightarrow>
     EnsureProjectClaimValidated c s = (ContinueProcessing, s)"
  by (simp add: EnsureProjectClaimValidated_def)

lemma EnsureProjectClaimInitialized_goes_on:
  "goes_on (fst (EnsureProjectClaimInitialized c s)) \<longleftrightarrow> pc_Conditions (projectClaim s) \<noteq> None"
  by (auto simp: EnsureProjectClaimInitialized_def split: prod.splits option.splits)

lemma EnsureProjectClaimInitialized_same:
  "goes_on (fst (EnsureProjectClaimInitialized c s)) \<Longrightarrow> snd (EnsureProjectClaimInitialized c s) = s"
  by (auto simp: EnsureProjectClaimInitialized_def split: prod.splits option.splits)

text \<open>The metadata and the specification are as before, the state of the claim is \<^verbatim>\<open>st\<close>.\<close>

definition same_claim :: "string \<Rightarrow> 'w claim_state \<Rightarrow> 'w claim_state \<Rightarrow> bool" where
  "same_claim st s s' \<longleftrightarrow> pc_Meta (projectClaim s') = pc_Meta (projectClaim s) \<and>
     pc_Spec (projectClaim s') = pc_Spec (projectClaim s) \<and> pc_State (projectClaim s') = st"

lemma SetProjectClaimCondition_goes_on:
  assumes "goes_on (fst (SetProjectClaimCondition c t reason err s))"
  shows "same_claim (pc_State (projectClaim s)) s (snd (SetProjectClaimCondition c t reason err s)) \<and>
    projectReference (snd (SetProjectClaimCondition c t reason err s)) = projectReference s"
  using assms by (auto simp: SetProjectClaimCondition_def same_claim_def Let_def
      split: prod.splits option.splits if_splits)

lemma SetProjectClaimCondition_error [simp]:
  "\<not> goes_on (fst (SetProjectClaimCondition c t reason (Some e) s))"
  by (simp add: SetProjectClaimCondition_def split: prod.splits)

lemma EnsureRegionSupported_goes_on:
  assumes "goes_on (fst (EnsureRegionSupported c s))"
  shows "same_claim (if pc_State (projectClaim s) = ClaimStatusError then ClaimStatusPending
      else pc_State (projectClaim s)) s (snd (EnsureRegionSupported c s)) \<and>
    projectReference (snd (EnsureRegionSupported c s)) = projectReference s"
proof -
  obtain supported e s1 where i: "IsRegionSupported c s = ((supported, e), s1)" by (metis prod.exhaust)
  with IsRegionSupported_claim [of c s] have
    "projectClaim s1 = projectClaim s" "projectReference s1 = projectReference s" by simp_all
  with assms i show ?thesis
    by (auto simp: EnsureRegionSupported_def same_claim_def
        dest!: SetProjectClaimCondition_goes_on split: if_splits)
qed

lemma EnsureProjectClaimState_goes_on:
  "goes_on (fst (EnsureProjectClaimState c state s)) \<Longrightarrow> EnsureProjectClaimState c state s = (ContinueProcessing, s)"
  by (auto simp: EnsureProjectClaimState_def Let_def split: prod.splits if_splits)

lemma EnsureProjectClaimStatePending_goes_on:
  "goes_on (fst (EnsureProjectClaimState c ClaimStatusPending s)) \<longleftrightarrow>
     pc_State (projectClaim s) \<noteq> ClaimStatusError \<and> pc_State (projectClaim s) \<noteq> ''''"
  by (auto simp: EnsureProjectClaimState_def Let_def split: prod.splits)

lemma EnsureProjectReferenceExists_goes_on:
  "goes_on (fst (EnsureProjectReferenceExists c s)) \<Longrightarrow>
     projectClaim (snd (EnsureProjectReferenceExists c s)) = projectClaim s"
  by (auto simp: EnsureProjectReferenceExists_def ProjectReferenceExists_def split: prod.splits sum.splits)

lemma EnsureProjectReferenceLink_goes_on:
  "goes_on (fst (EnsureProjectReferenceLink c s)) \<longleftrightarrow>
     pcs_ProjectReferenceCRLink (pc_Spec (projectClaim s)) = meta_key (pr_Meta (projectReference s))"
  by (auto simp: EnsureProjectReferenceLink_def Let_def meta_key_def split: prod.splits option.splits)

lemma EnsureProjectReferenceLink_same:
  "goes_on (fst (EnsureProjectReferenceLink c s)) \<Longrightarrow> snd (EnsureProjectReferenceLink c s) = s"
  by (auto simp: EnsureProjectReferenceLink_def Let_def split: prod.splits option.splits if_splits)

lemma EnsureFinalizer_goes_on:
  "goes_on (fst (EnsureFinalizer c s)) \<longleftrightarrow>
     ProjectClaimFinalizer \<in> set (om_Finalizers (pc_Meta (projectClaim s)))"
  by (auto simp: EnsureFinalizer_def split: prod.splits)

lemma EnsureFinalizer_same:
  "goes_on (fst (EnsureFinalizer c s)) \<Longrightarrow> snd (EnsureFinalizer c s) = s"
  by (auto simp: EnsureFinalizer_def split: prod.splits if_splits)

lemma EnsureCCSSecretFinalizer_claim [simp]:
  "projectClaim (snd (EnsureCCSSecretFinalizer c s)) = projectClaim s"
  by (auto simp: EnsureCCSSecretFinalizer_def getCCSSecret_def split: prod.splits sum.splits)


subsection \<open>The calls of a whole run\<close>

lemma claim_emits_run_Cons:
  assumes "claim_emits P s (f s)"
    and "goes_on (fst (f s)) \<Longrightarrow> claim_emits P (snd (f s)) (run_operations fs (snd (f s)))"
  shows "claim_emits P s (run_operations (f # fs) s)"
  using assms by (auto simp: claim_emits_def intro: emits_trans)

lemma claim_emits_run_Nil: "claim_emits P s (run_operations [] s)"
  by simp

text \<open>
  The persisted state of a claim, as the claim controller writes it: it may stay, become Error
  from anywhere, Pending from nothing or Error, and PendingProject from Pending or Error.
\<close>

inductive claim_step :: "string \<Rightarrow> string \<Rightarrow> bool" where
  stays: "claim_step st st"
| fails: "claim_step st ClaimStatusError"
| starts: "st \<in> {'''', ClaimStatusError} \<Longrightarrow> claim_step st ClaimStatusPending"
| waits: "st \<in> {ClaimStatusPending, ClaimStatusError} \<Longrightarrow> claim_step st ClaimStatusPendingProject"

lemmas claim_step_intros [intro] = claim_step.intros

inductive_cases claim_step_readyE: "claim_step ClaimStatusReady st"

lemma claim_step_region: "st' \<in> region_states st \<Longrightarrow> claim_step st st'"
  by (auto simp: region_states_def split: if_splits)

text \<open>
  The reference of the adapter is the one it was built with, or what the server made of it
  when it was created.
\<close>

definition created_reference :: "'w kube_client \<Rightarrow> ProjectReference \<Rightarrow> ProjectReference \<Rightarrow> bool" where
  "created_reference K r r' \<longleftrightarrow>
     r' = r \<or> (\<exists>w e w'. k_CreateProjectReference K r w = ((e, r'), w'))"

lemma EnsureProjectReferenceExists_reference:
  "created_reference (ca_client c) (projectReference s)
     (projectReference (snd (EnsureProjectReferenceExists (traced_claim c) s)))"
  by (auto simp: EnsureProjectReferenceExists_def ProjectReferenceExists_def created_reference_def
      claim_trace_defs split: prod.splits sum.splits)

text \<open>The guards of the last step: the claim is linked to its reference and has its finalizer.\<close>

definition linked_and_guarded :: "ProjectClaim \<Rightarrow> ProjectReference \<Rightarrow> bool" where
  "linked_and_guarded claim r \<longleftrightarrow>
     pcs_ProjectReferenceCRLink (pc_Spec claim) = meta_key (pr_Meta r) \<and>
     ProjectClaimFinalizer \<in> set (om_Finalizers (pc_Meta claim))"

lemma claim_suffix_calls:
  assumes cm: "\<And>nn e. P (CallGetConfigMap nn, e)"
    and status: "\<And>x e. claim_step (pc_State (projectClaim s)) (pc_State x) \<Longrightarrow>
       (pc_State x = ClaimStatusPendingProject \<Longrightarrow> pc_State (projectClaim s) = ClaimStatusPendingProject) \<Longrightarrow>
       P (CallStatusClaim x, e)"
    and final: "\<And>x e r. pc_State x = ClaimStatusPendingProject \<Longrightarrow>
       claim_step (pc_State (projectClaim s)) (pc_State x) \<Longrightarrow>
       created_reference (ca_client c) (projectReference s) r \<Longrightarrow>
       linked_and_guarded (projectClaim s) r \<Longrightarrow> P (CallStatusClaim x, e)"
    and get_ref: "\<And>e. P (CallGetReference (meta_key (pr_Meta (projectReference s))), e)"
    and create_ref: "\<And>e. P (CallCreateReference (projectReference s), e)"
    and update: "\<And>x e. set (om_Finalizers (pc_Meta (projectClaim s))) \<subseteq> set (om_Finalizers (pc_Meta x)) \<Longrightarrow>
       P (CallUpdateClaim x, e)"
    and get_secret: "\<And>e. pcs_CCS (pc_Spec (projectClaim s)) \<Longrightarrow>
       P (CallGetSecret (pcs_CCSSecretRef (pc_Spec (projectClaim s))), e)"
    and update_secret: "\<And>x e stored w w'. pcs_CCS (pc_Spec (projectClaim s)) \<Longrightarrow>
       k_GetSecret (ca_client c) (pcs_CCSSecretRef (pc_Spec (projectClaim s))) w = (Inr stored, w') \<Longrightarrow>
       meta_key (s_Meta x) = meta_key (s_Meta stored) \<Longrightarrow> P (CallUpdateSecret x, e)"
  shows "claim_emits P s (run_operations (drop 4 (claim_operations (traced_claim c))) s)"
proof -
  let ?c = "traced_claim c"
  let ?st = "if pc_State (projectClaim s) = ClaimStatusError then ClaimStatusPending
             else pc_State (projectClaim s)"
  have last: "claim_emits P s' (EnsureProjectClaimStatePendingProject ?c s')"
    if "same_claim ?st s s'" "created_reference (ca_client c) (projectReference s) r"
       "linked_and_guarded (projectClaim s) r" for s' r
    unfolding EnsureProjectClaimStatePendingProject_def
    by (rule EnsureProjectClaimState_calls)
      (use that in \<open>auto simp: same_claim_def split: if_splits intro!: final [of _ r]\<close>)
  have ccs: "claim_emits P s' (EnsureCCSSecretFinalizer ?c s')" if "same_claim ?st s s'" for s'
    by (rule EnsureCCSSecretFinalizer_calls)
      (use that in \<open>auto simp: same_claim_def intro: get_secret update_secret\<close>)
  have fin: "claim_emits P s' (EnsureFinalizer ?c s')" if "same_claim ?st s s'" for s'
    by (rule EnsureFinalizer_calls)
      (use that in \<open>auto simp: same_claim_def with_finalizer_def intro!: update\<close>)
  have link: "claim_emits P s' (EnsureProjectReferenceLink ?c s')" if "same_claim ?st s s'" for s'
    by (rule EnsureProjectReferenceLink_calls) (use that in \<open>auto simp: same_claim_def intro!: update\<close>)
  have exists: "claim_emits P s' (EnsureProjectReferenceExists ?c s')"
    if "projectReference s' = projectReference s" for s'
    by (rule EnsureProjectReferenceExists_calls) (simp_all add: that get_ref create_ref)
  have pending: "claim_emits P s' (EnsureProjectClaimState ?c ClaimStatusPending s')"
    if "same_claim ?st s s'" for s'
    by (rule EnsureProjectClaimState_calls)
      (use that in \<open>auto simp: same_claim_def split: if_splits intro!: status\<close>)
  have region: "claim_emits P s (EnsureRegionSupported ?c s)"
    by (rule EnsureRegionSupported_calls)
      (auto simp: region_states_def split: if_splits intro: cm intro!: status)
  have tail: "claim_emits P s' (run_operations
      [EnsureProjectReferenceLink ?c, EnsureFinalizer ?c, EnsureCCSSecretFinalizer ?c,
       EnsureProjectClaimStatePendingProject ?c] s')"
    if s': "same_claim ?st s s'" and r: "created_reference (ca_client c) (projectReference s) (projectReference s')"
    for s'
  proof -
    have rest: "claim_emits P s' (run_operations
        [EnsureFinalizer ?c, EnsureCCSSecretFinalizer ?c, EnsureProjectClaimStatePendingProject ?c] s')"
      if "pcs_ProjectReferenceCRLink (pc_Spec (projectClaim s')) = meta_key (pr_Meta (projectReference s'))"
      using s' r that
      by (auto simp: EnsureFinalizer_same EnsureFinalizer_goes_on same_claim_def linked_and_guarded_def
          simp del: run_operations_Cons
          intro!: claim_emits_run_Cons claim_emits_run_Nil fin ccs last)
    show ?thesis
      by (rule claim_emits_run_Cons)
        (simp_all add: link [OF s'] EnsureProjectReferenceLink_same EnsureProjectReferenceLink_goes_on rest
          del: run_operations_Cons)
  qed
  have exists_tail: "claim_emits P s' (run_operations
      [EnsureProjectReferenceExists ?c, EnsureProjectReferenceLink ?c, EnsureFinalizer ?c,
       EnsureCCSSecretFinalizer ?c, EnsureProjectClaimStatePendingProject ?c] s')"
    if "same_claim ?st s s'" "projectReference s' = projectReference s" for s'
    using that EnsureProjectReferenceExists_reference [of c s']
    by - (rule claim_emits_run_Cons, simp add: exists, rule tail,
      simp_all add: same_claim_def EnsureProjectReferenceExists_goes_on)
  show ?thesis
    unfolding claim_operations_def
    by (simp only: drop_Suc_Cons drop_0 numeral_nat eval_nat_numeral)
      (use EnsureRegionSupported_goes_on [of ?c s] in \<open>auto simp: EnsureProjectClaimStatePending_def
        EnsureProjectClaimState_goes_on simp del: run_operations_Cons
        intro!: claim_emits_run_Cons region pending exists_tail\<close>)
qed

lemma EnsureProjectClaimFinalizerDeleted_calls:
  assumes "\<And>x e. P (CallUpdateClaim x, e)"
  shows "claim_emits P s (EnsureProjectClaimFinalizerDeleted (traced_claim c) s)"
  using assms by (auto simp: EnsureProjectClaimFinalizerDeleted_def deleteFinalizer_def Let_def
      claim_trace_defs split: prod.splits)

lemma EnsureCCSSecretFinalizerDeleted_claim:
  "projectClaim (snd (EnsureCCSSecretFinalizerDeleted c s)) = projectClaim s"
  by (auto simp: EnsureCCSSecretFinalizerDeleted_def getCCSSecret_def split: prod.splits sum.splits)

lemma finalize_without_reference_calls:
  assumes "\<And>e. P (CallGetSecret (pcs_CCSSecretRef (pc_Spec (projectClaim s))), e)"
    and "\<And>x e. P (CallUpdateSecret x, e)" and "\<And>x e. P (CallUpdateClaim x, e)"
  shows "claim_emits P s (finalize_without_reference (traced_claim c) s)"
proof -
  obtain e s1 where 1: "EnsureCCSSecretFinalizerDeleted (traced_claim c) s = (e, s1)" by fastforce
  obtain e' s2 where 2: "EnsureProjectClaimFinalizerDeleted (traced_claim c) s1 = (e', s2)" by fastforce
  have "claim_emits P s (e, s1)"
    using EnsureCCSSecretFinalizerDeleted_calls [of s P c] assms(1,2) 1 by simp
  moreover have "claim_emits P s1 (e', s2)"
    using EnsureProjectClaimFinalizerDeleted_calls [of P s1 c] assms(3) 2 by simp
  ultimately show ?thesis
    by (auto simp: finalize_without_reference_def 1 2 claim_emits_def intro: emits_trans
        split: option.splits)
qed

text \<open>
  The shape of a deletion: the reference is looked up first, and unless that answered that it is
  absent, all that can follow is the request to delete it.
\<close>

lemma ProjectReferenceExists_traced:
  "k_GetProjectReference (ca_client c) (meta_key (pr_Meta (projectReference s))) (fst (claim_world s)) = (r, w) \<Longrightarrow>
     ProjectReferenceExists (traced_claim c) s =
       (case r of Inl e \<Rightarrow> if IsNotFound e then Inr False else Inl e | Inr found \<Rightarrow> Inr True,
        s\<lparr>claim_world := (w, snd (claim_world s) @
          [(CallGetReference (meta_key (pr_Meta (projectReference s))), sum_err r)])\<rparr>)"
  by (auto simp: ProjectReferenceExists_def meta_key_def claim_trace_defs split: sum.splits)

lemma FinalizeProjectClaim_traced:
  obtains e s1 where
    "snd (claim_world s1) = snd (claim_world s) @
       [(CallGetReference (meta_key (pr_Meta (projectReference s))), e)]"
    "projectClaim s1 = projectClaim s" "projectReference s1 = projectReference s"
    "(\<exists>e'. e = Some e' \<and> IsNotFound e') \<and>
       FinalizeProjectClaim (traced_claim c) s = finalize_without_reference (traced_claim c) s1 \<or>
     claim_emits (\<lambda>ev. fst ev = CallDeleteReference (projectReference s)) s1
       (FinalizeProjectClaim (traced_claim c) s)"
proof -
  obtain r w where g: "k_GetProjectReference (ca_client c) (meta_key (pr_Meta (projectReference s)))
      (fst (claim_world s)) = (r, w)" by fastforce
  let ?s1 = "s\<lparr>claim_world := (w, snd (claim_world s) @
     [(CallGetReference (meta_key (pr_Meta (projectReference s))), sum_err r)])\<rparr>"
  have "(\<exists>e'. sum_err r = Some e' \<and> IsNotFound e') \<and>
       FinalizeProjectClaim (traced_claim c) s = finalize_without_reference (traced_claim c) ?s1 \<or>
     claim_emits (\<lambda>ev. fst ev = CallDeleteReference (projectReference s)) ?s1
       (FinalizeProjectClaim (traced_claim c) s)"
    by (cases r) (auto simp: FinalizeProjectClaim_def ProjectReferenceExists_traced [OF g] Let_def
        claim_trace_defs split: prod.splits option.splits)
  then show ?thesis by (intro that [of ?s1 "sum_err r"]) simp_all
qed

lemma FinalizeProjectClaim_shape:
  "\<exists>e evs. snd (claim_world (snd (FinalizeProjectClaim (traced_claim c) s))) =
      snd (claim_world s) @ (CallGetReference (meta_key (pr_Meta (projectReference s))), e) # evs \<and>
      ((\<exists>e'. e = Some e' \<and> IsNotFound e') \<or>
       list_all (\<lambda>ev. fst ev = CallDeleteReference (projectReference s)) evs)"
proof -
  obtain e s1 where
    s1: "snd (claim_world s1) = snd (claim_world s) @
       [(CallGetReference (meta_key (pr_Meta (projectReference s))), e)]" and
    "(\<exists>e'. e = Some e' \<and> IsNotFound e') \<and>
       FinalizeProjectClaim (traced_claim c) s = finalize_without_reference (traced_claim c) s1 \<or>
     claim_emits (\<lambda>ev. fst ev = CallDeleteReference (projectReference s)) s1
       (FinalizeProjectClaim (traced_claim c) s)"
    by (rule FinalizeProjectClaim_traced)
  moreover have "claim_emits (\<lambda>ev. True) s1 (finalize_without_reference (traced_claim c) s1)"
    by (rule finalize_without_reference_calls) simp_all
  ultimately show ?thesis by (auto simp: claim_emits_def emits_def)
qed

lemma EnsureProjectClaimDeletionProcessed_calls:
  assumes get_ref: "\<And>e. P (CallGetReference (meta_key (pr_Meta (projectReference s))), e)"
    and delete_ref: "\<And>e. P (CallDeleteReference (projectReference s), e)"
    and get_secret: "\<And>e. P (CallGetSecret (pcs_CCSSecretRef (pc_Spec (projectClaim s))), e)"
    and update_secret: "\<And>x e. P (CallUpdateSecret x, e)"
    and update: "\<And>x e. P (CallUpdateClaim x, e)"
  shows "claim_emits P s (EnsureProjectClaimDeletionProcessed (traced_claim c) s)"
proof -
  obtain e s1 where
    s1: "snd (claim_world s1) = snd (claim_world s) @
       [(CallGetReference (meta_key (pr_Meta (projectReference s))), e)]"
      "projectClaim s1 = projectClaim s" and
    or: "(\<exists>e'. e = Some e' \<and> IsNotFound e') \<and>
       FinalizeProjectClaim (traced_claim c) s = finalize_without_reference (traced_claim c) s1 \<or>
     claim_emits (\<lambda>ev. fst ev = CallDeleteReference (projectReference s)) s1
       (FinalizeProjectClaim (traced_claim c) s)"
    by (rule FinalizeProjectClaim_traced)
  have "claim_emits P s ((), s1)" using s1 get_ref by (simp add: claim_emits_def emits_def)
  moreover have "claim_emits P s1 (finalize_without_reference (traced_claim c) s1)"
    by (rule finalize_without_reference_calls) (simp_all add: s1 get_secret update_secret update)
  moreover have "claim_emits P s1 x"
    if "claim_emits (\<lambda>ev. fst ev = CallDeleteReference (projectReference s)) s1 x"
    for x :: "(ObjectState \<times> err option) \<times> 'a traced claim_state"
    using that delete_ref unfolding claim_emits_def
    by (elim emits_mono) (metis prod.collapse)
  ultimately have "claim_emits P s (FinalizeProjectClaim (traced_claim c) s)"
    using or by (metis claim_emits_bind)
  then show ?thesis
    by (auto simp: EnsureProjectClaimDeletionProcessed_def claim_emits_def split: prod.splits)
qed

subsection \<open>The handler of a claim that is not fake\<close>

definition exits_with :: "outcome \<times> 's \<Rightarrow> (ctrl_Result \<times> err option) \<times> 's" where
  "exits_with x = (handler_result (fst x), snd x)"

lemma snd_exits_with [simp]: "snd (exits_with x) = snd x"
  by (simp add: exits_with_def)

lemma claim_emits_exits_with [simp]: "claim_emits P s (exits_with x) = claim_emits P s x"
  by (simp add: claim_emits_def)

lemma claim_ReconcileHandler_real:
  assumes "\<not> is_fake (projectClaim s)"
  shows "claim_ReconcileHandler c s =
     (if IsProjectClaimDeletion s then exits_with (EnsureProjectClaimDeletionProcessed c s)
      else if ProjectClaim_Validate (projectClaim s) \<noteq> None
      then exits_with (EnsureProjectClaimValidated c s)
      else if pc_Conditions (projectClaim s) = None
      then exits_with (EnsureProjectClaimInitialized c s)
      else run_operations (drop 4 (claim_operations c)) s)"
  using assms by (simp add: claim_ReconcileHandler_def claim_operations_def exits_with_def
      EnsureProjectClaimFakeProcessed_real EnsureProjectClaimDeletionProcessed_goes_on
      EnsureProjectClaimDeletionProcessed_alive EnsureProjectClaimValidated_goes_on
      EnsureProjectClaimValidated_valid EnsureProjectClaimInitialized_goes_on
      EnsureProjectClaimInitialized_same)

lemma claim_ReconcileHandler_fake:
  assumes "is_fake (projectClaim s)"
  shows "claim_ReconcileHandler c s = exits_with (EnsureProjectClaimFakeProcessed c s)"
  using assms by (simp add: claim_ReconcileHandler_def claim_operations_def exits_with_def
      EnsureProjectClaimFakeProcessed_goes_on)

text \<open>The log of a run of the handler that starts with an empty one.\<close>

definition recorded :: "'w claim_state \<Rightarrow> 'w traced claim_state" where
  "recorded s = \<lparr>projectClaim = projectClaim s, projectReference = projectReference s,
     claim_world = (claim_world s, [])\<rparr>"

lemma recorded_sel [simp]:
  "projectClaim (recorded s) = projectClaim s"
  "projectReference (recorded s) = projectReference s"
  "claim_world (recorded s) = (claim_world s, [])"
  "IsProjectClaimDeletion (recorded s) = IsProjectClaimDeletion s"
  by (simp_all add: recorded_def IsProjectClaimDeletion_def)

definition claim_trace :: "'w ProjectClaimAdapter \<Rightarrow> 'w claim_state \<Rightarrow> event list" where
  "claim_trace c s = snd (claim_world (snd (claim_ReconcileHandler (traced_claim c) (recorded s))))"

lemma claim_traceD:
  "claim_emits P (recorded s) (claim_ReconcileHandler (traced_claim c) (recorded s)) \<Longrightarrow>
     ev \<in> set (claim_trace c s) \<Longrightarrow> P ev"
  by (auto simp: claim_emits_def claim_trace_def dest: emits_new_events)

lemma claim_handler_calls:
  fixes s :: "'w traced claim_state"
  assumes real: "\<not> is_fake (projectClaim s)"
    and cm: "\<And>nn e. P (CallGetConfigMap nn, e)"
    and status: "\<And>x e. claim_step (pc_State (projectClaim s)) (pc_State x) \<Longrightarrow>
       (pc_State x = ClaimStatusPendingProject \<Longrightarrow> pc_State (projectClaim s) = ClaimStatusPendingProject) \<Longrightarrow>
       \<not> IsProjectClaimDeletion s \<Longrightarrow> P (CallStatusClaim x, e)"
    and final: "\<And>x e r. pc_State x = ClaimStatusPendingProject \<Longrightarrow>
       claim_step (pc_State (projectClaim s)) (pc_State x) \<Longrightarrow>
       \<not> IsProjectClaimDeletion s \<Longrightarrow> ProjectClaim_Validate (projectClaim s) = None \<Longrightarrow>
       created_reference (ca_client c) (projectReference s) r \<Longrightarrow>
       linked_and_guarded (projectClaim s) r \<Longrightarrow> P (CallStatusClaim x, e)"
    and get_ref: "\<And>e. P (CallGetReference (meta_key (pr_Meta (projectReference s))), e)"
    and create_ref: "\<And>e. \<not> IsProjectClaimDeletion s \<Longrightarrow> P (CallCreateReference (projectReference s), e)"
    and delete_ref: "\<And>e. IsProjectClaimDeletion s \<Longrightarrow> P (CallDeleteReference (projectReference s), e)"
    and update: "\<And>x e. IsProjectClaimDeletion s \<or>
       set (om_Finalizers (pc_Meta (projectClaim s))) \<subseteq> set (om_Finalizers (pc_Meta x)) \<Longrightarrow>
       P (CallUpdateClaim x, e)"
    and get_secret: "\<And>e. (\<not> IsProjectClaimDeletion s \<Longrightarrow> pcs_CCS (pc_Spec (projectClaim s)) \<and>
         ProjectClaim_Validate (projectClaim s) = None) \<Longrightarrow>
       P (CallGetSecret (pcs_CCSSecretRef (pc_Spec (projectClaim s))), e)"
    and update_secret: "\<And>x e stored w w'. IsProjectClaimDeletion s \<or>
       (pcs_CCS (pc_Spec (projectClaim s)) \<and> ProjectClaim_Validate (projectClaim s) = None \<and>
        k_GetSecret (ca_client c) (pcs_CCSSecretRef (pc_Spec (projectClaim s))) w = (Inr stored, w') \<and>
        meta_key (s_Meta x) = meta_key (s_Meta stored)) \<Longrightarrow> P (CallUpdateSecret x, e)"
  shows "claim_emits P s (claim_ReconcileHandler (traced_claim c) s)"
proof -
  have deletion: "claim_emits P s (EnsureProjectClaimDeletionProcessed (traced_claim c) s)"
    if "IsProjectClaimDeletion s"
    by (rule EnsureProjectClaimDeletionProcessed_calls)
      (use that get_ref delete_ref get_secret update_secret update in auto)
  have invalid: "claim_emits P s (EnsureProjectClaimValidated (traced_claim c) s)"
    if "\<not> IsProjectClaimDeletion s"
    by (rule EnsureProjectClaimValidated_calls) (use that in \<open>auto intro!: status\<close>)
  have init: "claim_emits P s (EnsureProjectClaimInitialized (traced_claim c) s)"
    if "\<not> IsProjectClaimDeletion s"
    by (rule EnsureProjectClaimInitialized_calls) (use that in \<open>auto intro!: status\<close>)
  have suffix: "claim_emits P s (run_operations (drop 4 (claim_operations (traced_claim c))) s)"
    if "\<not> IsProjectClaimDeletion s" "ProjectClaim_Validate (projectClaim s) = None"
    by (rule claim_suffix_calls)
      (use that in \<open>auto intro: cm status final get_ref create_ref update get_secret update_secret\<close>)
  show ?thesis
    by (simp add: claim_ReconcileHandler_real [OF real] deletion invalid init suffix)
qed


subsection \<open>The calls of a fake claim\<close>

lemma CreateFakeSecret_calls:
  assumes "\<And>e. P (CallGetSecret (claim_credential_secret (projectClaim s)), e)"
    and "\<And>x e. meta_key (s_Meta x) = claim_credential_secret (projectClaim s) \<Longrightarrow> P (CallCreateSecret x, e)"
  shows "claim_emits P s (CreateFakeSecret (traced_claim c) s)"
  using assms by (auto simp: CreateFakeSecret_def SecretExists_def NewGCPSecretCR_def meta_key_def Let_def
      claim_trace_defs split: prod.splits sum.splits bool.splits)

lemma CreateFakeSecret_claim [simp]: "projectClaim (snd (CreateFakeSecret c s)) = projectClaim s"
  by (auto simp: CreateFakeSecret_def Let_def split: prod.splits sum.splits bool.splits)

lemma UpdateFakeProjectClaimSpecs_calls:
  assumes "\<And>x e. P (CallUpdateClaim x, e)"
  shows "claim_emits P s (UpdateFakeProjectClaimSpecs (traced_claim c) s)"
  using assms by (auto simp: UpdateFakeProjectClaimSpecs_def claim_update_def claim_trace_defs
      split: prod.splits option.splits)

lemma UpdateFakeProjectClaimState_calls:
  assumes "\<And>x e. P (CallStatusClaim x, e)"
  shows "claim_emits P s (UpdateFakeProjectClaimState (traced_claim c) s)"
  using assms by (auto simp: UpdateFakeProjectClaimState_def claim_status_update_def claim_trace_defs
      split: prod.splits option.splits)

lemma fake_creation_calls:
  assumes secret: "\<And>e. P (CallGetSecret (claim_credential_secret (projectClaim s)), e)"
      "\<And>x e. meta_key (s_Meta x) = claim_credential_secret (projectClaim s) \<Longrightarrow> P (CallCreateSecret x, e)"
    and claim: "\<And>x e. P (CallUpdateClaim x, e)" "\<And>x e. P (CallStatusClaim x, e)"
  shows "claim_emits P s (fake_creation (traced_claim c) s)"
proof -
  obtain e1 s1 where 1: "CreateFakeSecret (traced_claim c) s = (e1, s1)" by fastforce
  obtain u2 e2 s2 where 2: "UpdateFakeProjectClaimSpecs (traced_claim c) s1 = ((u2, e2), s2)"
    by (metis prod.exhaust)
  obtain u3 e3 s3 where 3: "UpdateFakeProjectClaimState (traced_claim c) s2 = ((u3, e3), s3)"
    by (metis prod.exhaust)
  have "claim_emits P s (e1, s1)" using CreateFakeSecret_calls [of P s c] secret 1 by simp
  moreover have "claim_emits P s1 ((u2, e2), s2)"
    using UpdateFakeProjectClaimSpecs_calls [of P s1 c] claim 2 by simp
  moreover have "claim_emits P s2 ((u3, e3), s3)"
    using UpdateFakeProjectClaimState_calls [of P s2 c] claim 3 by simp
  ultimately show ?thesis
    by (auto simp: fake_creation_def 1 2 3 claim_emits_def intro: emits_trans split: option.splits)
qed

definition stays_in :: "string \<Rightarrow> event \<Rightarrow> bool" where
  "stays_in ns ev \<longleftrightarrow> (case secret_of (fst ev) of None \<Rightarrow> True | Some nn \<Rightarrow> own_namespace ns nn)"

lemma stays_in_simps [simp]:
  "stays_in ns (CallGetConfigMap nn, e)" "stays_in ns (CallStatusClaim x, e)"
  "stays_in ns (CallUpdateClaim x, e)" "stays_in ns (CallGetReference nn, e)"
  "stays_in ns (CallCreateReference r, e)" "stays_in ns (CallDeleteReference r, e)"
  "stays_in ns (CallGetSecret nn, e) \<longleftrightarrow> own_namespace ns nn"
  "stays_in ns (CallCreateSecret y, e) \<longleftrightarrow> own_namespace ns (meta_key (s_Meta y))"
  "stays_in ns (CallUpdateSecret y, e) \<longleftrightarrow> own_namespace ns (meta_key (s_Meta y))"
  by (simp_all add: stays_in_def)

text \<open>The finalizer of a fake claim is seen to first: over recording clients the claim is as without them.\<close>

lemma EnsureFinalizer_recorded:
  "EnsureFinalizer (traced_claim c) (recorded s) = ((r, e), s') \<Longrightarrow>
     \<exists>s1. EnsureFinalizer c s = ((r, e), s1) \<and> projectClaim s1 = projectClaim s'"
  by (auto simp: EnsureFinalizer_def addFinalizer_def claim_accessor_def Let_def claim_trace_defs recorded_def
      split: prod.splits if_splits)

lemma fake_stays_in_namespace:
  assumes "\<And>r s'. EnsureFinalizer (traced_claim c) s = ((r, None), s') \<Longrightarrow>
      pc_Namespace (projectClaim s') = ns \<and> \<not> IsProjectClaimDeletion s'"
  shows "claim_emits (stays_in ns) s (EnsureProjectClaimFakeProcessed (traced_claim c) s)"
proof -
  obtain r e s1 where f: "EnsureFinalizer (traced_claim c) s = ((r, e), s1)" by (metis prod.exhaust)
  have first: "claim_emits (stays_in ns) s ((r, e), s1)"
    using EnsureFinalizer_calls [of "stays_in ns" s c] f by simp
  show ?thesis
  proof (cases e)
    case (Some err)
    with f first show ?thesis by (simp add: EnsureProjectClaimFakeProcessed_def claim_emits_def)
  next
    case None
    with assms f have s1: "pc_Namespace (projectClaim s1) = ns" "\<not> IsProjectClaimDeletion s1" by simp_all
    have "claim_emits (stays_in ns) s1 (fake_creation (traced_claim c) s1)"
      if "ProjectClaim_Validate (projectClaim s1) = None"
      using that s1(1) by (intro fake_creation_calls)
        (auto simp: ProjectClaim_Validate_None claim_credential_secret_def)
    moreover have "claim_emits (stays_in ns) s1 (claim_StatusUpdate (traced_claim c)
        (s1\<lparr>projectClaim := set_claim_state ClaimStatusError (projectClaim s1)\<rparr>))"
      using claim_StatusUpdate_calls [of "stays_in ns"
          "s1\<lparr>projectClaim := set_claim_state ClaimStatusError (projectClaim s1)\<rparr>" c]
      by (simp add: claim_emits_def)
    ultimately have "claim_emits (stays_in ns) s1
        (EnsureProjectClaimFakeProcessed (traced_claim c) s)" if "is_fake (projectClaim s)"
      using that s1(2) None
      by (auto simp: EnsureProjectClaimFakeProcessed_def f IsProjectClaimDeletion_def
          claim_emits_def split: prod.splits option.splits)
    with first show ?thesis
      by (cases "is_fake (projectClaim s)") (auto simp: EnsureProjectClaimFakeProcessed_def intro: claim_emits_bind)
  qed
qed

subsection \<open>Properties\<close>

text \<open>Over any clients, every status that the handler writes for a claim that is not fake is one step of the
  graph \<^verbatim>\<open>claim_step\<close> away from the state the claim had.\<close>

lemma claim_handler_states:
  assumes "\<not> is_fake (projectClaim s)"
  shows "list_all (\<lambda>x. claim_step (pc_State (projectClaim s)) (pc_State x))
    (claim_statuses_written (claim_trace c s))"
proof (rule list_all_selected)
  fix call e x
  assume ev: "(call, e) \<in> set (claim_trace c s)" and x: "claim_status_of call = Some x"
  let ?P = "\<lambda>ev. \<forall>x. claim_status_of (fst ev) = Some x \<longrightarrow> claim_step (pc_State (projectClaim s)) (pc_State x)"
  have "claim_emits ?P (recorded s) (claim_ReconcileHandler (traced_claim c) (recorded s))"
    by (rule claim_handler_calls) (use assms in auto)
  from claim_traceD [OF this ev] x show "claim_step (pc_State (projectClaim s)) (pc_State x)" by simp
qed

text \<open>C6: Tenancy.  While a claim is not being deleted, the claim controller reads, creates, updates
  and deletes secrets in the claim's own namespace only (or in none, which the API server
  rejects), whatever the claim refers to and whatever the clients answer, provided the server
  answers a read with the object asked for.  A fake claim first gets its finalizer; the run goes on
  with the server's answer to that update, of which it is assumed that, when the update
  succeeds, the claim is still in its namespace and not marked as deleted.  The first run of a fake
  claim, which creates its secret, is so covered.\<close>

theorem claim_secrets_confined:
  assumes alive: "\<not> IsProjectClaimDeletion s"
    and "serves_by_name (ca_client c)"
    and answer: "\<And>r s1. is_fake (projectClaim s) \<Longrightarrow> EnsureFinalizer c s = ((r, None), s1) \<Longrightarrow>
      pc_Namespace (projectClaim s1) = pc_Namespace (projectClaim s) \<and> \<not> IsProjectClaimDeletion s1"
  shows "list_all (own_namespace (pc_Namespace (projectClaim s))) (secrets_touched (claim_trace c s))"
proof (rule list_all_selected)
  fix call e nn
  assume ev: "(call, e) \<in> set (claim_trace c s)" and nn: "secret_of call = Some nn"
  let ?P = "stays_in (pc_Namespace (projectClaim s))"
  have "claim_emits ?P (recorded s) (claim_ReconcileHandler (traced_claim c) (recorded s))"
  proof (cases "is_fake (projectClaim s)")
    case True
    have "claim_emits ?P (recorded s) (EnsureProjectClaimFakeProcessed (traced_claim c) (recorded s))"
    proof (rule fake_stays_in_namespace)
      fix r s' assume "EnsureFinalizer (traced_claim c) (recorded s) = ((r, None), s')"
      from EnsureFinalizer_recorded [OF this] answer [OF True]
      show "pc_Namespace (projectClaim s') = pc_Namespace (projectClaim s) \<and> \<not> IsProjectClaimDeletion s'"
        by (auto simp: IsProjectClaimDeletion_def)
    qed
    with True show ?thesis by (simp add: claim_ReconcileHandler_fake)
  next
    case False
    then show ?thesis
      by (intro claim_handler_calls)
        (use alive serves_by_nameD(1) [OF assms(2)] in \<open>auto simp: ProjectClaim_Validate_None\<close>)
  qed
  from claim_traceD [OF this ev] nn show "own_namespace (pc_Namespace (projectClaim s)) nn"
    by (simp add: stays_in_def)
qed


definition sample_adapter :: "cluster ProjectClaimAdapter" where
  "sample_adapter = \<lparr>ca_client = cluster_kube, ca_conditionManager = NewConditionManager, ca_env = cluster_env\<rparr>"

definition sample_state :: "cluster claim_state" where
  "sample_state = snd (NewProjectClaimAdapter sample_claim cluster_kube NewConditionManager cluster_env
     sample_cluster)"

lemma sample_adapter_sel [simp]:
  "ca_client sample_adapter = cluster_kube" "ca_conditionManager sample_adapter = NewConditionManager"
  "ca_env sample_adapter = cluster_env"
  by (simp_all add: sample_adapter_def)

lemma sample_state_sel [simp]:
  "projectClaim sample_state = sample_claim"
  "projectReference sample_state = newMatchingProjectReference sample_claim"
  "claim_world sample_state = sample_cluster"
  by (simp_all add: sample_state_def NewProjectClaimAdapter_def)

lemma sample_claim_facts [simp]:
  "\<not> is_fake sample_claim" "\<not> IsProjectClaimDeletion sample_state"
  "pc_State sample_claim = ''''" "pc_Namespace sample_claim = ''team''"
  "ProjectClaim_Validate sample_claim = None"
  by (simp_all add: sample_claim_def is_fake_def IsProjectClaimDeletion_def
      ProjectClaim_Validate_None own_namespace_def)

text \<open>C8: A claim's finalizer outlives its reference.  For a claim that is not fake, the controller
  sends an update without the finalizer only if the very first call of the run asked for the
  claim's ProjectReference and was answered that there is none.\<close>

theorem claim_finalizer_outlives_reference:
  assumes "\<not> is_fake (projectClaim s)"
    and "ProjectClaimFinalizer \<in> set (om_Finalizers (pc_Meta (projectClaim s)))"
  shows "list_all (\<lambda>x. ProjectClaimFinalizer \<in> set (om_Finalizers (pc_Meta x)))
      (claims_updated (claim_trace c s)) \<or>
    (\<exists>e rest. claim_trace c s =
       (CallGetReference (meta_key (pr_Meta (projectReference s))), Some e) # rest \<and> IsNotFound e)"
proof (cases "IsProjectClaimDeletion s")
  case True
  have "claim_trace c s = snd (claim_world (snd (FinalizeProjectClaim (traced_claim c) (recorded s))))"
    using assms(1) True by (simp add: claim_trace_def claim_ReconcileHandler_real
        EnsureProjectClaimDeletionProcessed_def split: prod.splits)
  with FinalizeProjectClaim_shape [of c "recorded s"] obtain e evs where
    tr: "claim_trace c s = (CallGetReference (meta_key (pr_Meta (projectReference s))), e) # evs" and
    or: "(\<exists>e'. e = Some e' \<and> IsNotFound e') \<or>
      list_all (\<lambda>ev. fst ev = CallDeleteReference (projectReference s)) evs" by auto
  have "claims_updated evs = []" if "list_all (\<lambda>ev. fst ev = CallDeleteReference (projectReference s)) evs"
    using that by (induction evs) auto
  with tr or show ?thesis by auto
next
  case False
  let ?P = "\<lambda>ev. \<forall>x. claim_updated_by (fst ev) = Some x \<longrightarrow>
    ProjectClaimFinalizer \<in> set (om_Finalizers (pc_Meta x))"
  have "claim_emits ?P (recorded s) (claim_ReconcileHandler (traced_claim c) (recorded s))"
    by (rule claim_handler_calls) (use assms False in auto)
  then have "list_all (\<lambda>x. ProjectClaimFinalizer \<in> set (om_Finalizers (pc_Meta x)))
      (claims_updated (claim_trace c s))"
    by (intro list_all_selected) (auto dest!: claim_traceD)
  then show ?thesis ..
qed

text \<open>An invalid claim goes nowhere.  For a claim that is neither fake nor being deleted and that
  \<^verbatim>\<open>Validate\<close> rejects, the handler does nothing but write the status Error: if that succeeds it
  stops, if not it hands the error on so that the request is tried again.\<close>

theorem invalid_claim_only_marked:
  assumes "\<not> is_fake (projectClaim s)" and "\<not> IsProjectClaimDeletion s"
    and "ProjectClaim_Validate (projectClaim s) \<noteq> None"
  shows "claim_ReconcileHandler c s =
    (case claim_StatusUpdate c (s\<lparr>projectClaim := set_claim_state ClaimStatusError (projectClaim s)\<rparr>) of
       (None, s') \<Rightarrow> ((empty_Result, None), s')
     | (Some e, s') \<Rightarrow> ((\<lparr>cr_Requeue = False, cr_RequeueAfter = 0\<rparr>, Some e), s'))"
  using assms by (auto simp: claim_ReconcileHandler_real exits_with_def EnsureProjectClaimValidated_def
      handler_result_def split: prod.splits option.splits)

text \<open>C11: A claim waits for its project only when everything is in place: the handler writes
  PendingProject for a claim in another state only if the claim is alive, valid, linked to
  the reference of its name and guarded by its finalizer.\<close>

theorem pending_project_needs_guards:
  assumes "\<not> is_fake (projectClaim s)" and "pc_State (projectClaim s) \<noteq> ClaimStatusPendingProject"
    and "serves_by_name (ca_client c)"
    and "IsProjectClaimDeletion s \<or> ProjectClaim_Validate (projectClaim s) \<noteq> None \<or>
      \<not> linked_and_guarded (projectClaim s) (projectReference s)"
  shows "list_all (\<lambda>x. pc_State x \<noteq> ClaimStatusPendingProject) (claim_statuses_written (claim_trace c s))"
proof (rule list_all_selected)
  fix call e x
  assume ev: "(call, e) \<in> set (claim_trace c s)" and x: "claim_status_of call = Some x"
  let ?P = "\<lambda>ev. \<forall>x. claim_status_of (fst ev) = Some x \<longrightarrow> pc_State x \<noteq> ClaimStatusPendingProject"
  have "linked_and_guarded claim r \<longleftrightarrow> linked_and_guarded claim (projectReference s)"
    if "created_reference (ca_client c) (projectReference s) r" for r claim
    using that serves_by_nameD(3) [OF assms(3)]
    by (auto simp: created_reference_def linked_and_guarded_def)
  then have "claim_emits ?P (recorded s) (claim_ReconcileHandler (traced_claim c) (recorded s))"
    by (intro claim_handler_calls) (use assms in auto)
  from claim_traceD [OF this ev] x show "pc_State x \<noteq> ClaimStatusPendingProject" by simp
qed

text \<open>A condition is resolved once.  After \<^verbatim>\<open>SetProjectClaimCondition\<close> has recorded that a reason
  is resolved, further reports of success leave the claim alone and make no call.\<close>

theorem condition_resolved_once:
  "SetProjectClaimCondition (c\<lparr>ca_conditionManager := NewConditionManager\<rparr>) t reason None
     (claim_set_condition (c\<lparr>ca_conditionManager := NewConditionManager\<rparr>) t ConditionFalse
        (reason @ ''Resolved'') message s) =
   (ContinueProcessing,
    claim_set_condition (c\<lparr>ca_conditionManager := NewConditionManager\<rparr>) t ConditionFalse
        (reason @ ''Resolved'') message s)"
proof -
  obtain now w where now: "env_Now (ca_env c) (claim_world s) = (now, w)" by fastforce
  let ?cs = "cm_SetCondition NewConditionManager now (pc_Conditions (projectClaim s)) t ConditionFalse
    (reason @ ''Resolved'') message"
  obtain i where "cm_FindCondition NewConditionManager ?cs t = (?cs, i, True)"
    and "c_Reason (elems ?cs ! i) = reason @ ''Resolved''"
    using conds.find_after_set [of now "pc_Conditions (projectClaim s)" t ConditionFalse
        "reason @ ''Resolved''" message] by blast
  then show ?thesis
    by (simp add: SetProjectClaimCondition_def claim_set_condition_def now Let_def set_claim_conditions_def)
qed


text \<open>Claims at which the hypotheses hold.\<close>

definition held_claim :: ProjectClaim where
  "held_claim = with_finalizer sample_claim"

definition foreign_claim :: ProjectClaim where
  "foreign_claim = sample_claim\<lparr>pc_Spec := (pc_Spec sample_claim)\<lparr>
     pcs_GCPCredentialSecret := namespaced ''victim'' ''secret'', pcs_CCS := True,
     pcs_CCSSecretRef := namespaced ''victim'' ''secret''\<rparr>\<rparr>"

definition in_state :: "ProjectClaim \<Rightarrow> cluster \<Rightarrow> cluster claim_state" where
  "in_state claim w = sample_state\<lparr>projectClaim := claim, claim_world := w\<rparr>"

lemma in_state_sel [simp]:
  "projectClaim (in_state claim w) = claim"
  "projectReference (in_state claim w) = newMatchingProjectReference sample_claim"
  "claim_world (in_state claim w) = w"
  "IsProjectClaimDeletion (in_state claim w) \<longleftrightarrow> om_DeletionTimestamp (pc_Meta claim) \<noteq> None"
  "(in_state claim w)\<lparr>projectClaim := claim'\<rparr> = in_state claim' w"
  by (simp_all add: in_state_def IsProjectClaimDeletion_def)

lemma held_claim_facts [simp]:
  "\<not> is_fake held_claim" "om_DeletionTimestamp (pc_Meta held_claim) = None"
  "om_Finalizers (pc_Meta held_claim) = [ProjectClaimFinalizer]"
  by (simp_all add: held_claim_def with_finalizer_def sample_claim_def is_fake_def)

lemma foreign_claim_facts [simp]:
  "\<not> is_fake foreign_claim" "om_DeletionTimestamp (pc_Meta foreign_claim) = None"
  "ProjectClaim_Validate foreign_claim \<noteq> None"
  by (simp_all add: foreign_claim_def sample_claim_def is_fake_def ProjectClaim_Validate_def)

lemma fake_key_decodes: "\<exists>plain. b64_DecodeString ''SS1hbS1mYWtlLXBhc3M='' = Inr plain"
  by (simp add: b64_DecodeString_def b64_alphabet_def b64_padding_def b64_end_def b64_newline_def)

text \<open>A fake claim in its first run: it has no finalizer yet, and its secret is made.\<close>

definition new_fake_claim :: ProjectClaim where
  "new_fake_claim = sample_claim\<lparr>pc_Meta := (pc_Meta sample_claim)\<lparr>om_Annotations := [FakeProjectClaim \<mapsto> ''true'']\<rparr>\<rparr>"

definition new_fake_cluster :: cluster where
  "new_fake_cluster = sample_cluster\<lparr>cl_claims := [sample_key \<mapsto> new_fake_claim]\<rparr>"

lemma new_fake_claim_facts [simp]:
  "is_fake new_fake_claim" "om_DeletionTimestamp (pc_Meta new_fake_claim) = None"
  "pc_Namespace new_fake_claim = ''team''"
  by (simp_all add: new_fake_claim_def is_fake_def sample_claim_def new_meta_def)

lemma new_fake_claim_answered:
  assumes "EnsureFinalizer sample_adapter (in_state new_fake_claim new_fake_cluster) = ((r, None), s1)"
  shows "pc_Namespace (projectClaim s1) = ''team'' \<and> \<not> IsProjectClaimDeletion s1"
  using assms
  by (auto simp: EnsureFinalizer_def addFinalizer_def claim_accessor_def sample_adapter_def cluster_kube_def with_claims_def
      api_update_def new_fake_cluster_def sample_cluster_def new_fake_claim_def sample_claim_def sample_key_def meta_key_def
      namespaced_def new_meta_def keyed_def set_pc_meta_def Let_def IsProjectClaimDeletion_def split: prod.splits if_splits)

theorem claim_secrets_confined_witness:
  "list_all (own_namespace ''team'')
     (secrets_touched (claim_trace sample_adapter (in_state new_fake_claim new_fake_cluster))) \<and>
   secrets_touched (claim_trace sample_adapter (in_state new_fake_claim new_fake_cluster)) =
     [namespaced ''team'' ''gcp-secret'', namespaced ''team'' ''gcp-secret'']"
proof
  show "list_all (own_namespace ''team'')
     (secrets_touched (claim_trace sample_adapter (in_state new_fake_claim new_fake_cluster)))"
    using claim_secrets_confined [of "in_state new_fake_claim new_fake_cluster" sample_adapter] new_fake_claim_answered
    by (simp add: cluster_serves_by_name)
  show "secrets_touched (claim_trace sample_adapter (in_state new_fake_claim new_fake_cluster)) =
     [namespaced ''team'' ''gcp-secret'', namespaced ''team'' ''gcp-secret'']"
    using fake_key_decodes
    by (auto simp: claim_trace_def claim_ReconcileHandler_fake EnsureProjectClaimFakeProcessed_def fake_creation_def
        EnsureFinalizer_def addFinalizer_def claim_accessor_def recorded_def traced_claim_def sample_adapter_def
        CreateFakeSecret_def SecretExists_def UpdateFakeProjectClaimSpecs_def claim_update_def claim_credential_secret_def
        trace_simps record_call_def cluster_kube_def with_claims_def with_secrets_def api_update_def api_create_def
        api_get_def bump_def new_fake_cluster_def sample_cluster_def new_fake_claim_def sample_claim_def sample_key_def
        meta_key_def namespaced_def new_meta_def keyed_def set_pc_meta_def set_s_meta_def fake_specs_def NewGCPSecretCR_def
        empty_cluster_def ProjectClaim_Validate_def is_fake_def Let_def operatorNamespace_def orgGcpSecretName_def
        RequeueOnErrorOrStop_def StopProcessing_def)
qed

theorem claim_finalizer_outlives_reference_witness:
  "list_all (\<lambda>x. ProjectClaimFinalizer \<in> set (om_Finalizers (pc_Meta x)))
      (claims_updated (claim_trace sample_adapter (in_state held_claim sample_cluster))) \<or>
    (\<exists>e rest. claim_trace sample_adapter (in_state held_claim sample_cluster) =
       (CallGetReference (meta_key (pr_Meta (newMatchingProjectReference sample_claim))), Some e) # rest
       \<and> IsNotFound e)"
  using claim_finalizer_outlives_reference [of "in_state held_claim sample_cluster" sample_adapter] by simp

theorem invalid_claim_only_marked_witness:
  "claim_ReconcileHandler sample_adapter (in_state foreign_claim sample_cluster) =
    (case claim_StatusUpdate sample_adapter (in_state (set_claim_state ClaimStatusError foreign_claim) sample_cluster) of
       (None, s') \<Rightarrow> ((empty_Result, None), s')
     | (Some e, s') \<Rightarrow> ((\<lparr>cr_Requeue = False, cr_RequeueAfter = 0\<rparr>, Some e), s'))"
  using invalid_claim_only_marked [of "in_state foreign_claim sample_cluster" sample_adapter] by simp

theorem pending_project_needs_guards_witness:
  "list_all (\<lambda>x. pc_State x \<noteq> ClaimStatusPendingProject)
     (claim_statuses_written (claim_trace sample_adapter (in_state foreign_claim sample_cluster)))"
  by (rule pending_project_needs_guards)
    (simp_all add: cluster_serves_by_name foreign_claim_def [unfolded sample_claim_def]
      is_fake_def ProjectClaim_Validate_def)

text \<open>A deleted claim of one tenant that names the secret of another.\<close>

definition deleted_claim :: "bool \<Rightarrow> ProjectClaim" where
  "deleted_claim fake = foreign_claim\<lparr>pc_Meta := (pc_Meta foreign_claim)\<lparr>
     om_Finalizers := [ProjectClaimFinalizer], om_DeletionTimestamp := Some 0,
     om_Annotations := (if fake then [FakeProjectClaim \<mapsto> ''true''] else Map.empty)\<rparr>\<rparr>"

definition victim_key :: NamespacedName where "victim_key = namespaced ''victim'' ''secret''"

definition victim_secret :: Secret where
  "victim_secret = (NewGCPSecretCR ''credentials'' victim_key)\<lparr>s_Meta :=
     (new_meta ''secret'' ''victim'')\<lparr>om_Finalizers := [CCSSecretFinalizer]\<rparr>\<rparr>"

definition victim_cluster :: cluster where
  "victim_cluster = empty_cluster\<lparr>cl_secrets := [victim_key \<mapsto> victim_secret]\<rparr>"

lemma deleted_claim_facts [simp]:
  "is_fake (deleted_claim fake) \<longleftrightarrow> fake"
  "om_DeletionTimestamp (pc_Meta (deleted_claim fake)) = Some 0"
  "om_Finalizers (pc_Meta (deleted_claim fake)) = [ProjectClaimFinalizer]"
  "pcs_CCS (pc_Spec (deleted_claim fake))"
  "pcs_CCSSecretRef (pc_Spec (deleted_claim fake)) = victim_key"
  "pcs_GCPCredentialSecret (pc_Spec (deleted_claim fake)) = victim_key"
  "pc_Namespace (deleted_claim fake) = ''team''"
  "ProjectClaim_Validate (deleted_claim fake) \<noteq> None"
  by (simp_all add: deleted_claim_def foreign_claim_def sample_claim_def is_fake_def victim_key_def
      ProjectClaim_Validate_def)

lemma victim_cluster_answers:
  "k_GetSecret cluster_kube victim_key victim_cluster = (Inr victim_secret, victim_cluster)"
  "k_GetProjectReference cluster_kube nn victim_cluster = (Inl not_found, victim_cluster)"
  "IsNotFound not_found" "om_Finalizers (s_Meta victim_secret) = [CCSSecretFinalizer]"
  by (simp_all add: cluster_kube_def api_get_def victim_cluster_def empty_cluster_def not_found_def
      keyed_def victim_key_def victim_secret_def set_s_meta_def new_meta_def NewGCPSecretCR_def)

text \<open>C37: Deletion is not validated.  A deleted claim that is not fake, whose reference is gone, makes
  the controller read the secret it names as \<^verbatim>\<open>ccsSecretRef\<close>, in any namespace, and take the
  operator's finalizer off it, although \<^verbatim>\<open>Validate\<close> exists to prevent exactly such access.\<close>

theorem deleted_claim_reaches_foreign_secret:
  assumes "\<not> is_fake (projectClaim s)" and "IsProjectClaimDeletion s" and "pcs_CCS (pc_Spec (projectClaim s))"
    and "k_GetProjectReference (ca_client c) (meta_key (pr_Meta (projectReference s))) (claim_world s) = (Inl e, w1)"
    and "IsNotFound e"
    and "k_GetSecret (ca_client c) (pcs_CCSSecretRef (pc_Spec (projectClaim s))) w1 = (Inr secret, w2)"
    and "CCSSecretFinalizer \<in> set (om_Finalizers (s_Meta secret))"
  shows "\<exists>e' rest. claim_trace c s =
    (CallGetReference (meta_key (pr_Meta (projectReference s))), Some e) #
    (CallGetSecret (pcs_CCSSecretRef (pc_Spec (projectClaim s))), None) #
    (CallUpdateSecret (secret\<lparr>s_Meta := (s_Meta secret)\<lparr>om_Finalizers :=
       Filter (om_Finalizers (s_Meta secret)) CCSSecretFinalizer\<rparr>\<rparr>), e') # rest"
proof -
  let ?c = "traced_claim c"
  let ?w1 = "(w1, [(CallGetReference (meta_key (pr_Meta (projectReference s))), Some e)])"
  let ?s1 = "(recorded s)\<lparr>claim_world := ?w1\<rparr>"
  have "ProjectReferenceExists ?c (recorded s) = (Inr False, ?s1)"
    using ProjectReferenceExists_traced [of c "recorded s"] assms(4,5) by simp
  then have fin: "FinalizeProjectClaim ?c (recorded s) = finalize_without_reference ?c ?s1"
    by (simp add: FinalizeProjectClaim_def Let_def)
  obtain e1 s2 where d: "EnsureCCSSecretFinalizerDeleted ?c ?s1 = (e1, s2)" by fastforce
  then have s2: "\<exists>e'. snd (claim_world s2) = snd ?w1 @
      [(CallGetSecret (pcs_CCSSecretRef (pc_Spec (projectClaim s))), None),
       (CallUpdateSecret (secret\<lparr>s_Meta := (s_Meta secret)\<lparr>om_Finalizers :=
          Filter (om_Finalizers (s_Meta secret)) CCSSecretFinalizer\<rparr>\<rparr>), e')]"
    using assms(3,6,7) by (auto simp: EnsureCCSSecretFinalizerDeleted_def getCCSSecret_def deleteFinalizer_def
        secret_accessor_def Let_def claim_trace_defs split: prod.splits)
  have "claim_emits (\<lambda>ev. True) s2 (EnsureProjectClaimFinalizerDeleted ?c s2)"
    by (rule EnsureProjectClaimFinalizerDeleted_calls) simp
  then have "claim_emits (\<lambda>ev. True) s2 (finalize_without_reference ?c ?s1)"
    by (auto simp: finalize_without_reference_def d claim_emits_def split: prod.splits option.splits)
  with s2 show ?thesis
    using assms(1,2) fin
    by (auto simp: claim_trace_def claim_ReconcileHandler_real EnsureProjectClaimDeletionProcessed_def
        claim_emits_def emits_def split: prod.splits)
qed

text \<open>Nor is it for fake claims: when a deleted claim carries the fake annotation, the controller
  deletes the secret the claim names as its credentials, in any namespace.\<close>

theorem deleted_fake_claim_deletes_foreign_secret:
  assumes "is_fake (projectClaim s)" and "IsProjectClaimDeletion s"
    and "ProjectClaimFinalizer \<in> set (om_Finalizers (pc_Meta (projectClaim s)))"
    and "k_GetSecret (ca_client c) (pcs_GCPCredentialSecret (pc_Spec (projectClaim s))) (claim_world s)
      = (Inr secret, w)"
  shows "\<exists>e rest. claim_trace c s =
    (CallGetSecret (pcs_GCPCredentialSecret (pc_Spec (projectClaim s))), None) #
    (CallDeleteSecret secret, e) # rest"
proof -
  let ?c = "traced_claim c"
  have f: "EnsureFinalizer ?c (recorded s) = (ContinueProcessing, recorded s)"
    using assms(3) by (simp add: EnsureFinalizer_def)
  obtain e1 s1 where d: "DeleteFakeSecret ?c (recorded s) = (e1, s1)" by fastforce
  then have s1: "\<exists>e. snd (claim_world s1) =
      [(CallGetSecret (pcs_GCPCredentialSecret (pc_Spec (projectClaim s))), None), (CallDeleteSecret secret, e)]"
    using assms(4) by (auto simp: DeleteFakeSecret_def claim_credential_secret_def Let_def
        claim_trace_defs split: prod.splits)
  have "claim_emits (\<lambda>ev. True) s1 (EnsureProjectClaimDeletionProcessed ?c s1)"
    by (rule EnsureProjectClaimDeletionProcessed_calls) simp_all
  then have "claim_emits (\<lambda>ev. True) s1 (fake_deletion ?c (recorded s))"
    by (auto simp: fake_deletion_def d claim_emits_def split: prod.splits option.splits)
  moreover have "claim_trace c s = snd (claim_world (snd (fake_deletion ?c (recorded s))))"
    using assms(1,2) f by (auto simp: claim_trace_def claim_ReconcileHandler_fake
        EnsureProjectClaimFakeProcessed_def ContinueProcessing_def IsProjectClaimDeletion_def)
  ultimately show ?thesis using s1 by (auto simp: claim_emits_def emits_def)
qed

theorem deleted_claim_reaches_foreign_secret_witness:
  "nn_Namespace victim_key \<noteq> pc_Namespace (deleted_claim False) \<and>
   (\<exists>e' rest. claim_trace sample_adapter (in_state (deleted_claim False) victim_cluster) =
    (CallGetReference (meta_key (pr_Meta (newMatchingProjectReference sample_claim))), Some not_found) #
    (CallGetSecret victim_key, None) #
    (CallUpdateSecret (victim_secret\<lparr>s_Meta := (s_Meta victim_secret)\<lparr>om_Finalizers :=
       Filter (om_Finalizers (s_Meta victim_secret)) CCSSecretFinalizer\<rparr>\<rparr>), e') # rest)"
  using deleted_claim_reaches_foreign_secret [of "in_state (deleted_claim False) victim_cluster" sample_adapter
      not_found victim_cluster victim_secret victim_cluster]
  by (simp add: victim_cluster_answers) (simp add: victim_key_def)

theorem deleted_fake_claim_deletes_foreign_secret_witness:
  "nn_Namespace victim_key \<noteq> pc_Namespace (deleted_claim True) \<and>
   (\<exists>e rest. claim_trace sample_adapter (in_state (deleted_claim True) victim_cluster) =
    (CallGetSecret victim_key, None) # (CallDeleteSecret victim_secret, e) # rest)"
  using deleted_fake_claim_deletes_foreign_secret [of "in_state (deleted_claim True) victim_cluster"
      sample_adapter victim_secret victim_cluster]
  by (simp add: victim_cluster_answers) (simp add: victim_key_def)

subsection \<open>References with the same name\<close>

text \<open>The name of a reference joins namespace and name of its claim with a dash, and that is all that
  tells the references of two claims apart.\<close>

lemma matching_reference_key:
  "meta_key (pr_Meta (newMatchingProjectReference c)) =
     namespaced ProjectReferenceNamespace (pc_Namespace c @ ''-'' @ pc_Name c)"
  by (simp add: newMatchingProjectReference_def meta_key_def new_meta_def Let_def)

text \<open>A reference built in memory is never being deleted, so the finalisation deletes it whenever the
  server has one of its name.\<close>

lemma FinalizeProjectClaim_deletes:
  assumes "projectReference s = newMatchingProjectReference claim"
    and "k_GetProjectReference (ca_client c) (meta_key (pr_Meta (projectReference s))) (fst (claim_world s))
      = (Inr r, w)"
  shows "\<exists>e. snd (claim_world (snd (FinalizeProjectClaim (traced_claim c) s))) = snd (claim_world s) @
    [(CallGetReference (meta_key (pr_Meta (projectReference s))), None),
     (CallDeleteReference (projectReference s), e)]"
  by (auto simp: FinalizeProjectClaim_def ProjectReferenceExists_traced [OF assms(2)]
      IsProjectReferenceDeletion_def newMatchingProjectReference_def new_meta_def assms(1) Let_def
      claim_trace_defs split: prod.splits option.splits)

text \<open>C39: Two claims can share a reference.  Let two claims, of any two tenants, agree in namespace and
  name joined by a dash, and let the server have the reference of the one.  Then the controller takes
  it for the reference of the other too: for a live claim it creates none, and when that claim is
  deleted, it deletes the reference, whoever's it is.\<close>

theorem reference_names_collide:
  assumes "pc_Namespace claim @ ''-'' @ pc_Name claim = pc_Namespace other @ ''-'' @ pc_Name other"
    and "NewProjectClaimAdapter claim client manager env w = (c, s)"
    and "k_GetProjectReference client (meta_key (pr_Meta (newMatchingProjectReference other))) w = (Inr r, w1)"
  shows "EnsureProjectReferenceExists c s = (ContinueProcessing, s\<lparr>claim_world := w1\<rparr>) \<and>
    (\<not> is_fake claim \<and> om_DeletionTimestamp (pc_Meta claim) \<noteq> None \<longrightarrow>
      (\<exists>x e. claim_trace c s =
          [(CallGetReference (meta_key (pr_Meta (newMatchingProjectReference other))), None),
           (CallDeleteReference x, e)] \<and>
        meta_key (pr_Meta x) = meta_key (pr_Meta (newMatchingProjectReference other))))"
proof -
  have key: "meta_key (pr_Meta (newMatchingProjectReference other)) =
      meta_key (pr_Meta (newMatchingProjectReference claim))"
    using assms(1) by (simp add: matching_reference_key)
  have c: "ca_client c = client" and s: "projectClaim s = claim" "claim_world s = w"
    "projectReference s = newMatchingProjectReference claim"
    using assms(2) by (auto simp: NewProjectClaimAdapter_def)
  have "EnsureProjectReferenceExists c s = (ContinueProcessing, s\<lparr>claim_world := w1\<rparr>)"
    using assms(3) by (simp add: EnsureProjectReferenceExists_def ProjectReferenceExists_def
        meta_key_def [symmetric] c s key)
  moreover have "\<exists>e. claim_trace c s = [(CallGetReference (meta_key (pr_Meta (projectReference s))), None),
      (CallDeleteReference (projectReference s), e)]"
    if "\<not> is_fake claim" "om_DeletionTimestamp (pc_Meta claim) \<noteq> None"
    using FinalizeProjectClaim_deletes [of "recorded s" claim c r w1] that assms(3)
    by (auto simp: claim_trace_def claim_ReconcileHandler_real EnsureProjectClaimDeletionProcessed_def
        IsProjectClaimDeletion_def c s key split: prod.splits)
  ultimately show ?thesis using s key by auto
qed

text \<open>Tenant \<^verbatim>\<open>team\<close> deletes its claim \<^verbatim>\<open>a-web\<close>, and the reference of the claim \<^verbatim>\<open>web\<close> of tenant
  \<^verbatim>\<open>team-a\<close> is deleted.\<close>

definition named_claim :: "int option \<Rightarrow> string \<Rightarrow> string \<Rightarrow> ProjectClaim" where
  "named_claim deletion ns name = sample_claim\<lparr>pc_Meta := (new_meta name ns)\<lparr>om_DeletionTimestamp := deletion\<rparr>,
     pc_Spec := (pc_Spec sample_claim)\<lparr>pcs_GCPCredentialSecret := namespaced ns ''gcp-secret''\<rparr>\<rparr>"

definition colliding_cluster :: cluster where
  "colliding_cluster = empty_cluster\<lparr>cl_references :=
     [namespaced ProjectReferenceNamespace ''team-a-web'' \<mapsto>
        newMatchingProjectReference (named_claim None ''team-a'' ''web'')]\<rparr>"

theorem reference_names_collide_witness:
  "ProjectClaim_Validate (named_claim (Some 0) ''team'' ''a-web'') = None \<and>
   ProjectClaim_Validate (named_claim None ''team-a'' ''web'') = None \<and>
   (\<exists>x e. claim_trace sample_adapter
        (snd (NewProjectClaimAdapter (named_claim (Some 0) ''team'' ''a-web'') cluster_kube NewConditionManager cluster_env
          colliding_cluster)) =
      [(CallGetReference (namespaced ProjectReferenceNamespace ''team-a-web''), None), (CallDeleteReference x, e)] \<and>
    meta_key (pr_Meta x) = meta_key (pr_Meta (newMatchingProjectReference (named_claim None ''team-a'' ''web''))))"
proof -
  let ?claim = "named_claim (Some 0) ''team'' ''a-web''" and ?other = "named_claim None ''team-a'' ''web''"
  have valid: "ProjectClaim_Validate (named_claim d ns n) = None" for d ns n
    by (simp add: ProjectClaim_Validate_None own_namespace_def named_claim_def sample_claim_def namespaced_def new_meta_def)
  have real: "\<not> is_fake ?claim" "om_DeletionTimestamp (pc_Meta ?claim) \<noteq> None"
    by (simp_all add: named_claim_def is_fake_def new_meta_def)
  have names: "pc_Namespace (named_claim d ns n) = ns" "pc_Name (named_claim d ns n) = n" for d ns n
    by (simp_all add: named_claim_def new_meta_def)
  have key: "meta_key (pr_Meta (newMatchingProjectReference ?other)) =
      namespaced ProjectReferenceNamespace ''team-a-web''"
    by (simp add: matching_reference_key names)
  have new: "NewProjectClaimAdapter ?claim cluster_kube NewConditionManager cluster_env colliding_cluster =
      (sample_adapter, snd (NewProjectClaimAdapter ?claim cluster_kube NewConditionManager cluster_env colliding_cluster))"
    by (simp add: NewProjectClaimAdapter_def sample_adapter_def)
  have "\<exists>r w1. k_GetProjectReference cluster_kube (meta_key (pr_Meta (newMatchingProjectReference ?other)))
      colliding_cluster = (Inr r, w1)"
    by (simp add: cluster_kube_def api_get_def key colliding_cluster_def empty_cluster_def)
  then obtain r w1 where "k_GetProjectReference cluster_kube
      (meta_key (pr_Meta (newMatchingProjectReference ?other))) colliding_cluster = (Inr r, w1)" by blast
  from reference_names_collide [OF _ new this] show ?thesis
    by (simp add: valid real names key)
qed

end
