(* ===== verification/ClaimProtocol.thy ===== *)
theory ClaimProtocol
  imports History ClaimFacts
begin

text \<open>
  The protocol of the claim controller: what a run may do to claims and references, in terms of
  what it has seen.  \<^verbatim>\<open>claim_rule\<close> is the monitor that decides; the result of this theory is that
  every \<^verbatim>\<open>Reconcile\<close> keeps to it, over any clients, for fake claims too.
\<close>

abbreviation guarded :: "ProjectClaim \<Rightarrow> bool" where
  "guarded c \<equiv> ProjectClaimFinalizer \<in> set (om_Finalizers (pc_Meta c))"

abbreviation claim_deleted :: "ProjectClaim \<Rightarrow> bool" where
  "claim_deleted c \<equiv> om_DeletionTimestamp (pc_Meta c) \<noteq> None"

abbreviation link_of :: "ProjectReference \<Rightarrow> NamespacedName" where
  "link_of r \<equiv> prs_ProjectClaimCRLink (pr_Spec r)"

text \<open>The key of the reference of a claim, and a reference as a run creates it.\<close>

definition ref_key :: "NamespacedName \<Rightarrow> NamespacedName" where
  "ref_key nn = namespaced ProjectReferenceNamespace (nn_Namespace nn @ ''-'' @ nn_Name nn)"

definition blank_reference :: "NamespacedName \<Rightarrow> ProjectReference \<Rightarrow> bool" where
  "blank_reference nn r \<longleftrightarrow> meta_key (pr_Meta r) = ref_key nn \<and> link_of r = nn \<and>
     om_Finalizers (pr_Meta r) = [] \<and> om_DeletionTimestamp (pr_Meta r) = None \<and> pr_State r = ''''"

lemma newMatchingProjectReference_blank:
  "meta_key (pc_Meta c) = nn \<Longrightarrow> blank_reference nn (newMatchingProjectReference c)"
  by (auto simp: blank_reference_def newMatchingProjectReference_def ref_key_def meta_key_def Let_def)

subsection \<open>The monitor\<close>

text \<open>
  A run for the claim \<^verbatim>\<open>nn\<close> has the claim as the server last answered with it, and knows whether its
  last look for the reference found none (and that it has not created one since).  It remembers the
  claim as it was read, and whether it has written a status since.
\<close>

record claim_knowledge =
  ck_claim :: "ProjectClaim option"
  ck_gone :: bool
  ck_read :: "ProjectClaim option"
  ck_moved :: bool

definition no_claim_knowledge :: claim_knowledge where
  "no_claim_knowledge = \<lparr>ck_claim = None, ck_gone = False, ck_read = None, ck_moved = False\<rparr>"

definition based_on :: "NamespacedName \<Rightarrow> claim_knowledge \<Rightarrow> ProjectClaim \<Rightarrow> ProjectClaim \<Rightarrow> bool" where
  "based_on nn m c x \<longleftrightarrow> ck_claim m = Some c \<and> meta_key (pc_Meta x) = nn \<and>
     om_ResourceVersion (pc_Meta x) = om_ResourceVersion (pc_Meta c)"

text \<open>
  A write of the claim is based on the version the server last answered with.  An update keeps
  the finalizer, unless the claim is being deleted and its reference is gone; the states
  PendingProject and Ready are written for a guarded claim, or for one that is in them already.
\<close>

definition may_update :: "claim_knowledge \<Rightarrow> ProjectClaim \<Rightarrow> ProjectClaim \<Rightarrow> bool" where
  "may_update m c x \<longleftrightarrow> (guarded c \<longrightarrow> guarded x \<or> ck_gone m \<and> claim_deleted c)"

definition promised :: "string \<Rightarrow> bool" where
  "promised st \<longleftrightarrow> st = ClaimStatusPendingProject \<or> st = ClaimStatusReady"

lemma promised_simps [simp]:
  "promised ClaimStatusPendingProject" "promised ClaimStatusReady" "\<not> promised ClaimStatusPending"
  "\<not> promised ClaimStatusError" "\<not> promised ''''"
  by (simp_all add: promised_def)

definition may_have_state :: "ProjectClaim \<Rightarrow> ProjectClaim \<Rightarrow> bool" where
  "may_have_state c x \<longleftrightarrow> (promised (pc_State x) \<longrightarrow> pc_State c = pc_State x \<or> guarded c)"

text \<open>
  The state is the one last answered with; or, once in a run, it is one step of the graph away from the
  state the claim was read in, or Ready if the claim read is fake.
\<close>

definition claim_moves :: "ProjectClaim \<Rightarrow> string \<Rightarrow> bool" where
  "claim_moves c st \<longleftrightarrow> claim_step (pc_State c) st \<or> is_fake c \<and> st = ClaimStatusReady"

text \<open>The states a claim has during a run before a status is written.\<close>

definition entered :: "ProjectClaim \<Rightarrow> string \<Rightarrow> bool" where
  "entered c0 st \<longleftrightarrow> st = pc_State c0 \<or> pc_State c0 = ClaimStatusError \<and> st = ClaimStatusPending"

lemma entered_moves:
  "entered c0 ClaimStatusError \<Longrightarrow> claim_moves c0 ClaimStatusPending"
  "entered c0 '''' \<Longrightarrow> claim_moves c0 ClaimStatusPending"
  "entered c0 ClaimStatusPending \<Longrightarrow> claim_moves c0 ClaimStatusPendingProject"
  by (auto simp: entered_def claim_moves_def)

definition may_move :: "claim_knowledge \<Rightarrow> ProjectClaim \<Rightarrow> ProjectClaim \<Rightarrow> bool" where
  "may_move m c x \<longleftrightarrow> pc_State x = pc_State c \<or>
     \<not> ck_moved m \<and> (\<exists>c0. ck_read m = Some c0 \<and> claim_moves c0 (pc_State x))"

lemma may_move_gone [simp]: "may_move (m\<lparr>ck_gone := g\<rparr>) c x = may_move m c x"
  by (simp add: may_move_def)

definition wrote :: "claim_knowledge \<Rightarrow> err option \<times> ProjectClaim \<Rightarrow> claim_knowledge" where
  "wrote m a = (if fst a = None then m\<lparr>ck_claim := Some (snd a), ck_moved := True\<rparr> else m)"

definition learned :: "claim_knowledge \<Rightarrow> err option \<times> ProjectClaim \<Rightarrow> claim_knowledge" where
  "learned m a = (if fst a = None then m\<lparr>ck_claim := Some (snd a)\<rparr> else m)"

definition only_if :: "bool \<Rightarrow> 'a \<Rightarrow> 'a option" where
  "only_if b x = (if b then Some x else None)"

lemma only_if_eq [simp]: "only_if b x = Some y \<longleftrightarrow> b \<and> x = y" "only_if b x = None \<longleftrightarrow> \<not> b"
  by (auto simp: only_if_def)

lemma only_if_simps [simp]: "only_if True x = Some x" "only_if False x = None"
  by (simp_all add: only_if_def)

fun claim_rule :: "NamespacedName \<Rightarrow> claim_knowledge \<Rightarrow> observation \<Rightarrow> claim_knowledge option" where
  "claim_rule nn m (SawClaim k a) = only_if (k = nn)
     (case a of Inl e \<Rightarrow> m | Inr c \<Rightarrow> m\<lparr>ck_claim := Some c, ck_read := Some c, ck_moved := False\<rparr>)"
| "claim_rule nn m (SawReference k a) = only_if (k = ref_key nn)
     (m\<lparr>ck_gone := (case a of Inl e \<Rightarrow> IsNotFound e | Inr r \<Rightarrow> False)\<rparr>)"
| "claim_rule nn m (CreatedReference r a) =
     (case ck_claim m of
        None \<Rightarrow> None
      | Some c \<Rightarrow> only_if (\<not> claim_deleted c \<and> blank_reference nn r) (m\<lparr>ck_gone := False\<rparr>))"
| "claim_rule nn m (DeletedReference r e) =
     (case ck_claim m of
        None \<Rightarrow> None
      | Some c \<Rightarrow> only_if (claim_deleted c \<and> meta_key (pr_Meta r) = ref_key nn) m)"
| "claim_rule nn m (UpdatedClaim x a) =
     (case ck_claim m of
        None \<Rightarrow> None
      | Some c \<Rightarrow> only_if (based_on nn m c x \<and> may_update m c x) (learned m a))"
| "claim_rule nn m (WroteClaimStatus x a) =
     (case ck_claim m of
        None \<Rightarrow> None
      | Some c \<Rightarrow> only_if (based_on nn m c x \<and> may_have_state c x \<and> may_move m c x) (wrote m a))"
| "claim_rule nn m (UpdatedReference r a) = None"
| "claim_rule nn m (WroteReferenceStatus r a) = None"

definition claim_watch :: "NamespacedName \<Rightarrow> observation list \<Rightarrow> claim_knowledge option" where
  "claim_watch nn obs = watch (claim_rule nn) no_claim_knowledge obs"

lemma claim_watch_Nil [simp]: "claim_watch nn [] = Some no_claim_knowledge"
  by (simp add: claim_watch_def)

lemma claim_watch_snoc [simp]:
  "claim_watch nn (obs @ [ob]) = (case claim_watch nn obs of None \<Rightarrow> None | Some m \<Rightarrow> claim_rule nn m ob)"
  by (simp add: claim_watch_def)

subsection \<open>The states of a run that keeps to the protocol\<close>

context observed_client begin

text \<open>The claim in memory may be written: it is based on the one last answered with.\<close>

definition settled :: "NamespacedName \<Rightarrow> 'w claim_state \<Rightarrow> bool" where
  "settled nn s \<longleftrightarrow> (\<exists>m c. claim_watch nn (hist (claim_world s)) = Some m \<and>
     based_on nn m c (projectClaim s) \<and> may_have_state c (projectClaim s) \<and> may_move m c (projectClaim s))"

text \<open>Moreover its metadata are those last answered with.\<close>

definition current :: "NamespacedName \<Rightarrow> 'w claim_state \<Rightarrow> bool" where
  "current nn s \<longleftrightarrow> (\<exists>m c. claim_watch nn (hist (claim_world s)) = Some m \<and>
     based_on nn m c (projectClaim s) \<and> may_have_state c (projectClaim s) \<and> may_move m c (projectClaim s) \<and>
     pc_Meta (projectClaim s) = pc_Meta c)"

text \<open>No status was written yet in the run that read the claim \<^verbatim>\<open>c0\<close>.\<close>

definition from_read :: "NamespacedName \<Rightarrow> ProjectClaim \<Rightarrow> 'w claim_state \<Rightarrow> bool" where
  "from_read nn c0 s \<longleftrightarrow> (\<exists>m. claim_watch nn (hist (claim_world s)) = Some m \<and> ck_read m = Some c0 \<and> \<not> ck_moved m)"

lemma from_read_cong: "hist (claim_world s') = hist (claim_world s) \<Longrightarrow> from_read nn c0 s \<Longrightarrow> from_read nn c0 s'"
  by (simp add: from_read_def)

lemma from_read_update:
  "from_read nn c0 s \<Longrightarrow> hist (claim_world s') = hist (claim_world s) @ [UpdatedClaim x a] \<Longrightarrow> settled nn s' \<Longrightarrow>
     from_read nn c0 s'"
  by (auto simp: from_read_def settled_def learned_def split: option.splits)

lemma current_settled: "current nn s \<Longrightarrow> settled nn s"
  by (auto simp: current_def settled_def)

lemma settled_cong:
  "hist (claim_world s') = hist (claim_world s) \<Longrightarrow> pc_Meta (projectClaim s') = pc_Meta (projectClaim s) \<Longrightarrow>
   pc_State (projectClaim s') = pc_State (projectClaim s) \<Longrightarrow> settled nn s \<Longrightarrow> settled nn s'"
  by (auto simp: settled_def based_on_def may_have_state_def may_move_def)

lemma current_same:
  "hist (claim_world s') = hist (claim_world s) \<Longrightarrow> pc_Meta (projectClaim s') = pc_Meta (projectClaim s) \<Longrightarrow>
   pc_State (projectClaim s') = pc_State (projectClaim s) \<Longrightarrow> current nn s \<Longrightarrow> current nn s'"
  by (auto simp: current_def based_on_def may_have_state_def may_move_def)

lemma current_moves:
  "hist (claim_world s') = hist (claim_world s) \<Longrightarrow> pc_Meta (projectClaim s') = pc_Meta (projectClaim s) \<Longrightarrow>
   from_read nn c0 s \<Longrightarrow> claim_moves c0 (pc_State (projectClaim s')) \<Longrightarrow> \<not> promised (pc_State (projectClaim s')) \<Longrightarrow>
   current nn s \<Longrightarrow> current nn s'"
  unfolding current_def based_on_def may_have_state_def may_move_def from_read_def by auto

text \<open>The writes of the claim.\<close>

lemma answered_write:
  assumes "claim_watch nn h = Some m" and "based_on nn m c x" and "may_have_state c x" and "may_move m c x"
    and "answers_in_kind pc_Meta write" and "write x w = ((e, obj), w')"
    and "hist w' = h @ [ob]" and "claim_rule nn m ob \<in> {Some (learned m (e, obj)), Some (wrote m (e, obj))}"
  shows "settled nn (s\<lparr>projectClaim := obj, claim_world := w'\<rparr>) \<and>
    (e = None \<longrightarrow> current nn (s\<lparr>projectClaim := obj, claim_world := w'\<rparr>))"
  using assms answers_in_kindD [OF assms(5,6)]
  by (cases e) (auto simp: settled_def current_def learned_def wrote_def based_on_def may_have_state_def may_move_def)

lemma status_write:
  assumes K: "proper_answers K" and "ca_client c = K" and "settled nn s"
    and "claim_status_update c s = (e, s')"
  shows "settled nn s'" and "e = None \<Longrightarrow> current nn s'"
proof -
  obtain m x where m: "claim_watch nn (hist (claim_world s)) = Some m" "based_on nn m x (projectClaim s)"
    "may_have_state x (projectClaim s)" "may_move m x (projectClaim s)" using assms(3) by (auto simp: settled_def)
  obtain obj w' where k: "k_StatusUpdateProjectClaim K (projectClaim s) (claim_world s) = ((e, obj), w')"
    and s': "s' = s\<lparr>projectClaim := obj, claim_world := w'\<rparr>"
    using assms(2,4) by (auto simp: claim_status_update_def split: prod.splits)
  have "claim_rule nn m (WroteClaimStatus (projectClaim s) (e, obj)) \<in>
      {Some (learned m (e, obj)), Some (wrote m (e, obj))}"
    using m by (simp add: based_on_def)
  from answered_write [OF m proper_answersD(4) [OF K] k answers(7) [OF k] this]
  show "settled nn s'" and "e = None \<Longrightarrow> current nn s'" by (simp_all add: s')
qed

lemma update_write:
  assumes K: "proper_answers K" and "settled nn s"
    and may: "\<And>m x. claim_watch nn (hist (claim_world s)) = Some m \<Longrightarrow> based_on nn m x (projectClaim s) \<Longrightarrow>
      may_update m x (projectClaim s)"
    and k: "k_UpdateProjectClaim K (projectClaim s) (claim_world s) = ((e, obj), w')"
  shows "settled nn (s\<lparr>projectClaim := obj, claim_world := w'\<rparr>)"
    and "e = None \<Longrightarrow> current nn (s\<lparr>projectClaim := obj, claim_world := w'\<rparr>)"
proof -
  obtain m x where m: "claim_watch nn (hist (claim_world s)) = Some m" "based_on nn m x (projectClaim s)"
    "may_have_state x (projectClaim s)" "may_move m x (projectClaim s)" using assms(2) by (auto simp: settled_def)
  have "claim_rule nn m (UpdatedClaim (projectClaim s) (e, obj)) \<in>
      {Some (learned m (e, obj)), Some (wrote m (e, obj))}"
    using m may [OF m(1,2)] by (simp add: based_on_def)
  from answered_write [OF m proper_answersD(3) [OF K] k answers(5) [OF k] this]
  show "settled nn (s\<lparr>projectClaim := obj, claim_world := w'\<rparr>)"
    and "e = None \<Longrightarrow> current nn (s\<lparr>projectClaim := obj, claim_world := w'\<rparr>)" by simp_all
qed

end

subsection \<open>Operations\<close>

context observed_client begin

lemma reference_read:
  assumes "k_GetProjectReference K (ref_key nn) (claim_world s) = (a, w')"
  shows "settled nn s \<Longrightarrow> settled nn (s\<lparr>claim_world := w'\<rparr>)"
    and "current nn s \<Longrightarrow> current nn (s\<lparr>claim_world := w'\<rparr>)"
  using answers(2) [OF assms] by (auto simp: settled_def current_def based_on_def)

lemma claim_StatusUpdate_settled:
  assumes "proper_answers K" "ca_client c = K" "settled nn s"
  shows "settled nn (snd (claim_StatusUpdate c s))"
    and "fst (claim_StatusUpdate c s) = None \<Longrightarrow> current nn (snd (claim_StatusUpdate c s))"
proof -
  obtain e s' where u: "claim_status_update c s = (e, s')" by fastforce
  show "settled nn (snd (claim_StatusUpdate c s))"
    and "fst (claim_StatusUpdate c s) = None \<Longrightarrow> current nn (snd (claim_StatusUpdate c s))"
    using status_write [OF assms u] u
    by (auto simp: claim_StatusUpdate_def split: option.splits)
qed

lemma set_state_settled:
  "settled nn s \<Longrightarrow> from_read nn c0 s \<Longrightarrow> claim_moves c0 st \<Longrightarrow> \<not> promised st \<Longrightarrow>
     settled nn (s\<lparr>projectClaim := set_claim_state st (projectClaim s)\<rparr>)"
  by (auto simp: settled_def from_read_def based_on_def may_have_state_def may_move_def)

lemma claim_moves_Error [simp]: "claim_moves c0 ClaimStatusError"
  by (auto simp: claim_moves_def)

lemma set_conditions_settled:
  "settled nn s \<Longrightarrow> settled nn (s\<lparr>projectClaim := set_claim_conditions cs (projectClaim s)\<rparr>)"
  by (erule settled_cong [rotated -1]) auto

lemma claim_set_condition_settled:
  assumes "ca_env c = env" and "settled nn s"
  shows "settled nn (claim_set_condition c t st reason message s)"
  using assms(2) by (rule settled_cong [rotated -1])
    (auto simp: claim_set_condition_def assms(1) split: prod.splits dest: unseen_answers)

lemma SetProjectClaimCondition_settled:
  assumes "proper_answers K" "ca_client c = K" "ca_env c = env" "settled nn s"
  shows "settled nn (snd (SetProjectClaimCondition c t reason e s))"
proof -
  have *: "settled nn (snd (claim_StatusUpdate c (claim_set_condition c t st r msg s')))" if "settled nn s'" for s' st r msg
    using claim_StatusUpdate_settled [OF assms(1,2) claim_set_condition_settled [OF assms(3) that]] by simp
  obtain cs i found where f: "cm_FindCondition (ca_conditionManager c) (pc_Conditions (projectClaim s)) t = (cs, i, found)"
    by (metis prod_cases3)
  let ?s = "s\<lparr>projectClaim := set_claim_conditions cs (projectClaim s)\<rparr>"
  have "settled nn ?s" using assms(4) by (rule set_conditions_settled)
  then show ?thesis
    using assms(4) * [of s] * [of ?s]
    by (auto simp: SetProjectClaimCondition_def f Let_def split: option.splits prod.splits) (metis snd_conv)+
qed

end

context observed_client begin

text \<open>The operations before the reference is touched.\<close>

lemma EnsureProjectClaimValidated_settled:
  assumes "proper_answers K" "ca_client c = K" "settled nn s" "from_read nn c0 s"
  shows "settled nn (snd (EnsureProjectClaimValidated c s))"
  using claim_StatusUpdate_settled(1) [OF assms(1,2) set_state_settled [OF assms(3,4), of ClaimStatusError]] assms(3)
  by (auto simp: EnsureProjectClaimValidated_def split: option.splits prod.splits)

lemma EnsureProjectClaimInitialized_settled:
  assumes "proper_answers K" "ca_client c = K" "settled nn s"
  shows "settled nn (snd (EnsureProjectClaimInitialized c s))"
  using status_write(1) [OF assms(1,2) set_conditions_settled [OF assms(3), of "Some []"]] assms(3)
  by (auto simp: EnsureProjectClaimInitialized_def split: option.splits prod.splits)

lemma IsRegionSupported_hist:
  assumes "ca_client c = K"
  shows "hist (claim_world (snd (IsRegionSupported c s))) = hist (claim_world s)"
  by (auto simp: IsRegionSupported_def GetOperatorConfigMap_def assms split: prod.splits sum.splits option.splits
      dest!: unseen_answers)

lemma region_state_settled:
  assumes "ca_client c = K" "IsRegionSupported c s = (r, s1)" "settled nn s" "from_read nn c0 s"
  shows "settled nn s1" and "projectClaim s1 = projectClaim s"
    and "claim_moves c0 st \<Longrightarrow> \<not> promised st \<Longrightarrow>
      settled nn (s1\<lparr>projectClaim := set_claim_state st (projectClaim s1)\<rparr>)"
proof -
  have same: "hist (claim_world s1) = hist (claim_world s)" "projectClaim s1 = projectClaim s"
    using IsRegionSupported_hist [OF assms(1), of s] IsRegionSupported_claim [of c s] assms(2) by simp_all
  with assms(3) show "settled nn s1" and "projectClaim s1 = projectClaim s" by (auto intro: settled_cong [rotated -1])
  show "claim_moves c0 st \<Longrightarrow> \<not> promised st \<Longrightarrow>
      settled nn (s1\<lparr>projectClaim := set_claim_state st (projectClaim s1)\<rparr>)"
    by (rule set_state_settled [OF \<open>settled nn s1\<close> from_read_cong [OF same(1) assms(4)]])
qed

lemma EnsureRegionSupported_settled:
  assumes "proper_answers K" "ca_client c = K" "ca_env c = env" "settled nn s" "from_read nn c0 s"
    and "entered c0 (pc_State (projectClaim s))"
  shows "settled nn (snd (EnsureRegionSupported c s))"
proof -
  obtain supported e s1 where r: "IsRegionSupported c s = ((supported, e), s1)" by (metis prod.exhaust)
  note s1 = region_state_settled [OF assms(2) r assms(4,5)]
  have "pc_State (projectClaim s) = ClaimStatusError \<Longrightarrow> claim_moves c0 ClaimStatusPending"
    using assms(6) by (simp add: entered_moves)
  then show ?thesis
    using s1(1,2) SetProjectClaimCondition_settled [OF assms(1-3) s1(1)]
      SetProjectClaimCondition_settled [OF assms(1-3) s1(3) [of ClaimStatusError]]
      SetProjectClaimCondition_settled [OF assms(1-3) s1(3) [of ClaimStatusPending]]
    by (simp add: EnsureRegionSupported_def r)
qed

lemma EnsureRegionSupported_current:
  assumes "ca_client c = K" "current nn s" "goes_on (fst (EnsureRegionSupported c s))" "from_read nn c0 s"
    and "entered c0 (pc_State (projectClaim s))"
  shows "current nn (snd (EnsureRegionSupported c s)) \<and> from_read nn c0 (snd (EnsureRegionSupported c s)) \<and>
    entered c0 (pc_State (projectClaim (snd (EnsureRegionSupported c s))))"
proof -
  obtain supported e s1 where r: "IsRegionSupported c s = ((supported, e), s1)" by (metis prod.exhaust)
  then have s1: "hist (claim_world s1) = hist (claim_world s)" "projectClaim s1 = projectClaim s"
    using IsRegionSupported_hist [OF assms(1), of s] IsRegionSupported_claim [of c s] by simp_all
  obtain cs i found where f: "cm_FindCondition (ca_conditionManager c) (pc_Conditions (projectClaim s)) ConditionInvalid
    = (cs, i, found)" by (metis prod_cases3)
  let ?s' = "snd (EnsureRegionSupported c s)"
  have same: "hist (claim_world ?s') = hist (claim_world s)" "pc_Meta (projectClaim ?s') = pc_Meta (projectClaim s)"
    and st: "pc_State (projectClaim ?s') = (if pc_State (projectClaim s) = ClaimStatusError then ClaimStatusPending
      else pc_State (projectClaim s))"
    using assms(3) s1 EnsureRegionSupported_goes_on [OF assms(3)]
    by (auto simp: EnsureRegionSupported_def r SetProjectClaimCondition_def f Let_def same_claim_def
        split: if_splits prod.splits option.splits)
  have "entered c0 (pc_State (projectClaim ?s'))" using assms(5) st by (auto simp: entered_def)
  moreover have "current nn ?s'"
  proof (cases "pc_State (projectClaim s) = ClaimStatusError")
    case True
    with assms(4,5) st show ?thesis
      by (intro current_moves [OF same assms(4) _ _ assms(2)]) (simp_all add: entered_moves)
  next
    case False
    with st show ?thesis by (intro current_same [OF same _ assms(2)]) simp
  qed
  ultimately show ?thesis using from_read_cong [OF same(1) assms(4)] by simp
qed

lemma EnsureProjectClaimState_settled:
  assumes "proper_answers K" "ca_client c = K" "settled nn s"
    and "promised st \<Longrightarrow> current nn s \<and> guarded (projectClaim s)"
    and "st \<in> {ClaimStatusPending, ClaimStatusPendingProject}"
    and "from_read nn c0 s" and "entered c0 (pc_State (projectClaim s))"
  shows "settled nn (snd (EnsureProjectClaimState c st s))"
proof -
  have *: "settled nn (s\<lparr>projectClaim := set_claim_state st (projectClaim s)\<rparr>)" if "claim_moves c0 st"
  proof (cases "promised st")
    case True
    with assms(4,6) that show ?thesis
      by (auto simp: settled_def current_def based_on_def may_have_state_def may_move_def from_read_def)
  next
    case False
    with assms(3,6) that show ?thesis by (intro set_state_settled)
  qed
  show ?thesis
    using claim_StatusUpdate_settled(1) [OF assms(1,2) *] assms(3,5,7)
    by (auto simp: EnsureProjectClaimState_def Let_def entered_moves split: prod.splits)
qed

text \<open>The reference, its link and the finalizers.\<close>

lemma EnsureProjectReferenceExists_current:
  assumes "ca_client c = K" "current nn s" "\<not> claim_deleted (projectClaim s)"
    and "blank_reference nn (projectReference s)"
  shows "current nn (snd (EnsureProjectReferenceExists c s))"
proof -
  have key: "namespaced (pr_Namespace (projectReference s)) (pr_Name (projectReference s)) = ref_key nn"
    using assms(4) by (simp add: blank_reference_def meta_key_def)
  obtain a w1 where a: "k_GetProjectReference K (ref_key nn) (claim_world s) = (a, w1)" by fastforce
  obtain e obj w2 where b: "k_CreateProjectReference K (projectReference s) w1 = ((e, obj), w2)" by (metis prod.exhaust)
  have 1: "current nn (s\<lparr>claim_world := w1\<rparr>)" using reference_read(2) [OF a assms(2)] .
  then have "current nn (s\<lparr>claim_world := w2, projectReference := obj\<rparr>)"
    using answers(3) [OF b] assms(3,4) by (auto simp: current_def based_on_def)
  with 1 show ?thesis
    using a b by (auto simp: EnsureProjectReferenceExists_def ProjectReferenceExists_def key assms(1)
        current_def split: sum.splits)
qed

lemma EnsureProjectReferenceExists_from_read:
  assumes "ca_client c = K" "from_read nn c0 s" "current nn s" "\<not> claim_deleted (projectClaim s)"
    and "blank_reference nn (projectReference s)"
  shows "from_read nn c0 (snd (EnsureProjectReferenceExists c s))"
proof -
  have key: "namespaced (pr_Namespace (projectReference s)) (pr_Name (projectReference s)) = ref_key nn"
    using assms(5) by (simp add: blank_reference_def meta_key_def)
  obtain a w1 where a: "k_GetProjectReference K (ref_key nn) (claim_world s) = (a, w1)" by fastforce
  obtain e obj w2 where b: "k_CreateProjectReference K (projectReference s) w1 = ((e, obj), w2)" by (metis prod.exhaust)
  have 1: "from_read nn c0 (s\<lparr>claim_world := w1\<rparr>)" using answers(2) [OF a] assms(2) by (auto simp: from_read_def)
  have "current nn (s\<lparr>claim_world := w1\<rparr>)" by (rule reference_read(2) [OF a assms(3)])
  then have "from_read nn c0 (s\<lparr>claim_world := w2, projectReference := obj\<rparr>)"
    using 1 answers(3) [OF b] assms(4,5) by (auto simp: from_read_def current_def based_on_def)
  with 1 show ?thesis
    using a b by (auto simp: EnsureProjectReferenceExists_def ProjectReferenceExists_def key assms(1)
        from_read_def split: sum.splits)
qed

lemma EnsureProjectReferenceLink_settled:
  assumes "proper_answers K" "ca_client c = K" "current nn s"
  shows "settled nn (snd (EnsureProjectReferenceLink c s))"
proof -
  let ?s = "s\<lparr>projectClaim := (projectClaim s)\<lparr>pc_Spec := (pc_Spec (projectClaim s))\<lparr>pcs_ProjectReferenceCRLink :=
      namespaced (pr_Namespace (projectReference s)) (pr_Name (projectReference s))\<rparr>\<rparr>\<rparr>"
  have cur: "current nn ?s" using assms(3) by (rule current_same [rotated -1]) simp_all
  obtain e obj w where k: "k_UpdateProjectClaim K (projectClaim ?s) (claim_world ?s) = ((e, obj), w)"
    by (metis prod.exhaust)
  have "settled nn (?s\<lparr>projectClaim := obj, claim_world := w\<rparr>)"
    by (rule update_write(1) [OF assms(1) current_settled [OF cur] _ k])
      (use cur in \<open>auto simp: current_def may_update_def based_on_def\<close>)
  with k current_settled [OF assms(3)] show ?thesis
    by (auto simp: EnsureProjectReferenceLink_def claim_update_def assms(2) Let_def split: option.splits)
qed

lemma EnsureFinalizer_settled:
  assumes "proper_answers K" "ca_client c = K" "current nn s"
  shows "settled nn (snd (EnsureFinalizer c s))"
    and "snd (fst (EnsureFinalizer c s)) = None \<Longrightarrow>
      current nn (snd (EnsureFinalizer c s)) \<and> guarded (projectClaim (snd (EnsureFinalizer c s)))"
proof -
  let ?s = "s\<lparr>projectClaim := with_finalizer (projectClaim s)\<rparr>"
  have x: "settled nn ?s"
    using current_settled [OF assms(3)]
    by (auto simp: settled_def based_on_def may_have_state_def may_move_def with_finalizer_def)
  obtain e obj w where k: "k_UpdateProjectClaim K (projectClaim ?s) (claim_world ?s) = ((e, obj), w)"
    by (metis prod.exhaust)
  have "settled nn (?s\<lparr>projectClaim := obj, claim_world := w\<rparr>)"
    and "e = None \<Longrightarrow> current nn (?s\<lparr>projectClaim := obj, claim_world := w\<rparr>)"
    using update_write [OF assms(1) x _ k] by (simp_all add: may_update_def with_finalizer_def)
  moreover have "e = None \<Longrightarrow> guarded obj"
    using k proper_answersD(7) [OF assms(1)] by (auto simp: with_finalizer_def)
  ultimately show "settled nn (snd (EnsureFinalizer c s))"
    and "snd (fst (EnsureFinalizer c s)) = None \<Longrightarrow>
      current nn (snd (EnsureFinalizer c s)) \<and> guarded (projectClaim (snd (EnsureFinalizer c s)))"
    using k current_settled [OF assms(3)] assms(3)
    by (auto simp: EnsureFinalizer_def addFinalizer_def claim_accessor_def with_finalizer_def assms(2)
        Let_def split: prod.splits)
qed

lemma EnsureFinalizer_from_read:
  assumes "proper_answers K" "ca_client c = K" "current nn s" "from_read nn c0 s"
  shows "from_read nn c0 (snd (EnsureFinalizer c s))"
proof -
  let ?s = "s\<lparr>projectClaim := with_finalizer (projectClaim s)\<rparr>"
  obtain e obj w where k: "k_UpdateProjectClaim K (projectClaim ?s) (claim_world ?s) = ((e, obj), w)"
    by (metis prod.exhaust)
  have "settled nn (snd (EnsureFinalizer c s))" by (rule EnsureFinalizer_settled(1) [OF assms(1-3)])
  with from_read_update [OF assms(4)] answers(5) [OF k] k assms(4) show ?thesis
    by (auto simp: EnsureFinalizer_def addFinalizer_def claim_accessor_def with_finalizer_def assms(2)
        Let_def split: prod.splits)
qed

lemma EnsureCCSSecretFinalizer_hist:
  assumes "ca_client c = K"
  shows "hist (claim_world (snd (EnsureCCSSecretFinalizer c s))) = hist (claim_world s)"
  by (auto simp: EnsureCCSSecretFinalizer_def getCCSSecret_def addFinalizer_def secret_accessor_def Let_def assms(1)
      split: prod.splits sum.splits dest!: unseen_answers)

lemma EnsureCCSSecretFinalizer_current:
  assumes "ca_client c = K" "current nn s"
  shows "current nn (snd (EnsureCCSSecretFinalizer c s))"
  using assms(2) by (rule current_same [rotated -1])
    (auto simp: EnsureCCSSecretFinalizer_def getCCSSecret_def addFinalizer_def secret_accessor_def Let_def assms(1)
      split: prod.splits sum.splits dest!: unseen_answers)

end

subsection \<open>Deletion and fake claims\<close>

context observed_client begin

text \<open>The reference was looked for and is gone, and the claim is being deleted.\<close>

definition released :: "NamespacedName \<Rightarrow> 'w claim_state \<Rightarrow> bool" where
  "released nn s \<longleftrightarrow> current nn s \<and> claim_deleted (projectClaim s) \<and>
     (\<exists>m. claim_watch nn (hist (claim_world s)) = Some m \<and> ck_gone m)"

lemma EnsureProjectClaimFinalizerDeleted_settled:
  assumes "proper_answers K" "ca_client c = K" "released nn s"
  shows "settled nn (snd (EnsureProjectClaimFinalizerDeleted c s))"
proof -
  have cur: "current nn s" using assms(3) by (simp add: released_def)
  let ?x = "(projectClaim s)\<lparr>pc_Meta := (pc_Meta (projectClaim s))\<lparr>om_Finalizers :=
    Filter (om_Finalizers (pc_Meta (projectClaim s))) ProjectClaimFinalizer\<rparr>\<rparr>"
  let ?s = "s\<lparr>projectClaim := ?x\<rparr>"
  have x: "settled nn ?s"
    using cur by (auto simp: current_def settled_def based_on_def may_have_state_def may_move_def)
  obtain e obj w where k: "k_UpdateProjectClaim K (projectClaim ?s) (claim_world ?s) = ((e, obj), w)"
    by (metis prod.exhaust)
  have "settled nn (?s\<lparr>projectClaim := obj, claim_world := w\<rparr>)"
    by (rule update_write(1) [OF assms(1) x _ k])
      (use assms(3) in \<open>auto simp: released_def current_def may_update_def based_on_def\<close>)
  with k current_settled [OF cur] show ?thesis
    by (simp add: EnsureProjectClaimFinalizerDeleted_def deleteFinalizer_def claim_accessor_def assms(2) Let_def)
qed

lemma EnsureCCSSecretFinalizerDeleted_hist:
  assumes "ca_client c = K" and "EnsureCCSSecretFinalizerDeleted c s = (e, s')"
  shows "hist (claim_world s') = hist (claim_world s)" and "projectClaim s' = projectClaim s"
proof -
  have "hist (claim_world (snd (EnsureCCSSecretFinalizerDeleted c s))) = hist (claim_world s) \<and>
    projectClaim (snd (EnsureCCSSecretFinalizerDeleted c s)) = projectClaim s"
    by (auto simp: EnsureCCSSecretFinalizerDeleted_def getCCSSecret_def deleteFinalizer_def Let_def assms(1)
        secret_accessor_def split: prod.splits sum.splits dest!: unseen_answers)
  with assms(2) show "hist (claim_world s') = hist (claim_world s)" and "projectClaim s' = projectClaim s"
    by simp_all
qed

lemma finalize_without_reference_settled:
  assumes "proper_answers K" "ca_client c = K" "released nn s"
  shows "settled nn (snd (finalize_without_reference c s))"
proof -
  obtain e s1 where 1: "EnsureCCSSecretFinalizerDeleted c s = (e, s1)" by fastforce
  note same = EnsureCCSSecretFinalizerDeleted_hist [OF assms(2) 1]
  have s1: "released nn s1"
    using assms(3) same by (auto simp: released_def current_def)
  show ?thesis
    using EnsureProjectClaimFinalizerDeleted_settled [OF assms(1,2) s1] s1
    by (auto simp: finalize_without_reference_def 1 released_def current_settled split: option.splits prod.splits)
qed

lemma FinalizeProjectClaim_settled:
  assumes K: "proper_answers K" "ca_client c = K" and "current nn s" "claim_deleted (projectClaim s)"
    and key: "meta_key (pr_Meta (projectReference s)) = ref_key nn"
  shows "settled nn (snd (FinalizeProjectClaim c s))"
proof -
  have key': "namespaced (pr_Namespace (projectReference s)) (pr_Name (projectReference s)) = ref_key nn"
    using key by (simp add: meta_key_def)
  obtain a w1 where a: "k_GetProjectReference K (ref_key nn) (claim_world s) = (a, w1)" by fastforce
  let ?s1 = "s\<lparr>claim_world := w1\<rparr>"
  have cur: "current nn ?s1" using reference_read(2) [OF a assms(3)] .
  show ?thesis
  proof (cases "ProjectReferenceExists c s")
    case (Pair b s1)
    then have s1: "s1 = ?s1" using a by (auto simp: ProjectReferenceExists_def key' K(2) split: sum.splits if_splits)
    show ?thesis
    proof (cases "b = Inr False")
      case True
      with Pair a have "\<exists>e. a = Inl e \<and> IsNotFound e"
        by (auto simp: ProjectReferenceExists_def key' K(2) split: sum.splits if_splits)
      then have "released nn ?s1"
        using cur assms(3,4) answers(2) [OF a] by (auto simp: released_def current_def based_on_def)
      from finalize_without_reference_settled [OF K this] True Pair s1 show ?thesis
        by (simp add: FinalizeProjectClaim_def Let_def)
    next
      case False
      obtain e w2 where d: "k_DeleteProjectReference K (projectReference s) w1 = (e, w2)" by fastforce
      have "settled nn (s\<lparr>claim_world := w2\<rparr>)"
        using answers(4) [OF d] cur assms(4) key by (auto simp: settled_def current_def based_on_def)
      with False Pair s1 d current_settled [OF cur] show ?thesis
        by (auto simp: FinalizeProjectClaim_def Let_def K(2) split: sum.splits option.splits prod.splits)
    qed
  qed
qed

lemma EnsureProjectClaimDeletionProcessed_settled:
  assumes "proper_answers K" "ca_client c = K" "current nn s"
    and "meta_key (pr_Meta (projectReference s)) = ref_key nn"
  shows "settled nn (snd (EnsureProjectClaimDeletionProcessed c s))"
  using FinalizeProjectClaim_settled [OF assms(1-3) _ assms(4)] current_settled [OF assms(3)]
  by (auto simp: EnsureProjectClaimDeletionProcessed_def IsProjectClaimDeletion_def split: prod.splits)

lemma DeleteFakeSecret_hist:
  assumes "ca_client c = K" and "DeleteFakeSecret c s = (e, s')"
  shows "hist (claim_world s') = hist (claim_world s)" "projectClaim s' = projectClaim s"
    "projectReference s' = projectReference s"
  using assms(2) by (auto simp: DeleteFakeSecret_def Let_def assms(1) split: prod.splits sum.splits dest!: unseen_answers)

lemma CreateFakeSecret_hist:
  assumes "ca_client c = K" and "CreateFakeSecret c s = (e, s')"
  shows "hist (claim_world s') = hist (claim_world s)" "projectClaim s' = projectClaim s"
proof -
  obtain b w where b: "SecretExists K (nn_Name (claim_credential_secret (projectClaim s)))
      (nn_Namespace (claim_credential_secret (projectClaim s))) (claim_world s) = (b, w)" by fastforce
  have "hist w = hist (claim_world s)"
    using b by (auto simp: SecretExists_def split: prod.splits sum.splits dest!: unseen_answers)
  then show "hist (claim_world s') = hist (claim_world s)" "projectClaim s' = projectClaim s"
    using assms(2) by (auto simp: CreateFakeSecret_def Let_def assms(1) b split: bool.splits sum.splits prod.splits
        dest!: unseen_answers)
qed

lemma fake_deletion_settled:
  assumes "proper_answers K" "ca_client c = K" "current nn s"
    and "meta_key (pr_Meta (projectReference s)) = ref_key nn"
  shows "settled nn (snd (fake_deletion c s))"
proof -
  obtain e s1 where 1: "DeleteFakeSecret c s = (e, s1)" by fastforce
  note same = DeleteFakeSecret_hist [OF assms(2) 1]
  have s1: "current nn s1" using assms(3) same by (simp add: current_def)
  show ?thesis
    using EnsureProjectClaimDeletionProcessed_settled [OF assms(1,2) s1] assms(4) same current_settled [OF s1]
    by (auto simp: fake_deletion_def 1 split: option.splits prod.splits)
qed

lemma UpdateFakeProjectClaimSpecs_settled:
  assumes "proper_answers K" "ca_client c = K" "current nn s"
  shows "settled nn (snd (UpdateFakeProjectClaimSpecs c s))"
proof -
  let ?s = "s\<lparr>projectClaim := fake_specs (projectClaim s)\<rparr>"
  have cur: "current nn ?s" using assms(3) by (rule current_same [rotated -1]) (simp_all add: fake_specs_def)
  obtain e obj w where k: "k_UpdateProjectClaim K (projectClaim ?s) (claim_world ?s) = ((e, obj), w)"
    by (metis prod.exhaust)
  have "settled nn (?s\<lparr>projectClaim := obj, claim_world := w\<rparr>)"
    by (rule update_write(1) [OF assms(1) current_settled [OF cur] _ k])
      (use cur in \<open>auto simp: current_def may_update_def based_on_def\<close>)
  with k current_settled [OF assms(3)] show ?thesis
    by (auto simp: UpdateFakeProjectClaimSpecs_def claim_update_def assms(2) split: option.splits)
qed

lemma UpdateFakeProjectClaimState_settled:
  assumes "proper_answers K" "ca_client c = K" "current nn s" "guarded (projectClaim s)"
    and "from_read nn c0 s" "is_fake c0"
  shows "settled nn (snd (UpdateFakeProjectClaimState c s))"
proof -
  let ?s = "s\<lparr>projectClaim := set_claim_state ClaimStatusReady (set_claim_conditions (Some []) (projectClaim s))\<rparr>"
  have "settled nn ?s"
    using assms(3-6) by (auto simp: current_def settled_def based_on_def may_have_state_def may_move_def
        from_read_def claim_moves_def)
  from status_write(1) [OF assms(1,2) this] current_settled [OF assms(3)] show ?thesis
    by (auto simp: UpdateFakeProjectClaimState_def split: option.splits prod.splits)
qed

lemma fake_creation_settled:
  assumes "proper_answers K" "ca_client c = K" "current nn s" "guarded (projectClaim s)"
    and "from_read nn c0 s" "is_fake c0"
  shows "settled nn (snd (fake_creation c s))"
proof -
  obtain e s1 where 1: "CreateFakeSecret c s = (e, s1)" by fastforce
  note same = CreateFakeSecret_hist [OF assms(2) 1]
  have s1: "current nn s1" using assms(3) same by (simp add: current_def)
  obtain unchanged e2 s2 where 2: "UpdateFakeProjectClaimSpecs c s1 = ((unchanged, e2), s2)" by (metis prod.exhaust)
  have s2: "settled nn s2" using UpdateFakeProjectClaimSpecs_settled [OF assms(1,2) s1] 2 by simp
  have "unchanged \<Longrightarrow> e2 = None \<Longrightarrow> s2 = s1"
    using 2 by (auto simp: UpdateFakeProjectClaimSpecs_def split: if_splits option.splits prod.splits)
  then have "unchanged \<Longrightarrow> e2 = None \<Longrightarrow> settled nn (snd (UpdateFakeProjectClaimState c s2))"
    using UpdateFakeProjectClaimState_settled [OF assms(1,2) s1 _ from_read_cong [OF same(1) assms(5)] assms(6)]
      assms(4) same by simp
  with s2 current_settled [OF s1] show ?thesis
    by (auto simp: fake_creation_def 1 2 split: option.splits prod.splits)
qed

lemma EnsureProjectClaimFakeProcessed_settled:
  assumes K: "proper_answers K" "ca_client c = K" and "current nn s"
    and "meta_key (pr_Meta (projectReference s)) = ref_key nn" and "from_read nn (projectClaim s) s"
  shows "settled nn (snd (EnsureProjectClaimFakeProcessed c s))"
proof (cases "is_fake (projectClaim s)")
  case False
  with assms(3) show ?thesis by (simp add: EnsureProjectClaimFakeProcessed_def current_settled)
next
  case True
  obtain r e s1 where 1: "EnsureFinalizer c s = ((r, e), s1)" by (metis prod.exhaust)
  then have ref: "projectReference s1 = projectReference s"
    by (auto simp: EnsureFinalizer_def ContinueProcessing_def split: if_splits prod.splits)
  have s1: "settled nn s1" "e = None \<Longrightarrow> current nn s1" "e = None \<Longrightarrow> guarded (projectClaim s1)"
    using EnsureFinalizer_settled [OF K assms(3)] 1 by simp_all
  have read: "from_read nn (projectClaim s) s1"
    using EnsureFinalizer_from_read [OF K assms(3,5)] 1 by simp
  have "settled nn (snd (fake_deletion c s1))" "settled nn (snd (fake_creation c s1))" if "e = None"
    using fake_deletion_settled [OF K s1(2) [OF that]] fake_creation_settled [OF K s1(2) [OF that] s1(3) [OF that] read True]
      assms(4) ref
    by simp_all
  with s1 claim_StatusUpdate_settled(1) [OF K set_state_settled [OF s1(1) read, of ClaimStatusError]] True show ?thesis
    by (auto simp: EnsureProjectClaimFakeProcessed_def 1 split: option.splits prod.splits)
qed

end

subsection \<open>The handler and Reconcile\<close>

context observed_client begin

text \<open>What holds before operation number \<^verbatim>\<open>i\<close> of the handler.\<close>

definition claim_stage :: "NamespacedName \<Rightarrow> nat \<Rightarrow> 'w claim_state \<Rightarrow> bool" where
  "claim_stage nn i s \<longleftrightarrow> current nn s \<and>
     (2 \<le> i \<longrightarrow> \<not> claim_deleted (projectClaim s)) \<and>
     (i \<le> 6 \<longrightarrow> blank_reference nn (projectReference s)) \<and>
     (9 \<le> i \<longrightarrow> guarded (projectClaim s)) \<and>
     (\<exists>c0. from_read nn c0 s \<and> entered c0 (pc_State (projectClaim s)) \<and> (i = 0 \<longrightarrow> projectClaim s = c0))"

lemma claim_stage_settled: "claim_stage nn i s \<Longrightarrow> settled nn s"
  by (simp add: claim_stage_def current_settled)

lemma claim_operation_settled:
  assumes K: "proper_answers K" "ca_client c = K" "ca_env c = env"
    and "i < length (claim_operations c)" and st: "claim_stage nn i s"
  shows "settled nn (snd ((claim_operations c ! i) s))"
proof -
  have s: "current nn s" "settled nn s" using st by (simp_all add: claim_stage_def current_settled)
  have blank: "i \<le> 6 \<Longrightarrow> blank_reference nn (projectReference s)" using st by (simp add: claim_stage_def)
  then have key: "i \<le> 6 \<Longrightarrow> meta_key (pr_Meta (projectReference s)) = ref_key nn" by (simp add: blank_reference_def)
  obtain c0 where c0: "from_read nn c0 s" "entered c0 (pc_State (projectClaim s))" "i = 0 \<Longrightarrow> projectClaim s = c0"
    using st by (auto simp: claim_stage_def)
  consider "i = 0" | "i = 1" | "i = 2" | "i = 3" | "i = 4" | "i = 5" | "i = 6" | "i = 7" | "i = 8" | "i = 9" | "i = 10"
    using assms(4) by (auto simp: claim_operations_def less_Suc_eq eval_nat_numeral)
  then show ?thesis
  proof cases
    case 1 with EnsureProjectClaimFakeProcessed_settled [OF K(1,2) s(1)] key c0 show ?thesis by (simp add: claim_operations_def)
  next
    case 2 with EnsureProjectClaimDeletionProcessed_settled [OF K(1,2) s(1)] key show ?thesis by (simp add: claim_operations_def)
  next
    case 3 with EnsureProjectClaimValidated_settled [OF K(1,2) s(2) c0(1)] show ?thesis by (simp add: claim_operations_def)
  next
    case 4 with EnsureProjectClaimInitialized_settled [OF K(1,2) s(2)] show ?thesis by (simp add: claim_operations_def)
  next
    case 5 with EnsureRegionSupported_settled [OF K s(2) c0(1,2)] show ?thesis by (simp add: claim_operations_def)
  next
    case 6 with EnsureProjectClaimState_settled [OF K(1,2) s(2) _ _ c0(1,2), of ClaimStatusPending] show ?thesis
      by (simp add: claim_operations_def EnsureProjectClaimStatePending_def)
  next
    case 7 with st EnsureProjectReferenceExists_current [OF K(2) s(1)] show ?thesis
      by (simp add: claim_operations_def claim_stage_def current_settled)
  next
    case 8 with EnsureProjectReferenceLink_settled [OF K(1,2) s(1)] show ?thesis by (simp add: claim_operations_def)
  next
    case 9 with EnsureFinalizer_settled(1) [OF K(1,2) s(1)] show ?thesis by (simp add: claim_operations_def)
  next
    case 10 with EnsureCCSSecretFinalizer_current [OF K(2) s(1)] show ?thesis
      by (simp add: claim_operations_def current_settled)
  next
    case 11 with st EnsureProjectClaimState_settled [OF K(1,2) s(2) _ _ c0(1,2), of ClaimStatusPendingProject] show ?thesis
      by (simp add: claim_operations_def EnsureProjectClaimStatePendingProject_def claim_stage_def)
  qed
qed

text \<open>All but three operations leave the state alone when they go on.\<close>

lemma claim_operation_same:
  assumes "i \<in> {0, 1, 2, 3, 5, 7, 8, 10}" and "goes_on (fst ((claim_operations c ! i) s))"
  shows "snd ((claim_operations c ! i) s) = s"
proof -
  have "goes_on (fst (f s)) \<Longrightarrow> snd (f s) = s"
    if "f \<in> {EnsureProjectClaimFakeProcessed c, EnsureProjectClaimDeletionProcessed c, EnsureProjectClaimValidated c}" for f
    using that by (auto simp: EnsureProjectClaimFakeProcessed_goes_on EnsureProjectClaimFakeProcessed_real
        EnsureProjectClaimDeletionProcessed_goes_on EnsureProjectClaimDeletionProcessed_alive
        EnsureProjectClaimValidated_goes_on EnsureProjectClaimValidated_valid)
  moreover have "goes_on (fst (EnsureProjectClaimState c st s)) \<Longrightarrow> snd (EnsureProjectClaimState c st s) = s" for st
    using EnsureProjectClaimState_goes_on [of c st s] by simp
  moreover note EnsureProjectClaimInitialized_same [of c s] EnsureProjectReferenceLink_same [of c s]
    EnsureFinalizer_same [of c s]
  ultimately have "\<forall>f \<in> set (map (\<lambda>i. claim_operations c ! i) [0, 1, 2, 3, 5, 7, 8, 10]).
      goes_on (fst (f s)) \<longrightarrow> snd (f s) = s"
    by (simp add: claim_operations_def EnsureProjectClaimStatePending_def EnsureProjectClaimStatePendingProject_def)
  with assms show ?thesis by auto
qed

lemma claim_operation_stage:
  assumes K: "ca_client c = K" and "i < length (claim_operations c)" and st: "claim_stage nn i s"
    and go: "goes_on (fst ((claim_operations c ! i) s))"
  shows "claim_stage nn (Suc i) (snd ((claim_operations c ! i) s))"
proof -
  have s: "current nn s" using st by (simp add: claim_stage_def)
  obtain c0 where c0: "from_read nn c0 s" "entered c0 (pc_State (projectClaim s))"
    using st by (auto simp: claim_stage_def)
  let ?op = "claim_operations c ! i"
  consider (same) "i \<in> {0, 1, 2, 3, 5, 7, 8, 10}" | (region) "i = 4" | (reference) "i = 6" | (secret) "i = 9"
    using assms(2) by (fastforce simp: claim_operations_def less_Suc_eq eval_nat_numeral)
  then show ?thesis
  proof cases
    case same
    then have "snd (?op s) = s" using go by (rule claim_operation_same)
    moreover have "i = 1 \<Longrightarrow> \<not> claim_deleted (projectClaim s)" "i = 8 \<Longrightarrow> guarded (projectClaim s)"
      using go EnsureProjectClaimDeletionProcessed_goes_on [of c s] EnsureFinalizer_goes_on [of c s]
      by (simp_all add: claim_operations_def IsProjectClaimDeletion_def)
    ultimately show ?thesis using st same by (auto simp: claim_stage_def)
  next
    case region
    then have go: "goes_on (fst (EnsureRegionSupported c s))" using go by (simp add: claim_operations_def)
    obtain st' where "same_claim st' s (snd (EnsureRegionSupported c s))"
      and "projectReference (snd (EnsureRegionSupported c s)) = projectReference s"
      using EnsureRegionSupported_goes_on [OF go] by blast
    with EnsureRegionSupported_current [OF K s go c0] st region show ?thesis
      by (auto simp: claim_operations_def claim_stage_def same_claim_def)
  next
    case reference
    have "projectClaim (snd (EnsureProjectReferenceExists c s)) = projectClaim s"
      by (auto simp: EnsureProjectReferenceExists_def ProjectReferenceExists_def split: sum.splits prod.splits)
    with EnsureProjectReferenceExists_current [OF K s] EnsureProjectReferenceExists_from_read [OF K c0(1) s] c0(2) st reference
    show ?thesis
      by (auto simp: claim_operations_def claim_stage_def)
  next
    case secret
    with EnsureCCSSecretFinalizer_current [OF K s] EnsureCCSSecretFinalizer_claim [of c s] st c0
      from_read_cong [OF EnsureCCSSecretFinalizer_hist [OF K] c0(1)] show ?thesis
      by (auto simp: claim_operations_def claim_stage_def)
  qed
qed

end

text \<open>The contract of the loop, met by the operations over recording clients.\<close>

definition observing_adapter :: "'w kube_client \<Rightarrow> condition_manager \<Rightarrow> 'w environment
    \<Rightarrow> ('w \<times> observation list) ProjectClaimAdapter" where
  "observing_adapter K manager env =
     \<lparr>ca_client = observing_kube K, ca_conditionManager = manager, ca_env = traced_env env\<rparr>"

lemma observing_adapter_sel [simp]:
  "ca_client (observing_adapter K manager env) = observing_kube K"
  "ca_env (observing_adapter K manager env) = traced_env env"
  by (simp_all add: observing_adapter_def)

interpretation claim_stages: staged_operations "claim_operations (observing_adapter K manager env)"
  "\<lambda>i s. proper_answers K \<and> observing.claim_stage nn i s" "observing.settled nn"
  for K :: "'w kube_client" and manager env nn
proof (unfold_locales, goal_cases)
  case (1 i s)
  then show ?case
    by (intro observing.claim_operation_settled [where K = K and env = env]) (simp_all add: observing_proper)
next
  case (2 i s)
  then show ?case by (simp add: observing.claim_operation_stage [where K = K])
next
  case (3 s)
  then show ?case by (blast intro: observing.claim_stage_settled)
qed

lemma claim_history_allowed:
  assumes K: "proper_answers K"
  shows "claim_watch nn (claim_history K env nn w) \<noteq> None"
proof -
  note K' = observing_proper [OF K]
  obtain a w1 where a: "k_GetProjectClaim (observing_kube K) nn (w, []) = (a, w1)" by (metis prod.exhaust)
  have h: "snd w1 = [SawClaim nn a]" using observing.answers(1) [OF a] by simp
  show ?thesis
  proof (cases a)
    case (Inl e)
    with a h show ?thesis by (simp add: claim_history_def claim_Reconcile_def claim_watch_def)
  next
    case (Inr c)
    let ?a = "observing_adapter K NewConditionManager env"
    let ?s = "\<lparr>projectClaim = c, projectReference = newMatchingProjectReference c, claim_world = w1\<rparr>"
    have key: "meta_key (pc_Meta c) = nn" using proper_answersD(1) [OF K'] a Inr by simp
    have "claim_watch nn (snd w1) = Some \<lparr>ck_claim = Some c, ck_gone = False, ck_read = Some c, ck_moved = False\<rparr>"
      by (simp add: h Inr claim_watch_def no_claim_knowledge_def)
    then have "observing.claim_stage nn 0 ?s"
      using key newMatchingProjectReference_blank [OF key]
      by (simp add: observing.claim_stage_def observing.current_def based_on_def may_have_state_def may_move_def
          observing.from_read_def entered_def)
    with K have "observing.settled nn (snd (run_operations (claim_operations ?a) ?s))"
      by (intro claim_stages.stages_end) simp
    then obtain r e s1 where r: "run_operations (claim_operations ?a) ?s = ((r, e), s1)" and s1: "observing.settled nn s1"
      by (metis prod.exhaust snd_conv)
    have "observing.settled nn (snd (SetProjectClaimCondition ?a ConditionError ''ReconcileError'' e s1))"
      by (rule observing.SetProjectClaimCondition_settled [OF K' _ _ s1]) simp_all
    then show ?thesis
      using a Inr r by (auto simp: claim_history_def claim_Reconcile_def NewProjectClaimAdapter_def
          claim_ReconcileHandler_def observing_adapter_def observing.settled_def split: prod.splits)
  qed
qed

end
