(* ===== verification/ReferenceFacts.thy ===== *)
theory ReferenceFacts
  imports ReferenceController Trace Cluster
begin

text \<open>
  The ProjectReference controller: which calls its operations make, what they leave unchanged,
  and when they let the handler go on.  As for the claims, the lemmas named \<^verbatim>\<open>_calls\<close> bound the
  calls of an operation over recording clients and those named \<^verbatim>\<open>_goes_on\<close> say what is known
  after an operation that does not end the run.
\<close>

subsection \<open>Recording the calls of an adapter\<close>

definition traced_reference :: "'w ReferenceAdapter \<Rightarrow> 'w traced ReferenceAdapter" where
  "traced_reference r = \<lparr>ra_kubeClient = traced_kube (ra_kubeClient r), ra_gcpClient = traced_gcp (ra_gcpClient r),
     ra_conditionManager = ra_conditionManager r, ra_OperatorConfig = ra_OperatorConfig r,
     ra_env = traced_env (ra_env r)\<rparr>"

lemma traced_reference_sel [simp]:
  "ra_kubeClient (traced_reference r) = traced_kube (ra_kubeClient r)"
  "ra_gcpClient (traced_reference r) = traced_gcp (ra_gcpClient r)"
  "ra_conditionManager (traced_reference r) = ra_conditionManager r"
  "ra_OperatorConfig (traced_reference r) = ra_OperatorConfig r"
  "ra_env (traced_reference r) = traced_env (ra_env r)"
  by (simp_all add: traced_reference_def)

definition ref_emits :: "(event \<Rightarrow> bool) \<Rightarrow> 'w traced reference_state \<Rightarrow> 'a \<times> 'w traced reference_state \<Rightarrow> bool" where
  "ref_emits P s x \<longleftrightarrow> emits P (rs_world s) (rs_world (snd x))"

lemma ref_emits_refl [simp]: "ref_emits P s (x, s)"
  by (simp add: ref_emits_def)

lemma ref_emits_bind: "ref_emits P s (x, s') \<Longrightarrow> ref_emits P s' y \<Longrightarrow> ref_emits P s y"
  by (auto simp: ref_emits_def intro: emits_trans)

lemma ref_emits_bind_snd: "ref_emits P s x \<Longrightarrow> ref_emits P (snd x) y \<Longrightarrow> ref_emits P s y"
  by (auto simp: ref_emits_def intro: emits_trans)

lemma ref_emits_result: "ref_emits P s (x, s') \<longleftrightarrow> ref_emits P s (y, s')"
  by (simp add: ref_emits_def)

lemma ref_emits_state: "rs_world s' = rs_world s \<Longrightarrow> ref_emits P s' x \<longleftrightarrow> ref_emits P s x"
  by (simp add: ref_emits_def)

lemmas ref_trace_defs = ref_emits_def emits_def record_call_def untraced_def on_world_def trace_simps

text \<open>Calls on the world leave the objects of the adapter alone.\<close>

lemma on_world_frame [simp]:
  "rs_claim (snd (on_world f s)) = rs_claim s" "rs_reference (snd (on_world f s)) = rs_reference s"
  by (simp_all add: on_world_def split: prod.splits)

lemma on_world_frameD:
  "on_world f s = (x, s') \<Longrightarrow> rs_claim s' = rs_claim s \<and> rs_reference s' = rs_reference s"
  by (metis on_world_frame snd_conv)

text \<open>The objects of the adapter are the same.\<close>

definition same_objects :: "'w reference_state \<Rightarrow> 'v reference_state \<Rightarrow> bool" where
  "same_objects s s' \<longleftrightarrow> rs_claim s' = rs_claim s \<and> rs_reference s' = rs_reference s"

lemma same_objects_refl [simp]: "same_objects s s"
  by (simp add: same_objects_def)

lemma same_objects_trans [trans]: "same_objects s s' \<Longrightarrow> same_objects s' s'' \<Longrightarrow> same_objects s s''"
  by (simp add: same_objects_def)

lemma same_objects_on_world [simp]: "same_objects s (snd (on_world f s))"
  by (simp add: same_objects_def)

lemma same_objects_on_worldD: "on_world f s = (x, s') \<Longrightarrow> same_objects s s'"
  by (metis same_objects_on_world snd_conv)

lemma same_objects_world [simp]: "same_objects s (s\<lparr>rs_world := w\<rparr>)"
  by (simp add: same_objects_def)

subsection \<open>IAM policies\<close>

lemma AddOrUpdateBindings_calls:
  assumes "\<And>e. P (GcpGetIamPolicy (reference_project s), e)"
  shows "ref_emits P s (AddOrUpdateBindings (traced_reference r) email roles mt s)"
  using assms by (auto simp: AddOrUpdateBindings_def ref_trace_defs split: prod.splits sum.splits)

lemma AddOrUpdateBindings_frame:
  "same_objects s (snd (AddOrUpdateBindings r email roles mt s))"
  by (auto simp: AddOrUpdateBindings_def same_objects_def on_world_def split: prod.splits sum.splits)

lemma ref_sleep_frame [simp]: "same_objects s (ref_sleep r d s)"
  by (simp add: ref_sleep_def)

lemma ref_sleep_emits [simp]: "ref_emits P s (x, ref_sleep (traced_reference r) d s)"
  by (simp add: ref_sleep_def ref_emits_def trace_simps emits_def)

text \<open>
  One rule for each of the two retry loops: a relation between the counter, the state and the
  outcome that holds where the loop ends and is handed on where it goes round.
\<close>

lemma SetIAMPolicy_loop_rule:
  assumes unread: "\<And>retry s e s1. AddOrUpdateBindings r email roles mt s = (Inl e, s1) \<Longrightarrow> Q retry s (Some e, s1)"
    and unchanged: "\<And>retry s p s1. AddOrUpdateBindings r email roles mt s = (Inr (False, p), s1) \<Longrightarrow>
      Q retry s (None, s1)"
    and written: "\<And>retry s p s1 q s2. AddOrUpdateBindings r email roles mt s = (Inr (True, p), s1) \<Longrightarrow>
      on_world (g_SetIamPolicy (ra_gcpClient r) p) s1 = (Inr q, s2) \<Longrightarrow> Q retry s (None, s2)"
    and rejected: "\<And>retry s p s1 e s2. AddOrUpdateBindings r email roles mt s = (Inr (True, p), s1) \<Longrightarrow>
      on_world (g_SetIamPolicy (ra_gcpClient r) p) s1 = (Inl e, s2) \<Longrightarrow>
      \<not> (google_code e = Some StatusConflict \<and> retry < 3) \<Longrightarrow> Q retry s (Some e, s2)"
    and again: "\<And>retry s p s1 e s2 x. AddOrUpdateBindings r email roles mt s = (Inr (True, p), s1) \<Longrightarrow>
      on_world (g_SetIamPolicy (ra_gcpClient r) p) s1 = (Inl e, s2) \<Longrightarrow>
      google_code e = Some StatusConflict \<Longrightarrow> retry < 3 \<Longrightarrow>
      Q (Suc retry) (ref_sleep r Second s2) x \<Longrightarrow> Q retry s x"
  shows "Q retry s (SetIAMPolicy_loop r email roles mt retry s)"
proof (induction "3 - retry" arbitrary: retry s rule: less_induct)
  case less
  obtain x s1 where a: "AddOrUpdateBindings r email roles mt s = (x, s1)" by fastforce
  show ?case
  proof (cases x)
    case (Inl e)
    with a unread [of s e s1 retry] show ?thesis by (simp add: SetIAMPolicy_loop.simps)
  next
    case (Inr mp)
    obtain modified p where mp: "mp = (modified, p)" by fastforce
    obtain y s2 where g: "on_world (g_SetIamPolicy (ra_gcpClient r) p) s1 = (y, s2)" by fastforce
    show ?thesis
    proof (cases modified)
      case False
      with a Inr mp unchanged [of s p s1 retry] show ?thesis by (simp add: SetIAMPolicy_loop.simps)
    next
      case True
      then have a': "AddOrUpdateBindings r email roles mt s = (Inr (True, p), s1)" using a Inr mp by simp
      show ?thesis
      proof (cases y)
        case (Inr q)
        with a' g written [OF a'] show ?thesis by (simp add: SetIAMPolicy_loop.simps)
      next
        case (Inl e)
        show ?thesis
        proof (cases "google_code e = Some StatusConflict \<and> retry < 3")
          case True
          then have "Q (Suc retry) (ref_sleep r Second s2)
              (SetIAMPolicy_loop r email roles mt (Suc retry) (ref_sleep r Second s2))"
            by (intro less) arith
          with again [OF a' g [unfolded Inl]] True a' g Inl show ?thesis
            by (simp add: SetIAMPolicy_loop.simps [of r email roles mt retry s])
        next
          case False
          with rejected [OF a' g [unfolded Inl] False] a' g Inl show ?thesis
            by (auto simp: SetIAMPolicy_loop.simps [of r email roles mt retry s])
        qed
      qed
    qed
  qed
qed

lemma DeleteIAMPolicy_loop_rule:
  assumes unread: "\<And>retry s e s1. on_world (g_GetIamPolicy (ra_gcpClient r) (reference_project s)) s = (Inl e, s1) \<Longrightarrow>
      Q retry s (Some e, s1)"
    and unchanged: "\<And>retry s p s1 bs. on_world (g_GetIamPolicy (ra_gcpClient r) (reference_project s)) s = (Inr p, s1) \<Longrightarrow>
      RemoveOrUpdateBinding (pol_Bindings p) email mt = (bs, False) \<Longrightarrow> Q retry s (None, s1)"
    and written: "\<And>retry s p s1 bs q s2. on_world (g_GetIamPolicy (ra_gcpClient r) (reference_project s)) s = (Inr p, s1) \<Longrightarrow>
      RemoveOrUpdateBinding (pol_Bindings p) email mt = (bs, True) \<Longrightarrow>
      on_world (g_SetIamPolicy (ra_gcpClient r) (p\<lparr>pol_Bindings := bs\<rparr>)) s1 = (Inr q, s2) \<Longrightarrow> Q retry s (None, s2)"
    and rejected: "\<And>retry s p s1 bs e s2. on_world (g_GetIamPolicy (ra_gcpClient r) (reference_project s)) s = (Inr p, s1) \<Longrightarrow>
      RemoveOrUpdateBinding (pol_Bindings p) email mt = (bs, True) \<Longrightarrow>
      on_world (g_SetIamPolicy (ra_gcpClient r) (p\<lparr>pol_Bindings := bs\<rparr>)) s1 = (Inl e, s2) \<Longrightarrow>
      \<not> (google_code e = Some StatusConflict \<and> retry < 3) \<Longrightarrow> Q retry s (Some e, s2)"
    and again: "\<And>retry s p s1 bs e s2 x. on_world (g_GetIamPolicy (ra_gcpClient r) (reference_project s)) s = (Inr p, s1) \<Longrightarrow>
      RemoveOrUpdateBinding (pol_Bindings p) email mt = (bs, True) \<Longrightarrow>
      on_world (g_SetIamPolicy (ra_gcpClient r) (p\<lparr>pol_Bindings := bs\<rparr>)) s1 = (Inl e, s2) \<Longrightarrow>
      google_code e = Some StatusConflict \<Longrightarrow> retry < 3 \<Longrightarrow>
      Q (Suc retry) (ref_sleep r Second s2) x \<Longrightarrow> Q retry s x"
  shows "Q retry s (DeleteIAMPolicy_loop r email mt retry s)"
proof (induction "3 - retry" arbitrary: retry s rule: less_induct)
  case less
  obtain x s1 where a: "on_world (g_GetIamPolicy (ra_gcpClient r) (reference_project s)) s = (x, s1)"
    by fastforce
  show ?case
  proof (cases x)
    case (Inl e)
    with a unread [of s e s1 retry] show ?thesis by (simp add: DeleteIAMPolicy_loop.simps)
  next
    case (Inr p)
    obtain bs modified where b: "RemoveOrUpdateBinding (pol_Bindings p) email mt = (bs, modified)" by fastforce
    obtain y s2 where g: "on_world (g_SetIamPolicy (ra_gcpClient r) (p\<lparr>pol_Bindings := bs\<rparr>)) s1 = (y, s2)"
      by fastforce
    note a' = a [unfolded Inr]
    show ?thesis
    proof (cases modified)
      case False
      with a' b unchanged [OF a'] show ?thesis by (simp add: DeleteIAMPolicy_loop.simps)
    next
      case True
      note b' = b [unfolded True [THEN eqTrueI]]
      show ?thesis
      proof (cases y)
        case (Inr q)
        with a' b' g written [OF a' b'] show ?thesis by (simp add: DeleteIAMPolicy_loop.simps)
      next
        case (Inl e)
        show ?thesis
        proof (cases "google_code e = Some StatusConflict \<and> retry < 3")
          case True
          then have "Q (Suc retry) (ref_sleep r Second s2)
              (DeleteIAMPolicy_loop r email mt (Suc retry) (ref_sleep r Second s2))"
            by (intro less) arith
          with again [OF a' b' g [unfolded Inl]] True a' b' g Inl show ?thesis
            by (simp add: DeleteIAMPolicy_loop.simps [of r email mt retry s])
        next
          case False
          with rejected [OF a' b' g [unfolded Inl] False] a' b' g Inl show ?thesis
            by (auto simp: DeleteIAMPolicy_loop.simps [of r email mt retry s])
        qed
      qed
    qed
  qed
qed

lemma SetIAMPolicy_frame: "same_objects s (snd (SetIAMPolicy r email roles mt s))"
  unfolding SetIAMPolicy_def
proof (rule SetIAMPolicy_loop_rule [where Q = "\<lambda>retry s x. same_objects s (snd x)"])
  fix s p s1 e s2 and x :: "err option \<times> 'a reference_state"
  assume "AddOrUpdateBindings r email roles mt s = (Inr (True, p), s1)"
    and "on_world (g_SetIamPolicy (ra_gcpClient r) p) s1 = (Inl e, s2)"
    and "same_objects (ref_sleep r Second s2) (snd x)"
  then show "same_objects s (snd x)"
    by (metis AddOrUpdateBindings_frame ref_sleep_frame same_objects_on_world same_objects_trans snd_conv)
qed (metis AddOrUpdateBindings_frame same_objects_on_world same_objects_trans snd_conv)+

lemma DeleteIAMPolicy_frame: "same_objects s (snd (DeleteIAMPolicy r email mt s))"
  unfolding DeleteIAMPolicy_def
proof (rule DeleteIAMPolicy_loop_rule [where Q = "\<lambda>retry s x. same_objects s (snd x)"])
  fix s p s1 bs e s2 and x :: "err option \<times> 'a reference_state"
  assume "on_world (g_GetIamPolicy (ra_gcpClient r) (reference_project s)) s = (Inr p, s1)"
    and "on_world (g_SetIamPolicy (ra_gcpClient r) (p\<lparr>pol_Bindings := bs\<rparr>)) s1 = (Inl e, s2)"
    and "same_objects (ref_sleep r Second s2) (snd x)"
  then show "same_objects s (snd x)"
    by (metis ref_sleep_frame same_objects_on_world same_objects_trans snd_conv)
qed (metis same_objects_on_world same_objects_trans snd_conv)+


lemma on_world_record_emits:
  "ref_emits P s (on_world (record_call call err_of f) s) \<longleftrightarrow>
     P (call, err_of (fst (on_world (record_call call err_of f) s)))"
  by (auto simp: ref_trace_defs split: prod.splits)

lemma on_world_record_emitsD:
  "on_world (record_call call err_of f) s = (x, s') \<Longrightarrow> P (call, err_of x) \<Longrightarrow> ref_emits P s (y, s')"
  using on_world_record_emits [of P s call err_of f] by (simp add: ref_emits_def)

lemma SetIAMPolicy_calls:
  assumes get: "\<And>e. P (GcpGetIamPolicy (reference_project s), e)" and set: "\<And>p e. P (GcpSetIamPolicy p, e)"
  shows "ref_emits P s (SetIAMPolicy (traced_reference r) email roles mt s)"
proof -
  let ?r = "traced_reference r"
  let ?Q = "\<lambda>(retry :: nat) s' x. same_objects s s' \<longrightarrow> ref_emits P s' x"
  have read: "ref_emits P s' (y, s1)"
    if "AddOrUpdateBindings ?r email roles mt s' = (x, s1)" "same_objects s s'" for s' x s1 and y :: 'z
    using AddOrUpdateBindings_calls [of P s' r email roles mt] that get
    by (simp add: same_objects_def ref_emits_def)
  have written: "ref_emits P s1 (y, s2)"
    if "on_world (g_SetIamPolicy (ra_gcpClient ?r) p) s1 = (x, s2)" for s1 p x s2 and y :: 'z
    using that by (auto simp: trace_simps intro: on_world_record_emitsD set)
  have "?Q 0 s (SetIAMPolicy_loop ?r email roles mt 0 s)"
  proof (rule SetIAMPolicy_loop_rule [where Q = ?Q])
    fix retry s' p s1 e s2 and x :: "err option \<times> 'a traced reference_state"
    assume a: "AddOrUpdateBindings ?r email roles mt s' = (Inr (True, p), s1)"
      and w: "on_world (g_SetIamPolicy (ra_gcpClient ?r) p) s1 = (Inl e, s2)"
      and x: "?Q (Suc retry) (ref_sleep ?r Second s2) x"
    show "?Q retry s' x"
    proof
      assume s': "same_objects s s'"
      have "same_objects s (ref_sleep ?r Second s2)"
        using s' a w by (metis AddOrUpdateBindings_frame ref_sleep_frame same_objects_on_world
            same_objects_trans snd_conv)
      with x have "ref_emits P (ref_sleep ?r Second s2) x" by blast
      with ref_emits_bind [OF read [OF a s'] ref_emits_bind [OF written [OF w]
            ref_emits_bind [OF ref_sleep_emits]]]
      show "ref_emits P s' x" by blast
    qed
  qed (auto intro: read ref_emits_bind [OF read written])
  then show ?thesis by (simp add: SetIAMPolicy_def)
qed

lemma DeleteIAMPolicy_calls:
  assumes get: "\<And>e. P (GcpGetIamPolicy (reference_project s), e)" and set: "\<And>p e. P (GcpSetIamPolicy p, e)"
  shows "ref_emits P s (DeleteIAMPolicy (traced_reference r) email mt s)"
proof -
  let ?r = "traced_reference r"
  let ?Q = "\<lambda>(retry :: nat) s' x. same_objects s s' \<longrightarrow> ref_emits P s' x"
  have read: "ref_emits P s' (y, s1)"
    if "on_world (g_GetIamPolicy (ra_gcpClient ?r) (reference_project s')) s' = (x, s1)"
       "same_objects s s'" for s' x s1 and y :: 'z
    using that get by (auto simp: trace_simps same_objects_def intro: on_world_record_emitsD)
  have written: "ref_emits P s1 (y, s2)"
    if "on_world (g_SetIamPolicy (ra_gcpClient ?r) p) s1 = (x, s2)" for s1 p x s2 and y :: 'z
    using that by (auto simp: trace_simps intro: on_world_record_emitsD set)
  have "?Q 0 s (DeleteIAMPolicy_loop ?r email mt 0 s)"
  proof (rule DeleteIAMPolicy_loop_rule [where Q = ?Q])
    fix retry s' p s1 bs e s2 and x :: "err option \<times> 'a traced reference_state"
    assume a: "on_world (g_GetIamPolicy (ra_gcpClient ?r) (reference_project s')) s' = (Inr p, s1)"
      and w: "on_world (g_SetIamPolicy (ra_gcpClient ?r) (p\<lparr>pol_Bindings := bs\<rparr>)) s1 = (Inl e, s2)"
      and x: "?Q (Suc retry) (ref_sleep ?r Second s2) x"
    show "?Q retry s' x"
    proof
      assume s': "same_objects s s'"
      have "same_objects s (ref_sleep ?r Second s2)"
        using s' a w by (metis ref_sleep_frame same_objects_on_world same_objects_trans snd_conv)
      with x have "ref_emits P (ref_sleep ?r Second s2) x" by blast
      with ref_emits_bind [OF read [OF a s'] ref_emits_bind [OF written [OF w]
            ref_emits_bind [OF ref_sleep_emits]]]
      show "ref_emits P s' x" by blast
    qed
  qed (auto intro: read ref_emits_bind [OF read written])
  then show ?thesis by (simp add: DeleteIAMPolicy_def)
qed


subsection \<open>The project\<close>

lemma getProject_frame: "same_objects s (snd (getProject r p s))"
  by (auto simp: getProject_def same_objects_def on_world_def split: prod.splits sum.splits)

lemma createProject_calls:
  assumes "\<And>e. P (GcpListProjects, e)" and "\<And>f n e. P (GcpCreateProject f n, e)"
    and "\<And>x e. pr_Meta x = pr_Meta (rs_reference s) \<Longrightarrow> P (CallUpdateReference x, e)"
  shows "ref_emits P s (createProject (traced_reference r) folder s)"
  using assms by (auto simp: createProject_def getProject_def clearProjectID_def ref_update_def
      set_ref_spec_def ref_trace_defs split: prod.splits sum.splits option.splits)

lemma createProject_ok_frame:
  "createProject r folder s = (None, s') \<Longrightarrow> same_objects s s'"
  using getProject_frame [of s r "reference_project s"]
  by (auto simp: createProject_def lifecycle_error_def dest: same_objects_on_worldD
      split: prod.splits sum.splits option.splits if_splits intro: same_objects_trans)

lemma link_billing_calls:
  assumes "\<And>p a e. P (GcpCreateCloudBillingAccount p a, e)"
  shows "ref_emits P s (link_billing (traced_reference r) s)"
  using assms by (auto simp: link_billing_def ref_trace_defs split: prod.splits option.splits)

lemma link_billing_frame: "same_objects s (snd (link_billing r s))"
  by (auto simp: link_billing_def on_world_def same_objects_def split: prod.splits option.splits)

lemma configureBillingAPI_calls:
  assumes "\<And>p e. P (GcpListAPIs p, e)" and "\<And>p a e. P (GcpEnableAPI p a, e)"
    and "\<And>p a e. P (GcpCreateCloudBillingAccount p a, e)"
  shows "ref_emits P s (configureBillingAPI (traced_reference r) s)"
  using assms by (auto simp: configureBillingAPI_def link_billing_def ref_trace_defs
      split: prod.splits sum.splits option.splits)

lemma configureBillingAPI_frame: "same_objects s (snd (configureBillingAPI r s))"
  by (auto simp: configureBillingAPI_def link_billing_def on_world_def same_objects_def
      split: prod.splits sum.splits option.splits)

lemma configureBillingAPI_frameD: "configureBillingAPI r s = (x, s') \<Longrightarrow> same_objects s s'"
  by (metis configureBillingAPI_frame snd_conv)

text \<open>Creating the project: listing, creating, linking to billing, and giving up a project ID.\<close>

lemma EnsureProjectCreated_calls:
  assumes "\<not> isCCS s \<Longrightarrow> (\<And>e. P (GcpListProjects, e))"
    and "\<not> isCCS s \<Longrightarrow> (\<And>f n e. P (GcpCreateProject f n, e))"
    and "\<not> isCCS s \<Longrightarrow> (\<And>p e. P (GcpListAPIs p, e))"
    and "\<not> isCCS s \<Longrightarrow> (\<And>p a e. P (GcpEnableAPI p a, e))"
    and "\<not> isCCS s \<Longrightarrow> (\<And>p a e. P (GcpCreateCloudBillingAccount p a, e))"
    and "\<not> isCCS s \<Longrightarrow> (\<And>x e. pr_Meta x = pr_Meta (rs_reference s) \<Longrightarrow> P (CallUpdateReference x, e))"
    and "\<not> isCCS s \<Longrightarrow> (\<And>x e. pr_State x = ProjectReferenceStatusError \<Longrightarrow> P (CallStatusReference x, e))"
  shows "ref_emits P s (EnsureProjectCreated (traced_reference r) s)"
proof (cases "isCCS s")
  case True
  then show ?thesis by (simp add: EnsureProjectCreated_def)
next
  case False
  let ?r = "traced_reference r"
  note P = assms [OF False]
  obtain e1 s1 where c: "createProject ?r (oc_ParentFolderID (ra_OperatorConfig ?r)) s = (e1, s1)" by fastforce
  obtain e2 s2 where b: "configureBillingAPI ?r s1 = (e2, s2)" by fastforce
  have 1: "ref_emits P s (y, s1)" for y :: outcome
    using createProject_calls [of P s r "oc_ParentFolderID (ra_OperatorConfig ?r)"] P c
    by (simp add: ref_emits_def)
  have 2: "ref_emits P s1 (y, s2)" for y :: outcome
    using configureBillingAPI_calls [of P s1 r] P b by (simp add: ref_emits_def)
  have 3: "ref_emits P s1 (y, s3)"
    if "ref_status_update ?r (set_ref_state ProjectReferenceStatusError s1) = (e3, s3)" for y :: outcome and e3 s3
    using that P(7) by (auto simp: ref_status_update_def set_ref_state_def ref_trace_defs split: prod.splits)
  show ?thesis
    using False by (auto simp: EnsureProjectCreated_def c [simplified] b 1 2 3
        intro: ref_emits_bind [OF 1 2] ref_emits_bind [OF 1 3] split: prod.splits option.splits)
qed

lemma EnsureProjectCreated_goes_on:
  assumes "goes_on (fst (EnsureProjectCreated r s))"
  shows "same_objects s (snd (EnsureProjectCreated r s))"
  using assms createProject_ok_frame [of r "oc_ParentFolderID (ra_OperatorConfig r)" s]
  by (auto simp: EnsureProjectCreated_def dest!: configureBillingAPI_frameD
      intro: same_objects_trans split: prod.splits option.splits if_splits)

subsection \<open>APIs, the service account and its credentials\<close>

lemma enable_missing_apis_calls:
  assumes "\<And>p a e. P (GcpEnableAPI p a, e)"
  shows "ref_emits P s (enable_missing_apis (traced_reference r) enabled apis s)"
proof (induction apis arbitrary: s)
  case (Cons api apis)
  obtain e s1 where g: "on_world (g_EnableAPI (traced_gcp (ra_gcpClient r)) (reference_project s) api) s = (e, s1)"
    by fastforce
  then have "ref_emits P s (y, s1)" for y :: "err option"
    using assms by (auto simp: trace_simps intro: on_world_record_emitsD)
  with Cons [of s] Cons [of s1] g show ?case
    by (auto intro: ref_emits_bind split: option.splits)
qed simp

lemma enable_missing_apis_frame: "same_objects s (snd (enable_missing_apis r enabled apis s))"
proof (induction apis arbitrary: s)
  case (Cons api apis)
  then show ?case
    by (auto split: prod.splits option.splits)
      (metis same_objects_on_world same_objects_trans snd_conv)+
qed simp

lemma configureAPIS_calls:
  assumes "\<And>p e. P (GcpListAPIs p, e)" and "\<And>p a e. P (GcpEnableAPI p a, e)"
  shows "ref_emits P s (configureAPIS (traced_reference r) s)"
proof -
  obtain x s1 where l: "on_world (g_ListAPIs (traced_gcp (ra_gcpClient r)) (reference_project s)) s = (x, s1)"
    by fastforce
  then have "ref_emits P s (y, s1)" for y :: "err option"
    using assms by (auto simp: trace_simps intro: on_world_record_emitsD)
  note 1 = this
  have "ref_emits P s1 (enable_missing_apis (traced_reference r) enabled OSDRequiredAPIS s1)" for enabled
    by (rule enable_missing_apis_calls) (rule assms(2))
  with l 1 show ?thesis
    by (auto simp: configureAPIS_def intro: ref_emits_bind [OF 1] split: sum.splits)
qed

lemma configureAPIS_frame: "same_objects s (snd (configureAPIS r s))"
  by (auto simp: configureAPIS_def split: prod.splits sum.splits)
    (metis enable_missing_apis_frame same_objects_on_world same_objects_trans snd_conv)+


lemma grant_account_calls:
  assumes "\<And>e. P (GcpGetIamPolicy (reference_project s), e)" and "\<And>p e. P (GcpSetIamPolicy p, e)"
  shows "ref_emits P s (grant_account (traced_reference r) roles account s)"
  using SetIAMPolicy_calls [OF assms, of r "sa_Email account" roles ServiceAccount]
  by (auto simp: grant_account_def ref_emits_def split: prod.splits option.splits)

lemma grant_account_frame: "same_objects s (snd (grant_account r roles account s))"
  using SetIAMPolicy_frame [of s r "sa_Email account" roles ServiceAccount]
  by (auto simp: grant_account_def split: prod.splits option.splits)

lemma configureServiceAccount_calls:
  assumes "\<And>e. P (GcpGetServiceAccount (reference_account s), e)"
    and "\<And>e. P (GcpCreateServiceAccount (reference_account s) (reference_account s), e)"
    and iam: "\<And>e. P (GcpGetIamPolicy (reference_project s), e)" "\<And>p e. P (GcpSetIamPolicy p, e)"
  shows "ref_emits P s (configureServiceAccount (traced_reference r) roles s)"
proof -
  let ?r = "traced_reference r"
  obtain x s1 where g: "on_world (g_GetServiceAccount (ra_gcpClient ?r) (reference_account s)) s = (x, s1)"
    by fastforce
  obtain y s2 where c: "on_world (g_CreateServiceAccount (ra_gcpClient ?r) (reference_account s)
      (reference_account s)) s1 = (y, s2)" by fastforce
  have 1: "emits P (rs_world s) (rs_world s1)"
    using g assms(1) on_world_record_emitsD [of _ _ _ s x s1 P "()"] by (simp add: trace_simps ref_emits_def)
  have 2: "emits P (rs_world s1) (rs_world s2)"
    using c assms(2) on_world_record_emitsD [of _ _ _ s1 y s2 P "()"] by (simp add: trace_simps ref_emits_def)
  have objs: "same_objects s s1" "same_objects s s2"
    using g c by (blast dest: same_objects_on_worldD intro: same_objects_trans)+
  have 3: "emits P (rs_world s') (rs_world (snd (grant_account ?r roles account s')))"
    if "same_objects s s'" for s' account
    using grant_account_calls [of P s' r roles account] that iam by (simp add: same_objects_def ref_emits_def)
  show ?thesis
    using g c objs
    by (auto simp: configureServiceAccount_def Let_def ref_emits_def
        intro: emits_trans [OF 1] emits_trans [OF 1 emits_trans [OF 2]] 1 2 3 split: sum.splits)
qed

lemma configureServiceAccount_frame: "same_objects s (snd (configureServiceAccount r roles s))"
  by (auto simp: configureServiceAccount_def Let_def split: prod.splits sum.splits)
    (metis grant_account_frame same_objects_on_world same_objects_trans snd_conv)+

text \<open>Credentials are touched under the one name the claim gives them.\<close>

abbreviation "credentials_of s \<equiv> pcs_GCPCredentialSecret (pc_Spec (rs_claim s))"

lemma store_key_calls:
  assumes "\<And>x e. meta_key (s_Meta x) = credentials_of s \<Longrightarrow> P (CallCreateSecret x, e)"
  shows "ref_emits P s (store_key (traced_reference r) key s)"
  using assms by (auto simp: store_key_def NewGCPSecretCR_def meta_key_def Let_def ref_trace_defs
      split: prod.splits sum.splits option.splits)

lemma store_key_frame: "same_objects s (snd (store_key r key s))"
  by (auto simp: store_key_def Let_def on_world_def same_objects_def split: prod.splits sum.splits option.splits)

lemma SecretExists_traced:
  "on_world (SecretExists (traced_kube K) name ns) s = (x, s') \<Longrightarrow>
     \<exists>e. P (CallGetSecret (namespaced ns name), e) \<longrightarrow> ref_emits P s (y, s')"
  by (auto simp: SecretExists_def ref_trace_defs split: prod.splits sum.splits)

lemma createCredentials_calls:
  assumes get: "\<And>e. P (CallGetSecret (credentials_of s), e)"
    and create: "\<And>x e. meta_key (s_Meta x) = credentials_of s \<Longrightarrow> P (CallCreateSecret x, e)"
    and account: "\<And>e. P (GcpGetServiceAccount (reference_account s), e)"
    and key: "\<And>email e. P (GcpCreateServiceAccountKey email, e)"
  shows "ref_emits P s (createCredentials (traced_reference r) s)"
proof -
  let ?r = "traced_reference r" and ?ref = "credentials_of s"
  obtain b s1 where 1: "on_world (SecretExists (ra_kubeClient ?r) (nn_Name ?ref) (nn_Namespace ?ref)) s = (b, s1)"
    by fastforce
  obtain x s2 where 2: "on_world (g_GetServiceAccount (ra_gcpClient ?r) (reference_account s1)) s1 = (x, s2)"
    by fastforce
  have objs: "same_objects s s1" "same_objects s s2"
    using 1 2 by (blast dest: same_objects_on_worldD intro: same_objects_trans)+
  have e1: "emits P (rs_world s) (rs_world s1)"
    using SecretExists_traced [of "ra_kubeClient r" "nn_Name ?ref" "nn_Namespace ?ref" s b s1 P "()"] 1 get
    by (auto simp: ref_emits_def)
  have e2: "emits P (rs_world s1) (rs_world s2)"
    using 2 account objs on_world_record_emitsD [of _ _ _ s1 x s2 P "()"]
    by (simp add: trace_simps same_objects_def ref_emits_def)
  have e3: "emits P (rs_world s2) (rs_world (snd
      (case on_world (g_CreateServiceAccountKey (ra_gcpClient ?r) email) s2 of
        (Inl e, s3) \<Rightarrow> (f e, s3) | (Inr key, s3) \<Rightarrow> store_key ?r key s3)))" for email f
  proof -
    obtain y s3 where k: "on_world (g_CreateServiceAccountKey (ra_gcpClient ?r) email) s2 = (y, s3)" by fastforce
    have e: "emits P (rs_world s2) (rs_world s3)"
      using k key on_world_record_emitsD [of _ _ _ s2 y s3 P "()"] by (simp add: trace_simps ref_emits_def)
    have "same_objects s s3" using objs k by (blast dest: same_objects_on_worldD intro: same_objects_trans)
    then have "emits P (rs_world s3) (rs_world (snd (store_key ?r key s3)))" for key
      using store_key_calls [of s3 P r key] create by (simp add: same_objects_def ref_emits_def)
    with e k show ?thesis by (auto intro: emits_trans split: sum.splits)
  qed
  show ?thesis
    using 1 2
    by (auto simp: createCredentials_def Let_def ref_emits_def
        intro: e1 emits_trans [OF e1] emits_trans [OF e1 emits_trans [OF e2 e3 [simplified]]] e2
        split: sum.splits bool.splits)
qed

lemma createCredentials_frame: "same_objects s (snd (createCredentials r s))"
  by (auto simp: createCredentials_def Let_def split: prod.splits sum.splits bool.splits)
    (metis store_key_frame same_objects_on_world same_objects_trans snd_conv)+

lemma set_group_policies_calls:
  assumes "\<And>e. P (GcpGetIamPolicy (reference_project s), e)" and "\<And>p e. P (GcpSetIamPolicy p, e)"
  shows "ref_emits P s (set_group_policies (traced_reference r) roles emails s)"
  using assms
proof (induction emails arbitrary: s)
  case (Cons email emails)
  obtain e s1 where p: "SetIAMPolicy (traced_reference r) email roles GoogleGroup s = (e, s1)" by fastforce
  have "same_objects s s1" using p SetIAMPolicy_frame by (metis snd_conv)
  then have "emits P (rs_world s1) (rs_world (snd (set_group_policies (traced_reference r) roles emails s1)))"
    using Cons.IH [of s1] Cons.prems by (simp add: same_objects_def ref_emits_def)
  moreover have "emits P (rs_world s) (rs_world s1)"
    using SetIAMPolicy_calls [OF Cons.prems, of r email roles GoogleGroup] p by (simp add: ref_emits_def)
  ultimately show ?case by (auto simp: p ref_emits_def intro: emits_trans split: option.splits)
qed simp

lemma set_group_policies_frame: "same_objects s (snd (set_group_policies r roles emails s))"
proof (induction emails arbitrary: s)
  case (Cons email emails)
  then show ?case
    by (auto split: prod.splits option.splits)
      (metis SetIAMPolicy_frame same_objects_trans snd_conv)+
qed simp

lemma configure_console_access_calls:
  assumes "\<And>e. P (GcpGetIamPolicy (reference_project s), e)" and "\<And>p e. P (GcpSetIamPolicy p, e)"
  shows "ref_emits P s (configure_console_access (traced_reference r) s)"
proof -
  let ?r = "traced_reference r"
  obtain e1 s1 where 1: "set_group_policies ?r OSDSREConsoleAccessRoles
      (oc_CCSConsoleAccess (ra_OperatorConfig ?r)) s = (e1, s1)" by fastforce
  obtain e2 s2 where 2: "set_group_policies ?r OSDReadOnlyConsoleAccessRoles
      (oc_CCSReadOnlyConsoleAccess (ra_OperatorConfig ?r)) s1 = (e2, s2)" by fastforce
  have "same_objects s s1" using 1 set_group_policies_frame by (metis snd_conv)
  then have "ref_emits P s1 (e2, s2)"
    using set_group_policies_calls [of P s1 r OSDReadOnlyConsoleAccessRoles
        "oc_CCSReadOnlyConsoleAccess (ra_OperatorConfig ?r)"] assms 2
    by (simp add: same_objects_def)
  moreover have "ref_emits P s (e1, s1)"
    using set_group_policies_calls [OF assms, of r OSDSREConsoleAccessRoles
        "oc_CCSConsoleAccess (ra_OperatorConfig r)"] 1 by simp
  ultimately show ?thesis
    using 1 2 by (auto simp: configure_console_access_def ref_emits_def intro: emits_trans split: option.splits)
qed

lemma configure_console_access_frame: "same_objects s (snd (configure_console_access r s))"
  by (auto simp: configure_console_access_def split: prod.splits option.splits)
    (metis set_group_policies_frame same_objects_trans snd_conv)+


lemma EnsureProjectConfigured_calls:
  assumes apis: "\<And>p e. P (GcpListAPIs p, e)" "\<And>p a e. P (GcpEnableAPI p a, e)"
    and account: "\<And>e. P (GcpGetServiceAccount (reference_account s), e)"
      "\<And>e. P (GcpCreateServiceAccount (reference_account s) (reference_account s), e)"
    and iam: "\<And>e. P (GcpGetIamPolicy (reference_project s), e)" "\<And>p e. P (GcpSetIamPolicy p, e)"
    and secret: "\<And>e. P (CallGetSecret (credentials_of s), e)"
      "\<And>x e. meta_key (s_Meta x) = credentials_of s \<Longrightarrow> P (CallCreateSecret x, e)"
    and key: "\<And>email e. P (GcpCreateServiceAccountKey email, e)"
  shows "ref_emits P s (EnsureProjectConfigured (traced_reference r) s)"
proof -
  let ?r = "traced_reference r"
  obtain e1 s1 where 1: "configureAPIS ?r s = (e1, s1)" by fastforce
  obtain res2 e2 s2 where 2: "configureServiceAccount ?r (required_roles s1) s1 = ((res2, e2), s2)"
    by (metis prod.exhaust)
  obtain res3 e3 s3 where 3: "createCredentials ?r s2 = ((res3, e3), s3)" by (metis prod.exhaust)
  have o1: "same_objects s s1" using configureAPIS_frame [of s ?r] 1 by simp
  have o2: "same_objects s s2"
    using o1 configureServiceAccount_frame [of s1 ?r "required_roles s1"] 2 by (auto intro: same_objects_trans)
  have o3: "same_objects s s3"
    using o2 createCredentials_frame [of s2 ?r] 3 by (auto intro: same_objects_trans)
  have m1: "emits P (rs_world s) (rs_world s1)"
    using configureAPIS_calls [of P s r] apis 1 by (simp add: ref_emits_def)
  have m2: "emits P (rs_world s1) (rs_world s2)"
    using configureServiceAccount_calls [of P s1 r "required_roles s1"] account iam o1 2
    by (simp add: ref_emits_def same_objects_def)
  have m3: "emits P (rs_world s2) (rs_world s3)"
    using createCredentials_calls [of P s2 r] account secret key o2 3
    by (simp add: ref_emits_def same_objects_def)
  have m4: "emits P (rs_world s3) (rs_world (snd (configure_console_access ?r s3)))"
    using configure_console_access_calls [of P s3 r] iam o3 by (simp add: ref_emits_def same_objects_def)
  show ?thesis
    by (auto simp: EnsureProjectConfigured_def 1 2 3 ref_emits_def split: option.splits
        intro: m1 emits_trans [OF m1] m2 emits_trans [OF m1 emits_trans [OF m2]] m3
          emits_trans [OF m1 emits_trans [OF m2 emits_trans [OF m3]]] m4)
qed

lemma EnsureProjectConfigured_frame: "same_objects s (snd (EnsureProjectConfigured r s))"
proof -
  obtain e1 s1 where 1: "configureAPIS r s = (e1, s1)" by fastforce
  obtain res2 e2 s2 where 2: "configureServiceAccount r (required_roles s1) s1 = ((res2, e2), s2)"
    by (metis prod.exhaust)
  obtain res3 e3 s3 where 3: "createCredentials r s2 = ((res3, e3), s3)" by (metis prod.exhaust)
  have o1: "same_objects s s1" using configureAPIS_frame [of s r] 1 by simp
  have o2: "same_objects s s2"
    using o1 configureServiceAccount_frame [of s1 r "required_roles s1"] 2 by (auto intro: same_objects_trans)
  have o3: "same_objects s s3"
    using o2 createCredentials_frame [of s2 r] 3 by (auto intro: same_objects_trans)
  show ?thesis
    using o1 o2 o3 same_objects_trans [OF o3 configure_console_access_frame [of s3 r]]
    by (auto simp: EnsureProjectConfigured_def 1 2 3 split: option.splits)
qed

subsection \<open>The other operations\<close>

lemma EnsureProjectReferenceInitialized_calls:
  assumes "\<And>x e. pr_State x = pr_State (rs_reference s) \<Longrightarrow> P (CallStatusReference x, e)"
  shows "ref_emits P s (EnsureProjectReferenceInitialized (traced_reference r) s)"
  using assms by (auto simp: EnsureProjectReferenceInitialized_def reference_StatusUpdate_def
      ref_status_update_def ref_trace_defs split: prod.splits option.splits)

lemma EnsureProjectReferenceInitialized_goes_on:
  "goes_on (fst (EnsureProjectReferenceInitialized r s)) \<longleftrightarrow> pr_Conditions (rs_reference s) \<noteq> None"
  by (auto simp: EnsureProjectReferenceInitialized_def split: prod.splits option.splits)

lemma EnsureProjectReferenceInitialized_same:
  "goes_on (fst (EnsureProjectReferenceInitialized r s)) \<Longrightarrow> snd (EnsureProjectReferenceInitialized r s) = s"
  by (auto simp: EnsureProjectReferenceInitialized_def split: prod.splits option.splits)

lemma EnsureDeletionProcessed_goes_on:
  "goes_on (fst (EnsureDeletionProcessed r s)) \<longleftrightarrow> \<not> IsDeletionRequested s"
  by (auto simp: EnsureDeletionProcessed_def split: prod.splits option.splits)

lemma EnsureDeletionProcessed_same:
  "goes_on (fst (EnsureDeletionProcessed r s)) \<Longrightarrow> snd (EnsureDeletionProcessed r s) = s"
  by (auto simp: EnsureDeletionProcessed_def split: prod.splits option.splits if_splits)

lemma VerifyProjectClaimPending_goes_on:
  "goes_on (fst (VerifyProjectClaimPending r s)) \<longleftrightarrow> pc_State (rs_claim s) = ClaimStatusPendingProject"
  by (simp add: VerifyProjectClaimPending_def)

lemma VerifyProjectClaimPending_same [simp]: "snd (VerifyProjectClaimPending r s) = s"
  by (simp add: VerifyProjectClaimPending_def)

lemma EnsureProjectReferenceStatusCreating_calls:
  assumes "\<And>x e. pr_State (rs_reference s) = '''' \<Longrightarrow> pr_State x = ProjectReferenceStatusCreating \<Longrightarrow>
    P (CallStatusReference x, e)"
  shows "ref_emits P s (EnsureProjectReferenceStatusCreating (traced_reference r) s)"
  using assms by (auto simp: EnsureProjectReferenceStatusCreating_def ref_status_update_def set_ref_state_def
      ref_trace_defs split: prod.splits option.splits)

lemma EnsureProjectReferenceStatusCreating_goes_on:
  "goes_on (fst (EnsureProjectReferenceStatusCreating r s)) \<longleftrightarrow> pr_State (rs_reference s) \<noteq> ''''"
  by (auto simp: EnsureProjectReferenceStatusCreating_def split: prod.splits option.splits)

lemma EnsureProjectReferenceStatusCreating_same:
  "goes_on (fst (EnsureProjectReferenceStatusCreating r s)) \<Longrightarrow>
     snd (EnsureProjectReferenceStatusCreating r s) = s"
  by (auto simp: EnsureProjectReferenceStatusCreating_def split: prod.splits option.splits if_splits)

lemma EnsureProjectID_calls:
  assumes "\<And>x e. reference_project s = '''' \<Longrightarrow> pr_Meta x = pr_Meta (rs_reference s) \<Longrightarrow>
    P (CallUpdateReference x, e)"
  shows "ref_emits P s (EnsureProjectID (traced_reference r) s)"
  using assms by (auto simp: EnsureProjectID_def UpdateProjectID_def GenerateProjectID_def ref_update_def
      set_ref_spec_def ref_trace_defs split: prod.splits option.splits)

lemma EnsureProjectID_goes_on: "goes_on (fst (EnsureProjectID r s)) \<longleftrightarrow> reference_project s \<noteq> ''''"
  by (auto simp: EnsureProjectID_def split: prod.splits option.splits)

lemma EnsureProjectID_same: "goes_on (fst (EnsureProjectID r s)) \<Longrightarrow> snd (EnsureProjectID r s) = s"
  by (auto simp: EnsureProjectID_def split: prod.splits option.splits if_splits)

definition account_named :: "ProjectReference \<Rightarrow> bool" where
  "account_named reference \<longleftrightarrow> serviceNameAlreadyGenerated reference \<or> serviceNameAlreadyFilled reference"

lemma EnsureServiceAccountName_calls:
  assumes "\<And>x e. pr_Meta x = pr_Meta (rs_reference s) \<Longrightarrow> P (CallUpdateReference x, e)"
  shows "ref_emits P s (EnsureServiceAccountName (traced_reference r) s)"
  using assms by (auto simp: EnsureServiceAccountName_def UpdateServiceAccountName_def ref_update_def
      set_ref_spec_def ref_trace_defs split: prod.splits option.splits)

lemma EnsureServiceAccountName_goes_on:
  "goes_on (fst (EnsureServiceAccountName r s)) \<longleftrightarrow> account_named (rs_reference s)"
  by (auto simp: EnsureServiceAccountName_def account_named_def split: prod.splits option.splits)

lemma EnsureServiceAccountName_same:
  "goes_on (fst (EnsureServiceAccountName r s)) \<Longrightarrow> snd (EnsureServiceAccountName r s) = s"
  by (auto simp: EnsureServiceAccountName_def split: prod.splits option.splits if_splits)

lemma EnsureFinalizerAdded_calls:
  assumes "\<And>x e. set (om_Finalizers (pr_Meta x)) = insert FinalizerName (set (reference_finalizers s)) \<Longrightarrow>
    P (CallUpdateReference x, e)"
  shows "ref_emits P s (EnsureFinalizerAdded (traced_reference r) s)"
  using assms by (auto simp: EnsureFinalizerAdded_def ref_update_def set_ref_finalizers_def
      ref_trace_defs split: prod.splits)

lemma EnsureFinalizerAdded_goes_on:
  "goes_on (fst (EnsureFinalizerAdded r s)) \<longleftrightarrow> FinalizerName \<in> set (reference_finalizers s)"
  by (auto simp: EnsureFinalizerAdded_def split: prod.splits)

lemma EnsureFinalizerAdded_same:
  "goes_on (fst (EnsureFinalizerAdded r s)) \<Longrightarrow> snd (EnsureFinalizerAdded r s) = s"
  by (auto simp: EnsureFinalizerAdded_def split: prod.splits if_splits)

lemma EnsureStateReady_calls:
  assumes "\<And>x e. pr_State x = ProjectReferenceStatusReady \<Longrightarrow> P (CallStatusReference x, e)"
  shows "ref_emits P s (EnsureStateReady (traced_reference r) s)"
  using assms by (auto simp: EnsureStateReady_def ref_status_update_def set_ref_state_def
      ref_trace_defs split: prod.splits)


lemma ref_set_condition_sel [simp]:
  "rs_claim (ref_set_condition r t st reason m s) = rs_claim s"
  "pr_State (rs_reference (ref_set_condition r t st reason m s)) = pr_State (rs_reference s)"
  "pr_Meta (rs_reference (ref_set_condition r t st reason m s)) = pr_Meta (rs_reference s)"
  "pr_Spec (rs_reference (ref_set_condition r t st reason m s)) = pr_Spec (rs_reference s)"
  by (auto simp: ref_set_condition_def on_world_def split: prod.splits)

lemma ref_set_condition_log [simp]:
  "snd (rs_world (ref_set_condition (traced_reference r) t st reason m s)) = snd (rs_world s)"
  by (auto simp: ref_set_condition_def on_world_def trace_simps untraced_def split: prod.splits)

lemma reference_StatusUpdate_log:
  "snd (rs_world (snd (reference_StatusUpdate (traced_reference r) s))) = snd (rs_world s) @
     [(CallStatusReference (rs_reference s), fst (ref_status_update (traced_reference r) s))]"
  by (auto simp: reference_StatusUpdate_def ref_status_update_def record_call_def trace_simps
      split: prod.splits option.splits)

lemma reference_StatusUpdate_claim [simp]: "rs_claim (snd (reference_StatusUpdate r s)) = rs_claim s"
  by (auto simp: reference_StatusUpdate_def ref_status_update_def split: prod.splits option.splits)

text \<open>The error of a query for zones: one status write at most, and the claim is kept.\<close>

lemma handleAvailabilityZonesError_calls:
  assumes "\<And>x e. pr_State x = pr_State (rs_reference s) \<Longrightarrow> P (CallStatusReference x, e)"
  shows "ref_emits P s (handleAvailabilityZonesError (traced_reference r) err s)"
proof -
  let ?r = "traced_reference r"
  obtain cs i found where f: "cm_FindCondition (ra_conditionManager ?r) (pr_Conditions (rs_reference s))
      ConditionComputeApiReady = (cs, i, found)" by (metis prod_cases3)
  let ?s1 = "s\<lparr>rs_reference := set_reference_conditions cs (rs_reference s)\<rparr>"
  obtain now s2 where n: "on_world (env_Now (ra_env ?r)) ?s1 = (now, s2)" by fastforce
  have s2: "snd (rs_world s2) = snd (rs_world s)" "rs_reference s2 = rs_reference ?s1"
    using n by (auto simp: on_world_def trace_simps untraced_def split: prod.splits)
  obtain u s3 where u: "reference_StatusUpdate ?r (zones_not_ready ?r s2) = (u, s3)" by fastforce
  have "emits P (rs_world s) (rs_world (snd (reference_StatusUpdate ?r (zones_not_ready ?r s2))))"
    using assms by (simp add: emits_def reference_StatusUpdate_log zones_not_ready_def s2)
  then show ?thesis
    by (simp add: handleAvailabilityZonesError_def f [simplified] n [simplified] u ref_emits_def Let_def
        split: option.splits)
qed

lemma handleAvailabilityZonesError_goes_on [simp]: "\<not> goes_on (fst (handleAvailabilityZonesError r e s))"
  by (auto simp: handleAvailabilityZonesError_def Let_def split: prod.splits option.splits)

lemma ensureClaimAvailabilityZonesSet_calls:
  assumes "\<And>p z e. P (GcpListAvailabilityZones p z, e)"
    and "\<And>x e. pr_State x = pr_State (rs_reference s) \<Longrightarrow> P (CallStatusReference x, e)"
    and "\<And>x e. P (CallUpdateClaim x, e)"
  shows "ref_emits P s (ensureClaimAvailabilityZonesSet (traced_reference r) s)"
proof -
  let ?r = "traced_reference r"
  obtain x s1 where l: "on_world (g_ListAvailabilityZones (ra_gcpClient ?r) (reference_project s)
      (pcs_Region (pc_Spec (rs_claim s)))) s = (x, s1)" by fastforce
  have 1: "emits P (rs_world s) (rs_world s1)"
    using l assms(1) on_world_record_emitsD [of _ _ _ s x s1 P "()"] by (simp add: trace_simps ref_emits_def)
  have "same_objects s s1" using l by (rule same_objects_on_worldD)
  then have 2: "emits P (rs_world s1) (rs_world (snd (handleAvailabilityZonesError ?r e s1)))" for e
    using handleAvailabilityZonesError_calls [of s1 P r e] assms(2)
    by (simp add: ref_emits_def same_objects_def)
  have 3: "emits P (rs_world s1) (rs_world s3)"
    if "ref_update_claim ?r s2 = (e, s3)" "snd (rs_world s2) = snd (rs_world s1)" for s2 e s3
    using that assms(3) by (auto simp: ref_update_claim_def record_call_def trace_simps emits_def
        split: prod.splits)
  show ?thesis
    using l by (auto simp: ensureClaimAvailabilityZonesSet_def ref_emits_def Let_def
        intro: emits_trans [OF 1 2] emits_trans [OF 1 3] split: prod.splits sum.splits option.splits)
qed

lemma ensureClaimAvailabilityZonesSet_goes_on:
  "goes_on (fst (ensureClaimAvailabilityZonesSet r s)) \<longleftrightarrow>
     pcs_AvailabilityZones (pc_Spec (rs_claim s)) \<noteq> []"
  by (auto simp: ensureClaimAvailabilityZonesSet_def Let_def split: prod.splits sum.splits option.splits)

lemma ensureClaimAvailabilityZonesSet_same:
  "goes_on (fst (ensureClaimAvailabilityZonesSet r s)) \<Longrightarrow>
     ensureClaimAvailabilityZonesSet r s = (ContinueProcessing, s)"
  by (auto simp: ensureClaimAvailabilityZonesSet_goes_on) (simp add: ensureClaimAvailabilityZonesSet_def)

text \<open>What follows once the zones are known: the claim is given its project and made ready.\<close>

definition finish_claim :: "'w ReferenceAdapter \<Rightarrow> ('w reference_state, outcome) effect" where
  "finish_claim r s =
     (case ensureClaimProjectIDSet s of
        (idModified, s2) \<Rightarrow>
          if idModified
          then
            (case ref_update_claim r s2 of
               (Some e', s3) \<Rightarrow>
                 (RequeueWithError (Wrap (reference_caller 150 ''EnsureProjectClaimReady'') (Some e')
                    ''error updating ProjectClaim spec''), s3)
             | (None, s3) \<Rightarrow> mark_claim_ready r s3)
          else mark_claim_ready r s2)"

lemma EnsureProjectClaimReady_cases:
  "EnsureProjectClaimReady r s =
     (if pr_State (rs_reference s) \<noteq> ProjectReferenceStatusReady then (ContinueProcessing, s)
      else if pc_State (rs_claim s) = ClaimStatusReady then (StopProcessing, s)
      else if pcs_AvailabilityZones (pc_Spec (rs_claim s)) = [] then ensureClaimAvailabilityZonesSet r s
      else finish_claim r s)"
proof (cases "pcs_AvailabilityZones (pc_Spec (rs_claim s)) = []")
  case True
  then have "\<not> goes_on (fst (ensureClaimAvailabilityZonesSet r s))"
    by (simp add: ensureClaimAvailabilityZonesSet_goes_on)
  with True show ?thesis
    by (auto simp: EnsureProjectClaimReady_def goes_on_def split: prod.splits)
next
  case False
  then have "ensureClaimAvailabilityZonesSet r s = (ContinueProcessing, s)"
    by (simp add: ensureClaimAvailabilityZonesSet_def)
  with False show ?thesis
    by (simp add: EnsureProjectClaimReady_def finish_claim_def ContinueProcessing_def
        ContinueOperationResult_def RequeueOrCancel_def)
qed

lemma finish_claim_goes_on [simp]: "\<not> goes_on (fst (finish_claim r s))"
  by (auto simp: finish_claim_def mark_claim_ready_def split: prod.splits option.splits)

lemma finish_claim_calls:
  assumes "\<And>x e. P (CallUpdateClaim x, e)"
    and "\<And>x e. pc_State x = ClaimStatusReady \<Longrightarrow> P (CallStatusClaim x, e)"
  shows "ref_emits P s (finish_claim (traced_reference r) s)"
  using assms by (auto simp: finish_claim_def mark_claim_ready_def ensureClaimProjectIDSet_def
      ref_update_claim_def ref_status_update_claim_def ref_trace_defs split: prod.splits option.splits)

lemma EnsureProjectClaimReady_goes_on:
  "goes_on (fst (EnsureProjectClaimReady r s)) \<longleftrightarrow> pr_State (rs_reference s) \<noteq> ProjectReferenceStatusReady"
  by (simp add: EnsureProjectClaimReady_cases ensureClaimAvailabilityZonesSet_goes_on)

lemma EnsureProjectClaimReady_same:
  "goes_on (fst (EnsureProjectClaimReady r s)) \<Longrightarrow> snd (EnsureProjectClaimReady r s) = s"
  by (simp add: EnsureProjectClaimReady_goes_on) (simp add: EnsureProjectClaimReady_cases)

lemma EnsureProjectClaimReady_calls:
  assumes "\<And>p z e. P (GcpListAvailabilityZones p z, e)"
    and "\<And>x e. pr_State x = pr_State (rs_reference s) \<Longrightarrow> P (CallStatusReference x, e)"
    and "\<And>x e. P (CallUpdateClaim x, e)"
    and "\<And>x e. pcs_AvailabilityZones (pc_Spec (rs_claim s)) \<noteq> [] \<Longrightarrow> pc_State (rs_claim s) \<noteq> ClaimStatusReady \<Longrightarrow>
      pc_State x = ClaimStatusReady \<Longrightarrow> P (CallStatusClaim x, e)"
  shows "ref_emits P s (EnsureProjectClaimReady (traced_reference r) s)"
  using ensureClaimAvailabilityZonesSet_calls [of P s r] finish_claim_calls [of P s r] assms
  by (auto simp: EnsureProjectClaimReady_cases)


subsection \<open>Cleaning up, in phases\<close>

text \<open>
  The errors a clean-up may run into and still succeed: the service account is already gone,
  the secret cannot be read (any error of that read counts as absence), or the policy was
  changed concurrently and the write is tried again.
\<close>

fun tolerated :: "event \<Rightarrow> bool" where
  "tolerated (call, None) = True"
| "tolerated (GcpGetServiceAccount n, Some e) = matchesNotFoundError e"
| "tolerated (CallGetSecret nn, Some e) = True"
| "tolerated (GcpSetIamPolicy p, Some e) = (google_code e = Some StatusConflict)"
| "tolerated (call, Some e) = False"

text \<open>A phase: its calls are of one kind, and if it succeeds it met tolerated errors only.\<close>

definition phase :: "(event \<Rightarrow> bool) \<Rightarrow> 'w traced reference_state \<Rightarrow> err option \<times> 'w traced reference_state \<Rightarrow> bool" where
  "phase P s x \<longleftrightarrow> (\<exists>l. snd (rs_world (snd x)) = snd (rs_world s) @ l \<and> list_all P l \<and>
     (fst x = None \<longrightarrow> list_all tolerated l))"

lemma phaseI:
  "ref_emits P s x \<Longrightarrow> (fst x = None \<Longrightarrow> ref_emits tolerated s x) \<Longrightarrow> phase P s x"
  by (auto simp: phase_def ref_emits_def emits_def)

lemma phase_mono: "phase P s x \<Longrightarrow> (\<And>ev. P ev \<Longrightarrow> Q ev) \<Longrightarrow> phase Q s x"
  unfolding phase_def by (metis (no_types, lifting) list.pred_mono_strong)

lemma phase_none: "phase P s (e, s)"
  by (simp add: phase_def)

lemma DeleteIAMPolicy_tolerated:
  assumes "fst (DeleteIAMPolicy (traced_reference r) email mt s) = None"
  shows "ref_emits tolerated s (DeleteIAMPolicy (traced_reference r) email mt s)"
proof -
  let ?r = "traced_reference r"
  let ?Q = "\<lambda>(retry :: nat) s x. fst x = None \<longrightarrow> ref_emits tolerated s x"
  have ok: "ref_emits tolerated s (y, s')"
    if "on_world (record_call c ef f) s = (x, s')" "tolerated (c, ef x)"
    for c s s' and ef :: "'b \<Rightarrow> err option" and f x and y :: "err option"
    using that by (rule on_world_record_emitsD)
  have "?Q 0 s (DeleteIAMPolicy_loop ?r email mt 0 s)"
  proof (rule DeleteIAMPolicy_loop_rule [where Q = ?Q])
    fix retry s p s1 bs e s2 and x :: "err option \<times> 'a traced reference_state"
    assume a: "on_world (g_GetIamPolicy (ra_gcpClient ?r) (reference_project s)) s = (Inr p, s1)"
      and w: "on_world (g_SetIamPolicy (ra_gcpClient ?r) (p\<lparr>pol_Bindings := bs\<rparr>)) s1 = (Inl e, s2)"
      and c: "google_code e = Some StatusConflict" and x: "?Q (Suc retry) (ref_sleep ?r Second s2) x"
    have 1: "ref_emits tolerated s ((), s1)" "ref_emits tolerated s1 ((), s2)"
      using a w c by (auto simp: trace_simps intro!: on_world_record_emitsD)
    have 2: "ref_emits tolerated s2 ((), ref_sleep ?r Second s2)" by simp
    show "?Q retry s x"
      using x ref_emits_bind [OF 1(1) ref_emits_bind [OF 1(2) ref_emits_bind [OF 2]]] by blast
  next
    fix retry s p s1 bs
    assume a: "on_world (g_GetIamPolicy (ra_gcpClient ?r) (reference_project s)) s = (Inr p, s1)"
    then show "?Q retry s (None, s1)" by (auto simp: trace_simps intro!: on_world_record_emitsD)
  next
    fix retry s p s1 bs q s2
    assume a: "on_world (g_GetIamPolicy (ra_gcpClient ?r) (reference_project s)) s = (Inr p, s1)"
      and w: "on_world (g_SetIamPolicy (ra_gcpClient ?r) (p\<lparr>pol_Bindings := bs\<rparr>)) s1 = (Inr q, s2)"
    have "ref_emits tolerated s ((), s1)" "ref_emits tolerated s1 (None :: err option, s2)"
      using a w by (auto simp: trace_simps intro!: on_world_record_emitsD)
    then show "?Q retry s (None, s2)" by (auto intro: ref_emits_bind)
  qed simp_all
  with assms show ?thesis by (simp add: DeleteIAMPolicy_def)
qed

definition account_event :: "string \<Rightarrow> string \<Rightarrow> event \<Rightarrow> bool" where
  "account_event account project ev \<longleftrightarrow>
     fst ev \<in> {GcpGetServiceAccount account, GcpGetIamPolicy project} \<or>
     (\<exists>p. fst ev = GcpSetIamPolicy p) \<or> (\<exists>email. fst ev = GcpDeleteServiceAccount email)"

definition project_event :: "string \<Rightarrow> event \<Rightarrow> bool" where
  "project_event project ev \<longleftrightarrow> fst ev \<in> {GcpListProjects, GcpDeleteProject project}"

definition iam_event :: "string \<Rightarrow> event \<Rightarrow> bool" where
  "iam_event project ev \<longleftrightarrow> fst ev = GcpGetIamPolicy project \<or> (\<exists>p. fst ev = GcpSetIamPolicy p)"

definition credentials_event :: "'w kube_client \<Rightarrow> NamespacedName \<Rightarrow> event \<Rightarrow> bool" where
  "credentials_event K nn ev \<longleftrightarrow> fst ev = CallGetSecret nn \<or>
     (\<exists>x w w'. fst ev = CallDeleteSecret x \<and> k_GetSecret K nn w = (Inr x, w'))"

definition release_event :: "ProjectReference \<Rightarrow> event \<Rightarrow> bool" where
  "release_event reference ev \<longleftrightarrow>
     fst ev = CallUpdateReference (reference\<lparr>pr_Meta := (pr_Meta reference)\<lparr>om_Finalizers :=
       Filter (om_Finalizers (pr_Meta reference)) FinalizerName\<rparr>\<rparr>)"

lemma deleteServiceAccount_phase:
  "phase (account_event (reference_account s) (reference_project s)) s (deleteServiceAccount (traced_reference r) s)"
proof -
  let ?r = "traced_reference r" and ?P = "account_event (reference_account s) (reference_project s)"
  obtain x s1 where g: "on_world (g_GetServiceAccount (ra_gcpClient ?r) (reference_account s)) s = (x, s1)"
    by fastforce
  have g1: "emits ?P (rs_world s) (rs_world s1)"
    using g on_world_record_emitsD [of _ _ _ s x s1 ?P "()"] by (simp add: trace_simps ref_emits_def account_event_def)
  show ?thesis
  proof (cases x)
    case (Inl e)
    have "emits tolerated (rs_world s) (rs_world s1)" if "matchesNotFoundError e"
      using g Inl that on_world_record_emitsD [of _ _ _ s x s1 tolerated "()"]
      by (simp add: trace_simps ref_emits_def)
    with g g1 Inl show ?thesis
      by (intro phaseI) (auto simp: deleteServiceAccount_def ref_emits_def)
  next
    case (Inr sa)
    obtain e2 s2 where d: "DeleteIAMPolicy ?r (sa_Email sa) ServiceAccount s1 = (e2, s2)" by fastforce
    obtain e3 s3 where k: "on_world (g_DeleteServiceAccount (ra_gcpClient ?r) (sa_Email sa)) s2 = (e3, s3)"
      by fastforce
    have objs: "same_objects s s1" using g by (rule same_objects_on_worldD)
    have g2: "emits tolerated (rs_world s) (rs_world s1)"
      using g Inr on_world_record_emitsD [of _ _ _ s x s1 tolerated "()"] by (simp add: trace_simps ref_emits_def)
    have d1: "emits ?P (rs_world s1) (rs_world s2)"
      using DeleteIAMPolicy_calls [of ?P s1 r "sa_Email sa" ServiceAccount] objs d
      by (simp add: account_event_def same_objects_def ref_emits_def)
    have d2: "e2 = None \<Longrightarrow> emits tolerated (rs_world s1) (rs_world s2)"
      using DeleteIAMPolicy_tolerated [of r "sa_Email sa" ServiceAccount s1] d by (simp add: ref_emits_def)
    have k1: "emits ?P (rs_world s2) (rs_world s3)"
      using k on_world_record_emitsD [of _ _ _ s2 e3 s3 ?P "()"] by (simp add: trace_simps ref_emits_def account_event_def)
    have k2: "e3 = None \<Longrightarrow> emits tolerated (rs_world s2) (rs_world s3)"
      using k on_world_record_emitsD [of _ _ _ s2 e3 s3 tolerated "()"] by (simp add: trace_simps ref_emits_def)
    show ?thesis
      using g Inr d k
      by (intro phaseI) (auto simp: deleteServiceAccount_def ref_emits_def split: option.splits if_splits
          intro: emits_trans [OF g1 d1] emits_trans [OF g1 emits_trans [OF d1 k1]]
            emits_trans [OF g2 emits_trans [OF d2 k2]])
  qed
qed

lemma getProject_is: "getProject r p s = (Inr (Some x), s') \<Longrightarrow> p_ProjectId x = p"
proof -
  have "\<forall>q x. convertProjectsToMap ps q = Some x \<longrightarrow> p_ProjectId x = q" for ps
    unfolding convertProjectsToMap_def by (induction ps rule: rev_induct) (auto split: if_splits)
  then show "getProject r p s = (Inr (Some x), s') \<Longrightarrow> p_ProjectId x = p"
    by (auto simp: getProject_def split: prod.splits sum.splits)
qed

lemma deleteProject_phase:
  "phase (project_event (reference_project s)) s (deleteProject (traced_reference r) s)"
proof -
  let ?r = "traced_reference r" and ?P = "project_event (reference_project s)"
  obtain x s1 where g: "getProject ?r (reference_project s) s = (x, s1)" by fastforce
  have log: "\<exists>e. snd (rs_world s1) = snd (rs_world s) @ [(GcpListProjects, e)] \<and> ((\<exists>y. x = Inr y) \<longrightarrow> e = None)"
    using g by (auto simp: getProject_def ref_trace_defs split: prod.splits sum.splits)
  have del: "snd (rs_world (snd (on_world (g_DeleteProject (ra_gcpClient ?r) p) s1))) = snd (rs_world s1) @
      [(GcpDeleteProject p, fst (on_world (g_DeleteProject (ra_gcpClient ?r) p) s1))]" for p
    by (auto simp: ref_trace_defs split: prod.splits)
  show ?thesis
  proof (cases x)
    case (Inl e)
    with log show ?thesis by (auto simp: deleteProject_def g phase_def project_event_def)
  next
    case (Inr y)
    show ?thesis
    proof (cases y)
      case None
      with Inr log show ?thesis by (auto simp: deleteProject_def g phase_def project_event_def)
    next
      case (Some project)
      with g Inr have "p_ProjectId project = reference_project s" by (auto dest: getProject_is)
      with Inr Some log del [of "reference_project s"] show ?thesis
        by (auto simp: deleteProject_def g phase_def project_event_def lifecycle_error_def)
    qed
  qed
qed


lemma deleteProject_frame: "same_objects s (snd (deleteProject r s))"
  using getProject_frame [of s r "reference_project s"]
  by (auto simp: deleteProject_def lifecycle_error_def dest: same_objects_on_worldD
      split: prod.splits sum.splits option.splits intro: same_objects_trans [OF _ same_objects_on_world])

lemma deleteServiceAccount_frame: "same_objects s (snd (deleteServiceAccount r s))"
  by (auto simp: deleteServiceAccount_def split: prod.splits sum.splits option.splits)
    (metis DeleteIAMPolicy_frame same_objects_on_world same_objects_trans snd_conv)+

lemma delete_group_policies_frame: "same_objects s (snd (delete_group_policies r emails s))"
proof (induction emails arbitrary: s)
  case (Cons email emails)
  then show ?case
    by (auto split: prod.splits option.splits)
      (metis DeleteIAMPolicy_frame same_objects_trans snd_conv)+
qed simp

lemma phase_seq:
  assumes "phase P s (e1, s1)" and "e1 = None \<Longrightarrow> phase P s1 x"
  shows "phase P s (case e1 of Some e \<Rightarrow> (Some e, s1) | None \<Rightarrow> x)"
  using assms by (auto simp: phase_def split: option.splits)

lemma delete_group_policies_phase:
  "phase (iam_event (reference_project s)) s (delete_group_policies (traced_reference r) emails s)"
proof (induction emails arbitrary: s)
  case (Cons email emails)
  let ?P = "iam_event (reference_project s)"
  obtain e s1 where d: "DeleteIAMPolicy (traced_reference r) email GoogleGroup s = (e, s1)" by fastforce
  have "phase ?P s (e, s1)"
    unfolding d [symmetric]
    by (intro phaseI DeleteIAMPolicy_calls DeleteIAMPolicy_tolerated) (auto simp: iam_event_def)
  moreover have "same_objects s s1" using DeleteIAMPolicy_frame [of s _ email GoogleGroup] d by (metis snd_conv)
  then have "phase ?P s1 (delete_group_policies (traced_reference r) emails s1)"
    using Cons [of s1] by (simp add: same_objects_def)
  ultimately show ?case by (simp add: d phase_seq)
qed (simp add: phase_none)

lemma ensureCCSProjectCleanedUp_phase:
  "phase (iam_event (reference_project s)) s (ensureCCSProjectCleanedUp (traced_reference r) ccs s)"
proof -
  let ?r = "traced_reference r"
  obtain e s1 where d: "delete_group_policies ?r (oc_CCSConsoleAccess (ra_OperatorConfig r)) s = (e, s1)"
    by fastforce
  then have "same_objects s s1" by (metis delete_group_policies_frame snd_conv)
  then have "phase (iam_event (reference_project s)) s1
      (delete_group_policies ?r (oc_CCSReadOnlyConsoleAccess (ra_OperatorConfig r)) s1)"
    using delete_group_policies_phase [of s1 r] by (simp add: same_objects_def)
  moreover have "phase (iam_event (reference_project s)) s (e, s1)"
    using delete_group_policies_phase [of s r "oc_CCSConsoleAccess (ra_OperatorConfig r)"] d by simp
  ultimately show ?thesis
    by (simp add: ensureCCSProjectCleanedUp_def d phase_seq phase_none)
qed

lemma ensureCCSProjectCleanedUp_frame: "same_objects s (snd (ensureCCSProjectCleanedUp r ccs s))"
  by (auto simp: ensureCCSProjectCleanedUp_def split: prod.splits option.splits)
    (metis delete_group_policies_frame same_objects_trans snd_conv)+

lemma deleteCredentials_phase:
  "phase (credentials_event (ra_kubeClient r) (credentials_of s)) s (deleteCredentials (traced_reference r) s)"
  by (auto simp: deleteCredentials_def phase_def credentials_event_def SecretExists_def GetSecret_def Let_def
      on_world_def record_call_def trace_simps split: prod.splits sum.splits bool.splits option.splits) blast+

lemma deleteCredentials_frame: "same_objects s (snd (deleteCredentials r s))"
  by (auto simp: deleteCredentials_def Let_def on_world_def same_objects_def
      split: prod.splits sum.splits bool.splits option.splits)

lemma EnsureFinalizerDeleted_phase:
  "phase (release_event (rs_reference s)) s (EnsureFinalizerDeleted (traced_reference r) s)"
  by (auto simp: EnsureFinalizerDeleted_def phase_def release_event_def ref_update_def set_ref_finalizers_def
      record_call_def trace_simps split: prod.splits)

text \<open>The project is looked at only when it is the operator's, console access only when it is not.\<close>

definition owned_project_event :: "'w reference_state \<Rightarrow> event \<Rightarrow> bool" where
  "owned_project_event s ev \<longleftrightarrow> \<not> isCCS s \<and> project_event (reference_project s) ev"

definition console_event :: "'w reference_state \<Rightarrow> event \<Rightarrow> bool" where
  "console_event s ev \<longleftrightarrow> isCCS s \<and> iam_event (reference_project s) ev"

lemma cleanup_project_phase:
  "phase (owned_project_event s) s (cleanup_project (traced_reference r) s)"
  by (auto simp: cleanup_project_def phase_none owned_project_event_def intro: phase_mono [OF deleteProject_phase])

lemma console_phase:
  "phase (console_event s) s (ensureCCSProjectCleanedUp (traced_reference r) (isCCS s) s)"
proof (cases "isCCS s")
  case True
  then show ?thesis by (auto simp: console_event_def intro: phase_mono [OF ensureCCSProjectCleanedUp_phase])
next
  case False
  then show ?thesis by (simp add: ensureCCSProjectCleanedUp_def phase_none)
qed

lemma cleanup_project_frame: "same_objects s (snd (cleanup_project r s))"
  using deleteProject_frame [of s r] by (simp add: cleanup_project_def)

text \<open>
  The whole clean-up: five phases, one after the other, each entered only when the ones before
  it met nothing but tolerated errors.
\<close>

definition in_phases :: "(event \<Rightarrow> bool) list \<Rightarrow> event list \<Rightarrow> bool" where
  "in_phases Ps evs \<longleftrightarrow> (\<exists>ls. length ls = length Ps \<and> evs = concat ls \<and> list_all2 list_all Ps ls \<and>
     (\<forall>i < length ls. concat (drop (Suc i) ls) \<noteq> [] \<longrightarrow> list_all tolerated (ls ! i)))"

lemma in_phases_Nil_events: "in_phases Ps []"
  unfolding in_phases_def
  by (rule exI [of _ "replicate (length Ps) []"])
    (auto simp: list_all2_conv_all_nth simp flip: map_replicate_const)

lemma in_phases_Cons:
  assumes "list_all P l" and "in_phases Ps evs" and "evs \<noteq> [] \<Longrightarrow> list_all tolerated l"
  shows "in_phases (P # Ps) (l @ evs)"
proof -
  from assms(2) obtain ls where ls: "length ls = length Ps" "evs = concat ls" "list_all2 list_all Ps ls"
    "\<And>i. i < length ls \<Longrightarrow> concat (drop (Suc i) ls) \<noteq> [] \<Longrightarrow> list_all tolerated (ls ! i)"
    by (auto simp: in_phases_def)
  have "concat (drop (Suc i) (l # ls)) \<noteq> [] \<longrightarrow> list_all tolerated ((l # ls) ! i)"
    if "i < length (l # ls)" for i
    using that assms(3) ls by (cases i) auto
  with ls assms(1) show ?thesis
    unfolding in_phases_def by (intro exI [of _ "l # ls"]) simp
qed

lemma phase_then:
  assumes "phase P s (e1, s1)"
    and "e1 = None \<Longrightarrow> \<exists>evs. snd (rs_world (snd x)) = snd (rs_world s1) @ evs \<and> in_phases Ps evs"
  shows "\<exists>evs. snd (rs_world (snd (case e1 of Some e \<Rightarrow> (Some e, s1) | None \<Rightarrow> x))) = snd (rs_world s) @ evs \<and>
    in_phases (P # Ps) evs"
proof (cases e1)
  case None
  from assms(2) [OF None] obtain evs where
    e: "snd (rs_world (snd x)) = snd (rs_world s1) @ evs" "in_phases Ps evs" by blast
  from assms(1) None obtain l where
    l: "snd (rs_world s1) = snd (rs_world s) @ l" "list_all P l" "list_all tolerated l"
    by (auto simp: phase_def)
  from in_phases_Cons [OF l(2) e(2)] l e None show ?thesis by auto
next
  case (Some e)
  from assms(1) obtain l where l: "snd (rs_world s1) = snd (rs_world s) @ l" "list_all P l"
    by (auto simp: phase_def)
  from in_phases_Cons [OF l(2) in_phases_Nil_events, of Ps] l Some show ?thesis by auto
qed

lemma phase_last: "phase P s x \<Longrightarrow> \<exists>evs. snd (rs_world (snd x)) = snd (rs_world s) @ evs \<and> in_phases [P] evs"
  using in_phases_Cons [OF _ in_phases_Nil_events, of P _ "[]"] by (fastforce simp: phase_def)

lemma EnsureProjectCleanedUp_phases:
  "\<exists>evs. snd (rs_world (snd (EnsureProjectCleanedUp (traced_reference r) s))) = snd (rs_world s) @ evs \<and>
     in_phases [account_event (reference_account s) (reference_project s), owned_project_event s,
       console_event s, credentials_event (ra_kubeClient r) (credentials_of s), release_event (rs_reference s)] evs"
proof -
  let ?r = "traced_reference r"
  obtain e1 s1 where 1: "deleteServiceAccount ?r s = (e1, s1)" by fastforce
  obtain e2 s2 where 2: "cleanup_project ?r s1 = (e2, s2)" by fastforce
  obtain e3 s3 where 3: "ensureCCSProjectCleanedUp ?r (isCCS s2) s2 = (e3, s3)" by fastforce
  obtain e4 s4 where 4: "deleteCredentials ?r s3 = (e4, s4)" by fastforce
  have o1: "same_objects s s1" by (metis 1 deleteServiceAccount_frame snd_conv)
  have o2: "same_objects s s2" by (metis 2 o1 cleanup_project_frame same_objects_trans snd_conv)
  have o3: "same_objects s s3" by (metis 3 o2 ensureCCSProjectCleanedUp_frame same_objects_trans snd_conv)
  have o4: "same_objects s s4" by (metis 4 o3 deleteCredentials_frame same_objects_trans snd_conv)
  have p1: "phase (account_event (reference_account s) (reference_project s)) s (e1, s1)"
    by (metis 1 deleteServiceAccount_phase)
  have p2: "phase (owned_project_event s) s1 (e2, s2)"
    using cleanup_project_phase [of s1 r] 2 o1
    by (simp add: same_objects_def owned_project_event_def [abs_def] isCCS_def)
  have p3: "phase (console_event s) s2 (e3, s3)"
    using console_phase [of s2 r] 3 o2 by (simp add: same_objects_def console_event_def [abs_def] isCCS_def)
  have p4: "phase (credentials_event (ra_kubeClient r) (credentials_of s)) s3 (e4, s4)"
    using deleteCredentials_phase [of r s3] 4 o3 by (simp add: same_objects_def)
  have p5: "phase (release_event (rs_reference s)) s4 (EnsureFinalizerDeleted ?r s4)"
    using EnsureFinalizerDeleted_phase [of s4 r] o4 by (simp add: same_objects_def)
  have eq: "EnsureProjectCleanedUp ?r s =
      (case e1 of Some e \<Rightarrow> (Some e, s1) | None \<Rightarrow>
       (case e2 of Some e \<Rightarrow> (Some e, s2) | None \<Rightarrow>
        (case e3 of Some e \<Rightarrow> (Some e, s3) | None \<Rightarrow>
         (case e4 of Some e \<Rightarrow> (Some e, s4) | None \<Rightarrow> EnsureFinalizerDeleted ?r s4))))"
    by (simp add: EnsureProjectCleanedUp_def 1 2 3 4 split: option.splits)
  show ?thesis
    unfolding eq by (intro phase_then p1 p2 p3 p4 phase_last p5)
qed


subsection \<open>The handler\<close>

definition ref_exits_with :: "outcome \<times> 's \<Rightarrow> (ctrl_Result \<times> err option) \<times> 's" where
  "ref_exits_with x = (handler_result (fst x), snd x)"

lemma ref_exits_with_simps [simp]:
  "snd (ref_exits_with x) = snd x" "ref_emits P s (ref_exits_with x) = ref_emits P s x"
  by (simp_all add: ref_exits_with_def ref_emits_def)

text \<open>What must hold of the objects for a run to get to the project itself.\<close>

definition ready_to_create :: "'w reference_state \<Rightarrow> bool" where
  "ready_to_create s \<longleftrightarrow>
     pr_Conditions (rs_reference s) \<noteq> None \<and> \<not> IsDeletionRequested s \<and>
     pr_State (rs_reference s) \<noteq> ProjectReferenceStatusReady \<and> pr_State (rs_reference s) \<noteq> '''' \<and>
     pc_State (rs_claim s) = ClaimStatusPendingProject \<and> reference_project s \<noteq> '''' \<and>
     account_named (rs_reference s) \<and> FinalizerName \<in> set (reference_finalizers s)"

lemmas reference_goes_on =
  EnsureProjectReferenceInitialized_goes_on EnsureProjectReferenceInitialized_same
  EnsureDeletionProcessed_goes_on EnsureDeletionProcessed_same
  EnsureProjectClaimReady_goes_on EnsureProjectClaimReady_same VerifyProjectClaimPending_goes_on
  EnsureProjectReferenceStatusCreating_goes_on EnsureProjectReferenceStatusCreating_same
  EnsureProjectID_goes_on EnsureProjectID_same EnsureServiceAccountName_goes_on
  EnsureServiceAccountName_same EnsureFinalizerAdded_goes_on EnsureFinalizerAdded_same

lemma reference_ReconcileHandler_cases:
  "reference_ReconcileHandler r s =
     (if pr_Conditions (rs_reference s) = None then ref_exits_with (EnsureProjectReferenceInitialized r s)
      else if IsDeletionRequested s then ref_exits_with (EnsureDeletionProcessed r s)
      else if pr_State (rs_reference s) = ProjectReferenceStatusReady
      then ref_exits_with (EnsureProjectClaimReady r s)
      else if pc_State (rs_claim s) \<noteq> ClaimStatusPendingProject
      then ref_exits_with (VerifyProjectClaimPending r s)
      else if pr_State (rs_reference s) = '''' then ref_exits_with (EnsureProjectReferenceStatusCreating r s)
      else if reference_project s = '''' then ref_exits_with (EnsureProjectID r s)
      else if \<not> account_named (rs_reference s) then ref_exits_with (EnsureServiceAccountName r s)
      else if FinalizerName \<notin> set (reference_finalizers s) then ref_exits_with (EnsureFinalizerAdded r s)
      else run_operations [EnsureProjectCreated r, EnsureProjectConfigured r, EnsureStateReady r] s)"
  by (simp add: reference_ReconcileHandler_def reference_operations_def ref_exits_with_def reference_goes_on)

definition cleanup_event :: "'v ReferenceAdapter \<Rightarrow> 'w reference_state \<Rightarrow> event \<Rightarrow> bool" where
  "cleanup_event r s ev \<longleftrightarrow>
     account_event (reference_account s) (reference_project s) ev \<or> owned_project_event s ev \<or>
     console_event s ev \<or> credentials_event (ra_kubeClient r) (credentials_of s) ev \<or>
     release_event (rs_reference s) ev"

lemma in_phases_all: "in_phases Ps evs \<Longrightarrow> (\<And>P ev. P \<in> set Ps \<Longrightarrow> P ev \<Longrightarrow> Q ev) \<Longrightarrow> list_all Q evs"
proof -
  assume "in_phases Ps evs" and Q: "\<And>P ev. P \<in> set Ps \<Longrightarrow> P ev \<Longrightarrow> Q ev"
  then obtain ls where "evs = concat ls" and all: "list_all2 list_all Ps ls" by (auto simp: in_phases_def)
  moreover have "\<forall>P\<in>set Ps. \<forall>ev. P ev \<longrightarrow> Q ev" using Q by blast
  with all have "list_all Q (concat ls)"
    by (induction Ps ls rule: list_all2_induct)
      (auto simp: list_all_iff split_paired_all simp del: split_paired_All)
  ultimately show ?thesis by simp
qed

lemma EnsureDeletionProcessed_calls:
  assumes "IsDeletionRequested s" and "\<And>ev. cleanup_event r s ev \<Longrightarrow> P ev"
  shows "ref_emits P s (EnsureDeletionProcessed (traced_reference r) s)"
proof -
  obtain evs where "snd (rs_world (snd (EnsureProjectCleanedUp (traced_reference r) s))) = snd (rs_world s) @ evs"
    and p: "in_phases [account_event (reference_account s) (reference_project s),
      owned_project_event s, console_event s,
      credentials_event (ra_kubeClient r) (credentials_of s), release_event (rs_reference s)] evs"
    using EnsureProjectCleanedUp_phases [of r s] by blast
  moreover have "list_all P evs"
    using p by (rule in_phases_all) (auto intro!: assms(2) simp: cleanup_event_def)
  ultimately show ?thesis
    using assms(1) by (auto simp: EnsureDeletionProcessed_def ref_emits_def emits_def
        split: prod.splits option.splits)
qed

text \<open>The last three operations: creating, configuring, becoming ready.\<close>

lemma reference_suffix_calls:
  assumes created: "\<And>ev. \<not> isCCS s \<Longrightarrow> fst ev = GcpListProjects \<or> (\<exists>f n. fst ev = GcpCreateProject f n) \<or>
      (\<exists>p a. fst ev = GcpCreateCloudBillingAccount p a) \<or>
      (\<exists>x. fst ev = CallUpdateReference x \<and> pr_Meta x = pr_Meta (rs_reference s)) \<or>
      (\<exists>x. fst ev = CallStatusReference x \<and> pr_State x = ProjectReferenceStatusError) \<Longrightarrow> P ev"
    and apis: "\<And>p e. P (GcpListAPIs p, e)" "\<And>p a e. P (GcpEnableAPI p a, e)"
    and account: "\<And>e. P (GcpGetServiceAccount (reference_account s), e)"
      "\<And>e. P (GcpCreateServiceAccount (reference_account s) (reference_account s), e)"
    and iam: "\<And>e. P (GcpGetIamPolicy (reference_project s), e)" "\<And>p e. P (GcpSetIamPolicy p, e)"
    and secret: "\<And>e. P (CallGetSecret (credentials_of s), e)"
      "\<And>x e. meta_key (s_Meta x) = credentials_of s \<Longrightarrow> P (CallCreateSecret x, e)"
    and key: "\<And>email e. P (GcpCreateServiceAccountKey email, e)"
    and ready: "\<And>x e. pr_State x = ProjectReferenceStatusReady \<Longrightarrow> P (CallStatusReference x, e)"
  shows "ref_emits P s (run_operations [EnsureProjectCreated (traced_reference r),
    EnsureProjectConfigured (traced_reference r), EnsureStateReady (traced_reference r)] s)"
proof -
  let ?r = "traced_reference r"
  have 1: "ref_emits P s (EnsureProjectCreated ?r s)"
    by (rule EnsureProjectCreated_calls) (use created apis in auto)
  have 2: "ref_emits P s' (EnsureProjectConfigured ?r s')" if "same_objects s s'" for s'
    by (rule EnsureProjectConfigured_calls)
      (use that apis account iam secret key in \<open>auto simp: same_objects_def\<close>)
  have 3: "ref_emits P s' (EnsureStateReady ?r s')" for s'
    by (rule EnsureStateReady_calls) (rule ready)
  show ?thesis
  proof (cases "goes_on (fst (EnsureProjectCreated ?r s))")
    case True
    let ?s1 = "snd (EnsureProjectCreated ?r s)"
    have "same_objects s ?s1" using True by (rule EnsureProjectCreated_goes_on)
    from 1 2 [OF this] 3 [of "snd (EnsureProjectConfigured ?r ?s1)"] True show ?thesis
      by (auto simp: ref_emits_def intro: emits_trans)
  next
    case False
    with 1 show ?thesis by (simp add: ref_emits_def)
  qed
qed

subsection \<open>The graph of the states\<close>

text \<open>
  The persisted state of a reference, as its controller writes it: Creating from nothing, and from
  a state in progress Ready or Error.
\<close>

inductive reference_step :: "string \<Rightarrow> string \<Rightarrow> bool" where
  stays: "reference_step st st"
| creating: "reference_step '''' ProjectReferenceStatusCreating"
| succeeds: "st \<notin> {'''', ProjectReferenceStatusReady} \<Longrightarrow> reference_step st ProjectReferenceStatusReady"
| fails: "st \<notin> {'''', ProjectReferenceStatusReady} \<Longrightarrow> reference_step st ProjectReferenceStatusError"

lemmas reference_step_intros [intro] = reference_step.intros

inductive_cases reference_step_readyE: "reference_step ProjectReferenceStatusReady st"

end
