(* ===== verification/ReferenceProtocol.thy ===== *)
theory ReferenceProtocol
  imports ClaimProtocol ReferenceFacts
begin

text \<open>
  The protocol of the reference controller, as a monitor over the observations of a run, and that
  every \<^verbatim>\<open>Reconcile\<close> keeps to it, whatever the API server and Google Cloud answer.
\<close>

abbreviation held :: "ProjectReference \<Rightarrow> bool" where
  "held r \<equiv> FinalizerName \<in> set (om_Finalizers (pr_Meta r))"

abbreviation reference_deleted :: "ProjectReference \<Rightarrow> bool" where
  "reference_deleted r \<equiv> om_DeletionTimestamp (pr_Meta r) \<noteq> None"

subsection \<open>The monitor\<close>

text \<open>
  A run for the reference \<^verbatim>\<open>rk\<close> has the reference and its claim as the server last answered with
  them, and knows whether it read the claim in the state PendingProject.  It remembers the reference as
  it was read, and whether it has written a status of it since.
\<close>

record reference_knowledge =
  rk_reference :: "ProjectReference option"
  rk_claim :: "ProjectClaim option"
  rk_pending :: bool
  rk_read :: "ProjectReference option"
  rk_moved :: bool

definition no_reference_knowledge :: reference_knowledge where
  "no_reference_knowledge = \<lparr>rk_reference = None, rk_claim = None, rk_pending = False, rk_read = None, rk_moved = False\<rparr>"

text \<open>The reference \<^verbatim>\<open>r\<close> was read, and its claim.\<close>

definition just_read :: "ProjectReference \<Rightarrow> ProjectClaim option \<Rightarrow> bool \<Rightarrow> reference_knowledge" where
  "just_read r c pending =
     \<lparr>rk_reference = Some r, rk_claim = c, rk_pending = pending, rk_read = Some r, rk_moved = False\<rparr>"

lemma just_read_sel [simp]:
  "rk_reference (just_read r c b) = Some r" "rk_claim (just_read r c b) = c" "rk_pending (just_read r c b) = b"
  "rk_read (just_read r c b) = Some r" "\<not> rk_moved (just_read r c b)"
  "(just_read r c b)\<lparr>rk_claim := c', rk_pending := b'\<rparr> = just_read r c' b'"
  by (simp_all add: just_read_def)

definition ref_based_on :: "NamespacedName \<Rightarrow> ProjectReference \<Rightarrow> ProjectReference \<Rightarrow> bool" where
  "ref_based_on rk r x \<longleftrightarrow> meta_key (pr_Meta x) = rk \<and> link_of x = link_of r \<and>
     om_ResourceVersion (pr_Meta x) = om_ResourceVersion (pr_Meta r)"

definition may_be_ready :: "ProjectReference \<Rightarrow> ProjectReference \<Rightarrow> bool" where
  "may_be_ready r x \<longleftrightarrow> (pr_State x = ProjectReferenceStatusReady \<longrightarrow>
     pr_State r = ProjectReferenceStatusReady \<or> held r)"

text \<open>
  The state is the one last answered with; or, once in a run, it is one step of the graph away from the
  state the reference was read in; or it is Error, and the reference is rejected by \<^verbatim>\<open>Validate\<close>, which is
  asked for references that are not being deleted.
\<close>

definition rejected :: "ProjectReference \<Rightarrow> bool" where
  "rejected r \<longleftrightarrow> \<not> reference_deleted r \<and> ProjectReference_Validate r \<noteq> None"

definition ref_may_move :: "reference_knowledge \<Rightarrow> ProjectReference \<Rightarrow> ProjectReference \<Rightarrow> bool" where
  "ref_may_move m r x \<longleftrightarrow> pr_State x = pr_State r \<or>
     \<not> rk_moved m \<and> (\<exists>r0. rk_read m = Some r0 \<and> reference_step (pr_State r0) (pr_State x)) \<or>
     rejected r \<and> pr_State x = ProjectReferenceStatusError"

definition ref_wrote :: "reference_knowledge \<Rightarrow> err option \<times> ProjectReference \<Rightarrow> reference_knowledge" where
  "ref_wrote m a = (if fst a = None then m\<lparr>rk_reference := Some (snd a), rk_moved := True\<rparr> else m)"

definition ref_learned :: "reference_knowledge \<Rightarrow> err option \<times> ProjectReference \<Rightarrow> reference_knowledge" where
  "ref_learned m a = (if fst a = None then m\<lparr>rk_reference := Some (snd a)\<rparr> else m)"

definition ref_learned_claim :: "reference_knowledge \<Rightarrow> err option \<times> ProjectClaim \<Rightarrow> reference_knowledge" where
  "ref_learned_claim m a = (if fst a = None then m\<lparr>rk_claim := Some (snd a)\<rparr> else m)"

text \<open>
  The finalizer is added for a pending claim only, and removed during deletion only.  Ready is
  written for a reference that has its finalizer.  The metadata of the claim are left alone, and
  its only status is Ready, for a reference that is Ready and alive.
\<close>

fun reference_rule :: "NamespacedName \<Rightarrow> reference_knowledge \<Rightarrow> observation \<Rightarrow> reference_knowledge option" where
  "reference_rule rk m (SawReference k a) = only_if (k = rk)
     (case a of
        Inl e \<Rightarrow> m
      | Inr r \<Rightarrow> just_read r None False)"
| "reference_rule rk m (SawClaim k a) =
     (case rk_reference m of
        None \<Rightarrow> None
      | Some r \<Rightarrow> only_if (k = link_of r)
          (case a of
             Inl e \<Rightarrow> m
           | Inr c \<Rightarrow> m\<lparr>rk_claim := Some c, rk_pending := (pc_State c = ClaimStatusPendingProject)\<rparr>))"
| "reference_rule rk m (UpdatedReference x a) =
     (case rk_reference m of
        None \<Rightarrow> None
      | Some r \<Rightarrow> only_if (ref_based_on rk r x \<and> (held x \<longrightarrow> held r \<or> rk_pending m) \<and>
          (held r \<longrightarrow> held x \<or> reference_deleted r)) (ref_learned m a))"
| "reference_rule rk m (WroteReferenceStatus x a) =
     (case rk_reference m of
        None \<Rightarrow> None
      | Some r \<Rightarrow> only_if (ref_based_on rk r x \<and> may_be_ready r x \<and> ref_may_move m r x) (ref_wrote m a))"
| "reference_rule rk m (UpdatedClaim x a) =
     (case rk_claim m of
        None \<Rightarrow> None
      | Some c \<Rightarrow> only_if (pc_Meta x = pc_Meta c) (ref_learned_claim m a))"
| "reference_rule rk m (WroteClaimStatus x a) =
     (case (rk_reference m, rk_claim m) of
        (Some r, Some c) \<Rightarrow> only_if (pc_Meta x = pc_Meta c \<and> pc_State x = ClaimStatusReady \<and>
          pr_State r = ProjectReferenceStatusReady \<and> \<not> reference_deleted r) (ref_learned_claim m a)
      | _ \<Rightarrow> None)"
| "reference_rule rk m (CreatedReference r a) = None"
| "reference_rule rk m (DeletedReference r e) = None"

definition reference_watch :: "NamespacedName \<Rightarrow> observation list \<Rightarrow> reference_knowledge option" where
  "reference_watch rk obs = watch (reference_rule rk) no_reference_knowledge obs"

lemma reference_watch_Nil [simp]: "reference_watch rk [] = Some no_reference_knowledge"
  by (simp add: reference_watch_def)

lemma reference_watch_snoc [simp]:
  "reference_watch rk (obs @ [ob]) =
     (case reference_watch rk obs of None \<Rightarrow> None | Some m \<Rightarrow> reference_rule rk m ob)"
  by (simp add: reference_watch_def)

subsection \<open>The states of a run that keeps to the protocol\<close>

context observed_client begin

text \<open>
  The reference in memory may be written, and the claim has the metadata it was answered with;
  in \<^verbatim>\<open>ref_current\<close> moreover metadata and state of the reference are as answered.
\<close>

definition ref_settled :: "NamespacedName \<Rightarrow> 'w reference_state \<Rightarrow> bool" where
  "ref_settled rk s \<longleftrightarrow> (\<exists>m r c. reference_watch rk (hist (rs_world s)) = Some m \<and>
     rk_reference m = Some r \<and> rk_claim m = Some c \<and> ref_based_on rk r (rs_reference s) \<and>
     may_be_ready r (rs_reference s) \<and> ref_may_move m r (rs_reference s) \<and> pc_Meta (rs_claim s) = pc_Meta c)"

definition ref_current :: "NamespacedName \<Rightarrow> 'w reference_state \<Rightarrow> bool" where
  "ref_current rk s \<longleftrightarrow> (\<exists>m r c. reference_watch rk (hist (rs_world s)) = Some m \<and>
     rk_reference m = Some r \<and> rk_claim m = Some c \<and> ref_based_on rk r (rs_reference s) \<and>
     pc_Meta (rs_claim s) = pc_Meta c \<and>
     pr_Meta (rs_reference s) = pr_Meta r \<and> pr_State (rs_reference s) = pr_State r \<and>
     \<not> rk_moved m \<and> (\<exists>r0. rk_read m = Some r0 \<and> pr_State r0 = pr_State r))"

text \<open>No status of the reference was written yet in the run that read it in the state \<^verbatim>\<open>st\<close>.\<close>

definition ref_from_read :: "NamespacedName \<Rightarrow> string \<Rightarrow> 'w reference_state \<Rightarrow> bool" where
  "ref_from_read rk st s \<longleftrightarrow> (\<exists>m r0. reference_watch rk (hist (rs_world s)) = Some m \<and>
     rk_read m = Some r0 \<and> pr_State r0 = st \<and> \<not> rk_moved m)"

lemma ref_current_from_read: "ref_current rk s \<Longrightarrow> ref_from_read rk (pr_State (rs_reference s)) s"
  by (auto simp: ref_current_def ref_from_read_def)

lemma ref_from_read_update:
  "ref_from_read rk st s \<Longrightarrow> hist (rs_world s') = hist (rs_world s) @ [UpdatedReference x a] \<Longrightarrow> ref_settled rk s' \<Longrightarrow>
     ref_from_read rk st s'"
  by (auto simp: ref_from_read_def ref_settled_def ref_learned_def split: option.splits)

definition read_pending :: "NamespacedName \<Rightarrow> 'w reference_state \<Rightarrow> bool" where
  "read_pending rk s \<longleftrightarrow> (\<exists>m. reference_watch rk (hist (rs_world s)) = Some m \<and> rk_pending m)"

lemma ref_current_settled: "ref_current rk s \<Longrightarrow> ref_settled rk s"
  by (auto simp: ref_current_def ref_settled_def may_be_ready_def ref_may_move_def)

lemma ref_settled_cong:
  "hist (rs_world s') = hist (rs_world s) \<Longrightarrow> pr_Meta (rs_reference s') = pr_Meta (rs_reference s) \<Longrightarrow>
   link_of (rs_reference s') = link_of (rs_reference s) \<Longrightarrow>
   pr_State (rs_reference s') = pr_State (rs_reference s) \<Longrightarrow>
   pc_Meta (rs_claim s') = pc_Meta (rs_claim s) \<Longrightarrow> ref_settled rk s \<Longrightarrow> ref_settled rk s'"
  by (auto simp: ref_settled_def ref_based_on_def may_be_ready_def ref_may_move_def)

lemma ref_current_cong:
  "hist (rs_world s') = hist (rs_world s) \<Longrightarrow> pr_Meta (rs_reference s') = pr_Meta (rs_reference s) \<Longrightarrow>
   link_of (rs_reference s') = link_of (rs_reference s) \<Longrightarrow>
   pr_State (rs_reference s') = pr_State (rs_reference s) \<Longrightarrow>
   pc_Meta (rs_claim s') = pc_Meta (rs_claim s) \<Longrightarrow> ref_current rk s \<Longrightarrow> ref_current rk s'"
  by (auto simp: ref_current_def ref_based_on_def)

text \<open>The four kinds of writes.\<close>

lemma ref_status_write:
  assumes K: "proper_answers K" and "ra_kubeClient r = K" and "ref_settled rk s"
    and "ref_status_update r s = (e, s')"
  shows "ref_settled rk s'"
proof -
  obtain m x c where m: "reference_watch rk (hist (rs_world s)) = Some m" "rk_reference m = Some x"
    "rk_claim m = Some c" "ref_based_on rk x (rs_reference s)" "may_be_ready x (rs_reference s)"
    "ref_may_move m x (rs_reference s)" "pc_Meta (rs_claim s) = pc_Meta c" using assms(3) by (auto simp: ref_settled_def)
  obtain obj w' where k: "k_StatusUpdateProjectReference K (rs_reference s) (rs_world s) = ((e, obj), w')"
    and s': "s' = s\<lparr>rs_reference := obj, rs_world := w'\<rparr>"
    using assms(2,4) by (auto simp: ref_status_update_def split: prod.splits)
  show ?thesis
    using m answers(8) [OF k] answers_in_kindD [OF proper_answersD(6) [OF K] k]
    by (cases e) (auto simp: s' ref_settled_def ref_wrote_def ref_based_on_def may_be_ready_def ref_may_move_def)
qed

lemma ref_update_write:
  assumes K: "proper_answers K" and "ra_kubeClient r = K" and "ref_settled rk s"
    and may: "\<And>m x. reference_watch rk (hist (rs_world s)) = Some m \<Longrightarrow> rk_reference m = Some x \<Longrightarrow>
      (held (rs_reference s) \<longrightarrow> held x \<or> rk_pending m) \<and> (held x \<longrightarrow> held (rs_reference s) \<or> reference_deleted x)"
    and u: "ref_update r s = (e, s')"
  shows "ref_settled rk s'"
proof -
  obtain m x c where m: "reference_watch rk (hist (rs_world s)) = Some m" "rk_reference m = Some x"
    "rk_claim m = Some c" "ref_based_on rk x (rs_reference s)" "may_be_ready x (rs_reference s)"
    "ref_may_move m x (rs_reference s)" "pc_Meta (rs_claim s) = pc_Meta c" using assms(3) by (auto simp: ref_settled_def)
  obtain obj w' where k: "k_UpdateProjectReference K (rs_reference s) (rs_world s) = ((e, obj), w')"
    and s': "s' = s\<lparr>rs_reference := obj, rs_world := w'\<rparr>"
    using assms(2) u by (auto simp: ref_update_def split: prod.splits)
  show ?thesis
    using m may [OF m(1,2)] answers(6) [OF k] answers_in_kindD [OF proper_answersD(5) [OF K] k]
    by (cases e) (auto simp: s' ref_settled_def ref_learned_def ref_based_on_def may_be_ready_def ref_may_move_def)
qed

lemma ref_claim_write:
  assumes K: "proper_answers K" and "ra_kubeClient r = K" and "ref_update_claim r s = (e, s')"
  shows "ref_settled rk s \<Longrightarrow> ref_settled rk s'" and "ref_current rk s \<Longrightarrow> ref_current rk s'"
    and "rs_reference s' = rs_reference s"
proof -
  obtain obj w' where k: "k_UpdateProjectClaim K (rs_claim s) (rs_world s) = ((e, obj), w')"
    and s': "s' = s\<lparr>rs_claim := obj, rs_world := w'\<rparr>"
    using assms(2,3) by (auto simp: ref_update_claim_def split: prod.splits)
  show "ref_settled rk s \<Longrightarrow> ref_settled rk s'" and "ref_current rk s \<Longrightarrow> ref_current rk s'"
    using answers(5) [OF k] answers_in_kindD [OF proper_answersD(3) [OF K] k]
    by (cases e; auto simp: s' ref_settled_def ref_current_def ref_learned_claim_def ref_may_move_def)+
  show "rs_reference s' = rs_reference s" by (simp add: s')
qed

lemma ref_claim_status_write:
  assumes K: "proper_answers K" and "ra_kubeClient r = K" and "ref_status_update_claim r s = (e, s')"
    and "ref_current rk s" and "pr_State (rs_reference s) = ProjectReferenceStatusReady"
    and "\<not> reference_deleted (rs_reference s)" and "pc_State (rs_claim s) = ClaimStatusReady"
  shows "ref_settled rk s'"
proof -
  obtain obj w' where k: "k_StatusUpdateProjectClaim K (rs_claim s) (rs_world s) = ((e, obj), w')"
    and s': "s' = s\<lparr>rs_claim := obj, rs_world := w'\<rparr>"
    using assms(2,3) by (auto simp: ref_status_update_claim_def split: prod.splits)
  show ?thesis
    using assms(4-) answers(7) [OF k] answers_in_kindD [OF proper_answersD(4) [OF K] k]
    by (cases e) (auto simp: s' ref_settled_def ref_current_def ref_learned_claim_def may_be_ready_def ref_may_move_def)
qed

lemma reference_StatusUpdate_settled:
  assumes "proper_answers K" "ra_kubeClient r = K" "ref_settled rk s"
  shows "ref_settled rk (snd (reference_StatusUpdate r s))"
proof -
  obtain e s' where u: "ref_status_update r s = (e, s')" by fastforce
  from ref_status_write [OF assms u] show ?thesis
    by (simp add: reference_StatusUpdate_def u split: option.splits)
qed

end

subsection \<open>What goes unobserved\<close>

context observed_cloud begin

definition unobserved :: "'w reference_state \<Rightarrow> 'a \<times> 'w reference_state \<Rightarrow> bool" where
  "unobserved s x \<longleftrightarrow> hist (rs_world (snd x)) = hist (rs_world s)"

lemma unobserved_refl [simp]: "unobserved s (a, s)"
  by (simp add: unobserved_def)

lemma unobserved_trans: "unobserved s (a, s') \<Longrightarrow> unobserved s' x \<Longrightarrow> unobserved s x"
  by (simp add: unobserved_def)

lemma unobserved_result: "unobserved s (a, s') \<Longrightarrow> unobserved s (b, s')"
  by (simp add: unobserved_def)

lemma on_world_hist_rule:
  "on_world f s = (a, s') \<Longrightarrow> (\<And>w. hist (snd (f w)) = hist w) \<Longrightarrow> hist (rs_world s') = hist (rs_world s)"
  by (auto simp: on_world_def split: prod.splits) (metis snd_conv)

lemma unseen_compounds [simp]:
  "hist (snd (GenerateProjectID env w)) = hist w"
  "hist (snd (SecretExists K n d w)) = hist w"
  "hist (snd (GetSecret K n d w)) = hist w"
  by (auto simp: GenerateProjectID_def SecretExists_def GetSecret_def split: prod.splits sum.splits dest!: unseen_answers)
    (metis snd_conv unseen_env(4))

lemma on_world_hist [dest!]:
  "on_world (g_GetServiceAccount G n) s = (a1, s') \<Longrightarrow> hist (rs_world s') = hist (rs_world s)"
  "on_world (g_CreateServiceAccount G n d) s = (a1, s') \<Longrightarrow> hist (rs_world s') = hist (rs_world s)"
  "on_world (g_DeleteServiceAccount G n) s = (a2, s') \<Longrightarrow> hist (rs_world s') = hist (rs_world s)"
  "on_world (g_CreateServiceAccountKey G n) s = (a3, s') \<Longrightarrow> hist (rs_world s') = hist (rs_world s)"
  "on_world (g_GetIamPolicy G n) s = (a4, s') \<Longrightarrow> hist (rs_world s') = hist (rs_world s)"
  "on_world (g_SetIamPolicy G p) s = (a4, s') \<Longrightarrow> hist (rs_world s') = hist (rs_world s)"
  "on_world (g_ListProjects G) s = (a5, s') \<Longrightarrow> hist (rs_world s') = hist (rs_world s)"
  "on_world (g_CreateProject G n d) s = (a2, s') \<Longrightarrow> hist (rs_world s') = hist (rs_world s)"
  "on_world (g_DeleteProject G n) s = (a2, s') \<Longrightarrow> hist (rs_world s') = hist (rs_world s)"
  "on_world (g_EnableAPI G n d) s = (a2, s') \<Longrightarrow> hist (rs_world s') = hist (rs_world s)"
  "on_world (g_ListAPIs G n) s = (a6, s') \<Longrightarrow> hist (rs_world s') = hist (rs_world s)"
  "on_world (g_CreateCloudBillingAccount G n d) s = (a2, s') \<Longrightarrow> hist (rs_world s') = hist (rs_world s)"
  "on_world (g_ListAvailabilityZones G n d) s = (a6, s') \<Longrightarrow> hist (rs_world s') = hist (rs_world s)"
  "on_world (env_MapOrder env) s = (a7, s') \<Longrightarrow> hist (rs_world s') = hist (rs_world s)"
  "on_world (env_Now env) s = (a8, s') \<Longrightarrow> hist (rs_world s') = hist (rs_world s)"
  "on_world (env_RandString env k) s = (a9, s') \<Longrightarrow> hist (rs_world s') = hist (rs_world s)"
  "on_world (GenerateProjectID env) s = (a10, s') \<Longrightarrow> hist (rs_world s') = hist (rs_world s)"
  "on_world (SecretExists K n d) s = (a11, s') \<Longrightarrow> hist (rs_world s') = hist (rs_world s)"
  "on_world (GetSecret K n d) s = (a12, s') \<Longrightarrow> hist (rs_world s') = hist (rs_world s)"
  "on_world (k_CreateSecret K sec) s = (a13, s') \<Longrightarrow> hist (rs_world s') = hist (rs_world s)"
  "on_world (k_DeleteSecret K sec) s = (a2, s') \<Longrightarrow> hist (rs_world s') = hist (rs_world s)"
  by (erule on_world_hist_rule, simp)+

text \<open>An adapter over these clients; its calls to Google Cloud and for secrets are not observed.\<close>

definition adapter :: "'w ReferenceAdapter \<Rightarrow> bool" where
  "adapter r \<longleftrightarrow> ra_kubeClient r = K \<and> ra_gcpClient r = G \<and> ra_env r = env"

lemma adapterD [simp]: "adapter r \<Longrightarrow> ra_kubeClient r = K" "adapter r \<Longrightarrow> ra_gcpClient r = G"
  "adapter r \<Longrightarrow> ra_env r = env"
  by (simp_all add: adapter_def)

lemma ref_sleep_hist [simp]: "adapter r \<Longrightarrow> hist (rs_world (ref_sleep r d s)) = hist (rs_world s)"
  by (simp add: ref_sleep_def)

lemma getProject_hist [dest!]: "getProject r p s = (x, s') \<Longrightarrow> adapter r \<Longrightarrow> hist (rs_world s') = hist (rs_world s)"
  by (auto simp: getProject_def Let_def split: prod.splits sum.splits option.splits bool.splits if_splits)

lemma link_billing_hist [dest!]: "link_billing r s = (x, s') \<Longrightarrow> adapter r \<Longrightarrow> hist (rs_world s') = hist (rs_world s)"
  by (auto simp: link_billing_def Let_def split: prod.splits sum.splits option.splits bool.splits if_splits)

lemma configureBillingAPI_hist [dest!]: "configureBillingAPI r s = (x, s') \<Longrightarrow> adapter r \<Longrightarrow> hist (rs_world s') = hist (rs_world s)"
  by (auto simp: configureBillingAPI_def Let_def split: prod.splits sum.splits option.splits bool.splits if_splits)

lemma AddOrUpdateBindings_hist [dest!]: "AddOrUpdateBindings r email roles mt s = (x, s') \<Longrightarrow> adapter r \<Longrightarrow> hist (rs_world s') = hist (rs_world s)"
  by (auto simp: AddOrUpdateBindings_def Let_def split: prod.splits sum.splits option.splits bool.splits if_splits)

lemma SetIAMPolicy_hist [dest!]:
  assumes "SetIAMPolicy r email roles mt s = (x, s')" and "adapter r"
  shows "hist (rs_world s') = hist (rs_world s)"
proof -
  have "hist (rs_world (snd (SetIAMPolicy_loop r email roles mt 0 s))) = hist (rs_world s)"
    by (rule SetIAMPolicy_loop_rule [where Q = "\<lambda>retry s x. hist (rs_world (snd x)) = hist (rs_world s)"])
      (use assms(2) in auto)
  with assms(1) show ?thesis by (simp add: SetIAMPolicy_def)
qed

lemma DeleteIAMPolicy_hist [dest!]:
  assumes "DeleteIAMPolicy r email mt s = (x, s')" and "adapter r"
  shows "hist (rs_world s') = hist (rs_world s)"
proof -
  have "hist (rs_world (snd (DeleteIAMPolicy_loop r email mt 0 s))) = hist (rs_world s)"
    by (rule DeleteIAMPolicy_loop_rule [where Q = "\<lambda>retry s x. hist (rs_world (snd x)) = hist (rs_world s)"])
      (use assms(2) in auto)
  with assms(1) show ?thesis by (simp add: DeleteIAMPolicy_def)
qed

lemma enable_missing_apis_hist [dest!]:
  "enable_missing_apis r enabled apis s = (x, s') \<Longrightarrow> adapter r \<Longrightarrow> hist (rs_world s') = hist (rs_world s)"
  by (induction apis arbitrary: s) (auto split: prod.splits option.splits if_splits)

lemma set_group_policies_hist [dest!]:
  "set_group_policies r roles emails s = (x, s') \<Longrightarrow> adapter r \<Longrightarrow> hist (rs_world s') = hist (rs_world s)"
  by (induction emails arbitrary: s) (auto split: prod.splits option.splits)

lemma delete_group_policies_hist [dest!]:
  "delete_group_policies r emails s = (x, s') \<Longrightarrow> adapter r \<Longrightarrow> hist (rs_world s') = hist (rs_world s)"
  by (induction emails arbitrary: s) (auto split: prod.splits option.splits)

lemma configureAPIS_hist [dest!]: "configureAPIS r s = (x, s') \<Longrightarrow> adapter r \<Longrightarrow> hist (rs_world s') = hist (rs_world s)"
  by (auto simp: configureAPIS_def Let_def split: prod.splits sum.splits option.splits bool.splits if_splits)

lemma grant_account_hist [dest!]: "grant_account r roles account s = (x, s') \<Longrightarrow> adapter r \<Longrightarrow> hist (rs_world s') = hist (rs_world s)"
  by (auto simp: grant_account_def Let_def split: prod.splits sum.splits option.splits bool.splits if_splits)

lemma configureServiceAccount_hist [dest!]: "configureServiceAccount r roles s = (x, s') \<Longrightarrow> adapter r \<Longrightarrow> hist (rs_world s') = hist (rs_world s)"
  by (auto simp: configureServiceAccount_def Let_def split: prod.splits sum.splits option.splits bool.splits if_splits)

lemma store_key_hist [dest!]: "store_key r key s = (x, s') \<Longrightarrow> adapter r \<Longrightarrow> hist (rs_world s') = hist (rs_world s)"
  by (auto simp: store_key_def Let_def split: prod.splits sum.splits option.splits bool.splits if_splits)

lemma createCredentials_hist [dest!]: "createCredentials r s = (x, s') \<Longrightarrow> adapter r \<Longrightarrow> hist (rs_world s') = hist (rs_world s)"
  by (auto simp: createCredentials_def Let_def split: prod.splits sum.splits option.splits bool.splits if_splits)

lemma configure_console_access_hist [dest!]: "configure_console_access r s = (x, s') \<Longrightarrow> adapter r \<Longrightarrow> hist (rs_world s') = hist (rs_world s)"
  by (auto simp: configure_console_access_def Let_def split: prod.splits sum.splits option.splits bool.splits if_splits)

lemma EnsureProjectConfigured_hist [dest!]: "EnsureProjectConfigured r s = (x, s') \<Longrightarrow> adapter r \<Longrightarrow> hist (rs_world s') = hist (rs_world s)"
  by (auto simp: EnsureProjectConfigured_def Let_def split: prod.splits sum.splits option.splits bool.splits if_splits)

lemma deleteServiceAccount_hist [dest!]: "deleteServiceAccount r s = (x, s') \<Longrightarrow> adapter r \<Longrightarrow> hist (rs_world s') = hist (rs_world s)"
  by (auto simp: deleteServiceAccount_def Let_def split: prod.splits sum.splits option.splits bool.splits if_splits)

lemma deleteProject_hist [dest!]: "deleteProject r s = (x, s') \<Longrightarrow> adapter r \<Longrightarrow> hist (rs_world s') = hist (rs_world s)"
  by (auto simp: deleteProject_def Let_def split: prod.splits sum.splits option.splits bool.splits if_splits)

lemma cleanup_project_hist [dest!]: "cleanup_project r s = (x, s') \<Longrightarrow> adapter r \<Longrightarrow> hist (rs_world s') = hist (rs_world s)"
  by (auto simp: cleanup_project_def Let_def split: prod.splits sum.splits option.splits bool.splits if_splits)

lemma ensureCCSProjectCleanedUp_hist [dest!]: "ensureCCSProjectCleanedUp r ccs s = (x, s') \<Longrightarrow> adapter r \<Longrightarrow> hist (rs_world s') = hist (rs_world s)"
  by (auto simp: ensureCCSProjectCleanedUp_def Let_def split: prod.splits sum.splits option.splits bool.splits if_splits)

lemma deleteCredentials_hist [dest!]: "deleteCredentials r s = (x, s') \<Longrightarrow> adapter r \<Longrightarrow> hist (rs_world s') = hist (rs_world s)"
  by (auto simp: deleteCredentials_def Let_def split: prod.splits sum.splits option.splits bool.splits if_splits)

end

subsection \<open>Operations\<close>

context observed_cloud begin

lemma ref_settled_quiet:
  "ref_settled rk s \<Longrightarrow> same_objects s s' \<Longrightarrow> hist (rs_world s') = hist (rs_world s) \<Longrightarrow> ref_settled rk s'"
  by (erule ref_settled_cong [rotated -1]) (simp_all add: same_objects_def)

lemma ref_current_quiet:
  "ref_current rk s \<Longrightarrow> same_objects s s' \<Longrightarrow> hist (rs_world s') = hist (rs_world s) \<Longrightarrow> ref_current rk s'"
  by (erule ref_current_cong [rotated -1]) (simp_all add: same_objects_def)

lemma set_ref_state_settled:
  "ref_settled rk s \<Longrightarrow> ref_from_read rk st0 s \<Longrightarrow> reference_step st0 st \<Longrightarrow> st \<noteq> ProjectReferenceStatusReady \<Longrightarrow>
     ref_settled rk (set_ref_state st s)"
  by (auto simp: ref_settled_def ref_from_read_def ref_based_on_def may_be_ready_def ref_may_move_def set_ref_state_def)

lemma ref_set_condition_settled:
  assumes "adapter r"
  shows "ref_settled rk s \<Longrightarrow> ref_settled rk (ref_set_condition r t st reason m s)"
    and "ref_current rk s \<Longrightarrow> ref_current rk (ref_set_condition r t st reason m s)"
proof -
  have h: "hist (rs_world (ref_set_condition r t st reason m s)) = hist (rs_world s)"
    using assms by (auto simp: ref_set_condition_def split: prod.splits)
  show "ref_settled rk s \<Longrightarrow> ref_settled rk (ref_set_condition r t st reason m s)"
    by (erule ref_settled_cong [rotated -1]) (simp_all add: h)
  show "ref_current rk s \<Longrightarrow> ref_current rk (ref_set_condition r t st reason m s)"
    by (erule ref_current_cong [rotated -1]) (simp_all add: h)
qed

text \<open>An update that changes the specification only, but for the link.\<close>

lemma ref_spec_update:
  assumes "proper_answers K" "adapter r" "ref_current rk s"
    and "\<And>spec. prs_ProjectClaimCRLink (f spec) = prs_ProjectClaimCRLink spec"
    and "ref_update r (set_ref_spec f s) = (e, s')"
  shows "ref_settled rk s'"
proof (rule ref_update_write [OF assms(1) _ _ _ assms(5)])
  have "ref_current rk (set_ref_spec f s)"
    using assms(3) by (rule ref_current_cong [rotated -1]) (simp_all add: set_ref_spec_def assms(4))
  then show "ref_settled rk (set_ref_spec f s)" by (rule ref_current_settled)
  show "(held (rs_reference (set_ref_spec f s)) \<longrightarrow> held x \<or> rk_pending m) \<and>
      (held x \<longrightarrow> held (rs_reference (set_ref_spec f s)) \<or> reference_deleted x)"
    if "reference_watch rk (hist (rs_world (set_ref_spec f s))) = Some m" "rk_reference m = Some x" for m x
    using that assms(3) by (auto simp: set_ref_spec_def ref_current_def)
qed (use assms(2) in simp)

lemma EnsureProjectReferenceInitialized_settled:
  assumes "proper_answers K" "adapter r" "ref_settled rk s"
  shows "ref_settled rk (snd (EnsureProjectReferenceInitialized r s))"
proof -
  let ?s = "s\<lparr>rs_reference := set_reference_conditions (Some []) (rs_reference s)\<rparr>"
  have "ref_settled rk ?s" using assms(3) by (rule ref_settled_cong [rotated -1]) simp_all
  from reference_StatusUpdate_settled [OF assms(1) _ this, of r] assms(2,3) show ?thesis
    by (auto simp: EnsureProjectReferenceInitialized_def split: prod.splits option.splits)
qed

lemma EnsureProjectReferenceStatusCreating_settled:
  assumes "proper_answers K" "adapter r" "ref_current rk s"
  shows "ref_settled rk (snd (EnsureProjectReferenceStatusCreating r s))"
proof -
  obtain e s' where u: "ref_status_update r (set_ref_state ProjectReferenceStatusCreating s) = (e, s')" by fastforce
  note cur = ref_current_settled [OF assms(3)]
  from ref_status_write [OF assms(1) _ set_ref_state_settled [OF cur ref_current_from_read [OF assms(3)]] u] assms(2) cur u
  show ?thesis
    by (auto simp: EnsureProjectReferenceStatusCreating_def reference_step.creating split: option.splits)
qed

lemma EnsureProjectID_settled:
  assumes "proper_answers K" "adapter r" "ref_current rk s"
  shows "ref_settled rk (snd (EnsureProjectID r s))"
proof -
  obtain x s1 where g: "on_world (GenerateProjectID env) s = (x, s1)" by fastforce
  have s1: "ref_current rk s1"
    by (rule ref_current_quiet [OF assms(3) same_objects_on_worldD [OF g]]) (use g in auto)
  show ?thesis
    using ref_spec_update [OF assms(1,2) s1, of "\<lambda>spec. spec\<lparr>prs_GCPProjectID := p\<rparr>" for p]
      ref_current_settled [OF s1] ref_current_settled [OF assms(3)] assms(2) g
    by (auto simp: EnsureProjectID_def UpdateProjectID_def split: prod.splits sum.splits option.splits)
qed

lemma EnsureServiceAccountName_settled:
  assumes "proper_answers K" "adapter r" "ref_current rk s"
  shows "ref_settled rk (snd (EnsureServiceAccountName r s))"
proof -
  obtain x s1 where g: "on_world (env_RandString env 8) s = (x, s1)" by fastforce
  have s1: "ref_current rk s1"
    by (rule ref_current_quiet [OF assms(3) same_objects_on_worldD [OF g]]) (use g in auto)
  show ?thesis
    using ref_spec_update [OF assms(1,2) s1, of "\<lambda>spec. spec\<lparr>prs_ServiceAccountName := p\<rparr>" for p]
      ref_current_settled [OF assms(3)] assms(2) g
    by (auto simp: EnsureServiceAccountName_def UpdateServiceAccountName_def split: prod.splits option.splits)
qed

lemma EnsureFinalizerAdded_settled:
  assumes "proper_answers K" "adapter r" "ref_current rk s" "read_pending rk s"
  shows "ref_settled rk (snd (EnsureFinalizerAdded r s))"
proof -
  let ?s = "set_ref_finalizers (reference_finalizers s @ [FinalizerName]) s"
  obtain e s' where u: "ref_update r ?s = (e, s')" by fastforce
  have "ref_settled rk ?s"
    using ref_current_settled [OF assms(3)]
    by (auto simp: ref_settled_def ref_based_on_def may_be_ready_def ref_may_move_def set_ref_finalizers_def meta_key_def)
  moreover have "(held (rs_reference ?s) \<longrightarrow> held x \<or> rk_pending m) \<and> (held x \<longrightarrow> held (rs_reference ?s) \<or> reference_deleted x)"
    if "reference_watch rk (hist (rs_world ?s)) = Some m" "rk_reference m = Some x" for m x
    using that assms(4) by (auto simp: set_ref_finalizers_def read_pending_def)
  ultimately have "ref_settled rk s'"
    by (rule ref_update_write [OF assms(1) _ _ _ u, rotated]) (use assms(2) in simp_all)
  with u ref_current_settled [OF assms(3)] show ?thesis by (simp add: EnsureFinalizerAdded_def)
qed

lemma EnsureFinalizerDeleted_settled:
  assumes "proper_answers K" "adapter r" "ref_current rk s" "IsDeletionRequested s"
  shows "ref_settled rk (snd (EnsureFinalizerDeleted r s))"
proof -
  let ?s = "set_ref_finalizers (Filter (reference_finalizers s) FinalizerName) s"
  obtain e s' where u: "ref_update r ?s = (e, s')" by fastforce
  have "ref_settled rk ?s"
    using ref_current_settled [OF assms(3)]
    by (auto simp: ref_settled_def ref_based_on_def may_be_ready_def ref_may_move_def set_ref_finalizers_def meta_key_def)
  moreover have "(held (rs_reference ?s) \<longrightarrow> held x \<or> rk_pending m) \<and> (held x \<longrightarrow> held (rs_reference ?s) \<or> reference_deleted x)"
    if "reference_watch rk (hist (rs_world ?s)) = Some m" "rk_reference m = Some x" for m x
    using that assms(3,4) by (auto simp: ref_current_def set_ref_finalizers_def IsDeletionRequested_def)
  ultimately have "ref_settled rk s'"
    by (rule ref_update_write [OF assms(1) _ _ _ u, rotated]) (use assms(2) in simp_all)
  with u ref_current_settled [OF assms(3)] show ?thesis by (simp add: EnsureFinalizerDeleted_def)
qed

lemma EnsureStateReady_settled:
  assumes "proper_answers K" "adapter r" "ref_current rk s" "FinalizerName \<in> set (reference_finalizers s)"
    and "pr_State (rs_reference s) \<notin> {'''', ProjectReferenceStatusReady}"
  shows "ref_settled rk (snd (EnsureStateReady r s))"
proof -
  let ?s = "set_ref_state ProjectReferenceStatusReady s"
  obtain e s' where u: "ref_status_update r ?s = (e, s')" by fastforce
  have "ref_settled rk ?s"
    using assms(3-5) by (auto simp: ref_current_def ref_settled_def ref_based_on_def may_be_ready_def ref_may_move_def
        set_ref_state_def)
  from ref_status_write [OF assms(1) _ this u] assms(2) u ref_current_settled [OF assms(3)] show ?thesis
    by (simp add: EnsureStateReady_def)
qed

end

context observed_cloud begin

text \<open>Creating and configuring the project.\<close>

lemma createProject_settled:
  assumes "proper_answers K" "adapter r" "ref_current rk s" "createProject r folder s = (e, s')"
  shows "ref_settled rk s'" and "e = None \<Longrightarrow> ref_current rk s'"
    and "ref_from_read rk (pr_State (rs_reference s)) s'"
proof -
  obtain x s1 where 1: "getProject r (reference_project s) s = (x, s1)" by fastforce
  have s1: "ref_current rk s1"
    by (rule ref_current_quiet [OF assms(3)]) (use 1 getProject_frame [of s r "reference_project s"] assms(2) in auto)
  obtain y s2 where 2: "on_world (g_CreateProject G folder (pc_Name (rs_claim s1))) s1 = (y, s2)" by fastforce
  have s2: "ref_current rk s2"
    by (rule ref_current_quiet [OF s1 same_objects_on_worldD [OF 2]]) (use 2 in auto)
  have st: "pr_State (rs_reference s1) = pr_State (rs_reference s)" "pr_State (rs_reference s2) = pr_State (rs_reference s)"
    using getProject_frame [of s r "reference_project s"] 1 same_objects_on_worldD [OF 2] by (simp_all add: same_objects_def)
  have read: "ref_from_read rk (pr_State (rs_reference s)) s1" "ref_from_read rk (pr_State (rs_reference s)) s2"
    using ref_current_from_read [OF s1] ref_current_from_read [OF s2] st by simp_all
  have c: "ref_settled rk s3" if "clearProjectID r s2 = (z, s3)" for z s3
    using that unfolding clearProjectID_def by (rule ref_spec_update [OF assms(1,2) s2, rotated]) simp
  have d: "ref_from_read rk (pr_State (rs_reference s)) s3" if z: "clearProjectID r s2 = (z, s3)" for z s3
  proof -
    let ?x = "set_ref_spec (\<lambda>spec. spec\<lparr>prs_GCPProjectID := ''''\<rparr>) s2"
    have h: "hist (rs_world s3) = hist (rs_world s2) @ [UpdatedReference y a]" if "ref_update r ?x = (z, s3)"
        "k_UpdateProjectReference K (rs_reference ?x) (rs_world ?x) = (a, w)" "y = rs_reference ?x" for y a w
      using that answers(6) [of "rs_reference ?x" "rs_world ?x" a w] assms(2)
      by (auto simp: ref_update_def set_ref_spec_def split: prod.splits)
    from ref_from_read_update [OF read(2) h c [OF z]] z show ?thesis
      by (metis clearProjectID_def prod.exhaust)
  qed
  show "ref_settled rk s'" and "e = None \<Longrightarrow> ref_current rk s'"
    using assms(2,4) 1 2 s1 s2 c
    by (auto simp: createProject_def lifecycle_error_def ref_current_settled
        split: sum.splits option.splits if_splits prod.splits)
  show "ref_from_read rk (pr_State (rs_reference s)) s'"
    using assms(2,4) 1 2 read d
    by (auto simp: createProject_def lifecycle_error_def split: sum.splits option.splits if_splits prod.splits)
qed

lemma EnsureProjectCreated_settled:
  assumes "proper_answers K" "adapter r" "ref_current rk s"
    and "pr_State (rs_reference s) \<notin> {'''', ProjectReferenceStatusReady}"
  shows "ref_settled rk (snd (EnsureProjectCreated r s))"
    and "goes_on (fst (EnsureProjectCreated r s)) \<Longrightarrow> ref_current rk (snd (EnsureProjectCreated r s))"
proof -
  obtain e s1 where 1: "createProject r (oc_ParentFolderID (ra_OperatorConfig r)) s = (e, s1)" by fastforce
  note s1 = createProject_settled [OF assms(1-3) 1]
  obtain e' s2 where 2: "configureBillingAPI r s1 = (e', s2)" by fastforce
  have s2: "e = None \<Longrightarrow> ref_current rk s2"
    by (rule ref_current_quiet [OF s1(2) configureBillingAPI_frameD [OF 2]]) (use 2 assms(2) in auto)
  have st: "ref_settled rk s3" if "ref_status_update r (set_ref_state ProjectReferenceStatusError s1) = (z, s3)" for z s3
    by (rule ref_status_write [OF assms(1) _ set_ref_state_settled [OF s1(1,3)] that]) (use assms(2,4) in auto)
  show "ref_settled rk (snd (EnsureProjectCreated r s))"
    and "goes_on (fst (EnsureProjectCreated r s)) \<Longrightarrow> ref_current rk (snd (EnsureProjectCreated r s))"
    using s1 s2 st assms(3)
    by (auto simp: EnsureProjectCreated_def 1 2 ref_current_settled split: option.splits prod.splits if_splits)
qed

lemma EnsureProjectConfigured_current:
  assumes "adapter r" "ref_current rk s"
  shows "ref_current rk (snd (EnsureProjectConfigured r s))"
proof -
  obtain x s' where 1: "EnsureProjectConfigured r s = (x, s')" by fastforce
  show ?thesis
    by (rule ref_current_quiet [OF assms(2) EnsureProjectConfigured_frame]) (use 1 assms(1) in auto)
qed

text \<open>Cleaning up.\<close>

lemma EnsureProjectCleanedUp_settled:
  assumes "proper_answers K" "adapter r" "ref_current rk s" "IsDeletionRequested s"
  shows "ref_settled rk (snd (EnsureProjectCleanedUp r s))"
proof -
  obtain e1 s1 where 1: "deleteServiceAccount r s = (e1, s1)" by fastforce
  obtain e2 s2 where 2: "cleanup_project r s1 = (e2, s2)" by fastforce
  obtain e3 s3 where 3: "ensureCCSProjectCleanedUp r (isCCS s2) s2 = (e3, s3)" by fastforce
  obtain e4 s4 where 4: "deleteCredentials r s3 = (e4, s4)" by fastforce
  have "same_objects s s1" "same_objects s1 s2" "same_objects s2 s3" "same_objects s3 s4"
    using deleteServiceAccount_frame [of s r] cleanup_project_frame [of s1 r]
      ensureCCSProjectCleanedUp_frame [of s2 r "isCCS s2"] deleteCredentials_frame [of s3 r] 1 2 3 4 by simp_all
  moreover have "hist (rs_world s1) = hist (rs_world s)" "hist (rs_world s2) = hist (rs_world s1)"
    "hist (rs_world s3) = hist (rs_world s2)" "hist (rs_world s4) = hist (rs_world s3)"
    using 1 2 3 4 assms(2) by auto
  ultimately have cur: "ref_current rk s1" "ref_current rk s2" "ref_current rk s3" "ref_current rk s4"
    and "same_objects s s4"
    using assms(3) by (metis ref_current_quiet, metis ref_current_quiet, metis ref_current_quiet,
        metis ref_current_quiet, metis same_objects_trans)
  then have "ref_settled rk (snd (EnsureFinalizerDeleted r s4))"
    by (intro EnsureFinalizerDeleted_settled [OF assms(1,2)])
      (use assms(4) in \<open>simp_all add: same_objects_def IsDeletionRequested_def\<close>)
  with cur show ?thesis
    by (auto simp: EnsureProjectCleanedUp_def 1 2 3 4 ref_current_settled split: option.splits)
qed

lemma EnsureDeletionProcessed_settled:
  assumes "proper_answers K" "adapter r" "ref_current rk s"
  shows "ref_settled rk (snd (EnsureDeletionProcessed r s))"
  using EnsureProjectCleanedUp_settled [OF assms] ref_current_settled [OF assms(3)]
  by (auto simp: EnsureDeletionProcessed_def split: prod.splits option.splits)

text \<open>Making the claim ready.\<close>

lemma handleAvailabilityZonesError_settled:
  assumes "proper_answers K" "adapter r" "ref_settled rk s"
  shows "ref_settled rk (snd (handleAvailabilityZonesError r e s))"
proof -
  obtain cs i found where f: "cm_FindCondition (ra_conditionManager r) (pr_Conditions (rs_reference s))
      ConditionComputeApiReady = (cs, i, found)" by (metis prod_cases3)
  let ?s1 = "s\<lparr>rs_reference := set_reference_conditions cs (rs_reference s)\<rparr>"
  obtain now s2 where n: "on_world (env_Now env) ?s1 = (now, s2)" by fastforce
  have "ref_settled rk ?s1" using assms(3) by (rule ref_settled_cong [rotated -1]) simp_all
  then have "ref_settled rk s2" by (rule ref_settled_quiet [OF _ same_objects_on_worldD [OF n]]) (use n in auto)
  then have "ref_settled rk (snd (reference_StatusUpdate r (zones_not_ready r s2)))"
    by (intro reference_StatusUpdate_settled [OF assms(1)])
      (use assms(2) in \<open>simp_all add: zones_not_ready_def ref_set_condition_settled\<close>)
  with assms(2,3) f n show ?thesis
    by (auto simp: handleAvailabilityZonesError_def Let_def split: prod.splits option.splits)
qed

lemma ensureClaimAvailabilityZonesSet_settled:
  assumes "proper_answers K" "adapter r" "ref_settled rk s"
  shows "ref_settled rk (snd (ensureClaimAvailabilityZonesSet r s))"
proof -
  obtain x s1 where l: "on_world (g_ListAvailabilityZones G (reference_project s) (pcs_Region (pc_Spec (rs_claim s)))) s
    = (x, s1)" by fastforce
  have s1: "ref_settled rk s1"
    by (rule ref_settled_quiet [OF assms(3) same_objects_on_worldD [OF l]]) (use l in auto)
  have u: "ref_settled rk s3" if "ref_update_claim r s2 = (e, s3)" "ref_settled rk s2" for s2 e s3
    by (rule ref_claim_write(1) [OF assms(1) _ that]) (use assms(2) in simp)
  have c: "ref_settled rk (s2\<lparr>rs_claim := (rs_claim s2)\<lparr>pc_Spec := spec\<rparr>\<rparr>)" if "ref_settled rk s2" for s2 spec
    using that by (rule ref_settled_cong [rotated -1]) simp_all
  show ?thesis
    using assms(2,3) l s1 handleAvailabilityZonesError_settled [OF assms(1,2) s1]
      u [OF _ c [OF ref_set_condition_settled(1) [OF assms(2) s1]]]
    by (auto simp: ensureClaimAvailabilityZonesSet_def Let_def split: sum.splits prod.splits option.splits)
qed

lemma mark_claim_ready_settled:
  assumes "proper_answers K" "adapter r" "ref_current rk s"
    and "pr_State (rs_reference s) = ProjectReferenceStatusReady" "\<not> reference_deleted (rs_reference s)"
  shows "ref_settled rk (snd (mark_claim_ready r s))"
proof -
  let ?s = "s\<lparr>rs_claim := set_claim_state ClaimStatusReady (rs_claim s)\<rparr>"
  obtain e s' where u: "ref_status_update_claim r ?s = (e, s')" by fastforce
  have "ref_current rk ?s" using assms(3) by (rule ref_current_cong [rotated -1]) simp_all
  from ref_claim_status_write [OF assms(1) _ u this] assms(2,4,5) show ?thesis
    by (simp add: mark_claim_ready_def u split: option.splits)
qed

lemma finish_claim_settled:
  assumes "proper_answers K" "adapter r" "ref_current rk s"
    and "pr_State (rs_reference s) = ProjectReferenceStatusReady" "\<not> reference_deleted (rs_reference s)"
  shows "ref_settled rk (snd (finish_claim r s))"
proof -
  obtain b s2 where i: "ensureClaimProjectIDSet s = (b, s2)" by fastforce
  then have ref: "rs_reference s2 = rs_reference s" by (auto simp: ensureClaimProjectIDSet_def split: if_splits)
  have s2: "ref_current rk s2"
    using assms(3) by (rule ref_current_cong [rotated -1]) (use i in \<open>auto simp: ensureClaimProjectIDSet_def split: if_splits\<close>)
  obtain e s3 where u: "ref_update_claim r s2 = (e, s3)" by fastforce
  have K: "ra_kubeClient r = K" using assms(2) by simp
  note s3 = ref_claim_write [OF assms(1) K u]
  show ?thesis
    using mark_claim_ready_settled [OF assms(1,2) s2] mark_claim_ready_settled [OF assms(1,2) s3(2) [OF s2]]
      s3(3) ref_current_settled [OF s3(2) [OF s2]] assms(4,5) ref
    by (auto simp: finish_claim_def i u split: option.splits)
qed

lemma EnsureProjectClaimReady_settled:
  assumes "proper_answers K" "adapter r" "ref_current rk s" "\<not> IsDeletionRequested s"
  shows "ref_settled rk (snd (EnsureProjectClaimReady r s))"
  using assms ref_current_settled [OF assms(3)] ensureClaimAvailabilityZonesSet_settled [OF assms(1,2)]
    finish_claim_settled [OF assms(1-3)]
  by (auto simp: EnsureProjectClaimReady_cases IsDeletionRequested_def)

lemma SetProjectReferenceCondition_settled:
  assumes "proper_answers K" "adapter r" "ref_settled rk s"
  shows "ref_settled rk (snd (SetProjectReferenceCondition r reason e s))"
  using assms reference_StatusUpdate_settled [OF assms(1) _ ref_set_condition_settled(1) [OF assms(2,3)]]
  by (auto simp: SetProjectReferenceCondition_def split: option.splits)

end

subsection \<open>The handler and Reconcile\<close>

context observed_cloud begin

definition project_stage :: "NamespacedName \<Rightarrow> 'w reference_state \<Rightarrow> bool" where
  "project_stage rk s \<longleftrightarrow> ref_current rk s \<and> FinalizerName \<in> set (reference_finalizers s) \<and>
     pr_State (rs_reference s) \<notin> {'''', ProjectReferenceStatusReady}"

lemma project_operation_settled:
  assumes "proper_answers K" "adapter r" "project_stage rk s"
    and "op \<in> set [EnsureProjectCreated r, EnsureProjectConfigured r, EnsureStateReady r]"
  shows "ref_settled rk (snd (op s))"
  using assms EnsureProjectCreated_settled(1) [OF assms(1,2)] EnsureProjectConfigured_current [OF assms(2)]
    EnsureStateReady_settled [OF assms(1,2)]
  by (auto simp: project_stage_def ref_current_settled)

lemma project_operation_stage:
  assumes "proper_answers K" "adapter r" "project_stage rk s"
    and "op \<in> set [EnsureProjectCreated r, EnsureProjectConfigured r, EnsureStateReady r]"
    and "goes_on (fst (op s))"
  shows "project_stage rk (snd (op s))"
proof -
  have "same_objects s (snd (EnsureProjectConfigured r s))" by (rule EnsureProjectConfigured_frame)
  moreover have "goes_on (fst (EnsureStateReady r s)) \<Longrightarrow> snd (EnsureStateReady r s) = s"
    by (auto simp: EnsureStateReady_def split: prod.splits if_splits)
  ultimately show ?thesis
    using assms EnsureProjectCreated_settled(2) [OF assms(1,2)] EnsureProjectConfigured_current [OF assms(2)]
      EnsureProjectCreated_goes_on [of r s]
    by (auto simp: project_stage_def same_objects_def)
qed

lemma project_operations_settled:
  assumes "proper_answers K" "adapter r" "project_stage rk s"
  shows "ref_settled rk (snd (run_operations [EnsureProjectCreated r, EnsureProjectConfigured r, EnsureStateReady r] s))"
proof -
  have "reconcile_operations [EnsureProjectCreated r, EnsureProjectConfigured r, EnsureStateReady r]
      (project_stage rk) (ref_settled rk)"
    using project_operation_settled [OF assms(1,2)] project_operation_stage [OF assms(1,2)]
    by unfold_locales (simp_all only:, simp_all add: project_stage_def ref_current_settled)
  then show ?thesis using assms(3) by (rule reconcile_operations.handler_ends)
qed

lemma reference_handler_settled:
  assumes "proper_answers K" "adapter r" "ref_current rk s"
    and "pc_State (rs_claim s) = ClaimStatusPendingProject \<Longrightarrow> read_pending rk s"
  shows "ref_settled rk (snd (reference_ReconcileHandler r s))"
proof -
  have cases: "(b \<Longrightarrow> ref_settled rk (snd x)) \<Longrightarrow> (\<not> b \<Longrightarrow> ref_settled rk (snd y)) \<Longrightarrow>
      ref_settled rk (snd (if b then x else y))" for b x and y :: "(ctrl_Result \<times> err option) \<times> 'w reference_state"
    by simp
  note cur = ref_current_settled [OF assms(3)]
  show ?thesis
    unfolding reference_ReconcileHandler_cases
    by (intro cases)
      (use assms(3,4) cur EnsureProjectReferenceInitialized_settled [OF assms(1,2) cur]
        EnsureDeletionProcessed_settled [OF assms(1-3)] EnsureProjectClaimReady_settled [OF assms(1-3)]
        EnsureProjectReferenceStatusCreating_settled [OF assms(1-3)]
        EnsureProjectID_settled [OF assms(1-3)] EnsureServiceAccountName_settled [OF assms(1-3)]
        EnsureFinalizerAdded_settled [OF assms(1-3)] project_operations_settled [OF assms(1,2)]
        in \<open>simp_all add: ref_exits_with_def project_stage_def del: run_operations_Cons\<close>)
qed

end

text \<open>Before the handler: the credentials, the configuration and the claim are read.\<close>

lemma unobserved_builder:
  "prr_GcpClientBuilder (observing_reconciler rec) project auth wl = (x, wl') \<Longrightarrow>
     snd wl' = snd wl \<and> (\<forall>g. x = Inr g \<longrightarrow> (\<exists>gcp. g = untraced_gcp gcp))"
  by (auto simp: observing_reconciler_def split: prod.splits sum.splits)

lemma observing_reconciler_sel [simp]:
  "prr_Client (observing_reconciler rec) = observing_kube (prr_Client rec)"
  "prr_env (observing_reconciler rec) = traced_env (prr_env rec)"
  by (simp_all add: observing_reconciler_def)

lemma getGcpClient_unobserved:
  assumes "getGcpClient (observing_reconciler rec) reference wl = (x, wl')"
  shows "snd wl' = snd wl" and "x = Inr g \<Longrightarrow> \<exists>gcp. g = untraced_gcp gcp"
proof -
  let ?nn = "credential_secret reference"
  obtain y w1 where y: "GetGCPCredentialsFromSecret (observing_kube (prr_Client rec)) (nn_Namespace ?nn) (nn_Name ?nn) wl
      = (y, w1)" by (metis prod.exhaust)
  then have "snd w1 = snd wl"
    by (auto simp: GetGCPCredentialsFromSecret_def split: prod.splits sum.splits option.splits
        dest!: observing.unseen_answers)
  then show "snd wl' = snd wl" and "x = Inr g \<Longrightarrow> \<exists>gcp. g = untraced_gcp gcp"
    using assms y by (auto simp: getGcpClient_def Let_def dest!: unobserved_builder split: prod.splits sum.splits)
qed

lemma getConfigMap_unobserved:
  assumes "getConfigMap (observing_reconciler rec) wl = (x, wl')"
  shows "snd wl' = snd wl"
proof -
  obtain y w1 where y: "GetOperatorConfigMap (traced_env (prr_env rec)) (observing_kube (prr_Client rec)) wl = (y, w1)"
    by (metis prod.exhaust)
  then have "snd w1 = snd wl"
    by (auto simp: GetOperatorConfigMap_def split: prod.splits sum.splits option.splits dest!: observing.unseen_answers)
  with assms y show ?thesis by (auto simp: getConfigMap_def split: sum.splits option.splits)
qed

lemma NewReferenceAdapter_observed:
  assumes "NewReferenceAdapter reference (observing_kube K) (untraced_gcp gcp) manager cm (traced_env env) wl = (x, wl')"
    and "reference_watch rk (snd wl) = Some (just_read reference None False)"
    and "meta_key (pr_Meta reference) = rk"
  shows "reference_watch rk (snd wl') \<noteq> None"
    and "x = Inr (a, s) \<Longrightarrow> observing_cloud.adapter K env gcp a \<and> observing.ref_current rk s \<and>
      (pc_State (rs_claim s) = ClaimStatusPendingProject \<longrightarrow> observing.read_pending rk s)"
proof -
  obtain y w where g: "k_GetProjectClaim (observing_kube K) (link_of reference) wl = (y, w)" by (metis prod.exhaust)
  note h = observing.answers(1) [OF g]
  show "reference_watch rk (snd wl') \<noteq> None"
    using assms g h by (auto simp: NewReferenceAdapter_def getMatchingClaimLink_def Let_def split: sum.splits)
  assume "x = Inr (a, s)"
  then obtain c where y: "y = Inr c" and s: "s = \<lparr>rs_claim = c, rs_reference = reference, rs_world = w\<rparr>"
    and a: "a = \<lparr>ra_kubeClient = observing_kube K, ra_gcpClient = untraced_gcp gcp, ra_conditionManager = manager,
      ra_OperatorConfig = cm, ra_env = traced_env env\<rparr>"
    using assms(1) g by (auto simp: NewReferenceAdapter_def getMatchingClaimLink_def Let_def split: sum.splits)
  have "reference_watch rk (snd w) = Some (just_read reference (Some c) (pc_State c = ClaimStatusPendingProject))"
    by (simp add: h assms(2) y)
  then show "observing_cloud.adapter K env gcp a \<and> observing.ref_current rk s \<and>
      (pc_State (rs_claim s) = ClaimStatusPendingProject \<longrightarrow> observing.read_pending rk s)"
    using assms(3) by (simp add: s a observing_cloud.adapter_def observing.ref_current_def
        observing.read_pending_def ref_based_on_def)
qed

lemma reconcile_reference_allowed:
  assumes K: "proper_answers (prr_Client rec)" and key: "meta_key (pr_Meta reference) = rk"
    and m: "reference_watch rk (snd w) = Some (just_read reference None False)"
  shows "reference_watch rk (snd (snd (reconcile_reference (observing_reconciler rec) reference w))) \<noteq> None"
proof -
  obtain x w1 where 1: "getGcpClient (observing_reconciler rec) reference w = (x, w1)" by (metis prod.exhaust)
  obtain y w2 where 2: "getConfigMap (observing_reconciler rec) w1 = (y, w2)" by (metis prod.exhaust)
  have w2: "snd w1 = snd w" "snd w2 = snd w"
    using getGcpClient_unobserved(1) [OF 1] getConfigMap_unobserved [OF 2] by simp_all
  show ?thesis
  proof (cases "\<exists>gcp cm. x = Inr (untraced_gcp gcp) \<and> y = Inr cm")
    case False
    then show ?thesis
      using w2 m getGcpClient_unobserved(2) [OF 1] by (auto simp: reconcile_reference_def 1 2 split: sum.splits)
  next
    case True
    then obtain gcp cm where xy: "x = Inr (untraced_gcp gcp)" "y = Inr cm" by blast
    obtain z w3 where 3: "NewReferenceAdapter reference (observing_kube (prr_Client rec)) (untraced_gcp gcp)
        NewConditionManager cm (traced_env (prr_env rec)) w2 = (z, w3)" by (metis prod.exhaust)
    note new = NewReferenceAdapter_observed [OF 3 _ key, unfolded w2, OF m]
    show ?thesis
    proof (cases z)
      case (Inl e)
      with new(1) show ?thesis by (simp add: reconcile_reference_def 1 2 3 xy)
    next
      case (Inr as)
      obtain a s where as: "z = Inr (a, s)" using Inr by (cases as) simp
      note s = new(2) [OF as]
      obtain result e s1 where h: "reference_ReconcileHandler a s = ((result, e), s1)" by (metis prod.exhaust)
      obtain i s2 where c: "SetProjectReferenceCondition a ''ReconcileError'' e s1 = (i, s2)" by fastforce
      have "observing.ref_settled rk s1"
        using observing_cloud.reference_handler_settled [OF observing_proper [OF K], of "prr_env rec" gcp a rk s] s h
        by simp
      then have "observing.ref_settled rk s2"
        using observing_cloud.SetProjectReferenceCondition_settled [OF observing_proper [OF K],
            of "prr_env rec" gcp a rk s1 "''ReconcileError''" e] s c by simp
      then have "reference_watch rk (snd (rs_world s2)) \<noteq> None" by (auto simp: observing.ref_settled_def)
      then show ?thesis by (simp add: reconcile_reference_def 1 2 3 xy as h c)
    qed
  qed
qed

lemma reference_history_allowed:
  assumes K: "proper_answers (prr_Client rec)"
  shows "reference_watch rk (reference_history rec rk w) \<noteq> None"
proof -
  let ?K = "observing_kube (prr_Client rec)" and ?rec = "observing_reconciler rec"
  note K' = observing_proper [OF K]
  obtain a w1 where a: "k_GetProjectReference ?K rk (w, []) = (a, w1)" by (metis prod.exhaust)
  have h1: "snd w1 = [SawReference rk a]" using observing.answers(2) [OF a] by simp
  show ?thesis
  proof (cases a)
    case (Inl e)
    with a h1 show ?thesis by (simp add: reference_history_def reference_Reconcile_def reference_watch_def)
  next
    case (Inr reference)
    have m1: "reference_watch rk (snd w1) = Some (just_read reference None False)"
      by (simp add: h1 Inr reference_watch_def no_reference_knowledge_def)
    have key: "meta_key (pr_Meta reference) = rk" using proper_answersD(2) [OF K'] a Inr by simp
    have "reference_watch rk (snd (snd (reconcile_reference ?rec reference w1))) \<noteq> None"
      by (rule reconcile_reference_allowed [OF K key m1])
    moreover have "reference_watch rk (snd w2) \<noteq> None"
      if "k_StatusUpdateProjectReference ?K (set_reference_state ProjectReferenceStatusError reference) w1 = (b, w2)"
        "\<not> reference_deleted reference" "ProjectReference_Validate reference \<noteq> None" for b w2
      using observing.answers(8) [OF that(1)] that(2,3) m1 key
      by (simp add: ref_based_on_def may_be_ready_def ref_may_move_def rejected_def)
    ultimately show ?thesis
      using a Inr m1 by (auto simp: reference_history_def reference_Reconcile_def split: prod.splits option.splits)
  qed
qed

end
