(* ===== verification/ClusterMoves.thy ===== *)
theory ClusterMoves
  imports ReferenceProtocol
begin

text \<open>
  The claims and references on the API server, the invariant that ties them together, and what a
  run that has seen some of them may rely on.  Each change of the server is a move: one claim or
  one reference is replaced, under a version never used before, or removed.
\<close>

subsection \<open>Versions\<close>

lemma digit_char_inj: "a < 16 \<Longrightarrow> b < 16 \<Longrightarrow> digit_char a = digit_char b \<Longrightarrow> a = b"
  by (simp add: digit_char_def nth_eq_iff_index_eq)

lemma show_nat_parts:
  "show_nat n \<noteq> []" "last (show_nat n) = digit_char (n mod 10)"
  "butlast (show_nat n) = (if n < 10 then [] else show_nat (n div 10))"
  by (subst show_nat.simps, simp)+

lemma show_nat_inj: "show_nat m = show_nat n \<Longrightarrow> m = n"
proof (induction m arbitrary: n rule: less_induct)
  case (less m)
  have "digit_char (m mod 10) = digit_char (n mod 10)"
    using less.prems show_nat_parts(2) by metis
  then have mod: "m mod 10 = n mod 10" by (intro digit_char_inj) (auto intro: less_trans)
  have rest: "(if m < 10 then [] else show_nat (m div 10)) = (if n < 10 then [] else show_nat (n div 10))"
    using less.prems show_nat_parts(3) by metis
  show ?case
  proof (cases "m < 10")
    case True
    with rest show_nat_parts(1) [of "n div 10"] have "n < 10" by (metis (full_types))
    with True mod show ?thesis by simp
  next
    case False
    with rest show_nat_parts(1) [of "m div 10"] have "show_nat (m div 10) = show_nat (n div 10)"
      by (metis (full_types))
    with False less.IH [of "m div 10" "n div 10"] have "m div 10 = n div 10" by simp
    with mod show ?thesis by (metis div_mult_mod_eq)
  qed
qed

text \<open>A version given out before the counter reached \<^verbatim>\<open>n\<close>.\<close>

definition old_version :: "nat \<Rightarrow> string \<Rightarrow> bool" where
  "old_version n v \<longleftrightarrow> (\<exists>k<n. v = show_nat k)"

lemma old_version_mono: "old_version n v \<Longrightarrow> n \<le> n' \<Longrightarrow> old_version n' v"
  by (auto simp: old_version_def intro: less_le_trans)

lemma old_version_SucI [simp]: "old_version n v \<Longrightarrow> old_version (Suc n) v"
  by (erule old_version_mono) simp

lemma old_version_Suc [simp]: "old_version (Suc n) (show_nat n)"
  by (auto simp: old_version_def)

lemma new_version_fresh [simp]: "old_version n v \<Longrightarrow> v \<noteq> show_nat n" "old_version n v \<Longrightarrow> show_nat n \<noteq> v"
  by (auto simp: old_version_def dest: show_nat_inj)

abbreviation claim_version :: "ProjectClaim \<Rightarrow> string" where
  "claim_version c \<equiv> om_ResourceVersion (pc_Meta c)"

abbreviation reference_version :: "ProjectReference \<Rightarrow> string" where
  "reference_version r \<equiv> om_ResourceVersion (pr_Meta r)"

subsection \<open>The invariant of the cluster\<close>

definition unlinked :: "cluster \<Rightarrow> NamespacedName \<Rightarrow> bool" where
  "unlinked cl nn \<longleftrightarrow> (\<forall>rk r. cl_references cl rk = Some r \<longrightarrow> link_of r \<noteq> nn)"

text \<open>
  Every reference lives under the key of the claim it links to.  A reference that holds its
  finalizer has its claim, and that is guarded.  A claim that is PendingProject or Ready is
  guarded, unless it is being deleted and no reference links to it.  A Ready reference holds its
  finalizer, unless it is being deleted.
\<close>

definition references_keyed :: "cluster \<Rightarrow> bool" where
  "references_keyed cl \<longleftrightarrow> (\<forall>rk r. cl_references cl rk = Some r \<longrightarrow> rk = ref_key (link_of r))"

definition held_have_claims :: "cluster \<Rightarrow> bool" where
  "held_have_claims cl \<longleftrightarrow> (\<forall>rk r. cl_references cl rk = Some r \<longrightarrow> held r \<longrightarrow>
     (\<exists>c. cl_claims cl (link_of r) = Some c \<and> guarded c))"

definition promised_guarded :: "cluster \<Rightarrow> bool" where
  "promised_guarded cl \<longleftrightarrow> (\<forall>nn c. cl_claims cl nn = Some c \<longrightarrow> promised (pc_State c) \<longrightarrow>
     guarded c \<or> claim_deleted c \<and> unlinked cl nn)"

definition ready_held :: "cluster \<Rightarrow> bool" where
  "ready_held cl \<longleftrightarrow> (\<forall>rk r. cl_references cl rk = Some r \<longrightarrow> pr_State r = ProjectReferenceStatusReady \<longrightarrow>
     held r \<or> reference_deleted r)"

definition versions_old :: "cluster \<Rightarrow> bool" where
  "versions_old cl \<longleftrightarrow>
     (\<forall>nn c. cl_claims cl nn = Some c \<longrightarrow> old_version (cl_version cl) (claim_version c)) \<and>
     (\<forall>rk r. cl_references cl rk = Some r \<longrightarrow> old_version (cl_version cl) (reference_version r))"

definition cluster_inv :: "cluster \<Rightarrow> bool" where
  "cluster_inv cl \<longleftrightarrow> versions_old cl \<and> references_keyed cl \<and> held_have_claims cl \<and> promised_guarded cl \<and>
     ready_held cl"

lemmas cluster_inv_defs = cluster_inv_def versions_old_def references_keyed_def held_have_claims_def
  promised_guarded_def ready_held_def

lemma cluster_invD:
  assumes "cluster_inv cl"
  shows "cl_references cl rk = Some r \<Longrightarrow> rk = ref_key (link_of r)"
    and "cl_references cl rk = Some r \<Longrightarrow> held r \<Longrightarrow> \<exists>c. cl_claims cl (link_of r) = Some c \<and> guarded c"
    and "cl_claims cl nn = Some c \<Longrightarrow> promised (pc_State c) \<Longrightarrow> \<not> guarded c \<Longrightarrow> claim_deleted c"
    and "cl_claims cl nn = Some c \<Longrightarrow> promised (pc_State c) \<Longrightarrow> \<not> guarded c \<Longrightarrow> unlinked cl nn"
    and "cl_references cl rk = Some r \<Longrightarrow> pr_State r = ProjectReferenceStatusReady \<Longrightarrow> \<not> reference_deleted r \<Longrightarrow> held r"
    and "cl_claims cl nn = Some c \<Longrightarrow> old_version (cl_version cl) (claim_version c)"
    and "cl_references cl rk = Some r \<Longrightarrow> old_version (cl_version cl) (reference_version r)"
  using assms unfolding cluster_inv_defs by blast+

lemma linked_promise:
  "cluster_inv cl \<Longrightarrow> cl_references cl rk = Some r \<Longrightarrow> cl_claims cl (link_of r) = Some c \<Longrightarrow>
     promised (pc_State c) \<Longrightarrow> guarded c"
  using cluster_invD(4) unfolding unlinked_def by blast

lemma gone_unlinked: "cluster_inv cl \<Longrightarrow> cl_references cl (ref_key nn) = None \<Longrightarrow> unlinked cl nn"
  by (auto simp: cluster_inv_def references_keyed_def unlinked_def)

subsection \<open>What a run relies on\<close>

text \<open>
  The run of the claim controller: what the server last answered with is true as long as the
  version is; a claim last seen alive is guarded when it is PendingProject or Ready; a reference
  that was gone is gone.
\<close>

definition seen_claim :: "cluster \<Rightarrow> NamespacedName \<Rightarrow> ProjectClaim \<Rightarrow> bool" where
  "seen_claim cl nn c \<longleftrightarrow> meta_key (pc_Meta c) = nn \<and> old_version (cl_version cl) (claim_version c) \<and>
     (\<forall>c'. cl_claims cl nn = Some c' \<longrightarrow> claim_version c' = claim_version c \<longrightarrow>
        om_Finalizers (pc_Meta c') = om_Finalizers (pc_Meta c) \<and>
        om_DeletionTimestamp (pc_Meta c') = om_DeletionTimestamp (pc_Meta c) \<and> pc_State c' = pc_State c)"

definition claim_knows :: "cluster \<Rightarrow> NamespacedName \<Rightarrow> claim_knowledge \<Rightarrow> bool" where
  "claim_knows cl nn m \<longleftrightarrow>
     (\<forall>c. ck_claim m = Some c \<longrightarrow> seen_claim cl nn c \<and>
        (\<not> claim_deleted c \<longrightarrow> (\<forall>c'. cl_claims cl nn = Some c' \<longrightarrow> promised (pc_State c') \<longrightarrow> guarded c'))) \<and>
     (ck_gone m \<longrightarrow> cl_references cl (ref_key nn) = None)"

text \<open>
  The run of the reference controller: likewise for the reference and its claim; a reference last
  seen Ready and alive still holds its finalizer; and if the claim was read in the state
  PendingProject and the reference has not changed since it was read, the claim is guarded.
\<close>

definition seen_reference :: "cluster \<Rightarrow> NamespacedName \<Rightarrow> ProjectReference \<Rightarrow> bool" where
  "seen_reference cl rk r \<longleftrightarrow> meta_key (pr_Meta r) = rk \<and> old_version (cl_version cl) (reference_version r) \<and>
     (\<forall>r'. cl_references cl rk = Some r' \<longrightarrow> reference_version r' = reference_version r \<longrightarrow>
        om_Finalizers (pr_Meta r') = om_Finalizers (pr_Meta r) \<and>
        om_DeletionTimestamp (pr_Meta r') = om_DeletionTimestamp (pr_Meta r) \<and>
        pr_State r' = pr_State r \<and> link_of r' = link_of r \<and> pr_Spec r' = pr_Spec r) \<and>
     (pr_State r = ProjectReferenceStatusReady \<longrightarrow> \<not> reference_deleted r \<longrightarrow> held r) \<and>
     (held r \<longrightarrow> \<not> reference_deleted r \<longrightarrow>
        (\<exists>r'. cl_references cl rk = Some r' \<and> held r' \<and> link_of r' = link_of r))"

definition pending_guard :: "cluster \<Rightarrow> NamespacedName \<Rightarrow> ProjectReference \<Rightarrow> bool" where
  "pending_guard cl rk r \<longleftrightarrow> (\<forall>r'. cl_references cl rk = Some r' \<longrightarrow> reference_version r' = reference_version r \<longrightarrow>
     (\<exists>c. cl_claims cl (link_of r) = Some c \<and> guarded c))"

definition reference_knows :: "cluster \<Rightarrow> NamespacedName \<Rightarrow> reference_knowledge \<Rightarrow> bool" where
  "reference_knows cl rk m \<longleftrightarrow>
     (case rk_reference m of
        None \<Rightarrow> rk_claim m = None \<and> \<not> rk_pending m
      | Some r \<Rightarrow> seen_reference cl rk r \<and>
          (\<forall>c. rk_claim m = Some c \<longrightarrow> seen_claim cl (link_of r) c) \<and>
          (rk_pending m \<longrightarrow> pending_guard cl rk r))"

text \<open>What is known stays known where the version seen is not given to another object.\<close>

lemma seen_claim_mono:
  assumes "seen_claim cl nn c" "cl_version cl \<le> cl_version cl'"
    and "\<And>c'. cl_claims cl' nn = Some c' \<Longrightarrow> claim_version c' = claim_version c \<Longrightarrow> cl_claims cl nn = Some c'"
  shows "seen_claim cl' nn c"
  using assms unfolding seen_claim_def by (blast intro: old_version_mono)

lemma seen_reference_mono:
  assumes "seen_reference cl rk r" "cl_version cl \<le> cl_version cl'"
    and "\<And>r'. cl_references cl' rk = Some r' \<Longrightarrow> reference_version r' = reference_version r \<Longrightarrow>
      cl_references cl rk = Some r'"
    and "\<And>r'. cl_references cl rk = Some r' \<Longrightarrow> held r' \<Longrightarrow>
      \<exists>r''. cl_references cl' rk = Some r'' \<and> held r'' \<and> link_of r'' = link_of r'"
  shows "seen_reference cl' rk r"
proof -
  note r = assms(1) [unfolded seen_reference_def]
  from r have held: "held r \<Longrightarrow> \<not> reference_deleted r \<Longrightarrow>
      \<exists>r'. cl_references cl rk = Some r' \<and> held r' \<and> link_of r' = link_of r" by blast
  have "\<exists>r''. cl_references cl' rk = Some r'' \<and> held r'' \<and> link_of r'' = link_of r"
    if "held r" "\<not> reference_deleted r"
  proof -
    from held [OF that] obtain r' where r': "cl_references cl rk = Some r'" "held r'" "link_of r' = link_of r" by blast
    from assms(4) [OF r'(1,2)] r'(3) show ?thesis by simp
  qed
  moreover have "old_version (cl_version cl') (reference_version r)"
    using r assms(2) by (blast intro: old_version_mono)
  ultimately show ?thesis
    unfolding seen_reference_def using r assms(3) by blast
qed

lemma reference_knows_mono:
  assumes "reference_knows cl rk m"
    and "\<And>r. rk_reference m = Some r \<Longrightarrow> seen_reference cl rk r \<Longrightarrow> seen_reference cl' rk r"
    and "\<And>r c. rk_reference m = Some r \<Longrightarrow> rk_claim m = Some c \<Longrightarrow> seen_claim cl (link_of r) c \<Longrightarrow>
      seen_claim cl' (link_of r) c"
    and "\<And>r. rk_reference m = Some r \<Longrightarrow> seen_reference cl rk r \<Longrightarrow> pending_guard cl rk r \<Longrightarrow> pending_guard cl' rk r"
  shows "reference_knows cl' rk m"
proof (cases "rk_reference m")
  case None
  with assms(1) show ?thesis by (simp add: reference_knows_def)
next
  case (Some r)
  then have r: "seen_reference cl rk r" and c: "\<forall>c. rk_claim m = Some c \<longrightarrow> seen_claim cl (link_of r) c"
    and p: "rk_pending m \<longrightarrow> pending_guard cl rk r"
    using assms(1) by (simp_all add: reference_knows_def)
  have "seen_reference cl' rk r" using assms(2) [OF Some r] .
  moreover have "\<forall>c. rk_claim m = Some c \<longrightarrow> seen_claim cl' (link_of r) c" using c assms(3) [OF Some] by blast
  moreover have "rk_pending m \<longrightarrow> pending_guard cl' rk r" using p assms(4) [OF Some r] by blast
  ultimately show ?thesis by (simp add: reference_knows_def Some)
qed

subsection \<open>Moves\<close>

text \<open>Nothing but the version counter changes in what matters here.\<close>

definition quiet_move :: "cluster \<Rightarrow> cluster \<Rightarrow> bool" where
  "quiet_move cl cl' \<longleftrightarrow> cl_claims cl' = cl_claims cl \<and> cl_references cl' = cl_references cl \<and>
     cl_version cl \<le> cl_version cl'"

definition claim_move :: "NamespacedName \<Rightarrow> ProjectClaim option \<Rightarrow> cluster \<Rightarrow> cluster \<Rightarrow> bool" where
  "claim_move nn new cl cl' \<longleftrightarrow> cl_claims cl' = (cl_claims cl)(nn := new) \<and> cl_references cl' = cl_references cl \<and>
     cl_version cl' = Suc (cl_version cl) \<and> (\<forall>c. new = Some c \<longrightarrow> claim_version c = show_nat (cl_version cl))"

definition reference_move :: "NamespacedName \<Rightarrow> ProjectReference option \<Rightarrow> cluster \<Rightarrow> cluster \<Rightarrow> bool" where
  "reference_move rk new cl cl' \<longleftrightarrow> cl_references cl' = (cl_references cl)(rk := new) \<and> cl_claims cl' = cl_claims cl \<and>
     cl_version cl' = Suc (cl_version cl) \<and> (\<forall>r. new = Some r \<longrightarrow> reference_version r = show_nat (cl_version cl))"

lemma quiet_move_keeps:
  assumes "quiet_move cl cl'"
  shows "cluster_inv cl \<Longrightarrow> cluster_inv cl'" and "claim_knows cl nn m \<Longrightarrow> claim_knows cl' nn m"
    and "reference_knows cl rk m' \<Longrightarrow> reference_knows cl' rk m'"
proof -
  have C: "cl_claims cl' = cl_claims cl" and R: "cl_references cl' = cl_references cl"
    and v: "\<And>x. old_version (cl_version cl) x \<Longrightarrow> old_version (cl_version cl') x"
    using assms by (auto simp: quiet_move_def elim: old_version_mono)
  show "cluster_inv cl \<Longrightarrow> cluster_inv cl'"
    using v by (simp add: cluster_inv_defs unlinked_def C R)
  have c: "seen_claim cl kk c \<Longrightarrow> seen_claim cl' kk c" for kk c
    using assms by (auto simp: quiet_move_def elim: seen_claim_mono)
  then show "claim_knows cl nn m \<Longrightarrow> claim_knows cl' nn m"
    by (simp add: claim_knows_def C R)
  have "seen_reference cl rk r \<Longrightarrow> seen_reference cl' rk r" for r
    using assms by (auto simp: quiet_move_def elim: seen_reference_mono)
  with c show "reference_knows cl rk m' \<Longrightarrow> reference_knows cl' rk m'"
    by (elim reference_knows_mono) (simp_all add: pending_guard_def C R)
qed

text \<open>
  A claim may be replaced when its finalizer stays, or no reference links to it, and when what is
  PendingProject or Ready stays guarded, with the one exception of the invariant.
\<close>

definition claim_move_ok :: "NamespacedName \<Rightarrow> ProjectClaim option \<Rightarrow> cluster \<Rightarrow> bool" where
  "claim_move_ok nn new cl \<longleftrightarrow>
     (\<forall>c. cl_claims cl nn = Some c \<longrightarrow> guarded c \<longrightarrow>
        unlinked cl nn \<or> (\<exists>c'. new = Some c' \<and> guarded c')) \<and>
     (\<forall>c'. new = Some c' \<longrightarrow> promised (pc_State c') \<longrightarrow> guarded c' \<or> claim_deleted c' \<and> unlinked cl nn)"

text \<open>Moreover it does not break a promise: what is promised and unguarded was so before.\<close>

definition promise_kept :: "NamespacedName \<Rightarrow> ProjectClaim option \<Rightarrow> cluster \<Rightarrow> bool" where
  "promise_kept nn new cl \<longleftrightarrow> (\<forall>c'. new = Some c' \<longrightarrow> promised (pc_State c') \<longrightarrow> \<not> guarded c' \<longrightarrow>
     (\<exists>c. cl_claims cl nn = Some c \<and> promised (pc_State c) \<and> \<not> guarded c))"

definition reference_move_ok :: "NamespacedName \<Rightarrow> ProjectReference option \<Rightarrow> cluster \<Rightarrow> bool" where
  "reference_move_ok rk new cl \<longleftrightarrow>
     (\<forall>r. new = Some r \<longrightarrow> rk = ref_key (link_of r) \<and>
        (held r \<longrightarrow> (\<exists>c. cl_claims cl (link_of r) = Some c \<and> guarded c)) \<and>
        (\<forall>c. cl_claims cl (link_of r) = Some c \<longrightarrow> promised (pc_State c) \<longrightarrow> guarded c) \<and>
        (pr_State r = ProjectReferenceStatusReady \<longrightarrow> held r \<or> reference_deleted r))"

lemma claim_move_inv:
  assumes inv: "cluster_inv cl" and mv: "claim_move nn new cl cl'" and ok: "claim_move_ok nn new cl"
  shows "cluster_inv cl'"
proof -
  have R: "cl_references cl' = cl_references cl" and C: "cl_claims cl' = (cl_claims cl)(nn := new)"
    and v: "cl_version cl' = Suc (cl_version cl)"
    using mv by (simp_all add: claim_move_def)
  have "versions_old cl'"
    using inv mv by (auto simp: cluster_inv_def versions_old_def claim_move_def)
  moreover have "references_keyed cl'" "ready_held cl'"
    using inv by (simp_all add: cluster_inv_def references_keyed_def ready_held_def R)
  moreover have "held_have_claims cl'"
    using inv ok by (fastforce simp: cluster_inv_def held_have_claims_def R C claim_move_ok_def unlinked_def)
  moreover have "promised_guarded cl'"
    using inv ok by (auto simp: cluster_inv_def promised_guarded_def R C claim_move_ok_def unlinked_def)
  ultimately show ?thesis by (simp add: cluster_inv_def)
qed

lemma claim_move_seen:
  assumes "claim_move nn new cl cl'"
  shows "seen_claim cl kk c \<Longrightarrow> seen_claim cl' kk c" and "seen_reference cl rk r \<Longrightarrow> seen_reference cl' rk r"
proof -
  assume c: "seen_claim cl kk c"
  then have "claim_version c \<noteq> show_nat (cl_version cl)" by (auto simp: seen_claim_def)
  with assms show "seen_claim cl' kk c"
    by (intro seen_claim_mono [OF c]) (auto simp: claim_move_def split: if_splits)
next
  show "seen_reference cl rk r \<Longrightarrow> seen_reference cl' rk r"
    using assms by (elim seen_reference_mono) (auto simp: claim_move_def)
qed

lemma claim_move_reference_knows:
  assumes inv: "cluster_inv cl" and mv: "claim_move nn new cl cl'" and ok: "claim_move_ok nn new cl"
    and k: "reference_knows cl rk m"
  shows "reference_knows cl' rk m"
  using k
proof (rule reference_knows_mono)
  fix r assume r: "seen_reference cl rk r" and p: "pending_guard cl rk r"
  have R: "cl_references cl' = cl_references cl" and C: "cl_claims cl' = (cl_claims cl)(nn := new)"
    using mv by (simp_all add: claim_move_def)
  show "pending_guard cl' rk r"
    unfolding pending_guard_def R
  proof (intro allI impI)
    fix r' assume r': "cl_references cl rk = Some r'" "reference_version r' = reference_version r"
    then obtain c where c: "cl_claims cl (link_of r) = Some c" "guarded c"
      using p by (auto simp: pending_guard_def)
    have "link_of r' = link_of r" using r r' by (simp add: seen_reference_def)
    then have "link_of r = nn \<Longrightarrow> \<not> unlinked cl nn" using r' by (auto simp: unlinked_def)
    with c ok show "\<exists>c. cl_claims cl' (link_of r) = Some c \<and> guarded c"
      by (auto simp: C claim_move_ok_def)
  qed
qed (rule claim_move_seen [OF mv], assumption)+

lemma claim_move_claim_knows:
  assumes mv: "claim_move nn new cl cl'" and ok: "promise_kept nn new cl" and k: "claim_knows cl kk m"
  shows "claim_knows cl' kk m"
proof -
  have R: "cl_references cl' = cl_references cl" and C: "cl_claims cl' = (cl_claims cl)(nn := new)"
    using mv by (simp_all add: claim_move_def)
  have "guarded c'" if "ck_claim m = Some c" "\<not> claim_deleted c" "cl_claims cl' kk = Some c'" "promised (pc_State c')"
    for c c'
    using k ok that by (fastforce simp: claim_knows_def C promise_kept_def split: if_splits)
  with k claim_move_seen(1) [OF mv] show ?thesis by (auto simp: claim_knows_def R)
qed

lemma reference_move_inv:
  assumes inv: "cluster_inv cl" and mv: "reference_move rk new cl cl'" and ok: "reference_move_ok rk new cl"
  shows "cluster_inv cl'"
proof -
  have C: "cl_claims cl' = cl_claims cl" and R: "cl_references cl' = (cl_references cl)(rk := new)"
    using mv by (simp_all add: reference_move_def)
  have "versions_old cl'"
    using inv mv by (auto simp: cluster_inv_def versions_old_def reference_move_def)
  moreover have "references_keyed cl'" "ready_held cl'" "held_have_claims cl'"
    using inv ok by (auto simp: cluster_inv_def references_keyed_def ready_held_def held_have_claims_def R C
        reference_move_ok_def)
  moreover have "promised_guarded cl'"
    using inv ok by (fastforce simp: cluster_inv_def promised_guarded_def unlinked_def R C reference_move_ok_def)
  ultimately show ?thesis by (simp add: cluster_inv_def)
qed

lemma reference_move_seen_claim:
  "reference_move rk new cl cl' \<Longrightarrow> seen_claim cl nn c \<Longrightarrow> seen_claim cl' nn c"
  by (elim seen_claim_mono) (auto simp: reference_move_def)

lemma reference_move_claim_knows:
  assumes mv: "reference_move rk new cl cl'" and old: "cl_references cl rk = None \<longrightarrow> new = None"
    and k: "claim_knows cl nn m"
  shows "claim_knows cl' nn m"
  using k old reference_move_seen_claim [OF mv] mv by (auto simp: claim_knows_def reference_move_def)

text \<open>The moves others may make with the reference of a run: its finalizer and its link stay.\<close>

definition hold_kept :: "NamespacedName \<Rightarrow> ProjectReference option \<Rightarrow> cluster \<Rightarrow> bool" where
  "hold_kept rk new cl \<longleftrightarrow> (\<forall>r. cl_references cl rk = Some r \<longrightarrow> held r \<longrightarrow>
     (\<exists>r'. new = Some r' \<and> held r' \<and> link_of r' = link_of r))"

lemma reference_move_seen:
  assumes mv: "reference_move rk new cl cl'" and ok: "hold_kept rk new cl"
  shows "seen_reference cl kk r \<Longrightarrow> seen_reference cl' kk r"
proof -
  assume r: "seen_reference cl kk r"
  then have "reference_version r \<noteq> show_nat (cl_version cl)" by (auto simp: seen_reference_def)
  with mv ok show "seen_reference cl' kk r"
    by (intro seen_reference_mono [OF r]) (auto simp: reference_move_def hold_kept_def split: if_splits)
qed

lemma reference_move_reference_knows:
  assumes mv: "reference_move rk new cl cl'" and ok: "hold_kept rk new cl" and k: "reference_knows cl kk m"
  shows "reference_knows cl' kk m"
  using k
proof (rule reference_knows_mono)
  fix r assume r: "seen_reference cl kk r" and p: "pending_guard cl kk r"
  then have "reference_version r \<noteq> show_nat (cl_version cl)" by (auto simp: seen_reference_def)
  with p mv show "pending_guard cl' kk r"
    by (auto simp: pending_guard_def reference_move_def split: if_splits)
qed (rule reference_move_seen [OF mv ok] reference_move_seen_claim [OF mv], assumption)+

end
