(* ===== verification/ClusterCalls.thy ===== *)
theory ClusterCalls
  imports ClusterMoves
begin

text \<open>
  The writes of the API server as moves: what each of them does to the claims and references, and
  what it answers.
\<close>

text \<open>What is stored of a written object: nothing, if it was being deleted and has no finalizer left.\<close>

definition stored_claim :: "ProjectClaim \<Rightarrow> ProjectClaim option" where
  "stored_claim c = (if claim_deleted c \<and> om_Finalizers (pc_Meta c) = [] then None else Some c)"

definition stored_reference :: "ProjectReference \<Rightarrow> ProjectReference option" where
  "stored_reference r = (if reference_deleted r \<and> om_Finalizers (pr_Meta r) = [] then None else Some r)"

lemma stored_claim_Some: "stored_claim c = Some c' \<Longrightarrow> c' = c"
  by (auto simp: stored_claim_def split: if_splits)

lemma stored_claim_guarded [simp]: "guarded c \<Longrightarrow> stored_claim c = Some c"
  by (auto simp: stored_claim_def)

lemma stored_reference_Some: "stored_reference r = Some r' \<Longrightarrow> r' = r"
  by (auto simp: stored_reference_def split: if_splits)

lemma stored_reference_held [simp]: "held r \<Longrightarrow> stored_reference r = Some r"
  by (auto simp: stored_reference_def)

text \<open>A write of a claim: it fails and changes nothing, or the version was right.\<close>

definition claim_written :: "(ProjectClaim \<Rightarrow> ProjectClaim \<Rightarrow> bool) \<Rightarrow> ProjectClaim \<Rightarrow> err option \<times> ProjectClaim
    \<Rightarrow> cluster \<Rightarrow> cluster \<Rightarrow> bool" where
  "claim_written P x a cl cl' \<longleftrightarrow>
     (case fst a of
        Some e \<Rightarrow> quiet_move cl cl'
      | None \<Rightarrow> (\<exists>c. cl_claims cl (meta_key (pc_Meta x)) = Some c \<and> claim_version x = claim_version c \<and>
          meta_key (pc_Meta (snd a)) = meta_key (pc_Meta x) \<and> claim_version (snd a) = show_nat (cl_version cl) \<and>
          om_DeletionTimestamp (pc_Meta (snd a)) = om_DeletionTimestamp (pc_Meta c) \<and> P c (snd a) \<and>
          claim_move (meta_key (pc_Meta x)) (stored_claim (snd a)) cl cl'))"

definition reference_written :: "(ProjectReference \<Rightarrow> ProjectReference \<Rightarrow> bool) \<Rightarrow> ProjectReference
    \<Rightarrow> err option \<times> ProjectReference \<Rightarrow> cluster \<Rightarrow> cluster \<Rightarrow> bool" where
  "reference_written P x a cl cl' \<longleftrightarrow>
     (case fst a of
        Some e \<Rightarrow> quiet_move cl cl'
      | None \<Rightarrow> (\<exists>r. cl_references cl (meta_key (pr_Meta x)) = Some r \<and> reference_version x = reference_version r \<and>
          meta_key (pr_Meta (snd a)) = meta_key (pr_Meta x) \<and> reference_version (snd a) = show_nat (cl_version cl) \<and>
          om_DeletionTimestamp (pr_Meta (snd a)) = om_DeletionTimestamp (pr_Meta r) \<and> P r (snd a) \<and>
          reference_move (meta_key (pr_Meta x)) (stored_reference (snd a)) cl cl'))"

lemma bump_sel [simp]:
  "cl_claims (bump cl) = cl_claims cl" "cl_references (bump cl) = cl_references cl"
  "cl_version (bump cl) = Suc (cl_version cl)"
  by (simp_all add: bump_def)

lemma update_claim_written:
  assumes "k_UpdateProjectClaim cluster_kube x cl = (a, cl')"
  shows "claim_written (\<lambda>c obj. om_Finalizers (pc_Meta obj) = om_Finalizers (pc_Meta x) \<and> pc_State obj = pc_State c)
    x a cl cl'"
  using assms by (auto simp: claim_written_def cluster_kube_def with_claims_def api_update_def Let_def quiet_move_def
      claim_move_def stored_claim_def set_pc_meta_def split: option.splits if_splits)

lemma status_claim_written:
  assumes "k_StatusUpdateProjectClaim cluster_kube x cl = (a, cl')"
  shows "claim_written (\<lambda>c obj. om_Finalizers (pc_Meta obj) = om_Finalizers (pc_Meta c) \<and> pc_State obj = pc_State x)
    x a cl cl'"
  using assms by (auto simp: claim_written_def cluster_kube_def with_claims_def api_update_def Let_def quiet_move_def
      claim_move_def stored_claim_def set_pc_meta_def split: option.splits if_splits)

lemma update_reference_written:
  assumes "k_UpdateProjectReference cluster_kube x cl = (a, cl')"
  shows "reference_written (\<lambda>r obj. om_Finalizers (pr_Meta obj) = om_Finalizers (pr_Meta x) \<and>
    link_of obj = link_of x \<and> pr_State obj = pr_State r) x a cl cl'"
  using assms by (auto simp: reference_written_def cluster_kube_def with_references_def api_update_def Let_def
      quiet_move_def reference_move_def stored_reference_def set_pr_meta_def split: option.splits if_splits)

lemma status_reference_written:
  assumes "k_StatusUpdateProjectReference cluster_kube x cl = (a, cl')"
  shows "reference_written (\<lambda>r obj. om_Finalizers (pr_Meta obj) = om_Finalizers (pr_Meta r) \<and>
    link_of obj = link_of r \<and> pr_State obj = pr_State x) x a cl cl'"
  using assms by (auto simp: reference_written_def cluster_kube_def with_references_def api_update_def Let_def
      quiet_move_def reference_move_def stored_reference_def set_pr_meta_def split: option.splits if_splits)

lemma create_reference_move:
  assumes "k_CreateProjectReference cluster_kube x cl = ((e, obj), cl')"
  shows "if e = None then cl_references cl (meta_key (pr_Meta x)) = None \<and>
      reference_move (meta_key (pr_Meta x)) (Some obj) cl cl' \<and>
      link_of obj = link_of x \<and> om_Finalizers (pr_Meta obj) = om_Finalizers (pr_Meta x) \<and> pr_State obj = pr_State x
    else quiet_move cl cl'"
  using assms by (auto simp: cluster_kube_def with_references_def api_create_def Let_def
      quiet_move_def reference_move_def set_pr_meta_def split: option.splits if_splits)

text \<open>A deletion: an object without finalizers is removed, one with finalizers is marked.\<close>

definition marked_reference :: "cluster \<Rightarrow> ProjectReference \<Rightarrow> ProjectReference option" where
  "marked_reference cl r =
     (if om_Finalizers (pr_Meta r) = [] then None
      else Some (set_pr_meta ((pr_Meta r)\<lparr>om_DeletionTimestamp := Some (cl_now cl),
        om_ResourceVersion := show_nat (cl_version cl)\<rparr>) r))"

lemma delete_reference_move:
  assumes "k_DeleteProjectReference cluster_kube x cl = (e, cl')"
  shows "quiet_move cl cl' \<or> (\<exists>r. cl_references cl (meta_key (pr_Meta x)) = Some r \<and>
    reference_move (meta_key (pr_Meta x)) (marked_reference cl r) cl cl')"
proof (cases "cl_references cl (meta_key (pr_Meta x))")
  case None
  with assms show ?thesis
    by (auto simp: cluster_kube_def with_references_def api_delete_def quiet_move_def)
next
  case (Some r)
  show ?thesis
  proof (cases "om_Finalizers (pr_Meta r) \<noteq> [] \<and> reference_deleted r")
    case True
    with assms Some show ?thesis
      by (auto simp: cluster_kube_def with_references_def api_delete_def quiet_move_def)
  next
    case False
    with assms Some show ?thesis
      by (intro disjI2 exI [of _ r]) (auto simp: cluster_kube_def with_references_def api_delete_def
          marked_reference_def reference_move_def set_pr_meta_def)
  qed
qed

lemma marked_reference_sel:
  assumes "marked_reference cl r = Some r'"
  shows "link_of r' = link_of r" "held r' = held r" "pr_State r' = pr_State r" "reference_deleted r'"
  using assms by (auto simp: marked_reference_def set_pr_meta_def split: if_splits)

lemma marked_reference_held: "held r \<Longrightarrow> \<exists>r'. marked_reference cl r = Some r' \<and> held r' \<and> link_of r' = link_of r"
  by (auto simp: marked_reference_def set_pr_meta_def)

definition deleted_claim_object :: "cluster \<Rightarrow> ProjectClaim \<Rightarrow> ProjectClaim option" where
  "deleted_claim_object cl c =
     (if om_Finalizers (pc_Meta c) = [] then None
      else Some (set_pc_meta ((pc_Meta c)\<lparr>om_DeletionTimestamp := Some (cl_now cl),
        om_ResourceVersion := show_nat (cl_version cl)\<rparr>) c))"

text \<open>The tenant's requests, as the server answers them.\<close>

definition create_claim :: "ProjectClaim \<Rightarrow> cluster \<Rightarrow> cluster" where
  "create_claim x cl = snd (with_claims (api_create pc_Meta set_pc_meta (cl_version cl) x) cl)"

definition delete_claim :: "ProjectClaim \<Rightarrow> cluster \<Rightarrow> cluster" where
  "delete_claim x cl = snd (with_claims (api_delete pc_Meta set_pc_meta (cl_version cl) (cl_now cl) x) cl)"

lemma create_claim_move:
  "quiet_move cl (create_claim x cl) \<or> (\<exists>c. cl_claims cl (meta_key (pc_Meta x)) = None \<and> pc_State c = pc_State x \<and>
    claim_move (meta_key (pc_Meta x)) (Some c) cl (create_claim x cl))"
proof (cases "cl_claims cl (meta_key (pc_Meta x))")
  case None
  then show ?thesis
    by (intro disjI2 exI [of _ "set_pc_meta ((pc_Meta x)\<lparr>om_ResourceVersion := show_nat (cl_version cl)\<rparr>) x"])
      (simp add: create_claim_def with_claims_def api_create_def Let_def claim_move_def set_pc_meta_def)
next
  case (Some c)
  then show ?thesis
    by (intro disjI1) (simp add: create_claim_def with_claims_def api_create_def quiet_move_def)
qed

lemma delete_claim_move:
  "quiet_move cl (delete_claim x cl) \<or> (\<exists>c. cl_claims cl (meta_key (pc_Meta x)) = Some c \<and>
    claim_move (meta_key (pc_Meta x)) (deleted_claim_object cl c) cl (delete_claim x cl))"
proof (cases "cl_claims cl (meta_key (pc_Meta x))")
  case None
  then show ?thesis by (simp add: delete_claim_def with_claims_def api_delete_def quiet_move_def)
next
  case (Some c)
  show ?thesis
  proof (cases "om_Finalizers (pc_Meta c) \<noteq> [] \<and> claim_deleted c")
    case True
    with Some show ?thesis by (auto simp: delete_claim_def with_claims_def api_delete_def quiet_move_def)
  next
    case False
    with Some show ?thesis
      by (intro disjI2 exI [of _ c])
        (auto simp: delete_claim_def with_claims_def api_delete_def deleted_claim_object_def claim_move_def set_pc_meta_def)
  qed
qed

end
