(* ===== verification/ServedCalls.thy ===== *)
theory ServedCalls
  imports ClusterCalls
begin

text \<open>
  One call of a controller, or one request of a tenant, served by the API server: it keeps the
  invariant of the cluster, what the caller knows, and what the others know.
\<close>

subsection \<open>What the server answers\<close>

text \<open>
  A read is answered with the object, or fails for another reason than its absence.  A write takes
  effect as the server defines it; or it fails, and may have taken effect although the answer was
  lost.
\<close>

definition read_as :: "err + 'o \<Rightarrow> err + 'o \<Rightarrow> bool" where
  "read_as a true_answer \<longleftrightarrow> a = true_answer \<or> (case a of Inl e \<Rightarrow> \<not> IsNotFound e | Inr x \<Rightarrow> False)"

definition write_as :: "'o \<Rightarrow> err option \<times> 'o \<Rightarrow> (err option \<times> 'o) \<times> cluster \<Rightarrow> cluster \<Rightarrow> cluster \<Rightarrow> bool" where
  "write_as x a effect cl cl' \<longleftrightarrow>
     effect = (a, cl') \<or> fst a \<noteq> None \<and> snd a = x \<and> (cl' = cl \<or> cl' = snd effect)"

definition delete_as :: "err option \<Rightarrow> err option \<times> cluster \<Rightarrow> cluster \<Rightarrow> cluster \<Rightarrow> bool" where
  "delete_as e effect cl cl' \<longleftrightarrow> effect = (e, cl') \<or> e \<noteq> None \<and> (cl' = cl \<or> cl' = snd effect)"

fun served :: "observation \<Rightarrow> cluster \<Rightarrow> cluster \<Rightarrow> bool" where
  "served (SawClaim nn a) cl cl' \<longleftrightarrow> cl' = cl \<and> read_as a (fst (k_GetProjectClaim cluster_kube nn cl))"
| "served (SawReference nn a) cl cl' \<longleftrightarrow> cl' = cl \<and> read_as a (fst (k_GetProjectReference cluster_kube nn cl))"
| "served (CreatedReference x a) cl cl' \<longleftrightarrow> write_as x a (k_CreateProjectReference cluster_kube x cl) cl cl'"
| "served (DeletedReference x e) cl cl' \<longleftrightarrow> delete_as e (k_DeleteProjectReference cluster_kube x cl) cl cl'"
| "served (UpdatedClaim x a) cl cl' \<longleftrightarrow> write_as x a (k_UpdateProjectClaim cluster_kube x cl) cl cl'"
| "served (UpdatedReference x a) cl cl' \<longleftrightarrow> write_as x a (k_UpdateProjectReference cluster_kube x cl) cl cl'"
| "served (WroteClaimStatus x a) cl cl' \<longleftrightarrow> write_as x a (k_StatusUpdateProjectClaim cluster_kube x cl) cl cl'"
| "served (WroteReferenceStatus x a) cl cl' \<longleftrightarrow>
     write_as x a (k_StatusUpdateProjectReference cluster_kube x cl) cl cl'"

lemma write_as_cases:
  assumes "write_as x a (f cl) cl cl'"
  obtains (unchanged) "cl' = cl" "fst a \<noteq> None" | (performed) a' where "f cl = (a', cl')" "a = a' \<or> fst a \<noteq> None"
  using assms by (cases "f cl") (auto simp: write_as_def)

lemma delete_as_cases:
  assumes "delete_as e (f cl) cl cl'"
  obtains (unchanged) "cl' = cl" | (performed) e' where "f cl = (e', cl')"
  using assms by (cases "f cl") (auto simp: delete_as_def)

lemma quiet_move_refl [simp]: "quiet_move cl cl"
  by (simp add: quiet_move_def)

subsection \<open>The calls of the claim controller\<close>

text \<open>What a call of one party leaves true, for all that others know.\<close>

definition claims_safe :: "cluster \<Rightarrow> cluster \<Rightarrow> bool" where
  "claims_safe cl cl' \<longleftrightarrow> cluster_inv cl' \<and> (\<forall>rk m. reference_knows cl rk m \<longrightarrow> reference_knows cl' rk m)"

lemma quiet_claims_safe: "cluster_inv cl \<Longrightarrow> quiet_move cl cl' \<Longrightarrow> claims_safe cl cl'"
  by (simp add: claims_safe_def quiet_move_keeps)

lemma own_claim_move:
  assumes inv: "cluster_inv cl" and know: "claim_knows cl nn m" and c: "ck_claim m = Some c"
    and c0: "cl_claims cl nn = Some c0" "claim_version c0 = claim_version c"
    and obj: "meta_key (pc_Meta obj) = nn" "claim_version obj = show_nat (cl_version cl)"
      "om_DeletionTimestamp (pc_Meta obj) = om_DeletionTimestamp (pc_Meta c0)"
    and mv: "claim_move nn (stored_claim obj) cl cl'"
    and guard: "guarded c \<Longrightarrow> guarded obj \<or> ck_gone m \<and> claim_deleted c"
    and promise: "promised (pc_State obj) \<Longrightarrow> guarded c \<or> pc_State c = pc_State obj"
  shows "claims_safe cl cl'" and "claim_knows cl' nn m" and "claim_knows cl' nn (m\<lparr>ck_claim := Some obj\<rparr>)"
proof -
  have R: "cl_references cl' = cl_references cl" and C: "cl_claims cl' = (cl_claims cl)(nn := stored_claim obj)"
    and v: "cl_version cl' = Suc (cl_version cl)" using mv by (simp_all add: claim_move_def)
  have agree: "om_Finalizers (pc_Meta c0) = om_Finalizers (pc_Meta c)"
    "om_DeletionTimestamp (pc_Meta c0) = om_DeletionTimestamp (pc_Meta c)" "pc_State c0 = pc_State c"
    using know c c0 by (auto simp: claim_knows_def seen_claim_def)
  have gone: "ck_gone m \<Longrightarrow> unlinked cl nn"
    using know gone_unlinked [OF inv] by (simp add: claim_knows_def)
  have alive: "\<not> claim_deleted c \<Longrightarrow> promised (pc_State c) \<Longrightarrow> guarded c"
    using know c c0 agree by (auto simp: claim_knows_def)
  have "unlinked cl nn \<and> claim_deleted obj" if "promised (pc_State obj)" "\<not> guarded obj"
  proof (cases "guarded c")
    case True
    with guard that gone obj(3) agree show ?thesis by auto
  next
    case False
    with promise [OF that(1)] that(1) have "promised (pc_State c)" by simp
    with inv c0(1) False agree have "claim_deleted c0 \<and> unlinked cl nn"
      unfolding cluster_inv_def promised_guarded_def by metis
    with obj(3) show ?thesis by simp
  qed
  then have ok: "claim_move_ok nn (stored_claim obj) cl"
    using guard gone agree c0(1) by (auto simp: claim_move_ok_def dest!: stored_claim_Some)
  show "claims_safe cl cl'"
    unfolding claims_safe_def using claim_move_inv [OF inv mv ok] claim_move_reference_knows [OF inv mv ok] by blast
  have promised_obj: "guarded obj" if "\<not> claim_deleted c" "promised (pc_State obj)"
    using promise [OF that(2)] guard alive that by auto
  show "claim_knows cl' nn m"
    using know c claim_move_seen(1) [OF mv] promised_obj
    by (auto simp: claim_knows_def R C dest!: stored_claim_Some)
  have "seen_claim cl' nn obj"
    using obj by (auto simp: seen_claim_def C v dest!: stored_claim_Some)
  then show "claim_knows cl' nn (m\<lparr>ck_claim := Some obj\<rparr>)"
    using know promised_obj obj(3) agree
    by (auto simp: claim_knows_def R C dest!: stored_claim_Some)
qed

lemma own_claim_write:
  assumes inv: "cluster_inv cl" and know: "claim_knows cl nn m" and base: "based_on nn m c x"
    and w: "claim_written P x a' cl cl'"
    and guard: "\<And>c0 obj. P c0 obj \<Longrightarrow> om_Finalizers (pc_Meta c0) = om_Finalizers (pc_Meta c) \<Longrightarrow> guarded c \<Longrightarrow>
      guarded obj \<or> ck_gone m \<and> claim_deleted c"
    and promise: "\<And>c0 obj. P c0 obj \<Longrightarrow> pc_State c0 = pc_State c \<Longrightarrow> promised (pc_State obj) \<Longrightarrow>
      guarded c \<or> pc_State c = pc_State obj"
    and a: "a = a' \<or> fst a \<noteq> None"
  shows "claims_safe cl cl' \<and> claim_knows cl' nn (learned m a)"
proof (cases "fst a'")
  case (Some e)
  with w have "quiet_move cl cl'" by (simp add: claim_written_def)
  with a Some quiet_move_keeps(2) [OF this know] quiet_claims_safe [OF inv this] show ?thesis
    by (auto simp: learned_def)
next
  case None
  let ?obj = "snd a'"
  have c: "ck_claim m = Some c" and key: "meta_key (pc_Meta x) = nn" and "claim_version x = claim_version c"
    using base by (simp_all add: based_on_def)
  with w None obtain c0 where c0: "cl_claims cl nn = Some c0" "claim_version c0 = claim_version c"
    and obj: "meta_key (pc_Meta ?obj) = nn" "claim_version ?obj = show_nat (cl_version cl)"
      "om_DeletionTimestamp (pc_Meta ?obj) = om_DeletionTimestamp (pc_Meta c0)"
    and P: "P c0 ?obj" and mv: "claim_move nn (stored_claim ?obj) cl cl'"
    by (auto simp: claim_written_def)
  have agree: "om_Finalizers (pc_Meta c0) = om_Finalizers (pc_Meta c)" "pc_State c0 = pc_State c"
    using know c c0 by (auto simp: claim_knows_def seen_claim_def)
  note own = own_claim_move [OF inv know c c0 obj mv guard [OF P agree(1)] promise [OF P agree(2)]]
  show ?thesis
    using own a None by (cases a; cases a') (auto simp: learned_def)
qed

lemma knows_wrote: "claim_knows cl nn (wrote m a) = claim_knows cl nn (learned m a)"
  by (simp add: claim_knows_def wrote_def learned_def)

lemma ref_knows_wrote: "reference_knows cl rk (ref_wrote m a) = reference_knows cl rk (ref_learned m a)"
  by (simp add: reference_knows_def ref_wrote_def ref_learned_def)

lemma get_claim_answer:
  assumes "fst (k_GetProjectClaim cluster_kube nn cl) = Inr c"
  obtains c0 where "cl_claims cl nn = Some c0" "c = set_pc_meta (keyed nn (pc_Meta c0)) c0"
  using assms by (auto simp: cluster_kube_def api_get_def split: option.splits)

lemma get_reference_answer:
  shows "fst (k_GetProjectReference cluster_kube rk cl) = Inr r \<Longrightarrow>
      \<exists>r0. cl_references cl rk = Some r0 \<and> r = set_pr_meta (keyed rk (pr_Meta r0)) r0"
    and "fst (k_GetProjectReference cluster_kube rk cl) = Inl e \<Longrightarrow> cl_references cl rk = None"
  by (auto simp: cluster_kube_def api_get_def split: option.splits)

lemma set_pc_meta_fields [simp]:
  "pc_State (set_pc_meta md c) = pc_State c" "pc_Spec (set_pc_meta md c) = pc_Spec c"
  by (simp_all add: set_pc_meta_def)

lemma set_pr_meta_fields [simp]:
  "pr_State (set_pr_meta md r) = pr_State r" "pr_Spec (set_pr_meta md r) = pr_Spec r"
  by (simp_all add: set_pr_meta_def)

text \<open>A claim that has just been read is seen as it is.\<close>

lemma read_claim_seen:
  assumes inv: "cluster_inv cl" and a: "fst (k_GetProjectClaim cluster_kube nn cl) = Inr c"
  shows "seen_claim cl nn c"
    and "\<not> claim_deleted c \<Longrightarrow> cl_claims cl nn = Some c' \<Longrightarrow> promised (pc_State c') \<Longrightarrow> guarded c'"
proof -
  obtain c0 where c0: "cl_claims cl nn = Some c0" "c = set_pc_meta (keyed nn (pc_Meta c0)) c0"
    using get_claim_answer [OF a] .
  from cluster_invD(6) [OF inv c0(1)] show "seen_claim cl nn c" using c0 by (auto simp: seen_claim_def)
  show "\<not> claim_deleted c \<Longrightarrow> cl_claims cl nn = Some c' \<Longrightarrow> promised (pc_State c') \<Longrightarrow> guarded c'"
    using cluster_invD(3) [OF inv c0(1)] c0 by auto
qed

lemma claim_call:
  assumes inv: "cluster_inv cl" and know: "claim_knows cl nn m" and rule: "claim_rule nn m ob = Some m'"
    and served: "served ob cl cl'"
  shows "claims_safe cl cl' \<and> claim_knows cl' nn m'"
proof (cases ob)
  case (SawClaim k a)
  then have cl': "cl' = cl" and a: "read_as a (fst (k_GetProjectClaim cluster_kube nn cl))"
    and m': "m' = (case a of Inl e \<Rightarrow> m | Inr c \<Rightarrow> m\<lparr>ck_claim := Some c, ck_read := Some c, ck_moved := False\<rparr>)"
    using rule served by auto
  have "claim_knows cl nn m'"
  proof (cases a)
    case (Inr c)
    with a have "fst (k_GetProjectClaim cluster_kube nn cl) = Inr c" by (auto simp: read_as_def)
    with know m' Inr read_claim_seen [OF inv this] show ?thesis by (auto simp: claim_knows_def)
  qed (use know m' in simp)
  with quiet_claims_safe [OF inv quiet_move_refl] show ?thesis by (simp add: cl')
next
  case (SawReference k a)
  then have cl': "cl' = cl" and a: "read_as a (fst (k_GetProjectReference cluster_kube (ref_key nn) cl))"
    and m': "m' = m\<lparr>ck_gone := (case a of Inl e \<Rightarrow> IsNotFound e | Inr r \<Rightarrow> False)\<rparr>"
    using rule served by auto
  have "ck_gone m' \<Longrightarrow> cl_references cl (ref_key nn) = None"
    using a m' by (cases a) (auto simp: read_as_def dest: sym intro: get_reference_answer(2))
  with know m' have "claim_knows cl nn m'" by (simp add: claim_knows_def)
  with quiet_claims_safe [OF inv quiet_move_refl] show ?thesis by (simp add: cl')
next
  case (CreatedReference x a)
  then obtain c where c: "ck_claim m = Some c" "\<not> claim_deleted c" and x: "blank_reference nn x"
    and m': "m' = m\<lparr>ck_gone := False\<rparr>" using rule by (auto split: option.splits)
  have know': "claim_knows cl nn m'" using know by (simp add: m' claim_knows_def)
  from served CreatedReference have "write_as x a (k_CreateProjectReference cluster_kube x cl) cl cl'" by simp
  then show ?thesis
  proof (cases rule: write_as_cases)
    case unchanged
    with quiet_claims_safe [OF inv quiet_move_refl] know' show ?thesis by simp
  next
    case (performed a')
    obtain e obj where a': "a' = (e, obj)" by fastforce
    note mv = create_reference_move [OF performed(1) [unfolded a']]
    show ?thesis
    proof (cases e)
      case (Some e')
      with mv have "quiet_move cl cl'" by simp
      with quiet_claims_safe [OF inv] quiet_move_keeps(2) [OF this know'] show ?thesis by blast
    next
      case None
      have key: "meta_key (pr_Meta x) = ref_key nn" "link_of x = nn" "om_Finalizers (pr_Meta x) = []" "pr_State x = ''''"
        using x by (simp_all add: blank_reference_def)
      from mv None have mv': "reference_move (ref_key nn) (Some obj) cl cl'" and free: "cl_references cl (ref_key nn) = None"
        and obj: "link_of obj = nn" "om_Finalizers (pr_Meta obj) = []" "pr_State obj = ''''"
        using key by simp_all
      have ok: "reference_move_ok (ref_key nn) (Some obj) cl"
        using know c obj by (auto simp: reference_move_ok_def claim_knows_def)
      have hold: "hold_kept (ref_key nn) (Some obj) cl" by (simp add: hold_kept_def free)
      have "claims_safe cl cl'"
        unfolding claims_safe_def
        using reference_move_inv [OF inv mv' ok] reference_move_reference_knows [OF mv' hold] by blast
      moreover have "claim_knows cl' nn m'"
        using know' reference_move_seen_claim [OF mv'] mv'
        by (auto simp: m' claim_knows_def reference_move_def)
      ultimately show ?thesis by blast
    qed
  qed
next
  case (DeletedReference x e)
  then have key: "meta_key (pr_Meta x) = ref_key nn" and m': "m' = m" using rule by (auto split: option.splits)
  from served DeletedReference have "delete_as e (k_DeleteProjectReference cluster_kube x cl) cl cl'" by simp
  then show ?thesis
  proof (cases rule: delete_as_cases)
    case unchanged
    with quiet_claims_safe [OF inv quiet_move_refl] know show ?thesis by (simp add: m')
  next
    case (performed e')
    from delete_reference_move [OF this] show ?thesis
    proof (elim disjE exE conjE)
      assume "quiet_move cl cl'"
      with quiet_claims_safe [OF inv] quiet_move_keeps(2) [OF this know] m' show ?thesis by blast
    next
      fix r assume r: "cl_references cl (meta_key (pr_Meta x)) = Some r"
        and mv: "reference_move (meta_key (pr_Meta x)) (marked_reference cl r) cl cl'"
      have ok: "reference_move_ok (meta_key (pr_Meta x)) (marked_reference cl r) cl"
        using cluster_invD(1,2) [OF inv r] linked_promise [OF inv r]
        by (auto simp: reference_move_ok_def marked_reference_sel)
      have hold: "hold_kept (meta_key (pr_Meta x)) (marked_reference cl r) cl"
        using r by (auto simp: hold_kept_def marked_reference_held)
      have "claims_safe cl cl'"
        unfolding claims_safe_def
        using reference_move_inv [OF inv mv ok] reference_move_reference_knows [OF mv hold] by blast
      with reference_move_claim_knows [OF mv _ know] r m' show ?thesis by simp
    qed
  qed
next
  case (UpdatedClaim x a)
  then obtain c where base: "based_on nn m c x" and may: "may_update m c x" and m': "m' = learned m a"
    using rule by (auto simp: based_on_def split: option.splits)
  from served UpdatedClaim have "write_as x a (k_UpdateProjectClaim cluster_kube x cl) cl cl'" by simp
  then show ?thesis
  proof (cases rule: write_as_cases)
    case unchanged
    with quiet_claims_safe [OF inv quiet_move_refl] know show ?thesis by (auto simp: m' learned_def)
  next
    case (performed a')
    show ?thesis
      unfolding m' by (rule own_claim_write [OF inv know base update_claim_written [OF performed(1)] _ _ performed(2)])
        (use may in \<open>auto simp: may_update_def\<close>)
  qed
next
  case (WroteClaimStatus x a)
  then obtain c where base: "based_on nn m c x" and may: "may_have_state c x" and m': "m' = wrote m a"
    using rule by (auto simp: based_on_def split: option.splits)
  from served WroteClaimStatus have "write_as x a (k_StatusUpdateProjectClaim cluster_kube x cl) cl cl'" by simp
  then show ?thesis
  proof (cases rule: write_as_cases)
    case unchanged
    with quiet_claims_safe [OF inv quiet_move_refl] know show ?thesis by (auto simp: m' wrote_def)
  next
    case (performed a')
    show ?thesis
      unfolding m' knows_wrote by (rule own_claim_write [OF inv know base status_claim_written [OF performed(1)] _ _ performed(2)])
        (use may in \<open>auto simp: may_have_state_def\<close>)
  qed
qed (use rule in simp_all)

subsection \<open>The calls of the reference controller\<close>

definition references_safe :: "cluster \<Rightarrow> cluster \<Rightarrow> bool" where
  "references_safe cl cl' \<longleftrightarrow> cluster_inv cl' \<and> (\<forall>nn m. claim_knows cl nn m \<longrightarrow> claim_knows cl' nn m)"

lemma quiet_references_safe: "cluster_inv cl \<Longrightarrow> quiet_move cl cl' \<Longrightarrow> references_safe cl cl'"
  by (simp add: references_safe_def quiet_move_keeps)

lemma own_reference_move:
  assumes inv: "cluster_inv cl" and know: "reference_knows cl rk m" and r: "rk_reference m = Some r"
    and r0: "cl_references cl rk = Some r0" "reference_version r0 = reference_version r"
    and obj: "meta_key (pr_Meta obj) = rk" "reference_version obj = show_nat (cl_version cl)"
      "om_DeletionTimestamp (pr_Meta obj) = om_DeletionTimestamp (pr_Meta r0)" "link_of obj = link_of r"
    and mv: "reference_move rk (stored_reference obj) cl cl'"
    and hold: "held obj \<Longrightarrow> held r \<or> rk_pending m" and release: "held r \<Longrightarrow> held obj \<or> reference_deleted r"
    and ready: "pr_State obj = ProjectReferenceStatusReady \<Longrightarrow> pr_State r = ProjectReferenceStatusReady \<or> held r"
  shows "references_safe cl cl'" and "reference_knows cl' rk m"
    and "reference_knows cl' rk (m\<lparr>rk_reference := Some obj\<rparr>)"
proof -
  have C: "cl_claims cl' = cl_claims cl" and R: "cl_references cl' = (cl_references cl)(rk := stored_reference obj)"
    and v: "cl_version cl' = Suc (cl_version cl)" using mv by (simp_all add: reference_move_def)
  have seen: "seen_reference cl rk r" and c: "\<And>c. rk_claim m = Some c \<Longrightarrow> seen_claim cl (link_of r) c"
    and pend: "rk_pending m \<Longrightarrow> pending_guard cl rk r"
    using know r by (simp_all add: reference_knows_def)
  have agree: "om_Finalizers (pr_Meta r0) = om_Finalizers (pr_Meta r)"
    "om_DeletionTimestamp (pr_Meta r0) = om_DeletionTimestamp (pr_Meta r)" "pr_State r0 = pr_State r" "link_of r0 = link_of r"
    using seen r0 unfolding seen_reference_def by blast+
  have link: "rk = ref_key (link_of obj)" using cluster_invD(1) [OF inv r0(1)] agree obj(4) by simp
  have claim: "\<exists>c. cl_claims cl (link_of obj) = Some c \<and> guarded c" if "held obj \<or> held r \<or> rk_pending m"
    using that hold pend cluster_invD(2) [OF inv r0(1)] r0 agree obj(4) by (auto simp: pending_guard_def)
  have ready_held: "held obj" if "pr_State obj = ProjectReferenceStatusReady" "\<not> reference_deleted obj"
    using ready [OF that(1)] release cluster_invD(5) [OF inv r0(1)] that(2) agree obj(3) by auto
  have "reference_move_ok rk (stored_reference obj) cl"
    using link claim ready_held linked_promise [OF inv r0(1)] agree obj(4)
    by (auto simp: reference_move_ok_def dest!: stored_reference_Some)
  then have "cluster_inv cl'" by (rule reference_move_inv [OF inv mv])
  then show "references_safe cl cl'"
    using reference_move_claim_knows [OF mv] r0(1) by (auto simp: references_safe_def)
  have c': "seen_claim cl' (link_of r) x" if "rk_claim m = Some x" for x
    using reference_move_seen_claim [OF mv c [OF that]] .
  have new: "reference_version r \<noteq> show_nat (cl_version cl)" using seen by (auto simp: seen_reference_def)
  have "seen_reference cl' rk r"
    using seen release new obj(2-4) agree unfolding seen_reference_def
    by (auto simp: R v dest!: stored_reference_Some)
  moreover have "pending_guard cl' rk r"
    using new obj(2) by (auto simp: pending_guard_def R dest!: stored_reference_Some)
  ultimately show "reference_knows cl' rk m"
    using c' r by (simp add: reference_knows_def)
  have "seen_reference cl' rk obj"
    using obj ready_held unfolding seen_reference_def by (auto simp: R v dest!: stored_reference_Some)
  moreover have "pending_guard cl' rk obj" if "rk_pending m"
    using claim that by (auto simp: pending_guard_def C)
  ultimately show "reference_knows cl' rk (m\<lparr>rk_reference := Some obj\<rparr>)"
    using c' obj(4) by (simp add: reference_knows_def)
qed

lemma own_reference_write:
  assumes inv: "cluster_inv cl" and know: "reference_knows cl rk m" and r: "rk_reference m = Some r"
    and base: "ref_based_on rk r x" and w: "reference_written P x a' cl cl'"
    and P: "\<And>r0 obj. P r0 obj \<Longrightarrow> om_Finalizers (pr_Meta r0) = om_Finalizers (pr_Meta r) \<Longrightarrow>
      pr_State r0 = pr_State r \<Longrightarrow> link_of r0 = link_of r \<Longrightarrow>
      link_of obj = link_of r \<and> (held obj \<longrightarrow> held r \<or> rk_pending m) \<and> (held r \<longrightarrow> held obj \<or> reference_deleted r) \<and>
      (pr_State obj = ProjectReferenceStatusReady \<longrightarrow> pr_State r = ProjectReferenceStatusReady \<or> held r)"
    and a: "a = a' \<or> fst a \<noteq> None"
  shows "references_safe cl cl' \<and> reference_knows cl' rk (ref_learned m a)"
proof (cases "fst a'")
  case (Some e)
  with w have "quiet_move cl cl'" by (simp add: reference_written_def)
  with a Some quiet_move_keeps(3) [OF this know] quiet_references_safe [OF inv this] show ?thesis
    by (auto simp: ref_learned_def)
next
  case None
  let ?obj = "snd a'"
  have "meta_key (pr_Meta x) = rk" "reference_version x = reference_version r"
    using base by (simp_all add: ref_based_on_def)
  with w None obtain r0 where r0: "cl_references cl rk = Some r0" "reference_version r0 = reference_version r"
    and obj: "meta_key (pr_Meta ?obj) = rk" "reference_version ?obj = show_nat (cl_version cl)"
      "om_DeletionTimestamp (pr_Meta ?obj) = om_DeletionTimestamp (pr_Meta r0)"
    and P0: "P r0 ?obj" and mv: "reference_move rk (stored_reference ?obj) cl cl'"
    by (auto simp: reference_written_def)
  have "seen_reference cl rk r" using know r by (simp add: reference_knows_def)
  with r0 have "om_Finalizers (pr_Meta r0) = om_Finalizers (pr_Meta r)" "pr_State r0 = pr_State r" "link_of r0 = link_of r"
    unfolding seen_reference_def by blast+
  note P1 = P [OF P0 this]
  note own = own_reference_move [OF inv know r r0 obj _ mv]
  show ?thesis
    using own P1 a None by (cases a; cases a') (auto simp: ref_learned_def)
qed

text \<open>The claim, written by the controller of its reference.\<close>

lemma reference_claim_write:
  assumes inv: "cluster_inv cl" and know: "reference_knows cl rk m" and r: "rk_reference m = Some r"
    and c: "rk_claim m = Some c" and x: "pc_Meta x = pc_Meta c" and w: "claim_written P x a' cl cl'"
    and P: "\<And>c0 obj. P c0 obj \<Longrightarrow> cl_claims cl (link_of r) = Some c0 \<Longrightarrow>
      om_Finalizers (pc_Meta c0) = om_Finalizers (pc_Meta c) \<Longrightarrow>
      om_Finalizers (pc_Meta obj) = om_Finalizers (pc_Meta c0) \<and> (pc_State obj = pc_State c0 \<or> guarded c0)"
    and a: "a = a' \<or> fst a \<noteq> None"
  shows "references_safe cl cl' \<and> reference_knows cl' rk (ref_learned_claim m a)"
proof (cases "fst a'")
  case (Some e)
  with w have "quiet_move cl cl'" by (simp add: claim_written_def)
  with a Some quiet_move_keeps(3) [OF this know] quiet_references_safe [OF inv this] show ?thesis
    by (auto simp: ref_learned_claim_def)
next
  case None
  let ?obj = "snd a'" and ?nn = "link_of r"
  have seen: "seen_claim cl ?nn c" using know r c by (simp add: reference_knows_def)
  then have key: "meta_key (pc_Meta x) = ?nn" using x by (simp add: seen_claim_def)
  with w None x obtain c0 where c0: "cl_claims cl ?nn = Some c0" "claim_version c0 = claim_version c"
    and obj: "meta_key (pc_Meta ?obj) = ?nn" "claim_version ?obj = show_nat (cl_version cl)"
      "om_DeletionTimestamp (pc_Meta ?obj) = om_DeletionTimestamp (pc_Meta c0)"
    and P0: "P c0 ?obj" and mv: "claim_move ?nn (stored_claim ?obj) cl cl'"
    by (auto simp: claim_written_def)
  have "om_Finalizers (pc_Meta c0) = om_Finalizers (pc_Meta c)"
    using seen c0 unfolding seen_claim_def by blast
  note P1 = P [OF P0 c0(1) this]
  have ok: "claim_move_ok ?nn (stored_claim ?obj) cl"
    using P1 c0(1) obj(3) cluster_invD(3,4) [OF inv c0(1)] by (auto simp: claim_move_ok_def dest!: stored_claim_Some)
  have kept: "promise_kept ?nn (stored_claim ?obj) cl"
    using P1 c0(1) by (auto simp: promise_kept_def dest!: stored_claim_Some)
  have "references_safe cl cl'"
    unfolding references_safe_def
    using claim_move_inv [OF inv mv ok] claim_move_claim_knows [OF mv kept] by blast
  moreover have know': "reference_knows cl' rk m" by (rule claim_move_reference_knows [OF inv mv ok know])
  moreover have "seen_claim cl' ?nn ?obj"
    using obj mv by (auto simp: seen_claim_def claim_move_def dest!: stored_claim_Some)
  then have "reference_knows cl' rk (m\<lparr>rk_claim := Some ?obj\<rparr>)"
    using know' r by (simp add: reference_knows_def)
  ultimately show ?thesis using a None by (cases a; cases a') (auto simp: ref_learned_claim_def)
qed

lemma read_reference_seen:
  assumes inv: "cluster_inv cl" and a: "fst (k_GetProjectReference cluster_kube rk cl) = Inr r"
  shows "seen_reference cl rk r"
proof -
  obtain r0 where r0: "cl_references cl rk = Some r0" "r = set_pr_meta (keyed rk (pr_Meta r0)) r0"
    using get_reference_answer(1) [OF a] by blast
  with cluster_invD(5,7) [OF inv r0(1)] show ?thesis by (auto simp: seen_reference_def)
qed

text \<open>A claim read as PendingProject is guarded if the reference is still the one that was read.\<close>

lemma read_pending_guard:
  assumes inv: "cluster_inv cl" and r: "seen_reference cl rk r"
    and a: "fst (k_GetProjectClaim cluster_kube (link_of r) cl) = Inr c" and "promised (pc_State c)"
  shows "pending_guard cl rk r"
  unfolding pending_guard_def
proof (intro allI impI)
  fix r' assume r': "cl_references cl rk = Some r'" "reference_version r' = reference_version r"
  then have link: "link_of r' = link_of r" using r unfolding seen_reference_def by blast
  obtain c0 where c0: "cl_claims cl (link_of r) = Some c0" "c = set_pc_meta (keyed (link_of r) (pc_Meta c0)) c0"
    using get_claim_answer [OF a] .
  with linked_promise [OF inv r'(1)] link assms(4) show "\<exists>c. cl_claims cl (link_of r) = Some c \<and> guarded c"
    by simp
qed

lemma reference_call:
  assumes inv: "cluster_inv cl" and know: "reference_knows cl rk m" and rule: "reference_rule rk m ob = Some m'"
    and served: "served ob cl cl'"
  shows "references_safe cl cl' \<and> reference_knows cl' rk m'"
proof (cases ob)
  case (SawReference k a)
  then have cl': "cl' = cl" and a: "read_as a (fst (k_GetProjectReference cluster_kube rk cl))"
    and m': "m' = (case a of Inl e \<Rightarrow> m | Inr r \<Rightarrow> just_read r None False)"
    using rule served by auto
  have "reference_knows cl rk m'"
  proof (cases a)
    case (Inr r)
    with a have "fst (k_GetProjectReference cluster_kube rk cl) = Inr r" by (auto simp: read_as_def)
    from read_reference_seen [OF inv this] m' Inr show ?thesis by (simp add: reference_knows_def)
  qed (use know m' in simp)
  with quiet_references_safe [OF inv quiet_move_refl] show ?thesis by (simp add: cl')
next
  case (SawClaim k a)
  then obtain r where r: "rk_reference m = Some r" and cl': "cl' = cl"
    and a: "read_as a (fst (k_GetProjectClaim cluster_kube (link_of r) cl))"
    and m': "m' = (case a of Inl e \<Rightarrow> m
      | Inr c \<Rightarrow> m\<lparr>rk_claim := Some c, rk_pending := (pc_State c = ClaimStatusPendingProject)\<rparr>)"
    using rule served by (auto split: option.splits)
  have seen: "seen_reference cl rk r" using know r by (simp add: reference_knows_def)
  have "reference_knows cl rk m'"
  proof (cases a)
    case (Inr c)
    with a have c: "fst (k_GetProjectClaim cluster_kube (link_of r) cl) = Inr c" by (auto simp: read_as_def)
    with read_claim_seen(1) [OF inv c] read_pending_guard [OF inv seen c] seen r m' Inr show ?thesis
      by (simp add: reference_knows_def)
  qed (use know m' in simp)
  with quiet_references_safe [OF inv quiet_move_refl] show ?thesis by (simp add: cl')
next
  case (UpdatedReference x a)
  then obtain r where r: "rk_reference m = Some r" and base: "ref_based_on rk r x"
    and hold: "held x \<longrightarrow> held r \<or> rk_pending m" "held r \<longrightarrow> held x \<or> reference_deleted r" and m': "m' = ref_learned m a"
    using rule by (auto split: option.splits)
  from served UpdatedReference have "write_as x a (k_UpdateProjectReference cluster_kube x cl) cl cl'" by simp
  then show ?thesis
  proof (cases rule: write_as_cases)
    case unchanged
    with quiet_references_safe [OF inv quiet_move_refl] know show ?thesis by (auto simp: m' ref_learned_def)
  next
    case (performed a')
    show ?thesis
      unfolding m'
      by (rule own_reference_write [OF inv know r base update_reference_written [OF performed(1)] _ performed(2)])
        (use hold base in \<open>auto simp: ref_based_on_def\<close>)
  qed
next
  case (WroteReferenceStatus x a)
  then obtain r where r: "rk_reference m = Some r" and base: "ref_based_on rk r x" and ready: "may_be_ready r x"
    and m': "m' = ref_wrote m a"
    using rule by (auto split: option.splits)
  from served WroteReferenceStatus have "write_as x a (k_StatusUpdateProjectReference cluster_kube x cl) cl cl'" by simp
  then show ?thesis
  proof (cases rule: write_as_cases)
    case unchanged
    with quiet_references_safe [OF inv quiet_move_refl] know show ?thesis by (auto simp: m' ref_wrote_def)
  next
    case (performed a')
    show ?thesis
      unfolding m' ref_knows_wrote
      by (rule own_reference_write [OF inv know r base status_reference_written [OF performed(1)] _ performed(2)])
        (use ready in \<open>auto simp: may_be_ready_def\<close>)
  qed
next
  case (UpdatedClaim x a)
  then obtain c where c: "rk_claim m = Some c" and x: "pc_Meta x = pc_Meta c" and m': "m' = ref_learned_claim m a"
    using rule by (auto split: option.splits)
  then obtain r where r: "rk_reference m = Some r" using know by (auto simp: reference_knows_def split: option.splits)
  from served UpdatedClaim have "write_as x a (k_UpdateProjectClaim cluster_kube x cl) cl cl'" by simp
  then show ?thesis
  proof (cases rule: write_as_cases)
    case unchanged
    with quiet_references_safe [OF inv quiet_move_refl] know show ?thesis by (auto simp: m' ref_learned_claim_def)
  next
    case (performed a')
    show ?thesis
      unfolding m'
      by (rule reference_claim_write [OF inv know r c x update_claim_written [OF performed(1)] _ performed(2)])
        (use x in simp)
  qed
next
  case (WroteClaimStatus x a)
  then obtain r c where r: "rk_reference m = Some r" and c: "rk_claim m = Some c" and x: "pc_Meta x = pc_Meta c"
    and ready: "pr_State r = ProjectReferenceStatusReady" "\<not> reference_deleted r" and m': "m' = ref_learned_claim m a"
    using rule by (auto split: option.splits)
  have "seen_reference cl rk r" using know r by (simp add: reference_knows_def)
  with ready obtain r' where r': "cl_references cl rk = Some r'" "held r'" "link_of r' = link_of r"
    unfolding seen_reference_def by blast
  then have guarded: "\<exists>c. cl_claims cl (link_of r) = Some c \<and> guarded c" using cluster_invD(2) [OF inv r'(1,2)] by simp
  from served WroteClaimStatus have "write_as x a (k_StatusUpdateProjectClaim cluster_kube x cl) cl cl'" by simp
  then show ?thesis
  proof (cases rule: write_as_cases)
    case unchanged
    with quiet_references_safe [OF inv quiet_move_refl] know show ?thesis by (auto simp: m' ref_learned_claim_def)
  next
    case (performed a')
    show ?thesis
      unfolding m'
      by (rule reference_claim_write [OF inv know r c x status_claim_written [OF performed(1)] _ performed(2)])
        (use guarded in auto)
  qed
qed (use rule in simp_all)

subsection \<open>The requests of the tenants\<close>

definition tenant_safe :: "cluster \<Rightarrow> cluster \<Rightarrow> bool" where
  "tenant_safe cl cl' \<longleftrightarrow> claims_safe cl cl' \<and> references_safe cl cl'"

lemma quiet_tenant_safe: "cluster_inv cl \<Longrightarrow> quiet_move cl cl' \<Longrightarrow> tenant_safe cl cl'"
  by (simp add: tenant_safe_def quiet_claims_safe quiet_references_safe)

lemma tenant_move:
  assumes "cluster_inv cl" "claim_move nn new cl cl'" "claim_move_ok nn new cl" "promise_kept nn new cl"
  shows "tenant_safe cl cl'"
  unfolding tenant_safe_def claims_safe_def references_safe_def
  using claim_move_inv [OF assms(1-3)] claim_move_reference_knows [OF assms(1-3)]
    claim_move_claim_knows [OF assms(2,4)] by blast

lemma create_claim_safe:
  assumes inv: "cluster_inv cl" and x: "\<not> promised (pc_State x)"
  shows "tenant_safe cl (create_claim x cl)"
  using create_claim_move [of cl x]
proof (elim disjE exE conjE)
  assume "quiet_move cl (create_claim x cl)"
  then show ?thesis by (rule quiet_tenant_safe [OF inv])
next
  fix c assume "cl_claims cl (meta_key (pc_Meta x)) = None" "pc_State c = pc_State x"
    and mv: "claim_move (meta_key (pc_Meta x)) (Some c) cl (create_claim x cl)"
  with x show ?thesis by (intro tenant_move [OF inv mv]) (simp_all add: claim_move_ok_def promise_kept_def)
qed

lemma delete_claim_safe:
  assumes inv: "cluster_inv cl"
  shows "tenant_safe cl (delete_claim x cl)"
  using delete_claim_move [of cl x]
proof (elim disjE exE conjE)
  assume "quiet_move cl (delete_claim x cl)"
  then show ?thesis by (rule quiet_tenant_safe [OF inv])
next
  fix c assume c: "cl_claims cl (meta_key (pc_Meta x)) = Some c"
    and mv: "claim_move (meta_key (pc_Meta x)) (deleted_claim_object cl c) cl (delete_claim x cl)"
  from c cluster_invD(4) [OF inv c] show ?thesis
    by (intro tenant_move [OF inv mv])
      (auto simp: claim_move_ok_def promise_kept_def deleted_claim_object_def split: if_splits)
qed

text \<open>An edit leaves the status alone, as the server sees to, and the operator's finalizer.\<close>

definition edit_claim :: "ProjectClaim \<Rightarrow> cluster \<Rightarrow> cluster" where
  "edit_claim x cl = snd (k_UpdateProjectClaim cluster_kube x cl)"

lemma edit_claim_safe:
  assumes inv: "cluster_inv cl"
    and x: "\<And>c. cl_claims cl (meta_key (pc_Meta x)) = Some c \<Longrightarrow> guarded c \<Longrightarrow> guarded x"
  shows "tenant_safe cl (edit_claim x cl)"
proof -
  obtain e obj where u: "k_UpdateProjectClaim cluster_kube x cl = ((e, obj), edit_claim x cl)"
    by (metis edit_claim_def prod.collapse)
  note w = update_claim_written [OF u]
  show ?thesis
  proof (cases e)
    case (Some e')
    with w have "quiet_move cl (edit_claim x cl)" by (simp add: claim_written_def)
    then show ?thesis by (rule quiet_tenant_safe [OF inv])
  next
    case None
    with w obtain c where c: "cl_claims cl (meta_key (pc_Meta x)) = Some c"
      and obj: "om_DeletionTimestamp (pc_Meta obj) = om_DeletionTimestamp (pc_Meta c)"
        "om_Finalizers (pc_Meta obj) = om_Finalizers (pc_Meta x)" "pc_State obj = pc_State c"
      and mv: "claim_move (meta_key (pc_Meta x)) (stored_claim obj) cl (edit_claim x cl)"
      by (auto simp: claim_written_def)
    from x [OF c] cluster_invD(3,4) [OF inv c] obj c show ?thesis
      by (cases "guarded c"; intro tenant_move [OF inv mv])
        (auto simp: claim_move_ok_def promise_kept_def stored_claim_def)
  qed
qed

end
