(* ===== verification/System.thy ===== *)
theory System
  imports ServedCalls
begin

text \<open>
  The whole system at work on one API server: the two controllers, each in the middle of a run of
  \<^verbatim>\<open>Reconcile\<close>, and the tenants, interleaved call by call.

  A run is known by its observations: those made so far are the beginning of those of some run of
  the code, over clients of which nothing is assumed but \<^verbatim>\<open>proper_answers\<close>.  Each next call of a run
  is answered by the server as it then is, after whatever the others did in between, or fails; a
  write that fails may still have taken effect.  A run may stop after any call, as when the process
  is killed.  Each controller handles one request at a time, which is the default of the library and
  not changed by the code.  Tenants create claims, edit them and delete them; they do not write the
  status, do not remove the operator's finalizer and do not touch references.
\<close>

subsection \<open>Steps\<close>

record system =
  sys_cluster :: cluster
  sys_claim_run :: "(NamespacedName \<times> observation list) option"
  sys_reference_run :: "(NamespacedName \<times> observation list) option"

definition begins :: "'a list \<Rightarrow> 'a list \<Rightarrow> bool" where
  "begins xs ys \<longleftrightarrow> take (length xs) ys = xs"

lemma begins_iff: "begins xs ys \<longleftrightarrow> (\<exists>zs. ys = xs @ zs)"
  by (metis append_eq_conv_conj append_take_drop_id begins_def)

inductive system_step :: "'w kube_client \<Rightarrow> 'w environment \<Rightarrow> 'w ProjectReferenceReconciler \<Rightarrow> system \<Rightarrow> system \<Rightarrow> bool"
  for K env rec where
  claim_starts: "sys_claim_run s = None \<Longrightarrow>
    system_step K env rec s (s\<lparr>sys_claim_run := Some (nn, [])\<rparr>)"
| claim_calls: "sys_claim_run s = Some (nn, obs) \<Longrightarrow> begins (obs @ [ob]) (claim_history K env nn w) \<Longrightarrow>
    served ob (sys_cluster s) cl \<Longrightarrow>
    system_step K env rec s (s\<lparr>sys_cluster := cl, sys_claim_run := Some (nn, obs @ [ob])\<rparr>)"
| claim_ends: "system_step K env rec s (s\<lparr>sys_claim_run := None\<rparr>)"
| reference_starts: "sys_reference_run s = None \<Longrightarrow>
    system_step K env rec s (s\<lparr>sys_reference_run := Some (rk, [])\<rparr>)"
| reference_calls: "sys_reference_run s = Some (rk, obs) \<Longrightarrow> begins (obs @ [ob]) (reference_history rec rk w) \<Longrightarrow>
    served ob (sys_cluster s) cl \<Longrightarrow>
    system_step K env rec s (s\<lparr>sys_cluster := cl, sys_reference_run := Some (rk, obs @ [ob])\<rparr>)"
| reference_ends: "system_step K env rec s (s\<lparr>sys_reference_run := None\<rparr>)"
| tenant_creates: "pc_State x = '''' \<Longrightarrow>
    system_step K env rec s (s\<lparr>sys_cluster := create_claim x (sys_cluster s)\<rparr>)"
| tenant_edits: "(\<And>c. cl_claims (sys_cluster s) (meta_key (pc_Meta x)) = Some c \<Longrightarrow> guarded c \<Longrightarrow> guarded x) \<Longrightarrow>
    system_step K env rec s (s\<lparr>sys_cluster := edit_claim x (sys_cluster s)\<rparr>)"
| tenant_deletes: "system_step K env rec s (s\<lparr>sys_cluster := delete_claim x (sys_cluster s)\<rparr>)"
| elsewhere: "cl_claims cl = cl_claims (sys_cluster s) \<Longrightarrow> cl_references cl = cl_references (sys_cluster s) \<Longrightarrow>
    cl_version (sys_cluster s) \<le> cl_version cl \<Longrightarrow> system_step K env rec s (s\<lparr>sys_cluster := cl\<rparr>)"

text \<open>
  The system starts with no reference and no run; the claims that are there have not been served,
  and all versions are older than the next one.
\<close>

definition fresh_cluster :: "cluster \<Rightarrow> bool" where
  "fresh_cluster cl \<longleftrightarrow> cl_references cl = Map.empty \<and>
     (\<forall>nn c. cl_claims cl nn = Some c \<longrightarrow> pc_State c = '''' \<and> old_version (cl_version cl) (claim_version c))"

inductive reachable :: "'w kube_client \<Rightarrow> 'w environment \<Rightarrow> 'w ProjectReferenceReconciler \<Rightarrow> system \<Rightarrow> bool"
  for K env rec where
  start: "fresh_cluster cl \<Longrightarrow>
    reachable K env rec \<lparr>sys_cluster = cl, sys_claim_run = None, sys_reference_run = None\<rparr>"
| step: "reachable K env rec s \<Longrightarrow> system_step K env rec s s' \<Longrightarrow> reachable K env rec s'"

inductive_cases system_stepE: "system_step K env rec s s'"

subsection \<open>The invariant\<close>

text \<open>The runs have kept to their protocols, and what they know is true.\<close>

definition claim_run_inv :: "system \<Rightarrow> bool" where
  "claim_run_inv s \<longleftrightarrow> (case sys_claim_run s of None \<Rightarrow> True
     | Some (nn, obs) \<Rightarrow> (\<exists>m. claim_watch nn obs = Some m \<and> claim_knows (sys_cluster s) nn m))"

definition reference_run_inv :: "system \<Rightarrow> bool" where
  "reference_run_inv s \<longleftrightarrow> (case sys_reference_run s of None \<Rightarrow> True
     | Some (rk, obs) \<Rightarrow> (\<exists>m. reference_watch rk obs = Some m \<and> reference_knows (sys_cluster s) rk m))"

definition system_inv :: "system \<Rightarrow> bool" where
  "system_inv s \<longleftrightarrow> cluster_inv (sys_cluster s) \<and> claim_run_inv s \<and> reference_run_inv s"

lemma system_inv_cluster: "system_inv s \<Longrightarrow> cluster_inv (sys_cluster s)"
  by (simp add: system_inv_def)

lemma fresh_cluster_inv: "fresh_cluster cl \<Longrightarrow> cluster_inv cl"
  by (auto simp: fresh_cluster_def cluster_inv_defs)

lemma claims_safe_run:
  "claims_safe (sys_cluster s) cl \<Longrightarrow> reference_run_inv s \<Longrightarrow> reference_run_inv (s\<lparr>sys_cluster := cl\<rparr>)"
  by (auto simp: claims_safe_def reference_run_inv_def split: option.splits)

lemma references_safe_run:
  "references_safe (sys_cluster s) cl \<Longrightarrow> claim_run_inv s \<Longrightarrow> claim_run_inv (s\<lparr>sys_cluster := cl\<rparr>)"
  by (auto simp: references_safe_def claim_run_inv_def split: option.splits)

lemma tenant_safe_inv: "system_inv s \<Longrightarrow> tenant_safe (sys_cluster s) cl \<Longrightarrow> system_inv (s\<lparr>sys_cluster := cl\<rparr>)"
  unfolding system_inv_def
  using claims_safe_run references_safe_run by (auto simp: tenant_safe_def claims_safe_def)

text \<open>A run so far is allowed by its protocol, because the whole run is.\<close>

lemma claim_watch_begins:
  "begins obs (claim_history K env nn w) \<Longrightarrow> proper_answers K \<Longrightarrow> claim_watch nn obs \<noteq> None"
  using claim_history_allowed [of K nn env w] by (metis begins_iff claim_watch_def watch_prefix)

lemma reference_watch_begins:
  "begins obs (reference_history rec rk w) \<Longrightarrow> proper_answers (prr_Client rec) \<Longrightarrow> reference_watch rk obs \<noteq> None"
  using reference_history_allowed [of rec rk w] by (metis begins_iff reference_watch_def watch_prefix)

lemma claim_knows_nothing [simp]: "claim_knows cl nn no_claim_knowledge"
  by (simp add: claim_knows_def no_claim_knowledge_def)

lemma reference_knows_nothing [simp]: "reference_knows cl nn no_reference_knowledge"
  by (simp add: reference_knows_def no_reference_knowledge_def)

lemma claim_calls_inv:
  assumes inv: "system_inv s" and K: "proper_answers K" and run: "sys_claim_run s = Some (nn, obs)"
    and h: "begins (obs @ [ob]) (claim_history K env nn w)" and served: "served ob (sys_cluster s) cl"
  shows "system_inv (s\<lparr>sys_cluster := cl, sys_claim_run := Some (nn, obs @ [ob])\<rparr>)"
proof -
  obtain m where m: "claim_watch nn obs = Some m" "claim_knows (sys_cluster s) nn m"
    using inv run by (auto simp: system_inv_def claim_run_inv_def)
  from claim_watch_begins [OF h K] m obtain m' where m': "claim_rule nn m ob = Some m'" by auto
  from claim_call [OF system_inv_cluster [OF inv] m(2) m' served]
  have safe: "claims_safe (sys_cluster s) cl" and know: "claim_knows cl nn m'" by simp_all
  have "reference_run_inv (s\<lparr>sys_cluster := cl\<rparr>)"
    using inv by (intro claims_safe_run [OF safe]) (simp add: system_inv_def)
  with safe know m m' show ?thesis
    by (auto simp: system_inv_def claims_safe_def claim_run_inv_def reference_run_inv_def split: option.splits)
qed

lemma reference_calls_inv:
  assumes inv: "system_inv s" and K: "proper_answers (prr_Client rec)" and run: "sys_reference_run s = Some (rk, obs)"
    and h: "begins (obs @ [ob]) (reference_history rec rk w)" and served: "served ob (sys_cluster s) cl"
  shows "system_inv (s\<lparr>sys_cluster := cl, sys_reference_run := Some (rk, obs @ [ob])\<rparr>)"
proof -
  obtain m where m: "reference_watch rk obs = Some m" "reference_knows (sys_cluster s) rk m"
    using inv run by (auto simp: system_inv_def reference_run_inv_def)
  from reference_watch_begins [OF h K] m obtain m' where m': "reference_rule rk m ob = Some m'" by auto
  from reference_call [OF system_inv_cluster [OF inv] m(2) m' served]
  have safe: "references_safe (sys_cluster s) cl" and know: "reference_knows cl rk m'" by simp_all
  have "claim_run_inv (s\<lparr>sys_cluster := cl\<rparr>)"
    using inv by (intro references_safe_run [OF safe]) (simp add: system_inv_def)
  with safe know m m' show ?thesis
    by (auto simp: system_inv_def references_safe_def claim_run_inv_def reference_run_inv_def split: option.splits)
qed

lemma system_step_inv:
  assumes K: "proper_answers K" "proper_answers (prr_Client rec)" and inv: "system_inv s"
    and step: "system_step K env rec s s'"
  shows "system_inv s'"
  using step
proof cases
  case (claim_starts nn)
  with inv show ?thesis
    by (auto simp: system_inv_def claim_run_inv_def reference_run_inv_def split: option.splits)
next
  case (claim_calls nn obs ob w cl)
  with claim_calls_inv [OF inv K(1)] show ?thesis by simp
next
  case claim_ends
  with inv show ?thesis
    by (auto simp: system_inv_def claim_run_inv_def reference_run_inv_def split: option.splits)
next
  case (reference_starts rk)
  with inv show ?thesis
    by (auto simp: system_inv_def claim_run_inv_def reference_run_inv_def split: option.splits)
next
  case (reference_calls rk obs ob w cl)
  with reference_calls_inv [OF inv K(2)] show ?thesis by simp
next
  case reference_ends
  with inv show ?thesis
    by (auto simp: system_inv_def claim_run_inv_def reference_run_inv_def split: option.splits)
next
  case (tenant_creates x)
  with create_claim_safe [OF system_inv_cluster [OF inv], of x] show ?thesis
    by (simp add: tenant_safe_inv [OF inv])
next
  case (tenant_edits x)
  with edit_claim_safe [OF system_inv_cluster [OF inv], of x] show ?thesis
    by (simp add: tenant_safe_inv [OF inv])
next
  case (tenant_deletes x)
  with delete_claim_safe [OF system_inv_cluster [OF inv], of x] show ?thesis
    by (simp add: tenant_safe_inv [OF inv])
next
  case (elsewhere cl)
  then have "quiet_move (sys_cluster s) cl" by (simp add: quiet_move_def)
  from quiet_tenant_safe [OF system_inv_cluster [OF inv] this] elsewhere(1) show ?thesis
    by (simp add: tenant_safe_inv [OF inv])
qed

lemma reachable_inv:
  assumes "reachable K env rec s" and "proper_answers K" and "proper_answers (prr_Client rec)"
  shows "system_inv s"
  using assms(1)
proof (induction rule: reachable.induct)
  case (start cl)
  then show ?case by (simp add: system_inv_def fresh_cluster_inv claim_run_inv_def reference_run_inv_def)
next
  case (step s s')
  with system_step_inv [OF assms(2,3)] show ?case by blast
qed

end
