(* ===== verification/Images.thy ===== *)
theory Images
  imports ClaimFacts ReferenceFacts
begin

text \<open>
  A controller cannot tell apart two worlds that answer alike.  Given clients \<^verbatim>\<open>K'\<close> over worlds \<^verbatim>\<open>w\<close>,
  clients \<^verbatim>\<open>K\<close> over their images \<^verbatim>\<open>h w\<close>, and a predicate \<^verbatim>\<open>P\<close> of worlds that every call keeps: when
  each call over \<^verbatim>\<open>h w\<close> is the image of the call over \<^verbatim>\<open>w\<close>, a whole \<^verbatim>\<open>Reconcile\<close> over \<^verbatim>\<open>h w\<close> is the
  image of the \<^verbatim>\<open>Reconcile\<close> over \<^verbatim>\<open>w\<close>, and keeps \<^verbatim>\<open>P\<close>.  With a recording client for \<^verbatim>\<open>K'\<close> and the
  projection for \<^verbatim>\<open>h\<close> this says that recording changes nothing; with the same client twice, that what
  every call keeps a run keeps.
\<close>

named_theorems image_simps

definition claim_image :: "('w \<Rightarrow> 'v) \<Rightarrow> 'w claim_state \<Rightarrow> 'v claim_state" where
  "claim_image h s = \<lparr>projectClaim = projectClaim s, projectReference = projectReference s,
     claim_world = h (claim_world s)\<rparr>"

lemma claim_image_sel [simp]:
  "projectClaim (claim_image h s) = projectClaim s"
  "projectReference (claim_image h s) = projectReference s"
  "claim_world (claim_image h s) = h (claim_world s)"
  "IsProjectClaimDeletion (claim_image h s) = IsProjectClaimDeletion s"
  "IsProjectReferenceDeletion (claim_image h s) = IsProjectReferenceDeletion s"
  by (simp_all add: claim_image_def IsProjectClaimDeletion_def IsProjectReferenceDeletion_def)

lemma claim_image_updates [simp]:
  "(claim_image h s)\<lparr>projectClaim := x\<rparr> = claim_image h (s\<lparr>projectClaim := x\<rparr>)"
  "(claim_image h s)\<lparr>projectReference := r\<rparr> = claim_image h (s\<lparr>projectReference := r\<rparr>)"
  "(claim_image h s)\<lparr>claim_world := h w\<rparr> = claim_image h (s\<lparr>claim_world := w\<rparr>)"
  by (simp_all add: claim_image_def)

abbreviation claim_adapter :: "'w kube_client \<Rightarrow> 'w environment \<Rightarrow> condition_manager \<Rightarrow> 'w ProjectClaimAdapter" where
  "claim_adapter K env m \<equiv> \<lparr>ca_client = K, ca_conditionManager = m, ca_env = env\<rparr>"

text \<open>One function of the state, over the worlds and over their images.\<close>

definition carries :: "('s \<Rightarrow> bool) \<Rightarrow> ('s \<Rightarrow> 't) \<Rightarrow> ('s, 'a) effect \<Rightarrow> ('t, 'a) effect \<Rightarrow> bool" where
  "carries I h f g \<longleftrightarrow> (\<forall>s. I s \<longrightarrow> g (h s) = (fst (f s), h (snd (f s))) \<and> I (snd (f s)))"

lemma carries_run_operations:
  "list_all2 (carries I h) fs gs \<Longrightarrow> carries I h (run_operations fs) (run_operations gs)"
proof (induction fs arbitrary: gs)
  case Nil
  then show ?case by (simp add: carries_def)
next
  case (Cons f fs)
  then obtain g gs' where gs: "gs = g # gs'" and f: "carries I h f g" and "list_all2 (carries I h) fs gs'"
    by (auto simp: list_all2_Cons1)
  with Cons.IH have IH: "carries I h (run_operations fs) (run_operations gs')" by blast
  show ?case
    unfolding carries_def gs
    using f IH by (auto simp: carries_def case_prod_beta)
qed

subsection \<open>The contract\<close>

locale client_image =
  fixes K :: "'v kube_client" and env :: "'v environment"
    and K' :: "'w kube_client" and env' :: "'w environment"
    and h :: "'w \<Rightarrow> 'v" and P :: "'w \<Rightarrow> bool"
  assumes kube_image [image_simps]:
    "P w \<Longrightarrow> k_GetProjectClaim K nn (h w) = (fst (k_GetProjectClaim K' nn w), h (snd (k_GetProjectClaim K' nn w)))"
    "P w \<Longrightarrow> k_GetProjectReference K nn (h w) = (fst (k_GetProjectReference K' nn w), h (snd (k_GetProjectReference K' nn w)))"
    "P w \<Longrightarrow> k_GetSecret K nn (h w) = (fst (k_GetSecret K' nn w), h (snd (k_GetSecret K' nn w)))"
    "P w \<Longrightarrow> k_GetConfigMap K nn (h w) = (fst (k_GetConfigMap K' nn w), h (snd (k_GetConfigMap K' nn w)))"
    "P w \<Longrightarrow> k_CreateProjectReference K r (h w) = (fst (k_CreateProjectReference K' r w), h (snd (k_CreateProjectReference K' r w)))"
    "P w \<Longrightarrow> k_CreateSecret K sec (h w) = (fst (k_CreateSecret K' sec w), h (snd (k_CreateSecret K' sec w)))"
    "P w \<Longrightarrow> k_UpdateProjectClaim K x (h w) = (fst (k_UpdateProjectClaim K' x w), h (snd (k_UpdateProjectClaim K' x w)))"
    "P w \<Longrightarrow> k_UpdateProjectReference K r (h w) = (fst (k_UpdateProjectReference K' r w), h (snd (k_UpdateProjectReference K' r w)))"
    "P w \<Longrightarrow> k_UpdateSecret K sec (h w) = (fst (k_UpdateSecret K' sec w), h (snd (k_UpdateSecret K' sec w)))"
    "P w \<Longrightarrow> k_StatusUpdateProjectClaim K x (h w) = (fst (k_StatusUpdateProjectClaim K' x w), h (snd (k_StatusUpdateProjectClaim K' x w)))"
    "P w \<Longrightarrow> k_StatusUpdateProjectReference K r (h w) = (fst (k_StatusUpdateProjectReference K' r w), h (snd (k_StatusUpdateProjectReference K' r w)))"
    "P w \<Longrightarrow> k_DeleteProjectReference K r (h w) = (fst (k_DeleteProjectReference K' r w), h (snd (k_DeleteProjectReference K' r w)))"
    "P w \<Longrightarrow> k_DeleteSecret K sec (h w) = (fst (k_DeleteSecret K' sec w), h (snd (k_DeleteSecret K' sec w)))"
    and kube_kept [image_simps]:
    "P w \<Longrightarrow> P (snd (k_GetProjectClaim K' nn w))"
    "P w \<Longrightarrow> P (snd (k_GetProjectReference K' nn w))"
    "P w \<Longrightarrow> P (snd (k_GetSecret K' nn w))"
    "P w \<Longrightarrow> P (snd (k_GetConfigMap K' nn w))"
    "P w \<Longrightarrow> P (snd (k_CreateProjectReference K' r w))"
    "P w \<Longrightarrow> P (snd (k_CreateSecret K' sec w))"
    "P w \<Longrightarrow> P (snd (k_UpdateProjectClaim K' x w))"
    "P w \<Longrightarrow> P (snd (k_UpdateProjectReference K' r w))"
    "P w \<Longrightarrow> P (snd (k_UpdateSecret K' sec w))"
    "P w \<Longrightarrow> P (snd (k_StatusUpdateProjectClaim K' x w))"
    "P w \<Longrightarrow> P (snd (k_StatusUpdateProjectReference K' r w))"
    "P w \<Longrightarrow> P (snd (k_DeleteProjectReference K' r w))"
    "P w \<Longrightarrow> P (snd (k_DeleteSecret K' sec w))"
    and env_image [image_simps]:
    "P w \<Longrightarrow> env_Now env (h w) = (fst (env_Now env' w), h (snd (env_Now env' w)))"
    "P w \<Longrightarrow> env_MapOrder env (h w) = (fst (env_MapOrder env' w), h (snd (env_MapOrder env' w)))"
    "P w \<Longrightarrow> env_NewUUID env (h w) = (fst (env_NewUUID env' w), h (snd (env_NewUUID env' w)))"
    "P w \<Longrightarrow> env_RandString env n (h w) = (fst (env_RandString env' n w), h (snd (env_RandString env' n w)))"
    "P w \<Longrightarrow> env_NextBackOff env (h w) = (fst (env_NextBackOff env' w), h (snd (env_NextBackOff env' w)))"
    "P w \<Longrightarrow> env_Sleep env d (h w) = h (env_Sleep env' d w)"
    "env_YamlUnmarshal env = env_YamlUnmarshal env'"
    and env_kept [image_simps]:
    "P w \<Longrightarrow> P (snd (env_Now env' w))"
    "P w \<Longrightarrow> P (snd (env_MapOrder env' w))"
    "P w \<Longrightarrow> P (snd (env_NewUUID env' w))"
    "P w \<Longrightarrow> P (snd (env_RandString env' n w))"
    "P w \<Longrightarrow> P (snd (env_NextBackOff env' w))"
    "P w \<Longrightarrow> P (env_Sleep env' d w)"
begin

lemma SecretExists_image [image_simps]:
  "P w \<Longrightarrow> SecretExists K n d (h w) = (fst (SecretExists K' n d w), h (snd (SecretExists K' n d w)))"
  "P w \<Longrightarrow> P (snd (SecretExists K' n d w))"
  by (simp_all add: image_simps SecretExists_def case_prod_beta Let_def split: sum.split option.split)

lemma GetSecret_image [image_simps]:
  "P w \<Longrightarrow> GetSecret K n d (h w) = (fst (GetSecret K' n d w), h (snd (GetSecret K' n d w)))"
  "P w \<Longrightarrow> P (snd (GetSecret K' n d w))"
  by (simp_all add: image_simps GetSecret_def case_prod_beta Let_def split: sum.split option.split)

lemma GetOperatorConfigMap_image [image_simps]:
  "P w \<Longrightarrow> GetOperatorConfigMap env K (h w) = (fst (GetOperatorConfigMap env' K' w), h (snd (GetOperatorConfigMap env' K' w)))"
  "P w \<Longrightarrow> P (snd (GetOperatorConfigMap env' K' w))"
  by (simp_all add: image_simps GetOperatorConfigMap_def case_prod_beta Let_def split: sum.split option.split)

lemma GetGCPCredentialsFromSecret_image [image_simps]:
  "P w \<Longrightarrow> GetGCPCredentialsFromSecret K n d (h w) = (fst (GetGCPCredentialsFromSecret K' n d w), h (snd (GetGCPCredentialsFromSecret K' n d w)))"
  "P w \<Longrightarrow> P (snd (GetGCPCredentialsFromSecret K' n d w))"
  by (simp_all add: image_simps GetGCPCredentialsFromSecret_def case_prod_beta Let_def split: sum.split option.split)

subsection \<open>The claim controller\<close>

lemma claim_update_image [image_simps]:
  "P (claim_world s) \<Longrightarrow> claim_update (claim_adapter K env m) (claim_image h s) =
     (fst (claim_update (claim_adapter K' env' m) s), claim_image h (snd (claim_update (claim_adapter K' env' m) s)))"
  "P (claim_world s) \<Longrightarrow> P (claim_world (snd (claim_update (claim_adapter K' env' m) s)))"
  by (simp_all add: image_simps claim_update_def case_prod_beta Let_def split: sum.split option.split)

lemma claim_status_update_image [image_simps]:
  "P (claim_world s) \<Longrightarrow> claim_status_update (claim_adapter K env m) (claim_image h s) =
     (fst (claim_status_update (claim_adapter K' env' m) s), claim_image h (snd (claim_status_update (claim_adapter K' env' m) s)))"
  "P (claim_world s) \<Longrightarrow> P (claim_world (snd (claim_status_update (claim_adapter K' env' m) s)))"
  by (simp_all add: image_simps claim_status_update_def case_prod_beta Let_def split: sum.split option.split)

lemma claim_StatusUpdate_image [image_simps]:
  "P (claim_world s) \<Longrightarrow> claim_StatusUpdate (claim_adapter K env m) (claim_image h s) =
     (fst (claim_StatusUpdate (claim_adapter K' env' m) s), claim_image h (snd (claim_StatusUpdate (claim_adapter K' env' m) s)))"
  "P (claim_world s) \<Longrightarrow> P (claim_world (snd (claim_StatusUpdate (claim_adapter K' env' m) s)))"
  by (simp_all add: image_simps claim_StatusUpdate_def case_prod_beta Let_def split: sum.split option.split)

lemma ProjectReferenceExists_image [image_simps]:
  "P (claim_world s) \<Longrightarrow> ProjectReferenceExists (claim_adapter K env m) (claim_image h s) =
     (fst (ProjectReferenceExists (claim_adapter K' env' m) s), claim_image h (snd (ProjectReferenceExists (claim_adapter K' env' m) s)))"
  "P (claim_world s) \<Longrightarrow> P (claim_world (snd (ProjectReferenceExists (claim_adapter K' env' m) s)))"
  by (simp_all add: image_simps ProjectReferenceExists_def case_prod_beta Let_def split: sum.split option.split)

lemma EnsureProjectReferenceExists_image [image_simps]:
  "P (claim_world s) \<Longrightarrow> EnsureProjectReferenceExists (claim_adapter K env m) (claim_image h s) =
     (fst (EnsureProjectReferenceExists (claim_adapter K' env' m) s), claim_image h (snd (EnsureProjectReferenceExists (claim_adapter K' env' m) s)))"
  "P (claim_world s) \<Longrightarrow> P (claim_world (snd (EnsureProjectReferenceExists (claim_adapter K' env' m) s)))"
  by (simp_all add: image_simps EnsureProjectReferenceExists_def case_prod_beta Let_def split: sum.split option.split)

lemma EnsureProjectReferenceLink_image [image_simps]:
  "P (claim_world s) \<Longrightarrow> EnsureProjectReferenceLink (claim_adapter K env m) (claim_image h s) =
     (fst (EnsureProjectReferenceLink (claim_adapter K' env' m) s), claim_image h (snd (EnsureProjectReferenceLink (claim_adapter K' env' m) s)))"
  "P (claim_world s) \<Longrightarrow> P (claim_world (snd (EnsureProjectReferenceLink (claim_adapter K' env' m) s)))"
  by (simp_all add: image_simps EnsureProjectReferenceLink_def case_prod_beta Let_def split: sum.split option.split)

lemma EnsureProjectClaimValidated_image [image_simps]:
  "P (claim_world s) \<Longrightarrow> EnsureProjectClaimValidated (claim_adapter K env m) (claim_image h s) =
     (fst (EnsureProjectClaimValidated (claim_adapter K' env' m) s), claim_image h (snd (EnsureProjectClaimValidated (claim_adapter K' env' m) s)))"
  "P (claim_world s) \<Longrightarrow> P (claim_world (snd (EnsureProjectClaimValidated (claim_adapter K' env' m) s)))"
  by (simp_all add: image_simps EnsureProjectClaimValidated_def case_prod_beta Let_def split: sum.split option.split)

lemma EnsureProjectClaimInitialized_image [image_simps]:
  "P (claim_world s) \<Longrightarrow> EnsureProjectClaimInitialized (claim_adapter K env m) (claim_image h s) =
     (fst (EnsureProjectClaimInitialized (claim_adapter K' env' m) s), claim_image h (snd (EnsureProjectClaimInitialized (claim_adapter K' env' m) s)))"
  "P (claim_world s) \<Longrightarrow> P (claim_world (snd (EnsureProjectClaimInitialized (claim_adapter K' env' m) s)))"
  by (simp_all add: image_simps EnsureProjectClaimInitialized_def case_prod_beta Let_def split: sum.split option.split)

lemma getCCSSecret_image [image_simps]:
  "P (claim_world s) \<Longrightarrow> getCCSSecret (claim_adapter K env m) (claim_image h s) =
     (fst (getCCSSecret (claim_adapter K' env' m) s), claim_image h (snd (getCCSSecret (claim_adapter K' env' m) s)))"
  "P (claim_world s) \<Longrightarrow> P (claim_world (snd (getCCSSecret (claim_adapter K' env' m) s)))"
  by (simp_all add: image_simps getCCSSecret_def case_prod_beta Let_def split: sum.split option.split)

lemma EnsureFinalizer_image [image_simps]:
  "P (claim_world s) \<Longrightarrow> EnsureFinalizer (claim_adapter K env m) (claim_image h s) =
     (fst (EnsureFinalizer (claim_adapter K' env' m) s), claim_image h (snd (EnsureFinalizer (claim_adapter K' env' m) s)))"
  "P (claim_world s) \<Longrightarrow> P (claim_world (snd (EnsureFinalizer (claim_adapter K' env' m) s)))"
  by (simp_all add: image_simps EnsureFinalizer_def addFinalizer_def case_prod_beta Let_def split: sum.split option.split)

lemma EnsureCCSSecretFinalizer_image [image_simps]:
  "P (claim_world s) \<Longrightarrow> EnsureCCSSecretFinalizer (claim_adapter K env m) (claim_image h s) =
     (fst (EnsureCCSSecretFinalizer (claim_adapter K' env' m) s), claim_image h (snd (EnsureCCSSecretFinalizer (claim_adapter K' env' m) s)))"
  "P (claim_world s) \<Longrightarrow> P (claim_world (snd (EnsureCCSSecretFinalizer (claim_adapter K' env' m) s)))"
  by (simp_all add: image_simps EnsureCCSSecretFinalizer_def addFinalizer_def case_prod_beta Let_def split: sum.split option.split)

lemma EnsureProjectClaimFinalizerDeleted_image [image_simps]:
  "P (claim_world s) \<Longrightarrow> EnsureProjectClaimFinalizerDeleted (claim_adapter K env m) (claim_image h s) =
     (fst (EnsureProjectClaimFinalizerDeleted (claim_adapter K' env' m) s), claim_image h (snd (EnsureProjectClaimFinalizerDeleted (claim_adapter K' env' m) s)))"
  "P (claim_world s) \<Longrightarrow> P (claim_world (snd (EnsureProjectClaimFinalizerDeleted (claim_adapter K' env' m) s)))"
  by (simp_all add: image_simps EnsureProjectClaimFinalizerDeleted_def deleteFinalizer_def case_prod_beta Let_def split: sum.split option.split)

lemma EnsureCCSSecretFinalizerDeleted_image [image_simps]:
  "P (claim_world s) \<Longrightarrow> EnsureCCSSecretFinalizerDeleted (claim_adapter K env m) (claim_image h s) =
     (fst (EnsureCCSSecretFinalizerDeleted (claim_adapter K' env' m) s), claim_image h (snd (EnsureCCSSecretFinalizerDeleted (claim_adapter K' env' m) s)))"
  "P (claim_world s) \<Longrightarrow> P (claim_world (snd (EnsureCCSSecretFinalizerDeleted (claim_adapter K' env' m) s)))"
  by (simp_all add: image_simps EnsureCCSSecretFinalizerDeleted_def deleteFinalizer_def case_prod_beta Let_def split: sum.split option.split)

lemma finalize_without_reference_image [image_simps]:
  "P (claim_world s) \<Longrightarrow> finalize_without_reference (claim_adapter K env m) (claim_image h s) =
     (fst (finalize_without_reference (claim_adapter K' env' m) s), claim_image h (snd (finalize_without_reference (claim_adapter K' env' m) s)))"
  "P (claim_world s) \<Longrightarrow> P (claim_world (snd (finalize_without_reference (claim_adapter K' env' m) s)))"
  by (simp_all add: image_simps finalize_without_reference_def case_prod_beta Let_def split: sum.split option.split)

lemma FinalizeProjectClaim_image [image_simps]:
  "P (claim_world s) \<Longrightarrow> FinalizeProjectClaim (claim_adapter K env m) (claim_image h s) =
     (fst (FinalizeProjectClaim (claim_adapter K' env' m) s), claim_image h (snd (FinalizeProjectClaim (claim_adapter K' env' m) s)))"
  "P (claim_world s) \<Longrightarrow> P (claim_world (snd (FinalizeProjectClaim (claim_adapter K' env' m) s)))"
  by (simp_all add: image_simps FinalizeProjectClaim_def case_prod_beta Let_def split: sum.split option.split)

lemma EnsureProjectClaimDeletionProcessed_image [image_simps]:
  "P (claim_world s) \<Longrightarrow> EnsureProjectClaimDeletionProcessed (claim_adapter K env m) (claim_image h s) =
     (fst (EnsureProjectClaimDeletionProcessed (claim_adapter K' env' m) s), claim_image h (snd (EnsureProjectClaimDeletionProcessed (claim_adapter K' env' m) s)))"
  "P (claim_world s) \<Longrightarrow> P (claim_world (snd (EnsureProjectClaimDeletionProcessed (claim_adapter K' env' m) s)))"
  by (simp_all add: image_simps EnsureProjectClaimDeletionProcessed_def case_prod_beta Let_def split: sum.split option.split)

lemma EnsureProjectClaimState_image [image_simps]:
  "P (claim_world s) \<Longrightarrow> EnsureProjectClaimState (claim_adapter K env m) st (claim_image h s) =
     (fst (EnsureProjectClaimState (claim_adapter K' env' m) st s), claim_image h (snd (EnsureProjectClaimState (claim_adapter K' env' m) st s)))"
  "P (claim_world s) \<Longrightarrow> P (claim_world (snd (EnsureProjectClaimState (claim_adapter K' env' m) st s)))"
  by (simp_all add: image_simps EnsureProjectClaimState_def case_prod_beta Let_def split: sum.split option.split)

lemma EnsureProjectClaimStatePending_image [image_simps]:
  "P (claim_world s) \<Longrightarrow> EnsureProjectClaimStatePending (claim_adapter K env m) (claim_image h s) =
     (fst (EnsureProjectClaimStatePending (claim_adapter K' env' m) s), claim_image h (snd (EnsureProjectClaimStatePending (claim_adapter K' env' m) s)))"
  "P (claim_world s) \<Longrightarrow> P (claim_world (snd (EnsureProjectClaimStatePending (claim_adapter K' env' m) s)))"
  by (simp_all add: image_simps EnsureProjectClaimStatePending_def case_prod_beta Let_def split: sum.split option.split)

lemma EnsureProjectClaimStatePendingProject_image [image_simps]:
  "P (claim_world s) \<Longrightarrow> EnsureProjectClaimStatePendingProject (claim_adapter K env m) (claim_image h s) =
     (fst (EnsureProjectClaimStatePendingProject (claim_adapter K' env' m) s), claim_image h (snd (EnsureProjectClaimStatePendingProject (claim_adapter K' env' m) s)))"
  "P (claim_world s) \<Longrightarrow> P (claim_world (snd (EnsureProjectClaimStatePendingProject (claim_adapter K' env' m) s)))"
  by (simp_all add: image_simps EnsureProjectClaimStatePendingProject_def case_prod_beta Let_def split: sum.split option.split)

lemma claim_set_condition_image [image_simps]:
  "P (claim_world s) \<Longrightarrow> claim_set_condition (claim_adapter K env m) t st reason msg (claim_image h s) = claim_image h (claim_set_condition (claim_adapter K' env' m) t st reason msg s)"
  "P (claim_world s) \<Longrightarrow> P (claim_world (claim_set_condition (claim_adapter K' env' m) t st reason msg s))"
  by (simp_all add: image_simps claim_set_condition_def case_prod_beta Let_def)

lemma SetProjectClaimCondition_image [image_simps]:
  "P (claim_world s) \<Longrightarrow> SetProjectClaimCondition (claim_adapter K env m) t reason e (claim_image h s) =
     (fst (SetProjectClaimCondition (claim_adapter K' env' m) t reason e s), claim_image h (snd (SetProjectClaimCondition (claim_adapter K' env' m) t reason e s)))"
  "P (claim_world s) \<Longrightarrow> P (claim_world (snd (SetProjectClaimCondition (claim_adapter K' env' m) t reason e s)))"
  by (simp_all add: image_simps SetProjectClaimCondition_def case_prod_beta Let_def split: sum.split option.split)

lemma IsRegionSupported_image [image_simps]:
  "P (claim_world s) \<Longrightarrow> IsRegionSupported (claim_adapter K env m) (claim_image h s) =
     (fst (IsRegionSupported (claim_adapter K' env' m) s), claim_image h (snd (IsRegionSupported (claim_adapter K' env' m) s)))"
  "P (claim_world s) \<Longrightarrow> P (claim_world (snd (IsRegionSupported (claim_adapter K' env' m) s)))"
  by (simp_all add: image_simps IsRegionSupported_def case_prod_beta Let_def split: sum.split option.split)

lemma EnsureRegionSupported_image [image_simps]:
  "P (claim_world s) \<Longrightarrow> EnsureRegionSupported (claim_adapter K env m) (claim_image h s) =
     (fst (EnsureRegionSupported (claim_adapter K' env' m) s), claim_image h (snd (EnsureRegionSupported (claim_adapter K' env' m) s)))"
  "P (claim_world s) \<Longrightarrow> P (claim_world (snd (EnsureRegionSupported (claim_adapter K' env' m) s)))"
  by (simp_all add: image_simps EnsureRegionSupported_def case_prod_beta Let_def split: sum.split option.split)

lemma CreateFakeSecret_image [image_simps]:
  "P (claim_world s) \<Longrightarrow> CreateFakeSecret (claim_adapter K env m) (claim_image h s) =
     (fst (CreateFakeSecret (claim_adapter K' env' m) s), claim_image h (snd (CreateFakeSecret (claim_adapter K' env' m) s)))"
  "P (claim_world s) \<Longrightarrow> P (claim_world (snd (CreateFakeSecret (claim_adapter K' env' m) s)))"
  by (simp_all add: image_simps CreateFakeSecret_def case_prod_beta Let_def split: sum.split option.split bool.split)

lemma DeleteFakeSecret_image [image_simps]:
  "P (claim_world s) \<Longrightarrow> DeleteFakeSecret (claim_adapter K env m) (claim_image h s) =
     (fst (DeleteFakeSecret (claim_adapter K' env' m) s), claim_image h (snd (DeleteFakeSecret (claim_adapter K' env' m) s)))"
  "P (claim_world s) \<Longrightarrow> P (claim_world (snd (DeleteFakeSecret (claim_adapter K' env' m) s)))"
  by (simp_all add: image_simps DeleteFakeSecret_def case_prod_beta Let_def split: sum.split option.split)

lemma UpdateFakeProjectClaimSpecs_image [image_simps]:
  "P (claim_world s) \<Longrightarrow> UpdateFakeProjectClaimSpecs (claim_adapter K env m) (claim_image h s) =
     (fst (UpdateFakeProjectClaimSpecs (claim_adapter K' env' m) s), claim_image h (snd (UpdateFakeProjectClaimSpecs (claim_adapter K' env' m) s)))"
  "P (claim_world s) \<Longrightarrow> P (claim_world (snd (UpdateFakeProjectClaimSpecs (claim_adapter K' env' m) s)))"
  by (simp_all add: image_simps UpdateFakeProjectClaimSpecs_def case_prod_beta Let_def split: sum.split option.split)

lemma UpdateFakeProjectClaimState_image [image_simps]:
  "P (claim_world s) \<Longrightarrow> UpdateFakeProjectClaimState (claim_adapter K env m) (claim_image h s) =
     (fst (UpdateFakeProjectClaimState (claim_adapter K' env' m) s), claim_image h (snd (UpdateFakeProjectClaimState (claim_adapter K' env' m) s)))"
  "P (claim_world s) \<Longrightarrow> P (claim_world (snd (UpdateFakeProjectClaimState (claim_adapter K' env' m) s)))"
  by (simp_all add: image_simps UpdateFakeProjectClaimState_def case_prod_beta Let_def split: sum.split option.split)

lemma fake_deletion_image [image_simps]:
  "P (claim_world s) \<Longrightarrow> fake_deletion (claim_adapter K env m) (claim_image h s) =
     (fst (fake_deletion (claim_adapter K' env' m) s), claim_image h (snd (fake_deletion (claim_adapter K' env' m) s)))"
  "P (claim_world s) \<Longrightarrow> P (claim_world (snd (fake_deletion (claim_adapter K' env' m) s)))"
  by (simp_all add: image_simps fake_deletion_def case_prod_beta Let_def split: sum.split option.split)

lemma fake_creation_image [image_simps]:
  "P (claim_world s) \<Longrightarrow> fake_creation (claim_adapter K env m) (claim_image h s) =
     (fst (fake_creation (claim_adapter K' env' m) s), claim_image h (snd (fake_creation (claim_adapter K' env' m) s)))"
  "P (claim_world s) \<Longrightarrow> P (claim_world (snd (fake_creation (claim_adapter K' env' m) s)))"
  by (simp_all add: image_simps fake_creation_def case_prod_beta Let_def split: sum.split option.split)

lemma EnsureProjectClaimFakeProcessed_image [image_simps]:
  "P (claim_world s) \<Longrightarrow> EnsureProjectClaimFakeProcessed (claim_adapter K env m) (claim_image h s) =
     (fst (EnsureProjectClaimFakeProcessed (claim_adapter K' env' m) s), claim_image h (snd (EnsureProjectClaimFakeProcessed (claim_adapter K' env' m) s)))"
  "P (claim_world s) \<Longrightarrow> P (claim_world (snd (EnsureProjectClaimFakeProcessed (claim_adapter K' env' m) s)))"
  by (auto simp: image_simps EnsureProjectClaimFakeProcessed_def case_prod_beta Let_def split: sum.split option.split)

lemma claim_ReconcileHandler_image [image_simps]:
  "P (claim_world s) \<Longrightarrow> claim_ReconcileHandler (claim_adapter K env m) (claim_image h s) =
     (fst (claim_ReconcileHandler (claim_adapter K' env' m) s),
      claim_image h (snd (claim_ReconcileHandler (claim_adapter K' env' m) s)))"
  "P (claim_world s) \<Longrightarrow> P (claim_world (snd (claim_ReconcileHandler (claim_adapter K' env' m) s)))"
proof -
  have "carries (\<lambda>s. P (claim_world s)) (claim_image h) (claim_ReconcileHandler (claim_adapter K' env' m))
      (claim_ReconcileHandler (claim_adapter K env m))"
    unfolding claim_ReconcileHandler_def claim_operations_def
    by (intro carries_run_operations list_all2_Cons [THEN iffD2] conjI list_all2_Nil [THEN iffD2] TrueI)
      (simp_all add: image_simps carries_def)
  then show "P (claim_world s) \<Longrightarrow> claim_ReconcileHandler (claim_adapter K env m) (claim_image h s) =
     (fst (claim_ReconcileHandler (claim_adapter K' env' m) s),
      claim_image h (snd (claim_ReconcileHandler (claim_adapter K' env' m) s)))"
    and "P (claim_world s) \<Longrightarrow> P (claim_world (snd (claim_ReconcileHandler (claim_adapter K' env' m) s)))"
    by (simp_all add: carries_def)
qed

lemma claim_Reconcile_image:
  "P w \<Longrightarrow> claim_Reconcile K env nn (h w) =
     (fst (claim_Reconcile K' env' nn w), h (snd (claim_Reconcile K' env' nn w)))"
  "P w \<Longrightarrow> P (snd (claim_Reconcile K' env' nn w))"
proof -
  have new: "claim_image h \<lparr>projectClaim = c, projectReference = r, claim_world = w\<rparr> =
      \<lparr>projectClaim = c, projectReference = r, claim_world = h w\<rparr>" for c r w
    by (simp add: image_simps claim_image_def)
  have s: "P (claim_world \<lparr>projectClaim = c, projectReference = r, claim_world = w\<rparr>) \<longleftrightarrow> P w" for c r w
    by simp
  show "P w \<Longrightarrow> claim_Reconcile K env nn (h w) =
     (fst (claim_Reconcile K' env' nn w), h (snd (claim_Reconcile K' env' nn w)))"
    and "P w \<Longrightarrow> P (snd (claim_Reconcile K' env' nn w))"
    by (simp_all add: image_simps claim_Reconcile_def NewProjectClaimAdapter_def case_prod_beta new [symmetric]
        split: sum.split)
qed

end

end
