(* ===== verification/ReferenceImages.thy ===== *)
theory ReferenceImages
  imports Images
begin

text \<open>
  The image of a run of the ProjectReference controller, over the contract of \<^verbatim>\<open>Images\<close> extended by
  the calls to Google Cloud and by the construction of their client.
\<close>

definition ref_image :: "('w \<Rightarrow> 'v) \<Rightarrow> 'w reference_state \<Rightarrow> 'v reference_state" where
  "ref_image h s = \<lparr>rs_claim = rs_claim s, rs_reference = rs_reference s, rs_world = h (rs_world s)\<rparr>"

lemma ref_image_sel [simp]:
  "rs_claim (ref_image h s) = rs_claim s"
  "rs_reference (ref_image h s) = rs_reference s"
  "rs_world (ref_image h s) = h (rs_world s)"
  "isCCS (ref_image h s) = isCCS s"
  "IsDeletionRequested (ref_image h s) = IsDeletionRequested s"
  "required_roles (ref_image h s) = required_roles s"
  by (simp_all add: ref_image_def isCCS_def IsDeletionRequested_def required_roles_def)

lemma ref_image_updates [simp]:
  "(ref_image h s)\<lparr>rs_claim := x\<rparr> = ref_image h (s\<lparr>rs_claim := x\<rparr>)"
  "(ref_image h s)\<lparr>rs_reference := r\<rparr> = ref_image h (s\<lparr>rs_reference := r\<rparr>)"
  "(ref_image h s)\<lparr>rs_world := h w\<rparr> = ref_image h (s\<lparr>rs_world := w\<rparr>)"
  by (simp_all add: ref_image_def)

lemma ref_image_setters [simp]:
  "set_ref_state st (ref_image h s) = ref_image h (set_ref_state st s)"
  "set_ref_spec f (ref_image h s) = ref_image h (set_ref_spec f s)"
  "set_ref_finalizers fs (ref_image h s) = ref_image h (set_ref_finalizers fs s)"
  "rs_world (set_ref_state st s) = rs_world s"
  "rs_world (set_ref_spec f s) = rs_world s"
  "rs_world (set_ref_finalizers fs s) = rs_world s"
  by (simp_all add: set_ref_state_def set_ref_spec_def set_ref_finalizers_def)

abbreviation reference_adapter ::
  "'w kube_client \<Rightarrow> 'w gcp_client \<Rightarrow> 'w environment \<Rightarrow> condition_manager \<Rightarrow> OperatorConfigMap \<Rightarrow> 'w ReferenceAdapter"
where
  "reference_adapter K G env m cm \<equiv> \<lparr>ra_kubeClient = K, ra_gcpClient = G, ra_conditionManager = m,
     ra_OperatorConfig = cm, ra_env = env\<rparr>"

text \<open>The end of \<^verbatim>\<open>Reconcile\<close>, from the construction of the adapter on.\<close>

definition reconcile_with ::
  "'w kube_client \<Rightarrow> 'w gcp_client \<Rightarrow> 'w environment \<Rightarrow> ProjectReference \<Rightarrow> OperatorConfigMap \<Rightarrow> 'w
     \<Rightarrow> (ctrl_Result \<times> err option) \<times> 'w" where
  "reconcile_with K G env reference cm w =
     (case NewReferenceAdapter reference K G NewConditionManager cm env w of
        (Inl e, w1) \<Rightarrow>
          ((empty_Result, Wrap (controller_caller 110 ''Reconcile'') (Some e) ''could not create ReferenceAdapter''), w1)
      | (Inr (adapter, s), w1) \<Rightarrow>
          (case reference_ReconcileHandler adapter s of
             ((result, e), s1) \<Rightarrow>
               (case SetProjectReferenceCondition adapter ''ReconcileError'' e s1 of
                  (ignored, s2) \<Rightarrow> ((result, e), rs_world s2))))"

lemma reconcile_reference_with:
  "reconcile_reference rec reference w =
     (case getGcpClient rec reference w of
        (Inl e, w1) \<Rightarrow> ((empty_Result, Some e), w1)
      | (Inr gcp, w1) \<Rightarrow>
          (case getConfigMap rec w1 of
             (Inl e, w2) \<Rightarrow> ((empty_Result, Some e), w2)
           | (Inr cm, w2) \<Rightarrow> reconcile_with (prr_Client rec) gcp (prr_env rec) reference cm w2))"
  by (simp only: reconcile_reference_def reconcile_with_def)

locale cloud_image = client_image K env K' env' h P
  for K :: "'v kube_client" and env and K' :: "'w kube_client" and env' and h and P +
  fixes G :: "'v gcp_client" and G' :: "'w gcp_client"
  assumes cloud_image [image_simps]:
    "P w \<Longrightarrow> g_GetServiceAccount G n (h w) = (fst (g_GetServiceAccount G' n w), h (snd (g_GetServiceAccount G' n w)))"
    "P w \<Longrightarrow> g_CreateServiceAccount G n d (h w) = (fst (g_CreateServiceAccount G' n d w), h (snd (g_CreateServiceAccount G' n d w)))"
    "P w \<Longrightarrow> g_DeleteServiceAccount G n (h w) = (fst (g_DeleteServiceAccount G' n w), h (snd (g_DeleteServiceAccount G' n w)))"
    "P w \<Longrightarrow> g_CreateServiceAccountKey G n (h w) = (fst (g_CreateServiceAccountKey G' n w), h (snd (g_CreateServiceAccountKey G' n w)))"
    "P w \<Longrightarrow> g_DeleteServiceAccountKeys G n (h w) = (fst (g_DeleteServiceAccountKeys G' n w), h (snd (g_DeleteServiceAccountKeys G' n w)))"
    "P w \<Longrightarrow> g_GetIamPolicy G n (h w) = (fst (g_GetIamPolicy G' n w), h (snd (g_GetIamPolicy G' n w)))"
    "P w \<Longrightarrow> g_SetIamPolicy G p (h w) = (fst (g_SetIamPolicy G' p w), h (snd (g_SetIamPolicy G' p w)))"
    "P w \<Longrightarrow> g_ListProjects G (h w) = (fst (g_ListProjects G' w), h (snd (g_ListProjects G' w)))"
    "P w \<Longrightarrow> g_CreateProject G n d (h w) = (fst (g_CreateProject G' n d w), h (snd (g_CreateProject G' n d w)))"
    "P w \<Longrightarrow> g_CreateProjectLabels G q l (h w) = (fst (g_CreateProjectLabels G' q l w), h (snd (g_CreateProjectLabels G' q l w)))"
    "P w \<Longrightarrow> g_DeleteProject G n (h w) = (fst (g_DeleteProject G' n w), h (snd (g_DeleteProject G' n w)))"
    "P w \<Longrightarrow> g_GetProject G n (h w) = (fst (g_GetProject G' n w), h (snd (g_GetProject G' n w)))"
    "P w \<Longrightarrow> g_EnableAPI G n d (h w) = (fst (g_EnableAPI G' n d w), h (snd (g_EnableAPI G' n d w)))"
    "P w \<Longrightarrow> g_ListAPIs G n (h w) = (fst (g_ListAPIs G' n w), h (snd (g_ListAPIs G' n w)))"
    "P w \<Longrightarrow> g_CreateCloudBillingAccount G n d (h w) = (fst (g_CreateCloudBillingAccount G' n d w), h (snd (g_CreateCloudBillingAccount G' n d w)))"
    "P w \<Longrightarrow> g_ListAvailabilityZones G n d (h w) = (fst (g_ListAvailabilityZones G' n d w), h (snd (g_ListAvailabilityZones G' n d w)))"
    and cloud_kept [image_simps]:
    "P w \<Longrightarrow> P (snd (g_GetServiceAccount G' n w))"
    "P w \<Longrightarrow> P (snd (g_CreateServiceAccount G' n d w))"
    "P w \<Longrightarrow> P (snd (g_DeleteServiceAccount G' n w))"
    "P w \<Longrightarrow> P (snd (g_CreateServiceAccountKey G' n w))"
    "P w \<Longrightarrow> P (snd (g_DeleteServiceAccountKeys G' n w))"
    "P w \<Longrightarrow> P (snd (g_GetIamPolicy G' n w))"
    "P w \<Longrightarrow> P (snd (g_SetIamPolicy G' p w))"
    "P w \<Longrightarrow> P (snd (g_ListProjects G' w))"
    "P w \<Longrightarrow> P (snd (g_CreateProject G' n d w))"
    "P w \<Longrightarrow> P (snd (g_CreateProjectLabels G' q l w))"
    "P w \<Longrightarrow> P (snd (g_DeleteProject G' n w))"
    "P w \<Longrightarrow> P (snd (g_GetProject G' n w))"
    "P w \<Longrightarrow> P (snd (g_EnableAPI G' n d w))"
    "P w \<Longrightarrow> P (snd (g_ListAPIs G' n w))"
    "P w \<Longrightarrow> P (snd (g_CreateCloudBillingAccount G' n d w))"
    "P w \<Longrightarrow> P (snd (g_ListAvailabilityZones G' n d w))"
begin

lemma GenerateProjectID_image [image_simps]:
  "P w \<Longrightarrow> GenerateProjectID env (h w) = (fst (GenerateProjectID env' w), h (snd (GenerateProjectID env' w)))"
  "P w \<Longrightarrow> P (snd (GenerateProjectID env' w))"
  by (simp_all add: image_simps GenerateProjectID_def case_prod_beta)

lemma ref_update_claim_image [image_simps]:
  "P (rs_world s) \<Longrightarrow> ref_update_claim (reference_adapter K G env m cm) (ref_image h s) =
     (fst (ref_update_claim (reference_adapter K' G' env' m cm) s), ref_image h (snd (ref_update_claim (reference_adapter K' G' env' m cm) s)))"
  "P (rs_world s) \<Longrightarrow> P (rs_world (snd (ref_update_claim (reference_adapter K' G' env' m cm) s)))"
  by (simp_all add: image_simps ref_update_claim_def case_prod_beta Let_def on_world_def split: sum.split option.split)

lemma ref_status_update_claim_image [image_simps]:
  "P (rs_world s) \<Longrightarrow> ref_status_update_claim (reference_adapter K G env m cm) (ref_image h s) =
     (fst (ref_status_update_claim (reference_adapter K' G' env' m cm) s), ref_image h (snd (ref_status_update_claim (reference_adapter K' G' env' m cm) s)))"
  "P (rs_world s) \<Longrightarrow> P (rs_world (snd (ref_status_update_claim (reference_adapter K' G' env' m cm) s)))"
  by (simp_all add: image_simps ref_status_update_claim_def case_prod_beta Let_def on_world_def split: sum.split option.split)

lemma ref_update_image [image_simps]:
  "P (rs_world s) \<Longrightarrow> ref_update (reference_adapter K G env m cm) (ref_image h s) =
     (fst (ref_update (reference_adapter K' G' env' m cm) s), ref_image h (snd (ref_update (reference_adapter K' G' env' m cm) s)))"
  "P (rs_world s) \<Longrightarrow> P (rs_world (snd (ref_update (reference_adapter K' G' env' m cm) s)))"
  by (simp_all add: image_simps ref_update_def case_prod_beta Let_def on_world_def split: sum.split option.split)

lemma ref_status_update_image [image_simps]:
  "P (rs_world s) \<Longrightarrow> ref_status_update (reference_adapter K G env m cm) (ref_image h s) =
     (fst (ref_status_update (reference_adapter K' G' env' m cm) s), ref_image h (snd (ref_status_update (reference_adapter K' G' env' m cm) s)))"
  "P (rs_world s) \<Longrightarrow> P (rs_world (snd (ref_status_update (reference_adapter K' G' env' m cm) s)))"
  by (simp_all add: image_simps ref_status_update_def case_prod_beta Let_def on_world_def split: sum.split option.split)

lemma reference_StatusUpdate_image [image_simps]:
  "P (rs_world s) \<Longrightarrow> reference_StatusUpdate (reference_adapter K G env m cm) (ref_image h s) =
     (fst (reference_StatusUpdate (reference_adapter K' G' env' m cm) s), ref_image h (snd (reference_StatusUpdate (reference_adapter K' G' env' m cm) s)))"
  "P (rs_world s) \<Longrightarrow> P (rs_world (snd (reference_StatusUpdate (reference_adapter K' G' env' m cm) s)))"
  by (simp_all add: image_simps reference_StatusUpdate_def case_prod_beta Let_def on_world_def split: sum.split option.split)

lemma ref_set_condition_image [image_simps]:
  "P (rs_world s) \<Longrightarrow> ref_set_condition (reference_adapter K G env m cm) t st reason msg (ref_image h s) = ref_image h (ref_set_condition (reference_adapter K' G' env' m cm) t st reason msg s)"
  "P (rs_world s) \<Longrightarrow> P (rs_world (ref_set_condition (reference_adapter K' G' env' m cm) t st reason msg s))"
  by (simp_all add: image_simps ref_set_condition_def case_prod_beta on_world_def)

lemma ref_sleep_image [image_simps]:
  "P (rs_world s) \<Longrightarrow> ref_sleep (reference_adapter K G env m cm) d (ref_image h s) = ref_image h (ref_sleep (reference_adapter K' G' env' m cm) d s)"
  "P (rs_world s) \<Longrightarrow> P (rs_world (ref_sleep (reference_adapter K' G' env' m cm) d s))"
  by (simp_all add: image_simps ref_sleep_def case_prod_beta on_world_def)

lemma EnsureProjectReferenceInitialized_image [image_simps]:
  "P (rs_world s) \<Longrightarrow> EnsureProjectReferenceInitialized (reference_adapter K G env m cm) (ref_image h s) =
     (fst (EnsureProjectReferenceInitialized (reference_adapter K' G' env' m cm) s), ref_image h (snd (EnsureProjectReferenceInitialized (reference_adapter K' G' env' m cm) s)))"
  "P (rs_world s) \<Longrightarrow> P (rs_world (snd (EnsureProjectReferenceInitialized (reference_adapter K' G' env' m cm) s)))"
  by (simp_all add: image_simps EnsureProjectReferenceInitialized_def case_prod_beta Let_def on_world_def split: sum.split option.split)

lemma VerifyProjectClaimPending_image [image_simps]:
  "P (rs_world s) \<Longrightarrow> VerifyProjectClaimPending (reference_adapter K G env m cm) (ref_image h s) =
     (fst (VerifyProjectClaimPending (reference_adapter K' G' env' m cm) s), ref_image h (snd (VerifyProjectClaimPending (reference_adapter K' G' env' m cm) s)))"
  "P (rs_world s) \<Longrightarrow> P (rs_world (snd (VerifyProjectClaimPending (reference_adapter K' G' env' m cm) s)))"
  by (simp_all add: image_simps VerifyProjectClaimPending_def case_prod_beta Let_def on_world_def split: sum.split option.split)

lemma EnsureProjectReferenceStatusCreating_image [image_simps]:
  "P (rs_world s) \<Longrightarrow> EnsureProjectReferenceStatusCreating (reference_adapter K G env m cm) (ref_image h s) =
     (fst (EnsureProjectReferenceStatusCreating (reference_adapter K' G' env' m cm) s), ref_image h (snd (EnsureProjectReferenceStatusCreating (reference_adapter K' G' env' m cm) s)))"
  "P (rs_world s) \<Longrightarrow> P (rs_world (snd (EnsureProjectReferenceStatusCreating (reference_adapter K' G' env' m cm) s)))"
  by (simp_all add: image_simps EnsureProjectReferenceStatusCreating_def case_prod_beta Let_def on_world_def split: sum.split option.split)

lemma UpdateServiceAccountName_image [image_simps]:
  "P (rs_world s) \<Longrightarrow> UpdateServiceAccountName (reference_adapter K G env m cm) (ref_image h s) =
     (fst (UpdateServiceAccountName (reference_adapter K' G' env' m cm) s), ref_image h (snd (UpdateServiceAccountName (reference_adapter K' G' env' m cm) s)))"
  "P (rs_world s) \<Longrightarrow> P (rs_world (snd (UpdateServiceAccountName (reference_adapter K' G' env' m cm) s)))"
  by (simp_all add: image_simps UpdateServiceAccountName_def case_prod_beta Let_def on_world_def split: sum.split option.split)

lemma EnsureServiceAccountName_image [image_simps]:
  "P (rs_world s) \<Longrightarrow> EnsureServiceAccountName (reference_adapter K G env m cm) (ref_image h s) =
     (fst (EnsureServiceAccountName (reference_adapter K' G' env' m cm) s), ref_image h (snd (EnsureServiceAccountName (reference_adapter K' G' env' m cm) s)))"
  "P (rs_world s) \<Longrightarrow> P (rs_world (snd (EnsureServiceAccountName (reference_adapter K' G' env' m cm) s)))"
  by (simp_all add: image_simps EnsureServiceAccountName_def case_prod_beta Let_def on_world_def split: sum.split option.split)

lemma UpdateProjectID_image [image_simps]:
  "P (rs_world s) \<Longrightarrow> UpdateProjectID (reference_adapter K G env m cm) (ref_image h s) =
     (fst (UpdateProjectID (reference_adapter K' G' env' m cm) s), ref_image h (snd (UpdateProjectID (reference_adapter K' G' env' m cm) s)))"
  "P (rs_world s) \<Longrightarrow> P (rs_world (snd (UpdateProjectID (reference_adapter K' G' env' m cm) s)))"
  by (simp_all add: image_simps UpdateProjectID_def case_prod_beta Let_def on_world_def split: sum.split option.split)

lemma EnsureProjectID_image [image_simps]:
  "P (rs_world s) \<Longrightarrow> EnsureProjectID (reference_adapter K G env m cm) (ref_image h s) =
     (fst (EnsureProjectID (reference_adapter K' G' env' m cm) s), ref_image h (snd (EnsureProjectID (reference_adapter K' G' env' m cm) s)))"
  "P (rs_world s) \<Longrightarrow> P (rs_world (snd (EnsureProjectID (reference_adapter K' G' env' m cm) s)))"
  by (simp_all add: image_simps EnsureProjectID_def case_prod_beta Let_def on_world_def split: sum.split option.split)

lemma EnsureFinalizerAdded_image [image_simps]:
  "P (rs_world s) \<Longrightarrow> EnsureFinalizerAdded (reference_adapter K G env m cm) (ref_image h s) =
     (fst (EnsureFinalizerAdded (reference_adapter K' G' env' m cm) s), ref_image h (snd (EnsureFinalizerAdded (reference_adapter K' G' env' m cm) s)))"
  "P (rs_world s) \<Longrightarrow> P (rs_world (snd (EnsureFinalizerAdded (reference_adapter K' G' env' m cm) s)))"
  by (simp_all add: image_simps EnsureFinalizerAdded_def case_prod_beta Let_def on_world_def split: sum.split option.split)

lemma EnsureFinalizerDeleted_image [image_simps]:
  "P (rs_world s) \<Longrightarrow> EnsureFinalizerDeleted (reference_adapter K G env m cm) (ref_image h s) =
     (fst (EnsureFinalizerDeleted (reference_adapter K' G' env' m cm) s), ref_image h (snd (EnsureFinalizerDeleted (reference_adapter K' G' env' m cm) s)))"
  "P (rs_world s) \<Longrightarrow> P (rs_world (snd (EnsureFinalizerDeleted (reference_adapter K' G' env' m cm) s)))"
  by (simp_all add: image_simps EnsureFinalizerDeleted_def case_prod_beta Let_def on_world_def split: sum.split option.split)

lemma EnsureStateReady_image [image_simps]:
  "P (rs_world s) \<Longrightarrow> EnsureStateReady (reference_adapter K G env m cm) (ref_image h s) =
     (fst (EnsureStateReady (reference_adapter K' G' env' m cm) s), ref_image h (snd (EnsureStateReady (reference_adapter K' G' env' m cm) s)))"
  "P (rs_world s) \<Longrightarrow> P (rs_world (snd (EnsureStateReady (reference_adapter K' G' env' m cm) s)))"
  by (simp_all add: image_simps EnsureStateReady_def case_prod_beta Let_def on_world_def split: sum.split option.split)

lemma getProject_image [image_simps]:
  "P (rs_world s) \<Longrightarrow> getProject (reference_adapter K G env m cm) p (ref_image h s) =
     (fst (getProject (reference_adapter K' G' env' m cm) p s), ref_image h (snd (getProject (reference_adapter K' G' env' m cm) p s)))"
  "P (rs_world s) \<Longrightarrow> P (rs_world (snd (getProject (reference_adapter K' G' env' m cm) p s)))"
  by (simp_all add: image_simps getProject_def case_prod_beta Let_def on_world_def split: sum.split option.split)

lemma clearProjectID_image [image_simps]:
  "P (rs_world s) \<Longrightarrow> clearProjectID (reference_adapter K G env m cm) (ref_image h s) =
     (fst (clearProjectID (reference_adapter K' G' env' m cm) s), ref_image h (snd (clearProjectID (reference_adapter K' G' env' m cm) s)))"
  "P (rs_world s) \<Longrightarrow> P (rs_world (snd (clearProjectID (reference_adapter K' G' env' m cm) s)))"
  by (simp_all add: image_simps clearProjectID_def case_prod_beta Let_def on_world_def split: sum.split option.split)

lemma createProject_image [image_simps]:
  "P (rs_world s) \<Longrightarrow> createProject (reference_adapter K G env m cm) folder (ref_image h s) =
     (fst (createProject (reference_adapter K' G' env' m cm) folder s), ref_image h (snd (createProject (reference_adapter K' G' env' m cm) folder s)))"
  "P (rs_world s) \<Longrightarrow> P (rs_world (snd (createProject (reference_adapter K' G' env' m cm) folder s)))"
  by (simp_all add: image_simps createProject_def case_prod_beta Let_def on_world_def split: sum.split option.split)

lemma deleteProject_image [image_simps]:
  "P (rs_world s) \<Longrightarrow> deleteProject (reference_adapter K G env m cm) (ref_image h s) =
     (fst (deleteProject (reference_adapter K' G' env' m cm) s), ref_image h (snd (deleteProject (reference_adapter K' G' env' m cm) s)))"
  "P (rs_world s) \<Longrightarrow> P (rs_world (snd (deleteProject (reference_adapter K' G' env' m cm) s)))"
  by (simp_all add: image_simps deleteProject_def case_prod_beta Let_def on_world_def split: sum.split option.split)

lemma link_billing_image [image_simps]:
  "P (rs_world s) \<Longrightarrow> link_billing (reference_adapter K G env m cm) (ref_image h s) =
     (fst (link_billing (reference_adapter K' G' env' m cm) s), ref_image h (snd (link_billing (reference_adapter K' G' env' m cm) s)))"
  "P (rs_world s) \<Longrightarrow> P (rs_world (snd (link_billing (reference_adapter K' G' env' m cm) s)))"
  by (simp_all add: image_simps link_billing_def case_prod_beta Let_def on_world_def split: sum.split option.split)

lemma configureBillingAPI_image [image_simps]:
  "P (rs_world s) \<Longrightarrow> configureBillingAPI (reference_adapter K G env m cm) (ref_image h s) =
     (fst (configureBillingAPI (reference_adapter K' G' env' m cm) s), ref_image h (snd (configureBillingAPI (reference_adapter K' G' env' m cm) s)))"
  "P (rs_world s) \<Longrightarrow> P (rs_world (snd (configureBillingAPI (reference_adapter K' G' env' m cm) s)))"
  by (simp_all add: image_simps configureBillingAPI_def case_prod_beta Let_def on_world_def split: sum.split option.split)

lemma EnsureProjectCreated_image [image_simps]:
  "P (rs_world s) \<Longrightarrow> EnsureProjectCreated (reference_adapter K G env m cm) (ref_image h s) =
     (fst (EnsureProjectCreated (reference_adapter K' G' env' m cm) s), ref_image h (snd (EnsureProjectCreated (reference_adapter K' G' env' m cm) s)))"
  "P (rs_world s) \<Longrightarrow> P (rs_world (snd (EnsureProjectCreated (reference_adapter K' G' env' m cm) s)))"
  by (simp_all add: image_simps EnsureProjectCreated_def case_prod_beta Let_def on_world_def split: sum.split option.split)

lemma AddOrUpdateBindings_image [image_simps]:
  "P (rs_world s) \<Longrightarrow> AddOrUpdateBindings (reference_adapter K G env m cm) email roles mt (ref_image h s) =
     (fst (AddOrUpdateBindings (reference_adapter K' G' env' m cm) email roles mt s), ref_image h (snd (AddOrUpdateBindings (reference_adapter K' G' env' m cm) email roles mt s)))"
  "P (rs_world s) \<Longrightarrow> P (rs_world (snd (AddOrUpdateBindings (reference_adapter K' G' env' m cm) email roles mt s)))"
  by (simp_all add: image_simps AddOrUpdateBindings_def case_prod_beta Let_def on_world_def split: sum.split option.split)

lemma SetIAMPolicy_loop_image:
  "P (rs_world s) \<Longrightarrow> SetIAMPolicy_loop (reference_adapter K G env m cm) email roles mt retry (ref_image h s) =
       (fst (SetIAMPolicy_loop (reference_adapter K' G' env' m cm) email roles mt retry s), ref_image h (snd (SetIAMPolicy_loop (reference_adapter K' G' env' m cm) email roles mt retry s))) \<and>
     P (rs_world (snd (SetIAMPolicy_loop (reference_adapter K' G' env' m cm) email roles mt retry s)))"
proof (induction "3 - retry" arbitrary: retry s rule: less_induct)
  case less
  have IH: "SetIAMPolicy_loop (reference_adapter K G env m cm) email roles mt (Suc retry) (ref_image h t) =
       (fst (SetIAMPolicy_loop (reference_adapter K' G' env' m cm) email roles mt (Suc retry) t), ref_image h (snd (SetIAMPolicy_loop (reference_adapter K' G' env' m cm) email roles mt (Suc retry) t)))"
    "P (rs_world (snd (SetIAMPolicy_loop (reference_adapter K' G' env' m cm) email roles mt (Suc retry) t)))"
    if "retry < 3" "P (rs_world t)" for t
    using less.hyps [of "Suc retry" t] that by simp_all
  show ?case
    using less.prems
    by (simp add: image_simps SetIAMPolicy_loop.simps [of "(reference_adapter K G env m cm)" email roles mt retry "ref_image h s"]
        SetIAMPolicy_loop.simps [of "(reference_adapter K' G' env' m cm)" email roles mt retry s]
        case_prod_beta on_world_def IH split: sum.split)
qed

lemma SetIAMPolicy_image [image_simps]:
  "P (rs_world s) \<Longrightarrow> SetIAMPolicy (reference_adapter K G env m cm) email roles mt (ref_image h s) =
     (fst (SetIAMPolicy (reference_adapter K' G' env' m cm) email roles mt s), ref_image h (snd (SetIAMPolicy (reference_adapter K' G' env' m cm) email roles mt s)))"
  "P (rs_world s) \<Longrightarrow> P (rs_world (snd (SetIAMPolicy (reference_adapter K' G' env' m cm) email roles mt s)))"
  by (simp_all add: image_simps SetIAMPolicy_def SetIAMPolicy_loop_image)

lemma DeleteIAMPolicy_loop_image:
  "P (rs_world s) \<Longrightarrow> DeleteIAMPolicy_loop (reference_adapter K G env m cm) email mt retry (ref_image h s) =
       (fst (DeleteIAMPolicy_loop (reference_adapter K' G' env' m cm) email mt retry s), ref_image h (snd (DeleteIAMPolicy_loop (reference_adapter K' G' env' m cm) email mt retry s))) \<and>
     P (rs_world (snd (DeleteIAMPolicy_loop (reference_adapter K' G' env' m cm) email mt retry s)))"
proof (induction "3 - retry" arbitrary: retry s rule: less_induct)
  case less
  have IH: "DeleteIAMPolicy_loop (reference_adapter K G env m cm) email mt (Suc retry) (ref_image h t) =
       (fst (DeleteIAMPolicy_loop (reference_adapter K' G' env' m cm) email mt (Suc retry) t), ref_image h (snd (DeleteIAMPolicy_loop (reference_adapter K' G' env' m cm) email mt (Suc retry) t)))"
    "P (rs_world (snd (DeleteIAMPolicy_loop (reference_adapter K' G' env' m cm) email mt (Suc retry) t)))"
    if "retry < 3" "P (rs_world t)" for t
    using less.hyps [of "Suc retry" t] that by simp_all
  show ?case
    using less.prems
    by (simp add: image_simps DeleteIAMPolicy_loop.simps [of "(reference_adapter K G env m cm)" email mt retry "ref_image h s"]
        DeleteIAMPolicy_loop.simps [of "(reference_adapter K' G' env' m cm)" email mt retry s]
        case_prod_beta on_world_def IH split: sum.split)
qed

lemma DeleteIAMPolicy_image [image_simps]:
  "P (rs_world s) \<Longrightarrow> DeleteIAMPolicy (reference_adapter K G env m cm) email mt (ref_image h s) =
     (fst (DeleteIAMPolicy (reference_adapter K' G' env' m cm) email mt s), ref_image h (snd (DeleteIAMPolicy (reference_adapter K' G' env' m cm) email mt s)))"
  "P (rs_world s) \<Longrightarrow> P (rs_world (snd (DeleteIAMPolicy (reference_adapter K' G' env' m cm) email mt s)))"
  by (simp_all add: image_simps DeleteIAMPolicy_def DeleteIAMPolicy_loop_image)

lemma enable_missing_apis_image [image_simps]:
  "P (rs_world s) \<Longrightarrow> enable_missing_apis (reference_adapter K G env m cm) enabled apis (ref_image h s) =
     (fst (enable_missing_apis (reference_adapter K' G' env' m cm) enabled apis s), ref_image h (snd (enable_missing_apis (reference_adapter K' G' env' m cm) enabled apis s)))"
  "P (rs_world s) \<Longrightarrow> P (rs_world (snd (enable_missing_apis (reference_adapter K' G' env' m cm) enabled apis s)))"
  by (induction apis arbitrary: s) (simp_all add: image_simps case_prod_beta on_world_def split: option.split)

lemma set_group_policies_image [image_simps]:
  "P (rs_world s) \<Longrightarrow> set_group_policies (reference_adapter K G env m cm) roles emails (ref_image h s) =
     (fst (set_group_policies (reference_adapter K' G' env' m cm) roles emails s), ref_image h (snd (set_group_policies (reference_adapter K' G' env' m cm) roles emails s)))"
  "P (rs_world s) \<Longrightarrow> P (rs_world (snd (set_group_policies (reference_adapter K' G' env' m cm) roles emails s)))"
  by (induction emails arbitrary: s) (simp_all add: image_simps case_prod_beta on_world_def split: option.split)

lemma delete_group_policies_image [image_simps]:
  "P (rs_world s) \<Longrightarrow> delete_group_policies (reference_adapter K G env m cm) emails (ref_image h s) =
     (fst (delete_group_policies (reference_adapter K' G' env' m cm) emails s), ref_image h (snd (delete_group_policies (reference_adapter K' G' env' m cm) emails s)))"
  "P (rs_world s) \<Longrightarrow> P (rs_world (snd (delete_group_policies (reference_adapter K' G' env' m cm) emails s)))"
  by (induction emails arbitrary: s) (simp_all add: image_simps case_prod_beta on_world_def split: option.split)

lemma configureAPIS_image [image_simps]:
  "P (rs_world s) \<Longrightarrow> configureAPIS (reference_adapter K G env m cm) (ref_image h s) =
     (fst (configureAPIS (reference_adapter K' G' env' m cm) s), ref_image h (snd (configureAPIS (reference_adapter K' G' env' m cm) s)))"
  "P (rs_world s) \<Longrightarrow> P (rs_world (snd (configureAPIS (reference_adapter K' G' env' m cm) s)))"
  by (simp_all add: image_simps configureAPIS_def case_prod_beta Let_def on_world_def split: sum.split option.split)

lemma grant_account_image [image_simps]:
  "P (rs_world s) \<Longrightarrow> grant_account (reference_adapter K G env m cm) roles account (ref_image h s) =
     (fst (grant_account (reference_adapter K' G' env' m cm) roles account s), ref_image h (snd (grant_account (reference_adapter K' G' env' m cm) roles account s)))"
  "P (rs_world s) \<Longrightarrow> P (rs_world (snd (grant_account (reference_adapter K' G' env' m cm) roles account s)))"
  by (simp_all add: image_simps grant_account_def case_prod_beta Let_def on_world_def split: sum.split option.split)

lemma configureServiceAccount_image [image_simps]:
  "P (rs_world s) \<Longrightarrow> configureServiceAccount (reference_adapter K G env m cm) roles (ref_image h s) =
     (fst (configureServiceAccount (reference_adapter K' G' env' m cm) roles s), ref_image h (snd (configureServiceAccount (reference_adapter K' G' env' m cm) roles s)))"
  "P (rs_world s) \<Longrightarrow> P (rs_world (snd (configureServiceAccount (reference_adapter K' G' env' m cm) roles s)))"
  by (simp_all add: image_simps configureServiceAccount_def case_prod_beta Let_def on_world_def split: sum.split option.split)

lemma store_key_image [image_simps]:
  "P (rs_world s) \<Longrightarrow> store_key (reference_adapter K G env m cm) key (ref_image h s) =
     (fst (store_key (reference_adapter K' G' env' m cm) key s), ref_image h (snd (store_key (reference_adapter K' G' env' m cm) key s)))"
  "P (rs_world s) \<Longrightarrow> P (rs_world (snd (store_key (reference_adapter K' G' env' m cm) key s)))"
  by (simp_all add: image_simps store_key_def case_prod_beta Let_def on_world_def split: sum.split option.split)

lemma createCredentials_image [image_simps]:
  "P (rs_world s) \<Longrightarrow> createCredentials (reference_adapter K G env m cm) (ref_image h s) =
     (fst (createCredentials (reference_adapter K' G' env' m cm) s), ref_image h (snd (createCredentials (reference_adapter K' G' env' m cm) s)))"
  "P (rs_world s) \<Longrightarrow> P (rs_world (snd (createCredentials (reference_adapter K' G' env' m cm) s)))"
  by (simp_all add: image_simps createCredentials_def case_prod_beta Let_def on_world_def split: sum.split option.split bool.split)

lemma configure_console_access_image [image_simps]:
  "P (rs_world s) \<Longrightarrow> configure_console_access (reference_adapter K G env m cm) (ref_image h s) =
     (fst (configure_console_access (reference_adapter K' G' env' m cm) s), ref_image h (snd (configure_console_access (reference_adapter K' G' env' m cm) s)))"
  "P (rs_world s) \<Longrightarrow> P (rs_world (snd (configure_console_access (reference_adapter K' G' env' m cm) s)))"
  by (simp_all add: image_simps configure_console_access_def case_prod_beta Let_def on_world_def split: sum.split option.split)

lemma EnsureProjectConfigured_image [image_simps]:
  "P (rs_world s) \<Longrightarrow> EnsureProjectConfigured (reference_adapter K G env m cm) (ref_image h s) =
     (fst (EnsureProjectConfigured (reference_adapter K' G' env' m cm) s), ref_image h (snd (EnsureProjectConfigured (reference_adapter K' G' env' m cm) s)))"
  "P (rs_world s) \<Longrightarrow> P (rs_world (snd (EnsureProjectConfigured (reference_adapter K' G' env' m cm) s)))"
  by (simp_all add: image_simps EnsureProjectConfigured_def case_prod_beta Let_def on_world_def split: sum.split option.split)

lemma deleteServiceAccount_image [image_simps]:
  "P (rs_world s) \<Longrightarrow> deleteServiceAccount (reference_adapter K G env m cm) (ref_image h s) =
     (fst (deleteServiceAccount (reference_adapter K' G' env' m cm) s), ref_image h (snd (deleteServiceAccount (reference_adapter K' G' env' m cm) s)))"
  "P (rs_world s) \<Longrightarrow> P (rs_world (snd (deleteServiceAccount (reference_adapter K' G' env' m cm) s)))"
  by (simp_all add: image_simps deleteServiceAccount_def case_prod_beta Let_def on_world_def split: sum.split option.split)

lemma cleanup_project_image [image_simps]:
  "P (rs_world s) \<Longrightarrow> cleanup_project (reference_adapter K G env m cm) (ref_image h s) =
     (fst (cleanup_project (reference_adapter K' G' env' m cm) s), ref_image h (snd (cleanup_project (reference_adapter K' G' env' m cm) s)))"
  "P (rs_world s) \<Longrightarrow> P (rs_world (snd (cleanup_project (reference_adapter K' G' env' m cm) s)))"
  by (simp_all add: image_simps cleanup_project_def case_prod_beta Let_def on_world_def split: sum.split option.split)

lemma ensureCCSProjectCleanedUp_image [image_simps]:
  "P (rs_world s) \<Longrightarrow> ensureCCSProjectCleanedUp (reference_adapter K G env m cm) ccs (ref_image h s) =
     (fst (ensureCCSProjectCleanedUp (reference_adapter K' G' env' m cm) ccs s), ref_image h (snd (ensureCCSProjectCleanedUp (reference_adapter K' G' env' m cm) ccs s)))"
  "P (rs_world s) \<Longrightarrow> P (rs_world (snd (ensureCCSProjectCleanedUp (reference_adapter K' G' env' m cm) ccs s)))"
  by (simp_all add: image_simps ensureCCSProjectCleanedUp_def case_prod_beta Let_def on_world_def split: sum.split option.split)

lemma deleteCredentials_image [image_simps]:
  "P (rs_world s) \<Longrightarrow> deleteCredentials (reference_adapter K G env m cm) (ref_image h s) =
     (fst (deleteCredentials (reference_adapter K' G' env' m cm) s), ref_image h (snd (deleteCredentials (reference_adapter K' G' env' m cm) s)))"
  "P (rs_world s) \<Longrightarrow> P (rs_world (snd (deleteCredentials (reference_adapter K' G' env' m cm) s)))"
  by (simp_all add: image_simps deleteCredentials_def case_prod_beta Let_def on_world_def split: sum.split option.split bool.split)

lemma EnsureProjectCleanedUp_image [image_simps]:
  "P (rs_world s) \<Longrightarrow> EnsureProjectCleanedUp (reference_adapter K G env m cm) (ref_image h s) =
     (fst (EnsureProjectCleanedUp (reference_adapter K' G' env' m cm) s), ref_image h (snd (EnsureProjectCleanedUp (reference_adapter K' G' env' m cm) s)))"
  "P (rs_world s) \<Longrightarrow> P (rs_world (snd (EnsureProjectCleanedUp (reference_adapter K' G' env' m cm) s)))"
  by (simp_all add: image_simps EnsureProjectCleanedUp_def case_prod_beta Let_def on_world_def split: sum.split option.split)

lemma EnsureDeletionProcessed_image [image_simps]:
  "P (rs_world s) \<Longrightarrow> EnsureDeletionProcessed (reference_adapter K G env m cm) (ref_image h s) =
     (fst (EnsureDeletionProcessed (reference_adapter K' G' env' m cm) s), ref_image h (snd (EnsureDeletionProcessed (reference_adapter K' G' env' m cm) s)))"
  "P (rs_world s) \<Longrightarrow> P (rs_world (snd (EnsureDeletionProcessed (reference_adapter K' G' env' m cm) s)))"
  by (simp_all add: image_simps EnsureDeletionProcessed_def case_prod_beta Let_def on_world_def split: sum.split option.split)

lemma handleAvailabilityZonesError_image [image_simps]:
  "P (rs_world s) \<Longrightarrow> handleAvailabilityZonesError (reference_adapter K G env m cm) e (ref_image h s) =
     (fst (handleAvailabilityZonesError (reference_adapter K' G' env' m cm) e s), ref_image h (snd (handleAvailabilityZonesError (reference_adapter K' G' env' m cm) e s)))"
  "P (rs_world s) \<Longrightarrow> P (rs_world (snd (handleAvailabilityZonesError (reference_adapter K' G' env' m cm) e s)))"
  by (simp_all add: image_simps handleAvailabilityZonesError_def zones_not_ready_def case_prod_beta Let_def on_world_def split: sum.split option.split)

lemma ensureClaimAvailabilityZonesSet_image [image_simps]:
  "P (rs_world s) \<Longrightarrow> ensureClaimAvailabilityZonesSet (reference_adapter K G env m cm) (ref_image h s) =
     (fst (ensureClaimAvailabilityZonesSet (reference_adapter K' G' env' m cm) s), ref_image h (snd (ensureClaimAvailabilityZonesSet (reference_adapter K' G' env' m cm) s)))"
  "P (rs_world s) \<Longrightarrow> P (rs_world (snd (ensureClaimAvailabilityZonesSet (reference_adapter K' G' env' m cm) s)))"
  by (simp_all add: image_simps ensureClaimAvailabilityZonesSet_def case_prod_beta Let_def on_world_def split: sum.split option.split)

lemma mark_claim_ready_image [image_simps]:
  "P (rs_world s) \<Longrightarrow> mark_claim_ready (reference_adapter K G env m cm) (ref_image h s) =
     (fst (mark_claim_ready (reference_adapter K' G' env' m cm) s), ref_image h (snd (mark_claim_ready (reference_adapter K' G' env' m cm) s)))"
  "P (rs_world s) \<Longrightarrow> P (rs_world (snd (mark_claim_ready (reference_adapter K' G' env' m cm) s)))"
  by (simp_all add: image_simps mark_claim_ready_def case_prod_beta Let_def on_world_def split: sum.split option.split)

lemma EnsureProjectClaimReady_image [image_simps]:
  "P (rs_world s) \<Longrightarrow> EnsureProjectClaimReady (reference_adapter K G env m cm) (ref_image h s) =
     (fst (EnsureProjectClaimReady (reference_adapter K' G' env' m cm) s), ref_image h (snd (EnsureProjectClaimReady (reference_adapter K' G' env' m cm) s)))"
  "P (rs_world s) \<Longrightarrow> P (rs_world (snd (EnsureProjectClaimReady (reference_adapter K' G' env' m cm) s)))"
  by (simp_all add: image_simps EnsureProjectClaimReady_def ensureClaimProjectIDSet_def case_prod_beta Let_def on_world_def split: sum.split option.split)

lemma SetProjectReferenceCondition_image [image_simps]:
  "P (rs_world s) \<Longrightarrow> SetProjectReferenceCondition (reference_adapter K G env m cm) reason e (ref_image h s) =
     (fst (SetProjectReferenceCondition (reference_adapter K' G' env' m cm) reason e s), ref_image h (snd (SetProjectReferenceCondition (reference_adapter K' G' env' m cm) reason e s)))"
  "P (rs_world s) \<Longrightarrow> P (rs_world (snd (SetProjectReferenceCondition (reference_adapter K' G' env' m cm) reason e s)))"
  by (simp_all add: image_simps SetProjectReferenceCondition_def case_prod_beta Let_def on_world_def split: sum.split option.split)

lemma reference_ReconcileHandler_image [image_simps]:
  "P (rs_world s) \<Longrightarrow> reference_ReconcileHandler (reference_adapter K G env m cm) (ref_image h s) =
     (fst (reference_ReconcileHandler (reference_adapter K' G' env' m cm) s), ref_image h (snd (reference_ReconcileHandler (reference_adapter K' G' env' m cm) s)))"
  "P (rs_world s) \<Longrightarrow> P (rs_world (snd (reference_ReconcileHandler (reference_adapter K' G' env' m cm) s)))"
proof -
  have "carries (\<lambda>s. P (rs_world s)) (ref_image h) (reference_ReconcileHandler (reference_adapter K' G' env' m cm))
      (reference_ReconcileHandler (reference_adapter K G env m cm))"
    unfolding reference_ReconcileHandler_def reference_operations_def
    by (intro carries_run_operations list_all2_Cons [THEN iffD2] conjI list_all2_Nil [THEN iffD2] TrueI)
      (simp_all add: image_simps carries_def)
  then show "P (rs_world s) \<Longrightarrow> reference_ReconcileHandler (reference_adapter K G env m cm) (ref_image h s) =
     (fst (reference_ReconcileHandler (reference_adapter K' G' env' m cm) s), ref_image h (snd (reference_ReconcileHandler (reference_adapter K' G' env' m cm) s)))"
    and "P (rs_world s) \<Longrightarrow> P (rs_world (snd (reference_ReconcileHandler (reference_adapter K' G' env' m cm) s)))"
    by (simp_all add: image_simps carries_def)
qed

lemma reconcile_with_image [image_simps]:
  "P w \<Longrightarrow> reconcile_with K G env reference cm (h w) =
     (fst (reconcile_with K' G' env' reference cm w), h (snd (reconcile_with K' G' env' reference cm w)))"
  "P w \<Longrightarrow> P (snd (reconcile_with K' G' env' reference cm w))"
proof -
  have new: "\<lparr>rs_claim = c, rs_reference = r, rs_world = h w\<rparr> =
      ref_image h \<lparr>rs_claim = c, rs_reference = r, rs_world = w\<rparr>" for c r w
    by (simp add: image_simps ref_image_def)
  show "P w \<Longrightarrow> reconcile_with K G env reference cm (h w) =
     (fst (reconcile_with K' G' env' reference cm w), h (snd (reconcile_with K' G' env' reference cm w)))"
    and "P w \<Longrightarrow> P (snd (reconcile_with K' G' env' reference cm w))"
    by (simp_all add: image_simps reconcile_with_def NewReferenceAdapter_def getMatchingClaimLink_def case_prod_beta Let_def new
        split: sum.split)
qed

end

subsection \<open>The whole Reconcile\<close>

text \<open>The two reconcilers build clients that are images of each other, or fail alike.\<close>

locale reconciler_image = client_image "prr_Client rec" "prr_env rec" "prr_Client rec'" "prr_env rec'" h P
  for rec :: "'v ProjectReferenceReconciler" and rec' :: "'w ProjectReferenceReconciler" and h and P +
  assumes builder_kept [image_simps]: "P w \<Longrightarrow> P (snd (prr_GcpClientBuilder rec' project auth w))"
    and builder_world [image_simps]: "P w \<Longrightarrow> snd (prr_GcpClientBuilder rec project auth (h w)) =
      h (snd (prr_GcpClientBuilder rec' project auth w))"
    and builder_client: "P w \<Longrightarrow> rel_sum (=) (cloud_image (prr_Client rec) (prr_env rec) (prr_Client rec') (prr_env rec') h P)
      (fst (prr_GcpClientBuilder rec project auth (h w))) (fst (prr_GcpClientBuilder rec' project auth w))"
begin

lemma getConfigMap_image [image_simps]:
  "P w \<Longrightarrow> getConfigMap rec (h w) = (fst (getConfigMap rec' w), h (snd (getConfigMap rec' w)))"
  "P w \<Longrightarrow> P (snd (getConfigMap rec' w))"
  by (simp_all add: image_simps getConfigMap_def case_prod_beta split: sum.split option.split)

lemma getGcpClient_image:
  assumes "P w"
  shows "snd (getGcpClient rec reference (h w)) = h (snd (getGcpClient rec' reference w))"
    and "P (snd (getGcpClient rec' reference w))"
    and "rel_sum (=) (cloud_image (prr_Client rec) (prr_env rec) (prr_Client rec') (prr_env rec') h P)
      (fst (getGcpClient rec reference (h w))) (fst (getGcpClient rec' reference w))"
proof -
  let ?secret = "credential_secret reference"
  obtain a w1 where a: "GetGCPCredentialsFromSecret (prr_Client rec') (nn_Namespace ?secret) (nn_Name ?secret) w = (a, w1)"
    by fastforce
  with assms GetGCPCredentialsFromSecret_image [of w "nn_Namespace ?secret" "nn_Name ?secret"]
  have a': "GetGCPCredentialsFromSecret (prr_Client rec) (nn_Namespace ?secret) (nn_Name ?secret) (h w) = (a, h w1)"
    and w1: "P w1" by simp_all
  show "snd (getGcpClient rec reference (h w)) = h (snd (getGcpClient rec' reference w))"
    using w1 builder_client [OF w1]
    by (auto simp: image_simps getGcpClient_def a a' Let_def case_prod_beta split: sum.splits)
  show "P (snd (getGcpClient rec' reference w))"
    using w1 by (auto simp: image_simps getGcpClient_def a Let_def case_prod_beta split: sum.splits)
  show "rel_sum (=) (cloud_image (prr_Client rec) (prr_env rec) (prr_Client rec') (prr_env rec') h P)
      (fst (getGcpClient rec reference (h w))) (fst (getGcpClient rec' reference w))"
  proof (cases a)
    case (Inl e)
    then show ?thesis by (simp add: image_simps getGcpClient_def a a' Let_def)
  next
    case (Inr creds)
    from builder_client [OF w1, of "prs_GCPProjectID (pr_Spec reference)" creds] show ?thesis
      by cases (simp_all add: image_simps getGcpClient_def a a' Inr Let_def case_prod_beta)
  qed
qed

lemma reconcile_reference_image:
  assumes "P w"
  shows "reconcile_reference rec reference (h w) =
      (fst (reconcile_reference rec' reference w), h (snd (reconcile_reference rec' reference w)))"
    and "P (snd (reconcile_reference rec' reference w))"
proof -
  obtain a w1 where a: "getGcpClient rec' reference w = (a, w1)" by fastforce
  with getGcpClient_image [OF assms, of reference] obtain b where
    b: "getGcpClient rec reference (h w) = (b, h w1)" and w1: "P w1"
    and ab: "rel_sum (=) (cloud_image (prr_Client rec) (prr_env rec) (prr_Client rec') (prr_env rec') h P) b a"
    by (metis fst_conv snd_conv prod.collapse)
  from ab show "reconcile_reference rec reference (h w) =
      (fst (reconcile_reference rec' reference w), h (snd (reconcile_reference rec' reference w)))"
    and "P (snd (reconcile_reference rec' reference w))"
  proof (atomize (full), cases)
    case (1 e e')
    with w1 a b show "reconcile_reference rec reference (h w) =
      (fst (reconcile_reference rec' reference w), h (snd (reconcile_reference rec' reference w))) \<and>
      P (snd (reconcile_reference rec' reference w))"
      by (simp add: image_simps reconcile_reference_def)
  next
    case (2 G G')
    note run = cloud_image.reconcile_with_image [OF 2(3)]
    show "reconcile_reference rec reference (h w) =
      (fst (reconcile_reference rec' reference w), h (snd (reconcile_reference rec' reference w))) \<and>
      P (snd (reconcile_reference rec' reference w))"
      using w1 a b 2(1,2) by (simp add: image_simps reconcile_reference_with case_prod_beta run split: sum.split)
  qed
qed

lemma reference_Reconcile_image:
  assumes "P w"
  shows "reference_Reconcile rec nn (h w) =
      (fst (reference_Reconcile rec' nn w), h (snd (reference_Reconcile rec' nn w)))"
    and "P (snd (reference_Reconcile rec' nn w))"
  using assms
  by (auto simp: image_simps reference_Reconcile_def case_prod_beta reconcile_reference_image split: sum.split option.split)

end

end
