(* ===== verification/GcpFacts.thy ===== *)
theory GcpFacts
  imports Cluster
begin

text \<open>
  What the operations of \<^verbatim>\<open>pkg/gcpclient/client.go\<close> achieve: the retry loops against the requests
  they make, the deletion of keys, and the billing link of a project, whose contract with Google is
  the locale \<^verbatim>\<open>billing_service\<close>.
\<close>

subsection \<open>Enabling an API\<close>

text \<open>One attempt sleeps and then asks; the specification runs \<^verbatim>\<open>n\<close> of them and collects the answers.\<close>

definition enable_attempt ::
  "'w environment \<Rightarrow> 'w google_sdk \<Rightarrow> gcpClient \<Rightarrow> string \<Rightarrow> 'w \<Rightarrow> err option \<times> 'w" where
  "enable_attempt env sdk c api w = sdk_ServicesEnable sdk (gc_creds c) api (env_Sleep env Second w)"

fun enable_attempts ::
  "'w environment \<Rightarrow> 'w google_sdk \<Rightarrow> gcpClient \<Rightarrow> string \<Rightarrow> nat \<Rightarrow> 'w \<Rightarrow> err option list \<times> 'w" where
  "enable_attempts env sdk c api 0 w = ([], w)"
| "enable_attempts env sdk c api (Suc n) w =
     (case enable_attempt env sdk c api w of
        (e, w1) \<Rightarrow> (case enable_attempts env sdk c api n w1 of (es, w2) \<Rightarrow> (e # es, w2)))"

definition forbidden :: "err option \<Rightarrow> bool" where
  "forbidden e \<longleftrightarrow> (case e of None \<Rightarrow> False | Some e' \<Rightarrow> google_code e' = Some StatusForbidden)"

lemma forbidden_simps [simp]:
  "\<not> forbidden None" "forbidden (Some e) \<longleftrightarrow> google_code e = Some StatusForbidden"
  by (simp_all add: forbidden_def)

lemma length_enable_attempts: "length (fst (enable_attempts env sdk c api n w)) = n"
  by (induction n arbitrary: w) (simp_all split: prod.splits, metis fst_conv)

text \<open>The run of the loop from the counter \<^verbatim>\<open>retry\<close> on, as a number of attempts.\<close>

definition enable_run ::
  "'w environment \<Rightarrow> 'w google_sdk \<Rightarrow> gcpClient \<Rightarrow> string \<Rightarrow> nat \<Rightarrow> nat \<Rightarrow> 'w \<Rightarrow> err option \<times> 'w \<Rightarrow> bool" where
  "enable_run env sdk c api left n w x \<longleftrightarrow>
     (case enable_attempts env sdk c api n w of
        (es, w') \<Rightarrow> es \<noteq> [] \<and> n \<le> left \<and> x = (last es, w') \<and> list_all forbidden (butlast es) \<and>
          (forbidden (last es) \<longrightarrow> n = left))"

lemma EnableAPI_loop_run:
  assumes "retry \<le> gcpAPIRetriesCount"
  shows "\<exists>n. enable_run env sdk c api (Suc gcpAPIRetriesCount - retry) n w (EnableAPI_loop env sdk c api retry w)"
  using assms
proof (induction env sdk c api retry w rule: EnableAPI_loop.induct)
  case (1 env sdk c api retry w)
  let ?left = "Suc gcpAPIRetriesCount - retry"
  obtain e w' where a: "enable_attempt env sdk c api w = (e, w')" by fastforce
  then have a': "sdk_ServicesEnable sdk (gc_creds c) api (env_Sleep env Second w) = (e, w')"
    by (simp add: enable_attempt_def)
  show ?case
  proof (cases "forbidden e \<and> Suc retry \<le> gcpAPIRetriesCount")
    case True
    then obtain e' where e: "e = Some e'" "google_code e' = Some StatusForbidden" by (cases e) auto
    from "1.IH" [OF a' [symmetric] e(1)] True e obtain n where
      n: "enable_run env sdk c api (Suc gcpAPIRetriesCount - Suc retry) n w'
        (EnableAPI_loop env sdk c api (Suc retry) w')" by auto
    have "EnableAPI_loop env sdk c api retry w = EnableAPI_loop env sdk c api (Suc retry) w'"
      using a' e True by (subst EnableAPI_loop.simps) simp
    moreover have "Suc (Suc gcpAPIRetriesCount - Suc retry) = ?left" using True by linarith
    ultimately have "enable_run env sdk c api ?left (Suc n) w (EnableAPI_loop env sdk c api retry w)"
      using n a True by (auto simp: enable_run_def split: prod.splits)
    then show ?thesis ..
  next
    case False
    then have "EnableAPI_loop env sdk c api retry w = (e, w')"
      using a' by (subst EnableAPI_loop.simps) (cases e; auto)
    moreover have "1 \<le> ?left" "forbidden e \<Longrightarrow> ?left = 1" using "1.prems" False by simp_all
    ultimately have "enable_run env sdk c api ?left (Suc 0) w (EnableAPI_loop env sdk c api retry w)"
      using a by (simp add: enable_run_def)
    then show ?thesis ..
  qed
qed

text \<open>C27: \<^verbatim>\<open>EnableAPI\<close> makes between one and four attempts, a second apart.  It returns the answer of the
  last; every earlier answer was 403, and it stops on a 403 only after the fourth attempt.\<close>

theorem EnableAPI_retries:
  "\<exists>n es w'. enable_attempts env sdk c (''projects/'' @ projectID @ ''/services/'' @ api) n w = (es, w') \<and>
     1 \<le> n \<and> n \<le> 4 \<and> EnableAPI env sdk c projectID api w = (last es, w') \<and>
     list_all forbidden (butlast es) \<and> (forbidden (last es) \<longleftrightarrow> n = 4 \<and> list_all forbidden es)"
proof -
  let ?api = "''projects/'' @ projectID @ ''/services/'' @ api"
  obtain n where r: "enable_run env sdk c ?api 4 n w (EnableAPI_loop env sdk c ?api 0 w)"
    using EnableAPI_loop_run [of 0 env sdk c ?api w] by (auto simp: gcpAPIRetriesCount_def)
  obtain es w' where a: "enable_attempts env sdk c ?api n w = (es, w')" by fastforce
  have es: "es \<noteq> []" using r a by (simp add: enable_run_def)
  then have "1 \<le> n" using length_enable_attempts [of env sdk c ?api n w] a by (cases n) auto
  moreover have "list_all forbidden es \<longleftrightarrow> list_all forbidden (butlast es) \<and> forbidden (last es)"
    using es by (metis append_butlast_last_id list_all_append list.pred_inject)
  ultimately show ?thesis
    using r a by (auto simp: enable_run_def EnableAPI_def)
qed

subsection \<open>Keys\<close>

text \<open>The answers of the service to the attempts to see a new key.\<close>

lemma await_key_seen:
  "await_key env sdk c key n lastErr w = (None, w') \<Longrightarrow>
     n = 0 \<and> lastErr = None \<or> (\<exists>w1. sdk_KeysGet sdk (gc_creds c) (key_Name key) w1 = (None, w'))"
  by (induction n arbitrary: lastErr w) (auto split: prod.splits option.splits)

text \<open>A key is handed out only once it can be seen: when \<^verbatim>\<open>CreateServiceAccountKey\<close> succeeds, it
  returns the key that was created, and the last thing that happened was a successful read of
  that very key.\<close>

theorem CreateServiceAccountKey_visible:
  assumes "CreateServiceAccountKey env sdk c email w = (Inr key, w')"
  shows "\<exists>w1 w2. sdk_KeysCreate sdk (gc_creds c) (service_account_resource c email) w = (Inr key, w1) \<and>
    sdk_KeysGet sdk (gc_creds c) (key_Name key) w2 = (None, w')"
  using assms by (fastforce simp: CreateServiceAccountKey_def dest!: await_key_seen
      split: prod.splits sum.splits option.splits)

text \<open>\<^verbatim>\<open>DeleteServiceAccountKeys\<close> reports success only after it saw at most one key: the last listing
  before a success has at most one entry (the key Google manages itself cannot be deleted).\<close>

theorem DeleteServiceAccountKeys_checked:
  assumes "DeleteServiceAccountKeys sdk c email w = (None, w')"
  shows "\<exists>w1 ks. sdk_KeysList sdk (gc_creds c) (service_account_resource c email) w1 = (Inr ks, w') \<and>
    length ks \<le> 1"
  using assms by (force simp: DeleteServiceAccountKeys_def Let_def split: prod.splits sum.splits if_splits)

subsection \<open>Availability zones\<close>

text \<open>\<^verbatim>\<open>ListAvailabilityZones\<close> returns the zones whose region's URL contains the region's name, from
  every page of the answer, in order.\<close>

theorem ListAvailabilityZones_by_substring:
  assumes "sdk_ZonesPages sdk (gc_creds c) projectID w = ((pages, None), w')"
  shows "ListAvailabilityZones sdk c projectID region w =
      (Inr (map z_Name (filter (\<lambda>z. \<exists>before after. z_Region z = before @ region @ after) (concat pages))), w')"
  using assms by (simp add: ListAvailabilityZones_def zones_of_page_def [abs_def] StrContains_iff
      filter_concat map_concat comp_def)

subsection \<open>Billing\<close>

text \<open>
  What the billing service promises: a read answers with the account a project is linked to, an
  accepted update links it to the account of the request.  \<^verbatim>\<open>view\<close> reads the linked account off
  the world.
\<close>

locale billing_service =
  fixes sdk :: "'w google_sdk" and creds :: google_creds and project :: string
    and view :: "'w \<Rightarrow> string"
  assumes billing_read: "sdk_GetBillingInfo sdk creds project w = (Inr info, w') \<Longrightarrow>
      bi_BillingAccountName info = view w \<and> view w' = view w"
    and billing_update: "sdk_UpdateBillingInfo sdk creds project info w = (None, w') \<Longrightarrow>
      view w' = bi_BillingAccountName info"
begin

lemma billing_linked:
  assumes "gc_creds c = creds" and "project = ''projects/'' @ projectID"
    and "CreateCloudBillingAccount sdk c projectID account w = (None, w')"
  shows "view w' = ''billingAccounts/'' @ TrimSuffix account [CHR 0x0A]"
  using assms(3) unfolding CreateCloudBillingAccount_def Let_def assms(1) assms(2) [symmetric]
  by (auto dest!: billing_read billing_update split: prod.splits sum.splits option.splits if_splits)

end

definition cluster_account :: "string \<Rightarrow> cluster \<Rightarrow> string" where
  "cluster_account p w = cl_billing w p"

interpretation cluster_billing: billing_service cluster_sdk creds project "cluster_account project"
  for creds project
  by unfold_locales (auto simp: cluster_sdk_def cluster_account_def)

text \<open>When \<^verbatim>\<open>CreateCloudBillingAccount\<close> succeeds, the project is linked to the operator's billing
  account, whether it was linked to none, to that one or to another, provided the service keeps
  its promise.\<close>

theorem CreateCloudBillingAccount_links:
  assumes "billing_service sdk (gc_creds c) (''projects/'' @ projectID) view"
    and "CreateCloudBillingAccount sdk c projectID account w = (None, w')"
  shows "view w' = ''billingAccounts/'' @ TrimSuffix account [CHR 0x0A]"
  by (rule billing_service.billing_linked [OF assms(1) refl refl assms(2)])

subsection \<open>The properties on the reference cloud\<close>

definition cloud_client :: gcpClient where
  "cloud_client = \<lparr>gc_projectName = ''o-12345678'', gc_creds = GoogleCreds ''key''\<rparr>"

theorem ListAvailabilityZones_by_substring_witness:
  "fst (ListAvailabilityZones cluster_sdk cloud_client ''p'' ''europe'' empty_cluster)
     = Inr (map z_Name (filter (\<lambda>z. \<exists>before after. z_Region z = before @ ''europe'' @ after)
         (concat (fst (fst (sdk_ZonesPages cluster_sdk (gc_creds cloud_client) ''p'' empty_cluster))))))"
  using ListAvailabilityZones_by_substring [of cluster_sdk cloud_client "''p''" empty_cluster _ _ "''europe''"]
  by (simp add: cluster_sdk_def)

lemma cloud_client_key:
  "\<exists>key w'. CreateServiceAccountKey cluster_env cluster_sdk cloud_client ''a'' empty_cluster = (Inr key, w')"
  by (simp add: CreateServiceAccountKey_def cluster_sdk_def cloud_client_def eval_nat_numeral Let_def bump_def)

theorem CreateServiceAccountKey_visible_witness:
  "\<exists>key w' w2. CreateServiceAccountKey cluster_env cluster_sdk cloud_client ''a'' empty_cluster = (Inr key, w') \<and>
     sdk_KeysGet cluster_sdk (GoogleCreds ''key'') (key_Name key) w2 = (None, w')"
proof -
  obtain key w' where ok: "CreateServiceAccountKey cluster_env cluster_sdk cloud_client ''a'' empty_cluster = (Inr key, w')"
    using cloud_client_key by blast
  from CreateServiceAccountKey_visible [OF ok] ok show ?thesis by (auto simp: cloud_client_def)
qed

theorem DeleteServiceAccountKeys_checked_witness:
  "\<exists>w1 ks. sdk_KeysList cluster_sdk (GoogleCreds ''key'') (service_account_resource cloud_client ''a'') w1
     = (Inr ks, empty_cluster) \<and> length ks \<le> 1"
  using DeleteServiceAccountKeys_checked [of cluster_sdk cloud_client "''a''" empty_cluster empty_cluster]
  by (simp add: DeleteServiceAccountKeys_def cluster_sdk_def cloud_client_def empty_cluster_def)

theorem CreateCloudBillingAccount_links_witness:
  "cluster_account ''projects/o-12345678''
     (snd (CreateCloudBillingAccount cluster_sdk cloud_client ''o-12345678'' ''0123'' empty_cluster))
     = ''billingAccounts/0123''"
proof -
  let ?x = "CreateCloudBillingAccount cluster_sdk cloud_client ''o-12345678'' ''0123'' empty_cluster"
  have "fst ?x = None"
    by (simp add: CreateCloudBillingAccount_def cluster_sdk_def empty_cluster_def Let_def TrimSuffix_def)
  then have ok: "?x = (None, snd ?x)" by (metis prod.collapse)
  have "cluster_account ''projects/o-12345678'' (snd ?x) = ''billingAccounts/'' @ TrimSuffix ''0123'' [CHR 0x0A]"
    by (rule CreateCloudBillingAccount_links [OF _ ok]) (simp add: cluster_billing.billing_service_axioms)
  then show ?thesis by (simp add: TrimSuffix_def HasSuffix_def)
qed

end
