(* ===== verification/ReferenceProperties.thy ===== *)
theory ReferenceProperties
  imports ReferenceFacts GcpFacts
begin

text \<open>
  Properties of the ProjectReference controller: when it may provision anything in Google Cloud,
  how it walks the states of a reference, how it cleans up, which secrets it touches, and which zones it gives to
  a claim.
\<close>

subsection \<open>The calls of a run\<close>

definition recorded_reference :: "'w reference_state \<Rightarrow> 'w traced reference_state" where
  "recorded_reference s = \<lparr>rs_claim = rs_claim s, rs_reference = rs_reference s, rs_world = (rs_world s, [])\<rparr>"

lemma recorded_reference_sel [simp]:
  "rs_claim (recorded_reference s) = rs_claim s"
  "rs_reference (recorded_reference s) = rs_reference s"
  "rs_world (recorded_reference s) = (rs_world s, [])"
  "IsDeletionRequested (recorded_reference s) = IsDeletionRequested s"
  "isCCS (recorded_reference s) = isCCS s"
  "ready_to_create (recorded_reference s) = ready_to_create s"
  by (simp_all add: recorded_reference_def IsDeletionRequested_def isCCS_def ready_to_create_def)

definition reference_trace :: "'w ReferenceAdapter \<Rightarrow> 'w reference_state \<Rightarrow> event list" where
  "reference_trace r s =
     snd (rs_world (snd (reference_ReconcileHandler (traced_reference r) (recorded_reference s))))"

lemma reference_traceD:
  "ref_emits P (recorded_reference s) (reference_ReconcileHandler (traced_reference r) (recorded_reference s)) \<Longrightarrow>
     ev \<in> set (reference_trace r s) \<Longrightarrow> P ev"
  by (auto simp: ref_emits_def reference_trace_def dest: emits_new_events)

lemma reference_trace_all:
  "ref_emits P (recorded_reference s) (reference_ReconcileHandler (traced_reference r) (recorded_reference s)) \<Longrightarrow>
     list_all P (reference_trace r s)"
  by (auto simp: list_all_iff split_paired_all dest: reference_traceD)

text \<open>The calls by which the controller provisions something.\<close>

fun provisions :: "call \<Rightarrow> bool" where
  "provisions (GcpCreateProject f n) = True"
| "provisions (GcpCreateCloudBillingAccount p a) = True"
| "provisions (GcpEnableAPI p a) = True"
| "provisions (GcpCreateServiceAccount n d) = True"
| "provisions (GcpCreateServiceAccountKey e) = True"
| "provisions (CallCreateSecret x) = True"
| "provisions _ = False"

fun owns_project :: "call \<Rightarrow> bool" where
  "owns_project (GcpCreateProject f n) = True"
| "owns_project (GcpDeleteProject p) = True"
| "owns_project (GcpCreateCloudBillingAccount p a) = True"
| "owns_project _ = False"

lemmas cleanup_event_defs = cleanup_event_def account_event_def owned_project_event_def project_event_def
  console_event_def iam_event_def credentials_event_def release_event_def

text \<open>
  The calls of the handler, by the stage the objects are in.  \<^verbatim>\<open>early\<close> are the writes of the
  stages before the project.
\<close>

lemma reference_handler_calls:
  fixes s :: "'w traced reference_state"
  assumes status: "\<And>x e. pr_State x = pr_State (rs_reference s) \<or>
       (pr_State (rs_reference s) = '''' \<and> pr_State x = ProjectReferenceStatusCreating) \<Longrightarrow>
       P (CallStatusReference x, e)"
    and early: "\<And>x e. \<not> IsDeletionRequested s \<Longrightarrow>
       set (reference_finalizers s) \<subseteq> set (om_Finalizers (pr_Meta x)) \<Longrightarrow> P (CallUpdateReference x, e)"
    and deletion: "\<And>ev. IsDeletionRequested s \<Longrightarrow> cleanup_event r s ev \<Longrightarrow> P ev"
    and zones: "\<And>p z e. \<not> IsDeletionRequested s \<Longrightarrow> P (GcpListAvailabilityZones p z, e)"
    and claim: "\<And>x e. \<not> IsDeletionRequested s \<Longrightarrow> pr_State (rs_reference s) = ProjectReferenceStatusReady \<Longrightarrow>
       P (CallUpdateClaim x, e)"
    and claim_ready: "\<And>x e. \<not> IsDeletionRequested s \<Longrightarrow>
       pr_State (rs_reference s) = ProjectReferenceStatusReady \<Longrightarrow>
       pcs_AvailabilityZones (pc_Spec (rs_claim s)) \<noteq> [] \<Longrightarrow> pc_State x = ClaimStatusReady \<Longrightarrow>
       P (CallStatusClaim x, e)"
    and suffix: "ready_to_create s \<Longrightarrow> ref_emits P s (run_operations [EnsureProjectCreated (traced_reference r),
       EnsureProjectConfigured (traced_reference r), EnsureStateReady (traced_reference r)] s)"
  shows "ref_emits P s (reference_ReconcileHandler (traced_reference r) s)"
proof -
  let ?r = "traced_reference r"
  have "ref_emits P s (EnsureProjectReferenceInitialized ?r s)"
    by (rule EnsureProjectReferenceInitialized_calls) (simp add: status)
  moreover have "ref_emits P s (EnsureDeletionProcessed ?r s)" if "IsDeletionRequested s"
    by (rule EnsureDeletionProcessed_calls) (use that deletion in auto)
  moreover have "ref_emits P s (EnsureProjectClaimReady ?r s)"
    if "\<not> IsDeletionRequested s" "pr_State (rs_reference s) = ProjectReferenceStatusReady"
    by (rule EnsureProjectClaimReady_calls) (use that zones claim claim_ready status in auto)
  moreover have "ref_emits P s (VerifyProjectClaimPending ?r s)"
    by (simp add: VerifyProjectClaimPending_def)
  moreover have "ref_emits P s (EnsureProjectReferenceStatusCreating ?r s)"
    by (rule EnsureProjectReferenceStatusCreating_calls) (simp add: status)
  moreover have "ref_emits P s (EnsureProjectID ?r s)" "ref_emits P s (EnsureServiceAccountName ?r s)"
    "ref_emits P s (EnsureFinalizerAdded ?r s)" if "\<not> IsDeletionRequested s"
    using that early by (auto intro!: EnsureProjectID_calls EnsureServiceAccountName_calls EnsureFinalizerAdded_calls)
  ultimately show ?thesis
    using suffix by (simp add: reference_ReconcileHandler_cases ready_to_create_def)
qed

text \<open>C10: Nothing is provisioned too early.  Over any clients, the handler creates no project, links no
  billing account, enables no API, creates no service account, key or secret, unless the reference
  is initialised, not being deleted, in progress, has a project ID, a service account name and its
  finalizer, and its claim is waiting in PendingProject.\<close>

theorem provisioning_needs_guards:
  assumes "\<not> ready_to_create s"
  shows "list_all (\<lambda>ev. \<not> provisions (fst ev)) (reference_trace r s)"
  by (rule reference_trace_all, rule reference_handler_calls)
    (use assms in \<open>auto simp: cleanup_event_defs\<close>)

text \<open>C16: A customer's project is not the operator's.  For a reference with \<^verbatim>\<open>ccs\<close> set, the handler never
  creates or deletes a project and never links a billing account, in no stage and whatever the
  clients answer.\<close>

theorem ccs_project_untouched:
  assumes "isCCS s"
  shows "list_all (\<lambda>ev. \<not> owns_project (fst ev)) (reference_trace r s)"
proof (rule reference_trace_all, rule reference_handler_calls)
  let ?s = "recorded_reference s" and ?r = "traced_reference r"
  show "ref_emits (\<lambda>ev. \<not> owns_project (fst ev)) ?s
      (run_operations [EnsureProjectCreated ?r, EnsureProjectConfigured ?r, EnsureStateReady ?r] ?s)"
    by (rule reference_suffix_calls) (use assms in auto)
qed (use assms in \<open>auto simp: cleanup_event_defs\<close>)


text \<open>Over any clients, every status the handler writes for a reference is one step of the graph
  \<^verbatim>\<open>reference_step\<close> away from the state it had.\<close>

lemma reference_handler_states:
  "list_all (\<lambda>x. reference_step (pr_State (rs_reference s)) (pr_State x))
     (reference_statuses_written (reference_trace r s))"
proof (rule list_all_selected)
  fix call e x
  assume ev: "(call, e) \<in> set (reference_trace r s)" and x: "reference_status_of call = Some x"
  let ?P = "\<lambda>ev. \<forall>x. reference_status_of (fst ev) = Some x \<longrightarrow>
    reference_step (pr_State (rs_reference s)) (pr_State x)"
  let ?s = "recorded_reference s" and ?r = "traced_reference r"
  have "ref_emits ?P ?s (run_operations
      [EnsureProjectCreated ?r, EnsureProjectConfigured ?r, EnsureStateReady ?r] ?s)" if "ready_to_create s"
    by (rule reference_suffix_calls) (use that in \<open>auto simp: ready_to_create_def\<close>)
  then have "ref_emits ?P ?s (reference_ReconcileHandler ?r ?s)"
    by (intro reference_handler_calls) (auto simp: cleanup_event_defs)
  from reference_traceD [OF this ev] x
  show "reference_step (pr_State (rs_reference s)) (pr_State x)" by simp
qed

text \<open>C15: A claim is made Ready by the ProjectReference controller alone, and only while its reference is
  Ready, not being deleted, and the availability zones are known: in every other case a run
  writes no status of the claim.\<close>

theorem claim_ready_needs_ready_reference:
  assumes "IsDeletionRequested s \<or> pr_State (rs_reference s) \<noteq> ProjectReferenceStatusReady \<or>
    pcs_AvailabilityZones (pc_Spec (rs_claim s)) = []"
  shows "claim_statuses_written (reference_trace r s) = []"
proof -
  let ?P = "\<lambda>ev. claim_status_of (fst ev) = None"
  let ?s = "recorded_reference s" and ?r = "traced_reference r"
  have "ref_emits ?P ?s (run_operations
      [EnsureProjectCreated ?r, EnsureProjectConfigured ?r, EnsureStateReady ?r] ?s)"
    by (rule reference_suffix_calls) auto
  then have "list_all ?P (reference_trace r s)"
    by (intro reference_trace_all reference_handler_calls) (use assms in \<open>auto simp: cleanup_event_defs\<close>)
  then show ?thesis by (induction "reference_trace r s") (auto simp: selected_def List.map_filter_def list_all_iff)
qed

text \<open>C14: A reference becomes Ready only after the project was created and configured without an error or
  a request to come back: when either operation ends the run, no status Ready is written.\<close>

theorem ready_needs_configuration:
  assumes "pr_State (rs_reference s) \<noteq> ProjectReferenceStatusReady"
    and "\<not> goes_on (fst (EnsureProjectCreated (traced_reference r) (recorded_reference s))) \<or>
      \<not> goes_on (fst (EnsureProjectConfigured (traced_reference r)
         (snd (EnsureProjectCreated (traced_reference r) (recorded_reference s)))))"
  shows "list_all (\<lambda>x. pr_State x \<noteq> ProjectReferenceStatusReady)
    (reference_statuses_written (reference_trace r s))"
proof (rule list_all_selected)
  fix call e x
  assume ev: "(call, e) \<in> set (reference_trace r s)" and x: "reference_status_of call = Some x"
  let ?P = "\<lambda>ev. \<forall>x. reference_status_of (fst ev) = Some x \<longrightarrow> pr_State x \<noteq> ProjectReferenceStatusReady"
  let ?s = "recorded_reference s" and ?r = "traced_reference r"
  let ?s1 = "snd (EnsureProjectCreated ?r ?s)"
  have 1: "ref_emits ?P ?s (EnsureProjectCreated ?r ?s)"
    by (rule EnsureProjectCreated_calls) auto
  have 2: "ref_emits ?P ?s1 (EnsureProjectConfigured ?r ?s1)"
    by (rule EnsureProjectConfigured_calls) auto
  have "ref_emits ?P ?s (run_operations
      [EnsureProjectCreated ?r, EnsureProjectConfigured ?r, EnsureStateReady ?r] ?s)"
    using assms(2) 1 2 by (auto simp: ref_emits_def intro: emits_trans)
  then have "ref_emits ?P ?s (reference_ReconcileHandler ?r ?s)"
    by (intro reference_handler_calls) (use assms(1) in \<open>auto simp: cleanup_event_defs\<close>)
  from reference_traceD [OF this ev] x show "pr_State x \<noteq> ProjectReferenceStatusReady" by simp
qed

text \<open>The ProjectReference controller reads, creates and deletes one secret only, the one the claim
  names for its credentials, provided the server answers a read with the object asked for.\<close>

theorem reference_secrets_confined:
  assumes "serves_by_name (ra_kubeClient r)"
  shows "list_all (\<lambda>nn. nn = credentials_of s) (secrets_touched (reference_trace r s))"
proof (rule list_all_selected)
  fix call e nn
  assume ev: "(call, e) \<in> set (reference_trace r s)" and nn: "secret_of call = Some nn"
  let ?P = "\<lambda>ev. \<forall>nn. secret_of (fst ev) = Some nn \<longrightarrow> nn = credentials_of s"
  let ?s = "recorded_reference s" and ?r = "traced_reference r"
  have "ref_emits ?P ?s (run_operations
      [EnsureProjectCreated ?r, EnsureProjectConfigured ?r, EnsureStateReady ?r] ?s)"
    by (rule reference_suffix_calls) auto
  then have "ref_emits ?P ?s (reference_ReconcileHandler ?r ?s)"
    by (intro reference_handler_calls)
      (use serves_by_nameD(1) [OF assms] in \<open>auto simp: cleanup_event_defs\<close>)
  from reference_traceD [OF this ev] nn show "nn = credentials_of s" by simp
qed

text \<open>C9: Deletion is orderly.  A run for a reference being deleted is five phases in a row, the service
  account with its policy bindings, the project (unless it is the customer's), the access of
  console users (if it is the customer's), the credentials secret, and last the release of the
  finalizer; a phase is entered only if everything before it succeeded, up to an account that was
  already gone, a secret that could not be read, and policy conflicts that were retried.\<close>

theorem cleanup_is_orderly:
  assumes "IsDeletionRequested s" and "pr_Conditions (rs_reference s) \<noteq> None"
  shows "in_phases [account_event (reference_account s) (reference_project s), owned_project_event s,
    console_event s, credentials_event (ra_kubeClient r) (credentials_of s), release_event (rs_reference s)]
    (reference_trace r s)"
proof -
  let ?s = "recorded_reference s" and ?r = "traced_reference r"
  have "reference_trace r s = snd (rs_world (snd (EnsureProjectCleanedUp ?r ?s)))"
    using assms by (auto simp: reference_trace_def reference_ReconcileHandler_cases EnsureDeletionProcessed_def
        split: prod.splits option.splits)
  with EnsureProjectCleanedUp_phases [of r ?s] show ?thesis
    by (simp add: owned_project_event_def [abs_def] console_event_def [abs_def])
qed


subsection \<open>Credentials and APIs\<close>

text \<open>Credentials are created once: when the claim's secret can be read, \<^verbatim>\<open>createCredentials\<close> does
  nothing but read it, so no second service account key is made.\<close>

theorem credentials_created_once:
  assumes "k_GetSecret (ra_kubeClient r) (credentials_of s) (rs_world s) = (Inr secret, w)"
  shows "createCredentials r s = (ContinueProcessing, s\<lparr>rs_world := w\<rparr>)"
  using assms by (simp add: createCredentials_def SecretExists_def on_world_def Let_def)

text \<open>C36: A secret that cannot be read counts as deleted: whatever error the read ends in, a time-out or a
  missing permission as well as absence, \<^verbatim>\<open>deleteCredentials\<close> reports success and the clean-up
  goes on to release the finalizer.\<close>

theorem unreadable_secret_counts_as_deleted:
  assumes "k_GetSecret (ra_kubeClient r) (credentials_of s) (rs_world s) = (Inl e, w)"
  shows "deleteCredentials r s = (None, s\<lparr>rs_world := w\<rparr>)"
  using assms by (simp add: deleteCredentials_def SecretExists_def on_world_def Let_def)

lemma enable_missing_apis_log:
  assumes "enable_missing_apis (traced_reference r) enabled apis s = (None, s')"
  shows "snd (rs_world s') = snd (rs_world s) @
    map (\<lambda>api. (GcpEnableAPI (reference_project s) api, None)) (filter (\<lambda>api. api \<notin> set enabled) apis)"
  using assms
proof (induction apis arbitrary: s)
  case (Cons api apis)
  obtain e s1 where g: "on_world (g_EnableAPI (traced_gcp (ra_gcpClient r)) (reference_project s) api) s = (e, s1)"
    by fastforce
  have l: "snd (rs_world s1) = snd (rs_world s) @ [(GcpEnableAPI (reference_project s) api, e)]"
    using g by (auto simp: on_world_def record_call_def trace_simps split: prod.splits)
  have "reference_project s1 = reference_project s" using on_world_frameD [OF g] by simp
  with Cons.prems Cons.IH [of s] Cons.IH [of s1] g l show ?case
    by (auto split: if_splits option.splits)
qed simp

text \<open>\<^verbatim>\<open>configureAPIS\<close> enables exactly the required APIs that are not enabled yet, once each and in the
  order of the list: after a successful run these are its calls.\<close>

theorem configureAPIS_enables_missing:
  assumes "g_ListAPIs (ra_gcpClient r) (reference_project s) (rs_world s) = (Inr enabled, w)"
    and "configureAPIS (traced_reference r) (recorded_reference s) = (None, s')"
  shows "snd (rs_world s') = (GcpListAPIs (reference_project s), None) #
    map (\<lambda>api. (GcpEnableAPI (reference_project s) api, None))
      (filter (\<lambda>api. api \<notin> set enabled) OSDRequiredAPIS)"
proof -
  let ?s1 = "(recorded_reference s)\<lparr>rs_world := (w, [(GcpListAPIs (reference_project s), None)])\<rparr>"
  have "enable_missing_apis (traced_reference r) enabled OSDRequiredAPIS ?s1 = (None, s')"
    using assms by (simp add: configureAPIS_def on_world_def record_call_def trace_simps)
  from enable_missing_apis_log [OF this] show ?thesis by simp
qed

subsection \<open>Availability zones\<close>

text \<open>A Compute API that is not ready is retried quietly for ten minutes: after an error of that kind,
  the operation asks to come back in 30 seconds (or reports a failed status update), and only when
  the condition was recorded to have changed more than ten minutes ago does it report the error.\<close>

theorem zones_error_escalates:
  assumes "matchesComputeApiNotReadyError e"
    and "condition_view (pr_Conditions (rs_reference s)) ConditionComputeApiReady = Some c"
    and "fst (env_Now (ra_env r) (rs_world s)) = now"
  shows "let outcome = fst (handleAvailabilityZonesError
           (r\<lparr>ra_conditionManager := NewConditionManager\<rparr>) e s) in
    if c_LastTransitionTime c < now - 10 * Minute then outcome = RequeueWithError (Some e)
    else outcome = RequeueAfter (30 * Second) None \<or> (\<exists>ue. outcome = RequeueWithError (Some ue))"
proof -
  obtain i where f: "cm_FindCondition NewConditionManager (pr_Conditions (rs_reference s))
      ConditionComputeApiReady = (pr_Conditions (rs_reference s), i, True)"
    and c: "elems (pr_Conditions (rs_reference s)) ! i = c"
    using conds.find_found [OF assms(2)] by blast
  obtain w where n: "env_Now (ra_env r) (rs_world s) = (now, w)" using assms(3) by (metis prod.collapse)
  show ?thesis
    using assms(1) f c n
    by (auto simp: handleAvailabilityZonesError_def on_world_def Let_def split: prod.splits option.splits)
qed

text \<open>The ten minutes are counted from the first failure: recording the same failure again does not
  move the time of the condition's last transition.\<close>

theorem zones_failure_time_kept:
  "map_option c_LastTransitionTime (condition_view (pr_Conditions (rs_reference
      (zones_not_ready (r\<lparr>ra_conditionManager := NewConditionManager\<rparr>)
        (zones_not_ready (r\<lparr>ra_conditionManager := NewConditionManager\<rparr>) s)))) ConditionComputeApiReady) =
    map_option c_LastTransitionTime (condition_view (pr_Conditions (rs_reference
      (zones_not_ready (r\<lparr>ra_conditionManager := NewConditionManager\<rparr>) s))) ConditionComputeApiReady)"
proof -
  obtain now1 w1 where 1: "env_Now (ra_env r) (rs_world s) = (now1, w1)" by fastforce
  obtain now2 w2 where 2: "env_Now (ra_env r) w1 = (now2, w2)" by fastforce
  have "condition_view cs t = Some c \<Longrightarrow> c_Type c = t" for cs t c
    by (auto simp: condition_view_def find_Some_iff)
  then show ?thesis
    by (auto simp: zones_not_ready_def ref_set_condition_def on_world_def 1 2 conds.set_view
        assign_condition_def new_condition_def Let_def split: option.splits)
qed

subsection \<open>Names\<close>

text \<open>A generated project ID is \<^verbatim>\<open>o-\<close> followed by eight lower-case hexadecimal digits, whatever the
  random identifier: ten characters that Google accepts as a project ID.\<close>

theorem project_id_shape:
  "\<exists>digits. project_id_of_uuid guid = ''o-'' @ digits \<and> length digits = 8 \<and> set digits \<subseteq> hex_digits"
  using set_hex_bytes [of "sha256 (bytes_of_string guid)"] set_take_subset
  unfolding project_id_of_uuid_def
  by (intro exI [of _ "take 8 (hex_bytes (sha256 (bytes_of_string guid)))"]) fastforce

text \<open>A service account is named once: the name made from any non-empty suffix is recognised as
  generated, so the next run goes on with it, and with the eight characters the code asks for it
  keeps within Google's limit of 30.\<close>

theorem service_account_named_once:
  assumes "suffix \<noteq> ''''"
    and "prs_ServiceAccountName (pr_Spec (rs_reference s)) = serviceAccountNameTemplate suffix"
  shows "EnsureServiceAccountName r s = (ContinueProcessing, s) \<and>
    (length suffix = 8 \<longrightarrow> length (serviceAccountNameTemplate suffix) = 26)"
  using assms by (simp add: EnsureServiceAccountName_def serviceNameAlreadyGenerated_def Let_def
      serviceAccountNameTemplate_def osdServiceAccountNameDefault_def)


subsection \<open>The properties at concrete references\<close>

definition sample_reference :: ProjectReference where
  "sample_reference = (newMatchingProjectReference sample_claim)\<lparr>
     pr_Status := \<lparr>prt_Conditions = Some [], prt_State = ProjectReferenceStatusCreating\<rparr>\<rparr>"

definition sample_ref_state :: "ProjectReference \<Rightarrow> cluster \<Rightarrow> cluster reference_state" where
  "sample_ref_state reference w = \<lparr>rs_claim = sample_claim, rs_reference = reference, rs_world = w\<rparr>"

definition sample_ref_adapter :: "cluster ReferenceAdapter" where
  "sample_ref_adapter = \<lparr>ra_kubeClient = cluster_kube,
     ra_gcpClient = client_of cluster_env cluster_sdk \<lparr>gc_projectName = ''o-12345678'', gc_creds = GoogleCreds ''key''\<rparr>,
     ra_conditionManager = NewConditionManager, ra_OperatorConfig = cluster_config, ra_env = cluster_env\<rparr>"

definition deleted_reference :: ProjectReference where
  "deleted_reference = sample_reference\<lparr>pr_Meta := (pr_Meta sample_reference)\<lparr>
     om_Finalizers := [FinalizerName], om_DeletionTimestamp := Some 0\<rparr>\<rparr>"

definition ccs_reference :: ProjectReference where
  "ccs_reference = sample_reference\<lparr>pr_Spec := (pr_Spec sample_reference)\<lparr>prs_CCS := True\<rparr>\<rparr>"

definition named_reference :: ProjectReference where
  "named_reference = sample_reference\<lparr>pr_Spec := (pr_Spec sample_reference)\<lparr>
     prs_ServiceAccountName := serviceAccountNameTemplate ''abcdefgh''\<rparr>\<rparr>"

lemma sample_ref_adapter_sel [simp]:
  "ra_kubeClient sample_ref_adapter = cluster_kube" "ra_env sample_ref_adapter = cluster_env"
  "ra_conditionManager sample_ref_adapter = NewConditionManager"
  by (simp_all add: sample_ref_adapter_def)

lemma sample_ref_adapter_manager:
  "sample_ref_adapter\<lparr>ra_conditionManager := NewConditionManager\<rparr> = sample_ref_adapter"
  by (simp add: sample_ref_adapter_def)

lemma sample_ref_state_sel [simp]:
  "rs_claim (sample_ref_state reference w) = sample_claim"
  "rs_reference (sample_ref_state reference w) = reference"
  "rs_world (sample_ref_state reference w) = w"
  by (simp_all add: sample_ref_state_def)

lemma sample_reference_facts [simp]:
  "pr_State sample_reference = ProjectReferenceStatusCreating" "pr_Conditions sample_reference = Some []"
  "prs_GCPProjectID (pr_Spec sample_reference) = ''''"
  "prs_CCS (pr_Spec ccs_reference)"
  "pr_State ccs_reference = ProjectReferenceStatusCreating"
  "om_DeletionTimestamp (pr_Meta deleted_reference) = Some 0"
  "pr_Conditions deleted_reference = Some []"
  "prs_ServiceAccountName (pr_Spec named_reference) = serviceAccountNameTemplate ''abcdefgh''"
  by (simp_all add: sample_reference_def ccs_reference_def deleted_reference_def named_reference_def
      newMatchingProjectReference_def sample_claim_def Let_def)

theorem provisioning_needs_guards_witness:
  "list_all (\<lambda>ev. \<not> provisions (fst ev))
     (reference_trace sample_ref_adapter (sample_ref_state sample_reference sample_cluster))"
  by (rule provisioning_needs_guards) (simp add: ready_to_create_def)

theorem ccs_project_untouched_witness:
  "list_all (\<lambda>ev. \<not> owns_project (fst ev))
     (reference_trace sample_ref_adapter (sample_ref_state ccs_reference sample_cluster))"
  by (rule ccs_project_untouched) (simp add: isCCS_def)

theorem claim_ready_needs_ready_reference_witness:
  "claim_statuses_written (reference_trace sample_ref_adapter (sample_ref_state sample_reference sample_cluster)) = []"
  by (rule claim_ready_needs_ready_reference) simp

theorem reference_secrets_confined_witness:
  "list_all (\<lambda>nn. nn = namespaced ''team'' ''gcp-secret'')
     (secrets_touched (reference_trace sample_ref_adapter (sample_ref_state deleted_reference sample_cluster)))"
  using reference_secrets_confined [of sample_ref_adapter "sample_ref_state deleted_reference sample_cluster"]
  by (simp add: cluster_serves_by_name) (simp add: sample_claim_def)

definition deletion_state :: "cluster reference_state" where
  "deletion_state = sample_ref_state deleted_reference sample_cluster"

theorem cleanup_is_orderly_witness:
  "in_phases [account_event (reference_account deletion_state) (reference_project deletion_state),
     owned_project_event deletion_state, console_event deletion_state,
     credentials_event cluster_kube (credentials_of deletion_state), release_event deleted_reference]
     (reference_trace sample_ref_adapter deletion_state)"
  using cleanup_is_orderly [of deletion_state sample_ref_adapter]
  by (simp add: deletion_state_def IsDeletionRequested_def)

definition keyed_cluster :: cluster where
  "keyed_cluster = empty_cluster\<lparr>cl_secrets := [namespaced ''team'' ''gcp-secret'' \<mapsto>
     NewGCPSecretCR ''key'' (namespaced ''team'' ''gcp-secret'')]\<rparr>"

lemma keyed_cluster_secret:
  "k_GetSecret cluster_kube (namespaced ''team'' ''gcp-secret'') keyed_cluster =
     (Inr (NewGCPSecretCR ''key'' (namespaced ''team'' ''gcp-secret'')), keyed_cluster)"
  by (simp add: cluster_kube_def api_get_def keyed_cluster_def NewGCPSecretCR_def keyed_def new_meta_def
      set_s_meta_def)

lemma sample_credentials: "pcs_GCPCredentialSecret (pc_Spec sample_claim) = namespaced ''team'' ''gcp-secret''"
  by (simp add: sample_claim_def)

theorem credentials_created_once_witness:
  "createCredentials sample_ref_adapter (sample_ref_state sample_reference keyed_cluster) =
     (ContinueProcessing, (sample_ref_state sample_reference keyed_cluster)\<lparr>rs_world := keyed_cluster\<rparr>)"
  by (rule credentials_created_once [where secret = "NewGCPSecretCR ''key'' (namespaced ''team'' ''gcp-secret'')"])
    (simp add: sample_credentials keyed_cluster_secret)

theorem unreadable_secret_counts_as_deleted_witness:
  "deleteCredentials sample_ref_adapter (sample_ref_state sample_reference empty_cluster) =
     (None, (sample_ref_state sample_reference empty_cluster)\<lparr>rs_world := empty_cluster\<rparr>)"
  by (rule unreadable_secret_counts_as_deleted [where e = not_found])
    (simp add: cluster_kube_def api_get_def empty_cluster_def)

theorem service_account_named_once_witness:
  "EnsureServiceAccountName sample_ref_adapter (sample_ref_state named_reference sample_cluster) =
     (ContinueProcessing, sample_ref_state named_reference sample_cluster)"
  using service_account_named_once [of "''abcdefgh''" "sample_ref_state named_reference sample_cluster"
      sample_ref_adapter] by simp

definition unready_error :: err where
  "unready_error = GoogleAPIError 403
     ''googleapi: Error 403: Compute Engine API has not been used in project''"

definition unready_reference :: ProjectReference where
  "unready_reference = set_reference_conditions (Some [new_condition ConditionComputeApiReady]) sample_reference"

theorem zones_error_escalates_witness:
  "fst (handleAvailabilityZonesError sample_ref_adapter unready_error
     (sample_ref_state unready_reference (env_Sleep cluster_env (11 * Minute) empty_cluster))) =
   RequeueWithError (Some unready_error)"
  using zones_error_escalates [of unready_error
      "sample_ref_state unready_reference (env_Sleep cluster_env (11 * Minute) empty_cluster)"
      "new_condition ConditionComputeApiReady" sample_ref_adapter "11 * Minute"]
  by (simp add: sample_ref_adapter_manager unready_reference_def condition_view_def new_condition_def
      cluster_env_def empty_cluster_def unready_error_def matchesComputeApiNotReadyError_def Minute_def
      Second_def Let_def)

definition failing_adapter :: "cluster ReferenceAdapter" where
  "failing_adapter = sample_ref_adapter\<lparr>ra_gcpClient :=
     (ra_gcpClient sample_ref_adapter)\<lparr>g_ListProjects := (\<lambda>w. (Inl google_conflict, w))\<rparr>\<rparr>"

theorem ready_needs_configuration_witness:
  "list_all (\<lambda>x. pr_State x \<noteq> ProjectReferenceStatusReady) (reference_statuses_written
     (reference_trace failing_adapter (sample_ref_state sample_reference sample_cluster)))"
proof (rule ready_needs_configuration)
  have "\<not> goes_on (fst (EnsureProjectCreated (traced_reference failing_adapter)
      (recorded_reference (sample_ref_state sample_reference sample_cluster))))"
    by (simp add: EnsureProjectCreated_def isCCS_def createProject_def getProject_def on_world_def trace_simps
        record_call_def failing_adapter_def google_conflict_def) (simp add: sample_reference_def
        newMatchingProjectReference_def sample_claim_def)
  then show "\<not> goes_on (fst (EnsureProjectCreated (traced_reference failing_adapter)
      (recorded_reference (sample_ref_state sample_reference sample_cluster)))) \<or>
    \<not> goes_on (fst (EnsureProjectConfigured (traced_reference failing_adapter)
      (snd (EnsureProjectCreated (traced_reference failing_adapter)
        (recorded_reference (sample_ref_state sample_reference sample_cluster))))))" ..
qed simp

theorem configureAPIS_enables_missing_witness:
  "\<exists>s'. configureAPIS (traced_reference sample_ref_adapter)
       (recorded_reference (sample_ref_state sample_reference empty_cluster)) = (None, s') \<and>
     snd (rs_world s') = (GcpListAPIs '''', None) # map (\<lambda>api. (GcpEnableAPI '''' api, None)) OSDRequiredAPIS"
proof -
  let ?s = "sample_ref_state sample_reference empty_cluster"
  have l: "g_ListAPIs (ra_gcpClient sample_ref_adapter) (reference_project ?s) (rs_world ?s) = (Inr [], empty_cluster)"
    by (simp add: sample_ref_adapter_def client_of_def ListAPIs_def cluster_sdk_def empty_cluster_def)
  have en: "\<exists>s'. enable_missing_apis (traced_reference sample_ref_adapter) [] apis s = (None, s')" for apis s
  proof (induction apis arbitrary: s)
    case (Cons api apis)
    obtain e s1 where g: "on_world (g_EnableAPI (traced_gcp (ra_gcpClient sample_ref_adapter))
        (reference_project s) api) s = (e, s1)" by fastforce
    then have "e = None"
      by (auto simp: on_world_def trace_simps record_call_def sample_ref_adapter_def client_of_def EnableAPI_def
          EnableAPI_loop.simps [of cluster_env] cluster_sdk_def split: prod.splits)
    with g Cons [of s1] show ?case by simp
  qed simp
  obtain s' where c: "configureAPIS (traced_reference sample_ref_adapter) (recorded_reference ?s) = (None, s')"
    using l en by (auto simp: configureAPIS_def on_world_def trace_simps record_call_def)
  from configureAPIS_enables_missing [OF l c] c show ?thesis by auto
qed

subsection \<open>The zones a claim is given\<close>

text \<open>C40: A claim can be given the zones of another region.  A run for a Ready reference whose claim has no
  zones yet asks Google for them, over the client of the operator, and writes to the claim every
  zone, of every page, whose region's URL merely contains the name of the claim's region: when that name is a
  prefix of another's, as europe-west1 is of europe-west12, the zones of the other too.\<close>

theorem zones_matched_by_substring:
  assumes "pr_State (rs_reference s) = ProjectReferenceStatusReady" and "pc_State (rs_claim s) \<noteq> ClaimStatusReady"
    and "\<not> IsDeletionRequested s" and "pr_Conditions (rs_reference s) \<noteq> None"
    and "pcs_AvailabilityZones (pc_Spec (rs_claim s)) = []" and "ra_gcpClient r = client_of env sdk c"
    and "sdk_ZonesPages sdk (gc_creds c) (reference_project s) (rs_world s) = ((pages, None), w)"
  shows "\<exists>x e. reference_trace r s =
      [(GcpListAvailabilityZones (reference_project s) (pcs_Region (pc_Spec (rs_claim s))), None),
       (CallUpdateClaim x, e)] \<and>
    pcs_AvailabilityZones (pc_Spec x) = map z_Name (filter
      (\<lambda>zone. \<exists>before after. z_Region zone = before @ pcs_Region (pc_Spec (rs_claim s)) @ after) (concat pages))"
proof -
  let ?r = "traced_reference r" and ?s = "recorded_reference s"
  have zones: "g_ListAvailabilityZones (ra_gcpClient r) (reference_project s) (pcs_Region (pc_Spec (rs_claim s)))
      (rs_world s) = (Inr (map z_Name (filter
        (\<lambda>zone. \<exists>before after. z_Region zone = before @ pcs_Region (pc_Spec (rs_claim s)) @ after) (concat pages))), w)"
    using ListAvailabilityZones_by_substring [OF assms(7)] assms(6) by (simp add: client_of_def)
  have "reference_ReconcileHandler ?r ?s = ref_exits_with (ensureClaimAvailabilityZonesSet ?r ?s)"
    using assms(1-5) by (subst reference_ReconcileHandler_cases, simp del: not_None_eq add: EnsureProjectClaimReady_cases)
  then show ?thesis
    using zones assms(5) by (auto simp: reference_trace_def ensureClaimAvailabilityZonesSet_def on_world_def
        ref_update_claim_def ref_set_condition_def untraced_def record_call_def trace_simps case_prod_beta Let_def
        split: option.splits)
qed

definition overlapping_zones :: "Zone list" where
  "overlapping_zones =
     [\<lparr>z_Name = ''europe-west1-b'', z_Region = ''https://www.googleapis.com/compute/v1/projects/p/regions/europe-west1''\<rparr>,
      \<lparr>z_Name = ''europe-west12-a'', z_Region = ''https://www.googleapis.com/compute/v1/projects/p/regions/europe-west12''\<rparr>]"

definition overlapping_sdk :: "cluster google_sdk" where
  "overlapping_sdk = cluster_sdk\<lparr>sdk_ZonesPages := (\<lambda>creds p w. (([overlapping_zones], None), w))\<rparr>"

definition overlapping_adapter :: "cluster ReferenceAdapter" where
  "overlapping_adapter = sample_ref_adapter\<lparr>ra_gcpClient :=
     client_of cluster_env overlapping_sdk \<lparr>gc_projectName = ''o-12345678'', gc_creds = GoogleCreds ''key''\<rparr>\<rparr>"

definition configured_state :: "cluster reference_state" where
  "configured_state = (sample_ref_state (sample_reference\<lparr>pr_Status :=
       (pr_Status sample_reference)\<lparr>prt_State := ProjectReferenceStatusReady\<rparr>\<rparr>) sample_cluster)
     \<lparr>rs_claim := sample_claim\<lparr>pc_Spec := (pc_Spec sample_claim)\<lparr>pcs_Region := ''europe-west1''\<rparr>\<rparr>\<rparr>"

theorem zones_matched_by_substring_witness:
  "\<exists>x e. reference_trace overlapping_adapter configured_state =
      [(GcpListAvailabilityZones '''' ''europe-west1'', None), (CallUpdateClaim x, e)] \<and>
    pcs_AvailabilityZones (pc_Spec x) = [''europe-west1-b'', ''europe-west12-a'']"
proof -
  have state: "pr_State (rs_reference configured_state) = ProjectReferenceStatusReady"
    "pc_State (rs_claim configured_state) \<noteq> ClaimStatusReady" "\<not> IsDeletionRequested configured_state"
    "pr_Conditions (rs_reference configured_state) \<noteq> None" "reference_project configured_state = ''''"
    "pcs_AvailabilityZones (pc_Spec (rs_claim configured_state)) = []"
    "pcs_Region (pc_Spec (rs_claim configured_state)) = ''europe-west1''"
    by (simp_all add: configured_state_def IsDeletionRequested_def sample_reference_def sample_claim_def
        newMatchingProjectReference_def new_meta_def Let_def)
  have "list_all (\<lambda>zone. StrContains (z_Region zone) ''europe-west1'') overlapping_zones"
    by (simp add: overlapping_zones_def)
  then have "\<exists>before after. z_Region zone = before @ ''europe-west1'' @ after" if "zone \<in> set overlapping_zones" for zone
    using that by (simp add: list_all_iff StrContains_iff)
  then have "filter (\<lambda>zone. \<exists>before after. z_Region zone = before @ ''europe-west1'' @ after) overlapping_zones =
      overlapping_zones" by (simp add: filter_id_conv)
  moreover have "map z_Name overlapping_zones = [''europe-west1-b'', ''europe-west12-a'']"
    by (simp add: overlapping_zones_def)
  ultimately show ?thesis
    using zones_matched_by_substring [of configured_state overlapping_adapter cluster_env overlapping_sdk
        "\<lparr>gc_projectName = ''o-12345678'', gc_creds = GoogleCreds ''key''\<rparr>" "[overlapping_zones]"
        "rs_world configured_state"] state
    by (simp add: overlapping_adapter_def overlapping_sdk_def)
qed

end
