(* ===== verification/ReconcileProperties.thy ===== *)
theory ReconcileProperties
  imports ClaimFacts ReferenceProperties
begin

text \<open>
  \<^verbatim>\<open>Reconcile\<close> of the ProjectReference controller, from the request to the last status: which secrets
  a whole run reads, creates or deletes, the credentials for Google Cloud among them.
\<close>

definition traced_reconciler :: "'w ProjectReferenceReconciler \<Rightarrow> 'w traced ProjectReferenceReconciler" where
  "traced_reconciler rec =
     \<lparr>prr_Client = traced_kube (prr_Client rec),
      prr_GcpClientBuilder = (\<lambda>project auth wl.
        (case prr_GcpClientBuilder rec project auth (fst wl) of
           (Inl e, w) \<Rightarrow> (Inl e, (w, snd wl))
         | (Inr gcp, w) \<Rightarrow> (Inr (traced_gcp gcp), (w, snd wl)))),
      prr_env = traced_env (prr_env rec)\<rparr>"

lemma traced_reconciler_sel [simp]:
  "prr_Client (traced_reconciler rec) = traced_kube (prr_Client rec)"
  "prr_env (traced_reconciler rec) = traced_env (prr_env rec)"
  by (simp_all add: traced_reconciler_def)

definition reconcile_trace :: "'w ProjectReferenceReconciler \<Rightarrow> NamespacedName \<Rightarrow> 'w \<Rightarrow> event list" where
  "reconcile_trace rec req w = snd (snd (reference_Reconcile (traced_reconciler rec) req (w, [])))"

text \<open>The steps before and after the handler.\<close>

lemma GetGCPCredentials_calls:
  assumes "P (CallGetSecret (namespaced ns name), sum_err (fst (k_GetSecret K (namespaced ns name) (fst wl))))"
  shows "emits P wl (snd (GetGCPCredentialsFromSecret (traced_kube K) ns name wl))"
  using assms by (auto simp: GetGCPCredentialsFromSecret_def
      record_call_def emits_def trace_simps split: prod.splits sum.splits option.splits)

lemma traced_builder:
  "prr_GcpClientBuilder (traced_reconciler rec) project auth wl = (x, wl') \<Longrightarrow>
     snd wl' = snd wl \<and> (\<forall>g. x = Inr g \<longrightarrow> (\<exists>gcp. g = traced_gcp gcp))"
  by (auto simp: traced_reconciler_def split: prod.splits sum.splits)

lemma getGcpClient_calls:
  assumes "\<And>e. P (CallGetSecret (credential_secret reference), e)"
    and "getGcpClient (traced_reconciler rec) reference wl = (x, wl')"
  shows "emits P wl wl' \<and> (\<forall>g. x = Inr g \<longrightarrow> (\<exists>gcp. g = traced_gcp gcp))"
proof -
  let ?nn = "credential_secret reference"
  obtain y w1 where y: "GetGCPCredentialsFromSecret (traced_kube (prr_Client rec)) (nn_Namespace ?nn) (nn_Name ?nn) wl
      = (y, w1)" by (metis prod.exhaust)
  have "emits P wl w1"
    using GetGCPCredentials_calls [of P "nn_Namespace ?nn" "nn_Name ?nn" "prr_Client rec" wl] assms(1) y by simp
  then show ?thesis
    using assms(2) y by (auto simp: getGcpClient_def Let_def emits_def dest!: traced_builder
        split: prod.splits sum.splits)
qed

lemma getConfigMap_calls:
  assumes "\<And>nn e. P (CallGetConfigMap nn, e)"
    and "getConfigMap (traced_reconciler rec) wl = (x, wl')"
  shows "emits P wl wl'"
proof -
  obtain y w1 where y: "GetOperatorConfigMap (traced_env (prr_env rec)) (traced_kube (prr_Client rec)) wl = (y, w1)"
    by (metis prod.exhaust)
  have "emits P wl w1"
    using GetOperatorConfigMap_log [of "prr_env rec" "prr_Client rec" wl] assms(1) y by (simp add: emits_def)
  then show ?thesis
    using assms(2) y by (auto simp: getConfigMap_def split: sum.splits option.splits)
qed

lemma NewReferenceAdapter_calls:
  assumes "\<And>nn e. P (CallGetClaim nn, e)"
    and "NewReferenceAdapter reference (traced_kube K) (traced_gcp gcp) manager cm (traced_env env) wl = (x, wl')"
  shows "emits P wl wl'"
    and "x = Inr (a, s) \<Longrightarrow> (\<exists>r. a = traced_reference r \<and> ra_kubeClient r = K) \<and> rs_world s = wl' \<and>
      (\<exists>w w'. k_GetProjectClaim K (prs_ProjectClaimCRLink (pr_Spec reference)) w = (Inr (rs_claim s), w'))"
proof -
  let ?link = "prs_ProjectClaimCRLink (pr_Spec reference)"
  obtain y w where g: "k_GetProjectClaim K ?link (fst wl) = (y, w)" by fastforce
  have l: "getMatchingClaimLink reference (traced_kube K) wl = (y, (w, snd wl @ [(CallGetClaim ?link, sum_err y)]))"
    by (simp add: getMatchingClaimLink_def trace_simps record_call_def g Let_def split: sum.splits)
  show "emits P wl wl'"
    using assms l by (auto simp: NewReferenceAdapter_def emits_def split: sum.splits)
  assume "x = Inr (a, s)"
  then obtain claim where y: "y = Inr claim" "rs_claim s = claim" "rs_world s = wl'"
    and a: "a = traced_reference \<lparr>ra_kubeClient = K, ra_gcpClient = gcp, ra_conditionManager = manager,
       ra_OperatorConfig = cm, ra_env = env\<rparr>"
    using assms(2) l by (auto simp: NewReferenceAdapter_def traced_reference_def split: sum.splits)
  then show "(\<exists>r. a = traced_reference r \<and> ra_kubeClient r = K) \<and> rs_world s = wl' \<and>
      (\<exists>w w'. k_GetProjectClaim K ?link w = (Inr (rs_claim s), w'))"
    using g by (intro conjI exI [of _ "\<lparr>ra_kubeClient = K, ra_gcpClient = gcp, ra_conditionManager = manager,
       ra_OperatorConfig = cm, ra_env = env\<rparr>"] exI [of _ "fst wl"] exI [of _ w]) simp_all
qed

lemma SetProjectReferenceCondition_calls:
  assumes "\<And>x e. P (CallStatusReference x, e)"
  shows "ref_emits P s (SetProjectReferenceCondition (traced_reference r) reason err s)"
  using assms by (auto simp: SetProjectReferenceCondition_def reference_StatusUpdate_def ref_status_update_def
      ref_set_condition_def ref_trace_defs Let_def split: prod.splits option.splits)

lemma reference_secrets_emits:
  assumes "serves_by_name (ra_kubeClient r)"
  shows "ref_emits (\<lambda>ev. \<forall>nn. secret_of (fst ev) = Some nn \<longrightarrow> nn = credentials_of s) s
    (reference_ReconcileHandler (traced_reference r) s)"
proof -
  let ?P = "\<lambda>ev. \<forall>nn. secret_of (fst ev) = Some nn \<longrightarrow> nn = credentials_of s"
  have "ref_emits ?P s (run_operations
      [EnsureProjectCreated (traced_reference r), EnsureProjectConfigured (traced_reference r),
       EnsureStateReady (traced_reference r)] s)"
    by (rule reference_suffix_calls) auto
  then show ?thesis
    by (intro reference_handler_calls)
      (use serves_by_nameD(1) [OF assms] in \<open>auto simp: cleanup_event_defs\<close>)
qed

text \<open>The secrets a run may be about: the credentials for Google Cloud, and those of the claim it read.\<close>

definition run_secret :: "'w kube_client \<Rightarrow> ProjectReference \<Rightarrow> NamespacedName \<Rightarrow> bool" where
  "run_secret K reference nn \<longleftrightarrow> nn = credential_secret reference \<or>
     (\<exists>claim w w'. k_GetProjectClaim K (prs_ProjectClaimCRLink (pr_Spec reference)) w = (Inr claim, w') \<and>
        nn = pcs_GCPCredentialSecret (pc_Spec claim))"

lemma reconcile_reference_calls:
  assumes K: "serves_by_name (prr_Client rec)"
    and P: "\<And>ev. (\<And>nn. secret_of (fst ev) = Some nn \<Longrightarrow> run_secret (prr_Client rec) reference nn) \<Longrightarrow> P ev"
  shows "emits P wl (snd (reconcile_reference (traced_reconciler rec) reference wl))"
proof -
  let ?rec = "traced_reconciler rec"
  obtain x w1 where 1: "getGcpClient ?rec reference wl = (x, w1)" by (metis prod.exhaust)
  have other: "P (call, e)" if "secret_of call = None" for call e by (rule P) (simp add: that)
  have "P (CallGetSecret (credential_secret reference), e)" for e
    by (rule P) (simp add: run_secret_def)
  from getGcpClient_calls [of P, OF this 1]
  have e1: "emits P wl w1" and gcp: "\<And>g. x = Inr g \<Longrightarrow> \<exists>gcp. g = traced_gcp gcp" by simp_all
  obtain y w2 where 2: "getConfigMap ?rec w1 = (y, w2)" by (metis prod.exhaust)
  have e2: "emits P w1 w2" by (rule getConfigMap_calls [OF _ 2]) (simp add: other)
  have run: "emits P w3 (rs_world (snd (SetProjectReferenceCondition a ''ReconcileError'' e s1)))"
    if n: "NewReferenceAdapter reference (traced_kube (prr_Client rec)) (traced_gcp gcp) NewConditionManager cm
        (traced_env (prr_env rec)) w2 = (Inr (a, s), w3)"
      and h: "reference_ReconcileHandler a s = ((result, e), s1)" for gcp cm w3 a s result e s1
  proof -
    have inr: "(Inr (a, s) :: err + _) = Inr (a, s)" ..
    from NewReferenceAdapter_calls(2) [OF _ n inr, of "\<lambda>_. True"] obtain r where
      r: "a = traced_reference r" "ra_kubeClient r = prr_Client rec" and w: "rs_world s = w3"
      and "\<exists>w w'. k_GetProjectClaim (prr_Client rec) (prs_ProjectClaimCRLink (pr_Spec reference)) w =
        (Inr (rs_claim s), w')" by blast
    then have own: "run_secret (prr_Client rec) reference (credentials_of s)"
      unfolding run_secret_def by blast
    have "emits P w3 (rs_world s1)"
      using reference_secrets_emits [of r s] K r w h
      by (auto simp: ref_emits_def intro!: P own elim!: emits_mono)
    moreover have "ref_emits P s1 (SetProjectReferenceCondition a ''ReconcileError'' e s1)"
      unfolding r by (rule SetProjectReferenceCondition_calls) (simp add: other)
    ultimately show ?thesis by (auto simp: ref_emits_def intro: emits_trans)
  qed
  have new: "emits P w2 w3"
    if "NewReferenceAdapter reference (traced_kube (prr_Client rec)) (traced_gcp gcp) NewConditionManager cm
        (traced_env (prr_env rec)) w2 = (z, w3)" for gcp cm z w3
    by (rule NewReferenceAdapter_calls(1) [OF _ that]) (simp add: other)
  show ?thesis
  proof (cases "\<exists>g cm. x = Inr g \<and> y = Inr cm")
    case False
    then show ?thesis using e1 e2
      by (auto simp: reconcile_reference_def 1 2 intro: emits_trans split: sum.splits)
  next
    case True
    then obtain gcp cm where x: "x = Inr (traced_gcp gcp)" "y = Inr cm" using gcp by blast
    obtain z w3 where 3: "NewReferenceAdapter reference (traced_kube (prr_Client rec)) (traced_gcp gcp)
        NewConditionManager cm (traced_env (prr_env rec)) w2 = (z, w3)" by (metis prod.exhaust)
    have e3: "emits P wl w3" using e1 e2 new [OF 3] by (blast intro: emits_trans)
    show ?thesis
    proof (cases z)
      case (Inl e)
      with e3 show ?thesis by (simp add: reconcile_reference_def 1 2 x 3)
    next
      case (Inr as)
      obtain a s where as: "as = (a, s)" by fastforce
      obtain result e s1 where h: "reference_ReconcileHandler a s = ((result, e), s1)" by (metis prod.exhaust)
      obtain i s2 where c: "SetProjectReferenceCondition a ''ReconcileError'' e s1 = (i, s2)" by fastforce
      have "emits P w3 (rs_world s2)" using run [of gcp cm a s w3] 3 Inr as h c by simp
      with e3 show ?thesis
        by (auto simp: reconcile_reference_def 1 2 x 3 Inr as h c intro: emits_trans)
    qed
  qed
qed

text \<open>C7: Tenancy of a whole \<^verbatim>\<open>Reconcile\<close>.  For a reference that is not being deleted, a run touches a secret
  only if it is the operator's own credentials, a secret in the namespace of the reference's claim
  (or in none), or the credentials secret of the claim the server answered with; a reference whose
  secret is in another namespace is rejected before any secret is read.\<close>

theorem reconcile_secrets_confined:
  assumes K: "serves_by_name (prr_Client rec)"
    and get: "k_GetProjectReference (prr_Client rec) req w = (Inr reference, w1)"
    and alive: "om_DeletionTimestamp (pr_Meta reference) = None"
  shows "list_all (\<lambda>nn. nn = namespaced operatorNamespace orgGcpSecretName \<or>
      own_namespace (nn_Namespace (prs_ProjectClaimCRLink (pr_Spec reference))) nn \<or>
      (\<exists>claim w w'. k_GetProjectClaim (prr_Client rec) (prs_ProjectClaimCRLink (pr_Spec reference)) w = (Inr claim, w') \<and>
         nn = pcs_GCPCredentialSecret (pc_Spec claim)))
    (secrets_touched (reconcile_trace rec req w))"
proof (rule list_all_selected)
  fix call e nn
  assume ev: "(call, e) \<in> set (reconcile_trace rec req w)" and nn: "secret_of call = Some nn"
  let ?claims = "\<lambda>nn. \<exists>claim w w'. k_GetProjectClaim (prr_Client rec) (prs_ProjectClaimCRLink (pr_Spec reference)) w =
      (Inr claim, w') \<and> nn = pcs_GCPCredentialSecret (pc_Spec claim)"
  let ?ok = "\<lambda>nn. nn = namespaced operatorNamespace orgGcpSecretName \<or>
      own_namespace (nn_Namespace (prs_ProjectClaimCRLink (pr_Spec reference))) nn \<or> ?claims nn"
  let ?P = "\<lambda>ev. \<forall>nn. secret_of (fst ev) = Some nn \<longrightarrow> ?ok nn"
  let ?w1 = "(w1, [(CallGetReference req, None)])"
  have get': "k_GetProjectReference (traced_kube (prr_Client rec)) req (w, []) = (Inr reference, ?w1)"
    using get by (simp add: trace_simps record_call_def)
  have "list_all ?P (reconcile_trace rec req w)"
  proof (cases "ProjectReference_Validate reference = None")
    case True
    have "?ok nn" if "run_secret (prr_Client rec) reference nn" for nn
      using that True by (auto simp: run_secret_def credential_secret_def ProjectReference_Validate_None
          own_namespace_def)
    then have "emits ?P ?w1 (snd (reconcile_reference (traced_reconciler rec) reference ?w1))"
      by (intro reconcile_reference_calls [OF K]) blast
    with True alive get' show ?thesis by (auto simp: reconcile_trace_def reference_Reconcile_def emits_def)
  next
    case False
    with alive get' show ?thesis
      by (auto simp: reconcile_trace_def reference_Reconcile_def trace_simps record_call_def
          split: prod.splits option.splits)
  qed
  with ev nn show "?ok nn" by (force simp: list_all_iff)
qed

definition referenced_cluster :: cluster where
  "referenced_cluster = sample_cluster\<lparr>cl_references := [sample_reference_key \<mapsto> sample_reference]\<rparr>"

theorem reconcile_secrets_confined_witness:
  "list_all (\<lambda>nn. nn = namespaced operatorNamespace orgGcpSecretName \<or> own_namespace ''team'' nn \<or>
      (\<exists>claim w w'. k_GetProjectClaim cluster_kube sample_key w = (Inr claim, w') \<and>
         nn = pcs_GCPCredentialSecret (pc_Spec claim)))
    (secrets_touched (reconcile_trace cluster_reconciler sample_reference_key referenced_cluster))"
proof -
  let ?reference = "set_pr_meta (keyed sample_reference_key (pr_Meta sample_reference)) sample_reference"
  have get: "k_GetProjectReference (prr_Client cluster_reconciler) sample_reference_key referenced_cluster =
      (Inr ?reference, referenced_cluster)"
    by (simp add: cluster_reconciler_def cluster_kube_def api_get_def referenced_cluster_def)
  have K: "serves_by_name (prr_Client cluster_reconciler)"
    by (simp add: cluster_reconciler_def cluster_serves_by_name)
  have "om_DeletionTimestamp (pr_Meta ?reference) = None"
    "prs_ProjectClaimCRLink (pr_Spec ?reference) = sample_key"
    by (simp_all add: set_pr_meta_def keyed_def sample_reference_def newMatchingProjectReference_def new_meta_def
        sample_claim_def sample_key_def Let_def)
  with reconcile_secrets_confined [OF K get] show ?thesis
    by (simp add: cluster_reconciler_def) (simp add: sample_key_def)
qed

end
