(* ===== verification/Erasure.thy ===== *)
theory Erasure
  imports ReferenceImages ReconcileProperties
begin

text \<open>
  Recording changes nothing: a run over recording clients is, once the log is forgotten, the run over
  the clients themselves.  So what is proved of the log of a run is proved of the calls of every run.
  Both are instances of the contract of \<^verbatim>\<open>Images\<close>, with the projection for the image.
\<close>

lemma fst_record_call [simp]: "fst (record_call c err_of f wl) = fst (f (fst wl))"
  by (simp add: record_call_def case_prod_beta)

lemma fst_snd_record_call [simp]: "fst (snd (record_call c err_of f wl)) = snd (f (fst wl))"
  by (simp add: record_call_def case_prod_beta)

lemma fst_untraced [simp]: "fst (untraced f wl) = fst (f (fst wl))"
  by (simp add: untraced_def case_prod_beta)

lemma fst_snd_untraced [simp]: "fst (snd (untraced f wl)) = snd (f (fst wl))"
  by (simp add: untraced_def case_prod_beta)

interpretation tracing: client_image K env "traced_kube K" "traced_env env" fst "\<lambda>wl. True" for K env
  by unfold_locales (simp_all add: trace_simps)

interpretation tracing_cloud: cloud_image K env "traced_kube K" "traced_env env" fst "\<lambda>wl. True" G "traced_gcp G"
  for K env G
  by unfold_locales (simp_all add: trace_simps)

lemma traced_reconciler_image: "reconciler_image rec (traced_reconciler rec) fst (\<lambda>wl. True)"
proof (intro reconciler_image.intro reconciler_image_axioms.intro)
  show "client_image (prr_Client rec) (prr_env rec) (prr_Client (traced_reconciler rec))
      (prr_env (traced_reconciler rec)) fst (\<lambda>wl. True)"
    using tracing.client_image_axioms by simp
  show "snd (prr_GcpClientBuilder rec project auth (fst w)) =
      fst (snd (prr_GcpClientBuilder (traced_reconciler rec) project auth w))" for project auth w
    by (simp add: traced_reconciler_def case_prod_beta split: sum.split)
  show "rel_sum (=) (cloud_image (prr_Client rec) (prr_env rec) (prr_Client (traced_reconciler rec))
      (prr_env (traced_reconciler rec)) fst (\<lambda>wl. True))
      (fst (prr_GcpClientBuilder rec project auth (fst w)))
      (fst (prr_GcpClientBuilder (traced_reconciler rec) project auth w))" for project auth w
    using tracing_cloud.cloud_image_axioms
    by (auto simp: traced_reconciler_def case_prod_beta split: sum.split)
qed simp

interpretation tracing_reconciler: reconciler_image rec "traced_reconciler rec" fst "\<lambda>wl. True" for rec
  by (rule traced_reconciler_image)

subsection \<open>The runs\<close>

definition erase_claim :: "'w traced claim_state \<Rightarrow> 'w claim_state" where
  "erase_claim s = \<lparr>projectClaim = projectClaim s, projectReference = projectReference s,
     claim_world = fst (claim_world s)\<rparr>"

text \<open>The recorded run is the run: the handler over recording clients gives the result and the
  objects of the handler over the clients themselves, and leaves their world as that does.\<close>

theorem claim_trace_faithful:
  "claim_ReconcileHandler c s =
     (fst (claim_ReconcileHandler (traced_claim c) (recorded s)),
      erase_claim (snd (claim_ReconcileHandler (traced_claim c) (recorded s))))"
proof -
  have c: "claim_adapter (ca_client c) (ca_env c) (ca_conditionManager c) = c" by (cases c) simp
  have s: "claim_image fst (recorded s) = s" by (cases s) (simp add: claim_image_def recorded_def)
  have "claim_ReconcileHandler (claim_adapter (ca_client c) (ca_env c) (ca_conditionManager c))
      (claim_image fst (recorded s)) =
    (fst (claim_ReconcileHandler (claim_adapter (traced_kube (ca_client c)) (traced_env (ca_env c))
        (ca_conditionManager c)) (recorded s)),
     claim_image fst (snd (claim_ReconcileHandler (claim_adapter (traced_kube (ca_client c))
        (traced_env (ca_env c)) (ca_conditionManager c)) (recorded s))))"
    by (rule tracing.claim_ReconcileHandler_image) simp
  then show ?thesis unfolding c s by (simp add: claim_image_def erase_claim_def traced_claim_def)
qed

text \<open>A whole \<^verbatim>\<open>Reconcile\<close> of a reference over recording clients, started with an empty log, answers as
  the \<^verbatim>\<open>Reconcile\<close> over the clients themselves and leaves their world as that does.\<close>

theorem reference_trace_faithful:
  "reference_Reconcile rec nn w =
     (fst (reference_Reconcile (traced_reconciler rec) nn (w, [])),
      fst (snd (reference_Reconcile (traced_reconciler rec) nn (w, []))))"
  using tracing_reconciler.reference_Reconcile_image(1) [where rec = rec and nn = nn and w = "(w, [])"] by simp

end
