(* ===== verification/Rounds.thy ===== *)
theory Rounds
  imports System Erasure
begin

text \<open>
  Runs of \<^verbatim>\<open>Reconcile\<close> one after the other, with nobody in between, on the API server and the Google
  Cloud of \<^verbatim>\<open>Cluster\<close>: each of them is a sequence of steps of the system.  What is proved of every
  reachable state of the system holds after any number of rounds, and what rounds reach is reachable.
\<close>

subsection \<open>Nothing but the server's own calls moves claims and references\<close>

lemma quiet_trans: "quiet_move a b \<Longrightarrow> quiet_move b c \<Longrightarrow> quiet_move a c"
  by (auto simp: quiet_move_def)

lemma bump_quiet [simp]: "quiet_move cl w \<Longrightarrow> quiet_move cl (bump w)"
  by (simp add: quiet_move_def)

lemma env_quiet [simp]:
  "quiet_move cl w \<Longrightarrow> quiet_move cl (snd (env_Now cluster_env w))"
  "quiet_move cl w \<Longrightarrow> quiet_move cl (env_Sleep cluster_env d w)"
  "quiet_move cl w \<Longrightarrow> quiet_move cl (snd (env_MapOrder cluster_env w))"
  "quiet_move cl w \<Longrightarrow> quiet_move cl (snd (env_NewUUID cluster_env w))"
  "quiet_move cl w \<Longrightarrow> quiet_move cl (snd (env_RandString cluster_env n w))"
  "quiet_move cl w \<Longrightarrow> quiet_move cl (snd (env_NextBackOff cluster_env w))"
  by (simp_all add: cluster_env_def quiet_move_def)

lemma sdk_quiet [simp]:
  assumes "quiet_move cl w"
  shows "quiet_move cl (snd (sdk_CredentialsFromJSON cluster_sdk json scope w))"
    and "quiet_move cl (snd (sdk_NewService cluster_sdk service creds w))"
    and "quiet_move cl (snd (sdk_ZonesPages cluster_sdk creds n w))"
    and "quiet_move cl (snd (sdk_ProjectsList cluster_sdk creds w))"
    and "quiet_move cl (snd (sdk_ProjectsGet cluster_sdk creds n w))"
    and "quiet_move cl (snd (sdk_ProjectsUpdate cluster_sdk creds n p w))"
    and "quiet_move cl (snd (sdk_ProjectsCreate cluster_sdk creds p w))"
    and "quiet_move cl (snd (sdk_ProjectsDelete cluster_sdk creds n w))"
    and "quiet_move cl (snd (sdk_ServiceAccountsGet cluster_sdk creds n w))"
    and "quiet_move cl (snd (sdk_ServiceAccountsCreate cluster_sdk creds n d e w))"
    and "quiet_move cl (snd (sdk_ServiceAccountsDelete cluster_sdk creds n w))"
    and "quiet_move cl (snd (sdk_KeysCreate cluster_sdk creds n w))"
    and "quiet_move cl (snd (sdk_KeysGet cluster_sdk creds n w))"
    and "quiet_move cl (snd (sdk_KeysList cluster_sdk creds n w))"
    and "quiet_move cl (snd (sdk_KeysDelete cluster_sdk creds n w))"
    and "quiet_move cl (snd (sdk_GetIamPolicy cluster_sdk creds n w))"
    and "quiet_move cl (snd (sdk_SetIamPolicy cluster_sdk creds n pol w))"
    and "quiet_move cl (snd (sdk_ServicesList cluster_sdk creds n w))"
    and "quiet_move cl (snd (sdk_ServicesEnable cluster_sdk creds n w))"
    and "quiet_move cl (snd (sdk_GetBillingInfo cluster_sdk creds n w))"
    and "quiet_move cl (snd (sdk_UpdateBillingInfo cluster_sdk creds n info w))"
  using assms
  by (simp_all add: cluster_sdk_def get_policy_def set_policy_def Let_def quiet_move_def)

lemma await_key_quiet [simp]:
  "quiet_move cl w \<Longrightarrow> quiet_move cl (snd (await_key cluster_env cluster_sdk c key n lastErr w))"
  by (induction n arbitrary: lastErr w) (simp_all add: case_prod_beta split: option.split)

lemma delete_keys_quiet [simp]: "quiet_move cl w \<Longrightarrow> quiet_move cl (delete_keys cluster_sdk c keys w)"
  by (induction keys arbitrary: w) simp_all

lemma EnableAPI_quiet [simp]:
  assumes "quiet_move cl w"
  shows "quiet_move cl (snd (EnableAPI_loop cluster_env cluster_sdk c api retry w))"
  using assms by (subst EnableAPI_loop.simps) (simp add: cluster_sdk_def cluster_env_def quiet_move_def)

lemma cloud_quiet [simp]:
  assumes "quiet_move cl w"
  shows "quiet_move cl (snd (GetServiceAccount cluster_sdk c n w))"
    and "quiet_move cl (snd (CreateServiceAccount cluster_sdk c n d w))"
    and "quiet_move cl (snd (DeleteServiceAccount cluster_sdk c n w))"
    and "quiet_move cl (snd (CreateServiceAccountKey cluster_env cluster_sdk c n w))"
    and "quiet_move cl (snd (DeleteServiceAccountKeys cluster_sdk c n w))"
    and "quiet_move cl (snd (GetIamPolicy cluster_sdk c n w))"
    and "quiet_move cl (snd (SetIamPolicy cluster_sdk c pol w))"
    and "quiet_move cl (snd (ListProjects cluster_sdk c w))"
    and "quiet_move cl (snd (CreateProject cluster_env cluster_sdk c n d w))"
    and "quiet_move cl (snd (CreateProjectLabels cluster_env cluster_sdk c p labels w))"
    and "quiet_move cl (snd (DeleteProject cluster_sdk c n w))"
    and "quiet_move cl (snd (GetProject cluster_sdk c n w))"
    and "quiet_move cl (snd (EnableAPI cluster_env cluster_sdk c n d w))"
    and "quiet_move cl (snd (ListAPIs cluster_sdk c n w))"
    and "quiet_move cl (snd (CreateCloudBillingAccount cluster_sdk c n d w))"
    and "quiet_move cl (snd (ListAvailabilityZones cluster_sdk c n d w))"
  using assms
  by (simp_all add: GetServiceAccount_def CreateServiceAccount_def DeleteServiceAccount_def
      CreateServiceAccountKey_def DeleteServiceAccountKeys_def GetIamPolicy_def SetIamPolicy_def ListProjects_def
      CreateProject_def CreateProjectLabels_def DeleteProject_def GetProject_def EnableAPI_def ListAPIs_def
      CreateCloudBillingAccount_def ListAvailabilityZones_def case_prod_beta Let_def
      split: sum.split option.split)

subsection \<open>A run served in the middle of nothing else\<close>

inductive served_run :: "cluster \<Rightarrow> observation list \<Rightarrow> cluster \<Rightarrow> bool" for cl0 where
  no_call: "served_run cl0 [] cl0"
| call: "served_run cl0 obs cl \<Longrightarrow> served ob cl cl' \<Longrightarrow> served_run cl0 (obs @ [ob]) cl'"
| quiet: "served_run cl0 obs cl \<Longrightarrow> quiet_move cl cl' \<Longrightarrow> served_run cl0 obs cl'"

abbreviation served_world :: "cluster \<Rightarrow> cluster \<times> observation list \<Rightarrow> bool" where
  "served_world cl0 wl \<equiv> served_run cl0 (snd wl) (fst wl)"

lemma fst_snd_observed [simp]: "fst (snd (observed f g wl)) = snd (g (fst wl))"
  by (simp add: observed_def case_prod_beta)

lemma secrets_quiet [simp]:
  "quiet_move cl (snd (k_GetSecret cluster_kube nn cl))"
  "quiet_move cl (snd (k_GetConfigMap cluster_kube nn cl))"
  "quiet_move cl (snd (k_CreateSecret cluster_kube x cl))"
  "quiet_move cl (snd (k_UpdateSecret cluster_kube x cl))"
  "quiet_move cl (snd (k_DeleteSecret cluster_kube x cl))"
  by (simp_all add: cluster_kube_def with_secrets_def case_prod_beta quiet_move_def)

lemma served_quiet:
  "served_world cl0 wl \<Longrightarrow> quiet_move (fst wl) cl' \<Longrightarrow> served_run cl0 (snd wl) cl'"
  by (rule served_run.quiet)

lemma served_call:
  "served_world cl0 wl \<Longrightarrow> served ob (fst wl) cl' \<Longrightarrow> served_run cl0 (snd wl @ [ob]) cl'"
  by (rule served_run.call)

lemma served_exactly:
  "served (SawClaim nn (fst (k_GetProjectClaim cluster_kube nn cl))) cl (snd (k_GetProjectClaim cluster_kube nn cl))"
  "served (SawReference nn (fst (k_GetProjectReference cluster_kube nn cl))) cl
     (snd (k_GetProjectReference cluster_kube nn cl))"
  "served (CreatedReference r (fst (k_CreateProjectReference cluster_kube r cl))) cl
     (snd (k_CreateProjectReference cluster_kube r cl))"
  "served (DeletedReference r (fst (k_DeleteProjectReference cluster_kube r cl))) cl
     (snd (k_DeleteProjectReference cluster_kube r cl))"
  "served (UpdatedClaim x (fst (k_UpdateProjectClaim cluster_kube x cl))) cl (snd (k_UpdateProjectClaim cluster_kube x cl))"
  "served (UpdatedReference r (fst (k_UpdateProjectReference cluster_kube r cl))) cl
     (snd (k_UpdateProjectReference cluster_kube r cl))"
  "served (WroteClaimStatus x (fst (k_StatusUpdateProjectClaim cluster_kube x cl))) cl
     (snd (k_StatusUpdateProjectClaim cluster_kube x cl))"
  "served (WroteReferenceStatus r (fst (k_StatusUpdateProjectReference cluster_kube r cl))) cl
     (snd (k_StatusUpdateProjectReference cluster_kube r cl))"
  by (simp_all add: read_as_def write_as_def delete_as_def)
    (simp_all add: cluster_kube_def)

interpretation round: client_image cluster_kube cluster_env "observing_kube cluster_kube" "traced_env cluster_env"
  fst "served_world cl0" for cl0
  by (unfold_locales; simp add: observing_kube_def traced_env_sel)
    (((erule served_quiet, simp) | (erule served_call, rule served_exactly))+)

interpretation round_cloud: cloud_image cluster_kube cluster_env "observing_kube cluster_kube" "traced_env cluster_env"
  fst "served_world cl0" "client_of cluster_env cluster_sdk c" "untraced_gcp (client_of cluster_env cluster_sdk c)"
  for cl0 c
  by (unfold_locales; simp add: untraced_gcp_def client_of_def)
    ((erule served_quiet, simp)+)

lemma connect_services_quiet [simp]:
  "quiet_move cl w \<Longrightarrow> quiet_move cl (snd (connect_services cluster_sdk creds services w))"
  by (induction services arbitrary: w) (auto simp: case_prod_beta split: option.split)

lemma NewClient_quiet [simp]:
  "quiet_move cl w \<Longrightarrow> quiet_move cl (snd (NewClient cluster_env cluster_sdk project auth w))"
  by (simp add: NewClient_def case_prod_beta split: sum.split option.split)

lemma NewClient_client:
  "fst (NewClient cluster_env cluster_sdk project auth w) = Inr G \<Longrightarrow> \<exists>c. G = client_of cluster_env cluster_sdk c"
  by (auto simp: NewClient_def split: prod.splits sum.splits option.splits)

lemma observing_reconciler_image:
  "reconciler_image cluster_reconciler (observing_reconciler cluster_reconciler) fst (served_world cl0)"
proof (intro reconciler_image.intro reconciler_image_axioms.intro)
  let ?build = "NewClient cluster_env cluster_sdk" and ?rec = "observing_reconciler cluster_reconciler"
  show "client_image (prr_Client cluster_reconciler) (prr_env cluster_reconciler) (prr_Client ?rec) (prr_env ?rec)
      fst (served_world cl0)"
    using round.client_image_axioms [of cl0] by (simp add: observing_reconciler_def cluster_reconciler_def)
  fix w :: "cluster \<times> observation list" and project auth
  have world: "snd (prr_GcpClientBuilder ?rec project auth w) = (snd (?build project auth (fst w)), snd w)"
    by (simp add: observing_reconciler_def cluster_reconciler_def case_prod_beta split: sum.split)
  then show "snd (prr_GcpClientBuilder cluster_reconciler project auth (fst w)) =
      fst (snd (prr_GcpClientBuilder ?rec project auth w))"
    by (simp add: cluster_reconciler_def)
  assume w: "served_world cl0 w"
  from w have "served_run cl0 (snd w) (snd (?build project auth (fst w)))"
    by (rule served_quiet) simp
  with world show "served_world cl0 (snd (prr_GcpClientBuilder ?rec project auth w))" by simp
  show "rel_sum (=) (cloud_image (prr_Client cluster_reconciler) (prr_env cluster_reconciler) (prr_Client ?rec)
      (prr_env ?rec) fst (served_world cl0))
      (fst (prr_GcpClientBuilder cluster_reconciler project auth (fst w)))
      (fst (prr_GcpClientBuilder ?rec project auth w))"
    using NewClient_client [of project auth "fst w"] round_cloud.cloud_image_axioms [of cl0]
    by (auto simp: observing_reconciler_def cluster_reconciler_def case_prod_beta split: sum.split)
qed

interpretation round_reconciler: reconciler_image cluster_reconciler "observing_reconciler cluster_reconciler"
  fst "served_world cl0" for cl0
  by (rule observing_reconciler_image)

text \<open>The observations of a run, as the server served them.\<close>

lemma claim_run_served:
  "served_run cl (claim_history cluster_kube cluster_env nn cl) (snd (claim_Reconcile cluster_kube cluster_env nn cl))"
  using round.claim_Reconcile_image [of cl "(cl, [])" nn] by (simp add: claim_history_def served_run.no_call)

lemma reference_run_served:
  "served_run cl (reference_history cluster_reconciler rk cl) (snd (reference_Reconcile cluster_reconciler rk cl))"
  using round_reconciler.reference_Reconcile_image [of cl "(cl, [])" rk]
  by (simp add: reference_history_def served_run.no_call)

subsection \<open>Rounds are behaviours of the system\<close>

abbreviation cluster_reachable :: "system \<Rightarrow> bool" where
  "cluster_reachable \<equiv> reachable cluster_kube cluster_env cluster_reconciler"

abbreviation at_rest :: "cluster \<Rightarrow> system" where
  "at_rest cl \<equiv> \<lparr>sys_cluster = cl, sys_claim_run = None, sys_reference_run = None\<rparr>"

lemma quiet_reachable:
  assumes "cluster_reachable s" and "quiet_move (sys_cluster s) cl"
  shows "cluster_reachable (s\<lparr>sys_cluster := cl\<rparr>)"
  using assms by (blast intro: reachable.step system_step.elsewhere dest: quiet_move_def [THEN iffD1])

lemma served_claim_reachable:
  assumes "served_run cl obs cl'" and "cluster_reachable (at_rest cl)"
    and "begins obs (claim_history cluster_kube cluster_env nn w)"
  shows "cluster_reachable ((at_rest cl')\<lparr>sys_claim_run := Some (nn, obs)\<rparr>)"
  using assms(1,3)
proof (induction rule: served_run.induct)
  case no_call
  from reachable.step [OF assms(2) system_step.claim_starts] show ?case by simp
next
  case (call obs cl1 ob cl2)
  then have "begins obs (claim_history cluster_kube cluster_env nn w)" by (auto simp: begins_iff)
  from reachable.step [OF call.IH [OF this] system_step.claim_calls [OF _ call.prems]] call.hyps(2)
  show ?case by simp
next
  case (quiet obs cl1 cl2)
  from quiet_reachable [OF quiet.IH [OF quiet.prems]] quiet.hyps(2) show ?case by simp
qed

lemma served_reference_reachable:
  assumes "served_run cl obs cl'" and "cluster_reachable (at_rest cl)"
    and "begins obs (reference_history cluster_reconciler rk w)"
  shows "cluster_reachable ((at_rest cl')\<lparr>sys_reference_run := Some (rk, obs)\<rparr>)"
  using assms(1,3)
proof (induction rule: served_run.induct)
  case no_call
  from reachable.step [OF assms(2) system_step.reference_starts] show ?case by simp
next
  case (call obs cl1 ob cl2)
  then have "begins obs (reference_history cluster_reconciler rk w)" by (auto simp: begins_iff)
  from reachable.step [OF call.IH [OF this] system_step.reference_calls [OF _ call.prems]] call.hyps(2)
  show ?case by simp
next
  case (quiet obs cl1 cl2)
  from quiet_reachable [OF quiet.IH [OF quiet.prems]] quiet.hyps(2) show ?case by simp
qed

lemma begins_all [simp]: "begins obs obs"
  by (simp add: begins_def)

lemma claim_round_reachable:
  assumes "cluster_reachable (at_rest cl)"
  shows "cluster_reachable (at_rest (claim_round nn cl))"
proof -
  let ?cl = "env_Sleep cluster_env Second cl"
  have "cluster_reachable (at_rest ?cl)"
    using quiet_reachable [OF assms, of ?cl] by simp
  from served_claim_reachable [OF claim_run_served this begins_all, of nn]
  have "cluster_reachable ((at_rest (claim_round nn cl))
      \<lparr>sys_claim_run := Some (nn, claim_history cluster_kube cluster_env nn ?cl)\<rparr>)"
    by (simp add: claim_round_def)
  from reachable.step [OF this system_step.claim_ends] show ?thesis by simp
qed

lemma reference_round_reachable:
  assumes "cluster_reachable (at_rest cl)"
  shows "cluster_reachable (at_rest (reference_round rk cl))"
proof -
  let ?cl = "env_Sleep cluster_env Second cl"
  have "cluster_reachable (at_rest ?cl)"
    using quiet_reachable [OF assms, of ?cl] by simp
  from served_reference_reachable [OF reference_run_served this begins_all, of rk]
  have "cluster_reachable ((at_rest (reference_round rk cl))
      \<lparr>sys_reference_run := Some (rk, reference_history cluster_reconciler rk ?cl)\<rparr>)"
    by (simp add: reference_round_def)
  from reachable.step [OF this system_step.reference_ends] show ?thesis by simp
qed

lemma rounds_reachable:
  "cluster_reachable (at_rest cl) \<Longrightarrow> cluster_reachable (at_rest (cluster_rounds n nn rk cl))"
  by (induction n arbitrary: cl) (simp_all add: claim_round_reachable reference_round_reachable)

end
