(* ===== verification/SystemProperties.thy ===== *)
theory SystemProperties
  imports Rounds
begin

text \<open>
  What holds in every state of the whole system: the claims and references on the API server, while
  both controllers are in the middle of runs, crash and lose answers, and tenants act in between.
\<close>

subsection \<open>A state that is reached\<close>

text \<open>
  A tenant brings a customer project; the claim is written with the link and the finalizer already
  in place, as a client that knows the operator may do.  After five rounds its reference holds the
  finalizer.
\<close>

definition ccs_sample_claim :: ProjectClaim where
  "ccs_sample_claim =
     \<lparr>pc_Meta = (new_meta ''web'' ''team'')\<lparr>om_ResourceVersion := ''1'', om_Finalizers := [ProjectClaimFinalizer]\<rparr>,
      pc_Spec = (pc_Spec sample_claim)\<lparr>pcs_ProjectReferenceCRLink := sample_reference_key, pcs_CCS := True,
        pcs_CCSSecretRef := namespaced ''team'' ''ccs'', pcs_CCSProjectID := ''own-project''\<rparr>,
      pc_Status = \<lparr>pct_Conditions = Some [], pct_State = ''''\<rparr>\<rparr>"

definition ccs_cluster :: cluster where
  "ccs_cluster = sample_cluster\<lparr>cl_version := 2, cl_claims := [sample_key \<mapsto> ccs_sample_claim],
     cl_secrets := [namespaced ''team'' ''ccs'' \<mapsto>
       NewGCPSecretCR ''customer credentials'' (namespaced ''team'' ''ccs'')]\<rparr>"

definition held_cluster :: cluster where
  "held_cluster = cluster_rounds 5 sample_key sample_reference_key ccs_cluster"

lemma fresh_ccs_cluster: "fresh_cluster ccs_cluster"
proof -
  have "''1'' = show_nat 1" by code_simp
  then have "old_version 2 ''1''" unfolding old_version_def by (intro exI [of _ 1]) simp
  then show ?thesis
    by (simp add: fresh_cluster_def ccs_cluster_def ccs_sample_claim_def sample_cluster_def empty_cluster_def)
qed

lemma held_cluster_reachable: "cluster_reachable (at_rest held_cluster)"
  unfolding held_cluster_def by (rule rounds_reachable [OF reachable.start [OF fresh_ccs_cluster]])

definition summary :: "cluster \<Rightarrow> (string list \<times> NamespacedName) option \<times> (string \<times> time option) option" where
  "summary cl =
     (map_option (\<lambda>r. (om_Finalizers (pr_Meta r), link_of r)) (cl_references cl sample_reference_key),
      map_option (\<lambda>c. (pc_State c, om_DeletionTimestamp (pc_Meta c))) (cl_claims cl sample_key))"

lemma held_cluster_evaluated:
  "summary held_cluster = (Some ([FinalizerName], sample_key), Some (ClaimStatusPendingProject, None))"
  by code_simp

lemma held_cluster_objects:
  obtains r c where "cl_references held_cluster sample_reference_key = Some r"
    and "om_Finalizers (pr_Meta r) = [FinalizerName]" and "link_of r = sample_key"
    and "cl_claims held_cluster sample_key = Some c"
    and "pc_State c = ClaimStatusPendingProject" and "om_DeletionTimestamp (pc_Meta c) = None"
  using held_cluster_evaluated by (auto simp: summary_def)

lemma cluster_client_proper: "proper_answers (prr_Client cluster_reconciler)"
  by (simp add: cluster_reconciler_def cluster_proper)

subsection \<open>The invariants of the system\<close>

text \<open>C1: No project is left without its claim.  In every reachable state of the system, a reference that
  holds its finalizer - the only ones for which anything is provisioned - still has the claim it was
  made for on the API server, and that claim is kept there by the finalizer of the claim controller.\<close>

theorem held_reference_has_claim:
  assumes "reachable K env rec s" and "proper_answers K" and "proper_answers (prr_Client rec)"
    and "cl_references (sys_cluster s) rk = Some r" and "FinalizerName \<in> set (om_Finalizers (pr_Meta r))"
  shows "\<exists>c. cl_claims (sys_cluster s) (prs_ProjectClaimCRLink (pr_Spec r)) = Some c \<and>
    ProjectClaimFinalizer \<in> set (om_Finalizers (pc_Meta c))"
  using cluster_invD(2) [OF system_inv_cluster [OF reachable_inv [OF assms(1-3)]] assms(4,5)] .

theorem held_reference_has_claim_witness:
  "\<exists>c. cl_claims held_cluster sample_key = Some c \<and> ProjectClaimFinalizer \<in> set (om_Finalizers (pc_Meta c))"
proof -
  obtain r c where "cl_references held_cluster sample_reference_key = Some r"
    and "om_Finalizers (pr_Meta r) = [FinalizerName]" and "link_of r = sample_key"
    by (rule held_cluster_objects)
  then show ?thesis
    using held_reference_has_claim [OF held_cluster_reachable cluster_proper cluster_client_proper,
        of sample_reference_key r] by simp
qed

text \<open>C2: What the operator promised, it guards.  In every reachable state a claim that is PendingProject or
  Ready carries the finalizer of the claim controller, as long as it is not being deleted or a reference
  links to it; so a tenant's deletion of such a claim waits for the clean-up.\<close>

theorem promised_claim_guarded:
  assumes "reachable K env rec s" and "proper_answers K" and "proper_answers (prr_Client rec)"
    and "cl_claims (sys_cluster s) nn = Some c"
    and "pc_State c = ClaimStatusPendingProject \<or> pc_State c = ClaimStatusReady"
    and "om_DeletionTimestamp (pc_Meta c) = None \<or>
      (\<exists>rk r. cl_references (sys_cluster s) rk = Some r \<and> prs_ProjectClaimCRLink (pr_Spec r) = nn)"
  shows "ProjectClaimFinalizer \<in> set (om_Finalizers (pc_Meta c))"
proof (rule ccontr)
  assume unguarded: "\<not> guarded c"
  note inv = system_inv_cluster [OF reachable_inv [OF assms(1-3)]]
  have "promised (pc_State c)" using assms(5) by (simp add: promised_def)
  from cluster_invD(3,4) [OF inv assms(4) this unguarded] assms(6) show False by (auto simp: unlinked_def)
qed

theorem promised_claim_guarded_witness:
  "map_option (\<lambda>c. ProjectClaimFinalizer \<in> set (om_Finalizers (pc_Meta c))) (cl_claims held_cluster sample_key) =
     Some True"
proof -
  obtain c where "cl_claims held_cluster sample_key = Some c"
    and "pc_State c = ClaimStatusPendingProject" and "om_DeletionTimestamp (pc_Meta c) = None"
    by (rule held_cluster_objects)
  then show ?thesis
    using promised_claim_guarded [OF held_cluster_reachable cluster_proper cluster_client_proper,
        of sample_key c] by simp
qed

end
