(* ===== verification/Progress.thy ===== *)
theory Progress
  imports SystemProperties
begin

text \<open>
  Progress of a claim.  \<^verbatim>\<open>advance\<close> says what a claim whose reconciliation meets no obstacle becomes next;
  one \<^verbatim>\<open>Reconcile\<close> on the API server of \<^verbatim>\<open>Cluster\<close> does exactly this step, so after five of them the
  claim is PendingProject.
\<close>

subsection \<open>The steps of a claim\<close>

definition set_link :: "NamespacedName \<Rightarrow> ProjectClaim \<Rightarrow> ProjectClaim" where
  "set_link rk c = c\<lparr>pc_Spec := (pc_Spec c)\<lparr>pcs_ProjectReferenceCRLink := rk\<rparr>\<rparr>"

definition add_guard :: "ProjectClaim \<Rightarrow> ProjectClaim" where
  "add_guard c = c\<lparr>pc_Meta := (pc_Meta c)\<lparr>om_Finalizers := om_Finalizers (pc_Meta c) @ [ProjectClaimFinalizer]\<rparr>\<rparr>"

definition advance :: "ProjectClaim \<Rightarrow> ProjectClaim" where
  "advance c =
     (if pc_Conditions c = None then set_claim_conditions (Some []) c
      else if pc_State c = '''' then set_claim_state ClaimStatusPending c
      else if pcs_ProjectReferenceCRLink (pc_Spec c) \<noteq> ref_key (meta_key (pc_Meta c))
      then set_link (ref_key (meta_key (pc_Meta c))) c
      else if ProjectClaimFinalizer \<notin> set (om_Finalizers (pc_Meta c)) then add_guard c
      else if pc_State c = ClaimStatusPending then set_claim_state ClaimStatusPendingProject c
      else c)"

text \<open>The states of a claim that meets no error.\<close>

definition in_progress :: "ProjectClaim \<Rightarrow> bool" where
  "in_progress c \<longleftrightarrow> pc_State c \<in> {'''', ClaimStatusPending, ClaimStatusPendingProject, ClaimStatusReady}"

definition steps_left :: "ProjectClaim \<Rightarrow> nat" where
  "steps_left c = of_bool (pc_Conditions c = None) + of_bool (pc_State c = '''') +
     of_bool (pcs_ProjectReferenceCRLink (pc_Spec c) \<noteq> ref_key (meta_key (pc_Meta c))) +
     of_bool (ProjectClaimFinalizer \<notin> set (om_Finalizers (pc_Meta c))) +
     of_bool (pc_State c \<in> {'''', ClaimStatusPending})"

lemma set_claim_sel [simp]:
  "pc_Meta (set_claim_state st c) = pc_Meta c" "pc_Spec (set_claim_state st c) = pc_Spec c"
  "pc_State (set_claim_state st c) = st" "pc_Conditions (set_claim_state st c) = pc_Conditions c"
  "pc_Meta (set_claim_conditions cs c) = pc_Meta c" "pc_Spec (set_claim_conditions cs c) = pc_Spec c"
  "pc_State (set_claim_conditions cs c) = pc_State c" "pc_Conditions (set_claim_conditions cs c) = cs"
  "pc_Meta (set_link rk c) = pc_Meta c" "pc_Status (set_link rk c) = pc_Status c"
  "pc_Spec (add_guard c) = pc_Spec c" "pc_Status (add_guard c) = pc_Status c"
  by (simp_all add: set_claim_state_def set_claim_conditions_def set_link_def add_guard_def)

text \<open>A claim that nothing stands in the way of.\<close>

definition supplied :: "cluster \<Rightarrow> ProjectClaim \<Rightarrow> bool" where
  "supplied cl c \<longleftrightarrow>
     (if pcs_CCS (pc_Spec c) then cl_secrets cl (pcs_CCSSecretRef (pc_Spec c)) \<noteq> None
      else (\<exists>cm data. cl_configmaps cl (namespaced OperatorConfigMapNamespace OperatorConfigMapName) = Some cm \<and>
        cm_Data cm OperatorConfigMapKey = Some data) \<and>
        pcs_Region (pc_Spec c) \<notin> set (oc_DisabledRegions cluster_config))"

definition unobstructed :: "cluster \<Rightarrow> ProjectClaim \<Rightarrow> bool" where
  "unobstructed cl c \<longleftrightarrow>
     cl_claims cl (meta_key (pc_Meta c)) = Some c \<and> om_DeletionTimestamp (pc_Meta c) = None \<and>
     ProjectClaim_Validate c = None \<and> \<not> is_fake c \<and> pc_Conditions c \<in> {None, Some []} \<and>
     in_progress c \<and> supplied cl c"

text \<open>An object as it is stored, with the version it was written under.\<close>

definition stamped :: "nat \<Rightarrow> ProjectClaim \<Rightarrow> ProjectClaim" where
  "stamped v c = c\<lparr>pc_Meta := (pc_Meta c)\<lparr>om_ResourceVersion := show_nat v\<rparr>\<rparr>"

lemma stamped_sel [simp]:
  "pc_Spec (stamped v c) = pc_Spec c" "pc_Status (stamped v c) = pc_Status c"
  "meta_key (pc_Meta (stamped v c)) = meta_key (pc_Meta c)"
  "om_Finalizers (pc_Meta (stamped v c)) = om_Finalizers (pc_Meta c)"
  "om_DeletionTimestamp (pc_Meta (stamped v c)) = om_DeletionTimestamp (pc_Meta c)"
  "om_Annotations (pc_Meta (stamped v c)) = om_Annotations (pc_Meta c)"
  "om_Name (pc_Meta (stamped v c)) = om_Name (pc_Meta c)"
  "om_Namespace (pc_Meta (stamped v c)) = om_Namespace (pc_Meta c)"
  by (simp_all add: stamped_def)

lemma steps_left_stamped [simp]: "steps_left (stamped v c) = steps_left c"
  by (simp add: steps_left_def)

lemma advance_steps:
  assumes "in_progress c"
  shows "steps_left (advance c) = steps_left c - 1"
  using assms
  by (auto simp: advance_def steps_left_def set_link_def add_guard_def ClaimStatusPending_def
      ClaimStatusPendingProject_def meta_key_def)

subsection \<open>Writes that succeed\<close>

lemma keyed_same [simp]: "meta_key md = nn \<Longrightarrow> keyed nn md = md"
  by (auto simp: keyed_def meta_key_def namespaced_def)

lemma read_claim:
  "cl_claims cl (meta_key (pc_Meta c)) = Some c \<Longrightarrow>
     k_GetProjectClaim cluster_kube (meta_key (pc_Meta c)) cl = (Inr c, cl)"
  by (simp add: cluster_kube_def api_get_def set_pc_meta_def)

definition store :: "ProjectClaim \<Rightarrow> cluster \<Rightarrow> cluster" where
  "store c cl = bump (cl\<lparr>cl_claims := (cl_claims cl)(meta_key (pc_Meta c) \<mapsto> stamped (cl_version cl) c)\<rparr>)"

lemma update_stores:
  assumes "cl_claims cl (meta_key (pc_Meta x)) = Some c" and "om_ResourceVersion (pc_Meta x) = om_ResourceVersion (pc_Meta c)"
    and "om_DeletionTimestamp (pc_Meta x) = None" and "om_DeletionTimestamp (pc_Meta c) = None"
    and "pc_Status x = pc_Status c"
  shows "k_UpdateProjectClaim cluster_kube x cl = ((None, stamped (cl_version cl) x), store x cl)"
  using assms by (cases x; cases "pc_Meta x")
    (simp add: cluster_kube_def with_claims_def api_update_def Let_def set_pc_meta_def stamped_def store_def bump_def)

lemma status_stores:
  assumes "cl_claims cl (meta_key (pc_Meta x)) = Some c" and "pc_Meta x = pc_Meta c" and "pc_Spec x = pc_Spec c"
    and "om_DeletionTimestamp (pc_Meta c) = None"
  shows "k_StatusUpdateProjectClaim cluster_kube x cl = ((None, stamped (cl_version cl) x), store x cl)"
  using assms by (cases x; cases c; cases "pc_Meta x")
    (simp add: cluster_kube_def with_claims_def api_update_def Let_def set_pc_meta_def stamped_def store_def bump_def)

text \<open>
  What else may change: claims, projects and the configuration stay, secrets keep what they hold, and
  the only reference to appear is the one the claim asks for.
\<close>

definition secret_data :: "cluster \<Rightarrow> NamespacedName \<Rightarrow> (string \<rightharpoonup> string) option" where
  "secret_data cl nn = map_option s_Data (cl_secrets cl nn)"

definition versioned :: "string \<Rightarrow> ProjectReference \<Rightarrow> ProjectReference" where
  "versioned v r = r\<lparr>pr_Meta := (pr_Meta r)\<lparr>om_ResourceVersion := v\<rparr>\<rparr>"

definition asked_for :: "ProjectClaim \<Rightarrow> NamespacedName \<Rightarrow> ProjectReference \<Rightarrow> bool" where
  "asked_for c rk r \<longleftrightarrow> rk = ref_key (meta_key (pc_Meta c)) \<and> (\<exists>v. r = versioned v (newMatchingProjectReference c))"

definition surroundings_kept :: "ProjectClaim \<Rightarrow> cluster \<Rightarrow> cluster \<Rightarrow> bool" where
  "surroundings_kept c cl cl' \<longleftrightarrow> cl_configmaps cl' = cl_configmaps cl \<and>
     cl_projects cl' = cl_projects cl \<and>
     (\<forall>nn. cl_secrets cl nn \<noteq> None \<longrightarrow> secret_data cl' nn = secret_data cl nn) \<and>
     (\<forall>rk r. cl_references cl rk = Some r \<longrightarrow> cl_references cl' rk = Some r) \<and>
     (\<forall>rk r. cl_references cl' rk = Some r \<longrightarrow> cl_references cl rk = Some r \<or> asked_for c rk r)"

definition claims_kept :: "ProjectClaim \<Rightarrow> cluster \<Rightarrow> cluster \<Rightarrow> bool" where
  "claims_kept c cl cl' \<longleftrightarrow> cl_claims cl' = cl_claims cl \<and> surroundings_kept c cl cl'"

lemmas kept_defs = claims_kept_def surroundings_kept_def

lemma claims_kept_refl [simp]: "claims_kept c cl cl"
  by (simp add: kept_defs)

lemma secret_data_None [simp]: "secret_data cl nn = None \<longleftrightarrow> cl_secrets cl nn = None"
  by (simp add: secret_data_def)

lemma claims_kept_secrets: "claims_kept c cl cl' \<Longrightarrow> cl_secrets cl nn \<noteq> None \<Longrightarrow> cl_secrets cl' nn \<noteq> None"
  unfolding kept_defs by (metis secret_data_None)

lemma claims_kept_trans:
  assumes ab: "claims_kept d a b" and bc: "claims_kept d b c" shows "claims_kept d a c"
proof -
  have "secret_data c nn = secret_data a nn" if "cl_secrets a nn \<noteq> None" for nn
    using ab bc that claims_kept_secrets [OF ab that] by (simp add: kept_defs)
  moreover have "cl_references c rk = Some r" if "cl_references a rk = Some r" for rk r
    using ab bc that by (simp add: kept_defs)
  moreover have "cl_references a rk = Some r \<or> asked_for d rk r" if "cl_references c rk = Some r" for rk r
    using ab bc that unfolding kept_defs by metis
  ultimately show ?thesis using ab bc by (simp add: kept_defs)
qed

lemma claims_kept_supplied: "supplied cl c \<Longrightarrow> claims_kept c cl cl' \<Longrightarrow> supplied cl' c"
  using claims_kept_secrets [of c cl cl' "pcs_CCSSecretRef (pc_Spec c)"]
  by (simp add: supplied_def kept_defs split: if_splits)

subsection \<open>The operations that find nothing to do\<close>

abbreviation alone :: "cluster ProjectClaimAdapter" where
  "alone \<equiv> claim_adapter cluster_kube cluster_env NewConditionManager"

lemma no_error_outcomes [simp]:
  "RequeueOnErrorOrContinue None = ContinueProcessing" "RequeueOnErrorOrStop None = StopProcessing"
  by (simp_all add: outcome_defs)

lemma run_continue: "op s = (ContinueProcessing, s') \<Longrightarrow> run_operations (op # ops) s = run_operations ops s'"
  by simp

lemma handler_stop [simp]: "handler_result StopProcessing = (empty_Result, None)"
  by (simp add: handler_result_def StopProcessing_def StopOperationResult_def empty_Result_def)

definition stands :: "cluster \<Rightarrow> ProjectClaim \<Rightarrow> cluster claim_state \<Rightarrow> bool" where
  "stands cl c s \<longleftrightarrow> projectClaim s = c \<and> claims_kept c cl (claim_world s) \<and>
     (\<exists>v. projectReference s = versioned v (newMatchingProjectReference c))"

lemma versioned_sel [simp]:
  "pr_Spec (versioned v r) = pr_Spec r" "pr_Status (versioned v r) = pr_Status r"
  "meta_key (pr_Meta (versioned v r)) = meta_key (pr_Meta r)"
  "om_Name (pr_Meta (versioned v r)) = om_Name (pr_Meta r)"
  "om_Namespace (pr_Meta (versioned v r)) = om_Namespace (pr_Meta r)"
  "versioned u (versioned v r) = versioned u r"
  by (simp_all add: versioned_def)

lemma matching_key [simp]: "meta_key (pr_Meta (newMatchingProjectReference c)) = ref_key (meta_key (pc_Meta c))"
  using newMatchingProjectReference_blank [of c] by (simp add: blank_reference_def)

lemma stands_key: "stands cl c s \<Longrightarrow> meta_key (pr_Meta (projectReference s)) = ref_key (meta_key (pc_Meta c))"
  by (auto simp: stands_def)

lemma no_condition [simp]: "cm_HasCondition NewConditionManager None t \<longleftrightarrow> False"
  "cm_HasCondition NewConditionManager (Some []) t \<longleftrightarrow> False"
  by (simp_all add: NewConditionManager_def HasCondition_def)

lemma no_error_no_condition:
  "pc_Conditions (projectClaim s) \<in> {None, Some []} \<Longrightarrow>
     SetProjectClaimCondition alone t reason None s = (ContinueProcessing, s)"
  by (auto simp: SetProjectClaimCondition_def)

lemma start_goes_on:
  assumes "unobstructed cl c" and "projectClaim s = c"
  shows "EnsureProjectClaimFakeProcessed alone s = (ContinueProcessing, s)"
    and "EnsureProjectClaimDeletionProcessed alone s = (ContinueProcessing, s)"
    and "EnsureProjectClaimValidated alone s = (ContinueProcessing, s)"
  using assms by (auto simp: unobstructed_def EnsureProjectClaimFakeProcessed_def
      EnsureProjectClaimDeletionProcessed_def IsProjectClaimDeletion_def EnsureProjectClaimValidated_def)

lemma region_goes_on:
  assumes c: "unobstructed cl c" and s: "stands cl c s"
  shows "EnsureRegionSupported alone s = (ContinueProcessing, s)"
proof -
  have supplied: "supplied (claim_world s) c"
    using c s claims_kept_supplied by (auto simp: unobstructed_def stands_def)
  then have "IsRegionSupported alone s = ((True, None), s)"
    using s by (auto simp: IsRegionSupported_def stands_def supplied_def GetOperatorConfigMap_def cluster_kube_def
        api_get_def set_cm_meta_def cluster_env_def)
  moreover have "pc_State c \<noteq> ClaimStatusError"
    using c by (auto simp: unobstructed_def in_progress_def)
  moreover have "pc_Conditions (projectClaim s) \<in> {None, Some []}"
    using c s by (simp add: unobstructed_def stands_def)
  ultimately show ?thesis
    using s by (simp add: EnsureRegionSupported_def no_error_no_condition stands_def)
qed

lemma created_kept:
  assumes "cl_claims w (meta_key (pc_Meta c)) = Some c" and "cl_references w (ref_key (meta_key (pc_Meta c))) = None"
  shows "claims_kept c w (bump (w\<lparr>cl_references :=
    (cl_references w)(ref_key (meta_key (pc_Meta c)) \<mapsto> versioned v (newMatchingProjectReference c))\<rparr>))"
  using assms by (auto simp: kept_defs bump_def asked_for_def secret_data_def)

lemma create_matching:
  assumes "cl_references w (ref_key (meta_key (pc_Meta c))) = None"
  shows "k_CreateProjectReference cluster_kube (versioned v (newMatchingProjectReference c)) w =
    ((None, versioned (show_nat (cl_version w)) (newMatchingProjectReference c)),
     bump (w\<lparr>cl_references := (cl_references w)(ref_key (meta_key (pc_Meta c)) \<mapsto>
       versioned (show_nat (cl_version w)) (newMatchingProjectReference c))\<rparr>))"
  using assms by (simp add: cluster_kube_def with_references_def api_create_def Let_def)
    (simp add: set_pr_meta_def versioned_def bump_def)

lemma get_reference_cluster:
  "k_GetProjectReference cluster_kube rk w = (api_get pr_Meta set_pr_meta (cl_references w) rk, w)"
  by (simp add: cluster_kube_def)

lemma stands_link:
  "stands cl c s \<Longrightarrow> namespaced (pr_Namespace (projectReference s)) (pr_Name (projectReference s)) =
     ref_key (meta_key (pc_Meta c))"
  by (frule stands_key) (simp add: meta_key_def)

lemma reference_exists_goes_on:
  assumes c: "unobstructed cl c" and s: "stands cl c s"
  obtains s' where "EnsureProjectReferenceExists alone s = (ContinueProcessing, s')" and "stands cl c s'"
    and "cl_references (claim_world s') (ref_key (meta_key (pc_Meta c))) \<noteq> None"
proof -
  let ?w = "claim_world s" and ?rk = "ref_key (meta_key (pc_Meta c))"
  have nn: "namespaced (pr_Namespace (projectReference s)) (pr_Name (projectReference s)) = ?rk"
    by (rule stands_link [OF s])
  obtain v where ref: "projectReference s = versioned v (newMatchingProjectReference c)"
    using s by (auto simp: stands_def)
  show thesis
  proof (cases "cl_references ?w ?rk")
    case None
    let ?w' = "snd (k_CreateProjectReference cluster_kube (projectReference s) ?w)"
    have "cl_claims ?w (meta_key (pc_Meta c)) = Some c"
      using c s by (simp add: unobstructed_def stands_def claims_kept_def)
    then have "claims_kept c cl ?w'"
      using s created_kept [OF _ None] claims_kept_trans unfolding ref create_matching [OF None] stands_def by auto
    moreover have "EnsureProjectReferenceExists alone s = (ContinueProcessing,
        s\<lparr>projectReference := versioned (show_nat (cl_version ?w)) (newMatchingProjectReference c), claim_world := ?w'\<rparr>)"
      using None create_matching [OF None, of v] unfolding EnsureProjectReferenceExists_def ProjectReferenceExists_def nn
      by (simp add: api_get_def not_found_def get_reference_cluster ref)
    ultimately show thesis
      using s by (intro that) (auto simp: stands_def ref create_matching [OF None] bump_def)
  next
    case (Some r)
    then have "EnsureProjectReferenceExists alone s = (ContinueProcessing, s)"
      unfolding EnsureProjectReferenceExists_def ProjectReferenceExists_def nn
      by (simp add: cluster_kube_def api_get_def)
    from that [OF this s] Some show thesis by simp
  qed
qed

lemma ccs_secret_goes_on:
  assumes c: "unobstructed cl c" and s: "stands cl c s"
  obtains s' where "EnsureCCSSecretFinalizer alone s = (ContinueProcessing, s')" and "stands cl c s'"
    and "cl_references (claim_world s') = cl_references (claim_world s)"
proof -
  let ?x = "EnsureCCSSecretFinalizer alone s"
  have "supplied (claim_world s) c"
    using c s claims_kept_supplied by (auto simp: unobstructed_def stands_def)
  then have "fst ?x = ContinueProcessing \<and> claims_kept c (claim_world s) (claim_world (snd ?x)) \<and>
      projectClaim (snd ?x) = c \<and> projectReference (snd ?x) = projectReference s \<and>
      cl_references (claim_world (snd ?x)) = cl_references (claim_world s)"
    using s by (auto simp: EnsureCCSSecretFinalizer_def getCCSSecret_def supplied_def stands_def cluster_kube_def
        api_get_def addFinalizer_def secret_accessor_def with_secrets_def api_update_def set_s_meta_def
        kept_defs Let_def bump_def secret_data_def split: if_splits)
  with s claims_kept_trans show thesis
    by (intro that [of "snd ?x"]) (auto simp: stands_def prod_eq_iff)
qed

lemma waiting_goes_on:
  assumes "projectClaim s = c" and "pc_State c \<noteq> ''''"
    and "in_progress c"
  shows "EnsureProjectClaimStatePending alone s = (ContinueProcessing, s)"
  using assms by (auto simp: EnsureProjectClaimStatePending_def EnsureProjectClaimState_def Let_def in_progress_def)

subsection \<open>One Reconcile is one step\<close>

text \<open>A handler that ends in the state \<^verbatim>\<open>s\<close> has stored \<^verbatim>\<open>x\<close>.\<close>

definition has_stored :: "ProjectClaim \<Rightarrow> cluster \<Rightarrow> ProjectClaim \<Rightarrow> cluster claim_state \<Rightarrow> bool" where
  "has_stored c cl x s \<longleftrightarrow> (\<exists>w. claims_kept c cl w \<and> projectClaim s = stamped (cl_version w) x \<and> claim_world s = store x w)"

lemma store_result:
  assumes "unobstructed cl c" and "stands cl c s" and "meta_key (pc_Meta x) = meta_key (pc_Meta c)"
    and "om_ResourceVersion (pc_Meta x) = om_ResourceVersion (pc_Meta c)"
    and "om_DeletionTimestamp (pc_Meta x) = om_DeletionTimestamp (pc_Meta c)" and "pc_Status x = pc_Status c"
  shows "k_UpdateProjectClaim cluster_kube x (claim_world s) =
    ((None, stamped (cl_version (claim_world s)) x), store x (claim_world s))"
  using assms by (intro update_stores [of _ _ c]) (simp_all add: unobstructed_def stands_def claims_kept_def)

lemma status_result:
  assumes "unobstructed cl c" and "stands cl c s" and "pc_Meta x = pc_Meta c" and "pc_Spec x = pc_Spec c"
  shows "k_StatusUpdateProjectClaim cluster_kube x (claim_world s) =
    ((None, stamped (cl_version (claim_world s)) x), store x (claim_world s))"
  using assms by (intro status_stores [of _ _ c]) (simp_all add: unobstructed_def stands_def claims_kept_def)

text \<open>Each operation whose turn it is stores the next step and stops the loop.\<close>

definition steps_to :: "(cluster claim_state, outcome) effect \<Rightarrow> ProjectClaim \<Rightarrow> cluster \<Rightarrow> ProjectClaim \<Rightarrow> cluster claim_state \<Rightarrow> bool" where
  "steps_to op c cl x s \<longleftrightarrow> (\<exists>s'. op s = (StopProcessing, s') \<and> has_stored c cl x s')"

lemma initialize_steps:
  assumes "unobstructed cl c" and "stands cl c s" and "pc_Conditions c = None"
  shows "steps_to (EnsureProjectClaimInitialized alone) c cl (set_claim_conditions (Some []) c) s"
  using assms by (auto simp: steps_to_def has_stored_def EnsureProjectClaimInitialized_def claim_status_update_def
      status_result [OF assms(1,2)] stands_def)

lemma state_steps:
  assumes "unobstructed cl c" and "stands cl c s"
    and "st = ClaimStatusPending \<and> pc_State c = '''' \<or> st = ClaimStatusPendingProject \<and> pc_State c = ClaimStatusPending"
  shows "steps_to (EnsureProjectClaimState alone st) c cl (set_claim_state st c) s"
  using assms by (auto simp: steps_to_def has_stored_def EnsureProjectClaimState_def claim_StatusUpdate_def
      claim_status_update_def status_result [OF assms(1,2)] stands_def Let_def ClaimStatusPending_def
      ClaimStatusPendingProject_def ClaimStatusError_def)

lemma link_steps:
  assumes "unobstructed cl c" and "stands cl c s" and "pcs_ProjectReferenceCRLink (pc_Spec c) \<noteq> ref_key (meta_key (pc_Meta c))"
  shows "steps_to (EnsureProjectReferenceLink alone) c cl (set_link (ref_key (meta_key (pc_Meta c))) c) s"
proof -
  have key: "namespaced (pr_Namespace (projectReference s)) (pr_Name (projectReference s)) = ref_key (meta_key (pc_Meta c))"
    by (rule stands_link [OF assms(2)])
  show ?thesis
    using assms store_result [OF assms(1,2), of "set_link (ref_key (meta_key (pc_Meta c))) c"]
    by (auto simp: steps_to_def has_stored_def EnsureProjectReferenceLink_def key claim_update_def Let_def
        stands_def set_link_def)
qed

lemma guard_steps:
  assumes "unobstructed cl c" and "stands cl c s" and "\<not> guarded c"
  shows "steps_to (EnsureFinalizer alone) c cl (add_guard c) s"
  using assms store_result [OF assms(1,2), of "add_guard c"]
  by (auto simp: steps_to_def has_stored_def EnsureFinalizer_def addFinalizer_def claim_accessor_def
      stands_def add_guard_def meta_key_def Let_def)

lemma claim_handler_run:
  assumes c: "unobstructed cl c" and s: "stands cl c s"
  shows "claim_ReconcileHandler alone s = run_operations
    [EnsureProjectClaimInitialized alone, EnsureRegionSupported alone, EnsureProjectClaimStatePending alone,
     EnsureProjectReferenceExists alone, EnsureProjectReferenceLink alone, EnsureFinalizer alone,
     EnsureCCSSecretFinalizer alone, EnsureProjectClaimStatePendingProject alone] s"
proof -
  have "projectClaim s = c" using s by (simp add: stands_def)
  from start_goes_on [OF c this] show ?thesis by (simp add: claim_ReconcileHandler_def claim_operations_def)
qed

lemma link_goes_on:
  "stands cl c s \<Longrightarrow> pcs_ProjectReferenceCRLink (pc_Spec c) = ref_key (meta_key (pc_Meta c)) \<Longrightarrow>
     EnsureProjectReferenceLink alone s = (ContinueProcessing, s)"
  by (simp add: EnsureProjectReferenceLink_def Let_def stands_link) (simp add: stands_def)

lemma guard_goes_on: "stands cl c s \<Longrightarrow> guarded c \<Longrightarrow> EnsureFinalizer alone s = (ContinueProcessing, s)"
  by (auto simp: EnsureFinalizer_def stands_def)

text \<open>The run of the handler, up to the operation whose turn it is.\<close>

lemma handler_advances:
  assumes c: "unobstructed cl c" and s: "stands cl c s"
  shows "\<exists>s'. claim_ReconcileHandler alone s = ((empty_Result, None), s') \<and>
    (if steps_left c = 0 then stands cl c s' \<and> cl_references (claim_world s') (ref_key (meta_key (pc_Meta c))) \<noteq> None
     else has_stored c cl (advance c) s')"
proof -
  note run = claim_handler_run [OF c s] and region = run_continue [where op = "EnsureRegionSupported alone", OF region_goes_on [OF c s]]
  have claim: "projectClaim s = c" using s by (simp add: stands_def)
  have states: "in_progress c"
    using c by (simp add: unobstructed_def)
  have stop: "claim_ReconcileHandler alone s = run_operations (op # ops) t \<Longrightarrow> steps_to op c cl (advance c) t \<Longrightarrow>
      steps_left c \<noteq> 0 \<Longrightarrow> ?thesis" for op ops t
    by (auto simp: steps_to_def)
  consider (initialize) "pc_Conditions c = None"
    | (pending) cs where "pc_Conditions c = Some cs" "pc_State c = ''''"
    | (later) cs where "pc_Conditions c = Some cs" "pc_State c \<noteq> ''''" by blast
  then show ?thesis
  proof cases
    case initialize
    with initialize_steps [OF c s] show ?thesis
      by (intro stop [OF run]) (simp_all add: advance_def steps_left_def)
  next
    case pending
    then have "EnsureProjectClaimInitialized alone s = (ContinueProcessing, s)"
      by (auto simp: EnsureProjectClaimInitialized_def claim)
    note run = run [unfolded run_continue [where op = "EnsureProjectClaimInitialized alone", OF this] region]
    from pending state_steps [OF c s, of ClaimStatusPending] show ?thesis
      by (intro stop [OF run])
        (simp_all add: advance_def steps_left_def EnsureProjectClaimStatePending_def [abs_def])
  next
    case later
    then have "EnsureProjectClaimInitialized alone s = (ContinueProcessing, s)"
      by (auto simp: EnsureProjectClaimInitialized_def claim)
    note run = run [unfolded run_continue [where op = "EnsureProjectClaimInitialized alone", OF this] region
        run_continue [where op = "EnsureProjectClaimStatePending alone", OF waiting_goes_on [OF claim later(2) states]]]
    obtain s1 where exists: "EnsureProjectReferenceExists alone s = (ContinueProcessing, s1)" and s1: "stands cl c s1"
      and there: "cl_references (claim_world s1) (ref_key (meta_key (pc_Meta c))) \<noteq> None"
      by (rule reference_exists_goes_on [OF c s])
    note run = run [unfolded run_continue [where op = "EnsureProjectReferenceExists alone", OF exists]]
    show ?thesis
    proof (cases "pcs_ProjectReferenceCRLink (pc_Spec c) = ref_key (meta_key (pc_Meta c))")
      case False
      with later link_steps [OF c s1] show ?thesis
        by (intro stop [OF run]) (simp_all add: advance_def steps_left_def)
    next
      case linked: True
      note run = run [unfolded run_continue [where op = "EnsureProjectReferenceLink alone", OF link_goes_on [OF s1 linked]]]
      show ?thesis
      proof (cases "guarded c")
        case False
        with later linked guard_steps [OF c s1] show ?thesis
          by (intro stop [OF run]) (simp_all add: advance_def steps_left_def)
      next
        case guarded: True
        obtain s2 where ccs: "EnsureCCSSecretFinalizer alone s1 = (ContinueProcessing, s2)" and s2: "stands cl c s2"
          and same: "cl_references (claim_world s2) = cl_references (claim_world s1)"
          by (rule ccs_secret_goes_on [OF c s1])
        note run = run [unfolded run_continue [where op = "EnsureFinalizer alone", OF guard_goes_on [OF s1 guarded]]
            run_continue [where op = "EnsureCCSSecretFinalizer alone", OF ccs]]
        show ?thesis
        proof (cases "pc_State c = ClaimStatusPending")
          case True
          with later linked guarded state_steps [OF c s2, of ClaimStatusPendingProject] show ?thesis
            by (intro stop [OF run]) (simp_all add: advance_def steps_left_def
              EnsureProjectClaimStatePendingProject_def [abs_def] ClaimStatusPending_def ClaimStatusPendingProject_def)
        next
          case False
          with later states have settled: "pc_State c \<in> {ClaimStatusPendingProject, ClaimStatusReady}"
            by (auto simp: in_progress_def)
          have "EnsureProjectClaimStatePendingProject alone s2 = (ContinueProcessing, s2)"
            using s2 settled
            by (auto simp: EnsureProjectClaimStatePendingProject_def EnsureProjectClaimState_def stands_def)
          with run s2 later linked guarded settled same there show ?thesis
            by (auto simp: steps_left_def)
        qed
      qed
    qed
  qed
qed

subsection \<open>Reconcile, and rounds of it\<close>

definition unversioned :: "ProjectClaim \<Rightarrow> ProjectClaim" where
  "unversioned c = c\<lparr>pc_Meta := (pc_Meta c)\<lparr>om_ResourceVersion := ''''\<rparr>\<rparr>"

lemma unversioned_stamped [simp]: "unversioned (stamped v c) = unversioned c"
  by (simp add: unversioned_def stamped_def)

lemma advance_kept:
  "meta_key (pc_Meta (advance c)) = meta_key (pc_Meta c)"
  "om_DeletionTimestamp (pc_Meta (advance c)) = om_DeletionTimestamp (pc_Meta c)"
  "om_Annotations (pc_Meta (advance c)) = om_Annotations (pc_Meta c)"
  "ProjectClaim_Validate (advance c) = ProjectClaim_Validate c"
  "supplied cl (advance c) = supplied cl c"
  "pc_Conditions c \<in> {None, Some []} \<Longrightarrow> pc_Conditions (advance c) \<in> {None, Some []}"
  "in_progress c \<Longrightarrow>
     in_progress (advance c)"
  by (simp_all add: advance_def set_link_def add_guard_def meta_key_def ProjectClaim_Validate_def supplied_def
      in_progress_def Let_def)
    blast

lemma advance_stays: "steps_left c = 0 \<Longrightarrow> advance c = c"
  by (auto simp: steps_left_def advance_def ClaimStatusPending_def ClaimStatusPendingProject_def)

lemma stamped_kept [simp]:
  "ProjectClaim_Validate (stamped v c) = ProjectClaim_Validate c" "is_fake (stamped v c) = is_fake c"
  "supplied cl (stamped v c) = supplied cl c" "supplied (store x w) c = supplied w c"
  "in_progress (stamped v c) = in_progress c"
  by (simp_all add: in_progress_def ProjectClaim_Validate_def is_fake_def supplied_def store_def bump_def)

lemma unobstructed_steps:
  assumes c: "unobstructed cl c" and w: "claims_kept c cl w"
  shows "unobstructed (store (advance c) w) (stamped (cl_version w) (advance c))"
proof -
  have stored: "cl_claims (store (advance c) w) (meta_key (pc_Meta (advance c))) = Some (stamped (cl_version w) (advance c))"
    by (simp add: store_def)
  have "supplied w c" using c w claims_kept_supplied by (auto simp: unobstructed_def)
  moreover have "is_fake (advance c) = is_fake c" by (simp add: is_fake_def advance_kept)
  ultimately show ?thesis
    unfolding unobstructed_def stamped_sel stamped_kept stored
    using c by (simp add: unobstructed_def advance_kept del: insert_iff)
qed

lemma unobstructed_kept: "unobstructed cl c \<Longrightarrow> claims_kept c cl w \<Longrightarrow> unobstructed w c"
  using claims_kept_supplied by (auto simp: unobstructed_def claims_kept_def)

text \<open>What a run leaves behind: the step, and surroundings as they were.\<close>

definition stepped :: "cluster \<Rightarrow> ProjectClaim \<Rightarrow> cluster \<Rightarrow> ProjectClaim \<Rightarrow> bool" where
  "stepped cl c cl' c' \<longleftrightarrow> unobstructed cl' c' \<and> unversioned c' = unversioned (advance c) \<and>
     surroundings_kept c cl cl' \<and>
     (steps_left c = 0 \<longrightarrow> cl_references cl' (ref_key (meta_key (pc_Meta c))) \<noteq> None)"

lemma stored_surroundings: "claims_kept c cl w \<Longrightarrow> surroundings_kept c cl (store x w)"
  by (simp add: kept_defs store_def bump_def secret_data_def)

lemma Reconcile_steps:
  assumes c: "unobstructed cl c"
  obtains c' cl' where "claim_Reconcile cluster_kube cluster_env (meta_key (pc_Meta c)) cl = ((empty_Result, None), cl')"
    and "stepped cl c cl' c'"
proof -
  let ?s = "\<lparr>projectClaim = c, projectReference = newMatchingProjectReference c, claim_world = cl\<rparr>"
  have "versioned '''' (newMatchingProjectReference c) = newMatchingProjectReference c"
    by (simp add: versioned_def newMatchingProjectReference_def new_meta_def Let_def)
  then have "stands cl c ?s" by (auto simp: stands_def intro: sym)
  from handler_advances [OF c this] obtain s' where
    run: "claim_ReconcileHandler alone ?s = ((empty_Result, None), s')"
    and s': "if steps_left c = 0 then stands cl c s' \<and> cl_references (claim_world s') (ref_key (meta_key (pc_Meta c))) \<noteq> None
      else has_stored c cl (advance c) s'" by blast
  have c': "stepped cl c (claim_world s') (projectClaim s')"
    using s' unobstructed_steps [OF c] unobstructed_kept [OF c] advance_stays [of c] stored_surroundings
    by (auto simp: stepped_def has_stored_def stands_def claims_kept_def split: if_splits)
  then have "SetProjectClaimCondition alone t reason None s' = (ContinueProcessing, s')" for t reason
    by (intro no_error_no_condition) (simp add: stepped_def unobstructed_def)
  with run c have "claim_Reconcile cluster_kube cluster_env (meta_key (pc_Meta c)) cl = ((empty_Result, None), claim_world s')"
    by (simp add: claim_Reconcile_def read_claim unobstructed_def NewProjectClaimAdapter_def)
  with c' that show thesis by blast
qed

lemma round_steps:
  assumes "unobstructed cl c"
  obtains c' where "stepped cl c (claim_round (meta_key (pc_Meta c)) cl) c'"
proof -
  let ?cl = "env_Sleep cluster_env Second cl"
  have slept: "claims_kept c cl ?cl" by (simp add: cluster_env_def kept_defs secret_data_def)
  from Reconcile_steps [OF unobstructed_kept [OF assms slept]] obtain c'
    where "stepped ?cl c (claim_round (meta_key (pc_Meta c)) cl) c'"
    unfolding claim_round_def by (metis snd_conv)
  moreover have "surroundings_kept c ?cl = surroundings_kept c cl"
    by (simp add: surroundings_kept_def cluster_env_def secret_data_def asked_for_def fun_eq_iff)
  ultimately show thesis by (intro that [of c']) (simp add: stepped_def)
qed

lemma unversioned_same:
  "unversioned c' = unversioned c \<Longrightarrow> steps_left c' = steps_left c \<and> meta_key (pc_Meta c') = meta_key (pc_Meta c)"
  by (cases c; cases c'; cases "pc_Meta c"; cases "pc_Meta c'")
    (simp add: unversioned_def steps_left_def meta_key_def)

lemma unversioned_state: "unversioned c' = unversioned c \<Longrightarrow> pc_State c' = pc_State c"
  by (cases c; cases c') (simp add: unversioned_def)

lemma advance_Ready: "pc_State (advance c) = ClaimStatusReady \<longleftrightarrow> pc_State c = ClaimStatusReady"
  by (simp add: advance_def)

lemma rounds_steps:
  assumes "unobstructed cl c"
  shows "\<exists>c'. unobstructed ((claim_round (meta_key (pc_Meta c)) ^^ n) cl) c' \<and>
    meta_key (pc_Meta c') = meta_key (pc_Meta c) \<and> steps_left c' = steps_left c - n \<and>
    (pc_State c' = ClaimStatusReady \<longleftrightarrow> pc_State c = ClaimStatusReady)"
proof (induction n)
  case 0
  with assms show ?case by auto
next
  case (Suc n)
  then obtain c1 where c1: "unobstructed ((claim_round (meta_key (pc_Meta c)) ^^ n) cl) c1"
    and key: "meta_key (pc_Meta c1) = meta_key (pc_Meta c)" and left: "steps_left c1 = steps_left c - n"
    and ready: "pc_State c1 = ClaimStatusReady \<longleftrightarrow> pc_State c = ClaimStatusReady" by blast
  from round_steps [OF c1] obtain c2 where c2: "unobstructed ((claim_round (meta_key (pc_Meta c)) ^^ Suc n) cl) c2"
    and v: "unversioned c2 = unversioned (advance c1)" unfolding key by (auto simp: stepped_def)
  have "in_progress c1"
    using c1 by (simp add: unobstructed_def)
  with unversioned_same [OF v] unversioned_state [OF v] key left ready advance_steps [of c1]
    advance_kept(1) [of c1] advance_Ready [of c1] c2
  show ?case by auto
qed

lemma steps_left_bound: "in_progress c \<Longrightarrow> steps_left c \<le> 5"
  by (simp add: steps_left_def)

subsection \<open>The properties\<close>

lemma unobstructed_sample: "unobstructed ccs_cluster ccs_sample_claim"
proof -
  have "ProjectClaim_Validate ccs_sample_claim = None" by code_simp
  then show ?thesis
    by (simp add: unobstructed_def supplied_def ccs_cluster_def ccs_sample_claim_def sample_claim_def sample_key_def in_progress_def
        is_fake_def new_meta_def meta_key_def namespaced_def)
qed

text \<open>C17: \<^verbatim>\<open>Reconcile\<close> of a claim refines one step of \<^verbatim>\<open>advance\<close>.  When the claim is alive and valid, its region
  allowed and its credentials there, one run on the API server ends without an error and a request to
  requeue, and leaves the claim as \<^verbatim>\<open>advance\<close> makes it, but for the version it is stored under.\<close>

theorem claim_Reconcile_advances:
  assumes "unobstructed cl c"
  shows "fst (claim_Reconcile cluster_kube cluster_env (meta_key (pc_Meta c)) cl) = (empty_Result, None) \<and>
    map_option unversioned (cl_claims (snd (claim_Reconcile cluster_kube cluster_env (meta_key (pc_Meta c)) cl))
      (meta_key (pc_Meta c))) = Some (unversioned (advance c))"
proof -
  obtain c' cl' where run: "claim_Reconcile cluster_kube cluster_env (meta_key (pc_Meta c)) cl = ((empty_Result, None), cl')"
    and c': "unobstructed cl' c'" and v: "unversioned c' = unversioned (advance c)"
    using Reconcile_steps [OF assms] unfolding stepped_def by metis
  have "meta_key (pc_Meta c') = meta_key (pc_Meta c)"
    using unversioned_same [OF v] advance_kept(1) [of c] by simp
  with run c' v show ?thesis by (simp add: unobstructed_def)
qed

theorem claim_Reconcile_advances_witness:
  "map_option unversioned (cl_claims (snd (claim_Reconcile cluster_kube cluster_env sample_key ccs_cluster)) sample_key) =
     Some (unversioned (set_claim_state ClaimStatusPending ccs_sample_claim))"
proof -
  have "meta_key (pc_Meta ccs_sample_claim) = sample_key"
    and "advance ccs_sample_claim = set_claim_state ClaimStatusPending ccs_sample_claim"
    by (simp_all add: ccs_sample_claim_def sample_key_def new_meta_def meta_key_def advance_def)
  with claim_Reconcile_advances [OF unobstructed_sample] show ?thesis by simp
qed

text \<open>A claim that is not Ready yet and that nothing stands in the way of becomes PendingProject: after five rounds of its controller
  it is PendingProject, has the finalizer and is linked to its reference, and it stays so.\<close>

theorem claim_reaches_PendingProject:
  assumes "unobstructed cl c" and "pc_State c \<noteq> ClaimStatusReady" and "5 \<le> n"
  shows "\<exists>c'. cl_claims ((claim_round (meta_key (pc_Meta c)) ^^ n) cl) (meta_key (pc_Meta c)) = Some c' \<and>
    pc_State c' = ClaimStatusPendingProject \<and> ProjectClaimFinalizer \<in> set (om_Finalizers (pc_Meta c')) \<and>
    pcs_ProjectReferenceCRLink (pc_Spec c') = ref_key (meta_key (pc_Meta c))"
proof -
  obtain c' where c': "unobstructed ((claim_round (meta_key (pc_Meta c)) ^^ n) cl) c'"
    and key: "meta_key (pc_Meta c') = meta_key (pc_Meta c)" and left: "steps_left c' = steps_left c - n"
    and ready: "pc_State c' \<noteq> ClaimStatusReady"
    using rounds_steps [OF assms(1)] assms(2) by blast
  have "steps_left c \<le> 5" using assms(1) by (intro steps_left_bound) (simp add: unobstructed_def)
  with left assms(3) have "steps_left c' = 0" by simp
  moreover have "in_progress c'" using c' by (simp add: unobstructed_def)
  ultimately have "pc_State c' = ClaimStatusPendingProject" "guarded c'"
    "pcs_ProjectReferenceCRLink (pc_Spec c') = ref_key (meta_key (pc_Meta c'))"
    using ready by (auto simp: steps_left_def in_progress_def)
  with c' key show ?thesis by (auto simp: unobstructed_def)
qed

theorem claim_reaches_PendingProject_witness:
  "map_option pc_State (cl_claims ((claim_round sample_key ^^ 5) ccs_cluster) sample_key) = Some ClaimStatusPendingProject"
proof -
  have key: "meta_key (pc_Meta ccs_sample_claim) = sample_key"
    by (simp add: ccs_sample_claim_def sample_key_def new_meta_def meta_key_def)
  have "pc_State ccs_sample_claim \<noteq> ClaimStatusReady"
    by (simp add: ccs_sample_claim_def sample_claim_def)
  from claim_reaches_PendingProject [OF unobstructed_sample this, of 5] show ?thesis unfolding key by auto
qed

end
