(* ===== verification/Provisioning.thy ===== *)
theory Provisioning
  imports Progress
begin

text \<open>
  Provisioning on the reference cloud: each operation of the ProjectReference controller that talks to
  Google Cloud succeeds there when nothing else uses the cloud, and keeps what the next one needs.
\<close>

subsection \<open>What the calls keep\<close>

abbreviation provisioner :: "string \<Rightarrow> google_creds \<Rightarrow> cluster ReferenceAdapter" where
  "provisioner p creds \<equiv>
     \<lparr>ra_kubeClient = cluster_kube, ra_gcpClient = client_of cluster_env cluster_sdk \<lparr>gc_projectName = p, gc_creds = creds\<rparr>,
      ra_conditionManager = NewConditionManager, ra_OperatorConfig = cluster_config, ra_env = cluster_env\<rparr>"

definition all_active :: "cluster \<Rightarrow> bool" where
  "all_active cl \<longleftrightarrow> (\<forall>x\<in>set (cl_projects cl). p_LifecycleState x = ''ACTIVE'')"

definition has_account :: "string \<Rightarrow> cluster \<Rightarrow> bool" where
  "has_account resource cl \<longleftrightarrow> resource \<in> sa_Name ` set (cl_accounts cl)"

lemma find_account:
  "List.find (\<lambda>a. sa_Name a = resource) (cl_accounts cl) = None \<longleftrightarrow> \<not> has_account resource cl"
  by (auto simp: has_account_def find_None_iff)

definition cloud_kept :: "cluster \<Rightarrow> cluster \<Rightarrow> bool" where
  "cloud_kept cl cl' \<longleftrightarrow> cl_claims cl' = cl_claims cl \<and> cl_references cl' = cl_references cl \<and>
     cl_configmaps cl' = cl_configmaps cl \<and>
     (\<forall>nn. cl_secrets cl nn \<noteq> None \<longrightarrow> cl_secrets cl' nn = cl_secrets cl nn) \<and>
     (all_active cl \<longrightarrow> all_active cl') \<and>
     (\<forall>resource. has_account resource cl \<longrightarrow> has_account resource cl')"

lemma cloud_kept_refl [simp]: "cloud_kept cl cl"
  by (simp add: cloud_kept_def)

lemma cloud_kept_trans:
  assumes ab: "cloud_kept a b" and bc: "cloud_kept b c" shows "cloud_kept a c"
proof -
  have "cl_secrets c nn = cl_secrets a nn" if "cl_secrets a nn \<noteq> None" for nn
    using ab bc that unfolding cloud_kept_def by metis
  with ab bc show ?thesis by (simp add: cloud_kept_def)
qed

text \<open>An operation that returns \<^verbatim>\<open>v\<close> and changes the world only, in that way.\<close>

definition returns :: "('w reference_state, 'a) effect \<Rightarrow> 'a \<Rightarrow> 'w reference_state \<Rightarrow> ('w \<Rightarrow> 'w \<Rightarrow> bool) \<Rightarrow> bool" where
  "returns op v s rel \<longleftrightarrow> (\<exists>w. op s = (v, s\<lparr>rs_world := w\<rparr>) \<and> rel (rs_world s) w)"

lemma returnsI: "op s = (v, s\<lparr>rs_world := w\<rparr>) \<Longrightarrow> rel (rs_world s) w \<Longrightarrow> returns op v s rel"
  by (auto simp: returns_def)

lemma returnsE:
  assumes "returns op v s rel"
  obtains w where "op s = (v, s\<lparr>rs_world := w\<rparr>)" "rel (rs_world s) w"
  using assms by (auto simp: returns_def)

lemma returns_same: "op s = (v, s) \<Longrightarrow> rel (rs_world s) (rs_world s) \<Longrightarrow> returns op v s rel"
  by (intro returnsI [of _ _ _ "rs_world s"]) simp_all

lemma on_world_returns:
  "rel (rs_world s) (snd (f (rs_world s))) \<Longrightarrow> returns (on_world f) (fst (f (rs_world s))) s rel"
  by (auto simp: on_world_def returns_def case_prod_beta)

text \<open>One call after another.\<close>

lemma returns_then:
  assumes "returns op v s cloud_kept"
    and "\<And>w. cloud_kept (rs_world s) w \<Longrightarrow> op s = (v, s\<lparr>rs_world := w\<rparr>) \<Longrightarrow>
      returns next u (s\<lparr>rs_world := w\<rparr>) cloud_kept \<and> whole s = next (s\<lparr>rs_world := w\<rparr>)"
  shows "returns whole u s cloud_kept"
  using assms cloud_kept_trans unfolding returns_def by fastforce

subsection \<open>Requests of the client\<close>

lemma cloud_kept_time [simp]: "cloud_kept cl (cl\<lparr>cl_now := t\<rparr>)"
  by (simp add: cloud_kept_def all_active_def has_account_def)

lemma cloud_kept_policies [simp]: "cloud_kept cl (bump cl\<lparr>cl_policies := ps\<rparr>)" "cloud_kept cl (bump cl)"
  by (simp_all add: cloud_kept_def all_active_def has_account_def bump_def)

lemma cloud_kept_billing [simp]: "cloud_kept cl (cl\<lparr>cl_billing := bs\<rparr>)" "cloud_kept cl (cl\<lparr>cl_services := ss\<rparr>)"
  by (simp_all add: cloud_kept_def all_active_def has_account_def)

lemma cloud_kept_keys [simp]: "cloud_kept cl (bump cl\<lparr>cl_keys := ks\<rparr>)"
  by (simp add: cloud_kept_def all_active_def has_account_def bump_def)

lemma cloud_kept_account [simp]: "cloud_kept cl (cl\<lparr>cl_accounts := cl_accounts cl @ [a]\<rparr>)"
  by (simp add: cloud_kept_def all_active_def has_account_def)

lemma ListAPIs_cluster:
  "\<exists>apis. ListAPIs cluster_sdk c p w = (Inr apis, w)"
  by (simp add: ListAPIs_def cluster_sdk_def)

lemma EnableAPI_cluster:
  "\<exists>w'. EnableAPI cluster_env cluster_sdk c p api w = (None, w') \<and> cloud_kept w w'"
proof -
  let ?w = "w\<lparr>cl_now := cl_now w + Second\<rparr>"
  have "cloud_kept ?w (?w\<lparr>cl_services := ss\<rparr>)" for ss by simp
  then have "cloud_kept w (?w\<lparr>cl_services := ss\<rparr>)" for ss
    by (rule cloud_kept_trans [OF cloud_kept_time])
  then show ?thesis
    by (simp add: EnableAPI_def EnableAPI_loop.simps cluster_env_def cluster_sdk_def)
qed

lemma CreateCloudBillingAccount_cluster:
  "\<exists>w'. CreateCloudBillingAccount cluster_sdk c p account w = (None, w') \<and> cloud_kept w w'"
  by (simp add: CreateCloudBillingAccount_def cluster_sdk_def Let_def)

lemma GetIamPolicy_cluster: "GetIamPolicy cluster_sdk c p w = (Inr (normal_policy (cl_policies w p)), w)"
  by (simp add: GetIamPolicy_def cluster_sdk_def get_policy_def)

lemma SetIamPolicy_cluster:
  "pol_Etag policy = pol_Etag (cl_policies w (gc_projectName c)) \<Longrightarrow>
     \<exists>policy' w'. SetIamPolicy cluster_sdk c policy w = (Inr policy', w') \<and> cloud_kept w w'"
  by (simp add: SetIamPolicy_def cluster_sdk_def set_policy_def Let_def)

text \<open>The account a client looks for.\<close>

abbreviation the_account :: "string \<Rightarrow> string \<Rightarrow> string" where
  "the_account p name \<equiv> account_resource p (account_email p name)"

lemma account_resource_same [simp]:
  "service_account_resource \<lparr>gc_projectName = p, gc_creds = creds\<rparr>
     (name @ CHR ''@'' # p @ ''.iam.gserviceaccount.com'') = the_account p name"
  by (simp add: account_resource_def account_email_def service_account_resource_def)

lemma GetServiceAccount_absent:
  "\<not> has_account (the_account p name) w \<Longrightarrow>
     GetServiceAccount cluster_sdk \<lparr>gc_projectName = p, gc_creds = creds\<rparr> name w = (Inl google_not_found, w)"
  using find_account [of "the_account p name" w]
  by (simp add: GetServiceAccount_def cluster_sdk_def Let_def split: option.split)

lemma GetServiceAccount_present:
  assumes "has_account (the_account p name) w"
  obtains a where "GetServiceAccount cluster_sdk \<lparr>gc_projectName = p, gc_creds = creds\<rparr> name w = (Inr a, w)"
    and "a \<in> set (cl_accounts w)" and "sa_Name a = the_account p name"
proof -
  obtain a where a: "List.find (\<lambda>a. sa_Name a = the_account p name) (cl_accounts w) = Some a"
    using assms find_account by blast
  then have "a \<in> set (cl_accounts w)" "sa_Name a = the_account p name" by (auto simp: find_Some_iff)
  with a show thesis
    by (intro that) (simp_all add: GetServiceAccount_def cluster_sdk_def Let_def)
qed

lemma CreateServiceAccount_cluster:
  assumes "\<not> has_account (the_account p name) w"
  shows "\<exists>a w'. CreateServiceAccount cluster_sdk \<lparr>gc_projectName = p, gc_creds = creds\<rparr> name display w = (Inr a, w') \<and>
    cloud_kept w w' \<and> has_account (the_account p name) w'"
proof -
  let ?a = "\<lparr>sa_Email = account_email p name, sa_Name = the_account p name\<rparr>"
  have "?a \<notin> set (cl_accounts w)" using assms by (force simp: has_account_def)
  then show ?thesis
    by (simp add: CreateServiceAccount_def cluster_sdk_def Let_def) (simp add: has_account_def)
qed

lemma CreateServiceAccountKey_cluster:
  "\<exists>k w'. CreateServiceAccountKey cluster_env cluster_sdk c email w = (Inr k, w') \<and> cloud_kept w w' \<and>
     cl_secrets w' = cl_secrets w \<and> key_PrivateKeyData k = ''SS1hbS1mYWtlLXBhc3M=''"
  by (simp add: CreateServiceAccountKey_def cluster_sdk_def Let_def eval_nat_numeral)
    (simp add: bump_def)


subsection \<open>Billing, the project, the APIs\<close>

lemma client_of_sel [simp]:
  "g_GetServiceAccount (client_of env sdk c) = GetServiceAccount sdk c"
  "g_CreateServiceAccount (client_of env sdk c) = CreateServiceAccount sdk c"
  "g_DeleteServiceAccount (client_of env sdk c) = DeleteServiceAccount sdk c"
  "g_CreateServiceAccountKey (client_of env sdk c) = CreateServiceAccountKey env sdk c"
  "g_GetIamPolicy (client_of env sdk c) = GetIamPolicy sdk c"
  "g_SetIamPolicy (client_of env sdk c) = SetIamPolicy sdk c"
  "g_ListProjects (client_of env sdk c) = ListProjects sdk c"
  "g_CreateProject (client_of env sdk c) = CreateProject env sdk c"
  "g_DeleteProject (client_of env sdk c) = DeleteProject sdk c"
  "g_EnableAPI (client_of env sdk c) = EnableAPI env sdk c"
  "g_ListAPIs (client_of env sdk c) = ListAPIs sdk c"
  "g_CreateCloudBillingAccount (client_of env sdk c) = CreateCloudBillingAccount sdk c"
  "g_ListAvailabilityZones (client_of env sdk c) = ListAvailabilityZones sdk c"
  by (simp_all add: client_of_def)

lemma call_returns:
  assumes "f (rs_world s) = (v, w)" and "cloud_kept (rs_world s) w"
  shows "returns (on_world f) v s cloud_kept"
  using assms by (intro returnsI) (simp_all add: on_world_def)

lemma getProject_returns:
  "returns (getProject (provisioner p creds) n) (Inr (convertProjectsToMap (cl_projects (rs_world s)) n)) s cloud_kept"
  by (intro returnsI [of _ _ _ "rs_world s"])
    (simp_all add: getProject_def on_world_def ListProjects_def cluster_sdk_def)

lemma convertProjectsToMap_Some:
  "convertProjectsToMap xs n = Some x \<Longrightarrow> x \<in> set xs"
proof -
  have "foldl (\<lambda>m project. m(p_ProjectId project \<mapsto> project)) m xs n = Some x \<Longrightarrow> x \<in> set xs \<or> m n = Some x" for m
  proof (induction xs arbitrary: m)
    case (Cons a xs)
    from Cons.IH [of "m(p_ProjectId a \<mapsto> a)"] Cons.prems show ?case by (auto split: if_splits)
  qed simp
  then show "convertProjectsToMap xs n = Some x \<Longrightarrow> x \<in> set xs"
    unfolding convertProjectsToMap_def by fastforce
qed

lemma CreateProject_cluster:
  "\<exists>w'. CreateProject cluster_env cluster_sdk c folder name w = (None, w') \<and> cloud_kept w w'"
  by (auto simp: CreateProject_def cluster_sdk_def cluster_env_def Let_def google_conflict_def StatusConflict_def
      cloud_kept_def all_active_def has_account_def)

lemma createProject_returns:
  assumes "all_active (rs_world s)"
  shows "returns (createProject (provisioner p creds) folder) None s cloud_kept"
proof -
  let ?x = "convertProjectsToMap (cl_projects (rs_world s)) (reference_project s)"
  have get: "getProject (provisioner p creds) (reference_project s) s = (Inr ?x, s)"
    by (simp add: getProject_def on_world_def ListProjects_def cluster_sdk_def)
  show ?thesis
  proof (cases ?x)
    case None
    obtain w where "CreateProject cluster_env cluster_sdk \<lparr>gc_projectName = p, gc_creds = creds\<rparr> folder
        (pc_Name (rs_claim s)) (rs_world s) = (None, w)" "cloud_kept (rs_world s) w"
      using CreateProject_cluster by blast
    with None show ?thesis
      by (intro returnsI [of _ _ _ w]) (simp_all add: createProject_def get on_world_def)
  next
    case (Some x)
    then have "p_LifecycleState x = ''ACTIVE''"
      using assms convertProjectsToMap_Some by (auto simp: all_active_def)
    with Some show ?thesis by (intro returns_same) (simp_all add: createProject_def get)
  qed
qed

lemma link_billing_returns: "returns (link_billing (provisioner p creds)) None s cloud_kept"
proof -
  obtain w where "CreateCloudBillingAccount cluster_sdk \<lparr>gc_projectName = p, gc_creds = creds\<rparr> (reference_project s)
      (oc_BillingAccount cluster_config) (rs_world s) = (None, w)" "cloud_kept (rs_world s) w"
    using CreateCloudBillingAccount_cluster by blast
  then show ?thesis by (intro returnsI [of _ _ _ w]) (simp_all add: link_billing_def on_world_def)
qed

lemma EnableAPI_returns:
  "returns (on_world (g_EnableAPI (ra_gcpClient (provisioner p creds)) n api)) None s cloud_kept"
  using EnableAPI_cluster by (fastforce simp: intro: call_returns)

lemma ListAPIs_provisioner:
  "\<exists>apis. on_world (g_ListAPIs (ra_gcpClient (provisioner p creds)) n) s = (Inr apis, s)"
  by (auto simp: on_world_def ListAPIs_def cluster_sdk_def)

lemma configureBillingAPI_returns: "returns (configureBillingAPI (provisioner p creds)) None s cloud_kept"
proof -
  obtain apis where list: "on_world (g_ListAPIs (ra_gcpClient (provisioner p creds)) (reference_project s)) s = (Inr apis, s)"
    using ListAPIs_provisioner by blast
  obtain w where enable: "on_world (g_EnableAPI (ra_gcpClient (provisioner p creds)) (reference_project s) billing_api) s =
      (None, s\<lparr>rs_world := w\<rparr>)" and w: "cloud_kept (rs_world s) w"
    by (rule returnsE [OF EnableAPI_returns])
  obtain w1 where "link_billing (provisioner p creds) s = (None, s\<lparr>rs_world := w1\<rparr>)" "cloud_kept (rs_world s) w1"
    by (rule returnsE [OF link_billing_returns])
  moreover obtain w2 where "link_billing (provisioner p creds) (s\<lparr>rs_world := w\<rparr>) = (None, s\<lparr>rs_world := w2\<rparr>)" "cloud_kept w w2"
    by (rule returnsE [OF link_billing_returns [of p creds "s\<lparr>rs_world := w\<rparr>"]]) simp
  ultimately show ?thesis
    using list enable cloud_kept_trans [OF w]
    by (cases "Contains apis billing_api") (auto simp: configureBillingAPI_def returns_def)
qed

lemma enable_missing_apis_returns: "returns (enable_missing_apis (provisioner p creds) enabled apis) None s cloud_kept"
proof (induction apis arbitrary: s)
  case Nil
  show ?case by (intro returns_same) simp_all
next
  case (Cons api apis)
  show ?case
  proof (cases "Contains enabled api")
    case True
    from Cons.IH [of s] True show ?thesis by (simp add: returns_def)
  next
    case False
    obtain w where "on_world (g_EnableAPI (ra_gcpClient (provisioner p creds)) (reference_project s) api) s =
        (None, s\<lparr>rs_world := w\<rparr>)" and w: "cloud_kept (rs_world s) w"
      by (rule returnsE [OF EnableAPI_returns])
    moreover obtain w' where "enable_missing_apis (provisioner p creds) enabled apis (s\<lparr>rs_world := w\<rparr>) =
        (None, s\<lparr>rs_world := w'\<rparr>)" and "cloud_kept w w'"
      by (rule returnsE [OF Cons.IH [of "s\<lparr>rs_world := w\<rparr>"]]) simp
    ultimately show ?thesis using False cloud_kept_trans [OF w] by (auto simp: returns_def)
  qed
qed

lemma configureAPIS_returns: "returns (configureAPIS (provisioner p creds)) None s cloud_kept"
proof -
  obtain apis where "on_world (g_ListAPIs (ra_gcpClient (provisioner p creds)) (reference_project s)) s = (Inr apis, s)"
    using ListAPIs_provisioner by blast
  with enable_missing_apis_returns [of p creds apis OSDRequiredAPIS s] show ?thesis
    by (simp add: configureAPIS_def returns_def)
qed

lemma EnsureProjectCreated_returns:
  assumes "all_active (rs_world s)"
  shows "returns (EnsureProjectCreated (provisioner p creds)) ContinueProcessing s cloud_kept"
proof (cases "isCCS s")
  case True
  then show ?thesis by (intro returns_same) (simp_all add: EnsureProjectCreated_def)
next
  case False
  obtain w where create: "createProject (provisioner p creds) (oc_ParentFolderID cluster_config) s = (None, s\<lparr>rs_world := w\<rparr>)"
    and w: "cloud_kept (rs_world s) w"
    by (rule returnsE [OF createProject_returns [OF assms]])
  obtain w' where "configureBillingAPI (provisioner p creds) (s\<lparr>rs_world := w\<rparr>) = (None, s\<lparr>rs_world := w'\<rparr>)" "cloud_kept w w'"
    by (rule returnsE [OF configureBillingAPI_returns [of p creds "s\<lparr>rs_world := w\<rparr>"]]) simp
  with False create cloud_kept_trans [OF w] show ?thesis by (auto simp: EnsureProjectCreated_def returns_def)
qed

subsection \<open>Roles, accounts, credentials\<close>

lemma AddOrUpdateBindings_provisioner:
  "\<exists>modified policy. AddOrUpdateBindings (provisioner p creds) email roles mt s = (Inr (modified, policy), s) \<and>
     pol_Etag policy = pol_Etag (cl_policies (rs_world s) (reference_project s))"
  by (simp add: AddOrUpdateBindings_def on_world_def GetIamPolicy_cluster cluster_env_def case_prod_beta normal_policy_def)

lemma SetIAMPolicy_returns:
  assumes "reference_project s = p"
  shows "returns (SetIAMPolicy (provisioner p creds) email roles mt) None s cloud_kept"
proof -
  obtain modified policy where add: "AddOrUpdateBindings (provisioner p creds) email roles mt s = (Inr (modified, policy), s)"
    and etag: "pol_Etag policy = pol_Etag (cl_policies (rs_world s) p)"
    using AddOrUpdateBindings_provisioner assms by blast
  obtain policy' w where "SetIamPolicy cluster_sdk \<lparr>gc_projectName = p, gc_creds = creds\<rparr> policy (rs_world s) = (Inr policy', w)"
    and "cloud_kept (rs_world s) w"
    using SetIamPolicy_cluster [of policy "rs_world s" "\<lparr>gc_projectName = p, gc_creds = creds\<rparr>"] etag by auto
  then show ?thesis
    unfolding SetIAMPolicy_def returns_def
    by (cases modified) (auto simp: SetIAMPolicy_loop.simps [of _ _ _ _ 0] add on_world_def intro: exI [of _ "rs_world s"])
qed

lemma set_group_policies_returns:
  "reference_project s = p \<Longrightarrow> returns (set_group_policies (provisioner p creds) roles emails) None s cloud_kept"
proof (induction emails arbitrary: s)
  case Nil
  show ?case by (intro returns_same) simp_all
next
  case (Cons email emails)
  obtain w where "SetIAMPolicy (provisioner p creds) email roles GoogleGroup s = (None, s\<lparr>rs_world := w\<rparr>)"
    and w: "cloud_kept (rs_world s) w"
    by (rule returnsE [OF SetIAMPolicy_returns [OF Cons.prems]])
  moreover obtain w' where "set_group_policies (provisioner p creds) roles emails (s\<lparr>rs_world := w\<rparr>) = (None, s\<lparr>rs_world := w'\<rparr>)"
    and "cloud_kept w w'"
    by (rule returnsE [OF Cons.IH [of "s\<lparr>rs_world := w\<rparr>"]]) (simp_all add: Cons.prems)
  ultimately show ?case using cloud_kept_trans [OF w] by (auto simp: returns_def)
qed

lemma configure_console_access_returns:
  assumes "reference_project s = p"
  shows "returns (configure_console_access (provisioner p creds)) ContinueProcessing s cloud_kept"
proof -
  obtain w where "set_group_policies (provisioner p creds) OSDSREConsoleAccessRoles (oc_CCSConsoleAccess cluster_config) s =
      (None, s\<lparr>rs_world := w\<rparr>)" and w: "cloud_kept (rs_world s) w"
    by (rule returnsE [OF set_group_policies_returns [OF assms]])
  moreover obtain w' where "set_group_policies (provisioner p creds) OSDReadOnlyConsoleAccessRoles
      (oc_CCSReadOnlyConsoleAccess cluster_config) (s\<lparr>rs_world := w\<rparr>) = (None, s\<lparr>rs_world := w'\<rparr>)" and "cloud_kept w w'"
    by (rule returnsE [OF set_group_policies_returns [of "s\<lparr>rs_world := w\<rparr>"]]) (simp_all add: assms)
  ultimately show ?thesis using cloud_kept_trans [OF w] by (auto simp: configure_console_access_def returns_def)
qed

text \<open>The account is there afterwards.\<close>

definition kept_with_account :: "string \<Rightarrow> cluster \<Rightarrow> cluster \<Rightarrow> bool" where
  "kept_with_account resource cl cl' \<longleftrightarrow> cloud_kept cl cl' \<and> has_account resource cl'"

lemma grant_account_returns:
  assumes "reference_project s = p" and "has_account resource (rs_world s)"
  shows "returns (grant_account (provisioner p creds) roles account) ContinueProcessing s (kept_with_account resource)"
proof -
  obtain w where "SetIAMPolicy (provisioner p creds) (sa_Email account) roles ServiceAccount s = (None, s\<lparr>rs_world := w\<rparr>)"
    and w: "cloud_kept (rs_world s) w"
    by (rule returnsE [OF SetIAMPolicy_returns [OF assms(1)]])
  with assms(2) show ?thesis
    by (intro returnsI [of _ _ _ w]) (simp_all add: grant_account_def kept_with_account_def cloud_kept_def)
qed

lemma configureServiceAccount_returns:
  assumes p: "reference_project s = p"
  shows "returns (configureServiceAccount (provisioner p creds) roles) ContinueProcessing s
    (kept_with_account (the_account p (reference_account s)))"
proof (cases "has_account (the_account p (reference_account s)) (rs_world s)")
  case True
  then obtain a where "on_world (g_GetServiceAccount (ra_gcpClient (provisioner p creds)) (reference_account s)) s = (Inr a, s)"
    by (rule GetServiceAccount_present [of _ _ _ creds]) (simp add: on_world_def)
  with grant_account_returns [OF p True, of creds roles a] show ?thesis
    by (simp add: configureServiceAccount_def returns_def)
next
  case False
  let ?c = "\<lparr>gc_projectName = p, gc_creds = creds\<rparr>"
  have get: "on_world (g_GetServiceAccount (ra_gcpClient (provisioner p creds)) (reference_account s)) s =
      (Inl google_not_found, s)"
    using GetServiceAccount_absent [OF False] by (simp add: on_world_def)
  obtain a w where "CreateServiceAccount cluster_sdk ?c (reference_account s) (reference_account s) (rs_world s) = (Inr a, w)"
    and w: "cloud_kept (rs_world s) w" and there: "has_account (the_account p (reference_account s)) w"
    using CreateServiceAccount_cluster [OF False] by blast
  then have create: "on_world (g_CreateServiceAccount (ra_gcpClient (provisioner p creds)) (reference_account s)
      (reference_account s)) s = (Inr a, s\<lparr>rs_world := w\<rparr>)"
    by (simp add: on_world_def)
  obtain w' where "grant_account (provisioner p creds) roles a (s\<lparr>rs_world := w\<rparr>) = (ContinueProcessing, s\<lparr>rs_world := w'\<rparr>)"
    and "kept_with_account (the_account p (reference_account s)) w w'"
    by (rule returnsE [OF grant_account_returns [of "s\<lparr>rs_world := w\<rparr>" p "the_account p (reference_account s)"]])
      (simp_all add: p there)
  then show ?thesis
    using get create cloud_kept_trans [OF w]
    by (intro returnsI [of _ _ _ w']) (simp_all add: configureServiceAccount_def kept_with_account_def)
qed

lemma CreateSecret_cluster:
  assumes "cl_secrets w (meta_key (s_Meta x)) = None"
  shows "\<exists>obj w'. k_CreateSecret cluster_kube x w = ((None, obj), w') \<and> cloud_kept w w'"
  using assms by (simp add: cluster_kube_def with_secrets_def api_create_def Let_def)
    (simp add: cloud_kept_def all_active_def has_account_def bump_def)

lemma createCredentials_returns:
  assumes p: "reference_project s = p" and there: "has_account (the_account p (reference_account s)) (rs_world s)"
  shows "returns (createCredentials (provisioner p creds)) ContinueProcessing s cloud_kept"
proof -
  let ?ref = "pcs_GCPCredentialSecret (pc_Spec (rs_claim s))"
  have exists: "on_world (SecretExists cluster_kube (nn_Name ?ref) (nn_Namespace ?ref)) s = (cl_secrets (rs_world s) ?ref \<noteq> None, s)"
    by (simp add: on_world_def SecretExists_def cluster_kube_def api_get_def split: option.split)
  show ?thesis
  proof (cases "cl_secrets (rs_world s) ?ref")
    case (Some x)
    with exists show ?thesis by (intro returns_same) (simp_all add: createCredentials_def Let_def)
  next
    case None
    obtain a where get: "on_world (g_GetServiceAccount (ra_gcpClient (provisioner p creds)) (reference_account s)) s = (Inr a, s)"
      using there by (rule GetServiceAccount_present [of _ _ _ creds]) (simp add: on_world_def)
    obtain k w where key: "CreateServiceAccountKey cluster_env cluster_sdk \<lparr>gc_projectName = p, gc_creds = creds\<rparr> (sa_Email a)
        (rs_world s) = (Inr k, w)" and w: "cloud_kept (rs_world s) w" and same: "cl_secrets w = cl_secrets (rs_world s)" and data: "key_PrivateKeyData k = ''SS1hbS1mYWtlLXBhc3M=''"
      using CreateServiceAccountKey_cluster by blast
    obtain plain where plain: "b64_DecodeString ''SS1hbS1mYWtlLXBhc3M='' = Inr plain" using fake_key_decodes by blast
    let ?x = "NewGCPSecretCR plain (namespaced (nn_Namespace ?ref) (nn_Name ?ref))"
    have "cl_secrets w (meta_key (s_Meta ?x)) = None"
      using None by (simp add: same NewGCPSecretCR_def meta_key_def)
    then obtain obj w' where "k_CreateSecret cluster_kube ?x w = ((None, obj), w')" and "cloud_kept w w'"
      using CreateSecret_cluster by blast
    then show ?thesis
      using None exists get key data plain cloud_kept_trans [OF w]
      by (intro returnsI [of _ _ _ w']) (simp_all add: createCredentials_def store_key_def on_world_def Let_def)
  qed
qed

lemma EnsureProjectConfigured_returns:
  assumes p: "reference_project s = p"
  shows "returns (EnsureProjectConfigured (provisioner p creds)) ContinueProcessing s cloud_kept"
proof -
  let ?r = "provisioner p creds" and ?at = "the_account p (reference_account s)"
  obtain w1 where apis: "configureAPIS ?r s = (None, s\<lparr>rs_world := w1\<rparr>)" and w1: "cloud_kept (rs_world s) w1"
    by (rule returnsE [OF configureAPIS_returns])
  let ?s1 = "s\<lparr>rs_world := w1\<rparr>"
  obtain w2 where account: "configureServiceAccount ?r (required_roles ?s1) ?s1 = (ContinueProcessing, s\<lparr>rs_world := w2\<rparr>)"
    and w2: "cloud_kept w1 w2" and there: "has_account ?at w2"
    by (rule returnsE [OF configureServiceAccount_returns [of ?s1 p creds "required_roles ?s1"]])
      (simp_all add: p kept_with_account_def)
  let ?s2 = "s\<lparr>rs_world := w2\<rparr>"
  obtain w3 where credentials: "createCredentials ?r ?s2 = (ContinueProcessing, s\<lparr>rs_world := w3\<rparr>)" and w3: "cloud_kept w2 w3"
    by (rule returnsE [OF createCredentials_returns [of ?s2 p creds]]) (simp_all add: p there)
  obtain w4 where console: "configure_console_access ?r (s\<lparr>rs_world := w3\<rparr>) = (ContinueProcessing, s\<lparr>rs_world := w4\<rparr>)"
    and w4: "cloud_kept w3 w4"
    by (rule returnsE [OF configure_console_access_returns [of "s\<lparr>rs_world := w3\<rparr>" p creds]]) (simp_all add: p)
  have kept: "cloud_kept (rs_world s) w3" by (rule cloud_kept_trans [OF cloud_kept_trans [OF w1 w2] w3])
  have go: "\<not> RequeueRequest (fst ContinueProcessing)" "snd ContinueProcessing = None"
    by (simp_all add: outcome_defs)
  show ?thesis
  proof (cases "isCCS s")
    case True
    then show ?thesis
      using cloud_kept_trans [OF kept w4] apis account credentials console go
      by (intro returnsI [of _ _ _ w4]) (simp_all add: EnsureProjectConfigured_def isCCS_def case_prod_beta)
  next
    case False
    then show ?thesis
      using kept apis account credentials go
      by (intro returnsI [of _ _ _ w3]) (simp_all add: EnsureProjectConfigured_def isCCS_def case_prod_beta)
  qed
qed

end
