(* ===== verification/ReferenceProgress.thy ===== *)
theory ReferenceProgress
  imports Provisioning
begin

text \<open>
  Progress of a reference: one \<^verbatim>\<open>Reconcile\<close> of it on the API server and the cloud of \<^verbatim>\<open>Cluster\<close> makes the
  next step, up to the point where the claim is Ready.
\<close>

subsection \<open>Writes of the reference controller that succeed\<close>

text \<open>
  A handler in the middle of its work: what it holds in memory is what the API server stores, and the
  surroundings are as they were in \<^verbatim>\<open>cl\<close>.
\<close>

definition environs_kept :: "cluster \<Rightarrow> cluster \<Rightarrow> bool" where
  "environs_kept cl cl' \<longleftrightarrow> cl_configmaps cl' = cl_configmaps cl \<and>
     (\<forall>nn. cl_secrets cl nn \<noteq> None \<longrightarrow> secret_data cl' nn = secret_data cl nn) \<and>
     (all_active cl \<longrightarrow> all_active cl')"

lemma environs_kept_refl [simp]: "environs_kept cl cl"
  by (simp add: environs_kept_def)

lemma environs_kept_secrets: "environs_kept cl cl' \<Longrightarrow> cl_secrets cl nn \<noteq> None \<Longrightarrow> cl_secrets cl' nn \<noteq> None"
  unfolding environs_kept_def by (metis secret_data_None)

lemma environs_kept_trans:
  assumes ab: "environs_kept a b" and bc: "environs_kept b c" shows "environs_kept a c"
proof -
  have "secret_data c nn = secret_data a nn" if "cl_secrets a nn \<noteq> None" for nn
    using ab bc that environs_kept_secrets [OF ab that] by (simp add: environs_kept_def)
  with ab bc show ?thesis by (simp add: environs_kept_def)
qed

lemma cloud_kept_environs: "cloud_kept cl cl' \<Longrightarrow> environs_kept cl cl'"
  by (simp add: cloud_kept_def environs_kept_def secret_data_def)

lemma surroundings_kept_environs: "surroundings_kept c cl cl' \<Longrightarrow> environs_kept cl cl'"
  by (simp add: surroundings_kept_def environs_kept_def all_active_def)

definition holding :: "cluster \<Rightarrow> cluster reference_state \<Rightarrow> bool" where
  "holding cl s \<longleftrightarrow>
     cl_claims (rs_world s) (meta_key (pc_Meta (rs_claim s))) = Some (rs_claim s) \<and>
     cl_references (rs_world s) (meta_key (pr_Meta (rs_reference s))) = Some (rs_reference s) \<and>
     om_DeletionTimestamp (pc_Meta (rs_claim s)) = None \<and>
     om_DeletionTimestamp (pr_Meta (rs_reference s)) = None \<and> environs_kept cl (rs_world s)"

definition store_reference :: "ProjectReference \<Rightarrow> cluster \<Rightarrow> cluster" where
  "store_reference r cl = bump (cl\<lparr>cl_references :=
     (cl_references cl)(meta_key (pr_Meta r) \<mapsto> versioned (show_nat (cl_version cl)) r)\<rparr>)"

lemma environs_stored [simp]: "environs_kept cl (store_reference r w) = environs_kept cl w"
  "environs_kept cl (store c w) = environs_kept cl w" "environs_kept cl (bump w) = environs_kept cl w"
  by (simp_all add: environs_kept_def store_reference_def store_def bump_def secret_data_def all_active_def)

lemma status_write_reference:
  assumes s: "holding cl s" and x: "pr_Meta x = pr_Meta (rs_reference s)" "pr_Spec x = pr_Spec (rs_reference s)"
    and w: "rs_world t = rs_world s" "rs_claim t = rs_claim s" "rs_reference t = x"
  obtains v where "ref_status_update (provisioner p creds) t = (None, t\<lparr>rs_reference := versioned v x,
      rs_world := store_reference x (rs_world s)\<rparr>)"
    and "holding cl (t\<lparr>rs_reference := versioned v x, rs_world := store_reference x (rs_world s)\<rparr>)"
proof
  let ?v = "show_nat (cl_version (rs_world s))"
  show "ref_status_update (provisioner p creds) t = (None, t\<lparr>rs_reference := versioned ?v x,
      rs_world := store_reference x (rs_world s)\<rparr>)"
    using assms by (cases x; cases "rs_reference s"; cases "pr_Meta x")
      (simp add: ref_status_update_def holding_def cluster_kube_def with_references_def api_update_def Let_def
        set_pr_meta_def versioned_def store_reference_def bump_def)
  show "holding cl (t\<lparr>rs_reference := versioned ?v x, rs_world := store_reference x (rs_world s)\<rparr>)"
    using assms by (auto simp: holding_def store_reference_def bump_def versioned_def environs_kept_def secret_data_def
        all_active_def)
qed

lemma write_reference:
  assumes s: "holding cl s" and x: "meta_key (pr_Meta x) = meta_key (pr_Meta (rs_reference s))"
      "om_ResourceVersion (pr_Meta x) = om_ResourceVersion (pr_Meta (rs_reference s))"
      "om_DeletionTimestamp (pr_Meta x) = None" "pr_Status x = pr_Status (rs_reference s)"
    and w: "cloud_kept (rs_world s) (rs_world t)" "rs_claim t = rs_claim s" "rs_reference t = x"
  obtains v where "ref_update (provisioner p creds) t = (None, t\<lparr>rs_reference := versioned v x,
      rs_world := store_reference x (rs_world t)\<rparr>)"
    and "holding cl (t\<lparr>rs_reference := versioned v x, rs_world := store_reference x (rs_world t)\<rparr>)"
proof
  let ?v = "show_nat (cl_version (rs_world t))"
  have env: "environs_kept cl (rs_world t)"
    using s environs_kept_trans [OF _ cloud_kept_environs [OF w(1)]] by (simp add: holding_def)
  show "ref_update (provisioner p creds) t = (None, t\<lparr>rs_reference := versioned ?v x,
      rs_world := store_reference x (rs_world t)\<rparr>)"
    using assms by (cases x; cases "pr_Meta x")
      (simp add: ref_update_def holding_def cluster_kube_def with_references_def api_update_def Let_def
        set_pr_meta_def versioned_def store_reference_def bump_def cloud_kept_def)
  show "holding cl (t\<lparr>rs_reference := versioned ?v x, rs_world := store_reference x (rs_world t)\<rparr>)"
    using assms env by (auto simp: holding_def cloud_kept_def)
      (auto simp: store_reference_def bump_def versioned_def)
qed

lemma write_claim:
  assumes s: "holding cl s" and x: "pc_Meta x = pc_Meta (rs_claim s)" "pc_Status x = pc_Status (rs_claim s)"
  shows "ref_update_claim (provisioner p creds) (s\<lparr>rs_claim := x\<rparr>) =
      (None, s\<lparr>rs_claim := stamped (cl_version (rs_world s)) x, rs_world := store x (rs_world s)\<rparr>)"
    and "holding cl (s\<lparr>rs_claim := stamped (cl_version (rs_world s)) x, rs_world := store x (rs_world s)\<rparr>)"
proof -
  have "k_UpdateProjectClaim cluster_kube x (rs_world s) =
      ((None, stamped (cl_version (rs_world s)) x), store x (rs_world s))"
    using assms by (intro update_stores [of _ _ "rs_claim s"]) (simp_all add: holding_def)
  then show "ref_update_claim (provisioner p creds) (s\<lparr>rs_claim := x\<rparr>) =
      (None, s\<lparr>rs_claim := stamped (cl_version (rs_world s)) x, rs_world := store x (rs_world s)\<rparr>)"
    by (simp add: ref_update_claim_def)
  show "holding cl (s\<lparr>rs_claim := stamped (cl_version (rs_world s)) x, rs_world := store x (rs_world s)\<rparr>)"
    using assms by (simp add: holding_def) (simp add: store_def bump_def)
qed

lemma status_write_claim:
  assumes s: "holding cl s" and x: "pc_Meta x = pc_Meta (rs_claim s)" "pc_Spec x = pc_Spec (rs_claim s)"
  shows "ref_status_update_claim (provisioner p creds) (s\<lparr>rs_claim := x\<rparr>) =
      (None, s\<lparr>rs_claim := stamped (cl_version (rs_world s)) x, rs_world := store x (rs_world s)\<rparr>)"
    and "holding cl (s\<lparr>rs_claim := stamped (cl_version (rs_world s)) x, rs_world := store x (rs_world s)\<rparr>)"
proof -
  have "k_StatusUpdateProjectClaim cluster_kube x (rs_world s) =
      ((None, stamped (cl_version (rs_world s)) x), store x (rs_world s))"
    using assms by (intro status_stores [of _ _ "rs_claim s"]) (simp_all add: holding_def)
  then show "ref_status_update_claim (provisioner p creds) (s\<lparr>rs_claim := x\<rparr>) =
      (None, s\<lparr>rs_claim := stamped (cl_version (rs_world s)) x, rs_world := store x (rs_world s)\<rparr>)"
    by (simp add: ref_status_update_claim_def)
  show "holding cl (s\<lparr>rs_claim := stamped (cl_version (rs_world s)) x, rs_world := store x (rs_world s)\<rparr>)"
    using assms by (simp add: holding_def) (simp add: store_def bump_def)
qed

subsection \<open>The condition that ends a run\<close>

text \<open>What matters of a reference for what happens next.\<close>

definition core :: "ProjectReference \<Rightarrow> ProjectReference" where
  "core r = versioned '''' (set_reference_conditions (map_option (\<lambda>_. []) (pr_Conditions r)) r)"

lemma core_versioned [simp]: "core (versioned v r) = core r"
  by (simp add: core_def) (simp add: versioned_def set_reference_conditions_def)

lemma core_conditions [simp]: "core (set_reference_conditions (Some cs) r) = core r" if "pr_Conditions r \<noteq> None"
  using that by (auto simp: core_def set_reference_conditions_def versioned_def)

text \<open>Conditions that were set in memory may not have been stored yet.\<close>

definition holding_but :: "cluster \<Rightarrow> cluster reference_state \<Rightarrow> bool" where
  "holding_but cl s \<longleftrightarrow> elems (pr_Conditions (rs_reference s)) \<noteq> [] \<and>
     (\<exists>r. holding cl (s\<lparr>rs_reference := r\<rparr>) \<and> pr_Meta r = pr_Meta (rs_reference s) \<and> pr_Spec r = pr_Spec (rs_reference s))"

lemma ref_set_condition_cluster:
  "\<exists>cs. ref_set_condition (provisioner p creds) t st reason message s =
     s\<lparr>rs_reference := set_reference_conditions (Some cs) (rs_reference s)\<rparr> \<and> cs \<noteq> []"
proof -
  let ?cs = "cm_SetCondition NewConditionManager (cl_now (rs_world s)) (pr_Conditions (rs_reference s)) t st reason message"
  obtain cs where cs: "?cs = Some cs" using conds.set_not_nil by blast
  have "condition_view ?cs t \<noteq> None" by (simp add: conds.set_view)
  with cs have "cs \<noteq> []" by (auto simp: condition_view_def)
  with cs show ?thesis by (auto simp: ref_set_condition_def on_world_def cluster_env_def)
qed

lemma final_condition:
  assumes "holding cl s \<or> holding_but cl s"
  obtains s' where "snd (SetProjectReferenceCondition (provisioner p creds) reason None s) = s'" and "holding cl s'"
    and "rs_claim s' = rs_claim s" and "core (rs_reference s') = core (rs_reference s)"
proof (cases "elems (pr_Conditions (rs_reference s)) = []")
  case True
  with assms have "holding cl s" by (simp add: holding_but_def)
  with True show thesis by (intro that [of s]) (simp_all add: SetProjectReferenceCondition_def)
next
  case False
  obtain r where r: "holding cl (s\<lparr>rs_reference := r\<rparr>)" "pr_Meta r = pr_Meta (rs_reference s)" "pr_Spec r = pr_Spec (rs_reference s)"
    using assms
  proof
    assume "holding cl s"
    then have "holding cl (s\<lparr>rs_reference := rs_reference s\<rparr>)" by simp
    then show thesis by (rule that) simp_all
  qed (auto simp: holding_but_def)
  obtain cs where set: "ref_set_condition (provisioner p creds) ConditionError ConditionFalse (reason @ ''Resolved'') '''' s =
      s\<lparr>rs_reference := set_reference_conditions (Some cs) (rs_reference s)\<rparr>"
    using ref_set_condition_cluster by blast
  let ?x = "set_reference_conditions (Some cs) (rs_reference s)"
  obtain v where "ref_status_update (provisioner p creds) (s\<lparr>rs_reference := ?x\<rparr>) =
      (None, s\<lparr>rs_reference := versioned v ?x, rs_world := store_reference ?x (rs_world s)\<rparr>)"
    and "holding cl (s\<lparr>rs_reference := versioned v ?x, rs_world := store_reference ?x (rs_world s)\<rparr>)"
    by (rule status_write_reference [OF r(1), of ?x "s\<lparr>rs_reference := ?x\<rparr>" p creds]) (simp_all add: r)
  moreover have "core ?x = core (rs_reference s)" using False by (intro core_conditions) (cases "pr_Conditions (rs_reference s)"; simp)
  ultimately show thesis
    using False by (intro that [of "s\<lparr>rs_reference := versioned v ?x, rs_world := store_reference ?x (rs_world s)\<rparr>"])
      (auto simp: SetProjectReferenceCondition_def reference_StatusUpdate_def set)
qed

subsection \<open>What is left to do\<close>

definition named :: "ProjectReference \<Rightarrow> bool" where
  "named r \<longleftrightarrow> serviceNameAlreadyGenerated r \<or> serviceNameAlreadyFilled r"

definition reference_left :: "ProjectReference \<Rightarrow> nat" where
  "reference_left r = of_bool (pr_Conditions r = None) +
     (if pr_State r = ProjectReferenceStatusReady then 0
      else of_bool (pr_State r = '''') + of_bool (prs_GCPProjectID (pr_Spec r) = '''') + of_bool (\<not> named r) +
        of_bool (FinalizerName \<notin> set (om_Finalizers (pr_Meta r))) + 1)"

definition ready_left :: "ProjectClaim \<Rightarrow> ProjectReference \<Rightarrow> nat" where
  "ready_left c r = (if pc_State c = ClaimStatusReady then 0
     else of_bool (pcs_AvailabilityZones (pc_Spec c) = []) + 1 + reference_left r)"

definition attached :: "ProjectClaim \<Rightarrow> ProjectReference \<Rightarrow> bool" where
  "attached c r \<longleftrightarrow> meta_key (pr_Meta r) = ref_key (meta_key (pc_Meta c)) \<and> link_of r = meta_key (pc_Meta c) \<and>
     om_DeletionTimestamp (pr_Meta r) = None \<and> ProjectReference_Validate r = None \<and>
     prs_CCS (pr_Spec r) = pcs_CCS (pc_Spec c) \<and> prs_CCSSecretRef (pr_Spec r) = pcs_CCSSecretRef (pc_Spec c) \<and>
     pr_State r \<in> {'''', ProjectReferenceStatusCreating, ProjectReferenceStatusReady}"

lemma core_sel:
  assumes "core r' = core r"
  shows "pr_Spec r' = pr_Spec r" and "pr_State r' = pr_State r" and "pr_Conditions r' = None \<longleftrightarrow> pr_Conditions r = None"
    and "om_Finalizers (pr_Meta r') = om_Finalizers (pr_Meta r)" and "meta_key (pr_Meta r') = meta_key (pr_Meta r)"
    and "om_DeletionTimestamp (pr_Meta r') = om_DeletionTimestamp (pr_Meta r)"
  using assms by (cases r; cases r'; cases "pr_Status r"; cases "pr_Status r'"; cases "pr_Meta r"; cases "pr_Meta r'";
      auto simp: core_def versioned_def set_reference_conditions_def meta_key_def)+

lemma core_kept:
  assumes "core r' = core r"
  shows "attached c r' = attached c r" and "ready_left c r' = ready_left c r" and "reference_left r' = reference_left r"
  using core_sel [OF assms]
  by (simp_all add: attached_def ready_left_def reference_left_def named_def serviceNameAlreadyGenerated_def
      serviceNameAlreadyFilled_def ProjectReference_Validate_def)

subsection \<open>The steps of the handler\<close>

text \<open>
  What a step does to the claim and the reference: they stay attached, and there is less left of them
  to do.
\<close>

definition claim_fit :: "ProjectClaim \<Rightarrow> ProjectClaim \<Rightarrow> bool" where
  "claim_fit c c' \<longleftrightarrow> meta_key (pc_Meta c') = meta_key (pc_Meta c) \<and>
     om_DeletionTimestamp (pc_Meta c') = om_DeletionTimestamp (pc_Meta c) \<and> is_fake c' = is_fake c \<and>
     ProjectClaim_Validate c' = ProjectClaim_Validate c \<and> pc_Conditions c' = pc_Conditions c \<and>
     pc_State c' \<in> {pc_State c, ClaimStatusReady} \<and> steps_left c' \<le> steps_left c \<and>
     pcs_CCS (pc_Spec c') = pcs_CCS (pc_Spec c) \<and> pcs_CCSSecretRef (pc_Spec c') = pcs_CCSSecretRef (pc_Spec c) \<and>
     pcs_Region (pc_Spec c') = pcs_Region (pc_Spec c) \<and>
     (pcs_AvailabilityZones (pc_Spec c) \<noteq> [] \<longrightarrow> pcs_AvailabilityZones (pc_Spec c') \<noteq> [])"

lemma claim_fit_refl [simp]: "claim_fit c c"
  by (simp add: claim_fit_def)

text \<open>A handler that stops without an error, with what it holds stored.\<close>

definition ends_well :: "cluster \<Rightarrow> (ctrl_Result \<times> err option) \<times> cluster reference_state \<Rightarrow> (ProjectClaim \<Rightarrow> ProjectReference \<Rightarrow> bool) \<Rightarrow> bool" where
  "ends_well cl x Q \<longleftrightarrow> snd (fst x) = None \<and> (holding cl (snd x) \<or> holding_but cl (snd x)) \<and>
     Q (rs_claim (snd x)) (rs_reference (snd x))"

lemma ends_wellI:
  "x = ((res, None), s) \<Longrightarrow> holding cl s \<or> holding_but cl s \<Longrightarrow> Q (rs_claim s) (rs_reference s) \<Longrightarrow> ends_well cl x Q"
  by (simp add: ends_well_def)

definition less_left :: "ProjectClaim \<Rightarrow> ProjectReference \<Rightarrow> ProjectClaim \<Rightarrow> ProjectReference \<Rightarrow> bool" where
  "less_left c r c' r' \<longleftrightarrow> claim_fit c c' \<and> attached c' r' \<and> credential_secret r' = credential_secret r \<and>
     ready_left c' r' \<le> ready_left c r \<and>
     (pc_State c = ClaimStatusPendingProject \<longrightarrow> ready_left c' r' < ready_left c r)"

lemma stops_well:
  "op s = (StopProcessing, s') \<Longrightarrow> holding cl s' \<Longrightarrow> Q (rs_claim s') (rs_reference s') \<Longrightarrow>
     ends_well cl (run_operations (op # ops) s) Q"
  by (simp add: ends_well_def)

lemma versioned_more [simp]:
  "attached c (versioned v r) = attached c r" "reference_left (versioned v r) = reference_left r"
  "ready_left c (versioned v r) = ready_left c r" "credential_secret (versioned v r) = credential_secret r"
  by (simp_all add: core_kept [OF core_versioned]) (simp add: credential_secret_def)

lemma named_spec: "pr_Spec r' = pr_Spec r \<Longrightarrow> named r' = named r"
  by (simp add: named_def serviceNameAlreadyGenerated_def serviceNameAlreadyFilled_def)

lemma named_kept [simp]:
  "named (versioned v r) = named r" "named (set_reference_conditions cs r) = named r" "named (set_reference_state st r) = named r"
  by (rule named_spec; simp)+

lemma attached_status:
  "attached c r \<Longrightarrow> pr_Meta r' = pr_Meta r \<Longrightarrow> pr_Spec r' = pr_Spec r \<Longrightarrow>
     pr_State r' \<in> {'''', ProjectReferenceStatusCreating, ProjectReferenceStatusReady} \<Longrightarrow> attached c r'"
  by (simp add: attached_def ProjectReference_Validate_def)

lemma status_less_left:
  assumes "attached c r" and "pr_Meta r' = pr_Meta r" "pr_Spec r' = pr_Spec r"
    and "pr_State r' \<in> {'''', ProjectReferenceStatusCreating, ProjectReferenceStatusReady}"
    and "reference_left r' < reference_left r"
  shows "less_left c r c (versioned v r')"
  using attached_status [OF assms(1-4)] assms(3,5) by (simp add: less_left_def ready_left_def credential_secret_def)

lemma initialize_ends:
  assumes s: "holding cl s" and r: "attached (rs_claim s) (rs_reference s)" and nil: "pr_Conditions (rs_reference s) = None"
  shows "ends_well cl (reference_ReconcileHandler (provisioner p creds) s) (less_left (rs_claim s) (rs_reference s))"
proof -
  let ?x = "set_reference_conditions (Some []) (rs_reference s)"
  obtain v where stored: "ref_status_update (provisioner p creds) (s\<lparr>rs_reference := ?x\<rparr>) =
      (None, s\<lparr>rs_reference := versioned v ?x, rs_world := store_reference ?x (rs_world s)\<rparr>)"
    and kept: "holding cl (s\<lparr>rs_reference := versioned v ?x, rs_world := store_reference ?x (rs_world s)\<rparr>)"
    by (rule status_write_reference [OF s, of ?x "s\<lparr>rs_reference := ?x\<rparr>" p creds]) simp_all
  then have run: "EnsureProjectReferenceInitialized (provisioner p creds) s =
      (StopProcessing, s\<lparr>rs_reference := versioned v ?x, rs_world := store_reference ?x (rs_world s)\<rparr>)"
    by (simp add: EnsureProjectReferenceInitialized_def reference_StatusUpdate_def nil)
  have "less_left (rs_claim s) (rs_reference s) (rs_claim s) (versioned v ?x)"
    using r nil by (intro status_less_left) (auto simp: attached_def reference_left_def)
  with run kept show ?thesis
    unfolding reference_ReconcileHandler_def reference_operations_def by (intro stops_well) (assumption | simp)+
qed

text \<open>The operations of a reference whose conditions are there.\<close>

lemma initialized_run:
  assumes "pr_Conditions (rs_reference s) \<noteq> None" and "om_DeletionTimestamp (pr_Meta (rs_reference s)) = None"
  shows "reference_ReconcileHandler r s = run_operations (drop 2 (reference_operations r)) s"
proof -
  have "EnsureProjectReferenceInitialized r s = (ContinueProcessing, s)" "EnsureDeletionProcessed r s = (ContinueProcessing, s)"
    using assms by (auto simp: EnsureProjectReferenceInitialized_def EnsureDeletionProcessed_def IsDeletionRequested_def)
  then show ?thesis by (simp add: reference_ReconcileHandler_def reference_operations_def)
qed

lemma waiting_run:
  assumes "pr_Conditions (rs_reference s) \<noteq> None" and "om_DeletionTimestamp (pr_Meta (rs_reference s)) = None"
    and "pr_State (rs_reference s) \<noteq> ProjectReferenceStatusReady"
  shows "reference_ReconcileHandler r s = run_operations (drop 3 (reference_operations r)) s"
  using assms by (simp add: initialized_run [OF assms(1,2)] reference_operations_def EnsureProjectClaimReady_def)

lemma unpromised_ends:
  assumes s: "holding cl s" and r: "attached (rs_claim s) (rs_reference s)"
    and "pr_Conditions (rs_reference s) \<noteq> None" "pr_State (rs_reference s) \<noteq> ProjectReferenceStatusReady"
    and wait: "pc_State (rs_claim s) \<noteq> ClaimStatusPendingProject"
  shows "ends_well cl (reference_ReconcileHandler (provisioner p creds) s) (less_left (rs_claim s) (rs_reference s))"
proof -
  have "om_DeletionTimestamp (pr_Meta (rs_reference s)) = None" using r by (simp add: attached_def)
  note run = waiting_run [OF assms(3) this assms(4), of "provisioner p creds"]
  have "reference_ReconcileHandler (provisioner p creds) s =
      ((\<lparr>cr_Requeue = False, cr_RequeueAfter = 5 * Second\<rparr>, None), s)"
    using wait by (simp add: run reference_operations_def VerifyProjectClaimPending_def) (simp add: outcome_defs handler_result_def)
  then show ?thesis
    by (rule ends_wellI) (use s r wait in \<open>simp_all add: less_left_def\<close>)
qed

text \<open>A claim that is promised its project: the operations that prepare the reference.\<close>

definition prepares :: "cluster reference_state \<Rightarrow> bool" where
  "prepares s \<longleftrightarrow> pr_Conditions (rs_reference s) \<noteq> None \<and>
     pr_State (rs_reference s) \<noteq> ProjectReferenceStatusReady \<and> pc_State (rs_claim s) = ClaimStatusPendingProject \<and>
     attached (rs_claim s) (rs_reference s)"

lemma promised_run:
  assumes "prepares s"
  shows "reference_ReconcileHandler r s = run_operations (drop 4 (reference_operations r)) s"
proof -
  have "pr_Conditions (rs_reference s) \<noteq> None" "om_DeletionTimestamp (pr_Meta (rs_reference s)) = None"
    "pr_State (rs_reference s) \<noteq> ProjectReferenceStatusReady"
    using assms by (auto simp: prepares_def attached_def)
  from waiting_run [OF this, of r] assms show ?thesis
    by (simp add: reference_operations_def VerifyProjectClaimPending_def prepares_def)
qed

text \<open>The operation that stops the run, after \<^verbatim>\<open>n\<close> that have nothing to do.\<close>

lemma promised_stops:
  assumes "prepares s" and "op s = (StopProcessing, s')" and "holding cl s'" and "Q (rs_claim s') (rs_reference s')"
    and "\<forall>skipped\<in>set (take n (drop 4 (reference_operations r))). skipped s = (ContinueProcessing, s)"
    and "drop (n + 4) (reference_operations r) = op # ops"
  shows "ends_well cl (reference_ReconcileHandler r s) Q"
proof -
  have skip: "\<forall>op\<in>set ops. op s = (ContinueProcessing, s) \<Longrightarrow> run_operations (ops @ rest) s = run_operations rest s" for ops rest
    by (induction ops) simp_all
  have "drop 4 (reference_operations r) = take n (drop 4 (reference_operations r)) @ op # ops"
    using assms(6) append_take_drop_id [of n "drop 4 (reference_operations r)"] by (simp add: add.commute)
  then have "run_operations (drop 4 (reference_operations r)) s = run_operations (op # ops) s"
    using skip [OF assms(5), of "op # ops"] by simp
  with stops_well [of op s s' cl Q ops] assms(2-4) show ?thesis by (simp add: promised_run [OF assms(1)])
qed

lemma creating_ends:
  assumes s: "holding cl s" and p: "prepares s" and st: "pr_State (rs_reference s) = ''''"
  shows "ends_well cl (reference_ReconcileHandler (provisioner p creds) s) (less_left (rs_claim s) (rs_reference s))"
proof -
  let ?x = "set_reference_state ProjectReferenceStatusCreating (rs_reference s)"
  obtain v where stored: "ref_status_update (provisioner p creds) (s\<lparr>rs_reference := ?x\<rparr>) =
      (None, s\<lparr>rs_reference := versioned v ?x, rs_world := store_reference ?x (rs_world s)\<rparr>)"
    and kept: "holding cl (s\<lparr>rs_reference := versioned v ?x, rs_world := store_reference ?x (rs_world s)\<rparr>)"
    by (rule status_write_reference [OF s, of ?x "s\<lparr>rs_reference := ?x\<rparr>" p creds]) simp_all
  then have run: "EnsureProjectReferenceStatusCreating (provisioner p creds) s =
      (StopProcessing, s\<lparr>rs_reference := versioned v ?x, rs_world := store_reference ?x (rs_world s)\<rparr>)"
    by (simp add: EnsureProjectReferenceStatusCreating_def set_ref_state_def st)
  have "less_left (rs_claim s) (rs_reference s) (rs_claim s) (versioned v ?x)"
    using p st by (intro status_less_left) (auto simp: prepares_def reference_left_def)
  with run kept show ?thesis
    by (intro promised_stops [where n = 0, OF p]) (assumption | simp add: reference_operations_def)+
qed

text \<open>A change of the specification or the finalizers, with the conditions as they are.\<close>

lemma change_less_left:
  assumes "prepares s" and "meta_key (pr_Meta x) = meta_key (pr_Meta (rs_reference s))"
    and "om_DeletionTimestamp (pr_Meta x) = None" and "pr_Status x = pr_Status (rs_reference s)"
    and "link_of x = link_of (rs_reference s)" "prs_CCSSecretRef (pr_Spec x) = prs_CCSSecretRef (pr_Spec (rs_reference s))"
    and "prs_CCS (pr_Spec x) = prs_CCS (pr_Spec (rs_reference s))"
    and "reference_left x < reference_left (rs_reference s)"
  shows "less_left (rs_claim s) (rs_reference s) (rs_claim s) (versioned v x)"
proof -
  have "attached (rs_claim s) x"
    using assms by (auto simp: prepares_def attached_def ProjectReference_Validate_None)
  with assms show ?thesis by (auto simp: less_left_def prepares_def ready_left_def credential_secret_def)
qed

lemma promised_skips:
  assumes "prepares s" and "pr_State (rs_reference s) \<noteq> ''''"
  shows "EnsureProjectReferenceStatusCreating r s = (ContinueProcessing, s)"
    and "reference_project s \<noteq> '''' \<Longrightarrow> EnsureProjectID r s = (ContinueProcessing, s)"
    and "named (rs_reference s) \<Longrightarrow> EnsureServiceAccountName r s = (ContinueProcessing, s)"
    and "FinalizerName \<in> set (reference_finalizers s) \<Longrightarrow> EnsureFinalizerAdded r s = (ContinueProcessing, s)"
  using assms by (auto simp: EnsureProjectReferenceStatusCreating_def EnsureProjectID_def named_def
      EnsureServiceAccountName_def EnsureFinalizerAdded_def)

lemma promised_cases: "prepares s \<Longrightarrow> pr_Conditions (rs_reference s) \<noteq> None \<and>
    pr_State (rs_reference s) \<noteq> ProjectReferenceStatusReady \<and> om_DeletionTimestamp (pr_Meta (rs_reference s)) = None"
  by (auto simp: prepares_def attached_def)

lemma cluster_env_fresh [simp]:
  "env_NewUUID cluster_env w = (''uuid-'' @ show_nat (cl_version w), bump w)"
  "env_RandString cluster_env n w = (replicate n (CHR ''x''), bump w)"
  by (simp_all add: cluster_env_def)

lemma project_id_nonempty: "project_id_of_uuid guid \<noteq> ''''"
  by (simp add: project_id_of_uuid_def)

lemma generated_named:
  "named (r\<lparr>pr_Spec := (pr_Spec r)\<lparr>prs_ServiceAccountName := serviceAccountNameTemplate (replicate 8 x)\<rparr>\<rparr>)"
  by (simp add: named_def serviceNameAlreadyGenerated_def serviceAccountNameTemplate_def Let_def HasPrefix_def)

lemma set_spec_same [simp]: "pr_Spec (r\<lparr>pr_Spec := sp\<rparr>) = sp" "pr_Status (r\<lparr>pr_Spec := sp\<rparr>) = pr_Status r"
  by simp_all

lemma project_id_ends:
  assumes s: "holding cl s" and p: "prepares s" and st: "pr_State (rs_reference s) \<noteq> ''''" and nil: "reference_project s = ''''"
  shows "ends_well cl (reference_ReconcileHandler (provisioner p creds) s) (less_left (rs_claim s) (rs_reference s))"
proof -
  let ?id = "project_id_of_uuid (''uuid-'' @ show_nat (cl_version (rs_world s)))"
  let ?x = "(rs_reference s)\<lparr>pr_Spec := (pr_Spec (rs_reference s))\<lparr>prs_GCPProjectID := ?id\<rparr>\<rparr>"
  let ?t = "s\<lparr>rs_world := bump (rs_world s), rs_reference := ?x\<rparr>"
  obtain v where stored: "ref_update (provisioner p creds) ?t =
      (None, ?t\<lparr>rs_reference := versioned v ?x, rs_world := store_reference ?x (bump (rs_world s))\<rparr>)"
    and kept: "holding cl (?t\<lparr>rs_reference := versioned v ?x, rs_world := store_reference ?x (bump (rs_world s))\<rparr>)"
    by (rule write_reference [OF s, of ?x ?t p creds]) (use promised_cases [OF p] in simp_all)
  then have run: "EnsureProjectID (provisioner p creds) s =
      (StopProcessing, ?t\<lparr>rs_reference := versioned v ?x, rs_world := store_reference ?x (bump (rs_world s))\<rparr>)"
    using nil by (simp add: EnsureProjectID_def UpdateProjectID_def GenerateProjectID_def on_world_def
        set_ref_spec_def)
  have "less_left (rs_claim s) (rs_reference s) (rs_claim s) (versioned v ?x)"
    using p nil promised_cases [OF p] project_id_nonempty
    by (intro change_less_left) (auto simp: reference_left_def named_def serviceNameAlreadyGenerated_def
        serviceNameAlreadyFilled_def)
  with run kept show ?thesis
    by (intro promised_stops [where n = 1, OF p])
      (assumption | simp add: reference_operations_def promised_skips [OF p st])+
qed

lemma account_name_ends:
  assumes s: "holding cl s" and p: "prepares s" and st: "pr_State (rs_reference s) \<noteq> ''''" and id: "reference_project s \<noteq> ''''"
    and unnamed: "\<not> named (rs_reference s)"
  shows "ends_well cl (reference_ReconcileHandler (provisioner p creds) s) (less_left (rs_claim s) (rs_reference s))"
proof -
  let ?x = "(rs_reference s)\<lparr>pr_Spec := (pr_Spec (rs_reference s))\<lparr>prs_ServiceAccountName :=
    serviceAccountNameTemplate (replicate 8 (CHR ''x''))\<rparr>\<rparr>"
  let ?t = "s\<lparr>rs_world := bump (rs_world s), rs_reference := ?x\<rparr>"
  obtain v where stored: "ref_update (provisioner p creds) ?t =
      (None, ?t\<lparr>rs_reference := versioned v ?x, rs_world := store_reference ?x (bump (rs_world s))\<rparr>)"
    and kept: "holding cl (?t\<lparr>rs_reference := versioned v ?x, rs_world := store_reference ?x (bump (rs_world s))\<rparr>)"
    by (rule write_reference [OF s, of ?x ?t p creds]) (use promised_cases [OF p] in simp_all)
  then have run: "EnsureServiceAccountName (provisioner p creds) s =
      (StopProcessing, ?t\<lparr>rs_reference := versioned v ?x, rs_world := store_reference ?x (bump (rs_world s))\<rparr>)"
    using unnamed unfolding named_def
    by (simp add: EnsureServiceAccountName_def UpdateServiceAccountName_def on_world_def set_ref_spec_def)
  have "less_left (rs_claim s) (rs_reference s) (rs_claim s) (versioned v ?x)"
    using p id unnamed promised_cases [OF p] generated_named [where r = "rs_reference s" and x = "CHR ''x''"]
    by (intro change_less_left) (auto simp: reference_left_def)
  with run kept show ?thesis
    by (intro promised_stops [where n = 2, OF p])
      (assumption | simp add: reference_operations_def promised_skips(1,2) [OF p st] id)+
qed

lemma finalizer_ends:
  assumes s: "holding cl s" and p: "prepares s" and st: "pr_State (rs_reference s) \<noteq> ''''" and id: "reference_project s \<noteq> ''''"
    and named: "named (rs_reference s)" and free: "FinalizerName \<notin> set (reference_finalizers s)"
  shows "ends_well cl (reference_ReconcileHandler (provisioner p creds) s) (less_left (rs_claim s) (rs_reference s))"
proof -
  let ?x = "(rs_reference s)\<lparr>pr_Meta := (pr_Meta (rs_reference s))\<lparr>om_Finalizers := reference_finalizers s @ [FinalizerName]\<rparr>\<rparr>"
  let ?t = "s\<lparr>rs_reference := ?x\<rparr>"
  obtain v where stored: "ref_update (provisioner p creds) ?t =
      (None, ?t\<lparr>rs_reference := versioned v ?x, rs_world := store_reference ?x (rs_world s)\<rparr>)"
    and kept: "holding cl (?t\<lparr>rs_reference := versioned v ?x, rs_world := store_reference ?x (rs_world s)\<rparr>)"
    by (rule write_reference [OF s, of ?x ?t p creds]) (use promised_cases [OF p] in simp_all)
  then have run: "EnsureFinalizerAdded (provisioner p creds) s =
      (StopProcessing, ?t\<lparr>rs_reference := versioned v ?x, rs_world := store_reference ?x (rs_world s)\<rparr>)"
    using free by (simp add: EnsureFinalizerAdded_def set_ref_finalizers_def)
  have "named ?x" using named named_spec [of ?x "rs_reference s"] by simp
  then have "less_left (rs_claim s) (rs_reference s) (rs_claim s) (versioned v ?x)"
    using p id named free promised_cases [OF p] by (intro change_less_left) (auto simp: reference_left_def)
  with run kept show ?thesis
    by (intro promised_stops [where n = 3, OF p])
      (assumption | simp add: reference_operations_def promised_skips(1,2,3) [OF p st] id named)+
qed

lemma holding_cloud: "holding cl s \<Longrightarrow> cloud_kept (rs_world s) w \<Longrightarrow> holding cl (s\<lparr>rs_world := w\<rparr>)"
  by (frule cloud_kept_environs) (auto simp: holding_def cloud_kept_def dest: environs_kept_trans)

lemma state_ready_stops:
  assumes s: "holding cl s" and r: "attached (rs_claim s) (rs_reference s)"
    and st: "pr_State (rs_reference s) \<noteq> ProjectReferenceStatusReady"
  obtains s' where "EnsureStateReady (provisioner p creds) s = (StopProcessing, s')" and "holding cl s'"
    and "less_left (rs_claim s) (rs_reference s) (rs_claim s') (rs_reference s')"
proof -
  let ?x = "set_reference_state ProjectReferenceStatusReady (rs_reference s)"
  obtain v where stored: "ref_status_update (provisioner p creds) (s\<lparr>rs_reference := ?x\<rparr>) =
      (None, s\<lparr>rs_reference := versioned v ?x, rs_world := store_reference ?x (rs_world s)\<rparr>)"
    and kept: "holding cl (s\<lparr>rs_reference := versioned v ?x, rs_world := store_reference ?x (rs_world s)\<rparr>)"
    by (rule status_write_reference [OF s, of ?x "s\<lparr>rs_reference := ?x\<rparr>" p creds]) simp_all
  have "less_left (rs_claim s) (rs_reference s) (rs_claim s) (versioned v ?x)"
    using r st by (intro status_less_left) (auto simp: reference_left_def)
  with stored kept st show thesis
    by (intro that [of "s\<lparr>rs_reference := versioned v ?x, rs_world := store_reference ?x (rs_world s)\<rparr>"])
      (simp_all add: EnsureStateReady_def set_ref_state_def)
qed

lemma provisioned_ends:
  assumes s: "holding cl s" and active: "all_active cl" and p: "prepares s" and st: "pr_State (rs_reference s) \<noteq> ''''"
    and id: "reference_project s = p" "p \<noteq> ''''" and named: "named (rs_reference s)"
    and kept: "FinalizerName \<in> set (reference_finalizers s)"
  shows "ends_well cl (reference_ReconcileHandler (provisioner p creds) s) (less_left (rs_claim s) (rs_reference s))"
proof -
  let ?r = "provisioner p creds"
  have "all_active (rs_world s)" using s active by (simp add: holding_def environs_kept_def)
  then obtain w1 where created: "EnsureProjectCreated ?r s = (ContinueProcessing, s\<lparr>rs_world := w1\<rparr>)"
    and w1: "cloud_kept (rs_world s) w1"
    by (rule returnsE [OF EnsureProjectCreated_returns])
  obtain w2 where configured: "EnsureProjectConfigured ?r (s\<lparr>rs_world := w1\<rparr>) = (ContinueProcessing, s\<lparr>rs_world := w2\<rparr>)"
    and w2: "cloud_kept w1 w2"
    by (rule returnsE [OF EnsureProjectConfigured_returns [of "s\<lparr>rs_world := w1\<rparr>" p creds]]) (simp_all add: id)
  let ?s2 = "s\<lparr>rs_world := w2\<rparr>"
  have "holding cl ?s2" by (rule holding_cloud [OF s cloud_kept_trans [OF w1 w2]])
  then obtain s' where ready: "EnsureStateReady ?r ?s2 = (StopProcessing, s')" and "holding cl s'"
    and "less_left (rs_claim s) (rs_reference s) (rs_claim s') (rs_reference s')"
    by (rule state_ready_stops [where p = p and creds = creds]) (use p in \<open>simp_all add: prepares_def\<close>)
  moreover have "reference_ReconcileHandler ?r s = run_operations [EnsureStateReady ?r] ?s2"
    using promised_run [OF p, of ?r] promised_skips [OF p st, of ?r] id named kept
    by (simp add: reference_operations_def created configured)
  ultimately show ?thesis by (simp add: ends_well_def)
qed

text \<open>A reference that is not Ready: every run makes a step, once the claim is promised its project.\<close>

lemma unready_ends:
  assumes s: "holding cl s" and active: "all_active cl" and r: "attached (rs_claim s) (rs_reference s)"
    and id: "reference_project s = p" and st: "pr_State (rs_reference s) \<noteq> ProjectReferenceStatusReady"
  shows "ends_well cl (reference_ReconcileHandler (provisioner p creds) s) (less_left (rs_claim s) (rs_reference s))"
proof (cases "pr_Conditions (rs_reference s) = None")
  case True
  with initialize_ends [OF s r] show ?thesis by simp
next
  case initialized: False
  show ?thesis
  proof (cases "pc_State (rs_claim s) = ClaimStatusPendingProject")
    case False
    with unpromised_ends [OF s r initialized st] show ?thesis by simp
  next
    case True
    with initialized st r have p: "prepares s" by (simp add: prepares_def)
    from creating_ends [OF s p] project_id_ends [OF s p] account_name_ends [OF s p] finalizer_ends [OF s p]
      provisioned_ends [OF s active p _ id] id
    show ?thesis by blast
  qed
qed

subsection \<open>A reference that is Ready\<close>

definition cluster_zones :: "string \<Rightarrow> string list" where
  "cluster_zones region = concat (map (zones_of_page region)
     [[\<lparr>z_Name = ''us-east1-b'', z_Region = ''regions/us-east1''\<rparr>, \<lparr>z_Name = ''us-east4-a'', z_Region = ''regions/us-east4''\<rparr>],
      [\<lparr>z_Name = ''us-east1-c'', z_Region = ''regions/us-east1''\<rparr>]])"

lemma ListAvailabilityZones_cluster:
  "ListAvailabilityZones cluster_sdk c project region w = (Inr (cluster_zones region), w)"
  by (simp add: ListAvailabilityZones_def cluster_sdk_def cluster_zones_def)

definition set_zones :: "string list \<Rightarrow> ProjectClaim \<Rightarrow> ProjectClaim" where
  "set_zones zones c = c\<lparr>pc_Spec := (pc_Spec c)\<lparr>pcs_AvailabilityZones := zones\<rparr>\<rparr>"

definition set_project :: "string \<Rightarrow> ProjectClaim \<Rightarrow> ProjectClaim" where
  "set_project p c = c\<lparr>pc_Spec := (pc_Spec c)\<lparr>pcs_GCPProjectID := p\<rparr>\<rparr>"

lemma set_spec_sel [simp]:
  "pc_Meta (set_zones zones c) = pc_Meta c" "pc_Status (set_zones zones c) = pc_Status c"
  "pc_Meta (set_project p c) = pc_Meta c" "pc_Status (set_project p c) = pc_Status c"
  "pcs_AvailabilityZones (pc_Spec (set_zones zones c)) = zones"
  "pcs_AvailabilityZones (pc_Spec (set_project p c)) = pcs_AvailabilityZones (pc_Spec c)"
  by (simp_all add: set_zones_def set_project_def)

lemma claim_fit_stamped [simp]: "claim_fit c (stamped v c') = claim_fit c c'"
  by (simp add: claim_fit_def)

lemma set_spec_kept [simp]:
  "is_fake (set_zones zones c) = is_fake c" "is_fake (set_project p c) = is_fake c"
  "is_fake (set_claim_state st c) = is_fake c"
  "ProjectClaim_Validate (set_zones zones c) = ProjectClaim_Validate c"
  "ProjectClaim_Validate (set_project p c) = ProjectClaim_Validate c"
  "ProjectClaim_Validate (set_claim_state st c) = ProjectClaim_Validate c"
  "steps_left (set_zones zones c) = steps_left c" "steps_left (set_project p c) = steps_left c"
  "pcs_CCS (pc_Spec (set_zones zones c)) = pcs_CCS (pc_Spec c)" "pcs_CCS (pc_Spec (set_project p c)) = pcs_CCS (pc_Spec c)"
  "pcs_CCSSecretRef (pc_Spec (set_zones zones c)) = pcs_CCSSecretRef (pc_Spec c)"
  "pcs_CCSSecretRef (pc_Spec (set_project p c)) = pcs_CCSSecretRef (pc_Spec c)"
  "pcs_Region (pc_Spec (set_zones zones c)) = pcs_Region (pc_Spec c)"
  "pcs_Region (pc_Spec (set_project p c)) = pcs_Region (pc_Spec c)"
  by (simp_all add: set_zones_def set_project_def is_fake_def ProjectClaim_Validate_def steps_left_def
      Let_def)

lemma Ready_steps: "steps_left (set_claim_state ClaimStatusReady c) \<le> steps_left c"
  by (simp add: steps_left_def)

lemma claim_fit_changes [simp]: "claim_fit c (set_project p c') = claim_fit c c'"
  by (simp add: claim_fit_def)

lemma claim_fit_Ready: "claim_fit c c' \<Longrightarrow> claim_fit c (set_claim_state ClaimStatusReady c')"
  using Ready_steps [of c'] by (simp add: claim_fit_def)

lemma attached_fit: "claim_fit c c' \<Longrightarrow> attached c' r = attached c r"
  by (auto simp: claim_fit_def attached_def)

lemma marked_less_left:
  assumes "attached c r" and "claim_fit c c'"
  shows "less_left c r (stamped v (set_claim_state ClaimStatusReady c')) r"
proof -
  have fit: "claim_fit c (stamped v (set_claim_state ClaimStatusReady c'))" using assms(2) claim_fit_Ready by simp
  from attached_fit [OF fit, of r] fit assms(1) show ?thesis by (simp add: less_left_def ready_left_def)
qed

lemma mark_claim_ready_stops:
  assumes s: "holding cl s" and r: "attached c (rs_reference s)" and fit: "claim_fit c (rs_claim s)"
  obtains s' where "mark_claim_ready (provisioner p creds) s = (StopProcessing, s')" and "holding cl s'"
    and "less_left c (rs_reference s) (rs_claim s') (rs_reference s')"
proof -
  let ?x = "set_claim_state ClaimStatusReady (rs_claim s)"
  have "ref_status_update_claim (provisioner p creds) (s\<lparr>rs_claim := ?x\<rparr>) =
      (None, s\<lparr>rs_claim := stamped (cl_version (rs_world s)) ?x, rs_world := store ?x (rs_world s)\<rparr>)"
    and "holding cl (s\<lparr>rs_claim := stamped (cl_version (rs_world s)) ?x, rs_world := store ?x (rs_world s)\<rparr>)"
    by (rule status_write_claim [OF s]; simp)+
  with marked_less_left [OF r fit] that show thesis by (simp add: mark_claim_ready_def)
qed

lemma zones_end:
  assumes s: "holding cl s" and r: "attached (rs_claim s) (rs_reference s)"
    and nil: "pcs_AvailabilityZones (pc_Spec (rs_claim s)) = []" and region: "cluster_zones (pcs_Region (pc_Spec (rs_claim s))) \<noteq> []"
    and conditions: "pr_Conditions (rs_reference s) \<noteq> None"
  obtains s' where "ensureClaimAvailabilityZonesSet (provisioner p creds) s = (Requeue, s')"
    and "holding_but cl s'" and "less_left (rs_claim s) (rs_reference s) (rs_claim s') (rs_reference s')"
proof -
  let ?zones = "cluster_zones (pcs_Region (pc_Spec (rs_claim s)))"
  let ?x = "set_zones ?zones (rs_claim s)"
  obtain cs where set: "ref_set_condition (provisioner p creds) ConditionComputeApiReady ConditionTrue
      ''QueryAvailabilityZonesSucceeded'' ''ComputeAPI ready, successfully queried availability zones'' s =
      s\<lparr>rs_reference := set_reference_conditions (Some cs) (rs_reference s)\<rparr>" and cs: "cs \<noteq> []"
    using ref_set_condition_cluster by blast
  let ?r = "set_reference_conditions (Some cs) (rs_reference s)"
  let ?s' = "s\<lparr>rs_reference := ?r, rs_claim := stamped (cl_version (rs_world s)) ?x, rs_world := store ?x (rs_world s)\<rparr>"
  have "k_UpdateProjectClaim cluster_kube ?x (rs_world s) =
      ((None, stamped (cl_version (rs_world s)) ?x), store ?x (rs_world s))"
    using s by (intro update_stores [of _ _ "rs_claim s"]) (simp_all add: holding_def)
  then have run: "ensureClaimAvailabilityZonesSet (provisioner p creds) s = (Requeue, ?s')"
    using nil by (simp add: ensureClaimAvailabilityZonesSet_def on_world_def ListAvailabilityZones_cluster set
        ref_update_claim_def set_zones_def)
  have "holding cl (s\<lparr>rs_claim := stamped (cl_version (rs_world s)) ?x, rs_world := store ?x (rs_world s)\<rparr>)"
    by (rule write_claim(2) [OF s]) simp_all
  then have "holding cl (?s'\<lparr>rs_reference := rs_reference s\<rparr>)" by simp
  then have "holding_but cl ?s'"
    unfolding holding_but_def using cs by (intro conjI exI [of _ "rs_reference s"]) simp_all
  moreover have "less_left (rs_claim s) (rs_reference s) (stamped (cl_version (rs_world s)) ?x) ?r"
  proof -
    have core: "core ?r = core (rs_reference s)" using conditions by simp
    have fit: "claim_fit (rs_claim s) (stamped (cl_version (rs_world s)) ?x)" using nil region by (simp add: claim_fit_def)
    from attached_fit [OF fit, of ?r] fit r nil region show ?thesis
      by (simp add: less_left_def core_kept [OF core] ready_left_def credential_secret_def)
  qed
  ultimately show thesis using run by (intro that [of ?s']) simp_all
qed

lemma finish_claim_stops:
  assumes s: "holding cl s" and r: "attached (rs_claim s) (rs_reference s)"
  obtains s' where "finish_claim (provisioner p creds) s = (StopProcessing, s')"
    and "holding cl s'" and "less_left (rs_claim s) (rs_reference s) (rs_claim s') (rs_reference s')"
proof (cases "pcs_GCPProjectID (pc_Spec (rs_claim s)) = ''''")
  case True
  let ?x = "set_project (reference_project s) (rs_claim s)"
  let ?s2 = "s\<lparr>rs_claim := stamped (cl_version (rs_world s)) ?x, rs_world := store ?x (rs_world s)\<rparr>"
  have "ref_update_claim (provisioner p creds) (s\<lparr>rs_claim := ?x\<rparr>) = (None, ?s2)" and kept: "holding cl ?s2"
    by (rule write_claim [OF s]; simp)+
  moreover obtain s' where "mark_claim_ready (provisioner p creds) ?s2 = (StopProcessing, s')" and "holding cl s'"
    and "less_left (rs_claim s) (rs_reference s) (rs_claim s') (rs_reference s')"
    by (rule mark_claim_ready_stops [OF kept, of "rs_claim s" p creds]) (use r in simp_all)
  ultimately show thesis using True
    by (intro that [of s']) (simp_all add: finish_claim_def ensureClaimProjectIDSet_def set_project_def)
next
  case False
  obtain s' where "mark_claim_ready (provisioner p creds) s = (StopProcessing, s')" and "holding cl s'"
    and "less_left (rs_claim s) (rs_reference s) (rs_claim s') (rs_reference s')"
    by (rule mark_claim_ready_stops [OF s r]) simp
  with False show thesis by (intro that [of s']) (simp_all add: finish_claim_def ensureClaimProjectIDSet_def)
qed

lemma ready_ends:
  assumes s: "holding cl s" and r: "attached (rs_claim s) (rs_reference s)"
    and region: "pcs_AvailabilityZones (pc_Spec (rs_claim s)) \<noteq> [] \<or> cluster_zones (pcs_Region (pc_Spec (rs_claim s))) \<noteq> []"
    and conditions: "pr_Conditions (rs_reference s) \<noteq> None" and st: "pr_State (rs_reference s) = ProjectReferenceStatusReady"
  shows "ends_well cl (reference_ReconcileHandler (provisioner p creds) s) (less_left (rs_claim s) (rs_reference s))"
proof -
  let ?r = "provisioner p creds" and ?goal = "less_left (rs_claim s) (rs_reference s)"
  have "om_DeletionTimestamp (pr_Meta (rs_reference s)) = None" using r by (simp add: attached_def)
  note run = initialized_run [OF conditions this, of ?r]
  have ready: "\<exists>res s'. EnsureProjectClaimReady ?r s = ((res, None), s') \<and> RequeueOrCancel res \<and>
      (holding cl s' \<or> holding_but cl s') \<and> ?goal (rs_claim s') (rs_reference s')"
  proof (cases "pc_State (rs_claim s) = ClaimStatusReady")
    case True
    with s r st show ?thesis
      by (auto simp: EnsureProjectClaimReady_cases outcome_defs RequeueOrCancel_def less_left_def)
  next
    case False
    then have unready: "EnsureProjectClaimReady ?r s = (if pcs_AvailabilityZones (pc_Spec (rs_claim s)) = []
        then ensureClaimAvailabilityZonesSet ?r s else finish_claim ?r s)"
      using st by (simp add: EnsureProjectClaimReady_cases)
    show ?thesis
    proof (cases "pcs_AvailabilityZones (pc_Spec (rs_claim s)) = []")
      case True
      with zones_end [OF s r True _ conditions, of p creds] region obtain s'
        where "ensureClaimAvailabilityZonesSet ?r s = (Requeue, s')" "holding_but cl s'" "?goal (rs_claim s') (rs_reference s')"
        by blast
      with True unready show ?thesis by (simp add: outcome_defs RequeueOrCancel_def)
    next
      case zones: False
      obtain s' where "finish_claim ?r s = (StopProcessing, s')" "holding cl s'" "?goal (rs_claim s') (rs_reference s')"
        by (rule finish_claim_stops [OF s r])
      with zones unready show ?thesis by (simp add: outcome_defs RequeueOrCancel_def)
    qed
  qed
  then obtain res s' where exit: "EnsureProjectClaimReady ?r s = ((res, None), s')" "RequeueOrCancel res"
    and s': "holding cl s' \<or> holding_but cl s'" "?goal (rs_claim s') (rs_reference s')" by blast
  then have "\<not> goes_on (res, None)" by (auto simp: goes_on_def RequeueOrCancel_def)
  with exit(1) have "reference_ReconcileHandler ?r s = (handler_result (res, None), s')"
    by (simp add: run reference_operations_def)
  with s' show ?thesis by (simp add: ends_well_def handler_result_def)
qed

end
