(* ===== verification/Readiness.thy ===== *)
theory Readiness
  imports ReferenceProgress
begin

text \<open>
  From a claim as a tenant creates it to a claim that is Ready: the two controllers, run in turn on the
  API server and the cloud of \<^verbatim>\<open>Cluster\<close>.
\<close>

subsection \<open>Reconcile of a reference on the cluster\<close>

definition config_ready :: "cluster \<Rightarrow> bool" where
  "config_ready cl \<longleftrightarrow> (\<exists>cm data. cl_configmaps cl (namespaced OperatorConfigMapNamespace OperatorConfigMapName) = Some cm \<and>
     cm_Data cm OperatorConfigMapKey = Some data)"

definition credentials_at :: "cluster \<Rightarrow> NamespacedName \<Rightarrow> bool" where
  "credentials_at cl nn \<longleftrightarrow> (\<exists>d. secret_data cl nn = Some d \<and> (d ''osServiceAccount.json'' \<noteq> None \<or> d ''key.json'' \<noteq> None))"

lemma environs_config: "config_ready cl \<Longrightarrow> environs_kept cl cl' \<Longrightarrow> config_ready cl'"
  by (simp add: config_ready_def environs_kept_def)

lemma environs_credentials: "credentials_at cl nn \<Longrightarrow> environs_kept cl cl' \<Longrightarrow> credentials_at cl' nn"
  unfolding credentials_at_def environs_kept_def by (metis option.simps(3) secret_data_None)

lemma getGcpClient_cluster:
  assumes "credentials_at cl (credential_secret r)"
  obtains creds where "getGcpClient cluster_reconciler r cl =
    (Inr (client_of cluster_env cluster_sdk \<lparr>gc_projectName = prs_GCPProjectID (pr_Spec r), gc_creds = creds\<rparr>), cl)"
proof -
  obtain x where x: "cl_secrets cl (credential_secret r) = Some x"
    "s_Data x ''osServiceAccount.json'' \<noteq> None \<or> s_Data x ''key.json'' \<noteq> None"
    using assms by (auto simp: credentials_at_def secret_data_def)
  have get: "k_GetSecret cluster_kube (credential_secret r) cl = (Inr (set_s_meta (keyed (credential_secret r) (s_Meta x)) x), cl)"
    using x(1) by (simp add: cluster_kube_def api_get_def)
  have "\<exists>json. GetGCPCredentialsFromSecret cluster_kube (nn_Namespace (credential_secret r)) (nn_Name (credential_secret r)) cl =
      (Inr json, cl)"
    using x(2) by (auto simp: GetGCPCredentialsFromSecret_def get set_s_meta_def split: option.split)
  then obtain json where json: "GetGCPCredentialsFromSecret cluster_kube (nn_Namespace (credential_secret r))
      (nn_Name (credential_secret r)) cl = (Inr json, cl)" by blast
  show thesis
    by (rule that [of "GoogleCreds json"])
      (simp add: getGcpClient_def cluster_reconciler_def json NewClient_def Let_def, simp add: cluster_sdk_def)
qed

lemma getConfigMap_cluster: "config_ready cl \<Longrightarrow> getConfigMap cluster_reconciler cl = (Inr cluster_config, cl)"
  by (auto simp: config_ready_def getConfigMap_def cluster_reconciler_def GetOperatorConfigMap_def cluster_kube_def
      api_get_def set_cm_meta_def cluster_env_def ValidateOperatorConfigMap_def cluster_config_def)

lemma reconcile_on_cluster:
  assumes r: "cl_references cl (meta_key (pr_Meta r)) = Some r" and c: "cl_claims cl (meta_key (pc_Meta c)) = Some c"
    and link: "link_of r = meta_key (pc_Meta c)" and valid: "om_DeletionTimestamp (pr_Meta r) \<noteq> None \<or> ProjectReference_Validate r = None"
    and config: "config_ready cl" and credentials: "credentials_at cl (credential_secret r)"
  obtains creds where "snd (reference_Reconcile cluster_reconciler (meta_key (pr_Meta r)) cl) =
    (let p = provisioner (prs_GCPProjectID (pr_Spec r)) creds;
         x = reference_ReconcileHandler p \<lparr>rs_claim = c, rs_reference = r, rs_world = cl\<rparr>
     in rs_world (snd (SetProjectReferenceCondition p ''ReconcileError'' (snd (fst x)) (snd x))))"
proof -
  obtain creds where gcp: "getGcpClient cluster_reconciler r cl =
      (Inr (client_of cluster_env cluster_sdk \<lparr>gc_projectName = prs_GCPProjectID (pr_Spec r), gc_creds = creds\<rparr>), cl)"
    by (rule getGcpClient_cluster [OF credentials])
  have get: "k_GetProjectReference cluster_kube (meta_key (pr_Meta r)) cl = (Inr r, cl)"
    using r by (simp add: get_reference_cluster api_get_def set_pr_meta_def)
  have claim: "getMatchingClaimLink r cluster_kube cl = (Inr c, cl)"
    using read_claim [OF c] by (simp add: getMatchingClaimLink_def link)
  have sel: "prr_Client cluster_reconciler = cluster_kube" "prr_env cluster_reconciler = cluster_env"
    by (simp_all add: cluster_reconciler_def)
  show thesis
    by (rule that [of creds])
      (use valid in \<open>auto simp: reference_Reconcile_def sel get reconcile_reference_def gcp getConfigMap_cluster [OF config]
        NewReferenceAdapter_def claim case_prod_beta Let_def\<close>)
qed

subsection \<open>Rounds\<close>

definition credentials_of_claim :: "ProjectClaim \<Rightarrow> NamespacedName" where
  "credentials_of_claim c = (if pcs_CCS (pc_Spec c) then pcs_CCSSecretRef (pc_Spec c)
     else namespaced operatorNamespace orgGcpSecretName)"

text \<open>
  A claim that will be Ready: nothing stands in its way, the operator has its configuration and the
  credentials, its region has zones, no project is being deleted, and a reference under the claim's
  name is one of this claim.
\<close>

definition on_course :: "cluster \<Rightarrow> ProjectClaim \<Rightarrow> bool" where
  "on_course cl c \<longleftrightarrow> unobstructed cl c \<and> config_ready cl \<and> credentials_at cl (credentials_of_claim c) \<and> all_active cl \<and>
     (pcs_AvailabilityZones (pc_Spec c) \<noteq> [] \<or> cluster_zones (pcs_Region (pc_Spec c)) \<noteq> []) \<and>
     (\<forall>r. cl_references cl (ref_key (meta_key (pc_Meta c))) = Some r \<longrightarrow> attached c r)"

definition reference_part :: "cluster \<Rightarrow> ProjectClaim \<Rightarrow> nat" where
  "reference_part cl c = (case cl_references cl (ref_key (meta_key (pc_Meta c))) of
     None \<Rightarrow> (if pc_State c = ClaimStatusReady then 0 else of_bool (pcs_AvailabilityZones (pc_Spec c) = []) + 7)
   | Some r \<Rightarrow> ready_left c r)"

definition rounds_left :: "cluster \<Rightarrow> ProjectClaim \<Rightarrow> nat" where
  "rounds_left cl c = steps_left c + reference_part cl c"

lemma attached_credentials: "attached c r \<Longrightarrow> credential_secret r = credentials_of_claim c"
  by (simp add: attached_def credential_secret_def credentials_of_claim_def)

lemma asked_for_attached:
  assumes "asked_for c rk r" and valid: "ProjectClaim_Validate c = None"
  shows "attached c r \<and> reference_left r \<le> 6"
proof -
  obtain v where r: "r = versioned v (newMatchingProjectReference c)" using assms(1) by (auto simp: asked_for_def)
  have "attached c (newMatchingProjectReference c) \<and> reference_left (newMatchingProjectReference c) \<le> 6"
    using valid by (simp add: attached_def reference_left_def newMatchingProjectReference_def ProjectReference_Validate_None
        ProjectClaim_Validate_None own_namespace_def meta_key_def ref_key_def new_meta_def Let_def)
  with r show ?thesis by simp
qed

text \<open>A round of the claim's controller.\<close>

lemma unversioned_same_more:
  assumes "unversioned c' = unversioned (advance c)"
  shows "attached c' r = attached c r" and "ready_left c' r = ready_left c r"
    and "pc_State c' = ClaimStatusReady \<longleftrightarrow> pc_State c = ClaimStatusReady"
    and "pcs_AvailabilityZones (pc_Spec c') = pcs_AvailabilityZones (pc_Spec c)"
    and "pcs_Region (pc_Spec c') = pcs_Region (pc_Spec c)"
    and "credentials_of_claim c' = credentials_of_claim c"
    and "meta_key (pc_Meta c') = meta_key (pc_Meta c)"
proof -
  have key: "meta_key (pc_Meta c') = meta_key (pc_Meta c)"
    using unversioned_same [OF assms] advance_kept(1) [of c] by simp
  have ready: "pc_State c' = ClaimStatusReady \<longleftrightarrow> pc_State c = ClaimStatusReady"
    using unversioned_state [OF assms] advance_Ready [of c] by simp
  have "pc_Spec c' = pc_Spec (advance c)" using assms by (cases c'; cases "advance c") (simp add: unversioned_def)
  then have spec: "pcs_CCS (pc_Spec c') = pcs_CCS (pc_Spec c)" "pcs_CCSSecretRef (pc_Spec c') = pcs_CCSSecretRef (pc_Spec c)"
    "pcs_AvailabilityZones (pc_Spec c') = pcs_AvailabilityZones (pc_Spec c)" "pcs_Region (pc_Spec c') = pcs_Region (pc_Spec c)"
    by (simp_all add: advance_def set_link_def)
  show "attached c' r = attached c r" "ready_left c' r = ready_left c r"
    "pc_State c' = ClaimStatusReady \<longleftrightarrow> pc_State c = ClaimStatusReady"
    "pcs_AvailabilityZones (pc_Spec c') = pcs_AvailabilityZones (pc_Spec c)" "pcs_Region (pc_Spec c') = pcs_Region (pc_Spec c)"
    "credentials_of_claim c' = credentials_of_claim c" "meta_key (pc_Meta c') = meta_key (pc_Meta c)"
    using key ready spec by (simp_all add: attached_def ready_left_def credentials_of_claim_def)
qed

definition better :: "cluster \<Rightarrow> ProjectClaim \<Rightarrow> cluster \<Rightarrow> ProjectClaim \<Rightarrow> bool" where
  "better cl c cl' c' \<longleftrightarrow> on_course cl' c' \<and> meta_key (pc_Meta c') = meta_key (pc_Meta c) \<and>
     (pc_State c = ClaimStatusReady \<longrightarrow> pc_State c' = ClaimStatusReady) \<and>
     steps_left c' \<le> steps_left c \<and> reference_part cl' c' \<le> reference_part cl c"

lemma claim_round_better:
  assumes c: "on_course cl c"
  obtains c' where "better cl c (claim_round (meta_key (pc_Meta c)) cl) c'" and "steps_left c' = steps_left c - 1"
    and "pc_State c' = ClaimStatusReady \<longleftrightarrow> pc_State c = ClaimStatusReady"
    and "steps_left c = 0 \<longrightarrow> cl_references (claim_round (meta_key (pc_Meta c)) cl) (ref_key (meta_key (pc_Meta c))) \<noteq> None"
proof -
  let ?cl = "claim_round (meta_key (pc_Meta c)) cl" and ?rk = "ref_key (meta_key (pc_Meta c))"
  have free: "unobstructed cl c" and valid: "ProjectClaim_Validate c = None" and progress: "in_progress c"
    using c by (simp_all add: on_course_def unobstructed_def)
  from round_steps [OF free] obtain c' where free': "unobstructed ?cl c'" and v: "unversioned c' = unversioned (advance c)"
    and kept: "surroundings_kept c cl ?cl" and there: "steps_left c = 0 \<longrightarrow> cl_references ?cl ?rk \<noteq> None"
    unfolding stepped_def by metis
  note same = unversioned_same_more [OF v]
  have steps: "steps_left c' = steps_left c - 1" using unversioned_same [OF v] advance_steps [OF progress] by simp
  have env: "environs_kept cl ?cl" by (rule surroundings_kept_environs [OF kept])
  have origin: "cl_references cl ?rk = Some r \<or> cl_references cl ?rk = None \<and> asked_for c ?rk r"
    if "cl_references ?cl ?rk = Some r" for r
    using kept that unfolding surroundings_kept_def by (metis option.sel option.distinct(1) not_Some_eq)
  have attached: "attached c r" if "cl_references ?cl ?rk = Some r" for r
    using origin [OF that] asked_for_attached [OF _ valid] c by (auto simp: on_course_def)
  have "on_course ?cl c'"
    using c free' env attached environs_config [OF _ env] environs_credentials [OF _ env]
    by (auto simp: on_course_def same environs_kept_def)
  moreover have "reference_part ?cl c' \<le> reference_part cl c"
  proof (cases "cl_references ?cl ?rk")
    case None
    with kept have "cl_references cl ?rk = None" unfolding surroundings_kept_def by (cases "cl_references cl ?rk") auto
    with None show ?thesis by (simp add: reference_part_def same)
  next
    case (Some r)
    from origin [OF Some] show ?thesis
    proof
      assume "cl_references cl ?rk = Some r"
      with Some show ?thesis by (simp add: reference_part_def same)
    next
      assume "cl_references cl ?rk = None \<and> asked_for c ?rk r"
      with Some asked_for_attached [OF _ valid] show ?thesis by (auto simp: reference_part_def same ready_left_def)
    qed
  qed
  ultimately show thesis using steps there same by (intro that [of c']) (simp_all add: better_def)
qed

text \<open>A round of the reference's controller.\<close>

lemma fit_unobstructed:
  assumes c: "unobstructed cl c" and fit: "claim_fit c c'" and stored: "cl_claims cl' (meta_key (pc_Meta c')) = Some c'"
    and env: "environs_kept cl cl'"
  shows "unobstructed cl' c'"
proof -
  have "supplied cl' c'"
    using c fit env environs_kept_secrets [OF env, of "pcs_CCSSecretRef (pc_Spec c)"]
    by (auto simp: unobstructed_def claim_fit_def supplied_def environs_kept_def split: if_splits)
  then show ?thesis
    using c fit stored by (auto simp: unobstructed_def claim_fit_def in_progress_def)
qed

lemma final_better:
  assumes c: "on_course cl c" and r: "cl_references cl (ref_key (meta_key (pc_Meta c))) = Some r"
    and s: "holding cl s" and less: "less_left c r (rs_claim s) (rs_reference s)"
  shows "better cl c (rs_world s) (rs_claim s)"
    and "pc_State c = ClaimStatusPendingProject \<longrightarrow> reference_part (rs_world s) (rs_claim s) < reference_part cl c"
proof -
  have fit: "claim_fit c (rs_claim s)" and attached: "attached (rs_claim s) (rs_reference s)" using less by (simp_all add: less_left_def)
  have env: "environs_kept cl (rs_world s)" using s by (simp add: holding_def)
  have stored: "cl_references (rs_world s) (ref_key (meta_key (pc_Meta (rs_claim s)))) = Some (rs_reference s)"
    using s attached by (simp add: holding_def attached_def)
  have "unobstructed (rs_world s) (rs_claim s)"
    using s by (intro fit_unobstructed [OF _ fit _ env]) (use c in \<open>simp_all add: on_course_def holding_def\<close>)
  moreover have "credentials_of_claim (rs_claim s) = credentials_of_claim c"
    using fit by (simp add: claim_fit_def credentials_of_claim_def)
  ultimately have "on_course (rs_world s) (rs_claim s)"
    using c env attached stored fit environs_config [OF _ env] environs_credentials [OF _ env]
    by (auto simp: on_course_def claim_fit_def environs_kept_def)
  moreover have "reference_part cl c = ready_left c r"
    "reference_part (rs_world s) (rs_claim s) = ready_left (rs_claim s) (rs_reference s)"
    using r stored by (simp_all add: reference_part_def)
  ultimately show "better cl c (rs_world s) (rs_claim s)"
    and "pc_State c = ClaimStatusPendingProject \<longrightarrow> reference_part (rs_world s) (rs_claim s) < reference_part cl c"
    using less fit by (auto simp: better_def less_left_def claim_fit_def)
qed

lemma handler_less_left:
  assumes c: "on_course cl c" and r: "cl_references cl (ref_key (meta_key (pc_Meta c))) = Some r"
  shows "ends_well cl (reference_ReconcileHandler (provisioner (prs_GCPProjectID (pr_Spec r)) creds)
    \<lparr>rs_claim = c, rs_reference = r, rs_world = cl\<rparr>) (less_left c r)"
proof -
  let ?s = "\<lparr>rs_claim = c, rs_reference = r, rs_world = cl\<rparr>"
  have attached: "attached c r" using c r by (simp add: on_course_def)
  have s: "holding cl ?s" using c r attached by (auto simp: holding_def on_course_def unobstructed_def attached_def)
  note ends = initialize_ends [OF s] unready_ends [OF s] ready_ends [OF s]
  consider (initialize) "pr_Conditions r = None" | (ready) "pr_Conditions r \<noteq> None" "pr_State r = ProjectReferenceStatusReady"
    | (unready) "pr_State r \<noteq> ProjectReferenceStatusReady" by blast
  then show ?thesis
  proof cases
    case initialize with ends(1) attached show ?thesis by simp
  next
    case ready with ends(3) attached c show ?thesis by (simp add: on_course_def)
  next
    case unready with ends(2) attached c show ?thesis by (simp add: on_course_def)
  qed
qed

lemma reference_Reconcile_better:
  assumes c: "on_course cl c"
  obtains c' where "better cl c (snd (reference_Reconcile cluster_reconciler (ref_key (meta_key (pc_Meta c))) cl)) c'"
    and "pc_State c = ClaimStatusPendingProject \<and> cl_references cl (ref_key (meta_key (pc_Meta c))) \<noteq> None \<longrightarrow>
      reference_part (snd (reference_Reconcile cluster_reconciler (ref_key (meta_key (pc_Meta c))) cl)) c' < reference_part cl c"
proof (cases "cl_references cl (ref_key (meta_key (pc_Meta c)))")
  case None
  then have "snd (reference_Reconcile cluster_reconciler (ref_key (meta_key (pc_Meta c))) cl) = cl"
    by (simp add: reference_Reconcile_def cluster_reconciler_def get_reference_cluster api_get_def not_found_def)
  with None c that [of c] show thesis by (simp add: better_def)
next
  case (Some r)
  have attached: "attached c r" using c Some by (simp add: on_course_def)
  then have key: "meta_key (pr_Meta r) = ref_key (meta_key (pc_Meta c))" by (simp add: attached_def)
  obtain creds where run: "snd (reference_Reconcile cluster_reconciler (meta_key (pr_Meta r)) cl) =
    (let p = provisioner (prs_GCPProjectID (pr_Spec r)) creds;
         x = reference_ReconcileHandler p \<lparr>rs_claim = c, rs_reference = r, rs_world = cl\<rparr>
     in rs_world (snd (SetProjectReferenceCondition p ''ReconcileError'' (snd (fst x)) (snd x))))"
    by (rule reconcile_on_cluster [of cl r c])
      (use c Some attached key attached_credentials [OF attached] in \<open>simp_all add: on_course_def unobstructed_def attached_def\<close>)
  let ?p = "provisioner (prs_GCPProjectID (pr_Spec r)) creds"
  let ?x = "reference_ReconcileHandler ?p \<lparr>rs_claim = c, rs_reference = r, rs_world = cl\<rparr>"
  have ends: "ends_well cl ?x (less_left c r)" by (rule handler_less_left [OF c Some])
  then have "holding cl (snd ?x) \<or> holding_but cl (snd ?x)" and less: "less_left c r (rs_claim (snd ?x)) (rs_reference (snd ?x))"
    and no_error: "snd (fst ?x) = None" by (simp_all add: ends_well_def)
  from final_condition [OF this(1)] obtain s'
    where final: "snd (SetProjectReferenceCondition ?p ''ReconcileError'' None (snd ?x)) = s'" and s': "holding cl s'"
      and claim: "rs_claim s' = rs_claim (snd ?x)" and core: "core (rs_reference s') = core (rs_reference (snd ?x))"
    by metis
  have "credential_secret (rs_reference s') = credential_secret (rs_reference (snd ?x))"
    using core_sel(1) [OF core] by (simp add: credential_secret_def)
  then have less': "less_left c r (rs_claim s') (rs_reference s')"
    using less core_kept [OF core] by (simp add: less_left_def claim)
  have "snd (reference_Reconcile cluster_reconciler (ref_key (meta_key (pc_Meta c))) cl) = rs_world s'"
    using run final no_error by (simp add: key Let_def)
  with final_better [OF c Some s' less'] show thesis by (intro that [of "rs_claim s'"]) simp_all
qed

lemma on_course_slept: "on_course cl c \<Longrightarrow> on_course (env_Sleep cluster_env d cl) c"
  by (simp add: cluster_env_def on_course_def unobstructed_def supplied_def config_ready_def credentials_at_def
      secret_data_def all_active_def)

lemma reference_round_better:
  assumes "on_course cl c"
  obtains c' where "better cl c (reference_round (ref_key (meta_key (pc_Meta c))) cl) c'"
    and "pc_State c = ClaimStatusPendingProject \<and> cl_references cl (ref_key (meta_key (pc_Meta c))) \<noteq> None \<longrightarrow>
      reference_part (reference_round (ref_key (meta_key (pc_Meta c))) cl) c' < reference_part cl c"
proof -
  have same: "cl_references (env_Sleep cluster_env Second cl) = cl_references cl" by (simp add: cluster_env_def)
  then have part: "reference_part (env_Sleep cluster_env Second cl) c = reference_part cl c" by (simp add: reference_part_def)
  from reference_Reconcile_better [OF on_course_slept [OF assms, of Second]] show thesis
    using that unfolding same part reference_round_def better_def by metis
qed

text \<open>Both controllers in turn.\<close>

lemma full_round:
  assumes c: "on_course cl c"
  obtains c' where "on_course (reference_round (ref_key (meta_key (pc_Meta c))) (claim_round (meta_key (pc_Meta c)) cl)) c'"
    and "meta_key (pc_Meta c') = meta_key (pc_Meta c)" and "pc_State c = ClaimStatusReady \<longrightarrow> pc_State c' = ClaimStatusReady"
    and "pc_State c \<noteq> ClaimStatusReady \<longrightarrow>
      rounds_left (reference_round (ref_key (meta_key (pc_Meta c))) (claim_round (meta_key (pc_Meta c)) cl)) c' < rounds_left cl c"
proof -
  let ?k = "meta_key (pc_Meta c)"
  obtain c1 where c1: "better cl c (claim_round ?k cl) c1" and steps: "steps_left c1 = steps_left c - 1"
    and state: "pc_State c1 = ClaimStatusReady \<longleftrightarrow> pc_State c = ClaimStatusReady"
    and there: "steps_left c = 0 \<longrightarrow> cl_references (claim_round ?k cl) (ref_key ?k) \<noteq> None"
    by (rule claim_round_better [OF c])
  then have on: "on_course (claim_round ?k cl) c1" and key: "meta_key (pc_Meta c1) = ?k" by (simp_all add: better_def)
  obtain c2 where c2: "better (claim_round ?k cl) c1 (reference_round (ref_key ?k) (claim_round ?k cl)) c2"
    and less: "pc_State c1 = ClaimStatusPendingProject \<and> cl_references (claim_round ?k cl) (ref_key ?k) \<noteq> None \<longrightarrow>
      reference_part (reference_round (ref_key ?k) (claim_round ?k cl)) c2 < reference_part (claim_round ?k cl) c1"
    using reference_round_better [OF on] unfolding key by metis
  have "rounds_left (reference_round (ref_key ?k) (claim_round ?k cl)) c2 < rounds_left cl c"
    if "pc_State c \<noteq> ClaimStatusReady"
  proof (cases "steps_left c = 0")
    case True
    then have "steps_left c1 = 0" by (simp add: steps)
    moreover have "in_progress c1" using on by (simp add: on_course_def unobstructed_def)
    ultimately have "pc_State c1 = ClaimStatusPendingProject \<or> pc_State c1 = ClaimStatusReady"
      by (auto simp: in_progress_def steps_left_def)
    with that state c1 c2 less there True show ?thesis by (auto simp: better_def rounds_left_def)
  next
    case False
    with steps have "steps_left c1 < steps_left c" by simp
    with c1 c2 show ?thesis unfolding better_def rounds_left_def by linarith
  qed
  with c1 c2 key show thesis by (intro that [of c2]) (simp_all add: better_def)
qed

lemma rounds_left_pos: "pc_State c \<noteq> ClaimStatusReady \<Longrightarrow> 0 < rounds_left cl c"
  by (auto simp: rounds_left_def reference_part_def ready_left_def split: option.split)

lemma reference_left_bound: "reference_left r \<le> 6"
  by (simp add: reference_left_def)

lemma rounds_left_bound:
  assumes "on_course cl c" shows "rounds_left cl c \<le> 13"
proof -
  have "ready_left c r \<le> 8" for r using reference_left_bound [of r] by (simp add: ready_left_def)
  then have "reference_part cl c \<le> 8" by (simp add: reference_part_def split: option.split)
  moreover have "steps_left c \<le> 5" using assms by (intro steps_left_bound) (simp add: on_course_def unobstructed_def)
  ultimately show ?thesis by (simp add: rounds_left_def)
qed

lemma rounds_to_Ready:
  "on_course cl c \<Longrightarrow> pc_State c = ClaimStatusReady \<or> rounds_left cl c \<le> n \<Longrightarrow>
     \<exists>c'. cl_claims (cluster_rounds n (meta_key (pc_Meta c)) (ref_key (meta_key (pc_Meta c))) cl) (meta_key (pc_Meta c)) = Some c' \<and>
       pc_State c' = ClaimStatusReady"
proof (induction n arbitrary: cl c)
  case 0
  then have "pc_State c = ClaimStatusReady" using rounds_left_pos [of c cl] by fastforce
  with 0 show ?case by (simp add: on_course_def unobstructed_def)
next
  case (Suc n)
  obtain c' where c': "on_course (reference_round (ref_key (meta_key (pc_Meta c))) (claim_round (meta_key (pc_Meta c)) cl)) c'"
    and key: "meta_key (pc_Meta c') = meta_key (pc_Meta c)" and ready: "pc_State c = ClaimStatusReady \<longrightarrow> pc_State c' = ClaimStatusReady"
    and less: "pc_State c \<noteq> ClaimStatusReady \<longrightarrow>
      rounds_left (reference_round (ref_key (meta_key (pc_Meta c))) (claim_round (meta_key (pc_Meta c)) cl)) c' < rounds_left cl c"
    by (rule full_round [OF Suc.prems(1)])
  from Suc.IH [OF c'] show ?case
    using Suc.prems(2) ready less by (force simp: key)
qed

subsection \<open>The property\<close>

lemma on_course_sample: "on_course sample_cluster sample_claim"
proof -
  have "cluster_zones ''us-east1'' \<noteq> []" and "ProjectClaim_Validate sample_claim = None"
    and "''us-east1'' \<notin> set (oc_DisabledRegions cluster_config)" by code_simp+
  then show ?thesis
    by (simp add: on_course_def unobstructed_def supplied_def in_progress_def is_fake_def sample_cluster_def empty_cluster_def
        sample_claim_def sample_key_def config_ready_def credentials_at_def credentials_of_claim_def secret_data_def
        all_active_def NewGCPSecretCR_def new_meta_def meta_key_def namespaced_def)
qed

text \<open>C3: A claim becomes Ready.  When nothing stands in its way (it is alive and valid, its region allowed, the
  operator configured, its credentials there, the project it asks for not being deleted, and a reference
  under its name is its own), thirteen rounds of the two controllers, on the API server and the cloud, take it
  from wherever it is to Ready, and it stays so.\<close>

theorem claim_becomes_Ready:
  assumes "on_course cl c" and "13 \<le> n"
  shows "\<exists>c'. cl_claims (cluster_rounds n (meta_key (pc_Meta c)) (ref_key (meta_key (pc_Meta c))) cl) (meta_key (pc_Meta c)) = Some c' \<and>
    pc_State c' = ClaimStatusReady"
  using assms rounds_left_bound [OF assms(1)] by (intro rounds_to_Ready) simp_all

theorem claim_becomes_Ready_witness:
  "map_option pc_State (cl_claims (cluster_rounds 13 sample_key sample_reference_key sample_cluster) sample_key) = Some ClaimStatusReady"
proof -
  have "meta_key (pc_Meta sample_claim) = sample_key" and "ref_key sample_key = sample_reference_key"
    by (simp_all add: sample_claim_def sample_key_def sample_reference_key_def new_meta_def meta_key_def ref_key_def
        namespaced_def ProjectReferenceNamespace_def)
  with claim_becomes_Ready [OF on_course_sample, of 13] show ?thesis by auto
qed

end
