(* ===== verification/Removal.thy ===== *)
theory Removal
  imports Progress
begin

text \<open>
  The end of a claim: a claim that is being deleted is removed from the API server once its reference
  holds nothing.
\<close>

definition leaving :: "cluster \<Rightarrow> ProjectClaim \<Rightarrow> bool" where
  "leaving cl c \<longleftrightarrow> cl_claims cl (meta_key (pc_Meta c)) = Some c \<and> om_DeletionTimestamp (pc_Meta c) \<noteq> None \<and>
     om_Finalizers (pc_Meta c) = [ProjectClaimFinalizer] \<and> \<not> is_fake c \<and>
     \<not> HasCondition (pc_Conditions c) ConditionError"

abbreviation new_state :: "ProjectClaim \<Rightarrow> cluster \<Rightarrow> cluster claim_state" where
  "new_state c cl \<equiv> \<lparr>projectClaim = c, projectReference = newMatchingProjectReference c, claim_world = cl\<rparr>"

lemma new_reference_key:
  "namespaced (pr_Namespace (newMatchingProjectReference c)) (pr_Name (newMatchingProjectReference c)) =
     ref_key (meta_key (pc_Meta c))"
  using newMatchingProjectReference_blank [of c] by (simp add: blank_reference_def meta_key_def)

lemma new_reference_alive [simp]: "om_DeletionTimestamp (pr_Meta (newMatchingProjectReference c)) = None"
  using newMatchingProjectReference_blank [of c] by (simp add: blank_reference_def)

lemma leaving_Reconcile:
  assumes "leaving cl c" and "EnsureProjectClaimDeletionProcessed alone (new_state c cl) = (out, s)" and "\<not> goes_on out"
  shows "snd (claim_Reconcile cluster_kube cluster_env (meta_key (pc_Meta c)) cl) =
    claim_world (snd (SetProjectClaimCondition alone ConditionError ''ReconcileError'' (snd (handler_result out)) s))"
proof -
  have "EnsureProjectClaimFakeProcessed alone (new_state c cl) = (ContinueProcessing, new_state c cl)"
    using assms(1) by (simp add: leaving_def EnsureProjectClaimFakeProcessed_def)
  with assms show ?thesis
    by (simp add: claim_Reconcile_def read_claim leaving_def NewProjectClaimAdapter_def claim_ReconcileHandler_def
        claim_operations_def case_prod_beta)
qed

lemma handler_requeue [simp]: "snd (handler_result (RequeueAfter d e)) = e"
  by (simp add: RequeueAfter_def handler_result_def)

text \<open>With no reference, one run removes the claim.\<close>

lemma ccs_finalizer_removed:
  "projectClaim (snd (EnsureCCSSecretFinalizerDeleted alone s)) = projectClaim s"
  "cl_claims (claim_world (snd (EnsureCCSSecretFinalizerDeleted alone s))) = cl_claims (claim_world s)"
  "fst (EnsureCCSSecretFinalizerDeleted alone s) = None"
  by (auto simp: EnsureCCSSecretFinalizerDeleted_def getCCSSecret_def deleteFinalizer_def secret_accessor_def
      cluster_kube_def api_get_def with_secrets_def api_update_def set_s_meta_def bump_def not_found_def Let_def
      split: prod.splits sum.splits option.splits)

lemma claim_finalizer_removed:
  assumes "cl_claims (claim_world s) (meta_key (pc_Meta (projectClaim s))) = Some (projectClaim s)"
    and "om_DeletionTimestamp (pc_Meta (projectClaim s)) \<noteq> None"
    and "om_Finalizers (pc_Meta (projectClaim s)) = [ProjectClaimFinalizer]"
  shows "fst (EnsureProjectClaimFinalizerDeleted alone s) = None"
    and "cl_claims (claim_world (snd (EnsureProjectClaimFinalizerDeleted alone s))) (meta_key (pc_Meta (projectClaim s))) = None"
    and "meta_key (pc_Meta (projectClaim (snd (EnsureProjectClaimFinalizerDeleted alone s)))) = meta_key (pc_Meta (projectClaim s))"
  using assms by (auto simp: EnsureProjectClaimFinalizerDeleted_def deleteFinalizer_def claim_accessor_def cluster_kube_def
      with_claims_def api_update_def set_pc_meta_def bump_def Let_def meta_key_def)

lemma gone_stays:
  "cl_claims (claim_world s) nn = None \<Longrightarrow> meta_key (pc_Meta (projectClaim s)) = nn \<Longrightarrow>
     cl_claims (claim_world (snd (SetProjectClaimCondition alone t reason e s))) nn = None"
  by (auto simp: SetProjectClaimCondition_def claim_StatusUpdate_def claim_status_update_def claim_set_condition_def
      cluster_kube_def cluster_env_def with_claims_def api_update_def bump_def set_claim_conditions_def Let_def
      split: prod.splits option.splits if_splits)

lemma unreferenced_removed:
  assumes c: "leaving cl c" and none: "cl_references cl (ref_key (meta_key (pc_Meta c))) = None"
  shows "cl_claims (snd (claim_Reconcile cluster_kube cluster_env (meta_key (pc_Meta c)) cl)) (meta_key (pc_Meta c)) = None"
proof -
  let ?s = "new_state c cl"
  let ?s1 = "snd (EnsureCCSSecretFinalizerDeleted alone ?s)"
  let ?s2 = "snd (EnsureProjectClaimFinalizerDeleted alone ?s1)"
  note s1 = ccs_finalizer_removed [of ?s]
  have s2: "fst (EnsureProjectClaimFinalizerDeleted alone ?s1) = None"
    "cl_claims (claim_world ?s2) (meta_key (pc_Meta c)) = None" "meta_key (pc_Meta (projectClaim ?s2)) = meta_key (pc_Meta c)"
    using claim_finalizer_removed [of ?s1] s1 c by (simp_all add: leaving_def)
  have "FinalizeProjectClaim alone ?s = ((ObjectModified, None), ?s2)"
    using none s1(3) s2(1)
    by (simp add: FinalizeProjectClaim_def ProjectReferenceExists_def new_reference_key cluster_kube_def api_get_def
        not_found_def finalize_without_reference_def case_prod_beta Let_def)
  then have "EnsureProjectClaimDeletionProcessed alone ?s = (StopProcessing, ?s2)"
    using c by (simp add: EnsureProjectClaimDeletionProcessed_def IsProjectClaimDeletion_def leaving_def
        ObjectModified_def ObjectUnchanged_def)
  from leaving_Reconcile [OF c this] gone_stays [OF s2(2,3)] show ?thesis by simp
qed

text \<open>A reference that holds nothing is removed by the run, which asks to be run again.\<close>

lemma unheld_removed:
  assumes c: "leaving cl c" and r: "cl_references cl (ref_key (meta_key (pc_Meta c))) = Some r"
    and unheld: "om_Finalizers (pr_Meta r) = []"
  shows "leaving (snd (claim_Reconcile cluster_kube cluster_env (meta_key (pc_Meta c)) cl)) c \<and>
    cl_references (snd (claim_Reconcile cluster_kube cluster_env (meta_key (pc_Meta c)) cl)) (ref_key (meta_key (pc_Meta c))) = None"
proof -
  let ?s = "new_state c cl" and ?rk = "ref_key (meta_key (pc_Meta c))"
  let ?cl = "bump (cl\<lparr>cl_references := (cl_references cl)(?rk := None)\<rparr>)"
  have key: "meta_key (pr_Meta (newMatchingProjectReference c)) = ?rk"
    using newMatchingProjectReference_blank [of c] by (simp add: blank_reference_def)
  have "k_DeleteProjectReference cluster_kube (newMatchingProjectReference c) cl = (None, ?cl)"
    using r unheld by (simp add: cluster_kube_def with_references_def api_delete_def key bump_def)
  then have "FinalizeProjectClaim alone ?s = ((ObjectUnchanged, None), new_state c ?cl)"
    using r by (simp add: FinalizeProjectClaim_def ProjectReferenceExists_def new_reference_key
        IsProjectReferenceDeletion_def cluster_kube_def api_get_def Let_def)
  then have "EnsureProjectClaimDeletionProcessed alone ?s = (RequeueAfter (5 * Second) None, new_state c ?cl)"
    using c by (simp add: EnsureProjectClaimDeletionProcessed_def IsProjectClaimDeletion_def leaving_def)
  from leaving_Reconcile [OF c this] c
  have "snd (claim_Reconcile cluster_kube cluster_env (meta_key (pc_Meta c)) cl) = ?cl"
    by (simp add: SetProjectClaimCondition_def leaving_def NewConditionManager_def)
  with c show ?thesis by (simp add: leaving_def bump_def)
qed

lemma leaving_slept: "leaving cl c \<Longrightarrow> leaving (env_Sleep cluster_env d cl) c"
  by (simp add: leaving_def cluster_env_def)

text \<open>Removing the claim brings nothing back.\<close>

definition nothing_new :: "cluster \<Rightarrow> cluster \<Rightarrow> bool" where
  "nothing_new cl cl' \<longleftrightarrow> (\<forall>rk. cl_references cl rk = None \<longrightarrow> cl_references cl' rk = None) \<and>
     (\<forall>nn. cl_secrets cl nn = None \<longrightarrow> cl_secrets cl' nn = None) \<and>
     cl_accounts cl' = cl_accounts cl \<and> cl_projects cl' = cl_projects cl"

lemma nothing_new_trans: "nothing_new a b \<Longrightarrow> nothing_new b c \<Longrightarrow> nothing_new a c"
  by (simp add: nothing_new_def)

lemma claim_steps_new:
  "nothing_new (claim_world s) (claim_world (snd (EnsureCCSSecretFinalizerDeleted alone s)))"
  "nothing_new (claim_world s) (claim_world (snd (EnsureProjectClaimFinalizerDeleted alone s)))"
  "nothing_new (claim_world s) (claim_world (snd (SetProjectClaimCondition alone t reason e s)))"
proof -
  show "nothing_new (claim_world s) (claim_world (snd (EnsureCCSSecretFinalizerDeleted alone s)))"
    by (auto simp: nothing_new_def EnsureCCSSecretFinalizerDeleted_def getCCSSecret_def deleteFinalizer_def secret_accessor_def
        cluster_kube_def api_get_def with_secrets_def api_update_def set_s_meta_def bump_def not_found_def Let_def
        split: prod.splits sum.splits option.splits)
  show "nothing_new (claim_world s) (claim_world (snd (EnsureProjectClaimFinalizerDeleted alone s)))"
    by (auto simp: nothing_new_def EnsureProjectClaimFinalizerDeleted_def deleteFinalizer_def claim_accessor_def
        cluster_kube_def with_claims_def bump_def Let_def split: prod.splits)
  show "nothing_new (claim_world s) (claim_world (snd (SetProjectClaimCondition alone t reason e s)))"
    by (auto simp: nothing_new_def SetProjectClaimCondition_def claim_StatusUpdate_def claim_status_update_def
        claim_set_condition_def cluster_kube_def cluster_env_def with_claims_def bump_def Let_def
        split: prod.splits option.splits if_splits)
qed

lemma claim_gone_nothing_new:
  assumes c: "leaving cl c" and none: "cl_references cl (ref_key (meta_key (pc_Meta c))) = None"
  shows "nothing_new cl (snd (claim_Reconcile cluster_kube cluster_env (meta_key (pc_Meta c)) cl))"
proof -
  let ?s = "new_state c cl"
  let ?s1 = "snd (EnsureCCSSecretFinalizerDeleted alone ?s)"
  let ?s2 = "snd (EnsureProjectClaimFinalizerDeleted alone ?s1)"
  note s1 = ccs_finalizer_removed [of ?s]
  have "fst (EnsureProjectClaimFinalizerDeleted alone ?s1) = None"
    using claim_finalizer_removed(1) [of ?s1] s1 c by (simp add: leaving_def)
  then have "FinalizeProjectClaim alone ?s = ((ObjectModified, None), ?s2)"
    using none s1(3)
    by (simp add: FinalizeProjectClaim_def ProjectReferenceExists_def new_reference_key cluster_kube_def api_get_def
        not_found_def finalize_without_reference_def case_prod_beta Let_def)
  then have "EnsureProjectClaimDeletionProcessed alone ?s = (StopProcessing, ?s2)"
    using c by (simp add: EnsureProjectClaimDeletionProcessed_def IsProjectClaimDeletion_def leaving_def
        ObjectModified_def ObjectUnchanged_def)
  from leaving_Reconcile [OF c this] show ?thesis
    using nothing_new_trans [OF nothing_new_trans [OF claim_steps_new(1) [of ?s] claim_steps_new(2) [of ?s1]] claim_steps_new(3)] by simp
qed

lemma absent_rounds:
  "cl_claims cl nn = None \<Longrightarrow> claim_round nn cl = cl\<lparr>cl_now := cl_now cl + Second\<rparr>"
  "cl_references cl rk = None \<Longrightarrow> reference_round rk cl = cl\<lparr>cl_now := cl_now cl + Second\<rparr>"
  by (simp_all add: claim_round_def claim_Reconcile_def reference_round_def reference_Reconcile_def cluster_reconciler_def
      cluster_kube_def cluster_env_def api_get_def not_found_def)

text \<open>No claim, and nothing under the key of its reference: that stays so.\<close>

definition removed :: "NamespacedName \<Rightarrow> cluster \<Rightarrow> bool" where
  "removed nn cl \<longleftrightarrow> cl_claims cl nn = None \<and> cl_references cl (ref_key nn) = None"

lemma removed_stays: "removed nn cl \<Longrightarrow> removed nn ((claim_round nn ^^ n) cl)"
  by (induction n) (simp_all add: removed_def absent_rounds)

lemma unreferenced_round:
  assumes "leaving cl c" and "cl_references cl (ref_key (meta_key (pc_Meta c))) = None"
  shows "removed (meta_key (pc_Meta c)) (claim_round (meta_key (pc_Meta c)) cl)"
proof -
  have slept: "leaving (env_Sleep cluster_env Second cl) c"
    "cl_references (env_Sleep cluster_env Second cl) (ref_key (meta_key (pc_Meta c))) = None"
    using leaving_slept [OF assms(1)] assms(2) by (simp_all add: cluster_env_def)
  from unreferenced_removed [OF slept] claim_gone_nothing_new [OF slept] slept(2) show ?thesis
    by (simp add: removed_def claim_round_def nothing_new_def)
qed

text \<open>C5: A deleted claim goes.  When the deletion of a claim was requested that carries no finalizer but that of
  the operator, has no Error condition and is not fake, and its reference holds nothing any more - it was never
  provisioned, or is cleaned up - two rounds of the claim controller remove both the reference and the claim
  from the API server, and further rounds bring neither back.\<close>

theorem deleted_claim_removed:
  assumes "leaving cl c" and "\<And>r. cl_references cl (ref_key (meta_key (pc_Meta c))) = Some r \<Longrightarrow> om_Finalizers (pr_Meta r) = []"
    and "2 \<le> n"
  shows "cl_claims ((claim_round (meta_key (pc_Meta c)) ^^ n) cl) (meta_key (pc_Meta c)) = None \<and>
    cl_references ((claim_round (meta_key (pc_Meta c)) ^^ n) cl) (ref_key (meta_key (pc_Meta c))) = None"
proof -
  let ?nn = "meta_key (pc_Meta c)"
  have two: "removed ?nn ((claim_round ?nn ^^ 2) cl)"
  proof (cases "cl_references cl (ref_key ?nn)")
    case None
    from removed_stays [OF unreferenced_round [OF assms(1) None], of 1] show ?thesis by (simp add: numeral_2_eq_2)
  next
    case (Some r)
    have "leaving (claim_round ?nn cl) c \<and> cl_references (claim_round ?nn cl) (ref_key ?nn) = None"
      unfolding claim_round_def using Some assms(1,2)
      by (intro unheld_removed [where r = r] leaving_slept) (simp_all add: cluster_env_def)
    with unreferenced_round show ?thesis by (simp add: numeral_2_eq_2)
  qed
  from assms(3) have "(claim_round ?nn ^^ n) cl = (claim_round ?nn ^^ (n - 2)) ((claim_round ?nn ^^ 2) cl)"
    by (metis add_diff_cancel_right' comp_apply funpow_add le_add_diff_inverse2)
  with removed_stays [OF two] show ?thesis by (simp add: removed_def)
qed

text \<open>A claim that is being deleted while its reference is still there.\<close>

definition departed_claim :: ProjectClaim where
  "departed_claim = ccs_sample_claim\<lparr>pc_Meta := (pc_Meta ccs_sample_claim)\<lparr>om_DeletionTimestamp := Some 0\<rparr>\<rparr>"

definition leaving_cluster :: cluster where
  "leaving_cluster = ccs_cluster\<lparr>cl_claims := [sample_key \<mapsto> departed_claim],
     cl_references := [sample_reference_key \<mapsto> newMatchingProjectReference ccs_sample_claim]\<rparr>"

theorem deleted_claim_removed_witness:
  "cl_claims leaving_cluster sample_key \<noteq> None \<and> cl_references leaving_cluster sample_reference_key \<noteq> None \<and>
   cl_claims ((claim_round sample_key ^^ 2) leaving_cluster) sample_key = None \<and>
   cl_references ((claim_round sample_key ^^ 2) leaving_cluster) sample_reference_key = None"
proof -
  have key: "meta_key (pc_Meta departed_claim) = sample_key" "ref_key sample_key = sample_reference_key"
    by (simp_all add: departed_claim_def ccs_sample_claim_def sample_key_def sample_reference_key_def new_meta_def
        meta_key_def ref_key_def ProjectReferenceNamespace_def)
  have "leaving leaving_cluster departed_claim"
    unfolding leaving_def key
    by (simp add: leaving_cluster_def departed_claim_def is_fake_def ccs_sample_claim_def new_meta_def HasCondition_def)
  moreover have "om_Finalizers (pr_Meta r) = []" if "cl_references leaving_cluster sample_reference_key = Some r" for r
    using that newMatchingProjectReference_blank [of ccs_sample_claim] by (auto simp: leaving_cluster_def blank_reference_def)
  ultimately show ?thesis
    using deleted_claim_removed [of leaving_cluster departed_claim 2] unfolding key by (simp add: leaving_cluster_def)
qed

end
