(* ===== verification/Cleanup.thy ===== *)
theory Cleanup
  imports Readiness Removal
begin

text \<open>
  The end of a claim that has a project: the clean-up of its reference succeeds on the cloud of \<^verbatim>\<open>Cluster\<close>,
  so two rounds of the two controllers leave nothing of the claim behind.
\<close>

subsection \<open>The steps of the clean-up\<close>

text \<open>What every step does at most, and what most of them leave alone besides.\<close>

definition tidied :: "cluster \<Rightarrow> cluster \<Rightarrow> bool" where
  "tidied cl cl' \<longleftrightarrow> cl_claims cl' = cl_claims cl \<and> cl_references cl' = cl_references cl \<and>
     set (cl_accounts cl') \<subseteq> set (cl_accounts cl) \<and>
     (\<forall>nn. cl_secrets cl' nn \<in> {None, cl_secrets cl nn})"

definition tidied_but :: "cluster \<Rightarrow> cluster \<Rightarrow> bool" where
  "tidied_but cl cl' \<longleftrightarrow> tidied cl cl' \<and> cl_projects cl' = cl_projects cl \<and>
     cl_accounts cl' = cl_accounts cl"

lemma tidied_refl [simp]: "tidied cl cl" "tidied_but cl cl"
  by (simp_all add: tidied_def tidied_but_def)

lemma tidied_trans: "tidied a b \<Longrightarrow> tidied b c \<Longrightarrow> tidied a c"
  unfolding tidied_def by (metis (no_types, lifting) insert_iff order_trans singletonD)

lemma tidied_but_trans: "tidied_but a b \<Longrightarrow> tidied_but b c \<Longrightarrow> tidied_but a c"
  using tidied_trans by (auto simp: tidied_but_def)

lemma tidied_account: "tidied a b \<Longrightarrow> has_account resource b \<Longrightarrow> has_account resource a"
  by (auto simp: tidied_def has_account_def)

lemma tidied_policies [simp]: "tidied_but cl (bump cl\<lparr>cl_policies := ps\<rparr>)"
  by (simp add: tidied_but_def tidied_def bump_def)

lemma SetIamPolicy_tidied:
  "pol_Etag policy = pol_Etag (cl_policies w (gc_projectName c)) \<Longrightarrow>
     \<exists>policy' w'. SetIamPolicy cluster_sdk c policy w = (Inr policy', w') \<and> tidied_but w w'"
  by (simp add: SetIamPolicy_def cluster_sdk_def set_policy_def Let_def)

lemma DeleteIAMPolicy_returns:
  assumes "reference_project s = p"
  shows "returns (DeleteIAMPolicy (provisioner p creds) email mt) None s tidied_but"
proof -
  let ?policy = "normal_policy (cl_policies (rs_world s) p)"
  obtain bindings modified where remove: "RemoveOrUpdateBinding (pol_Bindings ?policy) email mt = (bindings, modified)" by fastforce
  have "pol_Etag (?policy\<lparr>pol_Bindings := bindings\<rparr>) = pol_Etag (cl_policies (rs_world s) p)" by (simp add: normal_policy_def)
  then obtain policy' w where set: "SetIamPolicy cluster_sdk \<lparr>gc_projectName = p, gc_creds = creds\<rparr> (?policy\<lparr>pol_Bindings := bindings\<rparr>)
      (rs_world s) = (Inr policy', w)" and w: "tidied_but (rs_world s) w"
    using SetIamPolicy_tidied [of "?policy\<lparr>pol_Bindings := bindings\<rparr>" "rs_world s" "\<lparr>gc_projectName = p, gc_creds = creds\<rparr>"]
    by auto
  have get: "on_world (g_GetIamPolicy (ra_gcpClient (provisioner p creds)) (reference_project s)) s = (Inr ?policy, s)"
    using assms by (simp add: on_world_def GetIamPolicy_cluster)
  show ?thesis
  proof (cases modified)
    case True
    with set w get remove show ?thesis
      by (intro returnsI [of _ _ _ w]) (simp_all add: DeleteIAMPolicy_def DeleteIAMPolicy_loop.simps [of _ _ _ 0] on_world_def)
  next
    case False
    with get remove show ?thesis
      by (intro returns_same) (simp_all add: DeleteIAMPolicy_def DeleteIAMPolicy_loop.simps [of _ _ _ 0])
  qed
qed

lemma delete_group_policies_returns:
  "reference_project s = p \<Longrightarrow> returns (delete_group_policies (provisioner p creds) emails) None s tidied_but"
proof (induction emails arbitrary: s)
  case Nil
  show ?case by (intro returns_same) simp_all
next
  case (Cons email emails)
  obtain w where "DeleteIAMPolicy (provisioner p creds) email GoogleGroup s = (None, s\<lparr>rs_world := w\<rparr>)"
    and w: "tidied_but (rs_world s) w"
    by (rule returnsE [OF DeleteIAMPolicy_returns [OF Cons.prems]])
  moreover obtain w' where "delete_group_policies (provisioner p creds) emails (s\<lparr>rs_world := w\<rparr>) = (None, s\<lparr>rs_world := w'\<rparr>)"
    and "tidied_but w w'"
    by (rule returnsE [OF Cons.IH [of "s\<lparr>rs_world := w\<rparr>"]]) (simp_all add: Cons.prems)
  ultimately show ?case using tidied_but_trans [OF w] by (auto simp: returns_def)
qed

lemma ensureCCSProjectCleanedUp_returns:
  assumes "reference_project s = p"
  shows "returns (ensureCCSProjectCleanedUp (provisioner p creds) ccs) None s tidied_but"
proof -
  obtain w where "delete_group_policies (provisioner p creds) (oc_CCSConsoleAccess cluster_config) s = (None, s\<lparr>rs_world := w\<rparr>)"
    and w: "tidied_but (rs_world s) w"
    by (rule returnsE [OF delete_group_policies_returns [OF assms]])
  moreover obtain w' where "delete_group_policies (provisioner p creds) (oc_CCSReadOnlyConsoleAccess cluster_config)
      (s\<lparr>rs_world := w\<rparr>) = (None, s\<lparr>rs_world := w'\<rparr>)" and "tidied_but w w'"
    by (rule returnsE [OF delete_group_policies_returns [of "s\<lparr>rs_world := w\<rparr>"]]) (simp_all add: assms)
  ultimately have "returns (ensureCCSProjectCleanedUp (provisioner p creds) True) None s tidied_but"
    using tidied_but_trans [OF w] by (auto simp: ensureCCSProjectCleanedUp_def returns_def)
  moreover have "returns (ensureCCSProjectCleanedUp (provisioner p creds) False) None s tidied_but"
    by (intro returns_same) (simp_all add: ensureCCSProjectCleanedUp_def)
  ultimately show ?thesis by (cases ccs) simp_all
qed

text \<open>The account is gone afterwards.\<close>

definition proper_account :: "string \<Rightarrow> string \<Rightarrow> cluster \<Rightarrow> bool" where
  "proper_account p name cl \<longleftrightarrow> (\<forall>a\<in>set (cl_accounts cl). sa_Name a = the_account p name \<longrightarrow> sa_Email a = account_email p name)"

definition tidied_account_gone :: "string \<Rightarrow> cluster \<Rightarrow> cluster \<Rightarrow> bool" where
  "tidied_account_gone resource cl cl' \<longleftrightarrow> tidied cl cl' \<and> cl_projects cl' = cl_projects cl \<and>
     \<not> has_account resource cl'"

lemma deleteServiceAccount_returns:
  assumes p: "reference_project s = p" and proper: "proper_account p (reference_account s) (rs_world s)"
  shows "returns (deleteServiceAccount (provisioner p creds)) None s (tidied_account_gone (the_account p (reference_account s)))"
proof (cases "has_account (the_account p (reference_account s)) (rs_world s)")
  case False
  then have "on_world (g_GetServiceAccount (ra_gcpClient (provisioner p creds)) (reference_account s)) s = (Inl google_not_found, s)"
    using GetServiceAccount_absent [OF False] by (simp add: on_world_def)
  with False show ?thesis
    by (intro returns_same) (simp_all add: deleteServiceAccount_def google_not_found_def matchesNotFoundError_def tidied_account_gone_def)
next
  case True
  let ?c = "\<lparr>gc_projectName = p, gc_creds = creds\<rparr>" and ?at = "the_account p (reference_account s)"
  obtain a where a: "GetServiceAccount cluster_sdk ?c (reference_account s) (rs_world s) = (Inr a, rs_world s)"
    "a \<in> set (cl_accounts (rs_world s))" "sa_Name a = ?at"
    by (rule GetServiceAccount_present [OF True])
  then have get: "on_world (g_GetServiceAccount (ra_gcpClient (provisioner p creds)) (reference_account s)) s = (Inr a, s)"
    by (simp add: on_world_def)
  have email: "sa_Email a = account_email p (reference_account s)" using a proper by (simp add: proper_account_def)
  obtain w where policy: "DeleteIAMPolicy (provisioner p creds) (sa_Email a) ServiceAccount s = (None, s\<lparr>rs_world := w\<rparr>)"
    and w: "tidied_but (rs_world s) w"
    by (rule returnsE [OF DeleteIAMPolicy_returns [OF p]])
  let ?w = "w\<lparr>cl_accounts := filter (\<lambda>a. sa_Name a \<noteq> ?at) (cl_accounts w)\<rparr>"
  have resource: "service_account_resource ?c (sa_Email a) = ?at"
    by (simp add: email account_resource_def account_email_def service_account_resource_def)
  have "has_account ?at w" using True w by (simp add: tidied_but_def has_account_def)
  then have "DeleteServiceAccount cluster_sdk ?c (sa_Email a) w = (None, ?w)"
    using find_account [of ?at w] by (simp add: DeleteServiceAccount_def cluster_sdk_def resource)
  then show ?thesis
    using get policy w
    by (intro returnsI [of _ _ _ ?w])
      (auto simp: deleteServiceAccount_def on_world_def tidied_account_gone_def tidied_but_def tidied_def has_account_def)
qed

text \<open>No project of the reference is left to the operator.\<close>

definition ids_distinct :: "cluster \<Rightarrow> bool" where
  "ids_distinct cl \<longleftrightarrow> distinct (map p_ProjectId (cl_projects cl))"

definition project_states :: "string \<Rightarrow> string set \<Rightarrow> cluster \<Rightarrow> bool" where
  "project_states p S cl \<longleftrightarrow> (\<forall>x\<in>set (cl_projects cl). p_ProjectId x = p \<longrightarrow> p_LifecycleState x \<in> S)"

definition tidied_project :: "string \<Rightarrow> cluster \<Rightarrow> cluster \<Rightarrow> bool" where
  "tidied_project p cl cl' \<longleftrightarrow> tidied cl cl' \<and> project_states p {''DELETE_REQUESTED''} cl'"

lemma convertProjectsToMap_id:
  "convertProjectsToMap xs n = Some x \<Longrightarrow> p_ProjectId x = n" "convertProjectsToMap xs n = None \<Longrightarrow> \<forall>x\<in>set xs. p_ProjectId x \<noteq> n"
proof -
  have "(foldl (\<lambda>m project. m(p_ProjectId project \<mapsto> project)) m xs n = Some x \<longrightarrow> p_ProjectId x = n \<or> m n = Some x) \<and>
    (foldl (\<lambda>m project. m(p_ProjectId project \<mapsto> project)) m xs n = None \<longrightarrow> m n = None \<and> (\<forall>x\<in>set xs. p_ProjectId x \<noteq> n))" for m
  proof (induction xs arbitrary: m)
    case (Cons a xs)
    from Cons.IH [of "m(p_ProjectId a \<mapsto> a)"] show ?case by (auto split: if_splits)
  qed simp
  from this [of Map.empty] show "convertProjectsToMap xs n = Some x \<Longrightarrow> p_ProjectId x = n"
    "convertProjectsToMap xs n = None \<Longrightarrow> \<forall>x\<in>set xs. p_ProjectId x \<noteq> n"
    unfolding convertProjectsToMap_def by simp_all
qed

lemma ids_distinct_same:
  "ids_distinct cl \<Longrightarrow> x \<in> set (cl_projects cl) \<Longrightarrow> y \<in> set (cl_projects cl) \<Longrightarrow> p_ProjectId x = p_ProjectId y \<Longrightarrow> x = y"
  unfolding ids_distinct_def by (metis (mono_tags) distinct_map inj_onD)

lemma deleteProject_returns:
  assumes p: "reference_project s = p" and ids: "ids_distinct (rs_world s)"
    and states: "project_states p {''ACTIVE'', ''DELETE_REQUESTED''} (rs_world s)"
  shows "returns (deleteProject (provisioner p creds)) None s (tidied_project p)"
proof -
  let ?x = "convertProjectsToMap (cl_projects (rs_world s)) p"
  have get: "getProject (provisioner p creds) p s = (Inr ?x, s)"
    by (simp add: getProject_def on_world_def ListProjects_def cluster_sdk_def)
  show ?thesis
  proof (cases ?x)
    case None
    with convertProjectsToMap_id(2) [OF None] p get show ?thesis
      by (intro returns_same) (simp_all add: deleteProject_def tidied_project_def project_states_def)
  next
    case (Some x)
    note x = convertProjectsToMap_Some [OF Some] convertProjectsToMap_id(1) [OF Some]
    show ?thesis
    proof (cases "p_LifecycleState x = ''DELETE_REQUESTED''")
      case True
      then have "project_states p {''DELETE_REQUESTED''} (rs_world s)"
        using ids_distinct_same [OF ids _ x(1)] x(2) by (auto simp: project_states_def)
      with True Some p get show ?thesis
        by (intro returns_same) (simp_all add: deleteProject_def tidied_project_def)
    next
      case False
      with states x have active: "p_LifecycleState x = ''ACTIVE''" by (auto simp: project_states_def)
      let ?w = "(rs_world s)\<lparr>cl_projects := map (\<lambda>y. if p_ProjectId y = p then y\<lparr>p_LifecycleState := ''DELETE_REQUESTED''\<rparr> else y)
        (cl_projects (rs_world s))\<rparr>"
      have "find_project (rs_world s) p \<noteq> None" using x by (auto simp: find_project_def find_None_iff)
      then have delete: "DeleteProject cluster_sdk \<lparr>gc_projectName = p, gc_creds = creds\<rparr> (p_ProjectId x) (rs_world s) = (None, ?w)"
        by (simp add: DeleteProject_def cluster_sdk_def)
      have "tidied (rs_world s) ?w" by (simp add: tidied_def)
      moreover have "project_states p {''DELETE_REQUESTED''} ?w" by (simp add: project_states_def ball_Un)
      ultimately have tidied: "tidied_project p (rs_world s) ?w" by (simp add: tidied_project_def)
      have "deleteProject (provisioner p creds) s = (None, s\<lparr>rs_world := ?w\<rparr>)"
        using Some p get active delete by (simp add: deleteProject_def on_world_def)
      then show ?thesis using tidied by (rule returnsI)
    qed
  qed
qed

text \<open>The credentials are gone, unless somebody holds them.\<close>

definition unheld_secret :: "NamespacedName \<Rightarrow> cluster \<Rightarrow> bool" where
  "unheld_secret nn cl \<longleftrightarrow> (\<forall>x. cl_secrets cl nn = Some x \<longrightarrow> om_Finalizers (s_Meta x) = [])"

definition tidied_secret :: "NamespacedName \<Rightarrow> cluster \<Rightarrow> cluster \<Rightarrow> bool" where
  "tidied_secret nn cl cl' \<longleftrightarrow> tidied cl cl' \<and> cl_projects cl' = cl_projects cl \<and> cl_secrets cl' nn = None"

lemma deleteCredentials_returns:
  assumes "unheld_secret (pcs_GCPCredentialSecret (pc_Spec (rs_claim s))) (rs_world s)"
  shows "returns (deleteCredentials (provisioner p creds)) None s (tidied_secret (pcs_GCPCredentialSecret (pc_Spec (rs_claim s))))"
proof -
  let ?nn = "pcs_GCPCredentialSecret (pc_Spec (rs_claim s))"
  have exists: "on_world (SecretExists cluster_kube (nn_Name ?nn) (nn_Namespace ?nn)) s = (cl_secrets (rs_world s) ?nn \<noteq> None, s)"
    by (simp add: on_world_def SecretExists_def cluster_kube_def api_get_def split: option.split)
  show ?thesis
  proof (cases "cl_secrets (rs_world s) ?nn")
    case None
    with exists show ?thesis by (intro returns_same) (simp_all add: deleteCredentials_def Let_def tidied_secret_def)
  next
    case (Some x)
    let ?x = "set_s_meta (keyed ?nn (s_Meta x)) x"
    have get: "on_world (GetSecret cluster_kube (nn_Name ?nn) (nn_Namespace ?nn)) s = (Inr ?x, s)"
      using Some by (simp add: on_world_def GetSecret_def cluster_kube_def api_get_def)
    let ?w = "bump ((rs_world s)\<lparr>cl_secrets := (cl_secrets (rs_world s))(?nn := None)\<rparr>)"
    have "on_world (k_DeleteSecret cluster_kube ?x) s = (None, s\<lparr>rs_world := ?w\<rparr>)"
      using Some assms by (simp add: on_world_def cluster_kube_def with_secrets_def api_delete_def unheld_secret_def bump_def)
    then show ?thesis
      using exists get Some
      by (intro returnsI [of _ _ _ ?w])
        (simp_all add: deleteCredentials_def Let_def, simp add: tidied_secret_def tidied_def bump_def)
  qed
qed

subsection \<open>The whole clean-up\<close>

text \<open>What the operator made for a claim is gone.\<close>

definition traces_gone :: "ProjectClaim \<Rightarrow> ProjectReference \<Rightarrow> cluster \<Rightarrow> bool" where
  "traces_gone c r cl \<longleftrightarrow> cl_secrets cl (pcs_GCPCredentialSecret (pc_Spec c)) = None \<and>
     \<not> has_account (the_account (prs_GCPProjectID (pr_Spec r)) (prs_ServiceAccountName (pr_Spec r))) cl \<and>
     (prs_CCS (pr_Spec r) \<or> project_states (prs_GCPProjectID (pr_Spec r)) {''DELETE_REQUESTED''} cl)"

text \<open>The cloud is in a state in which this can be cleaned up.\<close>

definition tidy_cloud :: "ProjectClaim \<Rightarrow> ProjectReference \<Rightarrow> cluster \<Rightarrow> bool" where
  "tidy_cloud c r cl \<longleftrightarrow> ids_distinct cl \<and>
     project_states (prs_GCPProjectID (pr_Spec r)) {''ACTIVE'', ''DELETE_REQUESTED''} cl \<and>
     proper_account (prs_GCPProjectID (pr_Spec r)) (prs_ServiceAccountName (pr_Spec r)) cl \<and>
     unheld_secret (pcs_GCPCredentialSecret (pc_Spec c)) cl"

lemma unheld_tidied: "unheld_secret nn a \<Longrightarrow> tidied a b \<Longrightarrow> unheld_secret nn b"
  unfolding unheld_secret_def tidied_def by (metis insert_iff option.distinct(1) singletonD)

lemma cleanup_before_release:
  assumes tidy: "tidy_cloud (rs_claim s) (rs_reference s) (rs_world s)"
    and p: "reference_project s = p"
  obtains w where "EnsureProjectCleanedUp (provisioner p creds) s = EnsureFinalizerDeleted (provisioner p creds) (s\<lparr>rs_world := w\<rparr>)"
    and "tidied (rs_world s) w" and "traces_gone (rs_claim s) (rs_reference s) w"
proof -
  let ?r = "provisioner p creds" and ?nn = "pcs_GCPCredentialSecret (pc_Spec (rs_claim s))" and ?at = "the_account p (reference_account s)"
  obtain w1 where account: "deleteServiceAccount ?r s = (None, s\<lparr>rs_world := w1\<rparr>)" and w1: "tidied (rs_world s) w1"
    "cl_projects w1 = cl_projects (rs_world s)" "\<not> has_account ?at w1"
    by (rule returnsE [OF deleteServiceAccount_returns [OF p, of creds]])
      (use tidy p in \<open>simp_all add: tidy_cloud_def tidied_account_gone_def\<close>)
  let ?s1 = "s\<lparr>rs_world := w1\<rparr>"
  obtain w2 where project: "cleanup_project ?r ?s1 = (None, s\<lparr>rs_world := w2\<rparr>)" and w2: "tidied w1 w2"
    "isCCS s \<or> project_states p {''DELETE_REQUESTED''} w2"
  proof (cases "isCCS s")
    case True
    then show thesis by (intro that [of w1]) (simp_all add: cleanup_project_def isCCS_def)
  next
    case False
    obtain w2 where "deleteProject ?r ?s1 = (None, s\<lparr>rs_world := w2\<rparr>)" "tidied_project p w1 w2"
      by (rule returnsE [OF deleteProject_returns [of ?s1 p creds]])
        (use tidy p w1(2) in \<open>simp_all add: tidy_cloud_def ids_distinct_def project_states_def\<close>)
    with False show thesis by (intro that [of w2]) (simp_all add: cleanup_project_def isCCS_def tidied_project_def)
  qed
  let ?s2 = "s\<lparr>rs_world := w2\<rparr>"
  obtain w3 where console: "ensureCCSProjectCleanedUp ?r (isCCS ?s2) ?s2 = (None, s\<lparr>rs_world := w3\<rparr>)" and w3: "tidied_but w2 w3"
    by (rule returnsE [OF ensureCCSProjectCleanedUp_returns [of ?s2 p creds "isCCS ?s2"]]) (simp_all add: p)
  let ?s3 = "s\<lparr>rs_world := w3\<rparr>"
  have until3: "tidied (rs_world s) w3"
    using tidied_trans [OF tidied_trans [OF w1(1) w2(1)]] w3 by (simp add: tidied_but_def)
  have "unheld_secret ?nn w3" using unheld_tidied [OF _ until3] tidy by (simp add: tidy_cloud_def)
  then obtain w4 where credentials: "deleteCredentials ?r ?s3 = (None, s\<lparr>rs_world := w4\<rparr>)" and w4: "tidied w3 w4"
    "cl_projects w4 = cl_projects w3" "cl_secrets w4 ?nn = None"
    by - (rule returnsE [OF deleteCredentials_returns [of ?s3 p creds]], simp_all add: tidied_secret_def)
  have "\<not> has_account ?at w4"
    using w1(3) tidied_account [OF w2(1)] tidied_account [of w2 w3] tidied_account [OF w4(1)] w3 by (auto simp: tidied_but_def)
  moreover have "isCCS s \<or> project_states p {''DELETE_REQUESTED''} w4"
    using w2(2) w3 w4(2) by (simp add: tidied_but_def project_states_def)
  ultimately have "traces_gone (rs_claim s) (rs_reference s) w4"
    using w4(3) p by (simp add: traces_gone_def isCCS_def)
  moreover have "EnsureProjectCleanedUp ?r s = EnsureFinalizerDeleted ?r (s\<lparr>rs_world := w4\<rparr>)"
    using account project console credentials by (simp add: EnsureProjectCleanedUp_def)
  ultimately show thesis using tidied_trans [OF until3 w4(1)] by (intro that [of w4])
qed

subsection \<open>The reference goes\<close>

definition undone :: "ProjectClaim \<Rightarrow> ProjectReference \<Rightarrow> cluster \<Rightarrow> bool" where
  "undone c r cl \<longleftrightarrow> leaving cl c \<and> cl_references cl (ref_key (meta_key (pc_Meta c))) = None \<and> traces_gone c r cl"

lemma undone_tidied: "undone c r a \<Longrightarrow> tidied_but a b \<Longrightarrow> undone c r b"
  by (auto simp: undone_def leaving_def traces_gone_def tidied_but_def tidied_def has_account_def project_states_def)

definition departing :: "cluster \<Rightarrow> ProjectClaim \<Rightarrow> ProjectReference \<Rightarrow> bool" where
  "departing cl c r \<longleftrightarrow> leaving cl c \<and> cl_references cl (ref_key (meta_key (pc_Meta c))) = Some r \<and>
     meta_key (pr_Meta r) = ref_key (meta_key (pc_Meta c)) \<and> link_of r = meta_key (pc_Meta c) \<and>
     om_Finalizers (pr_Meta r) = [FinalizerName] \<and> pr_Conditions r \<noteq> None \<and> config_ready cl \<and>
     credentials_at cl (credential_secret r) \<and> tidy_cloud c r cl"

lemma finalizer_released:
  assumes "cl_references (rs_world s) (meta_key (pr_Meta (rs_reference s))) = Some (rs_reference s)"
    and "om_DeletionTimestamp (pr_Meta (rs_reference s)) \<noteq> None" and "om_Finalizers (pr_Meta (rs_reference s)) = [FinalizerName]"
  obtains s' where "EnsureFinalizerDeleted (provisioner p creds) s = (None, s')"
    and "rs_world s' = bump ((rs_world s)\<lparr>cl_references := (cl_references (rs_world s))(meta_key (pr_Meta (rs_reference s)) := None)\<rparr>)"
    and "meta_key (pr_Meta (rs_reference s')) = meta_key (pr_Meta (rs_reference s))"
proof -
  have "fst (EnsureFinalizerDeleted (provisioner p creds) s) = None \<and>
    rs_world (snd (EnsureFinalizerDeleted (provisioner p creds) s)) =
      bump ((rs_world s)\<lparr>cl_references := (cl_references (rs_world s))(meta_key (pr_Meta (rs_reference s)) := None)\<rparr>) \<and>
    meta_key (pr_Meta (rs_reference (snd (EnsureFinalizerDeleted (provisioner p creds) s)))) = meta_key (pr_Meta (rs_reference s))"
    using assms by (simp add: EnsureFinalizerDeleted_def set_ref_finalizers_def ref_update_def
        cluster_kube_def with_references_def api_update_def set_pr_meta_def bump_def Let_def)
  with that show thesis by (metis prod.collapse)
qed

lemma status_of_removed:
  "cl_references w (meta_key (pr_Meta x)) = None \<Longrightarrow>
     k_StatusUpdateProjectReference cluster_kube x w = ((Some not_found, x), bump w)"
  by (simp add: cluster_kube_def with_references_def api_update_def bump_def)

lemma condition_on_removed:
  assumes "cl_references (rs_world s) (meta_key (pr_Meta (rs_reference s))) = None"
  shows "tidied_but (rs_world s) (rs_world (snd (SetProjectReferenceCondition (provisioner p creds) reason None s)))"
proof (cases "elems (pr_Conditions (rs_reference s)) = []")
  case True
  then show ?thesis by (simp add: SetProjectReferenceCondition_def)
next
  case False
  obtain cs where "ref_set_condition (provisioner p creds) ConditionError ConditionFalse (reason @ ''Resolved'') '''' s =
      s\<lparr>rs_reference := set_reference_conditions (Some cs) (rs_reference s)\<rparr>"
    using ref_set_condition_cluster by blast
  moreover have "tidied_but w (bump w)" for w by (simp add: tidied_but_def tidied_def bump_def)
  ultimately show ?thesis
    using assms False status_of_removed [of "rs_world s" "set_reference_conditions (Some cs) (rs_reference s)"]
    by (simp add: SetProjectReferenceCondition_def reference_StatusUpdate_def ref_status_update_def)
qed

lemma cleaned_up:
  assumes d: "departing cl c r" and deletion: "om_DeletionTimestamp (pr_Meta r) \<noteq> None"
  shows "undone c r (snd (reference_Reconcile cluster_reconciler (ref_key (meta_key (pc_Meta c))) cl))"
proof -
  let ?s = "\<lparr>rs_claim = c, rs_reference = r, rs_world = cl\<rparr>" and ?rk = "ref_key (meta_key (pc_Meta c))"
  have key: "meta_key (pr_Meta r) = ?rk" using d by (simp add: departing_def)
  obtain creds where run: "snd (reference_Reconcile cluster_reconciler (meta_key (pr_Meta r)) cl) =
    (let p = provisioner (prs_GCPProjectID (pr_Spec r)) creds; x = reference_ReconcileHandler p ?s
     in rs_world (snd (SetProjectReferenceCondition p ''ReconcileError'' (snd (fst x)) (snd x))))"
    by (rule reconcile_on_cluster [of cl r c]) (use d deletion key in \<open>simp_all add: departing_def leaving_def\<close>)
  let ?p = "provisioner (prs_GCPProjectID (pr_Spec r)) creds"
  obtain w where cleanup: "EnsureProjectCleanedUp ?p ?s = EnsureFinalizerDeleted ?p (?s\<lparr>rs_world := w\<rparr>)"
    and w: "tidied cl w" and gone: "traces_gone c r w"
    by (rule cleanup_before_release [of ?s "prs_GCPProjectID (pr_Spec r)" creds]) (use d in \<open>simp_all add: departing_def\<close>)
  have same: "cl_references w ?rk = Some r" "cl_claims w = cl_claims cl" using d w by (simp_all add: departing_def tidied_def)
  obtain s' where release: "EnsureFinalizerDeleted ?p (?s\<lparr>rs_world := w\<rparr>) = (None, s')"
    and s': "rs_world s' = bump (w\<lparr>cl_references := (cl_references w)(?rk := None)\<rparr>)" "meta_key (pr_Meta (rs_reference s')) = ?rk"
    by (rule finalizer_released [of "?s\<lparr>rs_world := w\<rparr>" "prs_GCPProjectID (pr_Spec r)" creds])
      (use d deletion same key in \<open>simp_all add: departing_def\<close>)
  have "EnsureProjectReferenceInitialized ?p ?s = (ContinueProcessing, ?s)" "EnsureDeletionProcessed ?p ?s = (StopProcessing, s')"
    using d deletion cleanup release
    by (auto simp: EnsureProjectReferenceInitialized_def EnsureDeletionProcessed_def IsDeletionRequested_def departing_def)
  then have "reference_ReconcileHandler ?p ?s = ((empty_Result, None), s')"
    by (simp add: reference_ReconcileHandler_def reference_operations_def)
  moreover have "undone c r (rs_world s')"
    using d gone same(2) by (simp add: s' undone_def departing_def leaving_def traces_gone_def has_account_def project_states_def bump_def)
  moreover have "cl_references (rs_world s') (meta_key (pr_Meta (rs_reference s'))) = None" unfolding s' by (simp add: bump_def)
  from condition_on_removed [OF this] have
    "tidied_but (rs_world s') (rs_world (snd (SetProjectReferenceCondition ?p ''ReconcileError'' None s')))" .
  ultimately show ?thesis
    using undone_tidied run by (simp add: key Let_def)
qed

subsection \<open>The claim asks for it, and goes\<close>

lemma departing_slept: "departing cl c r \<Longrightarrow> departing (env_Sleep cluster_env d cl) c r"
  by (simp add: departing_def leaving_def config_ready_def credentials_at_def secret_data_def tidy_cloud_def ids_distinct_def
      project_states_def proper_account_def unheld_secret_def cluster_env_def)

lemma undone_slept: "undone c r cl \<Longrightarrow> undone c r (env_Sleep cluster_env d cl)"
  by (erule undone_tidied) (simp add: tidied_but_def tidied_def cluster_env_def)

lemma departing_again:
  assumes "departing cl c r" and "pr_Spec r' = pr_Spec r" and "pr_Status r' = pr_Status r"
    and "meta_key (pr_Meta r') = meta_key (pr_Meta r)" and "om_Finalizers (pr_Meta r') = om_Finalizers (pr_Meta r)"
  shows "departing (bump (cl\<lparr>cl_references := (cl_references cl)(ref_key (meta_key (pc_Meta c)) \<mapsto> r')\<rparr>)) c r'"
proof -
  have "credential_secret r' = credential_secret r" using assms(2) by (simp add: credential_secret_def)
  with assms show ?thesis
    by (simp add: departing_def) (simp add: leaving_def config_ready_def credentials_at_def secret_data_def tidy_cloud_def
      ids_distinct_def project_states_def proper_account_def unheld_secret_def bump_def)
qed

lemma deletion_asked_for:
  assumes d: "departing cl c r"
  obtains r' where "departing (snd (claim_Reconcile cluster_kube cluster_env (meta_key (pc_Meta c)) cl)) c r'"
    and "om_DeletionTimestamp (pr_Meta r') \<noteq> None" and "pr_Spec r' = pr_Spec r"
proof -
  let ?s = "new_state c cl" and ?rk = "ref_key (meta_key (pc_Meta c))"
  have c: "leaving cl c" and r: "cl_references cl ?rk = Some r" using d by (simp_all add: departing_def)
  have key: "meta_key (pr_Meta (newMatchingProjectReference c)) = ?rk" by simp
  let ?r = "if om_DeletionTimestamp (pr_Meta r) = None
    then r\<lparr>pr_Meta := (pr_Meta r)\<lparr>om_DeletionTimestamp := Some (cl_now cl), om_ResourceVersion := show_nat (cl_version cl)\<rparr>\<rparr> else r"
  let ?cl = "bump (cl\<lparr>cl_references := (cl_references cl)(?rk \<mapsto> ?r)\<rparr>)"
  have "(cl_references cl)(?rk \<mapsto> r) = cl_references cl" using r by auto
  then have "k_DeleteProjectReference cluster_kube (newMatchingProjectReference c) cl = (None, ?cl)"
    using r d by (simp add: cluster_kube_def with_references_def api_delete_def key bump_def departing_def set_pr_meta_def)
  then have "FinalizeProjectClaim alone ?s = ((ObjectUnchanged, None), new_state c ?cl)"
    using r by (simp add: FinalizeProjectClaim_def ProjectReferenceExists_def new_reference_key
        IsProjectReferenceDeletion_def get_reference_cluster api_get_def Let_def)
  then have "EnsureProjectClaimDeletionProcessed alone ?s = (RequeueAfter (5 * Second) None, new_state c ?cl)"
    using c by (simp add: EnsureProjectClaimDeletionProcessed_def IsProjectClaimDeletion_def leaving_def)
  from leaving_Reconcile [OF c this] c
  have run: "snd (claim_Reconcile cluster_kube cluster_env (meta_key (pc_Meta c)) cl) = ?cl"
    by (simp add: SetProjectClaimCondition_def leaving_def NewConditionManager_def)
  have "departing ?cl c ?r" by (rule departing_again [OF d]) (simp_all add: meta_key_def)
  with run show thesis by (intro that [of ?r]) simp_all
qed

subsection \<open>Rounds\<close>

lemma traces_stay_gone: "nothing_new a b \<Longrightarrow> traces_gone c r a \<Longrightarrow> traces_gone c r b"
  by (auto simp: nothing_new_def traces_gone_def has_account_def project_states_def)

definition vanished :: "ProjectClaim \<Rightarrow> ProjectReference \<Rightarrow> cluster \<Rightarrow> bool" where
  "vanished c r cl \<longleftrightarrow> cl_claims cl (meta_key (pc_Meta c)) = None \<and>
     cl_references cl (ref_key (meta_key (pc_Meta c))) = None \<and> traces_gone c r cl"

lemma vanished_time [simp]: "vanished c r (cl\<lparr>cl_now := t\<rparr>) = vanished c r cl"
  by (simp add: vanished_def traces_gone_def has_account_def project_states_def)

lemma vanished_rounds:
  "vanished c r cl \<Longrightarrow> vanished c r (cluster_rounds n (meta_key (pc_Meta c)) (ref_key (meta_key (pc_Meta c))) cl)"
proof (induction n arbitrary: cl)
  case (Suc n)
  then show ?case by (simp add: absent_rounds vanished_def) (simp flip: vanished_def)
qed simp

lemma undone_round: "undone c r cl \<Longrightarrow> vanished c r (claim_round (meta_key (pc_Meta c)) cl)"
proof -
  assume "undone c r cl"
  from undone_slept [OF this, of Second] have u: "undone c r (env_Sleep cluster_env Second cl)" .
  then have c: "leaving (env_Sleep cluster_env Second cl) c"
    and none: "cl_references (env_Sleep cluster_env Second cl) (ref_key (meta_key (pc_Meta c))) = None"
    and gone: "traces_gone c r (env_Sleep cluster_env Second cl)" by (simp_all add: undone_def)
  note new = claim_gone_nothing_new [OF c none]
  from unreferenced_removed [OF c none] none traces_stay_gone [OF new gone] new
  show ?thesis by (simp add: vanished_def claim_round_def nothing_new_def)
qed

lemma vanished_reference_round: "vanished c r cl \<Longrightarrow> vanished c r (reference_round (ref_key (meta_key (pc_Meta c))) cl)"
proof -
  assume v: "vanished c r cl"
  then have "cl_references cl (ref_key (meta_key (pc_Meta c))) = None" by (simp add: vanished_def)
  from absent_rounds(2) [OF this] v show ?thesis by simp
qed

lemma departing_rounds:
  assumes "departing cl c r"
  shows "vanished c r (cluster_rounds 2 (meta_key (pc_Meta c)) (ref_key (meta_key (pc_Meta c))) cl)"
proof -
  let ?nn = "meta_key (pc_Meta c)"
  obtain r' where d: "departing (claim_round ?nn cl) c r'" "om_DeletionTimestamp (pr_Meta r') \<noteq> None" "pr_Spec r' = pr_Spec r"
    unfolding claim_round_def by (rule deletion_asked_for [OF departing_slept [OF assms]])
  have "undone c r' (reference_round (ref_key ?nn) (claim_round ?nn cl))"
    unfolding reference_round_def by (rule cleaned_up [OF departing_slept [OF d(1)] d(2)])
  then have "undone c r (reference_round (ref_key ?nn) (claim_round ?nn cl))"
    using d(3) by (simp add: undone_def traces_gone_def)
  from vanished_reference_round [OF undone_round [OF this]] show ?thesis by (simp add: numeral_2_eq_2)
qed

lemma rounds_split: "2 \<le> n \<Longrightarrow> cluster_rounds n nn rk cl = cluster_rounds (n - 2) nn rk (cluster_rounds 2 nn rk cl)"
  by (cases n rule: nat.exhaust; cases "n - 1") (auto simp: numeral_2_eq_2)

subsection \<open>The property\<close>

definition provisioned_reference :: ProjectReference where
  "provisioned_reference =
     \<lparr>pr_Meta = (new_meta ''team-web'' ProjectReferenceNamespace)\<lparr>om_Finalizers := [FinalizerName], om_ResourceVersion := ''1''\<rparr>,
      pr_Spec = \<lparr>prs_GCPProjectID = ''o-12345678'', prs_ProjectClaimCRLink = sample_key,
        prs_LegalEntity = \<lparr>le_Name = ''legal'', le_ID = ''1''\<rparr>, prs_CCS = False, prs_CCSSecretRef = namespaced [] [],
        prs_ServiceAccountName = ''osd-managed-admin'', prs_SharedVPCAccess = False\<rparr>,
      pr_Status = \<lparr>prt_Conditions = Some [], prt_State = ProjectReferenceStatusReady\<rparr>\<rparr>"

definition departing_claim :: ProjectClaim where
  "departing_claim = sample_claim\<lparr>pc_Meta := (pc_Meta sample_claim)\<lparr>om_Finalizers := [ProjectClaimFinalizer],
     om_DeletionTimestamp := Some 0\<rparr>\<rparr>"

definition departing_cluster :: cluster where
  "departing_cluster = sample_cluster\<lparr>cl_version := 2, cl_claims := [sample_key \<mapsto> departing_claim],
     cl_references := [sample_reference_key \<mapsto> provisioned_reference],
     cl_secrets := (cl_secrets sample_cluster)(namespaced ''team'' ''gcp-secret'' \<mapsto>
       NewGCPSecretCR ''key'' (namespaced ''team'' ''gcp-secret'')),
     cl_projects := [\<lparr>p_ProjectId = ''o-12345678'', p_Name = ''web'', p_LifecycleState = ''ACTIVE'', p_Labels = Map.empty,
       p_ParentId = ''folder'', p_ParentType = ''folder''\<rparr>],
     cl_accounts := [\<lparr>sa_Email = account_email ''o-12345678'' ''osd-managed-admin'',
       sa_Name = the_account ''o-12345678'' ''osd-managed-admin''\<rparr>]\<rparr>"

text \<open>C4: A deleted claim leaves nothing behind.  When the deletion of a claim was requested whose reference is
  provisioned and holds its finalizer, two rounds of the two controllers, on the API server and the cloud,
  remove the reference and the claim; the credentials secret and the service account are gone, and a project
  that the operator made is deleted.  It stays so.\<close>

theorem provisioned_claim_vanishes:
  assumes "departing cl c r" and "2 \<le> n"
  shows "vanished c r (cluster_rounds n (meta_key (pc_Meta c)) (ref_key (meta_key (pc_Meta c))) cl)"
  unfolding rounds_split [OF assms(2)] by (rule vanished_rounds [OF departing_rounds [OF assms(1)]])

lemma departing_sample: "departing departing_cluster departing_claim provisioned_reference"
  by (simp add: departing_def leaving_def departing_cluster_def departing_claim_def provisioned_reference_def sample_cluster_def
      empty_cluster_def sample_claim_def sample_key_def sample_reference_key_def ref_key_def meta_key_def namespaced_def new_meta_def
      is_fake_def HasCondition_def config_ready_def credentials_at_def secret_data_def credential_secret_def
      NewGCPSecretCR_def operatorNamespace_def orgGcpSecretName_def ProjectReferenceNamespace_def tidy_cloud_def ids_distinct_def
      project_states_def proper_account_def unheld_secret_def)

theorem provisioned_claim_vanishes_witness:
  "cl_claims (cluster_rounds 2 sample_key sample_reference_key departing_cluster) sample_key = None \<and>
   cl_references (cluster_rounds 2 sample_key sample_reference_key departing_cluster) sample_reference_key = None \<and>
   cl_secrets (cluster_rounds 2 sample_key sample_reference_key departing_cluster) (namespaced ''team'' ''gcp-secret'') = None"
proof -
  have "meta_key (pc_Meta departing_claim) = sample_key" and "ref_key sample_key = sample_reference_key"
    and "pcs_GCPCredentialSecret (pc_Spec departing_claim) = namespaced ''team'' ''gcp-secret''"
    by (simp_all add: departing_claim_def sample_claim_def sample_key_def sample_reference_key_def new_meta_def meta_key_def
        ref_key_def namespaced_def ProjectReferenceNamespace_def)
  with provisioned_claim_vanishes [OF departing_sample, of 2] show ?thesis by (simp add: vanished_def traces_gone_def)
qed

end
