(* ===== verification/Duties.thy ===== *)
theory Duties
  imports ClaimFacts ReferenceProperties
begin

text \<open>
  Separation of duties.  The two controllers share the claims, the references and the credential
  secrets; this theory says which requests each of them ever makes.  Every operation of a handler
  keeps within its controller's duty, so the contract \<^verbatim>\<open>reconcile_operations\<close> of the loop gives
  it for whole runs, over any clients.
\<close>

fun claim_duty :: "call \<Rightarrow> bool" where
  "claim_duty (CallGetReference nn) = True"
| "claim_duty (CallCreateReference r) = True"
| "claim_duty (CallDeleteReference r) = True"
| "claim_duty (CallGetConfigMap nn) = True"
| "claim_duty (CallGetSecret nn) = True"
| "claim_duty (CallCreateSecret x) = True"
| "claim_duty (CallUpdateSecret x) = True"
| "claim_duty (CallDeleteSecret x) = True"
| "claim_duty (CallUpdateClaim x) = True"
| "claim_duty (CallStatusClaim x) = True"
| "claim_duty _ = False"

fun reference_duty :: "call \<Rightarrow> bool" where
  "reference_duty (CallGetSecret nn) = True"
| "reference_duty (CallCreateSecret x) = True"
| "reference_duty (CallDeleteSecret x) = True"
| "reference_duty (CallUpdateReference x) = True"
| "reference_duty (CallStatusReference x) = True"
| "reference_duty (CallUpdateClaim x) = True"
| "reference_duty (CallStatusClaim x) = True"
| "reference_duty (GcpGetServiceAccount n) = True"
| "reference_duty (GcpCreateServiceAccount n d) = True"
| "reference_duty (GcpDeleteServiceAccount n) = True"
| "reference_duty (GcpCreateServiceAccountKey n) = True"
| "reference_duty (GcpGetIamPolicy p) = True"
| "reference_duty (GcpSetIamPolicy p) = True"
| "reference_duty GcpListProjects = True"
| "reference_duty (GcpCreateProject f n) = True"
| "reference_duty (GcpDeleteProject p) = True"
| "reference_duty (GcpEnableAPI p a) = True"
| "reference_duty (GcpListAPIs p) = True"
| "reference_duty (GcpCreateCloudBillingAccount p a) = True"
| "reference_duty (GcpListAvailabilityZones p z) = True"
| "reference_duty _ = False"

definition claim_within :: "'w traced claim_state \<Rightarrow> bool" where
  "claim_within s \<longleftrightarrow> list_all (\<lambda>ev. claim_duty (fst ev)) (snd (claim_world s))"

definition reference_within :: "'w traced reference_state \<Rightarrow> bool" where
  "reference_within s \<longleftrightarrow> list_all (\<lambda>ev. reference_duty (fst ev)) (snd (rs_world s))"

lemma claim_within_emits:
  "claim_emits (\<lambda>ev. claim_duty (fst ev)) s x \<Longrightarrow> claim_within s \<Longrightarrow> claim_within (snd x)"
  by (auto simp: claim_within_def claim_emits_def emits_def)

lemma reference_within_emits:
  "ref_emits (\<lambda>ev. reference_duty (fst ev)) s x \<Longrightarrow> reference_within s \<Longrightarrow> reference_within (snd x)"
  by (auto simp: reference_within_def ref_emits_def emits_def)

subsection \<open>The claim controller\<close>

abbreviation "claim_dutiful \<equiv> claim_emits (\<lambda>ev. claim_duty (fst ev))"

lemma DeleteFakeSecret_duty: "claim_dutiful s (DeleteFakeSecret (traced_claim c) s)"
  by (auto simp: DeleteFakeSecret_def Let_def claim_trace_defs split: prod.splits sum.splits)

lemma deletion_duty: "claim_dutiful s (EnsureProjectClaimDeletionProcessed (traced_claim c) s)"
  by (rule EnsureProjectClaimDeletionProcessed_calls) simp_all

lemma fake_deletion_duty: "claim_dutiful s (fake_deletion (traced_claim c) s)"
proof -
  obtain e s1 where 1: "DeleteFakeSecret (traced_claim c) s = (e, s1)" by fastforce
  obtain r s2 where 2: "EnsureProjectClaimDeletionProcessed (traced_claim c) s1 = (r, s2)" by fastforce
  have "claim_dutiful s (e, s1)" "claim_dutiful s1 (r, s2)"
    using DeleteFakeSecret_duty [of s c] deletion_duty [of s1 c] 1 2 by simp_all
  then show ?thesis
    by (cases r; cases "snd r") (auto simp: fake_deletion_def 1 2 claim_emits_def intro: emits_trans
        split: option.splits)
qed

lemma fake_duty: "claim_dutiful s (EnsureProjectClaimFakeProcessed (traced_claim c) s)"
proof -
  obtain r s1 where 1: "EnsureFinalizer (traced_claim c) s = (r, s1)" by fastforce
  have f: "claim_dutiful s (r, s1)" using EnsureFinalizer_calls [of "\<lambda>ev. claim_duty (fst ev)" s c] 1 by simp
  have "claim_dutiful s1 (fake_deletion (traced_claim c) s1)" by (rule fake_deletion_duty)
  moreover have "claim_dutiful s1 (fake_creation (traced_claim c) s1)"
    by (rule fake_creation_calls) simp_all
  moreover have "claim_dutiful s1 (claim_StatusUpdate (traced_claim c)
      (s1\<lparr>projectClaim := set_claim_state ClaimStatusError (projectClaim s1)\<rparr>))"
    using claim_StatusUpdate_calls [of "\<lambda>ev. claim_duty (fst ev)"
        "s1\<lparr>projectClaim := set_claim_state ClaimStatusError (projectClaim s1)\<rparr>" c]
    by (simp add: claim_emits_def)
  ultimately show ?thesis
    using f by (cases r; cases "snd r")
      (auto simp: EnsureProjectClaimFakeProcessed_def 1 claim_emits_def intro: emits_trans
        split: prod.splits option.splits)
qed

lemma claim_operation_duty:
  assumes "op \<in> set (claim_operations (traced_claim c))"
  shows "claim_dutiful s (op s)"
proof -
  let ?c = "traced_claim c"
  have "claim_dutiful s (EnsureProjectClaimValidated ?c s)"
    "claim_dutiful s (EnsureProjectClaimInitialized ?c s)"
    "claim_dutiful s (EnsureRegionSupported ?c s)"
    "claim_dutiful s (EnsureProjectReferenceExists ?c s)"
    "claim_dutiful s (EnsureProjectReferenceLink ?c s)"
    "claim_dutiful s (EnsureFinalizer ?c s)"
    "claim_dutiful s (EnsureCCSSecretFinalizer ?c s)"
    by (rule EnsureProjectClaimValidated_calls EnsureProjectClaimInitialized_calls EnsureRegionSupported_calls
        EnsureProjectReferenceExists_calls EnsureProjectReferenceLink_calls EnsureFinalizer_calls
        EnsureCCSSecretFinalizer_calls; simp)+
  moreover have "claim_dutiful s (EnsureProjectClaimState ?c st s)" for st
    by (rule EnsureProjectClaimState_calls) simp
  ultimately show ?thesis
    using assms fake_duty [of s c] deletion_duty [of s c] by (auto simp: claim_operations_def EnsureProjectClaimStatePending_def
        EnsureProjectClaimStatePendingProject_def)
qed

interpretation claim_duties: reconcile_operations "claim_operations (traced_claim c)" claim_within claim_within
  for c
  by unfold_locales (blast intro: claim_within_emits claim_operation_duty)+

subsection \<open>The reference controller\<close>

abbreviation "reference_dutiful \<equiv> ref_emits (\<lambda>ev. reference_duty (fst ev))"

lemma reference_deletion_duty: "reference_dutiful s (EnsureDeletionProcessed (traced_reference r) s)"
proof (cases "IsDeletionRequested s")
  case True
  then show ?thesis
    by (rule EnsureDeletionProcessed_calls) (auto simp: cleanup_event_defs)
next
  case False
  then show ?thesis by (simp add: EnsureDeletionProcessed_def)
qed

lemma reference_operation_duty:
  assumes "op \<in> set (reference_operations (traced_reference r))"
  shows "reference_dutiful s (op s)"
proof -
  let ?r = "traced_reference r"
  have "reference_dutiful s (EnsureProjectReferenceInitialized ?r s)"
    "reference_dutiful s (EnsureProjectClaimReady ?r s)"
    "reference_dutiful s (EnsureProjectReferenceStatusCreating ?r s)"
    "reference_dutiful s (EnsureProjectID ?r s)"
    "reference_dutiful s (EnsureServiceAccountName ?r s)"
    "reference_dutiful s (EnsureFinalizerAdded ?r s)"
    "reference_dutiful s (EnsureProjectConfigured ?r s)"
    "reference_dutiful s (EnsureStateReady ?r s)"
    by (rule EnsureProjectReferenceInitialized_calls EnsureProjectClaimReady_calls
        EnsureProjectReferenceStatusCreating_calls EnsureProjectID_calls EnsureServiceAccountName_calls
        EnsureFinalizerAdded_calls EnsureProjectConfigured_calls EnsureStateReady_calls; simp)+
  moreover have "reference_dutiful s (EnsureProjectCreated ?r s)"
    by (rule EnsureProjectCreated_calls) auto
  moreover have "reference_dutiful s (VerifyProjectClaimPending ?r s)"
    by (simp add: VerifyProjectClaimPending_def)
  ultimately show ?thesis
    using assms reference_deletion_duty [of s r] by (auto simp: reference_operations_def)
qed

interpretation reference_duties:
  reconcile_operations "reference_operations (traced_reference r)" reference_within reference_within for r
  by unfold_locales (blast intro: reference_within_emits reference_operation_duty)+

subsection \<open>Properties\<close>

text \<open>C28: The claim controller keeps to its duty.  In every run, over any clients and for fake claims too,
  its handler makes no request to Google Cloud and never updates a ProjectReference or its status:
  it only creates, reads and deletes references, reads the configuration, and writes claims and
  secrets.\<close>

theorem claim_controller_duty: "list_all (\<lambda>ev. claim_duty (fst ev)) (claim_trace c s)"
  using claim_duties.handler_ends [of "recorded s" c]
  by (simp add: claim_within_def claim_trace_def claim_ReconcileHandler_def)

text \<open>C29: The reference controller keeps to its duty.  In every run, over any clients, its handler never
  creates or deletes a ProjectReference, reads no configuration, and updates no secret: what lives
  in the cluster is created by the claim controller, but for the one credentials secret.  It never
  deletes service account keys either, nor labels or reads a single project.\<close>

theorem reference_controller_duty: "list_all (\<lambda>ev. reference_duty (fst ev)) (reference_trace r s)"
  using reference_duties.handler_ends [of "recorded_reference s" r]
  by (simp add: reference_within_def reference_trace_def reference_ReconcileHandler_def)

end
