(* ===== verification/HelperProperties.thy ===== *)
theory HelperProperties
  imports Cluster
begin

text \<open>
  Properties of the helpers both controllers rest on: the edits of an IAM policy, the condition list,
  the credentials secret, and the loop over operations.
\<close>

subsection \<open>Policies\<close>

text \<open>C23: On grants, adding is a union, and it is done once: the policy \<^verbatim>\<open>AddOrUpdateBinding\<close> returns
  grants what the old one granted and every required role to the member, in whatever order the
  map is visited; the flag is set exactly when some required role was not yet served, and on the
  result of a call the same call reports no change.\<close>

theorem AddOrUpdateBinding_union:
  assumes "is_map_order order"
  shows "grants (fst (AddOrUpdateBinding order bs roles email mt)) =
      grants bs \<union> set roles \<times> {member_of mt email} \<and>
    (snd (AddOrUpdateBinding order bs roles email mt) =
      (\<exists>r\<in>set roles. \<not> serves (member_of mt email) bs r)) \<and>
    snd (AddOrUpdateBinding order' (fst (AddOrUpdateBinding order bs roles email mt)) roles email mt) = False"
  using AddOrUpdateBinding_grants [OF assms] AddOrUpdateBinding_flag AddOrUpdateBinding_serves [OF assms]
  by (simp add: role_grants_def)

lemma merge_existing_members_distinct:
  "role_map m rm \<Longrightarrow> merge_existing bs rm = (result, left, modified) \<Longrightarrow> members_distinct bs \<Longrightarrow>
     members_distinct result"
proof (induction bs arbitrary: rm result modified)
  case (Cons b bs)
  from Cons.prems(2) obtain result' modified' where
    step: "merge_existing bs (AList.delete (b_Role b) rm) = (result', left, modified')"
    and res: "result = extended b (added_members rm b) # result'"
    by (rule merge_existing_ConsE)
  have "distinct (b_Members b @ added_members rm b)"
    using Cons.prems(1,3) by (auto simp: added_members_def members_distinct_def dest: role_map_lookup
        split: option.splits)
  with Cons.IH [OF role_map_delete [OF Cons.prems(1)] step] Cons.prems(3) res show ?case
    by (simp add: members_distinct_def)
qed simp

lemma AddOrUpdateBinding_members_distinct:
  assumes "is_map_order order" and "members_distinct bs"
  shows "members_distinct (fst (AddOrUpdateBinding order bs roles email mt))"
proof -
  obtain result left modified where
    m: "merge_existing bs (rolebindingMap roles email mt) = (result, left, modified)"
    by (metis prod_cases3)
  note rm = role_map_rolebindingMap [of mt email roles]
  have "members_distinct result" by (rule merge_existing_members_distinct [OF rm m assms(2)])
  moreover have "role_map (member_of mt email) left" by (rule merge_existing_role_map [OF rm m])
  ultimately show ?thesis
    using is_map_orderD [OF assms(1), of left] m
    by (auto simp: AddOrUpdateBinding_def members_distinct_def role_map_def)
qed

text \<open>C24: Removing undoes adding: for a member that had no role in the policy, adding roles and then
  removing the member gives a policy with the grants of the first one.\<close>

theorem add_then_remove:
  assumes "is_map_order order" and "members_distinct bs"
    and "\<forall>r. (r, member_of mt email) \<notin> grants bs"
  shows "grants (fst (RemoveOrUpdateBinding (fst (AddOrUpdateBinding order bs roles email mt)) email mt))
    = grants bs"
  using assms AddOrUpdateBinding_members_distinct [OF assms(1,2), of roles email mt]
  by (auto simp: RemoveOrUpdateBinding_grants AddOrUpdateBinding_grants role_grants_def)

text \<open>C38: Adding drops the conditions: no binding of the policy \<^verbatim>\<open>AddOrUpdateBinding\<close> returns has one,
  so a conditional grant of anybody becomes unconditional when the operator writes the policy;
  removing keeps the condition of every binding.\<close>

theorem conditions_dropped:
  "b_Condition ` set (fst (AddOrUpdateBinding order bs roles email mt)) \<subseteq> {None} \<and>
    map b_Condition (fst (RemoveOrUpdateBinding bs email mt)) = map b_Condition bs"
  using AddOrUpdateBinding_conditions RemoveOrUpdateBinding_conditions by auto

subsection \<open>Conditions\<close>

text \<open>C26: \<^verbatim>\<open>SetCondition\<close> refines the update of a finite map: read by type, the list afterwards is the
  list before with the one condition set; its status, reason and probe time are the new ones, a
  message is kept when the new one is empty, and the time of transition moves exactly when the
  given message, status or reason differs from the recorded one.\<close>

theorem SetCondition_refines:
  "\<exists>c. condition_view (SetCondition now cs t status reason message) = (condition_view cs)(t := Some c) \<and>
     c_Status c = status \<and> c_Reason c = reason \<and> c_LastProbeTime c = now \<and>
     (let old = (case condition_view cs t of None \<Rightarrow> new_condition t | Some x \<Rightarrow> x) in
      c_Message c = (if message = '''' then c_Message old else message) \<and>
      c_LastTransitionTime c = (if message = c_Message old \<and> status = c_Status old \<and> reason = c_Reason old
        then c_LastTransitionTime old else now))"
proof -
  let ?old = "case condition_view cs t of None \<Rightarrow> new_condition t | Some x \<Rightarrow> x"
  have "c_Type ?old = t"
    by (auto simp: condition_view_def find_Some_iff new_condition_def split: option.splits)
  then show ?thesis
    by (intro exI [of _ "assign_condition now t status reason message ?old"])
      (simp add: SetCondition_view assign_condition_fields assign_condition_transition Let_def)
qed

subsection \<open>Credentials\<close>

text \<open>What one controller writes the other reads: a secret that the operator creates from credentials
  is one from which \<^verbatim>\<open>GetGCPCredentialsFromSecret\<close> gets those credentials back.\<close>

theorem credentials_roundtrip:
  assumes "k_CreateSecret cluster_kube (NewGCPSecretCR creds (namespaced ns name)) w = ((None, x), w')"
  shows "GetGCPCredentialsFromSecret cluster_kube ns name w' = (Inr creds, w')"
proof -
  have "cl_secrets w' (namespaced ns name) = Some x" "s_Data x ''osServiceAccount.json'' = Some creds"
    using assms by (auto simp: cluster_kube_def with_secrets_def api_create_def NewGCPSecretCR_def Let_def
        meta_key_def new_meta_def set_s_meta_def bump_def namespaced_def split: if_splits)
  then show ?thesis
    by (simp add: GetGCPCredentialsFromSecret_def cluster_kube_def api_get_def set_s_meta_def)
qed

subsection \<open>The loop over operations\<close>

text \<open>The outcome that ends the loop, if any does.\<close>

fun first_exit :: "('s, outcome) effect list \<Rightarrow> 's \<Rightarrow> outcome option" where
  "first_exit [] s = None"
| "first_exit (op # ops) s =
     (if goes_on (fst (op s)) then first_exit ops (snd (op s)) else Some (fst (op s)))"

text \<open>When a request comes back: the work queue runs it again exactly when the operation that ended
  the loop had an error or asked to be requeued after a positive delay.  An operation that asks to
  be requeued at once, without an error, is not: its request is lost.\<close>

theorem requeue_needs_delay_or_error:
  "runs_again (fst (run_operations ops s)) =
     (case first_exit ops s of
        None \<Rightarrow> False
      | Some out \<Rightarrow>
          if snd out = None then RequeueRequest (fst out) \<and> 0 < RequeueDelay (fst out) else True)"
  by (induction ops arbitrary: s) (auto simp: runs_again_def handler_result_def empty_Result_def)

subsection \<open>The properties at concrete inputs\<close>

definition sample_bindings :: "Binding list" where
  "sample_bindings = [\<lparr>b_Role = ''viewer'', b_Members = [''group:b''], b_Condition = Some ''x''\<rparr>]"

theorem AddOrUpdateBinding_union_witness:
  "grants (fst (AddOrUpdateBinding (\<lambda>m. m) sample_bindings [''viewer'', ''editor''] ''a'' ServiceAccount)) =
     {(''viewer'', ''group:b''), (''viewer'', ''serviceAccount:a''), (''editor'', ''serviceAccount:a'')}"
  using AddOrUpdateBinding_union [OF is_map_order_id, of sample_bindings "[''viewer'', ''editor'']" "''a''"
      ServiceAccount "\<lambda>m. m"]
  by (auto simp: sample_bindings_def member_of_def member_prefix_def)

theorem add_then_remove_witness:
  "grants (fst (RemoveOrUpdateBinding
     (fst (AddOrUpdateBinding rev sample_bindings [''viewer'', ''editor''] ''a'' ServiceAccount)) ''a'' ServiceAccount))
   = {(''viewer'', ''group:b'')}"
  using add_then_remove [of rev sample_bindings ServiceAccount "''a''" "[''viewer'', ''editor'']"]
  by (simp add: is_map_order_def sample_bindings_def members_distinct_def member_of_def member_prefix_def)

theorem credentials_roundtrip_witness:
  "fst (GetGCPCredentialsFromSecret cluster_kube ''team'' ''gcp-secret''
     (snd (k_CreateSecret cluster_kube (NewGCPSecretCR ''key'' (namespaced ''team'' ''gcp-secret'')) empty_cluster)))
   = Inr ''key''"
proof -
  let ?x = "k_CreateSecret cluster_kube (NewGCPSecretCR ''key'' (namespaced ''team'' ''gcp-secret'')) empty_cluster"
  have "fst (fst ?x) = None"
    by (simp add: cluster_kube_def with_secrets_def api_create_def empty_cluster_def Let_def)
  then have "?x = ((None, snd (fst ?x)), snd ?x)" by (metis prod.collapse)
  from credentials_roundtrip [OF this] show ?thesis by simp
qed

end
