(* ===== verification/IamService.thy ===== *)
theory IamService
  imports ReferenceFacts
begin

text \<open>
  The IAM policy of a project as a service, and what the operator's read-modify-write loops make
  of it.

  The locale \<^verbatim>\<open>iam_service\<close> is what Google promises of the two requests: a read answers with the
  current policy, an accepted write replaces it.  \<^verbatim>\<open>iam_policy_api\<close> is the same promise one level up,
  of the client the adapters hold; \<^verbatim>\<open>client_of\<close> turns the first into the second.  The locales named
  \<^verbatim>\<open>quiet_\<close> add that nobody else writes the policy meanwhile, and that a policy names no member
  twice in a binding.  \<^verbatim>\<open>view\<close> reads the grants in force off the world.
\<close>

type_synonym 'w policy_view = "'w \<Rightarrow> (string \<times> string) set"

locale iam_policy_api =
  fixes G :: "'w gcp_client" and env :: "'w environment" and project :: string and view :: "'w policy_view"
  assumes get_current: "g_GetIamPolicy G project w = (Inr p, w') \<Longrightarrow>
      grants (pol_Bindings p) = view w \<and> view w' = view w"
    and set_replaces: "g_SetIamPolicy G p w = (Inr q, w') \<Longrightarrow> view w' = grants (pol_Bindings p)"
    and map_order: "is_map_order (fst (env_MapOrder env w)) \<and> view (snd (env_MapOrder env w)) = view w"
begin

lemma AddOrUpdateBindings_view:
  assumes "ra_gcpClient r = G" "ra_env r = env" "reference_project s = project"
    and "AddOrUpdateBindings r email roles mt s = (Inr (modified, p), s')"
  shows "grants (pol_Bindings p) = view (rs_world s) \<union> role_grants roles (member_of mt email) \<and>
    view (rs_world s') = view (rs_world s) \<and>
    (\<not> modified \<longrightarrow> role_grants roles (member_of mt email) \<subseteq> view (rs_world s))"
proof -
  obtain policy s1 where g: "on_world (g_GetIamPolicy G project) s = (Inr policy, s1)"
    using assms by (auto simp: AddOrUpdateBindings_def split: prod.splits sum.splits)
  obtain order s2 where o: "on_world (env_MapOrder env) s1 = (order, s2)" by fastforce
  obtain bs m where b: "AddOrUpdateBinding order (pol_Bindings policy) roles email mt = (bs, m)" by fastforce
  have eqs: "modified = m" "p = policy\<lparr>pol_Bindings := bs\<rparr>" "s' = s2"
    using assms g o b by (auto simp: AddOrUpdateBindings_def split: prod.splits sum.splits)
  have v1: "grants (pol_Bindings policy) = view (rs_world s)" "view (rs_world s1) = view (rs_world s)"
    using g get_current by (auto simp: on_world_def split: prod.splits)
  have v2: "is_map_order order" "view (rs_world s2) = view (rs_world s1)"
    using o map_order [of "rs_world s1"] by (auto simp: on_world_def split: prod.splits)
  have "grants bs = grants (pol_Bindings policy) \<union> role_grants roles (member_of mt email)"
    using AddOrUpdateBinding_grants [OF v2(1), of "pol_Bindings policy" roles email mt] b by simp
  moreover have "role_grants roles (member_of mt email) \<subseteq> grants (pol_Bindings policy)" if "\<not> m"
    using AddOrUpdateBinding_unmodified [of order "pol_Bindings policy" roles email mt bs] b that by simp
  ultimately show ?thesis using v1 v2 eqs by simp
qed

text \<open>Whatever others do meanwhile, a successful run leaves the member with every role.\<close>

lemma SetIAMPolicy_granted:
  assumes r: "ra_gcpClient r = G" "ra_env r = env" and s: "reference_project s = project"
    and ok: "SetIAMPolicy r email roles mt s = (None, s')"
  shows "role_grants roles (member_of mt email) \<subseteq> view (rs_world s')"
proof -
  let ?roles = "role_grants roles (member_of mt email)"
  let ?Q = "\<lambda>(retry :: nat) s x. reference_project s = project \<longrightarrow> fst x = None \<longrightarrow> ?roles \<subseteq> view (rs_world (snd x))"
  have "?Q 0 s (SetIAMPolicy_loop r email roles mt 0 s)"
  proof (rule SetIAMPolicy_loop_rule [where Q = ?Q])
    fix retry s p s1
    assume a: "AddOrUpdateBindings r email roles mt s = (Inr (False, p), s1)"
    show "?Q retry s (None, s1)"
    proof (intro impI)
      assume p: "reference_project s = project"
      from AddOrUpdateBindings_view [OF r p a] show "?roles \<subseteq> view (rs_world (snd (None, s1)))" by simp
    qed
  next
    fix retry s p s1 q s2
    assume a: "AddOrUpdateBindings r email roles mt s = (Inr (True, p), s1)"
      and w: "on_world (g_SetIamPolicy (ra_gcpClient r) p) s1 = (Inr q, s2)"
    have "view (rs_world s2) = grants (pol_Bindings p)"
      using w r set_replaces by (auto simp: on_world_def split: prod.splits)
    with AddOrUpdateBindings_view [OF r _ a] show "?Q retry s (None, s2)" by auto
  next
    fix retry s p s1 e s2 and x :: "err option \<times> 'w reference_state"
    assume a: "AddOrUpdateBindings r email roles mt s = (Inr (True, p), s1)"
      and w: "on_world (g_SetIamPolicy (ra_gcpClient r) p) s1 = (Inl e, s2)"
      and IH: "?Q (Suc retry) (ref_sleep r Second s2) x"
    have "same_objects s (ref_sleep r Second s2)"
      using a w by (metis AddOrUpdateBindings_frame ref_sleep_frame same_objects_on_world
          same_objects_trans snd_conv)
    with IH show "?Q retry s x" by (simp add: same_objects_def)
  qed simp_all
  with ok s show ?thesis by (simp add: SetIAMPolicy_def)
qed

end

text \<open>With nobody else at work, the grants are exactly the old ones and the new ones.\<close>

locale quiet_iam_policy_api = iam_policy_api G env project view
  for G :: "'w gcp_client" and env :: "'w environment" and project :: string and view :: "'w policy_view" +
  assumes set_rejected: "g_SetIamPolicy G p w = (Inl e, w') \<Longrightarrow> view w' = view w"
    and sleeping: "view (env_Sleep env d w) = view w"
    and members_once: "g_GetIamPolicy G project w = (Inr p, w') \<Longrightarrow> members_distinct (pol_Bindings p)"
begin

lemma SetIAMPolicy_exact:
  assumes r: "ra_gcpClient r = G" "ra_env r = env" and s: "reference_project s = project"
    and ok: "SetIAMPolicy r email roles mt s = (None, s')"
  shows "view (rs_world s') = view (rs_world s) \<union> role_grants roles (member_of mt email)"
proof -
  let ?roles = "role_grants roles (member_of mt email)"
  let ?Q = "\<lambda>(retry :: nat) s x. reference_project s = project \<longrightarrow> fst x = None \<longrightarrow>
    view (rs_world (snd x)) = view (rs_world s) \<union> ?roles"
  have "?Q 0 s (SetIAMPolicy_loop r email roles mt 0 s)"
  proof (rule SetIAMPolicy_loop_rule [where Q = ?Q])
    fix retry s p s1
    assume a: "AddOrUpdateBindings r email roles mt s = (Inr (False, p), s1)"
    show "?Q retry s (None, s1)"
    proof (intro impI)
      assume p: "reference_project s = project"
      from AddOrUpdateBindings_view [OF r p a]
      show "view (rs_world (snd (None, s1))) = view (rs_world s) \<union> ?roles" by (simp add: Un_absorb2)
    qed
  next
    fix retry s p s1 q s2
    assume a: "AddOrUpdateBindings r email roles mt s = (Inr (True, p), s1)"
      and w: "on_world (g_SetIamPolicy (ra_gcpClient r) p) s1 = (Inr q, s2)"
    have "view (rs_world s2) = grants (pol_Bindings p)"
      using w r set_replaces by (auto simp: on_world_def split: prod.splits)
    with AddOrUpdateBindings_view [OF r _ a] show "?Q retry s (None, s2)" by auto
  next
    fix retry s p s1 e s2 and x :: "err option \<times> 'w reference_state"
    assume a: "AddOrUpdateBindings r email roles mt s = (Inr (True, p), s1)"
      and w: "on_world (g_SetIamPolicy (ra_gcpClient r) p) s1 = (Inl e, s2)"
      and IH: "?Q (Suc retry) (ref_sleep r Second s2) x"
    have "same_objects s (ref_sleep r Second s2)"
      using a w by (metis AddOrUpdateBindings_frame ref_sleep_frame same_objects_on_world
          same_objects_trans snd_conv)
    moreover have "view (rs_world s2) = view (rs_world s1)"
      using w r set_rejected by (auto simp: on_world_def split: prod.splits)
    then have "view (rs_world (ref_sleep r Second s2)) = view (rs_world s1)"
      by (simp add: ref_sleep_def r sleeping)
    moreover have "view (rs_world s1) = view (rs_world s)" if "reference_project s = project"
      using AddOrUpdateBindings_view [OF r that a] by simp
    ultimately show "?Q retry s x" using IH by (simp add: same_objects_def)
  qed simp_all
  with ok s show ?thesis by (simp add: SetIAMPolicy_def)
qed

lemma DeleteIAMPolicy_exact:
  assumes r: "ra_gcpClient r = G" "ra_env r = env" and s: "reference_project s = project"
    and ok: "DeleteIAMPolicy r email mt s = (None, s')"
  shows "view (rs_world s') = view (rs_world s) - UNIV \<times> {member_of mt email}"
proof -
  let ?out = "UNIV \<times> {member_of mt email}"
  let ?Q = "\<lambda>(retry :: nat) s x. reference_project s = project \<longrightarrow> fst x = None \<longrightarrow>
    view (rs_world (snd x)) = view (rs_world s) - ?out"
  have read: "grants bs = view (rs_world s) - ?out \<and> view (rs_world s1) = view (rs_world s) \<and>
      (\<not> m \<longrightarrow> view (rs_world s) - ?out = view (rs_world s))"
    if "on_world (g_GetIamPolicy (ra_gcpClient r) project) s = (Inr p, s1)"
      and "RemoveOrUpdateBinding (pol_Bindings p) email mt = (bs, m)" for s p s1 bs m
  proof -
    from that(1) obtain w' where g: "g_GetIamPolicy G project (rs_world s) = (Inr p, w')" and s1: "rs_world s1 = w'"
      using r by (auto simp: on_world_def split: prod.splits)
    with get_current [OF g] RemoveOrUpdateBinding_grants [OF members_once [OF g], of email mt]
      RemoveOrUpdateBinding_flag [of "pol_Bindings p" email mt] that(2)
    show ?thesis by auto
  qed
  have "?Q 0 s (DeleteIAMPolicy_loop r email mt 0 s)"
  proof (rule DeleteIAMPolicy_loop_rule [where Q = ?Q])
    fix retry s p s1 bs q s2
    assume a: "on_world (g_GetIamPolicy (ra_gcpClient r) (reference_project s)) s = (Inr p, s1)"
      and b: "RemoveOrUpdateBinding (pol_Bindings p) email mt = (bs, True)"
      and w: "on_world (g_SetIamPolicy (ra_gcpClient r) (p\<lparr>pol_Bindings := bs\<rparr>)) s1 = (Inr q, s2)"
    have "view (rs_world s2) = grants bs"
      using w r set_replaces by (fastforce simp: on_world_def split: prod.splits)
    with read [OF _ b, of s s1] a show "?Q retry s (None, s2)" by (auto simp del: split_paired_All)
  next
    fix retry s p s1 bs e s2 and x :: "err option \<times> 'w reference_state"
    assume a: "on_world (g_GetIamPolicy (ra_gcpClient r) (reference_project s)) s = (Inr p, s1)"
      and b: "RemoveOrUpdateBinding (pol_Bindings p) email mt = (bs, True)"
      and w: "on_world (g_SetIamPolicy (ra_gcpClient r) (p\<lparr>pol_Bindings := bs\<rparr>)) s1 = (Inl e, s2)"
      and IH: "?Q (Suc retry) (ref_sleep r Second s2) x"
    have "same_objects s (ref_sleep r Second s2)"
      using a w by (metis ref_sleep_frame same_objects_on_world same_objects_trans snd_conv)
    moreover have "view (rs_world s2) = view (rs_world s1)"
      using w r set_rejected by (auto simp: on_world_def split: prod.splits)
    then have "view (rs_world (ref_sleep r Second s2)) = view (rs_world s1)"
      by (simp add: ref_sleep_def r sleeping)
    moreover have "view (rs_world s1) = view (rs_world s)" if "reference_project s = project"
      using read [OF _ b, of s s1] a that by simp
    ultimately show "?Q retry s x" using IH by (simp add: same_objects_def)
  next
    fix retry s p s1 bs
    assume a: "on_world (g_GetIamPolicy (ra_gcpClient r) (reference_project s)) s = (Inr p, s1)"
      and b: "RemoveOrUpdateBinding (pol_Bindings p) email mt = (bs, False)"
    show "?Q retry s (None, s1)"
    proof (intro impI)
      assume p: "reference_project s = project"
      from read [OF a [unfolded p] b]
      show "view (rs_world (snd (None, s1))) = view (rs_world s) - ?out" by simp
    qed
  qed simp_all
  with ok s show ?thesis by (simp add: DeleteIAMPolicy_def)
qed

end

subsection \<open>From Google's requests to the client\<close>

locale iam_service =
  fixes sdk :: "'w google_sdk" and creds :: google_creds and env :: "'w environment"
    and project :: string and view :: "'w policy_view"
  assumes request_get: "sdk_GetIamPolicy sdk creds project w = (Inr p, w') \<Longrightarrow>
      grants (pol_Bindings p) = view w \<and> view w' = view w"
    and request_set: "sdk_SetIamPolicy sdk creds project p w = (Inr q, w') \<Longrightarrow> view w' = grants (pol_Bindings p)"
    and range_order: "is_map_order (fst (env_MapOrder env w)) \<and> view (snd (env_MapOrder env w)) = view w"

sublocale iam_service \<subseteq> client: iam_policy_api
  "client_of env sdk \<lparr>gc_projectName = project, gc_creds = creds\<rparr>" env project view
proof unfold_locales
  fix w p w'
  assume "g_GetIamPolicy (client_of env sdk \<lparr>gc_projectName = project, gc_creds = creds\<rparr>) project w = (Inr p, w')"
  then have "sdk_GetIamPolicy sdk creds project w = (Inr p, w')"
    by (auto simp: client_of_def GetIamPolicy_def split: prod.splits sum.splits)
  then show "grants (pol_Bindings p) = view w \<and> view w' = view w" by (rule request_get)
next
  fix p w q w'
  assume "g_SetIamPolicy (client_of env sdk \<lparr>gc_projectName = project, gc_creds = creds\<rparr>) p w = (Inr q, w')"
  then have "sdk_SetIamPolicy sdk creds project p w = (Inr q, w')"
    by (auto simp: client_of_def SetIamPolicy_def split: prod.splits sum.splits)
  then show "view w' = grants (pol_Bindings p)" by (rule request_set)
qed (rule range_order)

locale quiet_iam_service = iam_service sdk creds env project view
  for sdk :: "'w google_sdk" and creds :: google_creds and env :: "'w environment"
    and project :: string and view :: "'w policy_view" +
  assumes request_rejected: "sdk_SetIamPolicy sdk creds project p w = (Inl e, w') \<Longrightarrow> view w' = view w"
    and waiting: "view (env_Sleep env d w) = view w"
    and request_members_once: "sdk_GetIamPolicy sdk creds project w = (Inr p, w') \<Longrightarrow>
      members_distinct (pol_Bindings p)"

sublocale quiet_iam_service \<subseteq> quiet_client: quiet_iam_policy_api
  "client_of env sdk \<lparr>gc_projectName = project, gc_creds = creds\<rparr>" env project view
proof unfold_locales
  fix w p w'
  assume "g_GetIamPolicy (client_of env sdk \<lparr>gc_projectName = project, gc_creds = creds\<rparr>) project w = (Inr p, w')"
  then have "sdk_GetIamPolicy sdk creds project w = (Inr p, w')"
    by (auto simp: client_of_def GetIamPolicy_def split: prod.splits sum.splits)
  then show "members_distinct (pol_Bindings p)" by (rule request_members_once)
next
  fix p w e w'
  assume "g_SetIamPolicy (client_of env sdk \<lparr>gc_projectName = project, gc_creds = creds\<rparr>) p w = (Inl e, w')"
  then have "sdk_SetIamPolicy sdk creds project p w = (Inl e, w')"
    by (auto simp: client_of_def SetIamPolicy_def split: prod.splits sum.splits)
  then show "view w' = view w" by (rule request_rejected)
qed (rule waiting)

subsection \<open>The reference cloud\<close>

definition cluster_grants :: "string \<Rightarrow> cluster policy_view" where
  "cluster_grants p w = grants (pol_Bindings (cl_policies w p))"

lemma normal_policy_simps [simp]:
  "grants (pol_Bindings (normal_policy p)) = grants (pol_Bindings p)"
  "members_distinct (pol_Bindings (normal_policy p))"
  "pol_Etag (normal_policy p) = pol_Etag p"
  by (simp_all add: normal_policy_def grants_def members_distinct_def)

interpretation cluster_iam: quiet_iam_service cluster_sdk creds cluster_env project "cluster_grants project"
  for creds project
  by unfold_locales
    (auto simp: cluster_sdk_def cluster_env_def cluster_grants_def get_policy_def set_policy_def bump_def
      is_map_order_id Let_def split: if_splits)

subsection \<open>Properties\<close>

text \<open>C20: Granting works under concurrency.  If the client keeps its promise, then after a \<^verbatim>\<open>SetIAMPolicy\<close>
  that reports success the member holds every one of the roles in the project's policy, whatever
  conflicting writes were met and whatever others changed between the attempts.\<close>

theorem SetIAMPolicy_grants_roles:
  assumes "iam_policy_api (ra_gcpClient r) (ra_env r) (reference_project s) view"
    and "SetIAMPolicy r email roles mt s = (None, s')"
  shows "set roles \<times> {member_of mt email} \<subseteq> view (rs_world s')"
  using iam_policy_api.SetIAMPolicy_granted [OF assms(1) refl refl refl assms(2)]
  by (simp add: role_grants_def)

text \<open>C21: Granting adds nothing else: when nobody else writes the policy, the grants after a successful
  \<^verbatim>\<open>SetIAMPolicy\<close> are the grants before it and the required ones.\<close>

theorem SetIAMPolicy_adds_exactly:
  assumes "quiet_iam_policy_api (ra_gcpClient r) (ra_env r) (reference_project s) view"
    and "SetIAMPolicy r email roles mt s = (None, s')"
  shows "view (rs_world s') = view (rs_world s) \<union> set roles \<times> {member_of mt email}"
  using quiet_iam_policy_api.SetIAMPolicy_exact [OF assms(1) refl refl refl assms(2)]
  by (simp add: role_grants_def)

text \<open>C22: Revoking is complete and touches nobody else: when nobody else writes the policy, a successful
  \<^verbatim>\<open>DeleteIAMPolicy\<close> leaves exactly the grants of the other members.\<close>

theorem DeleteIAMPolicy_removes_exactly:
  assumes "quiet_iam_policy_api (ra_gcpClient r) (ra_env r) (reference_project s) view"
    and "DeleteIAMPolicy r email mt s = (None, s')"
  shows "view (rs_world s') = view (rs_world s) - UNIV \<times> {member_of mt email}"
  by (rule quiet_iam_policy_api.DeleteIAMPolicy_exact [OF assms(1) refl refl refl assms(2)])


subsection \<open>The properties on the reference cloud\<close>

definition iam_reference :: ProjectReference where
  "iam_reference = (newMatchingProjectReference sample_claim)\<lparr>
     pr_Spec := (pr_Spec (newMatchingProjectReference sample_claim))\<lparr>prs_GCPProjectID := ''o-12345678''\<rparr>\<rparr>"

definition iam_adapter :: "cluster ReferenceAdapter" where
  "iam_adapter = \<lparr>ra_kubeClient = cluster_kube,
     ra_gcpClient = client_of cluster_env cluster_sdk \<lparr>gc_projectName = ''o-12345678'', gc_creds = GoogleCreds ''key''\<rparr>,
     ra_conditionManager = NewConditionManager, ra_OperatorConfig = cluster_config, ra_env = cluster_env\<rparr>"

definition granted_cluster :: cluster where
  "granted_cluster = empty_cluster\<lparr>cl_policies := (cl_policies empty_cluster)(''o-12345678'' :=
     empty_policy\<lparr>pol_Bindings := [\<lparr>b_Role = ''viewer'', b_Members = [''serviceAccount:a'', ''group:b''],
       b_Condition = None\<rparr>]\<rparr>)\<rparr>"

definition iam_state :: "cluster reference_state" where
  "iam_state = \<lparr>rs_claim = sample_claim, rs_reference = iam_reference, rs_world = granted_cluster\<rparr>"

lemma iam_state_facts [simp]:
  "reference_project iam_state = ''o-12345678''" "rs_world iam_state = granted_cluster"
  "ra_gcpClient iam_adapter = client_of cluster_env cluster_sdk
     \<lparr>gc_projectName = ''o-12345678'', gc_creds = GoogleCreds ''key''\<rparr>"
  "ra_env iam_adapter = cluster_env"
  by (simp_all add: iam_state_def iam_reference_def iam_adapter_def)

lemma granted_cluster_grants:
  "cluster_grants ''o-12345678'' granted_cluster = {(''viewer'', ''serviceAccount:a''), (''viewer'', ''group:b'')}"
  by (auto simp: cluster_grants_def granted_cluster_def)

lemma iam_state_add: "fst (SetIAMPolicy iam_adapter ''a'' [''editor''] ServiceAccount iam_state) = None"
  by (simp add: SetIAMPolicy_def SetIAMPolicy_loop.simps AddOrUpdateBindings_def on_world_def client_of_def
      GetIamPolicy_def SetIamPolicy_def cluster_sdk_def get_policy_def set_policy_def cluster_env_def
      granted_cluster_def AddOrUpdateBinding_def rolebindingMap_def normal_policy_def empty_policy_def
      empty_cluster_def member_of_def member_prefix_def Let_def)

lemma iam_state_delete: "fst (DeleteIAMPolicy iam_adapter ''a'' ServiceAccount iam_state) = None"
  by (simp add: DeleteIAMPolicy_def DeleteIAMPolicy_loop.simps on_world_def client_of_def
      GetIamPolicy_def SetIamPolicy_def cluster_sdk_def get_policy_def set_policy_def cluster_env_def
      granted_cluster_def RemoveOrUpdateBinding_def normal_policy_def empty_policy_def
      empty_cluster_def member_of_def member_prefix_def Let_def)

theorem SetIAMPolicy_grants_roles_witness:
  "set [''editor''] \<times> {''serviceAccount:a''} \<subseteq> cluster_grants ''o-12345678''
     (rs_world (snd (SetIAMPolicy iam_adapter ''a'' [''editor''] ServiceAccount iam_state)))"
  using SetIAMPolicy_grants_roles [of iam_adapter iam_state "cluster_grants ''o-12345678''" "''a''" "[''editor'']"
      ServiceAccount, OF _ prod_eqI] iam_state_add cluster_iam.client.iam_policy_api_axioms
  by (simp add: member_of_def member_prefix_def)

theorem SetIAMPolicy_adds_exactly_witness:
  "cluster_grants ''o-12345678'' (rs_world (snd (SetIAMPolicy iam_adapter ''a'' [''editor''] ServiceAccount iam_state)))
     = {(''viewer'', ''serviceAccount:a''), (''viewer'', ''group:b''), (''editor'', ''serviceAccount:a'')}"
  using SetIAMPolicy_adds_exactly [of iam_adapter iam_state "cluster_grants ''o-12345678''" "''a''" "[''editor'']"
      ServiceAccount, OF _ prod_eqI] iam_state_add cluster_iam.quiet_client.quiet_iam_policy_api_axioms
  by (simp add: member_of_def member_prefix_def granted_cluster_grants insert_commute)

theorem DeleteIAMPolicy_removes_exactly_witness:
  "cluster_grants ''o-12345678'' (rs_world (snd (DeleteIAMPolicy iam_adapter ''a'' ServiceAccount iam_state)))
     = {(''viewer'', ''group:b'')}"
proof -
  have "cluster_grants ''o-12345678'' (rs_world (snd (DeleteIAMPolicy iam_adapter ''a'' ServiceAccount iam_state)))
    = {(''viewer'', ''serviceAccount:a''), (''viewer'', ''group:b'')} - UNIV \<times> {''serviceAccount:a''}"
    using DeleteIAMPolicy_removes_exactly [of iam_adapter iam_state "cluster_grants ''o-12345678''" "''a''"
        ServiceAccount, OF _ prod_eqI] iam_state_delete cluster_iam.quiet_client.quiet_iam_policy_api_axioms
    by (simp add: member_of_def member_prefix_def granted_cluster_grants)
  then show ?thesis by auto
qed

end
