(* ===== verification/Manager.thy ===== *)
theory Manager
  imports ReferenceController ClaimController
begin

text \<open>
  \<^verbatim>\<open>main.go\<close> and the two \<^verbatim>\<open>SetupWithManager\<close>: the process that registers both controllers and starts
  them.  The controller runtime is a parameter: the requests the process makes of it, each of which
  may fail, are the fields of two records.  Log output is not modelled.
\<close>

subsection \<open>What the controller runtime is asked for\<close>

text \<open>What \<^verbatim>\<open>Complete\<close> registers: the kind whose objects are watched, and the reconciler.\<close>

record 'w controller =
  ctl_For :: string
  ctl_Reconcile :: "NamespacedName \<Rightarrow> 'w \<Rightarrow> (ctrl_Result \<times> err option) \<times> 'w"

record 'w manager =
  mgr_Client :: "'w kube_client"
  mgr_AddToScheme :: "'w \<Rightarrow> err option \<times> 'w"
  mgr_Complete :: "'w controller \<Rightarrow> 'w \<Rightarrow> err option \<times> 'w"
  mgr_AddHealthzCheck :: "string \<Rightarrow> 'w \<Rightarrow> err option \<times> 'w"
  mgr_AddReadyzCheck :: "string \<Rightarrow> 'w \<Rightarrow> err option \<times> 'w"
  mgr_Start :: "'w \<Rightarrow> err option \<times> 'w"

record manager_options =
  mo_MetricsBindAddress :: string
  mo_HealthProbeBindAddress :: string
  mo_LeaderElection :: bool
  mo_LeaderElectionID :: string

text \<open>\<^verbatim>\<open>GetConfigOrDie\<close> ends the process with the code 1 when there is no configuration.\<close>

record ('c, 'w) ctrl_runtime =
  rt_AddClientGoToScheme :: "'w \<Rightarrow> err option \<times> 'w"
  rt_AddOperatorToScheme :: "'w \<Rightarrow> err option \<times> 'w"
  rt_GetConfig :: "'w \<Rightarrow> (err + 'c) \<times> 'w"
  rt_NewManager :: "'c \<Rightarrow> manager_options \<Rightarrow> 'w \<Rightarrow> (err + 'w manager) \<times> 'w"

subsection \<open>The flags\<close>

record flags =
  fl_metricsAddr :: string
  fl_probeAddr :: string
  fl_enableLeaderElection :: bool

definition default_flags :: flags where
  "default_flags = \<lparr>fl_metricsAddr = '':8383'', fl_probeAddr = '':8081'', fl_enableLeaderElection = False\<rparr>"

definition metricsHost :: string where "metricsHost = ''0.0.0.0''"
definition metricsPort :: nat where "metricsPort = 8383"

text \<open>
  The options are built from the constants for the metrics and from the flags for the rest.  The REST
  mapper, a function of the controller runtime that is passed on, and the flags of the logger are left
  out.
\<close>

definition main_options :: "flags \<Rightarrow> manager_options" where
  "main_options fl =
     \<lparr>mo_MetricsBindAddress = metricsHost @ '':'' @ show_nat metricsPort,
      mo_HealthProbeBindAddress = fl_probeAddr fl,
      mo_LeaderElection = fl_enableLeaderElection fl,
      mo_LeaderElectionID = ''gcp-project-operator.openshift.io''\<rparr>"

subsection \<open>SetupWithManager\<close>

record 'w ProjectClaimReconciler =
  pcr_Client :: "'w kube_client"
  pcr_env :: "'w environment"

definition claim_SetupWithManager :: "'w ProjectClaimReconciler \<Rightarrow> 'w manager \<Rightarrow> 'w \<Rightarrow> err option \<times> 'w" where
  "claim_SetupWithManager r mgr w =
     mgr_Complete mgr \<lparr>ctl_For = ''ProjectClaim'', ctl_Reconcile = claim_Reconcile (pcr_Client r) (pcr_env r)\<rparr> w"

definition reference_SetupWithManager :: "'w ProjectReferenceReconciler \<Rightarrow> 'w manager \<Rightarrow> 'w \<Rightarrow> err option \<times> 'w" where
  "reference_SetupWithManager r mgr w =
     mgr_Complete mgr \<lparr>ctl_For = ''ProjectReference'', ctl_Reconcile = reference_Reconcile r\<rparr> w"

subsection \<open>init and main\<close>

datatype ending = Panicked err | Exited nat | Returned

text \<open>\<^verbatim>\<open>utilruntime.Must\<close> panics on an error.\<close>

definition init_scheme :: "('c, 'w) ctrl_runtime \<Rightarrow> 'w \<Rightarrow> err option \<times> 'w" where
  "init_scheme rt w =
     (case rt_AddClientGoToScheme rt w of
        (Some e, w1) \<Rightarrow> (Some e, w1)
      | (None, w1) \<Rightarrow> rt_AddOperatorToScheme rt w1)"

text \<open>A step of \<^verbatim>\<open>main\<close>: on an error the process exits with 1.\<close>

definition or_exit :: "err option \<times> 'w \<Rightarrow> ('w \<Rightarrow> ending \<times> 'w) \<Rightarrow> ending \<times> 'w" where
  "or_exit step rest = (case step of (Some e, w) \<Rightarrow> (Exited 1, w) | (None, w) \<Rightarrow> rest w)"

text \<open>\<^verbatim>\<open>main\<close> once there is a manager.\<close>

definition run_manager :: "'w environment \<Rightarrow> 'w google_sdk \<Rightarrow> 'w manager \<Rightarrow> 'w \<Rightarrow> ending \<times> 'w" where
  "run_manager env sdk mgr w =
     or_exit (mgr_AddToScheme mgr w) (\<lambda>w.
     or_exit (claim_SetupWithManager \<lparr>pcr_Client = mgr_Client mgr, pcr_env = env\<rparr> mgr w) (\<lambda>w.
     or_exit (reference_SetupWithManager
               \<lparr>prr_Client = mgr_Client mgr, prr_GcpClientBuilder = NewClient env sdk, prr_env = env\<rparr> mgr w) (\<lambda>w.
     or_exit (mgr_AddHealthzCheck mgr ''healthz'' w) (\<lambda>w.
     or_exit (mgr_AddReadyzCheck mgr ''readyz'' w) (\<lambda>w.
     or_exit (mgr_Start mgr w) (\<lambda>w. (Returned, w)))))))"

definition main :: "('c, 'w) ctrl_runtime \<Rightarrow> 'w environment \<Rightarrow> 'w google_sdk \<Rightarrow> flags \<Rightarrow> 'w \<Rightarrow> ending \<times> 'w" where
  "main rt env sdk fl w =
     (case rt_GetConfig rt w of
        (Inl e, w1) \<Rightarrow> (Exited 1, w1)
      | (Inr config, w1) \<Rightarrow>
          (case rt_NewManager rt config (main_options fl) w1 of
             (Inl e, w2) \<Rightarrow> (Exited 1, w2)
           | (Inr mgr, w2) \<Rightarrow> run_manager env sdk mgr w2))"

text \<open>The process: the package is initialised before \<^verbatim>\<open>main\<close> runs.\<close>

definition process :: "('c, 'w) ctrl_runtime \<Rightarrow> 'w environment \<Rightarrow> 'w google_sdk \<Rightarrow> flags \<Rightarrow> 'w \<Rightarrow> ending \<times> 'w" where
  "process rt env sdk fl w =
     (case init_scheme rt w of (Some e, w1) \<Rightarrow> (Panicked e, w1) | (None, w1) \<Rightarrow> main rt env sdk fl w1)"

subsection \<open>The order of the start\<close>

text \<open>
  A runtime that notes what it is asked for, and fails where \<^verbatim>\<open>fails\<close> says so; its world is the
  list of requests.
\<close>

datatype setup_call = AskConfig | AskManager manager_options | AskScheme | AskController string
  | AskHealthz string | AskReadyz string | AskStart

type_synonym setup_log = "setup_call list"

definition note_call :: "(setup_call \<Rightarrow> err option) \<Rightarrow> setup_call \<Rightarrow> setup_log \<Rightarrow> err option \<times> setup_log" where
  "note_call fails c w = (fails c, w @ [c])"

definition noting_manager :: "setup_log kube_client \<Rightarrow> (setup_call \<Rightarrow> err option) \<Rightarrow> setup_log manager" where
  "noting_manager K fails =
     \<lparr>mgr_Client = K, mgr_AddToScheme = note_call fails AskScheme,
      mgr_Complete = (\<lambda>c. note_call fails (AskController (ctl_For c))),
      mgr_AddHealthzCheck = (\<lambda>n. note_call fails (AskHealthz n)),
      mgr_AddReadyzCheck = (\<lambda>n. note_call fails (AskReadyz n)), mgr_Start = note_call fails AskStart\<rparr>"

definition noting_runtime ::
  "setup_log kube_client \<Rightarrow> (setup_call \<Rightarrow> err option) \<Rightarrow> (unit, setup_log) ctrl_runtime" where
  "noting_runtime K fails =
     \<lparr>rt_AddClientGoToScheme = Pair None, rt_AddOperatorToScheme = Pair None,
      rt_GetConfig = (\<lambda>w. (case fails AskConfig of None \<Rightarrow> Inr () | Some e \<Rightarrow> Inl e, w @ [AskConfig])),
      rt_NewManager = (\<lambda>c opts w. (case fails (AskManager opts) of
         None \<Rightarrow> Inr (noting_manager K fails) | Some e \<Rightarrow> Inl e, w @ [AskManager opts]))\<rparr>"

text \<open>The requests up to the first that fails.\<close>

fun up_to_failure :: "(setup_call \<Rightarrow> err option) \<Rightarrow> setup_call list \<Rightarrow> setup_call list" where
  "up_to_failure fails [] = []"
| "up_to_failure fails (c # cs) = (if fails c = None then c # up_to_failure fails cs else [c])"

definition startup :: "flags \<Rightarrow> setup_call list" where
  "startup fl = [AskConfig, AskManager (main_options fl), AskScheme, AskController ''ProjectClaim'',
     AskController ''ProjectReference'', AskHealthz ''healthz'', AskReadyz ''readyz'', AskStart]"

lemma or_exit_note:
  "or_exit (note_call fails c w) rest = (if fails c = None then rest (w @ [c]) else (Exited 1, w @ [c]))"
  by (auto simp: or_exit_def note_call_def split: option.split)

primrec noting :: "(setup_call \<Rightarrow> err option) \<Rightarrow> setup_call list \<Rightarrow> setup_log \<Rightarrow> ending \<times> setup_log" where
  "noting fails [] = (\<lambda>w. (Returned, w))"
| "noting fails (c # cs) = (\<lambda>w. or_exit (note_call fails c w) (noting fails cs))"

lemma noting_result:
  "noting fails cs w =
     (if list_all (\<lambda>c. fails c = None) cs then Returned else Exited 1, w @ up_to_failure fails cs)"
  by (induction cs arbitrary: w) (simp_all add: or_exit_note)

lemma run_manager_noting:
  "run_manager env sdk (noting_manager K fails) w = noting fails [AskScheme, AskController ''ProjectClaim'',
     AskController ''ProjectReference'', AskHealthz ''healthz'', AskReadyz ''readyz'', AskStart] w"
  by (simp add: run_manager_def noting_manager_def claim_SetupWithManager_def reference_SetupWithManager_def)

text \<open>C31: The operator starts only when everything before the start succeeded: the process registers the scheme,
  both controllers and the two checks in this order and then starts the manager; it stops at the first
  request that fails, with the exit code 1, and otherwise returns when the manager does.\<close>

theorem startup_stops_at_failure:
  "process (noting_runtime K fails) env sdk fl [] =
     (if list_all (\<lambda>c. fails c = None) (startup fl) then Returned else Exited 1,
      up_to_failure fails (startup fl))"
  by (cases "fails AskConfig"; cases "fails (AskManager (main_options fl))")
    (simp_all add: process_def init_scheme_def main_def startup_def noting_runtime_def run_manager_noting
      noting_result del: noting.simps)

text \<open>The address given for the metrics is parsed and not used.\<close>

lemma metrics_flag_ignored:
  "process rt env sdk (fl\<lparr>fl_metricsAddr := addr\<rparr>) w = process rt env sdk fl w"
proof -
  have "main_options (fl\<lparr>fl_metricsAddr := addr\<rparr>) = main_options fl" by (simp add: main_options_def)
  then show ?thesis by (simp only: process_def main_def)
qed

end
