(* ===== verification/Orphans.thy ===== *)
theory Orphans
  imports SystemProperties
begin

text \<open>
  A reference is created before its claim has the finalizer.  A tenant who deletes the claim in
  between leaves a reference behind which nobody deletes: the claim controller has no claim to
  finalize, and the reference controller fails on reading the claim before it does anything.
\<close>

lemma getGcpClient_quiet [simp]:
  "quiet_move cl w \<Longrightarrow> quiet_move cl (snd (getGcpClient cluster_reconciler reference w))"
  by (simp add: getGcpClient_def cluster_reconciler_def GetGCPCredentialsFromSecret_def cluster_kube_def
      case_prod_beta Let_def split: sum.split option.split)

lemma getConfigMap_world [simp]: "snd (getConfigMap cluster_reconciler w) = w"
  by (simp add: getConfigMap_def cluster_reconciler_def GetOperatorConfigMap_def cluster_kube_def
      case_prod_beta Let_def split: sum.split option.split)

lemma claim_missing:
  assumes "quiet_move cl w" and "cl_claims cl (link_of r) = None"
  shows "NewReferenceAdapter r cluster_kube G m cm env w = (Inl not_found, w)"
  using assms by (cases "link_of r") (simp add: NewReferenceAdapter_def getMatchingClaimLink_def cluster_kube_def
      api_get_def quiet_move_def namespaced_def)

definition orphaned :: "cluster \<Rightarrow> NamespacedName \<Rightarrow> ProjectReference \<Rightarrow> bool" where
  "orphaned cl rk r \<longleftrightarrow> cl_references cl rk = Some r \<and> cl_claims cl (link_of r) = None \<and>
     (reference_deleted r \<or> ProjectReference_Validate r = None)"

lemma orphaned_quiet: "orphaned cl rk r \<Longrightarrow> quiet_move cl w \<Longrightarrow> orphaned w rk r"
  by (simp add: orphaned_def quiet_move_def)

lemma orphan_Reconcile:
  assumes "orphaned cl rk r"
  shows "snd (fst (reference_Reconcile cluster_reconciler rk cl)) \<noteq> None"
    and "quiet_move cl (snd (reference_Reconcile cluster_reconciler rk cl))"
proof -
  let ?r = "set_pr_meta (keyed rk (pr_Meta r)) r"
  obtain a w where g: "getGcpClient cluster_reconciler ?r cl = (a, w)" by fastforce
  then have w: "quiet_move cl w" using getGcpClient_quiet [of cl cl ?r] quiet_move_refl by simp
  obtain b where c: "getConfigMap cluster_reconciler w = (b, w)"
    using getConfigMap_world [of w] by (metis prod.collapse)
  have missing: "NewReferenceAdapter ?r cluster_kube G m cm env w = (Inl not_found, w)" for G m cm env
    using assms by (intro claim_missing [OF w]) (simp add: orphaned_def set_pr_meta_def)
  have run: "reference_Reconcile cluster_reconciler rk cl = reconcile_reference cluster_reconciler ?r cl"
    using assms by (auto simp: reference_Reconcile_def cluster_reconciler_def cluster_kube_def api_get_def
        orphaned_def set_pr_meta_def ProjectReference_Validate_def)
  have client: "prr_Client cluster_reconciler = cluster_kube" by (simp add: cluster_reconciler_def)
  show "snd (fst (reference_Reconcile cluster_reconciler rk cl)) \<noteq> None"
    and "quiet_move cl (snd (reference_Reconcile cluster_reconciler rk cl))"
    using w by (auto simp: run reconcile_reference_def g c client missing split: sum.splits)
qed

lemma claim_gone_Reconcile:
  "cl_claims cl nn = None \<Longrightarrow> claim_Reconcile cluster_kube cluster_env nn cl = ((empty_Result, None), cl)"
  by (simp add: claim_Reconcile_def cluster_kube_def api_get_def not_found_def)

lemma orphan_rounds: "orphaned cl rk r \<Longrightarrow> orphaned (cluster_rounds n (link_of r) rk cl) rk r"
proof (induction n arbitrary: cl)
  case 0
  then show ?case by simp
next
  case (Suc n)
  let ?cl = "env_Sleep cluster_env Second cl"
  have cl: "orphaned ?cl rk r" using orphaned_quiet [OF Suc.prems, of ?cl] by simp
  then have "claim_round (link_of r) cl = ?cl"
    by (simp add: claim_round_def claim_gone_Reconcile orphaned_def)
  moreover let ?cl' = "env_Sleep cluster_env Second ?cl"
  have "orphaned ?cl' rk r" using orphaned_quiet [OF cl, of ?cl'] by simp
  then have "orphaned (reference_round rk ?cl) rk r"
    unfolding reference_round_def using orphan_Reconcile(2) orphaned_quiet by blast
  ultimately show ?case using Suc.IH by simp
qed

subsection \<open>An orphan that is reached\<close>

text \<open>The claim of \<^verbatim>\<open>SystemProperties\<close> as a tenant writes it, without the finalizer.\<close>

definition unguarded_cluster :: cluster where
  "unguarded_cluster = ccs_cluster\<lparr>cl_claims := [sample_key \<mapsto> ccs_sample_claim\<lparr>pc_Meta :=
     (pc_Meta ccs_sample_claim)\<lparr>om_Finalizers := []\<rparr>, pc_Spec := (pc_Spec ccs_sample_claim)
       \<lparr>pcs_ProjectReferenceCRLink := namespaced '''' ''''\<rparr>\<rparr>]\<rparr>"

definition orphan_cluster :: cluster where
  "orphan_cluster = delete_claim ccs_sample_claim (cluster_rounds 2 sample_key sample_reference_key unguarded_cluster)"

lemma fresh_unguarded_cluster: "fresh_cluster unguarded_cluster"
proof -
  have "''1'' = show_nat 1" by code_simp
  then have "old_version 2 ''1''" unfolding old_version_def by (intro exI [of _ 1]) simp
  then show ?thesis
    by (simp add: fresh_cluster_def unguarded_cluster_def ccs_cluster_def ccs_sample_claim_def sample_cluster_def
        empty_cluster_def)
qed

lemma orphan_cluster_reachable: "cluster_reachable (at_rest orphan_cluster)"
proof -
  let ?cl = "cluster_rounds 2 sample_key sample_reference_key unguarded_cluster"
  have "cluster_reachable (at_rest ?cl)"
    by (rule rounds_reachable [OF reachable.start [OF fresh_unguarded_cluster]])
  from reachable.step [OF this system_step.tenant_deletes] show ?thesis by (simp add: orphan_cluster_def)
qed

lemma orphan_cluster_evaluated:
  "map_option (\<lambda>r. (link_of r, ProjectReference_Validate r)) (cl_references orphan_cluster sample_reference_key) =
     Some (sample_key, None) \<and> map_option pc_State (cl_claims orphan_cluster sample_key) = None"
  by code_simp

text \<open>C32: A reference whose claim is gone is never cleaned up: each \<^verbatim>\<open>Reconcile\<close> of it ends in an error, and
  after any number of rounds of both controllers it is still there, unchanged.\<close>

theorem orphan_reference_stays:
  assumes "cl_references cl rk = Some r" and "cl_claims cl (prs_ProjectClaimCRLink (pr_Spec r)) = None"
    and "om_DeletionTimestamp (pr_Meta r) \<noteq> None \<or> ProjectReference_Validate r = None"
  shows "let cl' = cluster_rounds n (prs_ProjectClaimCRLink (pr_Spec r)) rk cl in
    cl_references cl' rk = Some r \<and> cl_claims cl' (prs_ProjectClaimCRLink (pr_Spec r)) = None \<and>
    snd (fst (reference_Reconcile cluster_reconciler rk cl')) \<noteq> None"
proof -
  have "orphaned (cluster_rounds n (link_of r) rk cl) rk r"
    by (rule orphan_rounds) (use assms in \<open>simp add: orphaned_def\<close>)
  with orphan_Reconcile(1) [OF this] show ?thesis by (simp add: orphaned_def Let_def)
qed

text \<open>The state is one the system reaches, with a tenant's deletion of the claim as the last step.\<close>

theorem orphan_reference_stays_witness:
  "reachable cluster_kube cluster_env cluster_reconciler
     \<lparr>sys_cluster = orphan_cluster, sys_claim_run = None, sys_reference_run = None\<rparr> \<and>
   cl_references (cluster_rounds 1000 sample_key sample_reference_key orphan_cluster) sample_reference_key \<noteq> None"
proof -
  obtain r where "cl_references orphan_cluster sample_reference_key = Some r" and "link_of r = sample_key"
    and "ProjectReference_Validate r = None" and "cl_claims orphan_cluster sample_key = None"
    using orphan_cluster_evaluated by auto
  then show ?thesis
    using orphan_cluster_reachable orphan_reference_stays [of orphan_cluster sample_reference_key r 1000]
    by (auto simp: Let_def)
qed

end
