(* ===== verification/Quiescence.thy ===== *)
theory Quiescence
  imports ReconcileProperties
begin

text \<open>
  What a run does when there is nothing left to do.
\<close>

text \<open>The end of every \<^verbatim>\<open>Reconcile\<close> of a reference: the handler, then the condition.\<close>

definition finished_run :: "'w ReferenceAdapter \<Rightarrow> 'w reference_state \<Rightarrow> (ctrl_Result \<times> err option) \<times> 'w reference_state" where
  "finished_run r s =
     (case reference_ReconcileHandler r s of
        ((result, e), s1) \<Rightarrow>
          (case SetProjectReferenceCondition r ''ReconcileError'' e s1 of (ignored, s2) \<Rightarrow> ((result, e), s2)))"

lemma ready_handler_idle:
  assumes "pr_State (rs_reference s) = ProjectReferenceStatusReady" and "pc_State (rs_claim s) = ClaimStatusReady"
    and "om_DeletionTimestamp (pr_Meta (rs_reference s)) = None" and "pr_Conditions (rs_reference s) \<noteq> None"
  shows "reference_ReconcileHandler r s = ((empty_Result, None), s)"
proof -
  have "EnsureProjectReferenceInitialized r s = (ContinueProcessing, s)"
    "EnsureDeletionProcessed r s = (ContinueProcessing, s)"
    "EnsureProjectClaimReady r s = (StopProcessing, s)"
    using assms by (auto simp: EnsureProjectReferenceInitialized_def EnsureDeletionProcessed_def
        IsDeletionRequested_def EnsureProjectClaimReady_def)
  then show ?thesis
    by (simp add: reference_ReconcileHandler_def reference_operations_def)
      (simp add: handler_result_def StopProcessing_def StopOperationResult_def empty_Result_def)
qed

text \<open>C33: A finished reference is never at rest.  When the reference and its claim are Ready and the reference
  has any condition at all, a run makes no call but one: it writes the status of the reference, with the
  present time as the probe time of the error condition, whether or not there ever was an error.\<close>

theorem ready_reference_rewritten:
  assumes "pr_State (rs_reference s) = ProjectReferenceStatusReady" and "pc_State (rs_claim s) = ClaimStatusReady"
    and "om_DeletionTimestamp (pr_Meta (rs_reference s)) = None"
    and "elems (pr_Conditions (rs_reference s)) \<noteq> []" and "ra_conditionManager r = NewConditionManager"
  shows "\<exists>x e. snd (rs_world (snd (finished_run (traced_reference r) (recorded_reference s)))) = [(CallStatusReference x, e)] \<and>
    map_option (\<lambda>c. (c_Status c, c_LastProbeTime c)) (condition_view (pr_Conditions x) ConditionError) =
      Some (ConditionFalse, fst (env_Now (ra_env r) (rs_world s)))"
proof -
  let ?r = "traced_reference r" and ?s = "recorded_reference s"
  let ?now = "fst (env_Now (ra_env r) (rs_world s))"
  have nil: "pr_Conditions (rs_reference s) \<noteq> None" using assms(4) by (cases "pr_Conditions (rs_reference s)") simp_all
  then have run: "reference_ReconcileHandler ?r ?s = ((empty_Result, None), ?s)"
    using assms by (intro ready_handler_idle) simp_all
  let ?x = "rs_reference (ref_set_condition ?r ConditionError ConditionFalse ''ReconcileErrorResolved'' '''' ?s)"
  have x: "condition_view (pr_Conditions ?x) ConditionError =
      Some (assign_condition ?now ConditionError ConditionFalse ''ReconcileErrorResolved'' ''''
        (case condition_view (pr_Conditions (rs_reference s)) ConditionError of
           None \<Rightarrow> new_condition ConditionError | Some c \<Rightarrow> c))"
    using assms(5) by (simp add: ref_set_condition_def on_world_def untraced_def trace_simps case_prod_beta conds.set_view
        set_reference_conditions_def)
  have log: "\<exists>e. snd (rs_world (snd (finished_run ?r ?s))) = [(CallStatusReference ?x, e)]"
    using assms(4) by (auto simp: finished_run_def run SetProjectReferenceCondition_def reference_StatusUpdate_def
        ref_status_update_def ref_set_condition_def on_world_def untraced_def record_call_def trace_simps case_prod_beta
        split: option.splits)
  with x show ?thesis by (auto simp: assign_condition_def Let_def)
qed

definition finished_reference :: ProjectReference where
  "finished_reference = sample_reference\<lparr>pr_Status :=
     \<lparr>prt_Conditions = Some [new_condition ConditionComputeApiReady], prt_State = ProjectReferenceStatusReady\<rparr>\<rparr>"

definition finished_state :: "cluster reference_state" where
  "finished_state = (sample_ref_state finished_reference sample_cluster)
     \<lparr>rs_claim := set_claim_state ClaimStatusReady sample_claim\<rparr>"

theorem ready_reference_rewritten_witness:
  "length (snd (rs_world (snd (finished_run (traced_reference sample_ref_adapter) (recorded_reference finished_state))))) = 1"
proof -
  have "om_DeletionTimestamp (pr_Meta (rs_reference finished_state)) = None" by code_simp
  moreover have "pr_State (rs_reference finished_state) = ProjectReferenceStatusReady"
    "pc_State (rs_claim finished_state) = ClaimStatusReady" by code_simp+
  moreover have "elems (pr_Conditions (rs_reference finished_state)) \<noteq> []"
    by (simp add: finished_state_def sample_ref_state_def finished_reference_def)
  ultimately show ?thesis
    using ready_reference_rewritten [of finished_state sample_ref_adapter] by auto
qed

end
