(* ===== verification/Retries.thy ===== *)
theory Retries
  imports Quiescence
begin

text \<open>
  The two loops that write an IAM policy end: each tries at most four times, whatever Google Cloud
  answers.
\<close>

fun policy_written_by :: "call \<Rightarrow> Policy option" where
  "policy_written_by (GcpSetIamPolicy p) = Some p"
| "policy_written_by _ = None"

definition attempts :: "'w traced reference_state \<Rightarrow> nat" where
  "attempts s = length (selected policy_written_by (snd (rs_world s)))"

lemma attempts_calls:
  "on_world (g_GetIamPolicy (ra_gcpClient (traced_reference r)) project) s = (x, s') \<Longrightarrow> attempts s' = attempts s"
  "on_world (g_SetIamPolicy (ra_gcpClient (traced_reference r)) p) s = (y, s') \<Longrightarrow> attempts s' = Suc (attempts s)"
  "AddOrUpdateBindings (traced_reference r) email roles mt s = (z, s') \<Longrightarrow> attempts s' = attempts s"
  "attempts (ref_sleep (traced_reference r) d s) = attempts s"
  by (auto simp: attempts_def on_world_def record_call_def untraced_def trace_simps AddOrUpdateBindings_def ref_sleep_def
      split: prod.splits sum.splits)

lemma SetIAMPolicy_loop_attempts:
  "retry \<le> 3 \<longrightarrow> attempts (snd (SetIAMPolicy_loop (traced_reference r) email roles mt retry s)) \<le> attempts s + (4 - retry)"
  by (rule SetIAMPolicy_loop_rule [where Q = "\<lambda>retry s x. retry \<le> 3 \<longrightarrow> attempts (snd x) \<le> attempts s + (4 - retry)"])
    (auto simp: attempts_calls dest!: attempts_calls(2,3))

lemma DeleteIAMPolicy_loop_attempts:
  "retry \<le> 3 \<longrightarrow> attempts (snd (DeleteIAMPolicy_loop (traced_reference r) email mt retry s)) \<le> attempts s + (4 - retry)"
  by (rule DeleteIAMPolicy_loop_rule [where Q = "\<lambda>retry s x. retry \<le> 3 \<longrightarrow> attempts (snd x) \<le> attempts s + (4 - retry)"])
    (auto simp: attempts_calls dest!: attempts_calls(1,2))

text \<open>C30: The loops over a contested policy end: \<^verbatim>\<open>SetIAMPolicy\<close> and \<^verbatim>\<open>DeleteIAMPolicy\<close> return after at most
  four attempts to write the policy, over any client and however often it reports a conflict.\<close>

theorem policy_writes_bounded:
  "length (selected policy_written_by (snd (rs_world (snd (SetIAMPolicy (traced_reference r) email roles mt
     (recorded_reference s)))))) \<le> 4 \<and>
   length (selected policy_written_by (snd (rs_world (snd (DeleteIAMPolicy (traced_reference r) email mt
     (recorded_reference s)))))) \<le> 4"
  using SetIAMPolicy_loop_attempts [of 0 r email roles mt "recorded_reference s"]
    DeleteIAMPolicy_loop_attempts [of 0 r email mt "recorded_reference s"]
  by (simp add: SetIAMPolicy_def DeleteIAMPolicy_def attempts_def)

end
