(* ===== verification/Memory.thy ===== *)
theory Memory
  imports Prelude
begin

text \<open>
  Memory, for the one part of the code where it matters what is shared: the deep copies of
  \<^verbatim>\<open>api/v1alpha1\<close>.  A memory maps addresses to cells; a cell holds an array, and an object made with
  \<^verbatim>\<open>new\<close> is an array of one element.  The locale \<^verbatim>\<open>deep_copy\<close> states what a deep copy promises; slices,
  pointers and structs of parts that keep the promise keep it too.
\<close>

subsection \<open>Cells, pointers and slices\<close>

type_synonym address = nat

record 'c memory =
  mm_cells :: "address \<rightharpoonup> 'c"
  mm_next :: address

text \<open>A pointer to an element of an array, and a slice of one; \<^verbatim>\<open>None\<close> is nil.  No capacity: nothing appends.\<close>

datatype pointer = Pointer (ptr_base: address) (ptr_index: nat)
datatype slice = Slice (sl_base: address) (sl_offset: nat) (sl_len: nat)

text \<open>
  A kind of array: how its cell is made and read.  Go's types see to it that a cell is read as what it
  is.
\<close>

record ('a, 'c) array_kind =
  ak_cell :: "'a list \<Rightarrow> 'c"
  ak_elems :: "'c \<Rightarrow> 'a list option"

definition proper_kind :: "('a, 'c) array_kind \<Rightarrow> bool" where
  "proper_kind k \<longleftrightarrow> (\<forall>xs. ak_elems k (ak_cell k xs) = Some xs)"

definition slice_elems :: "('a, 'c) array_kind \<Rightarrow> 'c memory \<Rightarrow> slice \<Rightarrow> 'a list option" where
  "slice_elems k m s =
     (case Option.bind (mm_cells m (sl_base s)) (ak_elems k) of
        None \<Rightarrow> None
      | Some xs \<Rightarrow> if sl_offset s + sl_len s \<le> length xs then Some (take (sl_len s) (drop (sl_offset s) xs)) else None)"

definition pointed :: "('a, 'c) array_kind \<Rightarrow> 'c memory \<Rightarrow> pointer \<Rightarrow> 'a option" where
  "pointed k m p =
     (case Option.bind (mm_cells m (ptr_base p)) (ak_elems k) of
        None \<Rightarrow> None
      | Some xs \<Rightarrow> if ptr_index p < length xs then Some (xs ! ptr_index p) else None)"

definition new_cell :: "'c memory \<Rightarrow> address \<times> 'c memory" where
  "new_cell m = (mm_next m, m\<lparr>mm_next := Suc (mm_next m)\<rparr>)"

definition write_cell :: "address \<Rightarrow> 'c \<Rightarrow> 'c memory \<Rightarrow> 'c memory" where
  "write_cell a c m = m\<lparr>mm_cells := (mm_cells m)(a \<mapsto> c)\<rparr>"

subsection \<open>Copying slices and what a pointer points to\<close>

fun copy_elems :: "('a \<Rightarrow> 'c memory \<Rightarrow> 'a \<times> 'c memory) \<Rightarrow> 'a list \<Rightarrow> 'c memory \<Rightarrow> 'a list \<times> 'c memory" where
  "copy_elems into [] m = ([], m)"
| "copy_elems into (x # xs) m =
     (let (y, m1) = into x m; (ys, m2) = copy_elems into xs m1 in (y # ys, m2))"

text \<open>
  \<^verbatim>\<open>if in.F != nil { *out = make([]T, len( *in)); for i := range *in { ( *in)[i].DeepCopyInto(&( *out)[i]) } }\<close>:
  the new array has its address from the start and its elements when the loop is done.  The second
  case of a slice does not arise: a slice reaches an array of its type.
\<close>

definition copy_slice ::
  "('a, 'c) array_kind \<Rightarrow> ('a \<Rightarrow> 'c memory \<Rightarrow> 'a \<times> 'c memory) \<Rightarrow> slice option \<Rightarrow> 'c memory \<Rightarrow> slice option \<times> 'c memory" where
  "copy_slice k into s m =
     (case s of
        None \<Rightarrow> (None, m)
      | Some sl \<Rightarrow>
          (case slice_elems k m sl of
             None \<Rightarrow> (s, m)
           | Some xs \<Rightarrow>
               let (a, m1) = new_cell m; (ys, m2) = copy_elems into xs m1
               in (Some (Slice a 0 (length xs)), write_cell a (ak_cell k ys) m2)))"

text \<open>\<^verbatim>\<open>if in == nil { return nil }; out := new(T); in.DeepCopyInto(out); return out\<close>.\<close>

definition copy_pointed ::
  "('a, 'c) array_kind \<Rightarrow> ('a \<Rightarrow> 'c memory \<Rightarrow> 'a \<times> 'c memory) \<Rightarrow> pointer option \<Rightarrow> 'c memory \<Rightarrow> pointer option \<times> 'c memory" where
  "copy_pointed k into p m =
     (case p of
        None \<Rightarrow> (None, m)
      | Some q \<Rightarrow>
          (case pointed k m q of
             None \<Rightarrow> (p, m)
           | Some x \<Rightarrow>
               let (a, m1) = new_cell m; (y, m2) = into x m1
               in (Some (Pointer a 0), write_cell a (ak_cell k [y]) m2)))"

subsection \<open>What a deep copy promises\<close>

definition sound_memory :: "'c memory \<Rightarrow> bool" where
  "sound_memory m \<longleftrightarrow> (\<forall>a. mm_cells m a \<noteq> None \<longrightarrow> a < mm_next m)"

definition grows :: "'c memory \<Rightarrow> 'c memory \<Rightarrow> bool" where
  "grows m m' \<longleftrightarrow> sound_memory m' \<and> mm_next m \<le> mm_next m' \<and> (\<forall>a<mm_next m. mm_cells m' a = mm_cells m a)"

definition alike_on :: "address set \<Rightarrow> 'c memory \<Rightarrow> 'c memory \<Rightarrow> bool" where
  "alike_on A m m' \<longleftrightarrow> (\<forall>a\<in>A. mm_cells m' a = mm_cells m a)"

lemma alike_on_mono: "alike_on A m m' \<Longrightarrow> B \<subseteq> A \<Longrightarrow> alike_on B m m'"
  by (auto simp: alike_on_def)

lemma grows_refl: "sound_memory m \<Longrightarrow> grows m m"
  by (simp add: grows_def)

lemma grows_trans: "grows a b \<Longrightarrow> grows b c \<Longrightarrow> grows a c"
  by (simp add: grows_def)

lemma grows_alike: "grows m m' \<Longrightarrow> A \<subseteq> {..<mm_next m} \<Longrightarrow> alike_on A m m'"
  by (auto simp: grows_def alike_on_def)

lemma grows_sound: "grows m m' \<Longrightarrow> sound_memory m'"
  by (simp add: grows_def)

lemma new_cell_grows: "sound_memory m \<Longrightarrow> new_cell m = (a, m1) \<Longrightarrow> grows m m1 \<and> a = mm_next m \<and> mm_next m1 = Suc a"
  by (auto simp: new_cell_def grows_def sound_memory_def less_Suc_eq)

lemma write_cell_grows:
  "grows m m' \<Longrightarrow> mm_next m \<le> a \<Longrightarrow> a < mm_next m' \<Longrightarrow> grows m (write_cell a c m')"
  by (auto simp: grows_def sound_memory_def write_cell_def)

text \<open>
  A type \<^verbatim>\<open>'a\<close> of values that may reach into memory: what it stands for, where that is well defined;
  the cells it reaches; and the function that copies it.
\<close>

locale deep_copy =
  fixes into :: "'a \<Rightarrow> 'c memory \<Rightarrow> 'a \<times> 'c memory"
    and value_of :: "'c memory \<Rightarrow> 'a \<Rightarrow> 'b option"
    and reach :: "'c memory \<Rightarrow> 'a \<Rightarrow> address set"
  assumes reach_allocated: "value_of m x = Some v \<Longrightarrow> reach m x \<subseteq> dom (mm_cells m)"
    and reads_reach: "value_of m x = Some v \<Longrightarrow> alike_on (reach m x) m m' \<Longrightarrow>
      value_of m' x = Some v \<and> reach m' x = reach m x"
    and copies: "sound_memory m \<Longrightarrow> value_of m x = Some v \<Longrightarrow> into x m = (y, m') \<Longrightarrow>
      value_of m' y = Some v \<and> grows m m' \<and> reach m' y \<subseteq> {mm_next m..<mm_next m'}"
begin

lemma grows_keeps:
  assumes "sound_memory m" and "value_of m x = Some v" and "grows m m'"
  shows "value_of m' x = Some v" and "reach m' x = reach m x"
proof -
  have "reach m x \<subseteq> {..<mm_next m}" using assms(1) reach_allocated [OF assms(2)] by (auto simp: sound_memory_def)
  from reads_reach [OF assms(2) grows_alike [OF assms(3) this]]
  show "value_of m' x = Some v" and "reach m' x = reach m x" by simp_all
qed

text \<open>Neither of the two objects sees what is written to the other.\<close>

lemma independent:
  assumes m: "sound_memory m" and x: "value_of m x = Some v" and copy: "into x m = (y, m')"
  shows "value_of m' x = Some v" and "value_of m' y = Some v" and "reach m' x \<inter> reach m' y = {}"
    and "alike_on (- reach m' y) m' w \<Longrightarrow> value_of w x = Some v"
    and "alike_on (- reach m' x) m' w \<Longrightarrow> value_of w y = Some v"
proof -
  note c = copies [OF m x copy]
  then show y: "value_of m' y = Some v" by simp
  have kept: "value_of m' x = Some v" "reach m' x = reach m x" using grows_keeps [OF m x] c by simp_all
  then show "value_of m' x = Some v" by simp
  have "reach m x \<subseteq> {..<mm_next m}" using m reach_allocated [OF x] by (auto simp: sound_memory_def)
  with c kept show apart: "reach m' x \<inter> reach m' y = {}" by fastforce
  show "value_of w x = Some v" if "alike_on (- reach m' y) m' w"
    using reads_reach [OF kept(1) alike_on_mono [OF that]] apart by blast
  show "value_of w y = Some v" if "alike_on (- reach m' x) m' w"
    using reads_reach [OF y alike_on_mono [OF that]] apart by blast
qed

end

subsection \<open>Values, pairs and structs\<close>

text \<open>A value that reaches nothing is copied by assignment.\<close>

lemma deep_copy_plain:
  assumes "\<And>x m. into x m = (x, m)" shows "deep_copy into (\<lambda>m x. Some (f x)) (\<lambda>m x. {})"
  using assms by unfold_locales (auto simp: grows_refl)

definition copy_both ::
  "('a \<Rightarrow> 'c memory \<Rightarrow> 'a \<times> 'c memory) \<Rightarrow> ('b \<Rightarrow> 'c memory \<Rightarrow> 'b \<times> 'c memory) \<Rightarrow> 'a \<times> 'b \<Rightarrow> 'c memory \<Rightarrow> ('a \<times> 'b) \<times> 'c memory" where
  "copy_both f g p m = (let (x, m1) = f (fst p) m; (y, m2) = g (snd p) m1 in ((x, y), m2))"

definition both_values ::
  "('c memory \<Rightarrow> 'a \<Rightarrow> 'v option) \<Rightarrow> ('c memory \<Rightarrow> 'b \<Rightarrow> 'w option) \<Rightarrow> 'c memory \<Rightarrow> 'a \<times> 'b \<Rightarrow> ('v \<times> 'w) option" where
  "both_values f g m p = (case (f m (fst p), g m (snd p)) of (Some v, Some w) \<Rightarrow> Some (v, w) | _ \<Rightarrow> None)"

definition both_reach ::
  "('c memory \<Rightarrow> 'a \<Rightarrow> address set) \<Rightarrow> ('c memory \<Rightarrow> 'b \<Rightarrow> address set) \<Rightarrow> 'c memory \<Rightarrow> 'a \<times> 'b \<Rightarrow> address set" where
  "both_reach f g m p = f m (fst p) \<union> g m (snd p)"

lemma both_values_Some:
  "both_values f g m p = Some v \<longleftrightarrow> f m (fst p) = Some (fst v) \<and> g m (snd p) = Some (snd v)"
  by (cases v) (auto simp: both_values_def split: option.splits)

lemma deep_copy_both:
  assumes f: "deep_copy f fv fr" and g: "deep_copy g gv gr"
  shows "deep_copy (copy_both f g) (both_values fv gv) (both_reach fr gr)"
proof
  fix m m' and p :: "'a \<times> 'd" and v
  assume v: "both_values fv gv m p = Some v"
  then have vs: "fv m (fst p) = Some (fst v)" "gv m (snd p) = Some (snd v)" by (simp_all add: both_values_Some)
  show "both_reach fr gr m p \<subseteq> dom (mm_cells m)"
    using deep_copy.reach_allocated [OF f vs(1)] deep_copy.reach_allocated [OF g vs(2)] by (simp add: both_reach_def)
  assume alike: "alike_on (both_reach fr gr m p) m m'"
  have "alike_on (fr m (fst p)) m m'" "alike_on (gr m (snd p)) m m'"
    by (rule alike_on_mono [OF alike]; simp add: both_reach_def)+
  then show "both_values fv gv m' p = Some v \<and> both_reach fr gr m' p = both_reach fr gr m p"
    using deep_copy.reads_reach [OF f vs(1)] deep_copy.reads_reach [OF g vs(2)] by (simp add: both_values_Some both_reach_def)
next
  fix m m' and p q :: "'a \<times> 'd" and v
  assume m: "sound_memory m" and v: "both_values fv gv m p = Some v" and copy: "copy_both f g p m = (q, m')"
  from v have vs: "fv m (fst p) = Some (fst v)" "gv m (snd p) = Some (snd v)" by (simp_all add: both_values_Some)
  obtain x m1 y where x: "f (fst p) m = (x, m1)" and y: "g (snd p) m1 = (y, m')" and q: "q = (x, y)"
    using copy by (auto simp: copy_both_def split: prod.splits)
  have c1: "fv m1 x = Some (fst v)" "grows m m1" "fr m1 x \<subseteq> {mm_next m..<mm_next m1}"
    using deep_copy.copies [OF f m vs(1) x] by simp_all
  then have m1: "sound_memory m1" using grows_sound by blast
  have "gv m1 (snd p) = Some (snd v)" using deep_copy.grows_keeps [OF g m vs(2) c1(2)] by simp
  from deep_copy.copies [OF g m1 this y] have c2: "gv m' y = Some (snd v)" "grows m1 m'" "gr m' y \<subseteq> {mm_next m1..<mm_next m'}"
    by simp_all
  have "fv m' x = Some (fst v)" "fr m' x = fr m1 x" using deep_copy.grows_keeps [OF f m1 c1(1) c2(2)] by simp_all
  moreover have "mm_next m \<le> mm_next m1" "mm_next m1 \<le> mm_next m'" using c1 c2 by (simp_all add: grows_def)
  ultimately show "both_values fv gv m' q = Some v \<and> grows m m' \<and> both_reach fr gr m' q \<subseteq> {mm_next m..<mm_next m'}"
    using c1 c2 grows_trans [OF c1(2) c2(2)] by (force simp: both_values_Some both_reach_def q)
qed

text \<open>A struct whose parts are copied, the rest of it going along.\<close>

lemma deep_copy_struct:
  assumes part: "deep_copy f fv fr"
    and into: "\<And>s m. into s m = (put (fst (f (get s) m)) s, snd (f (get s) m))"
    and meaning: "\<And>m s. sv m s = map_option (mk s) (fv m (get s))" and reach: "\<And>m s. sr m s = fr m (get s)"
    and get: "\<And>p s. get (put p s) = p" and mk: "\<And>p s u. mk (put p s) u = mk s u"
  shows "deep_copy into sv sr"
proof
  fix m m' s v
  assume v: "sv m s = Some v"
  then obtain u where u: "fv m (get s) = Some u" "v = mk s u" by (auto simp: meaning)
  show "sr m s \<subseteq> dom (mm_cells m)" using deep_copy.reach_allocated [OF part u(1)] by (simp add: reach)
  assume "alike_on (sr m s) m m'"
  then show "sv m' s = Some v \<and> sr m' s = sr m s"
    using deep_copy.reads_reach [OF part u(1)] u by (simp add: reach meaning)
next
  fix m m' s t v
  assume m: "sound_memory m" and v: "sv m s = Some v" and copy: "into s m = (t, m')"
  obtain u where u: "fv m (get s) = Some u" "v = mk s u" using v by (auto simp: meaning)
  obtain p where p: "f (get s) m = (p, m')" "t = put p s" using copy by (auto simp: into prod_eq_iff)
  show "sv m' t = Some v \<and> grows m m' \<and> sr m' t \<subseteq> {mm_next m..<mm_next m'}"
    using deep_copy.copies [OF part m u(1) p(1)] u by (simp add: p meaning reach get mk)
qed

subsection \<open>Slices and pointers\<close>

fun all_values :: "('c memory \<Rightarrow> 'a \<Rightarrow> 'v option) \<Rightarrow> 'c memory \<Rightarrow> 'a list \<Rightarrow> 'v list option" where
  "all_values value m [] = Some []"
| "all_values value m (x # xs) = (case (value m x, all_values value m xs) of (Some v, Some vs) \<Rightarrow> Some (v # vs) | _ \<Rightarrow> None)"

definition all_reach :: "('c memory \<Rightarrow> 'a \<Rightarrow> address set) \<Rightarrow> 'c memory \<Rightarrow> 'a list \<Rightarrow> address set" where
  "all_reach reach m xs = (\<Union>x\<in>set xs. reach m x)"

lemma all_values_Cons:
  "all_values value m (x # xs) = Some ws \<longleftrightarrow> (\<exists>v vs. value m x = Some v \<and> all_values value m xs = Some vs \<and> ws = v # vs)"
  by (auto split: option.splits)

lemma all_values_length: "all_values value m xs = Some vs \<Longrightarrow> length vs = length xs"
  by (induction xs arbitrary: vs) (auto split: option.splits)

text \<open>A list is copied as the pair of its head and its tail.\<close>

context deep_copy
begin

lemma elems_allocated: "all_values value_of m xs = Some vs \<Longrightarrow> all_reach reach m xs \<subseteq> dom (mm_cells m)"
proof (induction xs arbitrary: vs)
  case (Cons x xs)
  then obtain v us where "value_of m x = Some v" "all_values value_of m xs = Some us"
    by (auto simp: all_values_Cons simp del: all_values.simps)
  with Cons.IH reach_allocated show ?case by (simp add: all_reach_def)
qed (simp add: all_reach_def)

lemma elems_reads:
  "all_values value_of m xs = Some vs \<Longrightarrow> alike_on (all_reach reach m xs) m m' \<Longrightarrow>
     all_values value_of m' xs = Some vs \<and> all_reach reach m' xs = all_reach reach m xs"
proof (induction xs arbitrary: vs)
  case (Cons x xs)
  then obtain v us where v: "value_of m x = Some v" "all_values value_of m xs = Some us" "vs = v # us"
    by (auto simp: all_values_Cons simp del: all_values.simps)
  have "alike_on (reach m x) m m'" "alike_on (all_reach reach m xs) m m'"
    by (rule alike_on_mono [OF Cons.prems(2)]; auto simp: all_reach_def)+
  with Cons.IH [OF v(2)] reads_reach [OF v(1)] v show ?case by (simp add: all_reach_def)
qed (simp add: all_reach_def)

lemma elems_grow:
  assumes "sound_memory m" and "all_values value_of m xs = Some vs" and "grows m m'"
  shows "all_values value_of m' xs = Some vs"
proof -
  have "all_reach reach m xs \<subseteq> {..<mm_next m}" using assms(1) elems_allocated [OF assms(2)] by (auto simp: sound_memory_def)
  from elems_reads [OF assms(2) grows_alike [OF assms(3) this]] show ?thesis by simp
qed

lemma elems_copies:
  "sound_memory m \<Longrightarrow> all_values value_of m xs = Some vs \<Longrightarrow> copy_elems into xs m = (ys, m') \<Longrightarrow>
     all_values value_of m' ys = Some vs \<and> grows m m' \<and> all_reach reach m' ys \<subseteq> {mm_next m..<mm_next m'}"
proof (induction xs arbitrary: m ys vs)
  case Nil
  then show ?case by (simp add: grows_refl all_reach_def)
next
  case (Cons x xs)
  obtain v us where v: "value_of m x = Some v" "all_values value_of m xs = Some us" "vs = v # us"
    using Cons.prems(2) by (auto simp: all_values_Cons simp del: all_values.simps)
  obtain y m1 zs where y: "into x m = (y, m1)" and zs: "copy_elems into xs m1 = (zs, m')" and ys: "ys = y # zs"
    using Cons.prems(3) by (auto split: prod.splits)
  have c1: "value_of m1 y = Some v" "grows m m1" "reach m1 y \<subseteq> {mm_next m..<mm_next m1}"
    using copies [OF Cons.prems(1) v(1) y] by simp_all
  have m1: "sound_memory m1" by (rule grows_sound [OF c1(2)])
  have c2: "all_values value_of m' zs = Some us" "grows m1 m'" "all_reach reach m' zs \<subseteq> {mm_next m1..<mm_next m'}"
    using Cons.IH [OF m1 elems_grow [OF Cons.prems(1) v(2) c1(2)] zs] by simp_all
  have y': "value_of m' y = Some v" "reach m' y = reach m1 y" by (rule grows_keeps [OF m1 c1(1) c2(2)])+
  have le: "mm_next m \<le> mm_next m1" "mm_next m1 \<le> mm_next m'" using c1(2) c2(2) by (simp_all add: grows_def)
  then have "{mm_next m..<mm_next m1} \<union> {mm_next m1..<mm_next m'} = {mm_next m..<mm_next m'}" by auto
  moreover have "all_reach reach m' ys = reach m1 y \<union> all_reach reach m' zs" by (simp add: ys all_reach_def y')
  ultimately show ?case
    using c1(3) c2(1,3) y'(1) grows_trans [OF c1(2) c2(2)] v(3) by (auto simp: ys)
qed

end

lemma deep_copy_elems:
  assumes "deep_copy into val reach"
  shows "deep_copy (copy_elems into) (all_values val) (all_reach reach)"
  by unfold_locales
    (use deep_copy.elems_allocated [OF assms] deep_copy.elems_reads [OF assms] deep_copy.elems_copies [OF assms] in blast)+

definition slice_value ::
  "('a, 'c) array_kind \<Rightarrow> ('c memory \<Rightarrow> 'a \<Rightarrow> 'v option) \<Rightarrow> 'c memory \<Rightarrow> slice option \<Rightarrow> 'v list option option" where
  "slice_value k val m s =
     (case s of None \<Rightarrow> Some None
      | Some sl \<Rightarrow> (case slice_elems k m sl of None \<Rightarrow> None | Some xs \<Rightarrow> map_option Some (all_values val m xs)))"

definition slice_reach ::
  "('a, 'c) array_kind \<Rightarrow> ('c memory \<Rightarrow> 'a \<Rightarrow> address set) \<Rightarrow> 'c memory \<Rightarrow> slice option \<Rightarrow> address set" where
  "slice_reach k reach m s =
     (case s of None \<Rightarrow> {}
      | Some sl \<Rightarrow> insert (sl_base sl) (case slice_elems k m sl of None \<Rightarrow> {} | Some xs \<Rightarrow> all_reach reach m xs))"

definition pointer_value ::
  "('a, 'c) array_kind \<Rightarrow> ('c memory \<Rightarrow> 'a \<Rightarrow> 'v option) \<Rightarrow> 'c memory \<Rightarrow> pointer option \<Rightarrow> 'v option option" where
  "pointer_value k val m p =
     (case p of None \<Rightarrow> Some None
      | Some q \<Rightarrow> (case pointed k m q of None \<Rightarrow> None | Some x \<Rightarrow> map_option Some (val m x)))"

definition pointer_reach ::
  "('a, 'c) array_kind \<Rightarrow> ('c memory \<Rightarrow> 'a \<Rightarrow> address set) \<Rightarrow> 'c memory \<Rightarrow> pointer option \<Rightarrow> address set" where
  "pointer_reach k reach m p =
     (case p of None \<Rightarrow> {}
      | Some q \<Rightarrow> insert (ptr_base q) (case pointed k m q of None \<Rightarrow> {} | Some x \<Rightarrow> reach m x))"

text \<open>An array that is filled after what its elements reach.\<close>

lemma filled_later:
  assumes m: "sound_memory m" and new: "new_cell m = (a, m1)" and grown: "grows m1 m2" and A: "A \<subseteq> {mm_next m1..<mm_next m2}"
  shows "grows m (write_cell a c m2)" and "alike_on A m2 (write_cell a c m2)"
    and "insert a A \<subseteq> {mm_next m..<mm_next (write_cell a c m2)}" and "sound_memory m1" and "grows m m1"
proof -
  have a: "grows m m1" "a = mm_next m" "mm_next m1 = Suc a" using new_cell_grows [OF m new] by simp_all
  then show "sound_memory m1" and "grows m m1" using grows_sound by auto
  have "mm_next m1 \<le> mm_next m2" using grown by (simp add: grows_def)
  with a A show "insert a A \<subseteq> {mm_next m..<mm_next (write_cell a c m2)}" by (auto simp: write_cell_def)
  from a A show "alike_on A m2 (write_cell a c m2)" by (auto simp: alike_on_def write_cell_def)
  show "grows m (write_cell a c m2)"
    using a \<open>mm_next m1 \<le> mm_next m2\<close> by (intro write_cell_grows grows_trans [OF _ grown]) simp_all
qed

lemma deep_copy_slice:
  assumes part: "deep_copy into val reach" and k: "proper_kind k"
  shows "deep_copy (copy_slice k into) (slice_value k val) (slice_reach k reach)"
proof -
  note elems = deep_copy_elems [OF part]
  show ?thesis
  proof
    fix m s v
    assume v: "slice_value k val m s = Some v"
    show "slice_reach k reach m s \<subseteq> dom (mm_cells m)"
    proof (cases s)
      case (Some sl)
      with v obtain xs vs where xs: "slice_elems k m sl = Some xs" "all_values val m xs = Some vs"
        by (auto simp: slice_value_def split: option.splits)
      from xs(1) have "sl_base sl \<in> dom (mm_cells m)" by (auto simp: slice_elems_def split: option.splits bind_splits)
      with deep_copy.reach_allocated [OF elems xs(2)] xs(1) Some show ?thesis by (simp add: slice_reach_def)
    qed (simp add: slice_reach_def)
  next
    fix m m' s v
    assume v: "slice_value k val m s = Some v" and alike: "alike_on (slice_reach k reach m s) m m'"
    show "slice_value k val m' s = Some v \<and> slice_reach k reach m' s = slice_reach k reach m s"
    proof (cases s)
      case None
      with v show ?thesis by (simp add: slice_value_def slice_reach_def)
    next
      case (Some sl)
      with v obtain xs vs where xs: "slice_elems k m sl = Some xs" "all_values val m xs = Some vs" "v = Some vs"
        by (auto simp: slice_value_def split: option.splits)
      have "mm_cells m' (sl_base sl) = mm_cells m (sl_base sl)" "alike_on (all_reach reach m xs) m m'"
        using alike Some xs(1) by (auto simp: slice_reach_def alike_on_def)
      moreover from this(1) have "slice_elems k m' sl = Some xs" using xs(1) by (simp add: slice_elems_def)
      ultimately show ?thesis
        using deep_copy.reads_reach [OF elems xs(2)] Some xs by (simp add: slice_value_def slice_reach_def)
    qed
  next
    fix m m' s t v
    assume m: "sound_memory m" and v: "slice_value k val m s = Some v" and copy: "copy_slice k into s m = (t, m')"
    show "slice_value k val m' t = Some v \<and> grows m m' \<and> slice_reach k reach m' t \<subseteq> {mm_next m..<mm_next m'}"
    proof (cases s)
      case None
      with v copy m show ?thesis by (simp add: slice_value_def slice_reach_def copy_slice_def grows_refl)
    next
      case (Some sl)
      with v obtain xs vs where xs: "slice_elems k m sl = Some xs" "all_values val m xs = Some vs" "v = Some vs"
        by (auto simp: slice_value_def split: option.splits)
      obtain a m1 ys m2 where new: "new_cell m = (a, m1)" and run: "copy_elems into xs m1 = (ys, m2)"
        and t: "t = Some (Slice a 0 (length xs))" and m': "m' = write_cell a (ak_cell k ys) m2"
        using copy Some xs(1) by (auto simp: copy_slice_def split: prod.splits)
      have m1: "sound_memory m1" "grows m m1" using new_cell_grows [OF m new] grows_sound by auto
      have "all_values val m1 xs = Some vs" by (rule deep_copy.elems_grow [OF part m xs(2) m1(2)])
      from deep_copy.copies [OF elems m1(1) this run] have ys: "all_values val m2 ys = Some vs" "grows m1 m2"
        "all_reach reach m2 ys \<subseteq> {mm_next m1..<mm_next m2}" by simp_all
      note later = filled_later(1-3) [OF m new ys(2,3), of "ak_cell k ys", folded m']
      have len: "length ys = length xs" using all_values_length [OF ys(1)] all_values_length [OF xs(2)] by simp
      have "slice_elems k m' (Slice a 0 (length xs)) = Some ys"
        using k len by (simp add: slice_elems_def m' write_cell_def proper_kind_def)
      with later deep_copy.reads_reach [OF elems ys(1) later(2)] xs(3) t show ?thesis
        by (simp add: slice_value_def slice_reach_def)
    qed
  qed
qed

lemma deep_copy_pointer:
  assumes part: "deep_copy into val reach" and k: "proper_kind k"
  shows "deep_copy (copy_pointed k into) (pointer_value k val) (pointer_reach k reach)"
proof
  fix m p v
  assume v: "pointer_value k val m p = Some v"
  show "pointer_reach k reach m p \<subseteq> dom (mm_cells m)"
  proof (cases p)
    case (Some q)
    with v obtain x u where x: "pointed k m q = Some x" "val m x = Some u"
      by (auto simp: pointer_value_def split: option.splits)
    from x(1) have "ptr_base q \<in> dom (mm_cells m)" by (auto simp: pointed_def split: option.splits bind_splits)
    with deep_copy.reach_allocated [OF part x(2)] x(1) Some show ?thesis by (simp add: pointer_reach_def)
  qed (simp add: pointer_reach_def)
next
  fix m m' p v
  assume v: "pointer_value k val m p = Some v" and alike: "alike_on (pointer_reach k reach m p) m m'"
  show "pointer_value k val m' p = Some v \<and> pointer_reach k reach m' p = pointer_reach k reach m p"
  proof (cases p)
    case None
    with v show ?thesis by (simp add: pointer_value_def pointer_reach_def)
  next
    case (Some q)
    with v obtain x u where x: "pointed k m q = Some x" "val m x = Some u" "v = Some u"
      by (auto simp: pointer_value_def split: option.splits)
    have "mm_cells m' (ptr_base q) = mm_cells m (ptr_base q)" "alike_on (reach m x) m m'"
      using alike Some x(1) by (auto simp: pointer_reach_def alike_on_def)
    moreover from this(1) have "pointed k m' q = Some x" using x(1) by (simp add: pointed_def)
    ultimately show ?thesis
      using deep_copy.reads_reach [OF part x(2)] Some x by (simp add: pointer_value_def pointer_reach_def)
  qed
next
  fix m m' p q v
  assume m: "sound_memory m" and v: "pointer_value k val m p = Some v" and copy: "copy_pointed k into p m = (q, m')"
  show "pointer_value k val m' q = Some v \<and> grows m m' \<and> pointer_reach k reach m' q \<subseteq> {mm_next m..<mm_next m'}"
  proof (cases p)
    case None
    with v copy m show ?thesis by (simp add: pointer_value_def pointer_reach_def copy_pointed_def grows_refl)
  next
    case (Some p')
    with v obtain x u where x: "pointed k m p' = Some x" "val m x = Some u" "v = Some u"
      by (auto simp: pointer_value_def split: option.splits)
    obtain a m1 y m2 where new: "new_cell m = (a, m1)" and run: "into x m1 = (y, m2)"
      and q: "q = Some (Pointer a 0)" and m': "m' = write_cell a (ak_cell k [y]) m2"
      using copy Some x(1) by (auto simp: copy_pointed_def split: prod.splits)
    have m1: "sound_memory m1" "grows m m1" using new_cell_grows [OF m new] grows_sound by auto
    have "val m1 x = Some u" by (rule deep_copy.grows_keeps [OF part m x(2) m1(2)])
    from deep_copy.copies [OF part m1(1) this run] have y: "val m2 y = Some u" "grows m1 m2"
      "reach m2 y \<subseteq> {mm_next m1..<mm_next m2}" by simp_all
    note later = filled_later(1-3) [OF m new y(2,3), of "ak_cell k [y]", folded m']
    have "pointed k m' (Pointer a 0) = Some y"
      using k by (simp add: pointed_def m' write_cell_def proper_kind_def)
    with later deep_copy.reads_reach [OF part y(1) later(2)] x(3) q show ?thesis
      by (simp add: pointer_value_def pointer_reach_def)
  qed
qed

text \<open>What is copied from a pointer is not nil.\<close>

definition at_value :: "('a, 'c) array_kind \<Rightarrow> ('c memory \<Rightarrow> 'a \<Rightarrow> 'v option) \<Rightarrow> 'c memory \<Rightarrow> pointer \<Rightarrow> 'v option" where
  "at_value k val m p = Option.bind (pointed k m p) (val m)"

definition at_reach :: "('a, 'c) array_kind \<Rightarrow> ('c memory \<Rightarrow> 'a \<Rightarrow> address set) \<Rightarrow> 'c memory \<Rightarrow> pointer \<Rightarrow> address set" where
  "at_reach k reach m p = pointer_reach k reach m (Some p)"

lemma pointer_value_Some: "pointer_value k val m (Some p) = Some (Some v) \<longleftrightarrow> at_value k val m p = Some v"
  by (auto simp: pointer_value_def at_value_def split: option.splits)

lemma deep_copy_at:
  assumes "deep_copy into val reach" and "proper_kind k" and "sound_memory m" and "at_value k val m p = Some v"
    and "copy_pointed k into (Some p) m = (q, m')"
  obtains r where "q = Some r" and "at_value k val m' r = Some v" and "at_value k val m' p = Some v"
    and "at_reach k reach m' p \<inter> at_reach k reach m' r = {}"
    and "\<And>w. alike_on (- at_reach k reach m' r) m' w \<Longrightarrow> at_value k val w p = Some v"
    and "\<And>w. alike_on (- at_reach k reach m' p) m' w \<Longrightarrow> at_value k val w r = Some v"
proof -
  have "pointer_value k val m (Some p) = Some (Some v)" using assms(4) by (simp add: pointer_value_Some)
  note apart = deep_copy.independent [OF deep_copy_pointer [OF assms(1,2)] assms(3) this assms(5)]
  from assms(5) obtain r where r: "q = Some r" by (auto simp: copy_pointed_def split: option.splits prod.splits)
  show thesis
    by (rule that [OF r]) (use apart in \<open>simp_all add: r pointer_value_Some at_reach_def\<close>)
qed

end
