(* ===== verification/DeepCopy.thy ===== *)
theory DeepCopy
  imports Memory ApiTypes
begin

text \<open>
  \<^verbatim>\<open>api/v1alpha1/zz_generated.deepcopy.go\<close>: the copies that a cache hands out and a client takes.  The
  structs as they lie in memory, their \<^verbatim>\<open>DeepCopyInto\<close>, \<^verbatim>\<open>DeepCopy\<close> and \<^verbatim>\<open>DeepCopyObject\<close>, and that each of
  them gives an object of the same value which shares nothing with the one it was made from.  A
  \<^verbatim>\<open>DeepCopyInto\<close> is given the struct that \<^verbatim>\<open>in\<close> points to and returns the one that \<^verbatim>\<open>out\<close> points to in the
  end.
\<close>

subsection \<open>The structs in memory\<close>

text \<open>Structs without slices, maps and pointers are the records of \<^verbatim>\<open>ApiTypes\<close>.\<close>

record TypeMeta =
  tm_Kind :: string
  tm_APIVersion :: string

text \<open>The metadata is a struct of the library, with the fields that the code uses.\<close>

record mem_meta =
  mo_Name :: string
  mo_Namespace :: string
  mo_Annotations :: "pointer option"
  mo_Finalizers :: "slice option"
  mo_DeletionTimestamp :: "pointer option"
  mo_ResourceVersion :: string

record mem_list_meta =
  ml_ResourceVersion :: string
  ml_Continue :: string
  ml_RemainingItemCount :: "pointer option"

record mem_claim_spec =
  mcs_LegalEntity :: LegalEntity
  mcs_GCPCredentialSecret :: NamespacedName
  mcs_Region :: string
  mcs_GCPProjectID :: string
  mcs_ProjectReferenceCRLink :: NamespacedName
  mcs_AvailabilityZones :: "slice option"
  mcs_CCS :: bool
  mcs_CCSSecretRef :: NamespacedName
  mcs_CCSProjectID :: string
  mcs_SharedVPCAccess :: bool

record mem_status =
  mst_Conditions :: "slice option"
  mst_State :: string

record mem_claim =
  mc_TypeMeta :: TypeMeta
  mc_ObjectMeta :: mem_meta
  mc_Spec :: mem_claim_spec
  mc_Status :: mem_status

record mem_reference =
  mr_TypeMeta :: TypeMeta
  mr_ObjectMeta :: mem_meta
  mr_Spec :: ProjectReferenceSpec
  mr_Status :: mem_status

record mem_list =
  mli_TypeMeta :: TypeMeta
  mli_ListMeta :: mem_list_meta
  mli_Items :: "slice option"

datatype cell =
    StringCell "string list"
  | ConditionCell "Condition list"
  | LegalEntityCell "LegalEntity list"
  | NamespacedNameCell "NamespacedName list"
  | ClaimSpecCell "mem_claim_spec list"
  | ClaimStatusCell "mem_status list"
  | ClaimCell "mem_claim list"
  | ClaimListCell "mem_list list"
  | ReferenceSpecCell "ProjectReferenceSpec list"
  | ReferenceStatusCell "mem_status list"
  | ReferenceCell "mem_reference list"
  | ReferenceListCell "mem_list list"
  | AnnotationsCell "(string \<rightharpoonup> string) list"
  | TimeCell "time list"
  | CountCell "int list"

abbreviation "kind_of mk get \<equiv> \<lparr>ak_cell = mk, ak_elems = get\<rparr>"

definition strings :: "(string, cell) array_kind" where
  "strings = kind_of StringCell (\<lambda>c. case c of StringCell xs \<Rightarrow> Some xs | _ \<Rightarrow> None)"
definition condition_cells :: "(Condition, cell) array_kind" where
  "condition_cells = kind_of ConditionCell (\<lambda>c. case c of ConditionCell xs \<Rightarrow> Some xs | _ \<Rightarrow> None)"
definition entities :: "(LegalEntity, cell) array_kind" where
  "entities = kind_of LegalEntityCell (\<lambda>c. case c of LegalEntityCell xs \<Rightarrow> Some xs | _ \<Rightarrow> None)"
definition names :: "(NamespacedName, cell) array_kind" where
  "names = kind_of NamespacedNameCell (\<lambda>c. case c of NamespacedNameCell xs \<Rightarrow> Some xs | _ \<Rightarrow> None)"
definition claim_specs :: "(mem_claim_spec, cell) array_kind" where
  "claim_specs = kind_of ClaimSpecCell (\<lambda>c. case c of ClaimSpecCell xs \<Rightarrow> Some xs | _ \<Rightarrow> None)"
definition claim_statuses :: "(mem_status, cell) array_kind" where
  "claim_statuses = kind_of ClaimStatusCell (\<lambda>c. case c of ClaimStatusCell xs \<Rightarrow> Some xs | _ \<Rightarrow> None)"
definition claims :: "(mem_claim, cell) array_kind" where
  "claims = kind_of ClaimCell (\<lambda>c. case c of ClaimCell xs \<Rightarrow> Some xs | _ \<Rightarrow> None)"
definition claim_lists :: "(mem_list, cell) array_kind" where
  "claim_lists = kind_of ClaimListCell (\<lambda>c. case c of ClaimListCell xs \<Rightarrow> Some xs | _ \<Rightarrow> None)"
definition reference_specs :: "(ProjectReferenceSpec, cell) array_kind" where
  "reference_specs = kind_of ReferenceSpecCell (\<lambda>c. case c of ReferenceSpecCell xs \<Rightarrow> Some xs | _ \<Rightarrow> None)"
definition reference_statuses :: "(mem_status, cell) array_kind" where
  "reference_statuses = kind_of ReferenceStatusCell (\<lambda>c. case c of ReferenceStatusCell xs \<Rightarrow> Some xs | _ \<Rightarrow> None)"
definition references :: "(mem_reference, cell) array_kind" where
  "references = kind_of ReferenceCell (\<lambda>c. case c of ReferenceCell xs \<Rightarrow> Some xs | _ \<Rightarrow> None)"
definition reference_lists :: "(mem_list, cell) array_kind" where
  "reference_lists = kind_of ReferenceListCell (\<lambda>c. case c of ReferenceListCell xs \<Rightarrow> Some xs | _ \<Rightarrow> None)"

definition annotation_maps :: "(string \<rightharpoonup> string, cell) array_kind" where
  "annotation_maps = kind_of AnnotationsCell (\<lambda>c. case c of AnnotationsCell xs \<Rightarrow> Some xs | _ \<Rightarrow> None)"
definition times :: "(time, cell) array_kind" where
  "times = kind_of TimeCell (\<lambda>c. case c of TimeCell xs \<Rightarrow> Some xs | _ \<Rightarrow> None)"
definition counts :: "(int, cell) array_kind" where
  "counts = kind_of CountCell (\<lambda>c. case c of CountCell xs \<Rightarrow> Some xs | _ \<Rightarrow> None)"

lemmas kind_defs = annotation_maps_def times_def counts_def strings_def condition_cells_def entities_def names_def claim_specs_def claim_statuses_def claims_def
  claim_lists_def reference_specs_def reference_statuses_def references_def reference_lists_def

lemma proper_kinds [simp]:
  "proper_kind strings" "proper_kind condition_cells" "proper_kind entities" "proper_kind names" "proper_kind claim_specs"
  "proper_kind claim_statuses" "proper_kind claims" "proper_kind claim_lists" "proper_kind reference_specs"
  "proper_kind reference_statuses" "proper_kind references" "proper_kind reference_lists"
  "proper_kind annotation_maps" "proper_kind times" "proper_kind counts"
  by (simp_all add: proper_kind_def kind_defs)

subsection \<open>What the generated code calls\<close>

text \<open>The copies of times and of metadata are functions of k8s.io/apimachinery.\<close>

type_synonym 'a copier = "'a \<Rightarrow> cell memory \<Rightarrow> 'a \<times> cell memory"

record apimachinery =
  am_Time_DeepCopyInto :: "time \<Rightarrow> time"
  am_ObjectMeta_DeepCopyInto :: "mem_meta copier"
  am_ListMeta_DeepCopyInto :: "mem_list_meta copier"

subsection \<open>common_types.go\<close>

definition Condition_DeepCopyInto :: "apimachinery \<Rightarrow> Condition copier" where
  "Condition_DeepCopyInto am c m =
     (let out = c;
          out = out\<lparr>c_LastProbeTime := am_Time_DeepCopyInto am (c_LastProbeTime c)\<rparr>;
          out = out\<lparr>c_LastTransitionTime := am_Time_DeepCopyInto am (c_LastTransitionTime c)\<rparr>
      in (out, m))"

definition Condition_DeepCopy :: "apimachinery \<Rightarrow> pointer option copier" where
  "Condition_DeepCopy am = copy_pointed condition_cells (Condition_DeepCopyInto am)"

definition LegalEntity_DeepCopyInto :: "LegalEntity copier" where
  "LegalEntity_DeepCopyInto e m = (e, m)"

definition LegalEntity_DeepCopy :: "pointer option copier" where
  "LegalEntity_DeepCopy = copy_pointed entities LegalEntity_DeepCopyInto"

definition NamespacedName_DeepCopyInto :: "NamespacedName copier" where
  "NamespacedName_DeepCopyInto n m = (n, m)"

definition NamespacedName_DeepCopy :: "pointer option copier" where
  "NamespacedName_DeepCopy = copy_pointed names NamespacedName_DeepCopyInto"

subsection \<open>projectclaim_types.go\<close>

text \<open>The zones are copied by Go's \<^verbatim>\<open>copy\<close>, a string by assignment.\<close>

definition string_copy :: "string copier" where "string_copy x m = (x, m)"

definition ProjectClaimSpec_DeepCopyInto :: "mem_claim_spec copier" where
  "ProjectClaimSpec_DeepCopyInto s m =
     (let out = s;
          out = out\<lparr>mcs_LegalEntity := mcs_LegalEntity s\<rparr>;
          out = out\<lparr>mcs_GCPCredentialSecret := mcs_GCPCredentialSecret s\<rparr>;
          out = out\<lparr>mcs_ProjectReferenceCRLink := mcs_ProjectReferenceCRLink s\<rparr>;
          (zones, m1) = copy_slice strings string_copy (mcs_AvailabilityZones s) m;
          out = out\<lparr>mcs_AvailabilityZones := zones\<rparr>;
          out = out\<lparr>mcs_CCSSecretRef := mcs_CCSSecretRef s\<rparr>
      in (out, m1))"

definition ProjectClaimSpec_DeepCopy :: "pointer option copier" where
  "ProjectClaimSpec_DeepCopy = copy_pointed claim_specs ProjectClaimSpec_DeepCopyInto"

definition ProjectClaimStatus_DeepCopyInto :: "apimachinery \<Rightarrow> mem_status copier" where
  "ProjectClaimStatus_DeepCopyInto am s m =
     (let out = s;
          (conds, m1) = copy_slice condition_cells (Condition_DeepCopyInto am) (mst_Conditions s) m
      in (out\<lparr>mst_Conditions := conds\<rparr>, m1))"

definition ProjectClaimStatus_DeepCopy :: "apimachinery \<Rightarrow> pointer option copier" where
  "ProjectClaimStatus_DeepCopy am = copy_pointed claim_statuses (ProjectClaimStatus_DeepCopyInto am)"

definition ProjectClaim_DeepCopyInto :: "apimachinery \<Rightarrow> mem_claim copier" where
  "ProjectClaim_DeepCopyInto am c m =
     (let out = c;
          out = out\<lparr>mc_TypeMeta := mc_TypeMeta c\<rparr>;
          (md, m1) = am_ObjectMeta_DeepCopyInto am (mc_ObjectMeta c) m;
          out = out\<lparr>mc_ObjectMeta := md\<rparr>;
          (spec, m2) = ProjectClaimSpec_DeepCopyInto (mc_Spec c) m1;
          out = out\<lparr>mc_Spec := spec\<rparr>;
          (st, m3) = ProjectClaimStatus_DeepCopyInto am (mc_Status c) m2
      in (out\<lparr>mc_Status := st\<rparr>, m3))"

definition ProjectClaim_DeepCopy :: "apimachinery \<Rightarrow> pointer option copier" where
  "ProjectClaim_DeepCopy am = copy_pointed claims (ProjectClaim_DeepCopyInto am)"

definition ProjectClaimList_DeepCopyInto :: "apimachinery \<Rightarrow> mem_list copier" where
  "ProjectClaimList_DeepCopyInto am l m =
     (let out = l;
          out = out\<lparr>mli_TypeMeta := mli_TypeMeta l\<rparr>;
          (md, m1) = am_ListMeta_DeepCopyInto am (mli_ListMeta l) m;
          out = out\<lparr>mli_ListMeta := md\<rparr>;
          (items, m2) = copy_slice claims (ProjectClaim_DeepCopyInto am) (mli_Items l) m1
      in (out\<lparr>mli_Items := items\<rparr>, m2))"

definition ProjectClaimList_DeepCopy :: "apimachinery \<Rightarrow> pointer option copier" where
  "ProjectClaimList_DeepCopy am = copy_pointed claim_lists (ProjectClaimList_DeepCopyInto am)"

subsection \<open>projectreference_types.go\<close>

definition ProjectReferenceSpec_DeepCopyInto :: "ProjectReferenceSpec copier" where
  "ProjectReferenceSpec_DeepCopyInto s m =
     (let out = s;
          out = out\<lparr>prs_ProjectClaimCRLink := prs_ProjectClaimCRLink s\<rparr>;
          out = out\<lparr>prs_LegalEntity := prs_LegalEntity s\<rparr>;
          out = out\<lparr>prs_CCSSecretRef := prs_CCSSecretRef s\<rparr>
      in (out, m))"

definition ProjectReferenceSpec_DeepCopy :: "pointer option copier" where
  "ProjectReferenceSpec_DeepCopy = copy_pointed reference_specs ProjectReferenceSpec_DeepCopyInto"

definition ProjectReferenceStatus_DeepCopyInto :: "apimachinery \<Rightarrow> mem_status copier" where
  "ProjectReferenceStatus_DeepCopyInto am s m =
     (let out = s;
          (conds, m1) = copy_slice condition_cells (Condition_DeepCopyInto am) (mst_Conditions s) m
      in (out\<lparr>mst_Conditions := conds\<rparr>, m1))"

definition ProjectReferenceStatus_DeepCopy :: "apimachinery \<Rightarrow> pointer option copier" where
  "ProjectReferenceStatus_DeepCopy am = copy_pointed reference_statuses (ProjectReferenceStatus_DeepCopyInto am)"

definition ProjectReference_DeepCopyInto :: "apimachinery \<Rightarrow> mem_reference copier" where
  "ProjectReference_DeepCopyInto am r m =
     (let out = r;
          out = out\<lparr>mr_TypeMeta := mr_TypeMeta r\<rparr>;
          (md, m1) = am_ObjectMeta_DeepCopyInto am (mr_ObjectMeta r) m;
          out = out\<lparr>mr_ObjectMeta := md\<rparr>;
          out = out\<lparr>mr_Spec := mr_Spec r\<rparr>;
          (st, m2) = ProjectReferenceStatus_DeepCopyInto am (mr_Status r) m1
      in (out\<lparr>mr_Status := st\<rparr>, m2))"

definition ProjectReference_DeepCopy :: "apimachinery \<Rightarrow> pointer option copier" where
  "ProjectReference_DeepCopy am = copy_pointed references (ProjectReference_DeepCopyInto am)"

definition ProjectReferenceList_DeepCopyInto :: "apimachinery \<Rightarrow> mem_list copier" where
  "ProjectReferenceList_DeepCopyInto am l m =
     (let out = l;
          out = out\<lparr>mli_TypeMeta := mli_TypeMeta l\<rparr>;
          (md, m1) = am_ListMeta_DeepCopyInto am (mli_ListMeta l) m;
          out = out\<lparr>mli_ListMeta := md\<rparr>;
          (items, m2) = copy_slice references (ProjectReference_DeepCopyInto am) (mli_Items l) m1
      in (out\<lparr>mli_Items := items\<rparr>, m2))"

definition ProjectReferenceList_DeepCopy :: "apimachinery \<Rightarrow> pointer option copier" where
  "ProjectReferenceList_DeepCopy am = copy_pointed reference_lists (ProjectReferenceList_DeepCopyInto am)"

subsection \<open>Runtime objects\<close>

text \<open>A value of the interface \<^verbatim>\<open>runtime.Object\<close>, which says which struct its pointer points to.\<close>

datatype runtime_object =
    ClaimObject pointer
  | ClaimListObject pointer
  | ReferenceObject pointer
  | ReferenceListObject pointer

definition ProjectClaim_DeepCopyObject :: "apimachinery \<Rightarrow> pointer option \<Rightarrow> cell memory \<Rightarrow> runtime_object option \<times> cell memory" where
  "ProjectClaim_DeepCopyObject am p m =
     (case ProjectClaim_DeepCopy am p m of (Some c, m') \<Rightarrow> (Some (ClaimObject c), m') | (None, m') \<Rightarrow> (None, m'))"

definition ProjectClaimList_DeepCopyObject :: "apimachinery \<Rightarrow> pointer option \<Rightarrow> cell memory \<Rightarrow> runtime_object option \<times> cell memory" where
  "ProjectClaimList_DeepCopyObject am p m =
     (case ProjectClaimList_DeepCopy am p m of (Some c, m') \<Rightarrow> (Some (ClaimListObject c), m') | (None, m') \<Rightarrow> (None, m'))"

definition ProjectReference_DeepCopyObject :: "apimachinery \<Rightarrow> pointer option \<Rightarrow> cell memory \<Rightarrow> runtime_object option \<times> cell memory" where
  "ProjectReference_DeepCopyObject am p m =
     (case ProjectReference_DeepCopy am p m of (Some c, m') \<Rightarrow> (Some (ReferenceObject c), m') | (None, m') \<Rightarrow> (None, m'))"

definition ProjectReferenceList_DeepCopyObject :: "apimachinery \<Rightarrow> pointer option \<Rightarrow> cell memory \<Rightarrow> runtime_object option \<times> cell memory" where
  "ProjectReferenceList_DeepCopyObject am p m =
     (case ProjectReferenceList_DeepCopy am p m of (Some c, m') \<Rightarrow> (Some (ReferenceListObject c), m') | (None, m') \<Rightarrow> (None, m'))"

text \<open>The call of the interface's method.\<close>

definition DeepCopyObject :: "apimachinery \<Rightarrow> runtime_object \<Rightarrow> cell memory \<Rightarrow> runtime_object option \<times> cell memory" where
  "DeepCopyObject am x =
     (case x of
        ClaimObject p \<Rightarrow> ProjectClaim_DeepCopyObject am (Some p)
      | ClaimListObject p \<Rightarrow> ProjectClaimList_DeepCopyObject am (Some p)
      | ReferenceObject p \<Rightarrow> ProjectReference_DeepCopyObject am (Some p)
      | ReferenceListObject p \<Rightarrow> ProjectReferenceList_DeepCopyObject am (Some p))"

subsection \<open>What the structs stand for\<close>

abbreviation as_is :: "('a \<Rightarrow> 'v) \<Rightarrow> cell memory \<Rightarrow> 'a \<Rightarrow> 'v option" where "as_is f \<equiv> \<lambda>m x. Some (f x)"
abbreviation nothing :: "cell memory \<Rightarrow> 'a \<Rightarrow> address set" where "nothing \<equiv> \<lambda>m x. {}"
abbreviation "string_list \<equiv> slice_value strings (as_is (\<lambda>x. x))"
abbreviation "condition_list \<equiv> slice_value condition_cells (as_is (\<lambda>x. x))"

definition meta_parts :: "mem_meta \<Rightarrow> pointer option \<times> slice option \<times> pointer option" where
  "meta_parts md = (mo_Annotations md, mo_Finalizers md, mo_DeletionTimestamp md)"

definition meta_of :: "mem_meta \<Rightarrow> (string \<rightharpoonup> string) option \<times> string list option \<times> time option \<Rightarrow> ObjectMeta" where
  "meta_of md parts = (case parts of (notes, fins, deletion) \<Rightarrow>
     \<lparr>om_Name = mo_Name md, om_Namespace = mo_Namespace md,
      om_Annotations = (case notes of None \<Rightarrow> Map.empty | Some f \<Rightarrow> f), om_Finalizers = elems fins,
      om_DeletionTimestamp = deletion, om_ResourceVersion = mo_ResourceVersion md\<rparr>)"

definition meta_value :: "cell memory \<Rightarrow> mem_meta \<Rightarrow> ObjectMeta option" where
  "meta_value m md = map_option (meta_of md)
     (both_values (pointer_value annotation_maps (as_is (\<lambda>x. x)))
       (both_values string_list (pointer_value times (as_is (\<lambda>x. x)))) m (meta_parts md))"

definition meta_reach :: "cell memory \<Rightarrow> mem_meta \<Rightarrow> address set" where
  "meta_reach m md = both_reach (pointer_reach annotation_maps nothing)
     (both_reach (slice_reach strings nothing) (pointer_reach times nothing)) m (meta_parts md)"

definition list_meta_value :: "cell memory \<Rightarrow> mem_list_meta \<Rightarrow> (string \<times> string \<times> int option) option" where
  "list_meta_value m md = map_option (\<lambda>count. (ml_ResourceVersion md, ml_Continue md, count))
     (pointer_value counts (as_is (\<lambda>x. x)) m (ml_RemainingItemCount md))"

definition list_meta_reach :: "cell memory \<Rightarrow> mem_list_meta \<Rightarrow> address set" where
  "list_meta_reach m md = pointer_reach counts nothing m (ml_RemainingItemCount md)"

definition claim_spec_of :: "mem_claim_spec \<Rightarrow> string list option \<Rightarrow> ProjectClaimSpec" where
  "claim_spec_of s zones =
     \<lparr>pcs_LegalEntity = mcs_LegalEntity s, pcs_GCPCredentialSecret = mcs_GCPCredentialSecret s,
      pcs_Region = mcs_Region s, pcs_GCPProjectID = mcs_GCPProjectID s,
      pcs_ProjectReferenceCRLink = mcs_ProjectReferenceCRLink s, pcs_AvailabilityZones = elems zones,
      pcs_CCS = mcs_CCS s, pcs_CCSSecretRef = mcs_CCSSecretRef s, pcs_CCSProjectID = mcs_CCSProjectID s,
      pcs_SharedVPCAccess = mcs_SharedVPCAccess s\<rparr>"

definition claim_spec_value :: "cell memory \<Rightarrow> mem_claim_spec \<Rightarrow> ProjectClaimSpec option" where
  "claim_spec_value m s = map_option (claim_spec_of s) (string_list m (mcs_AvailabilityZones s))"

definition claim_spec_reach :: "cell memory \<Rightarrow> mem_claim_spec \<Rightarrow> address set" where
  "claim_spec_reach m s = slice_reach strings nothing m (mcs_AvailabilityZones s)"

definition status_of :: "mem_status \<Rightarrow> Condition list option \<Rightarrow> Condition list option \<times> string" where
  "status_of s cs = (cs, mst_State s)"

definition status_value :: "cell memory \<Rightarrow> mem_status \<Rightarrow> (Condition list option \<times> string) option" where
  "status_value m s = map_option (status_of s) (condition_list m (mst_Conditions s))"

definition status_reach :: "cell memory \<Rightarrow> mem_status \<Rightarrow> address set" where
  "status_reach m s = slice_reach condition_cells nothing m (mst_Conditions s)"

definition claim_of :: "mem_claim \<Rightarrow> ObjectMeta \<times> ProjectClaimSpec \<times> Condition list option \<times> string \<Rightarrow> TypeMeta \<times> ProjectClaim" where
  "claim_of c parts = (case parts of (md, spec, cs, st) \<Rightarrow>
     (mc_TypeMeta c, \<lparr>pc_Meta = md, pc_Spec = spec, pc_Status = \<lparr>pct_Conditions = cs, pct_State = st\<rparr>\<rparr>))"

definition claim_value :: "cell memory \<Rightarrow> mem_claim \<Rightarrow> (TypeMeta \<times> ProjectClaim) option" where
  "claim_value m c =
     map_option (claim_of c)
       (both_values meta_value (both_values claim_spec_value status_value) m (mc_ObjectMeta c, mc_Spec c, mc_Status c))"

definition claim_reach :: "cell memory \<Rightarrow> mem_claim \<Rightarrow> address set" where
  "claim_reach m c = both_reach meta_reach (both_reach claim_spec_reach status_reach) m (mc_ObjectMeta c, mc_Spec c, mc_Status c)"

definition reference_of ::
  "mem_reference \<Rightarrow> ObjectMeta \<times> ProjectReferenceSpec \<times> Condition list option \<times> string \<Rightarrow> TypeMeta \<times> ProjectReference" where
  "reference_of r parts = (case parts of (md, spec, cs, st) \<Rightarrow>
     (mr_TypeMeta r, \<lparr>pr_Meta = md, pr_Spec = spec, pr_Status = \<lparr>prt_Conditions = cs, prt_State = st\<rparr>\<rparr>))"

definition reference_value :: "cell memory \<Rightarrow> mem_reference \<Rightarrow> (TypeMeta \<times> ProjectReference) option" where
  "reference_value m r =
     map_option (reference_of r)
       (both_values meta_value (both_values (as_is (\<lambda>x. x)) status_value) m (mr_ObjectMeta r, mr_Spec r, mr_Status r))"

definition reference_reach :: "cell memory \<Rightarrow> mem_reference \<Rightarrow> address set" where
  "reference_reach m r = both_reach meta_reach (both_reach nothing status_reach) m (mr_ObjectMeta r, mr_Spec r, mr_Status r)"

definition list_value ::
  "('a, cell) array_kind \<Rightarrow> (cell memory \<Rightarrow> 'a \<Rightarrow> 'v option) \<Rightarrow> cell memory \<Rightarrow> mem_list \<Rightarrow>
     (TypeMeta \<times> (string \<times> string \<times> int option) \<times> 'v list option) option" where
  "list_value k val m l = map_option (Pair (mli_TypeMeta l))
     (both_values list_meta_value (slice_value k val) m (mli_ListMeta l, mli_Items l))"

definition list_reach :: "('a, cell) array_kind \<Rightarrow> (cell memory \<Rightarrow> 'a \<Rightarrow> address set) \<Rightarrow> cell memory \<Rightarrow> mem_list \<Rightarrow> address set" where
  "list_reach k reach m l = both_reach list_meta_reach (slice_reach k reach) m (mli_ListMeta l, mli_Items l)"

subsection \<open>The copies keep their promise\<close>

definition proper_apimachinery :: "apimachinery \<Rightarrow> bool" where
  "proper_apimachinery am \<longleftrightarrow> (\<forall>t. am_Time_DeepCopyInto am t = t) \<and>
     deep_copy (am_ObjectMeta_DeepCopyInto am) meta_value meta_reach \<and>
     deep_copy (am_ListMeta_DeepCopyInto am) list_meta_value list_meta_reach"

lemma deep_copy_string: "deep_copy string_copy (as_is (\<lambda>x. x)) nothing"
  by (rule deep_copy_plain) (simp add: string_copy_def)

lemma deep_copy_condition: "proper_apimachinery am \<Longrightarrow> deep_copy (Condition_DeepCopyInto am) (as_is (\<lambda>x. x)) nothing"
  by (rule deep_copy_plain) (simp add: Condition_DeepCopyInto_def proper_apimachinery_def)

lemma deep_copy_reference_spec: "deep_copy ProjectReferenceSpec_DeepCopyInto (as_is (\<lambda>x. x)) nothing"
  by (rule deep_copy_plain) (simp add: ProjectReferenceSpec_DeepCopyInto_def)

lemma deep_copy_claim_spec: "deep_copy ProjectClaimSpec_DeepCopyInto claim_spec_value claim_spec_reach"
  by (rule deep_copy_struct [OF deep_copy_slice [OF deep_copy_string proper_kinds(1)], where get = mcs_AvailabilityZones and
        put = "\<lambda>zs s. s\<lparr>mcs_AvailabilityZones := zs\<rparr>" and mk = claim_spec_of])
    (simp_all add: ProjectClaimSpec_DeepCopyInto_def claim_spec_value_def claim_spec_of_def claim_spec_reach_def case_prod_beta)

lemma deep_copy_status:
  assumes "proper_apimachinery am"
  shows "deep_copy (ProjectClaimStatus_DeepCopyInto am) status_value status_reach"
    and "deep_copy (ProjectReferenceStatus_DeepCopyInto am) status_value status_reach"
proof -
  show claim: "deep_copy (ProjectClaimStatus_DeepCopyInto am) status_value status_reach"
    by (rule deep_copy_struct [OF deep_copy_slice [OF deep_copy_condition [OF assms] proper_kinds(2)], where get = mst_Conditions and
          put = "\<lambda>cs s. s\<lparr>mst_Conditions := cs\<rparr>" and mk = status_of])
      (simp_all add: ProjectClaimStatus_DeepCopyInto_def status_value_def status_of_def status_reach_def case_prod_beta)
  have "ProjectReferenceStatus_DeepCopyInto am = ProjectClaimStatus_DeepCopyInto am"
    by (intro ext) (simp add: ProjectReferenceStatus_DeepCopyInto_def ProjectClaimStatus_DeepCopyInto_def)
  with claim show "deep_copy (ProjectReferenceStatus_DeepCopyInto am) status_value status_reach" by simp
qed

lemma deep_copy_claim:
  assumes "proper_apimachinery am" shows "deep_copy (ProjectClaim_DeepCopyInto am) claim_value claim_reach"
proof -
  have "deep_copy (am_ObjectMeta_DeepCopyInto am) meta_value meta_reach" using assms by (simp add: proper_apimachinery_def)
  note parts = deep_copy_both [OF this deep_copy_both [OF deep_copy_claim_spec deep_copy_status(1) [OF assms]]]
  show ?thesis
    by (rule deep_copy_struct [OF parts, where get = "\<lambda>c. (mc_ObjectMeta c, mc_Spec c, mc_Status c)" and
          put = "\<lambda>(md, spec, st) c. c\<lparr>mc_ObjectMeta := md, mc_Spec := spec, mc_Status := st\<rparr>" and mk = claim_of])
      (simp_all add: ProjectClaim_DeepCopyInto_def claim_value_def claim_of_def claim_reach_def copy_both_def case_prod_beta)
qed

lemma deep_copy_reference:
  assumes "proper_apimachinery am" shows "deep_copy (ProjectReference_DeepCopyInto am) reference_value reference_reach"
proof -
  have "deep_copy (am_ObjectMeta_DeepCopyInto am) meta_value meta_reach" using assms by (simp add: proper_apimachinery_def)
  note parts = deep_copy_both [OF this deep_copy_both [OF deep_copy_reference_spec deep_copy_status(2) [OF assms]]]
  show ?thesis
    by (rule deep_copy_struct [OF parts, where get = "\<lambda>r. (mr_ObjectMeta r, mr_Spec r, mr_Status r)" and
          put = "\<lambda>(md, spec, st) r. r\<lparr>mr_ObjectMeta := md, mr_Spec := spec, mr_Status := st\<rparr>" and mk = reference_of])
      (simp_all add: ProjectReference_DeepCopyInto_def ProjectReferenceSpec_DeepCopyInto_def reference_value_def
        reference_of_def reference_reach_def copy_both_def case_prod_beta)
qed

lemma deep_copy_list:
  assumes am: "proper_apimachinery am" and item: "deep_copy into val reach" and k: "proper_kind k"
    and list: "\<And>l m. copy l m = (let (md, m1) = am_ListMeta_DeepCopyInto am (mli_ListMeta l) m;
      (items, m2) = copy_slice k into (mli_Items l) m1 in (l\<lparr>mli_ListMeta := md, mli_Items := items\<rparr>, m2))"
  shows "deep_copy copy (list_value k val) (list_reach k reach)"
proof -
  have "deep_copy (am_ListMeta_DeepCopyInto am) list_meta_value list_meta_reach" using am by (simp add: proper_apimachinery_def)
  note parts = deep_copy_both [OF this deep_copy_slice [OF item k]]
  show ?thesis
    by (rule deep_copy_struct [OF parts, where get = "\<lambda>l. (mli_ListMeta l, mli_Items l)" and
          put = "\<lambda>(md, items) l. l\<lparr>mli_ListMeta := md, mli_Items := items\<rparr>" and mk = "\<lambda>l. Pair (mli_TypeMeta l)"])
      (simp_all add: list list_value_def list_reach_def copy_both_def case_prod_beta)
qed

lemma deep_copy_claim_list:
  assumes "proper_apimachinery am"
  shows "deep_copy (ProjectClaimList_DeepCopyInto am) (list_value claims claim_value) (list_reach claims claim_reach)"
  by (rule deep_copy_list [OF assms deep_copy_claim [OF assms] proper_kinds(7)])
    (simp add: ProjectClaimList_DeepCopyInto_def case_prod_beta Let_def)

lemma deep_copy_reference_list:
  assumes "proper_apimachinery am"
  shows "deep_copy (ProjectReferenceList_DeepCopyInto am) (list_value references reference_value) (list_reach references reference_reach)"
  by (rule deep_copy_list [OF assms deep_copy_reference [OF assms] proper_kinds(11)])
    (simp add: ProjectReferenceList_DeepCopyInto_def case_prod_beta Let_def)

subsection \<open>Runtime objects are copied\<close>

datatype runtime_value =
    ClaimValue "TypeMeta \<times> ProjectClaim"
  | ClaimListValue "TypeMeta \<times> (string \<times> string \<times> int option) \<times> (TypeMeta \<times> ProjectClaim) list option"
  | ReferenceValue "TypeMeta \<times> ProjectReference"
  | ReferenceListValue "TypeMeta \<times> (string \<times> string \<times> int option) \<times> (TypeMeta \<times> ProjectReference) list option"

definition object_value :: "cell memory \<Rightarrow> runtime_object \<Rightarrow> runtime_value option" where
  "object_value m x =
     (case x of
        ClaimObject p \<Rightarrow> map_option ClaimValue (at_value claims claim_value m p)
      | ClaimListObject p \<Rightarrow> map_option ClaimListValue (at_value claim_lists (list_value claims claim_value) m p)
      | ReferenceObject p \<Rightarrow> map_option ReferenceValue (at_value references reference_value m p)
      | ReferenceListObject p \<Rightarrow>
          map_option ReferenceListValue (at_value reference_lists (list_value references reference_value) m p))"

definition object_reach :: "cell memory \<Rightarrow> runtime_object \<Rightarrow> address set" where
  "object_reach m x =
     (case x of
        ClaimObject p \<Rightarrow> at_reach claims claim_reach m p
      | ClaimListObject p \<Rightarrow> at_reach claim_lists (list_reach claims claim_reach) m p
      | ReferenceObject p \<Rightarrow> at_reach references reference_reach m p
      | ReferenceListObject p \<Rightarrow> at_reach reference_lists (list_reach references reference_reach) m p)"

definition apart :: "cell memory \<Rightarrow> runtime_object \<Rightarrow> runtime_object \<Rightarrow> bool" where
  "apart m x y \<longleftrightarrow> object_reach m x \<inter> object_reach m y = {} \<and>
     (\<forall>w. alike_on (- object_reach m y) m w \<longrightarrow> object_value w x = object_value m x) \<and>
     (\<forall>w. alike_on (- object_reach m x) m w \<longrightarrow> object_value w y = object_value m y)"

lemma object_independent:
  assumes "deep_copy into val reach" and "proper_kind k" and "sound_memory m" and "at_value k val m p = Some u"
    and copy: "copy_pointed k into (Some p) m = (q, m')"
    and vals: "\<And>w p. object_value w (mk p) = map_option vk (at_value k val w p)"
    and reach: "\<And>w p. object_reach w (mk p) = at_reach k reach w p"
  shows "\<exists>y. q = Some y \<and> object_value m' (mk y) = Some (vk u) \<and> object_value m' (mk p) = Some (vk u) \<and> apart m' (mk p) (mk y)"
proof -
  obtain r where "q = Some r" and "at_value k val m' r = Some u" and "at_value k val m' p = Some u"
    and "at_reach k reach m' p \<inter> at_reach k reach m' r = {}"
    and "\<And>w. alike_on (- at_reach k reach m' r) m' w \<Longrightarrow> at_value k val w p = Some u"
    and "\<And>w. alike_on (- at_reach k reach m' p) m' w \<Longrightarrow> at_value k val w r = Some u"
    using deep_copy_at [OF assms(1-5)] by metis
  then show ?thesis by (intro exI [of _ r]) (simp add: vals reach apart_def)
qed

text \<open>C25: A deep copy of a claim, a reference or a list of them has the value of the original, which keeps its
  own, and shares no memory with it: whatever is later written to the one, slices and maps included,
  the other does not see.  So an object handed out by a cache can be changed in place.\<close>

theorem DeepCopyObject_independent:
  assumes am: "proper_apimachinery am" and m: "sound_memory m" and x: "object_value m x = Some v"
  shows "\<exists>y m'. DeepCopyObject am x m = (Some y, m') \<and> object_value m' y = Some v \<and> object_value m' x = Some v \<and> apart m' x y"
proof (cases x)
  case (ClaimObject p)
  with x obtain u where u: "at_value claims claim_value m p = Some u" "v = ClaimValue u" by (auto simp: object_value_def)
  obtain q m' where run: "ProjectClaim_DeepCopy am (Some p) m = (q, m')" by fastforce
  have "\<exists>y. q = Some y \<and> object_value m' (ClaimObject y) = Some (ClaimValue u) \<and>
      object_value m' (ClaimObject p) = Some (ClaimValue u) \<and> apart m' (ClaimObject p) (ClaimObject y)"
    by (rule object_independent [OF deep_copy_claim [OF am] proper_kinds(7) m u(1) run [unfolded ProjectClaim_DeepCopy_def]])
      (simp_all add: object_value_def object_reach_def)
  with run show ?thesis by (auto simp: ClaimObject u DeepCopyObject_def ProjectClaim_DeepCopyObject_def)
next
  case (ClaimListObject p)
  with x obtain u where u: "at_value claim_lists (list_value claims claim_value) m p = Some u" "v = ClaimListValue u"
    by (auto simp: object_value_def)
  obtain q m' where run: "ProjectClaimList_DeepCopy am (Some p) m = (q, m')" by fastforce
  have "\<exists>y. q = Some y \<and> object_value m' (ClaimListObject y) = Some (ClaimListValue u) \<and>
      object_value m' (ClaimListObject p) = Some (ClaimListValue u) \<and> apart m' (ClaimListObject p) (ClaimListObject y)"
    by (rule object_independent [OF deep_copy_claim_list [OF am] proper_kinds(8) m u(1) run [unfolded ProjectClaimList_DeepCopy_def]])
      (simp_all add: object_value_def object_reach_def)
  with run show ?thesis by (auto simp: ClaimListObject u DeepCopyObject_def ProjectClaimList_DeepCopyObject_def)
next
  case (ReferenceObject p)
  with x obtain u where u: "at_value references reference_value m p = Some u" "v = ReferenceValue u" by (auto simp: object_value_def)
  obtain q m' where run: "ProjectReference_DeepCopy am (Some p) m = (q, m')" by fastforce
  have "\<exists>y. q = Some y \<and> object_value m' (ReferenceObject y) = Some (ReferenceValue u) \<and>
      object_value m' (ReferenceObject p) = Some (ReferenceValue u) \<and> apart m' (ReferenceObject p) (ReferenceObject y)"
    by (rule object_independent [OF deep_copy_reference [OF am] proper_kinds(11) m u(1) run [unfolded ProjectReference_DeepCopy_def]])
      (simp_all add: object_value_def object_reach_def)
  with run show ?thesis by (auto simp: ReferenceObject u DeepCopyObject_def ProjectReference_DeepCopyObject_def)
next
  case (ReferenceListObject p)
  with x obtain u where u: "at_value reference_lists (list_value references reference_value) m p = Some u" "v = ReferenceListValue u"
    by (auto simp: object_value_def)
  obtain q m' where run: "ProjectReferenceList_DeepCopy am (Some p) m = (q, m')" by fastforce
  have "\<exists>y. q = Some y \<and> object_value m' (ReferenceListObject y) = Some (ReferenceListValue u) \<and>
      object_value m' (ReferenceListObject p) = Some (ReferenceListValue u) \<and> apart m' (ReferenceListObject p) (ReferenceListObject y)"
    by (rule object_independent [OF deep_copy_reference_list [OF am] proper_kinds(12) m u(1)
          run [unfolded ProjectReferenceList_DeepCopy_def]])
      (simp_all add: object_value_def object_reach_def)
  with run show ?thesis by (auto simp: ReferenceListObject u DeepCopyObject_def ProjectReferenceList_DeepCopyObject_def)
qed

subsection \<open>A library that copies as documented\<close>

definition copy_as_is :: "'a copier" where "copy_as_is x m = (x, m)"

definition ObjectMeta_DeepCopyInto :: "mem_meta copier" where
  "ObjectMeta_DeepCopyInto md m =
     (let ((notes, fins, deletion), m') = copy_both (copy_pointed annotation_maps copy_as_is)
            (copy_both (copy_slice strings copy_as_is) (copy_pointed times copy_as_is)) (meta_parts md) m
      in (md\<lparr>mo_Annotations := notes, mo_Finalizers := fins, mo_DeletionTimestamp := deletion\<rparr>, m'))"

definition ListMeta_DeepCopyInto :: "mem_list_meta copier" where
  "ListMeta_DeepCopyInto md m =
     (let (count, m') = copy_pointed counts copy_as_is (ml_RemainingItemCount md) m
      in (md\<lparr>ml_RemainingItemCount := count\<rparr>, m'))"

definition copying_apimachinery :: apimachinery where
  "copying_apimachinery = \<lparr>am_Time_DeepCopyInto = (\<lambda>t. t), am_ObjectMeta_DeepCopyInto = ObjectMeta_DeepCopyInto,
     am_ListMeta_DeepCopyInto = ListMeta_DeepCopyInto\<rparr>"

lemma deep_copy_as_is: "deep_copy copy_as_is (as_is (\<lambda>x. x)) nothing"
  by (rule deep_copy_plain) (simp add: copy_as_is_def)

lemma proper_copying: "proper_apimachinery copying_apimachinery"
proof -
  note parts = deep_copy_both [OF deep_copy_pointer [OF deep_copy_as_is proper_kinds(13)]
      deep_copy_both [OF deep_copy_slice [OF deep_copy_as_is proper_kinds(1)] deep_copy_pointer [OF deep_copy_as_is proper_kinds(14)]]]
  have "deep_copy ObjectMeta_DeepCopyInto meta_value meta_reach"
    by (rule deep_copy_struct [OF parts, where get = meta_parts and put = "\<lambda>(notes, fins, deletion) md. md\<lparr>mo_Annotations := notes,
          mo_Finalizers := fins, mo_DeletionTimestamp := deletion\<rparr>" and mk = meta_of])
      (simp_all add: ObjectMeta_DeepCopyInto_def meta_value_def meta_of_def meta_reach_def meta_parts_def case_prod_beta)
  moreover have "deep_copy ListMeta_DeepCopyInto list_meta_value list_meta_reach"
    by (rule deep_copy_struct [OF deep_copy_pointer [OF deep_copy_as_is proper_kinds(15)], where get = ml_RemainingItemCount and
          put = "\<lambda>n md. md\<lparr>ml_RemainingItemCount := n\<rparr>" and mk = "\<lambda>md count. (ml_ResourceVersion md, ml_Continue md, count)"])
      (simp_all add: ListMeta_DeepCopyInto_def list_meta_value_def list_meta_reach_def case_prod_beta)
  ultimately show ?thesis by (simp add: proper_apimachinery_def copying_apimachinery_def)
qed

interpretation claim_spec_copy: deep_copy ProjectClaimSpec_DeepCopyInto claim_spec_value claim_spec_reach
  by (rule deep_copy_claim_spec)

interpretation reference_spec_copy: deep_copy ProjectReferenceSpec_DeepCopyInto "as_is (\<lambda>x. x)" nothing
  by (rule deep_copy_reference_spec)

interpretation claim_copy: deep_copy "ProjectClaim_DeepCopyInto copying_apimachinery" claim_value claim_reach
  by (rule deep_copy_claim [OF proper_copying])

interpretation reference_copy: deep_copy "ProjectReference_DeepCopyInto copying_apimachinery" reference_value reference_reach
  by (rule deep_copy_reference [OF proper_copying])

text \<open>A reference in memory: address 1 holds its conditions, address 2 its finalizers.\<close>

definition sample_object :: mem_reference where
  "sample_object =
     \<lparr>mr_TypeMeta = \<lparr>tm_Kind = ''ProjectReference'', tm_APIVersion = ''v1alpha1''\<rparr>,
      mr_ObjectMeta = \<lparr>mo_Name = ''team-web'', mo_Namespace = ProjectReferenceNamespace, mo_Annotations = None,
        mo_Finalizers = Some (Slice 2 0 1), mo_DeletionTimestamp = None, mo_ResourceVersion = ''7''\<rparr>,
      mr_Spec = \<lparr>prs_GCPProjectID = ''o-1'', prs_ProjectClaimCRLink = \<lparr>nn_Namespace = ''team'', nn_Name = ''web''\<rparr>,
        prs_LegalEntity = \<lparr>le_Name = '''', le_ID = ''''\<rparr>, prs_CCS = False,
        prs_CCSSecretRef = \<lparr>nn_Namespace = '''', nn_Name = ''''\<rparr>, prs_ServiceAccountName = '''', prs_SharedVPCAccess = False\<rparr>,
      mr_Status = \<lparr>mst_Conditions = Some (Slice 1 0 0), mst_State = ProjectReferenceStatusReady\<rparr>\<rparr>"

definition sample_memory :: "cell memory" where
  "sample_memory = \<lparr>mm_cells = [0 \<mapsto> ReferenceCell [sample_object], 1 \<mapsto> ConditionCell [], 2 \<mapsto> StringCell [''finalizer'']],
     mm_next = 3\<rparr>"

theorem DeepCopyObject_independent_witness:
  "\<exists>y m' v. DeepCopyObject copying_apimachinery (ReferenceObject (Pointer 0 0)) sample_memory = (Some y, m') \<and>
     object_value m' y = Some v \<and> object_value m' (ReferenceObject (Pointer 0 0)) = Some v \<and>
     apart m' (ReferenceObject (Pointer 0 0)) y"
proof -
  have "sound_memory sample_memory" by (auto simp: sound_memory_def sample_memory_def split: if_splits)
  moreover obtain v where "object_value sample_memory (ReferenceObject (Pointer 0 0)) = Some v"
    by (simp add: object_value_def at_value_def pointed_def sample_memory_def sample_object_def kind_defs reference_value_def
        both_values_def meta_value_def meta_parts_def status_value_def pointer_value_def slice_value_def slice_elems_def)
  ultimately show ?thesis using DeepCopyObject_independent [OF proper_copying] by blast
qed

text \<open>The other copies made through a pointer.\<close>

lemmas copied_pointer = deep_copy_pointer [OF _ proper_kinds(2)] deep_copy_pointer [OF _ proper_kinds(3)]
  deep_copy_pointer [OF _ proper_kinds(4)] deep_copy_pointer [OF _ proper_kinds(5)] deep_copy_pointer [OF _ proper_kinds(6)]
  deep_copy_pointer [OF _ proper_kinds(9)] deep_copy_pointer [OF _ proper_kinds(10)]

lemma part_copies:
  assumes am: "proper_apimachinery am"
  shows "deep_copy (Condition_DeepCopy am) (pointer_value condition_cells (as_is (\<lambda>x. x))) (pointer_reach condition_cells nothing)"
    and "deep_copy LegalEntity_DeepCopy (pointer_value entities (as_is (\<lambda>x. x))) (pointer_reach entities nothing)"
    and "deep_copy NamespacedName_DeepCopy (pointer_value names (as_is (\<lambda>x. x))) (pointer_reach names nothing)"
    and "deep_copy ProjectClaimSpec_DeepCopy (pointer_value claim_specs claim_spec_value) (pointer_reach claim_specs claim_spec_reach)"
    and "deep_copy (ProjectClaimStatus_DeepCopy am) (pointer_value claim_statuses status_value) (pointer_reach claim_statuses status_reach)"
    and "deep_copy ProjectReferenceSpec_DeepCopy (pointer_value reference_specs (as_is (\<lambda>x. x))) (pointer_reach reference_specs nothing)"
    and "deep_copy (ProjectReferenceStatus_DeepCopy am) (pointer_value reference_statuses status_value)
      (pointer_reach reference_statuses status_reach)"
  unfolding Condition_DeepCopy_def LegalEntity_DeepCopy_def NamespacedName_DeepCopy_def ProjectClaimSpec_DeepCopy_def
    ProjectClaimStatus_DeepCopy_def ProjectReferenceSpec_DeepCopy_def ProjectReferenceStatus_DeepCopy_def
  by (intro copied_pointer deep_copy_condition deep_copy_claim_spec deep_copy_status deep_copy_reference_spec am deep_copy_plain;
      simp add: LegalEntity_DeepCopyInto_def NamespacedName_DeepCopyInto_def)+

end
