(* ===== verification/Schema.thy ===== *)
theory Schema
  imports DeepCopy Cluster
begin

text \<open>
  \<^verbatim>\<open>api/v1alpha1/zz_generated.openapi.go\<close>: the OpenAPI definitions of the custom resources, what a
  schema says of a JSON value, and the JSON that Go makes of the structs by their tags.  A schema has
  the fields that the file sets.  References to other definitions are made by the function \<^verbatim>\<open>ref\<close> that the
  caller gives.
\<close>

subsection \<open>JSON and schemas\<close>

datatype json =
    JNull
  | JBool bool
  | JString string
  | JArray "json list"
  | JObject "(string \<times> json) list"

datatype schema = Schema (sc_Description: string) (sc_Type: "string list") (sc_Format: string) (sc_Default: "json option")
  (sc_Ref: string) (sc_Properties: "(string \<times> schema) list") (sc_Items: "schema option") (sc_Required: "string list")
  (sc_Extensions: "(string \<times> string) list")

text \<open>The zero value, and the fields of a composite literal.\<close>

definition zero_schema :: schema where "zero_schema = Schema '''' [] '''' None '''' [] None [] []"

fun Description :: "string \<Rightarrow> schema \<Rightarrow> schema" where
  "Description x (Schema d t f df r ps it rq ex) = Schema x t f df r ps it rq ex"
fun Type :: "string list \<Rightarrow> schema \<Rightarrow> schema" where
  "Type x (Schema d t f df r ps it rq ex) = Schema d x f df r ps it rq ex"
fun Format :: "string \<Rightarrow> schema \<Rightarrow> schema" where
  "Format x (Schema d t f df r ps it rq ex) = Schema d t x df r ps it rq ex"
fun Default :: "json \<Rightarrow> schema \<Rightarrow> schema" where
  "Default x (Schema d t f df r ps it rq ex) = Schema d t f (Some x) r ps it rq ex"
fun Ref :: "string \<Rightarrow> schema \<Rightarrow> schema" where
  "Ref x (Schema d t f df r ps it rq ex) = Schema d t f df x ps it rq ex"
fun Properties :: "(string \<times> schema) list \<Rightarrow> schema \<Rightarrow> schema" where
  "Properties x (Schema d t f df r ps it rq ex) = Schema d t f df r x it rq ex"
fun Items :: "schema \<Rightarrow> schema \<Rightarrow> schema" where
  "Items x (Schema d t f df r ps it rq ex) = Schema d t f df r ps (Some x) rq ex"
fun Required :: "string list \<Rightarrow> schema \<Rightarrow> schema" where
  "Required x (Schema d t f df r ps it rq ex) = Schema d t f df r ps it x ex"
fun Extensions :: "(string \<times> string) list \<Rightarrow> schema \<Rightarrow> schema" where
  "Extensions x (Schema d t f df r ps it rq ex) = Schema d t f df r ps it rq x"

record OpenAPIDefinition =
  od_Schema :: schema
  od_Dependencies :: "string list"

type_synonym ReferenceCallback = "string \<Rightarrow> string"

abbreviation "api x \<equiv> ''github.com/openshift/gcp-project-operator/api/v1alpha1.'' @ x"
abbreviation "api_ObjectMeta \<equiv> ''k8s.io/apimachinery/pkg/apis/meta/v1.ObjectMeta''"

subsection \<open>The definitions of the custom resources\<close>

definition schema_openshift_gcp_project_operator_api_v1alpha1_ProjectClaim :: "ReferenceCallback \<Rightarrow> OpenAPIDefinition" where
  "schema_openshift_gcp_project_operator_api_v1alpha1_ProjectClaim ref =
     \<lparr>od_Schema =
        (Description ''ProjectClaim is the Schema for the projectclaims API'' \<circ> Type [''object''] \<circ> Properties [
          (''kind'',
            (Description (''Kind is a string value representing the REST resource this object represents. Servers may infer this from the endpoint the client submits requests to. Cannot be updated. In CamelCase. More info: https://git.k8s.io/community/contributors/devel/sig-architecture/api-conventions.md#types-kinds'')
              \<circ> Type [''string''] \<circ> Format '''') zero_schema),
          (''apiVersion'',
            (Description (''APIVersion defines the versioned schema of this representation of an object. Servers should convert recognized schemas to the latest internal value, and may reject unrecognized values. More info: https://git.k8s.io/community/contributors/devel/sig-architecture/api-conventions.md#resources'')
              \<circ> Type [''string''] \<circ> Format '''') zero_schema),
          (''metadata'', (Default (JObject []) \<circ> Ref (ref api_ObjectMeta)) zero_schema),
          (''spec'', (Default (JObject []) \<circ> Ref (ref (api ''ProjectClaimSpec''))) zero_schema),
          (''status'', (Default (JObject []) \<circ> Ref (ref (api ''ProjectClaimStatus''))) zero_schema)])
        zero_schema,
      od_Dependencies = [api ''ProjectClaimSpec'', api ''ProjectClaimStatus'', api_ObjectMeta]\<rparr>"

definition schema_openshift_gcp_project_operator_api_v1alpha1_ProjectClaimSpec :: "ReferenceCallback \<Rightarrow> OpenAPIDefinition" where
  "schema_openshift_gcp_project_operator_api_v1alpha1_ProjectClaimSpec ref =
     \<lparr>od_Schema =
        (Description ''ProjectClaimSpec defines the desired state of ProjectClaim'' \<circ> Type [''object''] \<circ> Properties [
          (''legalEntity'', (Default (JObject []) \<circ> Ref (ref (api ''LegalEntity''))) zero_schema),
          (''gcpCredentialSecret'', (Default (JObject []) \<circ> Ref (ref (api ''NamespacedName''))) zero_schema),
          (''region'', (Default (JString '''') \<circ> Type [''string''] \<circ> Format '''') zero_schema),
          (''gcpProjectID'', (Type [''string''] \<circ> Format '''') zero_schema),
          (''projectReferenceCRLink'', (Default (JObject []) \<circ> Ref (ref (api ''NamespacedName''))) zero_schema),
          (''availabilityZones'',
            (Extensions [(''x-kubernetes-list-type'', ''atomic'')] \<circ> Type [''array''] \<circ>
             Items ((Default (JString '''') \<circ> Type [''string''] \<circ> Format '''') zero_schema)) zero_schema),
          (''ccs'', (Type [''boolean''] \<circ> Format '''') zero_schema),
          (''ccsSecretRef'', (Default (JObject []) \<circ> Ref (ref (api ''NamespacedName''))) zero_schema),
          (''ccsProjectID'', (Type [''string''] \<circ> Format '''') zero_schema),
          (''sharedVPCAccess'', (Type [''boolean''] \<circ> Format '''') zero_schema)] \<circ>
         Required [''legalEntity'', ''gcpCredentialSecret'', ''region''])
        zero_schema,
      od_Dependencies = [api ''LegalEntity'', api ''NamespacedName'']\<rparr>"

definition schema_openshift_gcp_project_operator_api_v1alpha1_ProjectClaimStatus :: "ReferenceCallback \<Rightarrow> OpenAPIDefinition" where
  "schema_openshift_gcp_project_operator_api_v1alpha1_ProjectClaimStatus ref =
     \<lparr>od_Schema =
        (Description ''ProjectClaimStatus defines the observed state of ProjectClaim'' \<circ> Type [''object''] \<circ> Properties [
          (''conditions'',
            (Extensions [(''x-kubernetes-list-type'', ''atomic'')] \<circ> Type [''array''] \<circ>
             Items ((Default (JObject []) \<circ> Ref (ref (api ''Condition''))) zero_schema)) zero_schema),
          (''state'', (Default (JString '''') \<circ> Type [''string''] \<circ> Format '''') zero_schema)] \<circ>
         Required [''conditions'', ''state''])
        zero_schema,
      od_Dependencies = [api ''Condition'']\<rparr>"

definition schema_openshift_gcp_project_operator_api_v1alpha1_ProjectReference :: "ReferenceCallback \<Rightarrow> OpenAPIDefinition" where
  "schema_openshift_gcp_project_operator_api_v1alpha1_ProjectReference ref =
     \<lparr>od_Schema =
        (Description ''ProjectReference is the Schema for the projectreferences API'' \<circ> Type [''object''] \<circ> Properties [
          (''kind'',
            (Description (''Kind is a string value representing the REST resource this object represents. Servers may infer this from the endpoint the client submits requests to. Cannot be updated. In CamelCase. More info: https://git.k8s.io/community/contributors/devel/sig-architecture/api-conventions.md#types-kinds'')
              \<circ> Type [''string''] \<circ> Format '''') zero_schema),
          (''apiVersion'',
            (Description (''APIVersion defines the versioned schema of this representation of an object. Servers should convert recognized schemas to the latest internal value, and may reject unrecognized values. More info: https://git.k8s.io/community/contributors/devel/sig-architecture/api-conventions.md#resources'')
              \<circ> Type [''string''] \<circ> Format '''') zero_schema),
          (''metadata'', (Default (JObject []) \<circ> Ref (ref api_ObjectMeta)) zero_schema),
          (''spec'', (Default (JObject []) \<circ> Ref (ref (api ''ProjectReferenceSpec''))) zero_schema),
          (''status'', (Default (JObject []) \<circ> Ref (ref (api ''ProjectReferenceStatus''))) zero_schema)])
        zero_schema,
      od_Dependencies = [api ''ProjectReferenceSpec'', api ''ProjectReferenceStatus'', api_ObjectMeta]\<rparr>"

definition schema_openshift_gcp_project_operator_api_v1alpha1_ProjectReferenceSpec :: "ReferenceCallback \<Rightarrow> OpenAPIDefinition" where
  "schema_openshift_gcp_project_operator_api_v1alpha1_ProjectReferenceSpec ref =
     \<lparr>od_Schema =
        (Description ''ProjectReferenceSpec defines the desired state of ProjectReference'' \<circ> Type [''object''] \<circ> Properties [
          (''gcpProjectID'', (Type [''string''] \<circ> Format '''') zero_schema),
          (''projectClaimCRLink'', (Default (JObject []) \<circ> Ref (ref (api ''NamespacedName''))) zero_schema),
          (''legalEntity'', (Default (JObject []) \<circ> Ref (ref (api ''LegalEntity''))) zero_schema),
          (''ccs'', (Type [''boolean''] \<circ> Format '''') zero_schema),
          (''ccsSecretRef'', (Default (JObject []) \<circ> Ref (ref (api ''NamespacedName''))) zero_schema),
          (''serviceAccountName'', (Type [''string''] \<circ> Format '''') zero_schema),
          (''sharedVPCAccess'', (Type [''boolean''] \<circ> Format '''') zero_schema)] \<circ>
         Required [''projectClaimCRLink'', ''legalEntity''])
        zero_schema,
      od_Dependencies = [api ''LegalEntity'', api ''NamespacedName'']\<rparr>"

definition schema_openshift_gcp_project_operator_api_v1alpha1_ProjectReferenceStatus :: "ReferenceCallback \<Rightarrow> OpenAPIDefinition" where
  "schema_openshift_gcp_project_operator_api_v1alpha1_ProjectReferenceStatus ref =
     \<lparr>od_Schema =
        (Description ''ProjectReferenceStatus defines the observed state of ProjectReference'' \<circ> Type [''object''] \<circ> Properties [
          (''conditions'',
            (Extensions [(''x-kubernetes-list-type'', ''atomic'')] \<circ> Type [''array''] \<circ>
             Items ((Default (JObject []) \<circ> Ref (ref (api ''Condition''))) zero_schema)) zero_schema),
          (''state'', (Default (JString '''') \<circ> Type [''string''] \<circ> Format '''') zero_schema)] \<circ>
         Required [''conditions'', ''state''])
        zero_schema,
      od_Dependencies = [api ''Condition'']\<rparr>"

definition GetOpenAPIDefinitions :: "ReferenceCallback \<Rightarrow> (string \<times> OpenAPIDefinition) list" where
  "GetOpenAPIDefinitions ref =
     [(api ''ProjectClaim'', schema_openshift_gcp_project_operator_api_v1alpha1_ProjectClaim ref),
      (api ''ProjectClaimSpec'', schema_openshift_gcp_project_operator_api_v1alpha1_ProjectClaimSpec ref),
      (api ''ProjectClaimStatus'', schema_openshift_gcp_project_operator_api_v1alpha1_ProjectClaimStatus ref),
      (api ''ProjectReference'', schema_openshift_gcp_project_operator_api_v1alpha1_ProjectReference ref),
      (api ''ProjectReferenceSpec'', schema_openshift_gcp_project_operator_api_v1alpha1_ProjectReferenceSpec ref),
      (api ''ProjectReferenceStatus'', schema_openshift_gcp_project_operator_api_v1alpha1_ProjectReferenceStatus ref)]"

lemmas definition_defs = schema_openshift_gcp_project_operator_api_v1alpha1_ProjectClaim_def
  schema_openshift_gcp_project_operator_api_v1alpha1_ProjectClaimSpec_def
  schema_openshift_gcp_project_operator_api_v1alpha1_ProjectClaimStatus_def
  schema_openshift_gcp_project_operator_api_v1alpha1_ProjectReference_def
  schema_openshift_gcp_project_operator_api_v1alpha1_ProjectReferenceSpec_def
  schema_openshift_gcp_project_operator_api_v1alpha1_ProjectReferenceStatus_def

subsection \<open>What a schema says\<close>

text \<open>
  The meaning of the fields in the OpenAPI specification.  A reference stands alone; \<^verbatim>\<open>accepts\<close> is what
  the references mean.  The formats are empty, and descriptions, defaults and extensions
  constrain nothing.
\<close>

definition has_type :: "json \<Rightarrow> string \<Rightarrow> bool" where
  "has_type j t =
     (case j of JNull \<Rightarrow> t = ''null'' | JBool b \<Rightarrow> t = ''boolean'' | JString s \<Rightarrow> t = ''string''
      | JArray xs \<Rightarrow> t = ''array'' | JObject fs \<Rightarrow> t = ''object'')"

fun conforms :: "(string \<Rightarrow> json \<Rightarrow> bool) \<Rightarrow> schema \<Rightarrow> json \<Rightarrow> bool" where
  "conforms accepts (Schema d t f df r ps it rq ex) j =
     (if r \<noteq> '''' then accepts r j
      else (t = [] \<or> list_ex (has_type j) t) \<and>
        (case j of
           JObject fs \<Rightarrow> list_all (\<lambda>n. map_of fs n \<noteq> None) rq \<and>
             (\<forall>(n, p)\<in>set ps. case map_of fs n of None \<Rightarrow> True | Some v \<Rightarrow> conforms accepts p v)
         | JArray xs \<Rightarrow> (case it of None \<Rightarrow> True | Some p \<Rightarrow> list_all (conforms accepts p) xs)
         | _ \<Rightarrow> True))"

text \<open>
  References mean the definitions they are made for; those to other definitions mean what \<^verbatim>\<open>other\<close> says.
  The definitions refer to one another two deep, and the number counts down the depth.
\<close>

fun accepts :: "nat \<Rightarrow> ReferenceCallback \<Rightarrow> (string \<Rightarrow> json \<Rightarrow> bool) \<Rightarrow> string \<Rightarrow> json \<Rightarrow> bool" where
  "accepts 0 ref other r j = False"
| "accepts (Suc n) ref other r j =
     (case find (\<lambda>(name, d). ref name = r) (GetOpenAPIDefinitions ref) of
        None \<Rightarrow> other r j
      | Some (name, d) \<Rightarrow> conforms (accepts n ref other) (od_Schema d) j)"

subsection \<open>The JSON of the structs\<close>

text \<open>
  What encoding/json makes of the structs: a field under the name of its tag; one with \<^verbatim>\<open>omitempty\<close> left
  out when it is false, empty or nil, but never when it is a struct; a nil slice is null.  Times and
  metadata have methods of their own, which are a parameter.
\<close>

record json_library =
  jl_Time :: "time \<Rightarrow> json"
  jl_ObjectMeta :: "ObjectMeta \<Rightarrow> json"

definition omit_string :: "string \<Rightarrow> string \<Rightarrow> (string \<times> json) list" where
  "omit_string name s = (if s = '''' then [] else [(name, JString s)])"

definition omit_bool :: "string \<Rightarrow> bool \<Rightarrow> (string \<times> json) list" where
  "omit_bool name b = (if b then [(name, JBool True)] else [])"

definition LegalEntity_json :: "LegalEntity \<Rightarrow> json" where
  "LegalEntity_json e = JObject [(''name'', JString (le_Name e)), (''id'', JString (le_ID e))]"

definition NamespacedName_json :: "NamespacedName \<Rightarrow> json" where
  "NamespacedName_json n = JObject [(''namespace'', JString (nn_Namespace n)), (''name'', JString (nn_Name n))]"

definition Condition_json :: "json_library \<Rightarrow> Condition \<Rightarrow> json" where
  "Condition_json jl c = JObject ([(''type'', JString (c_Type c)), (''status'', JString (c_Status c)),
     (''lastProbeTime'', jl_Time jl (c_LastProbeTime c)), (''lastTransitionTime'', jl_Time jl (c_LastTransitionTime c))] @
     omit_string ''reason'' (c_Reason c) @ omit_string ''message'' (c_Message c))"

definition conditions_json :: "json_library \<Rightarrow> Condition list option \<Rightarrow> json" where
  "conditions_json jl cs = (case cs of None \<Rightarrow> JNull | Some xs \<Rightarrow> JArray (map (Condition_json jl) xs))"

definition ProjectClaimSpec_json :: "ProjectClaimSpec \<Rightarrow> json" where
  "ProjectClaimSpec_json s = JObject (
     [(''legalEntity'', LegalEntity_json (pcs_LegalEntity s)),
      (''gcpCredentialSecret'', NamespacedName_json (pcs_GCPCredentialSecret s)),
      (''region'', JString (pcs_Region s))] @
     omit_string ''gcpProjectID'' (pcs_GCPProjectID s) @
     [(''projectReferenceCRLink'', NamespacedName_json (pcs_ProjectReferenceCRLink s))] @
     (if pcs_AvailabilityZones s = [] then [] else [(''availabilityZones'', JArray (map JString (pcs_AvailabilityZones s)))]) @
     omit_bool ''ccs'' (pcs_CCS s) @
     [(''ccsSecretRef'', NamespacedName_json (pcs_CCSSecretRef s))] @
     omit_string ''ccsProjectID'' (pcs_CCSProjectID s) @ omit_bool ''sharedVPCAccess'' (pcs_SharedVPCAccess s))"

definition ProjectClaimStatus_json :: "json_library \<Rightarrow> ProjectClaimStatus \<Rightarrow> json" where
  "ProjectClaimStatus_json jl s = JObject [(''conditions'', conditions_json jl (pct_Conditions s)), (''state'', JString (pct_State s))]"

definition ProjectClaim_json :: "json_library \<Rightarrow> TypeMeta \<Rightarrow> ProjectClaim \<Rightarrow> json" where
  "ProjectClaim_json jl tm c = JObject (
     omit_string ''kind'' (tm_Kind tm) @ omit_string ''apiVersion'' (tm_APIVersion tm) @
     [(''metadata'', jl_ObjectMeta jl (pc_Meta c)), (''spec'', ProjectClaimSpec_json (pc_Spec c)),
      (''status'', ProjectClaimStatus_json jl (pc_Status c))])"

definition ProjectReferenceSpec_json :: "ProjectReferenceSpec \<Rightarrow> json" where
  "ProjectReferenceSpec_json s = JObject (
     omit_string ''gcpProjectID'' (prs_GCPProjectID s) @
     [(''projectClaimCRLink'', NamespacedName_json (prs_ProjectClaimCRLink s)),
      (''legalEntity'', LegalEntity_json (prs_LegalEntity s))] @
     omit_bool ''ccs'' (prs_CCS s) @
     [(''ccsSecretRef'', NamespacedName_json (prs_CCSSecretRef s))] @
     omit_string ''serviceAccountName'' (prs_ServiceAccountName s) @ omit_bool ''sharedVPCAccess'' (prs_SharedVPCAccess s))"

definition ProjectReferenceStatus_json :: "json_library \<Rightarrow> ProjectReferenceStatus \<Rightarrow> json" where
  "ProjectReferenceStatus_json jl s = JObject [(''conditions'', conditions_json jl (prt_Conditions s)), (''state'', JString (prt_State s))]"

definition ProjectReference_json :: "json_library \<Rightarrow> TypeMeta \<Rightarrow> ProjectReference \<Rightarrow> json" where
  "ProjectReference_json jl tm r = JObject (
     omit_string ''kind'' (tm_Kind tm) @ omit_string ''apiVersion'' (tm_APIVersion tm) @
     [(''metadata'', jl_ObjectMeta jl (pr_Meta r)), (''spec'', ProjectReferenceSpec_json (pr_Spec r)),
      (''status'', ProjectReferenceStatus_json jl (pr_Status r))])"

subsection \<open>The structs and the schema agree\<close>

text \<open>
  The definitions that the file refers to and does not have accept what Go makes of their structs, and
  different names have different references.
\<close>

definition parts_accepted :: "ReferenceCallback \<Rightarrow> json_library \<Rightarrow> (string \<Rightarrow> json \<Rightarrow> bool) \<Rightarrow> bool" where
  "parts_accepted ref jl other \<longleftrightarrow> inj ref \<and> (\<forall>name. ref name \<noteq> '''') \<and>
     (\<forall>e. other (ref (api ''LegalEntity'')) (LegalEntity_json e)) \<and>
     (\<forall>n. other (ref (api ''NamespacedName'')) (NamespacedName_json n)) \<and>
     (\<forall>c. other (ref (api ''Condition'')) (Condition_json jl c)) \<and>
     (\<forall>md. other (ref api_ObjectMeta) (jl_ObjectMeta jl md))"

lemma accepts_parts:
  assumes "inj ref"
  shows "accepts (Suc n) ref other (ref (api ''LegalEntity'')) = other (ref (api ''LegalEntity''))"
    and "accepts (Suc n) ref other (ref (api ''NamespacedName'')) = other (ref (api ''NamespacedName''))"
    and "accepts (Suc n) ref other (ref (api ''Condition'')) = other (ref (api ''Condition''))"
    and "accepts (Suc n) ref other (ref api_ObjectMeta) = other (ref api_ObjectMeta)"
  using assms by (auto simp: fun_eq_iff GetOpenAPIDefinitions_def inj_eq)

lemma accepts_definition:
  assumes "inj ref"
  shows "accepts (Suc n) ref other (ref (api ''ProjectClaim'')) =
      conforms (accepts n ref other) (od_Schema (schema_openshift_gcp_project_operator_api_v1alpha1_ProjectClaim ref))"
    and "accepts (Suc n) ref other (ref (api ''ProjectClaimSpec'')) =
      conforms (accepts n ref other) (od_Schema (schema_openshift_gcp_project_operator_api_v1alpha1_ProjectClaimSpec ref))"
    and "accepts (Suc n) ref other (ref (api ''ProjectClaimStatus'')) =
      conforms (accepts n ref other) (od_Schema (schema_openshift_gcp_project_operator_api_v1alpha1_ProjectClaimStatus ref))"
    and "accepts (Suc n) ref other (ref (api ''ProjectReference'')) =
      conforms (accepts n ref other) (od_Schema (schema_openshift_gcp_project_operator_api_v1alpha1_ProjectReference ref))"
    and "accepts (Suc n) ref other (ref (api ''ProjectReferenceSpec'')) =
      conforms (accepts n ref other) (od_Schema (schema_openshift_gcp_project_operator_api_v1alpha1_ProjectReferenceSpec ref))"
    and "accepts (Suc n) ref other (ref (api ''ProjectReferenceStatus'')) =
      conforms (accepts n ref other) (od_Schema (schema_openshift_gcp_project_operator_api_v1alpha1_ProjectReferenceStatus ref))"
  using assms by (auto simp: fun_eq_iff GetOpenAPIDefinitions_def inj_eq)

lemma map_of_omit [simp]:
  "map_of (omit_string n s) k = (if k = n \<and> s \<noteq> '''' then Some (JString s) else None)"
  "map_of (omit_bool n b) k = (if k = n \<and> b then Some (JBool True) else None)"
  by (simp_all add: omit_string_def omit_bool_def)

lemma map_of_append_at: "map_of (xs @ ys) k = (case map_of xs k of None \<Rightarrow> map_of ys k | Some v \<Rightarrow> Some v)"
  by (induction xs) auto

lemmas reading = map_of_append_at zero_schema_def has_type_def definition_defs o_def

lemma claim_spec_conforms:
  assumes "parts_accepted ref jl other"
  shows "accepts (Suc (Suc n)) ref other (ref (api ''ProjectClaimSpec'')) (ProjectClaimSpec_json s)"
proof -
  have inj: "inj ref" using assms by (simp add: parts_accepted_def)
  show ?thesis
    unfolding accepts_definition(2) [OF inj]
    using assms accepts_parts(1,2) [OF inj]
    by (simp add: reading ProjectClaimSpec_json_def parts_accepted_def list_all_iff del: accepts.simps map_of_append)
qed

lemma reference_spec_conforms:
  assumes "parts_accepted ref jl other"
  shows "accepts (Suc (Suc n)) ref other (ref (api ''ProjectReferenceSpec'')) (ProjectReferenceSpec_json s)"
proof -
  have inj: "inj ref" using assms by (simp add: parts_accepted_def)
  show ?thesis
    unfolding accepts_definition(5) [OF inj]
    using assms accepts_parts(1,2) [OF inj]
    by (simp add: reading ProjectReferenceSpec_json_def parts_accepted_def del: accepts.simps map_of_append)
qed

lemma status_conforms:
  assumes "parts_accepted ref jl other"
  shows "accepts (Suc (Suc n)) ref other (ref (api ''ProjectClaimStatus'')) (ProjectClaimStatus_json jl s) \<longleftrightarrow> pct_Conditions s \<noteq> None"
    and "accepts (Suc (Suc n)) ref other (ref (api ''ProjectReferenceStatus'')) (ProjectReferenceStatus_json jl t) \<longleftrightarrow> prt_Conditions t \<noteq> None"
proof -
  have inj: "inj ref" using assms by (simp add: parts_accepted_def)
  show "accepts (Suc (Suc n)) ref other (ref (api ''ProjectClaimStatus'')) (ProjectClaimStatus_json jl s) \<longleftrightarrow> pct_Conditions s \<noteq> None"
    unfolding accepts_definition(3) [OF inj] using assms accepts_parts(3) [OF inj]
    by (cases "pct_Conditions s")
      (simp_all add: reading ProjectClaimStatus_json_def conditions_json_def parts_accepted_def list_all_iff del: accepts.simps map_of_append)
  show "accepts (Suc (Suc n)) ref other (ref (api ''ProjectReferenceStatus'')) (ProjectReferenceStatus_json jl t) \<longleftrightarrow> prt_Conditions t \<noteq> None"
    unfolding accepts_definition(6) [OF inj] using assms accepts_parts(3) [OF inj]
    by (cases "prt_Conditions t")
      (simp_all add: reading ProjectReferenceStatus_json_def conditions_json_def parts_accepted_def list_all_iff del: accepts.simps map_of_append)
qed

text \<open>C35: The structs and the OpenAPI definitions agree.  What Go makes of a claim or a reference is accepted by
  its definition exactly when its conditions are not nil: every field has the name and the type the
  definition gives it and the required ones are there, but nil conditions are null, not an array.\<close>

theorem objects_conform:
  assumes "parts_accepted ref jl other" and "3 \<le> n"
  shows "(accepts n ref other (ref (api ''ProjectClaim'')) (ProjectClaim_json jl tm c) \<longleftrightarrow> pc_Conditions c \<noteq> None) \<and>
    (accepts n ref other (ref (api ''ProjectReference'')) (ProjectReference_json jl tm r) \<longleftrightarrow> pr_Conditions r \<noteq> None)"
proof -
  have inj: "inj ref" using assms by (simp add: parts_accepted_def)
  obtain m where n: "n = Suc (Suc (Suc m))" using assms(2) by (auto simp: le_iff_add)
  note parts = claim_spec_conforms [OF assms(1), of m] reference_spec_conforms [OF assms(1), of m] status_conforms [OF assms(1), of m]
    accepts_parts(4) [OF inj, of "Suc m"]
  have "accepts n ref other (ref (api ''ProjectClaim'')) (ProjectClaim_json jl tm c) \<longleftrightarrow> pc_Conditions c \<noteq> None"
    unfolding n accepts_definition(1) [OF inj] using assms parts
    by (simp add: reading ProjectClaim_json_def parts_accepted_def del: accepts.simps map_of_append)
  moreover have "accepts n ref other (ref (api ''ProjectReference'')) (ProjectReference_json jl tm r) \<longleftrightarrow> pr_Conditions r \<noteq> None"
    unfolding n accepts_definition(4) [OF inj] using assms parts
    by (simp add: reading ProjectReference_json_def parts_accepted_def del: accepts.simps map_of_append)
  ultimately show ?thesis by blast
qed

text \<open>References as the API server makes them, and parts known only to be objects.\<close>

definition pointer_ref :: ReferenceCallback where "pointer_ref name = ''#/definitions/'' @ name"

definition any_object :: "string \<Rightarrow> json \<Rightarrow> bool" where
  "any_object r j = (case j of JObject fs \<Rightarrow> True | _ \<Rightarrow> False)"

definition sample_json_library :: json_library where
  "sample_json_library = \<lparr>jl_Time = (\<lambda>t. if t = 0 then JNull else JString ''2024-01-01T00:00:00Z''),
     jl_ObjectMeta = (\<lambda>md. JObject [(''name'', JString (om_Name md))])\<rparr>"

lemma parts_sample: "parts_accepted pointer_ref sample_json_library any_object"
  by (simp add: parts_accepted_def pointer_ref_def any_object_def LegalEntity_json_def NamespacedName_json_def
      Condition_json_def sample_json_library_def inj_def)

theorem objects_conform_witness:
  "\<not> accepts 3 pointer_ref any_object (pointer_ref (api ''ProjectReference''))
     (ProjectReference_json sample_json_library \<lparr>tm_Kind = ''ProjectReference'', tm_APIVersion = ''v1alpha1''\<rparr>
       (newMatchingProjectReference \<lparr>pc_Meta = new_meta ''web'' ''team'',
         pc_Spec = \<lparr>pcs_LegalEntity = \<lparr>le_Name = ''legal'', le_ID = ''1''\<rparr>,
           pcs_GCPCredentialSecret = namespaced '''' '''', pcs_Region = ''us-east1'', pcs_GCPProjectID = '''',
           pcs_ProjectReferenceCRLink = namespaced '''' '''', pcs_AvailabilityZones = [], pcs_CCS = False,
           pcs_CCSSecretRef = namespaced '''' '''', pcs_CCSProjectID = '''', pcs_SharedVPCAccess = False\<rparr>,
         pc_Status = \<lparr>pct_Conditions = None, pct_State = ''''\<rparr>\<rparr>))"
  using objects_conform [OF parts_sample, of 3]
  by (simp add: newMatchingProjectReference_def Let_def del: accepts.simps)

subsection \<open>The dependencies\<close>

text \<open>The references in a schema.\<close>

fun refs_in :: "schema \<Rightarrow> string list" where
  "refs_in (Schema d t f df r ps it rq ex) =
     (if r = '''' then [] else [r]) @ concat (map (\<lambda>p. refs_in (snd p)) ps) @ (case it of None \<Rightarrow> [] | Some p \<Rightarrow> refs_in p)"

definition defined_names :: "ReferenceCallback \<Rightarrow> string set" where
  "defined_names ref = set (map fst (GetOpenAPIDefinitions ref))"

definition depended_names :: "ReferenceCallback \<Rightarrow> string set" where
  "depended_names ref = (\<Union>d\<in>set (map snd (GetOpenAPIDefinitions ref)). set (od_Dependencies d))"

definition declares_refs :: "ReferenceCallback \<Rightarrow> OpenAPIDefinition \<Rightarrow> bool" where
  "declares_refs ref d \<longleftrightarrow> set (refs_in (od_Schema d)) = ref ` set (od_Dependencies d)"

text \<open>The definitions declare their dependencies, but not all of these are defined.  Each definition lists as
  dependencies exactly what its schema refers to; of those the file itself lacks \<^verbatim>\<open>LegalEntity\<close>,
  \<^verbatim>\<open>NamespacedName\<close> and \<^verbatim>\<open>Condition\<close> of its own package, besides the metadata of the library, so a reader of
  the definitions cannot resolve the references to them.\<close>

theorem dependencies_undefined:
  assumes "\<forall>name. ref name \<noteq> ''''"
  shows "(\<forall>(name, d)\<in>set (GetOpenAPIDefinitions ref). declares_refs ref d) \<and>
    depended_names ref - defined_names ref = {api ''LegalEntity'', api ''NamespacedName'', api ''Condition'', api_ObjectMeta}"
proof
  show "\<forall>(name, d)\<in>set (GetOpenAPIDefinitions ref). declares_refs ref d"
    using assms by (simp add: GetOpenAPIDefinitions_def definition_defs zero_schema_def declares_refs_def o_def)
       blast
  show "depended_names ref - defined_names ref = {api ''LegalEntity'', api ''NamespacedName'', api ''Condition'', api_ObjectMeta}"
    by (auto simp: depended_names_def defined_names_def GetOpenAPIDefinitions_def definition_defs)
qed

theorem dependencies_undefined_witness:
  "api ''Condition'' \<in> depended_names pointer_ref - defined_names pointer_ref"
proof -
  have "\<forall>name. pointer_ref name \<noteq> ''''" by (simp add: pointer_ref_def)
  from dependencies_undefined [OF this] show ?thesis by simp
qed

subsection \<open>A status that is refused\<close>

text \<open>A server that checks the status of a reference against its definition, and stores nothing it refuses.\<close>

definition checks_status :: "ReferenceCallback \<Rightarrow> json_library \<Rightarrow> (string \<Rightarrow> json \<Rightarrow> bool) \<Rightarrow> 'w kube_client \<Rightarrow> bool" where
  "checks_status ref jl other client \<longleftrightarrow>
     (\<forall>r w. \<not> accepts 3 ref other (ref (api ''ProjectReferenceStatus'')) (ProjectReferenceStatus_json jl (pr_Status r)) \<longrightarrow>
        (\<exists>e obj. k_StatusUpdateProjectReference client r w = ((Some e, obj), w)))"

text \<open>C34: An invalid reference that has no conditions yet is never marked as one.  \<^verbatim>\<open>Reconcile\<close> writes the state Error
  before the conditions are made, so the status has null for the conditions that the definition requires
  to be an array; a server that checks this refuses it, and every run fails and leaves everything as it is.\<close>

theorem invalid_reference_never_marked:
  assumes "parts_accepted ref jl other" and "checks_status ref jl other (prr_Client rec)"
    and "k_GetProjectReference (prr_Client rec) rk w = (Inr r, w)" and "om_DeletionTimestamp (pr_Meta r) = None"
    and "ProjectReference_Validate r \<noteq> None" and "pr_Conditions r = None" and "pr_State r \<noteq> ProjectReferenceStatusError"
  shows "\<exists>e. reference_Reconcile rec rk w = ((empty_Result, Some e), w)"
proof -
  let ?x = "set_reference_state ProjectReferenceStatusError r"
  have "\<not> accepts 3 ref other (ref (api ''ProjectReferenceStatus'')) (ProjectReferenceStatus_json jl (pr_Status ?x))"
    using status_conforms(2) [OF assms(1), of 1 "pr_Status ?x"] assms(6) by (simp add: numeral_3_eq_3 del: accepts.simps)
  with assms(2) obtain e obj where "k_StatusUpdateProjectReference (prr_Client rec) ?x w = ((Some e, obj), w)"
    unfolding checks_status_def by blast
  with assms show ?thesis by (simp add: reference_Reconcile_def)
qed

definition checking_reconciler :: "cluster ProjectReferenceReconciler" where
  "checking_reconciler = cluster_reconciler\<lparr>prr_Client := cluster_kube\<lparr>k_StatusUpdateProjectReference := (\<lambda>r w.
     if accepts 3 pointer_ref any_object (pointer_ref (api ''ProjectReferenceStatus''))
          (ProjectReferenceStatus_json sample_json_library (pr_Status r))
     then k_StatusUpdateProjectReference cluster_kube r w else ((Some (PlainError ''status.conditions: Required value''), r), w))\<rparr>\<rparr>"

definition invalid_reference :: ProjectReference where
  "invalid_reference = \<lparr>pr_Meta = new_meta ''team-web'' ProjectReferenceNamespace,
     pr_Spec = \<lparr>prs_GCPProjectID = '''', prs_ProjectClaimCRLink = namespaced ''team'' ''web'',
       prs_LegalEntity = \<lparr>le_Name = '''', le_ID = ''''\<rparr>, prs_CCS = True, prs_CCSSecretRef = namespaced ''other'' ''secret'',
       prs_ServiceAccountName = '''', prs_SharedVPCAccess = False\<rparr>,
     pr_Status = \<lparr>prt_Conditions = None, prt_State = ''''\<rparr>\<rparr>"

theorem invalid_reference_never_marked_witness:
  "\<exists>e. reference_Reconcile checking_reconciler sample_reference_key
      (empty_cluster\<lparr>cl_references := [sample_reference_key \<mapsto> invalid_reference]\<rparr>) =
    ((empty_Result, Some e), empty_cluster\<lparr>cl_references := [sample_reference_key \<mapsto> invalid_reference]\<rparr>)"
proof -
  have "checks_status pointer_ref sample_json_library any_object (prr_Client checking_reconciler)"
    by (simp add: checks_status_def checking_reconciler_def del: accepts.simps)
  moreover have "k_GetProjectReference (prr_Client checking_reconciler) sample_reference_key
      (empty_cluster\<lparr>cl_references := [sample_reference_key \<mapsto> invalid_reference]\<rparr>) =
    (Inr invalid_reference, empty_cluster\<lparr>cl_references := [sample_reference_key \<mapsto> invalid_reference]\<rparr>)"
    by (simp add: checking_reconciler_def cluster_kube_def api_get_def set_pr_meta_def invalid_reference_def new_meta_def
        keyed_def sample_reference_key_def namespaced_def ProjectReferenceNamespace_def)
  ultimately show ?thesis
    by (rule invalid_reference_never_marked [OF parts_sample])
      (simp_all add: invalid_reference_def new_meta_def ProjectReference_Validate_None own_namespace_def namespaced_def)
qed

end
