(* ===== verification/StateGraphs.thy ===== *)
theory StateGraphs
  imports SystemProperties
begin

text \<open>
  The state graphs of claims and references: which states a whole \<^verbatim>\<open>Reconcile\<close> may write, whatever
  the server answers, and how the states on the server move while one call of either controller is
  served.
\<close>

subsection \<open>The statuses of one run\<close>

text \<open>
  A walk over the observations of a run.  It keeps the claim as it was read, the claim as the server
  last answered with it, and whether a status was written since the read.  A status written has the
  state last answered with; or it is the first one, and its state is one step of the graph away from
  the state that was read, or it is Ready and the claim that was read is fake.
\<close>

fun claim_walk :: "(ProjectClaim \<times> ProjectClaim \<times> bool) option \<Rightarrow> observation list \<Rightarrow> bool" where
  "claim_walk run [] = True"
| "claim_walk run (SawClaim nn (Inr c) # obs) = claim_walk (Some (c, c, False)) obs"
| "claim_walk run (UpdatedClaim x (None, c) # obs) =
     claim_walk (map_option (\<lambda>(read, latest, written). (read, c, written)) run) obs"
| "claim_walk run (WroteClaimStatus x (e, c) # obs) =
     (case run of
        None \<Rightarrow> False
      | Some (read, latest, written) \<Rightarrow>
          (pc_State x = pc_State latest \<or>
           \<not> written \<and> (claim_step (pc_State read) (pc_State x) \<or> is_fake read \<and> pc_State x = ClaimStatusReady)) \<and>
          claim_walk (Some (if e = None then (read, c, True) else (read, latest, written))) obs)"
| "claim_walk run (ob # obs) = claim_walk run obs"

text \<open>Likewise for a reference; instead of the fake claims, the references that \<^verbatim>\<open>Validate\<close> rejects are marked.\<close>

fun reference_walk :: "(ProjectReference \<times> ProjectReference \<times> bool) option \<Rightarrow> observation list \<Rightarrow> bool" where
  "reference_walk run [] = True"
| "reference_walk run (SawReference rk (Inr r) # obs) = reference_walk (Some (r, r, False)) obs"
| "reference_walk run (UpdatedReference x (None, r) # obs) =
     reference_walk (map_option (\<lambda>(read, latest, written). (read, r, written)) run) obs"
| "reference_walk run (WroteReferenceStatus x (e, r) # obs) =
     (case run of
        None \<Rightarrow> False
      | Some (read, latest, written) \<Rightarrow>
          (pr_State x = pr_State latest \<or>
           \<not> written \<and> reference_step (pr_State read) (pr_State x) \<or>
           rejected latest \<and> pr_State x = ProjectReferenceStatusError) \<and>
          reference_walk (Some (if e = None then (read, r, True) else (read, latest, written))) obs)"
| "reference_walk run (ob # obs) = reference_walk run obs"

definition claim_walker :: "claim_knowledge \<Rightarrow> (ProjectClaim \<times> ProjectClaim \<times> bool) option" where
  "claim_walker m = (case (ck_read m, ck_claim m) of (Some c0, Some c) \<Rightarrow> Some (c0, c, ck_moved m) | _ \<Rightarrow> None)"

definition reference_walker :: "reference_knowledge \<Rightarrow> (ProjectReference \<times> ProjectReference \<times> bool) option" where
  "reference_walker m = (case (rk_read m, rk_reference m) of (Some r0, Some r) \<Rightarrow> Some (r0, r, rk_moved m) | _ \<Rightarrow> None)"

lemma watched_claim_walk:
  "watch (claim_rule nn) m obs \<noteq> None \<Longrightarrow> (\<forall>c. ck_claim m = Some c \<longrightarrow> ck_read m \<noteq> None) \<Longrightarrow>
     claim_walk (claim_walker m) obs"
proof (induction obs arbitrary: m)
  case (Cons ob obs)
  then obtain m' where m': "claim_rule nn m ob = Some m'" "watch (claim_rule nn) m' obs \<noteq> None"
    by (auto split: option.splits)
  then have "\<forall>c. ck_claim m' = Some c \<longrightarrow> ck_read m' \<noteq> None"
    using Cons.prems(2) by (cases ob) (auto simp: learned_def wrote_def split: option.splits sum.splits if_splits)
  with Cons.IH m'(2) have "claim_walk (claim_walker m') obs" by blast
  with m'(1) Cons.prems(2) show ?case
    by (cases ob) (auto simp: claim_walker_def learned_def wrote_def may_move_def claim_moves_def
        split: option.splits sum.splits if_splits)
qed simp

lemma watched_reference_walk:
  "watch (reference_rule rk) m obs \<noteq> None \<Longrightarrow> (\<forall>r. rk_reference m = Some r \<longrightarrow> rk_read m \<noteq> None) \<Longrightarrow>
     reference_walk (reference_walker m) obs"
proof (induction obs arbitrary: m)
  case (Cons ob obs)
  then obtain m' where m': "reference_rule rk m ob = Some m'" "watch (reference_rule rk) m' obs \<noteq> None"
    by (auto split: option.splits)
  then have "\<forall>r. rk_reference m' = Some r \<longrightarrow> rk_read m' \<noteq> None"
    using Cons.prems(2)
    by (cases ob) (auto simp: ref_learned_def ref_wrote_def ref_learned_claim_def split: option.splits sum.splits if_splits)
  with Cons.IH m'(2) have "reference_walk (reference_walker m') obs" by blast
  with m'(1) Cons.prems(2) show ?case
    by (cases ob) (auto simp: reference_walker_def ref_learned_def ref_wrote_def ref_learned_claim_def ref_may_move_def
        split: option.splits sum.splits if_splits)
qed simp

subsection \<open>The states on the server\<close>

text \<open>
  One call of a controller, served: the state of a claim that was there before and is there after has
  moved along the graph, or to Ready, for a claim that carries the finalizer of its controller; the
  state of a reference has moved along its graph, or the reference was rejected and is marked Error.
\<close>

definition claim_edge :: "ProjectClaim \<Rightarrow> ProjectClaim \<Rightarrow> bool" where
  "claim_edge c c' \<longleftrightarrow> claim_step (pc_State c) (pc_State c') \<or> pc_State c' = ClaimStatusReady \<and> guarded c"

definition reference_edge :: "ProjectReference \<Rightarrow> ProjectReference \<Rightarrow> bool" where
  "reference_edge r r' \<longleftrightarrow> reference_step (pr_State r) (pr_State r') \<or>
     rejected r \<and> pr_State r' = ProjectReferenceStatusError"

definition states_follow :: "cluster \<Rightarrow> cluster \<Rightarrow> bool" where
  "states_follow cl cl' \<longleftrightarrow>
     (\<forall>nn c c'. cl_claims cl nn = Some c \<longrightarrow> cl_claims cl' nn = Some c' \<longrightarrow> claim_edge c c') \<and>
     (\<forall>rk r r'. cl_references cl rk = Some r \<longrightarrow> cl_references cl' rk = Some r' \<longrightarrow> reference_edge r r')"

lemma edge_stays [simp]:
  "pc_State c' = pc_State c \<Longrightarrow> claim_edge c c'" "pr_State r' = pr_State r \<Longrightarrow> reference_edge r r'"
  by (auto simp: claim_edge_def reference_edge_def)

lemma quiet_follow: "quiet_move cl cl' \<Longrightarrow> states_follow cl cl'"
  by (auto simp: quiet_move_def states_follow_def)

lemma claim_move_follow:
  "claim_move nn new cl cl' \<Longrightarrow> (\<And>c c'. cl_claims cl nn = Some c \<Longrightarrow> new = Some c' \<Longrightarrow> claim_edge c c') \<Longrightarrow>
     states_follow cl cl'"
  by (auto simp: claim_move_def states_follow_def)

lemma reference_move_follow:
  "reference_move rk new cl cl' \<Longrightarrow> (\<And>r r'. cl_references cl rk = Some r \<Longrightarrow> new = Some r' \<Longrightarrow> reference_edge r r') \<Longrightarrow>
     states_follow cl cl'"
  by (auto simp: reference_move_def states_follow_def)

lemma claim_written_follow:
  assumes "claim_written P x a cl cl'"
    and "\<And>c obj. cl_claims cl (meta_key (pc_Meta x)) = Some c \<Longrightarrow> claim_version c = claim_version x \<Longrightarrow> P c obj \<Longrightarrow>
      claim_edge c obj"
  shows "states_follow cl cl'"
proof (cases "fst a")
  case None
  with assms(1) obtain c where c: "cl_claims cl (meta_key (pc_Meta x)) = Some c" "claim_version x = claim_version c"
    "P c (snd a)" and mv: "claim_move (meta_key (pc_Meta x)) (stored_claim (snd a)) cl cl'"
    by (auto simp: claim_written_def)
  from assms(2) [OF c(1) c(2) [symmetric] c(3)] show ?thesis
    by (intro claim_move_follow [OF mv]) (use c(1) in \<open>auto dest!: stored_claim_Some\<close>)
qed (use assms(1) in \<open>simp add: claim_written_def quiet_follow\<close>)

lemma reference_written_follow:
  assumes "reference_written P x a cl cl'"
    and "\<And>r obj. cl_references cl (meta_key (pr_Meta x)) = Some r \<Longrightarrow> reference_version r = reference_version x \<Longrightarrow>
      P r obj \<Longrightarrow> reference_edge r obj"
  shows "states_follow cl cl'"
proof (cases "fst a")
  case None
  with assms(1) obtain r where r: "cl_references cl (meta_key (pr_Meta x)) = Some r"
    "reference_version x = reference_version r" "P r (snd a)"
    and mv: "reference_move (meta_key (pr_Meta x)) (stored_reference (snd a)) cl cl'"
    by (auto simp: reference_written_def)
  from assms(2) [OF r(1) r(2) [symmetric] r(3)] show ?thesis
    by (intro reference_move_follow [OF mv]) (use r(1) in \<open>auto dest!: stored_reference_Some\<close>)
qed (use assms(1) in \<open>simp add: reference_written_def quiet_follow\<close>)

text \<open>Until it has written a status, a run has the state it read.\<close>

definition claim_origin :: "claim_knowledge \<Rightarrow> bool" where
  "claim_origin m \<longleftrightarrow> (\<forall>c c0. ck_claim m = Some c \<longrightarrow> ck_read m = Some c0 \<longrightarrow> \<not> ck_moved m \<longrightarrow>
     pc_State c = pc_State c0)"

definition reference_origin :: "reference_knowledge \<Rightarrow> bool" where
  "reference_origin m \<longleftrightarrow> (\<forall>r r0. rk_reference m = Some r \<longrightarrow> rk_read m = Some r0 \<longrightarrow> \<not> rk_moved m \<longrightarrow>
     pr_State r = pr_State r0)"

lemma known_claim:
  assumes "claim_knows cl nn m" "based_on nn m c x" "cl_claims cl (meta_key (pc_Meta x)) = Some c'"
    "claim_version c' = claim_version x"
  shows "pc_State c' = pc_State c" "om_Finalizers (pc_Meta c') = om_Finalizers (pc_Meta c)"
  using assms by (auto simp: claim_knows_def based_on_def seen_claim_def)

lemma claim_edge_written:
  assumes stored: "pc_State c' = pc_State c" "om_Finalizers (pc_Meta c') = om_Finalizers (pc_Meta c)"
    and obj: "pc_State obj = pc_State x" and may: "may_have_state c x" "may_move m c x"
    and orig: "claim_origin m" and c: "ck_claim m = Some c"
  shows "claim_edge c' obj"
proof (cases "pc_State x = pc_State c")
  case True
  with stored obj show ?thesis by simp
next
  case False
  with may(2) obtain c0 where c0: "ck_read m = Some c0" "\<not> ck_moved m" "claim_moves c0 (pc_State x)"
    unfolding may_move_def by blast
  then have "pc_State c0 = pc_State c'" using orig c stored by (simp add: claim_origin_def)
  with c0(3) have "claim_step (pc_State c') (pc_State obj) \<or> pc_State x = ClaimStatusReady"
    unfolding claim_moves_def obj by auto
  moreover have "guarded c'" if "pc_State x = ClaimStatusReady"
    using may(1) False that stored(2) unfolding may_have_state_def by simp
  ultimately show ?thesis unfolding claim_edge_def using obj by auto
qed

lemma claim_call_graph:
  assumes know: "claim_knows cl nn m" and rule: "claim_rule nn m ob = Some m'" and served: "served ob cl cl'"
    and orig: "claim_origin m"
  shows "claim_origin m' \<and> states_follow cl cl'"
proof (cases ob)
  case (UpdatedClaim x a)
  then obtain c where base: "based_on nn m c x" and m': "m' = learned m a"
    using rule by (auto simp: based_on_def split: option.splits)
  from served UpdatedClaim have "write_as x a (k_UpdateProjectClaim cluster_kube x cl) cl cl'" by simp
  then show ?thesis
  proof (cases rule: write_as_cases)
    case unchanged
    with orig m' show ?thesis by (auto simp: learned_def quiet_follow)
  next
    case (performed a')
    note w = update_claim_written [OF performed(1)]
    have "states_follow cl cl'" by (rule claim_written_follow [OF w]) simp
    moreover have "pc_State (snd a) = pc_State c" if "fst a = None"
      using w performed(2) that known_claim(1) [OF know base] by (auto simp: claim_written_def)
    then have "claim_origin m'" using orig base by (auto simp: m' claim_origin_def learned_def based_on_def)
    ultimately show ?thesis by simp
  qed
next
  case (WroteClaimStatus x a)
  then obtain c where base: "based_on nn m c x" and may: "may_have_state c x" "may_move m c x" and m': "m' = wrote m a"
    using rule by (auto simp: based_on_def split: option.splits)
  have "claim_origin m'" using orig by (simp add: m' wrote_def claim_origin_def)
  moreover have "claim_edge c' obj" if "cl_claims cl (meta_key (pc_Meta x)) = Some c'" "claim_version c' = claim_version x"
      "pc_State obj = pc_State x" for c' obj
    using claim_edge_written [OF known_claim [OF know base that(1,2)] that(3) may orig] base by (simp add: based_on_def)
  then have "states_follow cl cl'" if "k_StatusUpdateProjectClaim cluster_kube x cl = (a', cl')" for a'
    by (intro claim_written_follow [OF status_claim_written [OF that]]) simp
  moreover from served WroteClaimStatus have "write_as x a (k_StatusUpdateProjectClaim cluster_kube x cl) cl cl'" by simp
  then have "cl' = cl \<or> (\<exists>a'. k_StatusUpdateProjectClaim cluster_kube x cl = (a', cl'))"
    by (cases rule: write_as_cases) blast+
  ultimately show ?thesis by (auto simp: quiet_follow)
next
  case (CreatedReference x a)
  then have "claim_origin m'" using rule orig by (auto simp: claim_origin_def split: option.splits)
  moreover from served CreatedReference have "write_as x a (k_CreateProjectReference cluster_kube x cl) cl cl'" by simp
  then have "states_follow cl cl'"
  proof (cases rule: write_as_cases)
    case (performed a')
    then show ?thesis
      using create_reference_move [of x cl "fst a'" "snd a'" cl']
      by (auto simp: quiet_follow split: if_splits elim!: reference_move_follow)
  qed (simp add: quiet_follow)
  ultimately show ?thesis by simp
next
  case (DeletedReference x e)
  then have "m' = m" using rule by (auto split: option.splits)
  moreover from served DeletedReference have "delete_as e (k_DeleteProjectReference cluster_kube x cl) cl cl'" by simp
  then have "states_follow cl cl'"
  proof (cases rule: delete_as_cases)
    case (performed e')
    from delete_reference_move [OF this] show ?thesis
      by (auto simp: quiet_follow dest: marked_reference_sel(3) elim!: reference_move_follow)
  qed (simp add: quiet_follow)
  ultimately show ?thesis using orig by simp
next
  case (SawClaim k a)
  with served rule orig show ?thesis
    by (auto simp: claim_origin_def quiet_follow split: sum.splits)
next
  case (SawReference k a)
  with served rule orig show ?thesis by (auto simp: claim_origin_def quiet_follow)
qed (use rule in simp_all)

lemma known_reference:
  assumes "reference_knows cl rk m" "rk_reference m = Some r" "ref_based_on rk r x"
    "cl_references cl (meta_key (pr_Meta x)) = Some r'" "reference_version r' = reference_version x"
  shows "pr_State r' = pr_State r" "rejected r' = rejected r"
  using assms by (auto simp: reference_knows_def ref_based_on_def seen_reference_def rejected_def
      ProjectReference_Validate_def)

lemma reference_edge_written:
  assumes stored: "pr_State r' = pr_State r" "rejected r' = rejected r" and obj: "pr_State obj = pr_State x"
    and may: "ref_may_move m r x" and orig: "reference_origin m" and r: "rk_reference m = Some r"
  shows "reference_edge r' obj"
proof -
  have "pr_State r0 = pr_State r" if "rk_read m = Some r0" "\<not> rk_moved m" for r0
    using orig that r by (simp add: reference_origin_def)
  with may stored obj show ?thesis unfolding ref_may_move_def reference_edge_def by auto
qed

lemma reference_origin_learned_claim [simp]: "reference_origin (ref_learned_claim m a) = reference_origin m"
  by (simp add: reference_origin_def ref_learned_claim_def)

lemma reference_call_graph:
  assumes inv: "cluster_inv cl" and know: "reference_knows cl rk m" and rule: "reference_rule rk m ob = Some m'" and served: "served ob cl cl'"
    and orig: "reference_origin m"
  shows "reference_origin m' \<and> states_follow cl cl'"
proof (cases ob)
  case (UpdatedReference x a)
  then obtain r where r: "rk_reference m = Some r" and base: "ref_based_on rk r x" and m': "m' = ref_learned m a"
    using rule by (auto split: option.splits)
  from served UpdatedReference have "write_as x a (k_UpdateProjectReference cluster_kube x cl) cl cl'" by simp
  then show ?thesis
  proof (cases rule: write_as_cases)
    case unchanged
    with orig m' show ?thesis by (auto simp: ref_learned_def quiet_follow)
  next
    case (performed a')
    note w = update_reference_written [OF performed(1)]
    have "states_follow cl cl'" by (rule reference_written_follow [OF w]) simp
    moreover have "pr_State (snd a) = pr_State r" if "fst a = None"
      using w performed(2) that known_reference(1) [OF know r base] by (auto simp: reference_written_def)
    then have "reference_origin m'" using orig r by (auto simp: m' reference_origin_def ref_learned_def)
    ultimately show ?thesis by simp
  qed
next
  case (WroteReferenceStatus x a)
  then obtain r where r: "rk_reference m = Some r" and base: "ref_based_on rk r x" and may: "ref_may_move m r x"
    and m': "m' = ref_wrote m a"
    using rule by (auto split: option.splits)
  have "reference_origin m'" using orig by (simp add: m' ref_wrote_def reference_origin_def)
  moreover have "reference_edge r' obj" if "cl_references cl (meta_key (pr_Meta x)) = Some r'"
      "reference_version r' = reference_version x" "pr_State obj = pr_State x" for r' obj
    by (rule reference_edge_written [OF known_reference [OF know r base that(1,2)] that(3) may orig r])
  then have "states_follow cl cl'" if "k_StatusUpdateProjectReference cluster_kube x cl = (a', cl')" for a'
    by (intro reference_written_follow [OF status_reference_written [OF that]]) simp
  moreover from served WroteReferenceStatus
  have "write_as x a (k_StatusUpdateProjectReference cluster_kube x cl) cl cl'" by simp
  then have "cl' = cl \<or> (\<exists>a'. k_StatusUpdateProjectReference cluster_kube x cl = (a', cl'))"
    by (cases rule: write_as_cases) blast+
  ultimately show ?thesis by (auto simp: quiet_follow)
next
  case (UpdatedClaim x a)
  then have "reference_origin m'"
    using rule orig by (auto split: option.splits)
  moreover from served UpdatedClaim have "write_as x a (k_UpdateProjectClaim cluster_kube x cl) cl cl'" by simp
  then have "states_follow cl cl'"
    by (cases rule: write_as_cases) (auto simp: quiet_follow elim: claim_written_follow [OF update_claim_written])
  ultimately show ?thesis by simp
next
  case (WroteClaimStatus x a)
  then obtain r c where r: "rk_reference m = Some r" and c: "rk_claim m = Some c" and x: "pc_Meta x = pc_Meta c"
    and ready: "pr_State r = ProjectReferenceStatusReady" "\<not> reference_deleted r" "pc_State x = ClaimStatusReady"
    and m': "m' = ref_learned_claim m a"
    using rule by (auto split: option.splits)
  have seen: "seen_reference cl rk r" "seen_claim cl (link_of r) c" using know r c by (simp_all add: reference_knows_def)
  with ready obtain r' where r': "cl_references cl rk = Some r'" "held r'" "link_of r' = link_of r"
    unfolding seen_reference_def by blast
  have key: "meta_key (pc_Meta x) = link_of r" using seen(2) x by (simp add: seen_claim_def)
  have "claim_edge c' obj" if "cl_claims cl (meta_key (pc_Meta x)) = Some c'" "pc_State obj = pc_State x" for c' obj
    using cluster_invD(2) [OF inv r'(1,2)] that r'(3) ready(3) key by (auto simp: claim_edge_def)
  then have "states_follow cl cl'" if "k_StatusUpdateProjectClaim cluster_kube x cl = (a', cl')" for a'
    by (intro claim_written_follow [OF status_claim_written [OF that]]) simp
  moreover from served WroteClaimStatus
  have "write_as x a (k_StatusUpdateProjectClaim cluster_kube x cl) cl cl'" by simp
  then have "cl' = cl \<or> (\<exists>a'. k_StatusUpdateProjectClaim cluster_kube x cl = (a', cl'))"
    by (cases rule: write_as_cases) blast+
  moreover have "reference_origin m'" using orig by (simp add: m')
  ultimately show ?thesis by (auto simp: quiet_follow)
next
  case (SawClaim k a)
  with served rule orig show ?thesis
    by (auto simp: reference_origin_def quiet_follow split: sum.splits option.splits)
next
  case (SawReference k a)
  with served rule orig show ?thesis by (auto simp: reference_origin_def quiet_follow split: sum.splits)
qed (use rule in simp_all)

subsection \<open>Every step of the system\<close>

definition runs_origin :: "system \<Rightarrow> bool" where
  "runs_origin s \<longleftrightarrow>
     (\<forall>nn obs m. sys_claim_run s = Some (nn, obs) \<longrightarrow> claim_watch nn obs = Some m \<longrightarrow> claim_origin m) \<and>
     (\<forall>rk obs m. sys_reference_run s = Some (rk, obs) \<longrightarrow> reference_watch rk obs = Some m \<longrightarrow> reference_origin m)"

lemma nothing_known_origin [simp]: "claim_origin no_claim_knowledge" "reference_origin no_reference_knowledge"
  by (simp_all add: claim_origin_def reference_origin_def no_claim_knowledge_def no_reference_knowledge_def)

lemma system_step_graph:
  assumes K: "proper_answers K" "proper_answers (prr_Client rec)" and inv: "system_inv s" and orig: "runs_origin s"
    and step: "system_step K env rec s s'"
  shows "runs_origin s' \<and> states_follow (sys_cluster s) (sys_cluster s')"
  using step
proof cases
  case (claim_calls nn obs ob w cl)
  obtain m where m: "claim_watch nn obs = Some m" "claim_knows (sys_cluster s) nn m"
    using inv claim_calls(2) by (auto simp: system_inv_def claim_run_inv_def)
  obtain m' where m': "claim_rule nn m ob = Some m'" using claim_watch_begins [OF claim_calls(3) K(1)] m by auto
  have "claim_origin m" using orig claim_calls(2) m by (simp add: runs_origin_def)
  from claim_call_graph [OF m(2) m' claim_calls(4) this] claim_calls m m' orig show ?thesis
    by (simp add: runs_origin_def)
next
  case (reference_calls rk obs ob w cl)
  obtain m where m: "reference_watch rk obs = Some m" "reference_knows (sys_cluster s) rk m"
    using inv reference_calls(2) by (auto simp: system_inv_def reference_run_inv_def)
  obtain m' where m': "reference_rule rk m ob = Some m'"
    using reference_watch_begins [OF reference_calls(3) K(2)] m by auto
  have "reference_origin m" using orig reference_calls(2) m by (simp add: runs_origin_def)
  from reference_call_graph [OF system_inv_cluster [OF inv] m(2) m' reference_calls(4) this] reference_calls m m' orig
  show ?thesis by (simp add: runs_origin_def)
next
  case (tenant_creates x)
  with create_claim_move [of "sys_cluster s" x] orig show ?thesis
    by (auto simp: runs_origin_def quiet_follow elim!: claim_move_follow)
next
  case (tenant_edits x)
  obtain a where "k_UpdateProjectClaim cluster_kube x (sys_cluster s) = (a, edit_claim x (sys_cluster s))"
    by (metis edit_claim_def prod.collapse)
  from claim_written_follow [OF update_claim_written [OF this]] tenant_edits orig show ?thesis
    by (simp add: runs_origin_def)
next
  case (tenant_deletes x)
  with delete_claim_move [of "sys_cluster s" x] orig show ?thesis
    by (auto simp: runs_origin_def quiet_follow deleted_claim_object_def elim!: claim_move_follow split: if_splits)
next
  case (elsewhere cl)
  with orig show ?thesis by (simp add: runs_origin_def quiet_follow quiet_move_def)
qed (use orig in \<open>auto simp: runs_origin_def quiet_follow\<close>)

lemma reachable_origin:
  assumes "reachable K env rec s" and "proper_answers K" and "proper_answers (prr_Client rec)"
  shows "runs_origin s"
  using assms(1)
proof (induction rule: reachable.induct)
  case (start cl)
  then show ?case by (simp add: runs_origin_def)
next
  case (step s s')
  from system_step_graph [OF assms(2,3) reachable_inv [OF step(1) assms(2,3)] step(3,2)] show ?case by simp
qed

lemma reachable_step_follows:
  assumes "reachable K env rec s" and "proper_answers K" and "proper_answers (prr_Client rec)"
    and "system_step K env rec s s'"
  shows "states_follow (sys_cluster s) (sys_cluster s')"
  using system_step_graph [OF assms(2,3) reachable_inv [OF assms(1-3)] reachable_origin [OF assms(1-3)] assms(4)] by simp

subsection \<open>The properties\<close>

text \<open>C12: The states of a claim.  Whatever the server answers, every status of a claim that a whole run of the
  claim controller writes - the run of its handler and the condition recorded after it - has the state the
  server last answered with; or it is the first status written in the run, and its state is one step of the
  graph \<^verbatim>\<open>claim_step\<close> away from the state in which the claim was read, or it is Ready and the claim that was
  read is fake.\<close>

theorem claim_states_follow_graph:
  assumes "proper_answers K"
  shows "claim_walk None (claim_history K env nn w)"
proof -
  have "watch (claim_rule nn) no_claim_knowledge (claim_history K env nn w) \<noteq> None"
    using claim_history_allowed [OF assms, of nn env w] by (simp add: claim_watch_def)
  from watched_claim_walk [OF this] show ?thesis by (simp add: claim_walker_def no_claim_knowledge_def)
qed

text \<open>C13: The states of a reference.  Whatever the server answers, every status of a reference that a whole run of
  the reference controller writes has the state the server last answered with; or it is the first status
  written in the run, and its state is one step of the graph \<^verbatim>\<open>reference_step\<close> away from the state in which
  the reference was read, so that Ready is left for no other state; or the reference is not being deleted,
  \<^verbatim>\<open>Validate\<close> rejects it, and it is marked Error.\<close>

theorem reference_states_follow_graph:
  assumes "proper_answers (prr_Client rec)"
  shows "reference_walk None (reference_history rec rk w)"
proof -
  have "watch (reference_rule rk) no_reference_knowledge (reference_history rec rk w) \<noteq> None"
    using reference_history_allowed [OF assms, of rk w] by (simp add: reference_watch_def)
  from watched_reference_walk [OF this] show ?thesis by (simp add: reference_walker_def no_reference_knowledge_def)
qed

text \<open>C18: The states of the claims on the server.  In every reachable state of the system, with both controllers in
  the middle of their runs, and whatever step comes next, a claim that stays on the server keeps its state, or
  moves one step along the graph \<^verbatim>\<open>claim_step\<close>, or becomes Ready while it carries the finalizer of its
  controller.\<close>

theorem stored_claim_states_move:
  assumes "reachable K env rec s" and "proper_answers K" and "proper_answers (prr_Client rec)"
    and "system_step K env rec s s'"
    and "cl_claims (sys_cluster s) nn = Some c" and "cl_claims (sys_cluster s') nn = Some c'"
  shows "claim_step (pc_State c) (pc_State c') \<or>
    pc_State c' = ClaimStatusReady \<and> ProjectClaimFinalizer \<in> set (om_Finalizers (pc_Meta c))"
  using reachable_step_follows [OF assms(1-4)] assms(5,6) by (auto simp: states_follow_def claim_edge_def)

text \<open>C19: The states of the references on the server.  In every reachable state of the system, and whatever step
  comes next, a reference that stays on the server keeps its state or moves one step along the graph
  \<^verbatim>\<open>reference_step\<close>, in which nothing leaves Ready; only a reference that is not being deleted and that
  \<^verbatim>\<open>Validate\<close> rejects may be marked Error from any state.\<close>

theorem stored_reference_states_move:
  assumes "reachable K env rec s" and "proper_answers K" and "proper_answers (prr_Client rec)"
    and "system_step K env rec s s'"
    and "cl_references (sys_cluster s) rk = Some r" and "cl_references (sys_cluster s') rk = Some r'"
  shows "reference_step (pr_State r) (pr_State r') \<or>
    pr_State r' = ProjectReferenceStatusError \<and> om_DeletionTimestamp (pr_Meta r) = None \<and>
    ProjectReference_Validate r \<noteq> None"
proof -
  have "reference_edge r r'"
    using reachable_step_follows [OF assms(1-4)] assms(5,6) unfolding states_follow_def by blast
  then show ?thesis unfolding reference_edge_def rejected_def by blast
qed

text \<open>A fake claim whose specification is filled in, and a reference rejected by \<^verbatim>\<open>Validate\<close> although it is Ready.\<close>

definition filled_fake_claim :: ProjectClaim where
  "filled_fake_claim = sample_claim\<lparr>pc_Meta := (pc_Meta sample_claim)\<lparr>om_Finalizers := [ProjectClaimFinalizer],
       om_Annotations := [FakeProjectClaim \<mapsto> ''true'']\<rparr>,
     pc_Spec := (pc_Spec sample_claim)\<lparr>pcs_GCPProjectID := ''fakeProjectClaim''\<rparr>\<rparr>"

definition fake_cluster :: cluster where
  "fake_cluster = sample_cluster\<lparr>cl_claims := [sample_key \<mapsto> filled_fake_claim],
     cl_secrets := [namespaced ''team'' ''gcp-secret'' \<mapsto>
       NewGCPSecretCR ''I-am-fake-pass'' (namespaced ''team'' ''gcp-secret'')]\<rparr>"

definition rejected_reference :: ProjectReference where
  "rejected_reference = sample_reference\<lparr>
     pr_Spec := (pr_Spec sample_reference)\<lparr>prs_CCS := True, prs_CCSSecretRef := namespaced ''victim'' ''secret''\<rparr>,
     pr_Status := \<lparr>prt_Conditions = Some [], prt_State = ProjectReferenceStatusReady\<rparr>\<rparr>"

definition rejected_cluster :: cluster where
  "rejected_cluster = sample_cluster\<lparr>cl_references := [sample_reference_key \<mapsto> rejected_reference]\<rparr>"

definition claim_states_written :: "observation list \<Rightarrow> string list" where
  "claim_states_written obs = concat (map (\<lambda>ob. case ob of WroteClaimStatus x a \<Rightarrow> [pc_State x] | _ \<Rightarrow> []) obs)"

definition reference_states_written :: "observation list \<Rightarrow> string list" where
  "reference_states_written obs =
     concat (map (\<lambda>ob. case ob of WroteReferenceStatus x a \<Rightarrow> [pr_State x] | _ \<Rightarrow> []) obs)"

lemma fake_claim_written:
  "claim_states_written (claim_history cluster_kube cluster_env sample_key fake_cluster) = [ClaimStatusReady]"
  by code_simp

lemma rejected_reference_written:
  "reference_states_written (reference_history cluster_reconciler sample_reference_key rejected_cluster) =
     [ProjectReferenceStatusError]"
  by code_simp

theorem claim_states_follow_graph_witness:
  "claim_walk None (claim_history cluster_kube cluster_env sample_key fake_cluster) \<and>
   claim_states_written (claim_history cluster_kube cluster_env sample_key fake_cluster) = [ClaimStatusReady]"
  using claim_states_follow_graph [OF cluster_proper, of cluster_env sample_key fake_cluster]
  by (simp add: fake_claim_written)

theorem reference_states_follow_graph_witness:
  "reference_walk None (reference_history cluster_reconciler sample_reference_key rejected_cluster) \<and>
   reference_states_written (reference_history cluster_reconciler sample_reference_key rejected_cluster) =
     [ProjectReferenceStatusError]"
  using reference_states_follow_graph [OF cluster_client_proper, of sample_reference_key rejected_cluster]
  by (simp add: rejected_reference_written)

subsection \<open>Steps in which a state moves\<close>

fun looks :: "observation \<Rightarrow> bool" where
  "looks (SawClaim nn a) = True"
| "looks (SawReference rk a) = True"
| "looks ob = False"

lemma served_looks: "served_run cl obs cl' \<Longrightarrow> list_all looks obs \<Longrightarrow> quiet_move cl cl'"
proof (induction rule: served_run.induct)
  case (call obs cl1 ob cl2)
  then show ?case by (cases ob) auto
qed (auto intro: quiet_trans)

lemma served_last:
  "served_run cl (obs @ [ob]) cl' \<Longrightarrow> \<exists>a b. served_run cl obs a \<and> served ob a b \<and> quiet_move b cl'"
  by (induction "obs @ [ob]" cl' rule: served_run.induct) (auto intro: quiet_trans quiet_move_refl)

text \<open>The last call of a run of which all other calls only look, as a step of the system.\<close>

lemma claim_run_last_step:
  assumes reach: "cluster_reachable (at_rest cl)" and h: "claim_history cluster_kube cluster_env nn cl = obs @ [ob]"
    and "list_all looks obs"
  obtains s s' where "cluster_reachable s" "system_step cluster_kube cluster_env cluster_reconciler s s'"
    "quiet_move cl (sys_cluster s)" "quiet_move (sys_cluster s') (snd (claim_Reconcile cluster_kube cluster_env nn cl))"
proof -
  have "served_run cl (obs @ [ob]) (snd (claim_Reconcile cluster_kube cluster_env nn cl))"
    using claim_run_served [of cl nn] by (simp only: h)
  then obtain a b where a: "served_run cl obs a" and b: "served ob a b"
    "quiet_move b (snd (claim_Reconcile cluster_kube cluster_env nn cl))" using served_last by blast
  have all: "begins (obs @ [ob]) (claim_history cluster_kube cluster_env nn cl)" by (simp only: h begins_all)
  then have part: "begins obs (claim_history cluster_kube cluster_env nn cl)" by (auto simp: begins_iff)
  let ?s = "(at_rest a)\<lparr>sys_claim_run := Some (nn, obs)\<rparr>"
  have "system_step cluster_kube cluster_env cluster_reconciler ?s
      (?s\<lparr>sys_cluster := b, sys_claim_run := Some (nn, obs @ [ob])\<rparr>)"
    by (rule system_step.claim_calls [OF _ all]) (simp_all add: b(1))
  with served_claim_reachable [OF a reach part] show thesis
    by (rule that) (use served_looks [OF a assms(3)] b(2) in simp_all)
qed

lemma reference_run_last_step:
  assumes reach: "cluster_reachable (at_rest cl)" and h: "reference_history cluster_reconciler rk cl = obs @ [ob]"
    and "list_all looks obs"
  obtains s s' where "cluster_reachable s" "system_step cluster_kube cluster_env cluster_reconciler s s'"
    "quiet_move cl (sys_cluster s)" "quiet_move (sys_cluster s') (snd (reference_Reconcile cluster_reconciler rk cl))"
proof -
  have "served_run cl (obs @ [ob]) (snd (reference_Reconcile cluster_reconciler rk cl))"
    using reference_run_served [of cl rk] by (simp only: h)
  then obtain a b where a: "served_run cl obs a" and b: "served ob a b"
    "quiet_move b (snd (reference_Reconcile cluster_reconciler rk cl))" using served_last by blast
  have all: "begins (obs @ [ob]) (reference_history cluster_reconciler rk cl)" by (simp only: h begins_all)
  then have part: "begins obs (reference_history cluster_reconciler rk cl)" by (auto simp: begins_iff)
  let ?s = "(at_rest a)\<lparr>sys_reference_run := Some (rk, obs)\<rparr>"
  have "system_step cluster_kube cluster_env cluster_reconciler ?s
      (?s\<lparr>sys_cluster := b, sys_reference_run := Some (rk, obs @ [ob])\<rparr>)"
    by (rule system_step.reference_calls [OF _ all]) (simp_all add: b(1))
  with served_reference_reachable [OF a reach part] show thesis
    by (rule that) (use served_looks [OF a assms(3)] b(2) in simp_all)
qed

text \<open>The claim of the customer project in its first run, and its reference in its second.\<close>

definition waiting_cluster :: cluster where
  "waiting_cluster = claim_round sample_key (cluster_rounds 2 sample_key sample_reference_key ccs_cluster)"

definition only_last_acts :: "observation list \<Rightarrow> bool" where
  "only_last_acts obs \<longleftrightarrow> obs \<noteq> [] \<and> list_all looks (butlast obs)"

lemma first_claim_run:
  "only_last_acts (claim_history cluster_kube cluster_env sample_key ccs_cluster) \<and>
   map_option pc_State (cl_claims ccs_cluster sample_key) = Some '''' \<and>
   map_option pc_State (cl_claims (snd (claim_Reconcile cluster_kube cluster_env sample_key ccs_cluster)) sample_key) =
     Some ClaimStatusPending"
  by code_simp

lemma second_reference_run:
  "only_last_acts (reference_history cluster_reconciler sample_reference_key waiting_cluster) \<and>
   map_option pr_State (cl_references waiting_cluster sample_reference_key) = Some '''' \<and>
   map_option pr_State (cl_references (snd (reference_Reconcile cluster_reconciler sample_reference_key waiting_cluster))
     sample_reference_key) = Some ProjectReferenceStatusCreating"
  by code_simp

theorem stored_claim_states_move_witness:
  "\<exists>s s' c c'. cluster_reachable s \<and> system_step cluster_kube cluster_env cluster_reconciler s s' \<and>
    cl_claims (sys_cluster s) sample_key = Some c \<and> cl_claims (sys_cluster s') sample_key = Some c' \<and>
    pc_State c = '''' \<and> pc_State c' = ClaimStatusPending \<and> (claim_step (pc_State c) (pc_State c') \<or>
    pc_State c' = ClaimStatusReady \<and> ProjectClaimFinalizer \<in> set (om_Finalizers (pc_Meta c)))"
proof -
  let ?h = "claim_history cluster_kube cluster_env sample_key ccs_cluster"
  have h: "?h = butlast ?h @ [last ?h]" and looks: "list_all looks (butlast ?h)"
    using first_claim_run by (simp_all add: only_last_acts_def)
  from claim_run_last_step [OF reachable.start [OF fresh_ccs_cluster] h looks] obtain s s' where
    s: "cluster_reachable s" "system_step cluster_kube cluster_env cluster_reconciler s s'"
    and q: "quiet_move ccs_cluster (sys_cluster s)"
      "quiet_move (sys_cluster s') (snd (claim_Reconcile cluster_kube cluster_env sample_key ccs_cluster))" .
  obtain c c' where c: "cl_claims (sys_cluster s) sample_key = Some c" "pc_State c = ''''"
    "cl_claims (sys_cluster s') sample_key = Some c'" "pc_State c' = ClaimStatusPending"
    using first_claim_run q by (auto simp: quiet_move_def)
  from stored_claim_states_move [OF s(1) cluster_proper cluster_client_proper s(2) c(1,3)] s c show ?thesis by blast
qed

theorem stored_reference_states_move_witness:
  "\<exists>s s' r r'. cluster_reachable s \<and> system_step cluster_kube cluster_env cluster_reconciler s s' \<and>
    cl_references (sys_cluster s) sample_reference_key = Some r \<and>
    cl_references (sys_cluster s') sample_reference_key = Some r' \<and> pr_State r = '''' \<and> pr_State r' = ProjectReferenceStatusCreating \<and>
    (reference_step (pr_State r) (pr_State r') \<or> pr_State r' = ProjectReferenceStatusError \<and>
     om_DeletionTimestamp (pr_Meta r) = None \<and> ProjectReference_Validate r \<noteq> None)"
proof -
  let ?h = "reference_history cluster_reconciler sample_reference_key waiting_cluster"
  have reach: "cluster_reachable (at_rest waiting_cluster)"
    unfolding waiting_cluster_def
    by (intro claim_round_reachable rounds_reachable reachable.start [OF fresh_ccs_cluster])
  have h: "?h = butlast ?h @ [last ?h]" and looks: "list_all looks (butlast ?h)"
    using second_reference_run by (simp_all add: only_last_acts_def)
  from reference_run_last_step [OF reach h looks] obtain s s' where
    s: "cluster_reachable s" "system_step cluster_kube cluster_env cluster_reconciler s s'"
    and q: "quiet_move waiting_cluster (sys_cluster s)"
      "quiet_move (sys_cluster s') (snd (reference_Reconcile cluster_reconciler sample_reference_key waiting_cluster))" .
  obtain r r' where r: "cl_references (sys_cluster s) sample_reference_key = Some r" "pr_State r = ''''"
    "cl_references (sys_cluster s') sample_reference_key = Some r'" "pr_State r' = ProjectReferenceStatusCreating"
    using second_reference_run q by (auto simp: quiet_move_def)
  from stored_reference_states_move [OF s(1) cluster_proper cluster_client_proper s(2) r(1,3)] s r show ?thesis by blast
qed

end
