(* ===== verification/Spec2Isabelle.thy ===== *)
theory Spec2Isabelle
  imports Cleanup Duties GcpFacts HelperProperties IamService Manager Orphans Readiness Removal Retries Schema StateGraphs
begin

text \<open>
  The GCP project operator.

  \<^bold>\<open>The program.\<close>  The operator turns a \<^verbatim>\<open>ProjectClaim\<close>, which a tenant creates in its own namespace,
  into a project in Google Cloud.  Two controllers share the work.  The claim controller
  (\<^verbatim>\<open>controllers/projectclaim\<close>) validates the claim, creates a \<^verbatim>\<open>ProjectReference\<close> for it in the
  operator's namespace, links the two, guards the claim and a customer's credentials with
  finalizers, and moves the claim to PendingProject; for a claim being deleted it deletes the
  reference, waits until it is gone and releases the finalizers.  The reference controller
  (\<^verbatim>\<open>controllers/projectreference\<close>) picks a project ID and an account name, creates and configures
  the project, the billing link, the APIs, the service account with its IAM policy and the
  credentials secret, makes the reference Ready and then the claim; for a reference being deleted
  it undoes that.  A claim with \<^verbatim>\<open>ccs\<close> set brings its own project, which is configured but neither
  created nor deleted.  Both controllers run a list of operations, each of which lets the handler
  go on, stops it or asks to come back.  They meet in the objects on the API server only.

  \<^bold>\<open>The theories\<close>, in the order of their imports, with the files under src/ they model.

  \<^item> \<^verbatim>\<open>Prelude\<close>, \<^verbatim>\<open>GoStd\<close>: types and lemma collections; the functions of Go's library that the code
    calls (strings, base64, sha256 over machine words).
  \<^item> \<^verbatim>\<open>OpErrors\<close>: pkg/util/errors, and the error values of the client libraries.
  \<^item> \<^verbatim>\<open>ApiTypes\<close>: api/v1alpha1, one record for each struct, and \<^verbatim>\<open>Validate\<close>.
  \<^item> \<^verbatim>\<open>OperationResult\<close>: pkg/util/reconclile_operation.go; \<^verbatim>\<open>run_operations\<close> is the loop that both
    \<^verbatim>\<open>ReconcileHandler\<close>s have.
  \<^item> \<^verbatim>\<open>IamBinding\<close>, \<^verbatim>\<open>KubeClient\<close>: pkg/util/util.go and pkg/configmap/configmap.go; the interface of
    the API client and of the environment.
  \<^item> \<^verbatim>\<open>Conditions\<close>: pkg/condition/conditions.go.
  \<^item> \<^verbatim>\<open>GcpClient\<close>: pkg/gcpclient/client.go.
  \<^item> \<^verbatim>\<open>ClaimAdapter\<close>, \<^verbatim>\<open>ClaimController\<close>: projectclaimadapter.go; projectclaim_fake.go and
    projectclaim_controller.go.
  \<^item> \<^verbatim>\<open>ReferenceAdapter\<close>, \<^verbatim>\<open>ReferenceController\<close>: projectreference_adapter.go and
    projectreference_controller.go.
  \<^item> \<^verbatim>\<open>Manager\<close>: main.go and the two \<^verbatim>\<open>SetupWithManager\<close>.
  \<^item> \<^verbatim>\<open>Trace\<close>: clients that record their calls, so that what a run asks of the outside is a value.
    \<^verbatim>\<open>History\<close>: clients that also record what they answered and wrote of claims and references.
  \<^item> \<^verbatim>\<open>Cluster\<close>: an executable API server and Google Cloud in memory, on which hypotheses about clients
    are discharged, progress is proved and the system below runs.
  \<^item> \<^verbatim>\<open>ClaimFacts\<close>, \<^verbatim>\<open>ReferenceFacts\<close>, \<^verbatim>\<open>ReferenceProperties\<close>, \<^verbatim>\<open>ReconcileProperties\<close>, \<^verbatim>\<open>Duties\<close>,
    \<^verbatim>\<open>IamService\<close>, \<^verbatim>\<open>GcpFacts\<close>, \<^verbatim>\<open>HelperProperties\<close>, \<^verbatim>\<open>Quiescence\<close>, \<^verbatim>\<open>Retries\<close>: single runs, over any
    clients unless a theorem says otherwise.
  \<^item> \<^verbatim>\<open>Images\<close>, \<^verbatim>\<open>ReferenceImages\<close>, \<^verbatim>\<open>Erasure\<close>: worlds that answer alike cannot be told apart, shown for
    every operation of both controllers; recording calls therefore changes no run.
  \<^item> \<^verbatim>\<open>ClaimProtocol\<close>, \<^verbatim>\<open>ReferenceProtocol\<close>: a monitor for each controller, which says what it may do to
    claims and references given what it has seen, the object it read at the start and the last answer
    among it, and that every \<^verbatim>\<open>Reconcile\<close> keeps to it.
  \<^item> \<^verbatim>\<open>ClusterMoves\<close>, \<^verbatim>\<open>ClusterCalls\<close>, \<^verbatim>\<open>ServedCalls\<close>, \<^verbatim>\<open>System\<close>, \<^verbatim>\<open>SystemProperties\<close>: the two controllers
    and the tenants at work on one API server, and the invariants.  \<^verbatim>\<open>Rounds\<close>: runs without interference
    are behaviours of that system.  \<^verbatim>\<open>StateGraphs\<close>: the states that a run writes, and those that the
    objects on the server go through.
  \<^item> \<^verbatim>\<open>Progress\<close>, \<^verbatim>\<open>Provisioning\<close>, \<^verbatim>\<open>ReferenceProgress\<close>, \<^verbatim>\<open>Readiness\<close>, \<^verbatim>\<open>Removal\<close>, \<^verbatim>\<open>Cleanup\<close>,
    \<^verbatim>\<open>Orphans\<close>: what repeated rounds lead to.  \<^verbatim>\<open>Provisioning\<close> has the operations of the reference controller that succeed on
    the cloud of \<^verbatim>\<open>Cluster\<close>, \<^verbatim>\<open>ReferenceProgress\<close> the step that each run of it makes, and \<^verbatim>\<open>Readiness\<close> puts
    the two controllers together.
  \<^item> \<^verbatim>\<open>Memory\<close>, \<^verbatim>\<open>DeepCopy\<close>: zz_generated.deepcopy.go, over a memory of cells in which slices and pointers
    can share.
  \<^item> \<^verbatim>\<open>Schema\<close>: zz_generated.openapi.go, what its definitions say of a JSON value, and the JSON of the
    structs by the tags of their fields.

  \<^bold>\<open>State and effects.\<close>  An operation that touches the outside is a function from a state to a
  result and a state.  The outside is a type \<^verbatim>\<open>'w\<close>, the world, of which the model knows nothing: the
  API client (\<^verbatim>\<open>'w kube_client\<close>), the Google libraries (\<^verbatim>\<open>'w google_sdk\<close>), the clock, sleeping, random
  identifiers, the order of a range over a map and the YAML parser (\<^verbatim>\<open>'w environment\<close>) are records of
  functions that the definitions take as arguments.  A theorem that assumes nothing of them holds
  for any answers, failures and concurrent changes included, because the world may change
  arbitrarily in every call.  The adapter objects are \<^verbatim>\<open>'w claim_state\<close> and \<^verbatim>\<open>'w reference_state\<close>; a
  client call that fills in the object it was given (an update answers with the stored object)
  returns it, and the state is updated with it whether the call failed or not.  Errors are values
  of \<^verbatim>\<open>err\<close>; \<^verbatim>\<open>None\<close> is nil.  Logging is left out.

  \<^bold>\<open>Loops.\<close>  The two loops that change a policy and the loop that enables an API count their
  retries; they are functions with a termination measure, the retries left (3).  The wait for a key
  has four attempts and is structural.  There is no fuel in the model.  Repeated reconciliation is a
  power of a function; five rounds are enough for a claim to become PendingProject, because
  \<^verbatim>\<open>steps_left\<close> is at most five and each round lowers it, and two to remove a claim whose reference
  holds nothing.  Thirteen rounds of both controllers are enough for a claim to become Ready: five for
  its own steps and eight for those of the reference (its conditions, state, project ID, account name and
  finalizer, the provisioning, the zones and the claim's state); \<^verbatim>\<open>rounds_left\<close> counts them.  Two rounds are
  enough to remove a claim with all it has: the first asks for the deletion of the reference and cleans it up,
  the second releases the claim.  The depth
  at which references between OpenAPI definitions are followed is an argument of \<^verbatim>\<open>accepts\<close>; three is enough.

  \<^bold>\<open>The system.\<close>  A state of \<^verbatim>\<open>system_step\<close> is the API server and, for each controller, the calls that its
  present run has made.  A step is one call, answered by the server as it then is or failed with or
  without having taken effect; or the start of a run for any object; or the end of a run after any
  call, so that a crash is a step; or an act of a tenant; or a change of anything but claims and
  references.  The code enters through its runs: the calls of a run are those of \<^verbatim>\<open>Reconcile\<close> over a
  world that has answered so.  What is assumed: the client answers with objects of the
  name asked for and an update of a claim with the finalizers written (\<^verbatim>\<open>proper_answers\<close>); a read sees the present state of the server;
  each controller handles one request at a time, and there is one process; the server refuses an
  update with a stale version, keeps an object that has finalizers when it is deleted and gives each
  write a version never used; and tenants neither write the status of a claim, nor remove the
  operator's finalizer, nor touch references.  A stale cache in front of the server is not modelled.

  \<^bold>\<open>Interfaces.\<close>  Where one part relies on another there is a locale, interpreted on the model:
  \<^verbatim>\<open>condition_contract\<close> (the condition list as a finite map; met by \<^verbatim>\<open>NewConditionManager\<close>),
  \<^verbatim>\<open>reconcile_operations\<close> (operations that keep an invariant; met by the two lists of operations in
  \<^verbatim>\<open>Duties\<close>) and \<^verbatim>\<open>staged_operations\<close> (each operation establishes what the next one needs; met in
  \<^verbatim>\<open>ClaimProtocol\<close>), \<^verbatim>\<open>observed_client\<close> and \<^verbatim>\<open>observed_cloud\<close> (clients that record observations; met by
  the clients of \<^verbatim>\<open>History\<close>), \<^verbatim>\<open>client_image\<close>, \<^verbatim>\<open>cloud_image\<close> and \<^verbatim>\<open>reconciler_image\<close> (worlds that answer
  alike; met by the recording clients in \<^verbatim>\<open>Erasure\<close> and by the served ones in \<^verbatim>\<open>Rounds\<close>), \<^verbatim>\<open>iam_service\<close>
  and \<^verbatim>\<open>iam_policy_api\<close> with their \<^verbatim>\<open>quiet\<close> extensions (the IAM policy of a project; met by the reference
  cloud, and one through \<^verbatim>\<open>client_of\<close> by the other), \<^verbatim>\<open>billing_service\<close>, and \<^verbatim>\<open>deep_copy\<close> (a copy of the same
  value that shares nothing with the original; met by the copies of the custom resources and, as a
  hypothesis, by those of the metadata).

  \<^bold>\<open>What is shown.\<close>  Of the system: a reference that holds its finalizer has its claim, and a claim that
  is PendingProject or Ready is guarded; the states of both move along their graphs, whatever step comes
  next, but that a claim with its finalizer may become Ready from any state and a live reference that
  \<^verbatim>\<open>Validate\<close> rejects is marked Error in any.  Progress: a claim that nothing stands in the way of becomes
  PendingProject, each run being one step of \<^verbatim>\<open>advance\<close>, and then, with the cloud and the operator's
  configuration in place, Ready; a deleted claim whose reference holds nothing
  goes, and one whose reference is provisioned goes with all that was made for it; a reference whose claim is gone stays, and a finished reference is written again in every run.
  Tenancy: which secrets a run can touch, and the two cases of deletion in which a claim reaches a
  secret of another tenant.  Order: what guards provisioning, PendingProject and Ready, how a clean-up
  proceeds, that the claim's finalizer outlives its reference, and which states one run writes.
  What granting and revoking roles does to a policy, under conflicting writes too, and that conditional
  bindings lose their conditions.  Retries and their bounds, billing, keys, APIs, and the zones a claim is
  given, those of another region among them.  That claims whose namespace and name join to the same string
  share a reference, and the deletion of one deletes it for both.  Refinement of
  the condition list and of the policy edits by a map and a set.  That recording the calls of the
  controllers does not change their runs.  The duties of the controllers, from which it follows what
  neither of them ever does.  That deep copies are independent of what they were made from.  That the JSON of
  the structs is what the OpenAPI definitions describe, but for conditions that are nil, and what follows
  for an invalid reference.  The order in which the process starts and what stops it.

  \<^bold>\<open>What is not modelled.\<close>  Which events cause a request, and the work queue beyond the answer that the
  loop gives it; the registration of types with a scheme, mocks, the build tag that turns on FIPS, logging
  and metrics.  Custom resources have no type metadata outside \<^verbatim>\<open>DeepCopy\<close> and \<^verbatim>\<open>Schema\<close>, object metadata has
  the fields the code uses, a condition of an IAM binding is known by its text only.
\<close>

end
